(* ===== verification/Prelude.thy ===== *)
theory Prelude
  imports
    Complex_Main
    "HOL-Library.Word"
    "HOL-Library.Product_Lexorder"
    "HOL-Library.List_Lexorder"
    "HOL-Library.Char_ord"
    "HOL-Library.AList"
    "HOL-Library.Sublist"
begin

section \<open>Prelude\<close>

text \<open>
  What every component shares: the type of primary keys, tables as lists of rows with lookup and
  update by key, the order-preserving removal of duplicates that the services use before they
  build an SQL \<open>IN\<close> clause, the result of an \<open>ORDER BY ... LIMIT 1\<close> query, transactions over an
  SQLAlchemy session, and the lemmas about these that the component theories use.
\<close>

type_synonym uuid = "128 word"

named_theorems row_simps \<open>lookup, update and filtering of table rows\<close>
named_theorems session_simps \<open>commit, rollback and in-transaction updates of a session\<close>

subsection \<open>Tables\<close>

text \<open>
  A table is the list of its rows, in the order of insertion; \<open>key\<close> reads a row's primary key.
  \<open>find_row\<close> is \<open>session.get(Model, id)\<close>; \<open>upd_row\<close> is the assignment of attributes of the row
  with that key, which the session writes back.
\<close>

definition find_row :: "('r \<Rightarrow> 'k) \<Rightarrow> 'k \<Rightarrow> 'r list \<Rightarrow> 'r option" where
  "find_row key k rows = List.find (\<lambda>r. key r = k) rows"

definition upd_row :: "('r \<Rightarrow> 'k) \<Rightarrow> 'k \<Rightarrow> ('r \<Rightarrow> 'r) \<Rightarrow> 'r list \<Rightarrow> 'r list" where
  "upd_row key k f rows = map (\<lambda>r. if key r = k then f r else r) rows"

definition keys_of :: "('r \<Rightarrow> 'k) \<Rightarrow> 'r list \<Rightarrow> 'k set" where
  "keys_of key rows = key ` set rows"

lemma find_row_Nil [row_simps, simp]: "find_row key k [] = None"
  by (simp add: find_row_def)

lemma find_row_Cons [row_simps]:
  "find_row key k (r # rows) = (if key r = k then Some r else find_row key k rows)"
  by (simp add: find_row_def)

lemma find_row_append [row_simps]:
  "find_row key k (xs @ ys) =
     (case find_row key k xs of Some r \<Rightarrow> Some r | None \<Rightarrow> find_row key k ys)"
  by (induction xs) (simp_all add: find_row_Cons)

lemma find_row_Some_key: "find_row key k rows = Some r \<Longrightarrow> key r = k"
  by (auto simp: find_row_def find_Some_iff)

lemma find_row_Some_set: "find_row key k rows = Some r \<Longrightarrow> r \<in> set rows"
  by (auto simp: find_row_def find_Some_iff)

lemma find_row_None_iff: "find_row key k rows = None \<longleftrightarrow> k \<notin> key ` set rows"
  by (auto simp: find_row_def find_None_iff)

lemma find_row_keys: "find_row key k rows = Some r \<Longrightarrow> k \<in> keys_of key rows"
  by (auto simp: find_row_def find_Some_iff keys_of_def)

lemma keys_of_simps [row_simps, simp]:
  "keys_of key [] = {}" "keys_of key (x # xs) = insert (key x) (keys_of key xs)"
  "keys_of key (xs @ ys) = keys_of key xs \<union> keys_of key ys"
  by (auto simp: keys_of_def)

lemma find_row_distinct:
  "distinct (map key rows) \<Longrightarrow> r \<in> set rows \<Longrightarrow> find_row key (key r) rows = Some r"
  by (induction rows) (auto simp: find_row_Cons rev_image_eqI)

lemma find_upd_row:
  assumes "\<And>r. key (f r) = key r"
  shows "find_row key k' (upd_row key k f rows) =
    (if k' = k then map_option f (find_row key k rows) else find_row key k' rows)"
  by (induction rows) (auto simp: upd_row_def find_row_Cons assms)

lemma find_upd_row_same:
  "(\<And>r. key (f r) = key r) \<Longrightarrow>
    find_row key k (upd_row key k f rows) = map_option f (find_row key k rows)"
  by (simp add: find_upd_row)

lemma find_upd_row_other:
  "(\<And>r. key (f r) = key r) \<Longrightarrow> k' \<noteq> k \<Longrightarrow>
    find_row key k' (upd_row key k f rows) = find_row key k' rows"
  by (simp add: find_upd_row)

lemma upd_row_Nil [row_simps, simp]: "upd_row key k f [] = []"
  by (simp add: upd_row_def)

lemma upd_row_Cons [row_simps]:
  "upd_row key k f (r # rows) = (if key r = k then f r else r) # upd_row key k f rows"
  by (simp add: upd_row_def)

lemma upd_row_append [row_simps]:
  "upd_row key k f (xs @ ys) = upd_row key k f xs @ upd_row key k f ys"
  by (simp add: upd_row_def)

lemma length_upd_row [row_simps, simp]: "length (upd_row key k f rows) = length rows"
  by (simp add: upd_row_def)

lemma map_key_upd_row:
  "(\<And>r. key (f r) = key r) \<Longrightarrow> map key (upd_row key k f rows) = map key rows"
  by (auto simp: upd_row_def)

lemma upd_row_absent: "k \<notin> key ` set rows \<Longrightarrow> upd_row key k f rows = rows"
  by (induction rows) (auto simp: upd_row_Cons)

lemma upd_row_twice:
  "(\<And>r. key (f r) = key r) \<Longrightarrow>
    upd_row key k g (upd_row key k f rows) = upd_row key k (g \<circ> f) rows"
  by (auto simp: upd_row_def)

lemma upd_row_id: "(\<And>r. r \<in> set rows \<Longrightarrow> key r = k \<Longrightarrow> f r = r) \<Longrightarrow> upd_row key k f rows = rows"
  by (auto simp: upd_row_def intro: map_idI)

text \<open>A loop that updates selected rows one by one updates them all at once.\<close>

lemma fold_upd_row:
  assumes "\<And>r. key (f r) = key r" "distinct ks"
  shows "fold (\<lambda>k. upd_row key k f) ks rows = map (\<lambda>r. if key r \<in> set ks then f r else r) rows"
  using assms(2)
proof (induction ks arbitrary: rows)
  case Nil
  then show ?case by simp
next
  case (Cons k ks)
  have "fold (\<lambda>k. upd_row key k f) (k # ks) rows =
      map (\<lambda>r. if key r \<in> set ks then f r else r) (upd_row key k f rows)"
    using Cons by simp
  also have "\<dots> = map (\<lambda>r. if key r \<in> set (k # ks) then f r else r) rows"
    using Cons.prems by (auto simp: upd_row_def assms(1))
  finally show ?case .
qed

lemma find_map_row:
  "(\<And>r. key (f r) = key r) \<Longrightarrow> find_row key k (map f rows) = map_option f (find_row key k rows)"
  by (induction rows) (auto simp: find_row_Cons)

lemma map_upd_row_frame:
  "(\<And>r. g (f r) = g r) \<Longrightarrow> map g (upd_row key k f rows) = map g rows"
  by (auto simp: upd_row_def)

subsection \<open>Ordered queries\<close>

text \<open>
  \<open>first_by key rows\<close> is the first row of \<open>SELECT ... ORDER BY key\<close>; a descending column is
  negated in the key.
\<close>

definition first_by :: "('r \<Rightarrow> 'k :: linorder) \<Rightarrow> 'r list \<Rightarrow> 'r option" where
  "first_by key rows = (case sort_key key rows of [] \<Rightarrow> None | r # _ \<Rightarrow> Some r)"

lemma first_by_None_iff [simp]: "first_by key rows = None \<longleftrightarrow> rows = []"
proof -
  have "sort_key key rows = [] \<longleftrightarrow> rows = []"
    by (metis length_0_conv length_sort)
  then show ?thesis
    by (cases "sort_key key rows") (auto simp: first_by_def)
qed

lemma first_by_Nil [simp]: "first_by key [] = None"
  by simp

lemma first_by_Some:
  assumes "first_by key rows = Some r"
  shows "r \<in> set rows" and "\<forall>x \<in> set rows. key r \<le> key x"
proof -
  from assms obtain rs where rs: "sort_key key rows = r # rs"
    by (auto simp: first_by_def split: list.splits)
  have set_eq: "set (r # rs) = set rows"
    using rs by (metis set_sort)
  then show "r \<in> set rows" by auto
  have "sorted (map key (r # rs))"
    using rs by (metis sorted_sort_key)
  then have "\<forall>x \<in> set rs. key r \<le> key x" by auto
  then show "\<forall>x \<in> set rows. key r \<le> key x"
    using set_eq by auto
qed

lemma first_by_exists: "rows \<noteq> [] \<Longrightarrow> \<exists>r. first_by key rows = Some r"
  by (metis first_by_None_iff not_None_eq)

subsection \<open>Order-preserving removal of duplicates\<close>

text \<open>
  \<open>_dedupe_uuids\<close> (scheduler.py, control\_plane/service.py, asset\_compiler/service.py): a loop over
  \<open>values\<close> that keeps the set \<open>seen\<close> and the result \<open>deduped\<close>.
\<close>

fun dedupe_loop :: "'a list \<Rightarrow> 'a list \<Rightarrow> 'a list \<Rightarrow> 'a list" where
  "dedupe_loop [] seen deduped = deduped"
| "dedupe_loop (v # vs) seen deduped =
     (if v \<in> set seen then dedupe_loop vs seen deduped
      else dedupe_loop vs (v # seen) (deduped @ [v]))"

definition dedupe_uuids :: "'a list \<Rightarrow> 'a list" where
  "dedupe_uuids values = dedupe_loop values [] []"

lemma dedupe_loop_spec:
  assumes "set seen = set deduped" "distinct deduped"
  shows "set (dedupe_loop vs seen deduped) = set deduped \<union> set vs \<and>
    distinct (dedupe_loop vs seen deduped) \<and> prefix deduped (dedupe_loop vs seen deduped)"
  using assms
proof (induction vs arbitrary: seen deduped)
  case Nil
  then show ?case by simp
next
  case (Cons v vs)
  show ?case
  proof (cases "v \<in> set seen")
    case True
    with Cons show ?thesis by auto
  next
    case False
    with Cons.prems have "set (v # seen) = set (deduped @ [v])" "distinct (deduped @ [v])"
      by auto
    from Cons.IH [OF this] False show ?thesis
      by (auto dest: append_prefixD)
  qed
qed

lemma set_dedupe [simp]: "set (dedupe_uuids vs) = set vs"
  by (simp add: dedupe_uuids_def dedupe_loop_spec)

lemma distinct_dedupe [simp]: "distinct (dedupe_uuids vs)"
  by (simp add: dedupe_uuids_def dedupe_loop_spec)

lemma dedupe_Nil_iff [simp]: "dedupe_uuids vs = [] \<longleftrightarrow> vs = []"
  using set_dedupe [of vs] by (metis set_empty)

lemma dedupe_loop_subseq:
  "subseq (dedupe_loop vs seen deduped) (deduped @ vs)"
proof (induction vs arbitrary: seen deduped)
  case Nil
  then show ?case by simp
next
  case (Cons v vs)
  show ?case
  proof (cases "v \<in> set seen")
    case True
    have "subseq (deduped @ vs) (deduped @ v # vs)"
      by (rule list_emb_append_mono) auto
    with Cons.IH [of seen deduped] True show ?thesis
      by (metis dedupe_loop.simps(2) subseq_order.trans)
  next
    case False
    with Cons.IH [of "v # seen" "deduped @ [v]"] show ?thesis by simp
  qed
qed

lemma dedupe_subseq: "subseq (dedupe_uuids vs) vs"
  using dedupe_loop_subseq [of vs "[]" "[]"] by (simp add: dedupe_uuids_def)

lemma dedupe_distinct_id: "distinct vs \<Longrightarrow> dedupe_uuids vs = vs"
proof -
  assume d: "distinct vs"
  have "length (dedupe_uuids vs) = length vs"
    using d by (metis distinct_card distinct_dedupe set_dedupe)
  with dedupe_subseq [of vs] show ?thesis
    by (metis subseq_same_length)
qed

subsection \<open>Sessions\<close>

text \<open>
  An SQLAlchemy session: the state other sessions see and the state this transaction has built.
  \<open>flush\<close> writes inside the transaction and changes neither; a caught exception after which the
  code does not roll back leaves \<open>working\<close> as it was.
\<close>

record 'd session =
  committed :: 'd
  working :: 'd

definition commit :: "'d session \<Rightarrow> 'd session" where
  "commit s = s\<lparr>committed := working s\<rparr>"

definition rollback :: "'d session \<Rightarrow> 'd session" where
  "rollback s = s\<lparr>working := committed s\<rparr>"

definition modify :: "('d \<Rightarrow> 'd) \<Rightarrow> 'd session \<Rightarrow> 'd session" where
  "modify f s = s\<lparr>working := f (working s)\<rparr>"

definition clean :: "'d session \<Rightarrow> bool" where
  "clean s \<longleftrightarrow> working s = committed s"

text \<open>A new session on a database.\<close>

definition open_session :: "'d \<Rightarrow> 'd session" where
  "open_session d = \<lparr>committed = d, working = d\<rparr>"

lemma open_session_simps [session_simps, simp]:
  "working (open_session d) = d" "committed (open_session d) = d" "clean (open_session d)"
  by (simp_all add: open_session_def clean_def)

lemma working_commit [session_simps, simp]: "working (commit s) = working s"
  and committed_commit [session_simps, simp]: "committed (commit s) = working s"
  by (simp_all add: commit_def)

lemma working_rollback [session_simps, simp]: "working (rollback s) = committed s"
  and committed_rollback [session_simps, simp]: "committed (rollback s) = committed s"
  by (simp_all add: rollback_def)

lemma working_modify [session_simps, simp]: "working (modify f s) = f (working s)"
  and committed_modify [session_simps, simp]: "committed (modify f s) = committed s"
  by (simp_all add: modify_def)

lemma clean_commit [session_simps, simp]: "clean (commit s)"
  and clean_rollback [session_simps, simp]: "clean (rollback s)"
  by (simp_all add: clean_def)

lemma modify_modify [session_simps, simp]: "modify g (modify f s) = modify (g \<circ> f) s"
  by (simp add: modify_def)

subsection \<open>Small idioms of the code\<close>

text \<open>\<open>x or y\<close> where \<open>x\<close> may be \<open>None\<close> (and is truthy otherwise).\<close>

definition py_or :: "'a option \<Rightarrow> 'a \<Rightarrow> 'a" where
  "py_or x y = (case x of None \<Rightarrow> y | Some v \<Rightarrow> v)"

lemma py_or_simps [simp]: "py_or None y = y" "py_or (Some v) y = v"
  by (simp_all add: py_or_def)

end
