(* ===== verification/PyText.thy ===== *)
theory PyText
  imports Prelude
begin

section \<open>Python text\<close>

text \<open>
  A Python \<open>str\<close> is the list of the bytes of its UTF-8 encoding, so containment, prefixes and the
  order of code points are those of the byte lists. \<open>str.strip()\<close> and \<open>str.split()\<close> know every
  Unicode space by its encoding; \<open>str.lower()\<close> is modelled on the ASCII letters (the code lowers
  status names, module names and error messages), \<open>int()\<close> on ASCII digits.
\<close>

subsection \<open>White space\<close>

definition py_spaces :: "string list" where
  "py_spaces =
     [[CHR 0x20], [CHR 0x09], [CHR 0x0A], [CHR 0x0B], [CHR 0x0C], [CHR 0x0D],
      [CHR 0x1C], [CHR 0x1D], [CHR 0x1E], [CHR 0x1F],
      [CHR 0xC2, CHR 0x85], [CHR 0xC2, CHR 0xA0], [CHR 0xE1, CHR 0x9A, CHR 0x80],
      [CHR 0xE2, CHR 0x80, CHR 0x80], [CHR 0xE2, CHR 0x80, CHR 0x81],
      [CHR 0xE2, CHR 0x80, CHR 0x82], [CHR 0xE2, CHR 0x80, CHR 0x83],
      [CHR 0xE2, CHR 0x80, CHR 0x84], [CHR 0xE2, CHR 0x80, CHR 0x85],
      [CHR 0xE2, CHR 0x80, CHR 0x86], [CHR 0xE2, CHR 0x80, CHR 0x87],
      [CHR 0xE2, CHR 0x80, CHR 0x88], [CHR 0xE2, CHR 0x80, CHR 0x89],
      [CHR 0xE2, CHR 0x80, CHR 0x8A], [CHR 0xE2, CHR 0x80, CHR 0xA8],
      [CHR 0xE2, CHR 0x80, CHR 0xA9], [CHR 0xE2, CHR 0x80, CHR 0xAF],
      [CHR 0xE2, CHR 0x81, CHR 0x9F], [CHR 0xE3, CHR 0x80, CHR 0x80]]"

function drop_spaces :: "string list \<Rightarrow> string \<Rightarrow> string" where
  "drop_spaces ws s =
     (case List.find (\<lambda>w. w \<noteq> [] \<and> prefix w s) ws of
        None \<Rightarrow> s
      | Some w \<Rightarrow> drop_spaces ws (drop (length w) s))"
  by pat_completeness auto
termination
proof (relation "measure (\<lambda>(ws, s). length s)", goal_cases)
  case (2 ws s w)
  then have "w \<noteq> []" "prefix w s" by (auto simp: find_Some_iff)
  then show ?case by (cases s) auto
qed simp

declare drop_spaces.simps [simp del]

definition strip :: "string \<Rightarrow> string" where
  "strip s = rev (drop_spaces (map rev py_spaces) (rev (drop_spaces py_spaces s)))"

definition starts_with_any :: "string list \<Rightarrow> string \<Rightarrow> bool" where
  "starts_with_any ws s \<longleftrightarrow> (\<exists>w \<in> set ws. w \<noteq> [] \<and> prefix w s)"

lemma drop_spaces_id: "\<not> starts_with_any ws s \<Longrightarrow> drop_spaces ws s = s"
proof -
  assume "\<not> starts_with_any ws s"
  then have "List.find (\<lambda>w. w \<noteq> [] \<and> prefix w s) ws = None"
    by (auto simp: find_None_iff starts_with_any_def)
  then show ?thesis by (subst drop_spaces.simps) simp
qed

lemma drop_spaces_done: "\<not> starts_with_any ws (drop_spaces ws s)"
proof (induction ws s rule: drop_spaces.induct)
  case (1 ws s)
  show ?case
  proof (cases "List.find (\<lambda>w. w \<noteq> [] \<and> prefix w s) ws")
    case None
    then have "\<not> starts_with_any ws s"
      by (auto simp: find_None_iff starts_with_any_def)
    then show ?thesis by (simp add: drop_spaces_id)
  next
    case (Some w)
    with "1.IH" [OF Some] show ?thesis by (subst drop_spaces.simps) simp
  qed
qed

lemma drop_spaces_suffix: "suffix (drop_spaces ws s) s"
proof (induction ws s rule: drop_spaces.induct)
  case (1 ws s)
  show ?case
  proof (cases "List.find (\<lambda>w. w \<noteq> [] \<and> prefix w s) ws")
    case None
    then show ?thesis by (subst drop_spaces.simps) simp
  next
    case (Some w)
    from "1.IH" [OF Some] have "suffix (drop_spaces ws (drop (length w) s)) s"
      by (meson suffix_drop suffix_order.trans)
    with Some show ?thesis by (subst drop_spaces.simps) simp
  qed
qed

lemma set_drop_spaces: "set (drop_spaces ws s) \<subseteq> set s"
  by (meson drop_spaces_suffix set_mono_suffix)

lemma set_strip: "set (strip s) \<subseteq> set s"
proof -
  have "set (strip s) \<subseteq> set (drop_spaces py_spaces s)"
    using set_drop_spaces [of "map rev py_spaces" "rev (drop_spaces py_spaces s)"]
    by (simp add: strip_def)
  then show ?thesis using set_drop_spaces [of py_spaces s] by auto
qed

lemma strip_Nil [simp]: "strip [] = []"
  using set_strip [of "[]"] by simp

text \<open>\<open>strip\<close> is idempotent: what it returns has no space at either end.\<close>

lemma strip_strip [simp]: "strip (strip s) = strip s"
proof -
  let ?l = "drop_spaces py_spaces s" and ?ws = "map rev py_spaces"
  have "suffix (drop_spaces ?ws (rev ?l)) (rev ?l)" by (rule drop_spaces_suffix)
  then have pre: "prefix (strip s) ?l"
    unfolding strip_def by (simp add: suffix_to_prefix)
  have "\<not> starts_with_any py_spaces ?l" by (rule drop_spaces_done)
  with pre have "\<not> starts_with_any py_spaces (strip s)"
    unfolding starts_with_any_def by (meson prefix_order.trans)
  then have "drop_spaces py_spaces (strip s) = strip s" by (rule drop_spaces_id)
  moreover have "drop_spaces ?ws (rev (strip s)) = rev (strip s)"
    unfolding strip_def by (simp add: drop_spaces_id drop_spaces_done)
  ultimately show ?thesis
    by (simp add: strip_def [of "strip s"])
qed

definition space_bytes :: "char list" where
  "space_bytes = concat py_spaces"

lemma strip_plain:
  assumes "set s \<inter> set space_bytes = {}"
  shows "strip s = s"
proof -
  have *: "\<not> starts_with_any ws t" if "set t = set s" "\<forall>w \<in> set ws. set w \<subseteq> set space_bytes" for ws t
  proof
    assume "starts_with_any ws t"
    then obtain w where w: "w \<in> set ws" "w \<noteq> []" "prefix w t"
      by (auto simp: starts_with_any_def)
    then have "set w \<subseteq> set s" using that(1) by (metis set_mono_prefix)
    moreover have "set w \<subseteq> set space_bytes" using that(2) w(1) by blast
    moreover obtain c where "c \<in> set w" using w(2) by (cases w) auto
    ultimately show False using assms by blast
  qed
  have l: "drop_spaces py_spaces s = s"
    by (rule drop_spaces_id, rule *) (auto simp: space_bytes_def)
  have "drop_spaces (map rev py_spaces) (rev s) = rev s"
    by (rule drop_spaces_id, rule *) (auto simp: space_bytes_def)
  with l show ?thesis by (simp add: strip_def)
qed

text \<open>Printing ASCII characters other than the space.\<close>

definition graphic :: "char \<Rightarrow> bool" where
  "graphic c \<longleftrightarrow> 33 \<le> (of_char c :: nat) \<and> (of_char c :: nat) \<le> 126"

lemma space_bytes_not_graphic: "c \<in> set space_bytes \<Longrightarrow> \<not> graphic c"
  by (auto simp: space_bytes_def py_spaces_def graphic_def)

lemma strip_graphic: "\<forall>c \<in> set s. graphic c \<Longrightarrow> strip s = s"
  using space_bytes_not_graphic by (intro strip_plain) blast

subsection \<open>Splitting at white space\<close>

text \<open>\<open>s.split()\<close>: the maximal words without a space.\<close>

fun span_word :: "string \<Rightarrow> string \<times> string" where
  "span_word [] = ([], [])"
| "span_word (c # cs) =
     (if starts_with_any py_spaces (c # cs) then ([], c # cs)
      else (c # fst (span_word cs), snd (span_word cs)))"

lemma length_span_word: "length (snd (span_word s)) \<le> length s"
  by (induction s rule: span_word.induct) auto

function py_split :: "string \<Rightarrow> string list" where
  "py_split s =
     (let t = drop_spaces py_spaces s
      in if t = [] then [] else fst (span_word t) # py_split (snd (span_word t)))"
  by pat_completeness auto
termination
proof (relation "measure length", goal_cases)
  case (2 s t)
  from 2(2) obtain c cs where t: "t = c # cs" by (meson neq_Nil_conv)
  have "\<not> starts_with_any py_spaces t" using 2(1) drop_spaces_done by simp
  then have "length (snd (span_word t)) < length t"
    using t length_span_word [of cs] by simp
  moreover have "length t \<le> length s"
    using 2(1) drop_spaces_suffix suffix_length_le by blast
  ultimately show ?case by simp
qed simp

declare py_split.simps [simp del]

subsection \<open>Case, containment, removal\<close>

definition ascii_lower :: "char \<Rightarrow> char" where
  "ascii_lower c =
     (let n = (of_char c :: nat) in if 65 \<le> n \<and> n \<le> 90 then char_of (n + 32) else c)"

definition lower :: "string \<Rightarrow> string" where
  "lower s = map ascii_lower s"

lemma ascii_lower_idem [simp]: "ascii_lower (ascii_lower c) = ascii_lower c"
  by (simp add: ascii_lower_def Let_def)

lemma lower_lower [simp]: "lower (lower s) = lower s"
  by (simp add: lower_def)

text \<open>\<open>sub in s\<close> is the library's \<open>sublist sub s\<close>; \<open>s.replace(sub, "")\<close> removes the occurrences of
  \<open>sub\<close> from left to right.\<close>

fun py_remove :: "string \<Rightarrow> nat \<Rightarrow> string \<Rightarrow> string" where
  "py_remove sub skip [] = []"
| "py_remove sub (Suc n) (c # cs) = py_remove sub n cs"
| "py_remove sub 0 (c # cs) =
     (if sub \<noteq> [] \<and> prefix sub (c # cs) then py_remove sub (length sub - 1) cs
      else c # py_remove sub 0 cs)"

lemma py_remove_absent: "c \<in> set sub \<Longrightarrow> c \<notin> set s \<Longrightarrow> py_remove sub 0 s = s"
proof (induction s)
  case Nil
  then show ?case by simp
next
  case (Cons x s)
  then have "\<not> prefix sub (x # s)" by (meson set_mono_prefix subsetD)
  with Cons show ?case by simp
qed

lemma py_remove_char: "py_remove [c] 0 s = filter (\<lambda>x. x \<noteq> c) s"
  by (induction s) auto

subsection \<open>Integers as text\<close>

definition digit_char :: "nat \<Rightarrow> char" where
  "digit_char n = (if n < 10 then char_of (48 + n) else char_of (87 + n))"

definition digit_value :: "char \<Rightarrow> nat option" where
  "digit_value c =
     (let n = (of_char c :: nat) in
      if 48 \<le> n \<and> n \<le> 57 then Some (n - 48)
      else if 97 \<le> n \<and> n \<le> 102 then Some (n - 87)
      else if 65 \<le> n \<and> n \<le> 70 then Some (n - 55)
      else None)"

lemma digit_value_char [simp]: "n < 16 \<Longrightarrow> digit_value (digit_char n) = Some n"
  by (simp add: digit_value_def digit_char_def Let_def)

lemma digit_char_not_punct:
  "n < 16 \<Longrightarrow> digit_char n \<notin> {CHR ''-'', CHR ''_'', CHR ''{'', CHR ''}'', CHR ''u'', CHR '':''}"
  by (auto simp: digit_char_def dest: arg_cong [where f = "of_char :: char \<Rightarrow> nat"])

lemma digit_char_graphic [simp]: "n < 16 \<Longrightarrow> graphic (digit_char n)"
  by (simp add: graphic_def digit_char_def)

fun nat_digits :: "nat \<Rightarrow> string" where
  "nat_digits n = (if n < 10 then [digit_char n] else nat_digits (n div 10) @ [digit_char (n mod 10)])"

declare nat_digits.simps [simp del]

definition int_str :: "int \<Rightarrow> string" where
  "int_str i = (if i < 0 then CHR ''-'' # nat_digits (nat (- i)) else nat_digits (nat i))"

text \<open>Digits in base \<open>b\<close>, single underscores allowed between two digits, as \<open>int()\<close> reads them.\<close>

fun read_digits :: "nat \<Rightarrow> nat \<Rightarrow> bool \<Rightarrow> string \<Rightarrow> nat option" where
  "read_digits b acc after_digit [] = (if after_digit then Some acc else None)"
| "read_digits b acc after_digit (c # cs) =
     (if c = CHR ''_'' then (if after_digit then read_digits b acc False cs else None)
      else case digit_value c of
             None \<Rightarrow> None
           | Some d \<Rightarrow> if d < b then read_digits b (b * acc + d) True cs else None)"

definition split_sign :: "string \<Rightarrow> bool \<times> string" where
  "split_sign s =
     (case s of
        c # cs \<Rightarrow> if c = CHR ''-'' then (True, cs) else if c = CHR ''+'' then (False, cs) else (False, s)
      | [] \<Rightarrow> (False, s))"

definition signed :: "bool \<Rightarrow> nat \<Rightarrow> int" where
  "signed neg n = (if neg then - int n else int n)"

text \<open>\<open>int(s)\<close>, \<open>None\<close> for its \<open>ValueError\<close>.\<close>

definition py_int :: "string \<Rightarrow> int option" where
  "py_int s = (let (neg, t) = split_sign (strip s) in map_option (signed neg) (read_digits 10 0 False t))"

text \<open>\<open>int(s, 16)\<close>: an optional \<open>0x\<close> (with an optional underscore after it) before the digits.\<close>

definition py_int16 :: "string \<Rightarrow> int option" where
  "py_int16 s =
     (let (neg, t) = split_sign (strip s);
          u = (if prefix ''0x'' t \<or> prefix ''0X'' t
               then (if prefix ''_'' (drop 2 t) then drop 3 t else drop 2 t) else t)
      in map_option (signed neg) (read_digits 16 0 False u))"

end
