(* ===== verification/PyFloat.thy ===== *)
theory PyFloat
  imports PyText
begin

section \<open>Python floats\<close>

text \<open>
  A Python \<open>float\<close> is the rational number it stands for. \<open>fl x\<close> is the double nearest to \<open>x\<close>,
  ties to even, for results in the normal range (the code computes ratios, durations and scores
  between 0 and some millions, far from overflow and from the subnormal numbers).
\<close>

fun bit_count :: "nat \<Rightarrow> nat" where
  "bit_count n = (if n = 0 then 0 else Suc (bit_count (n div 2)))"

declare bit_count.simps [simp del]

definition round_half_even :: "rat \<Rightarrow> int" where
  "round_half_even x =
     (let f = \<lfloor>x\<rfloor>; r = x - of_int f in
      if r < 1 / 2 then f
      else if 1 / 2 < r then f + 1
      else if even f then f else f + 1)"

definition pow2 :: "int \<Rightarrow> rat" where
  "pow2 e = (if 0 \<le> e then 2 ^ nat e else 1 / 2 ^ nat (- e))"

text \<open>The exponent \<open>e\<close> with \<open>2^52 \<le> x / 2^e < 2^53\<close>, from the lengths of numerator and denominator.\<close>

definition fl_exponent :: "nat \<Rightarrow> nat \<Rightarrow> int" where
  "fl_exponent p q =
     (let e = int (bit_count p) - int (bit_count q) - 53 in
      if rat_of_nat p / rat_of_nat q < 2 ^ 52 * pow2 e then e - 1
      else if 2 ^ 53 * pow2 e \<le> rat_of_nat p / rat_of_nat q then e + 1 else e)"

definition fl_pos :: "nat \<Rightarrow> nat \<Rightarrow> rat" where
  "fl_pos p q =
     (let e = fl_exponent p q in
      of_int (round_half_even (rat_of_nat p / rat_of_nat q / pow2 e)) * pow2 e)"

definition fl :: "rat \<Rightarrow> rat" where
  "fl x =
     (let (p, q) = quotient_of \<bar>x\<bar>; y = fl_pos (nat p) (nat q)
      in if x = 0 then 0 else if 0 < x then y else - y)"

text \<open>\<open>int(x)\<close>: truncation toward zero.\<close>

definition py_trunc :: "rat \<Rightarrow> int" where
  "py_trunc x = (if 0 \<le> x then \<lfloor>x\<rfloor> else - \<lfloor>- x\<rfloor>)"

lemma pow2_pos [simp]: "0 < pow2 e"
  by (simp add: pow2_def)

lemma round_half_even_of_int [simp]: "round_half_even (of_int i) = i"
  by (simp add: round_half_even_def Let_def)

lemma round_half_even_mono: "x \<le> y \<Longrightarrow> round_half_even x \<le> round_half_even y"
proof -
  assume xy: "x \<le> y"
  have fx: "of_int \<lfloor>x\<rfloor> \<le> x" "x < of_int \<lfloor>x\<rfloor> + 1" and fy: "of_int \<lfloor>y\<rfloor> \<le> y" "y < of_int \<lfloor>y\<rfloor> + 1"
    using floor_correct [of x] floor_correct [of y] by simp_all
  have "\<lfloor>x\<rfloor> \<le> \<lfloor>y\<rfloor>" using xy by (rule floor_mono)
  then consider "\<lfloor>x\<rfloor> = \<lfloor>y\<rfloor>" | "\<lfloor>x\<rfloor> + 1 \<le> \<lfloor>y\<rfloor>" by linarith
  then show ?thesis
  proof cases
    case 1
    then show ?thesis using xy by (auto simp: round_half_even_def Let_def)
  next
    case 2
    then show ?thesis by (auto simp: round_half_even_def Let_def)
  qed
qed

lemma round_half_even_nonneg: "0 \<le> x \<Longrightarrow> 0 \<le> round_half_even x"
  using round_half_even_mono [of 0 x] round_half_even_of_int [of 0] by simp

lemma fl_0 [simp]: "fl 0 = 0"
  by (simp add: fl_def Let_def case_prod_beta)

lemma fl_nonneg: "0 \<le> x \<Longrightarrow> 0 \<le> fl x"
proof -
  assume "0 \<le> x"
  have "0 \<le> fl_pos p q" for p q
    by (auto simp: fl_pos_def Let_def less_imp_le intro!: mult_nonneg_nonneg round_half_even_nonneg)
  then show ?thesis using \<open>0 \<le> x\<close> by (simp add: fl_def Let_def case_prod_beta)
qed

subsection \<open>Rounding is monotone and exact on small integers\<close>

lemma bit_count_bounds: "0 < n \<Longrightarrow> 2 ^ (bit_count n - 1) \<le> n \<and> n < 2 ^ bit_count n"
proof (induction n rule: bit_count.induct)
  case (1 n)
  show ?case
  proof (cases "n div 2 = 0")
    case True
    then have "n = 1" using 1(2) by simp
    then show ?thesis by (simp add: bit_count.simps)
  next
    case False
    then have ih: "2 ^ (bit_count (n div 2) - 1) \<le> n div 2" "n div 2 < 2 ^ bit_count (n div 2)"
      using 1 by auto
    have b: "bit_count n = Suc (bit_count (n div 2))" using 1(2) by (simp add: bit_count.simps [of n])
    have "bit_count (n div 2) \<noteq> 0" using False by (simp add: bit_count.simps [of "n div 2"])
    then obtain k where k: "bit_count (n div 2) = Suc k" by (cases "bit_count (n div 2)") auto
    have d: "2 * (n div 2) \<le> n" "n < 2 * (n div 2) + 2" by simp_all
    have t: "2 ^ k \<le> n div 2" "n div 2 < 2 * 2 ^ k" using ih unfolding k by simp_all
    have "2 * 2 ^ k \<le> n" "n < 2 * (2 * 2 ^ k)" using d t by linarith+
    then show ?thesis unfolding b k by simp
  qed
qed

lemma pow2_add: "pow2 (a + b) = pow2 a * pow2 b"
proof -
  have powi: "pow2 e = 2 powi e" for e
    by (simp add: pow2_def power_int_def inverse_eq_divide power_one_over)
  show ?thesis by (simp add: powi power_int_add)
qed

lemma pow2_nat [simp]: "pow2 (int n) = 2 ^ n"
  by (simp add: pow2_def)

lemma pow2_nonneg [simp]: "0 \<le> pow2 e"
  by (rule less_imp_le) simp

lemma pow2_mono: "a \<le> b \<Longrightarrow> pow2 a \<le> pow2 b"
proof -
  assume "a \<le> b"
  then have "pow2 b = pow2 a * 2 ^ nat (b - a)"
    using pow2_add [of a "b - a"] by (simp add: pow2_def [of "b - a"])
  then show ?thesis by simp
qed

lemma fl_exponent_bounds:
  assumes "0 < p" "0 < q"
  shows "2 ^ 52 * pow2 (fl_exponent p q) \<le> rat_of_nat p / rat_of_nat q"
    and "rat_of_nat p / rat_of_nat q < 2 ^ 53 * pow2 (fl_exponent p q)"
proof -
  let ?bp = "bit_count p" and ?bq = "bit_count q"
  let ?e = "int ?bp - int ?bq - 53"
  let ?x = "rat_of_nat p / rat_of_nat q"
  have nz: "0 < ?bp" "0 < ?bq" using assms by (simp_all add: bit_count.simps)
  have p: "2 ^ (?bp - 1) \<le> p" "p < 2 ^ ?bp" and q: "2 ^ (?bq - 1) \<le> q" "q < 2 ^ ?bq"
    using bit_count_bounds [OF assms(1)] bit_count_bounds [OF assms(2)] by auto
  have q2: "q \<le> 2 ^ ?bq" using q(2) by simp
  have p': "pow2 (int ?bp - 1) \<le> rat_of_nat p" "rat_of_nat p < pow2 (int ?bp)"
    using p nz(1) of_nat_le_iff [of "2 ^ (?bp - 1)" p, where 'a = rat] of_nat_less_iff [of p "2 ^ ?bp", where 'a = rat]
      pow2_nat [of "?bp - 1"] by (simp_all add: of_nat_diff)
  have q': "pow2 (int ?bq - 1) \<le> rat_of_nat q" "rat_of_nat q \<le> pow2 (int ?bq)"
    using q(1) q2 nz(2) of_nat_le_iff [of "2 ^ (?bq - 1)" q, where 'a = rat] of_nat_le_iff [of q "2 ^ ?bq", where 'a = rat]
      pow2_nat [of "?bq - 1"] by (simp_all add: of_nat_diff)
  have qpos: "0 < rat_of_nat q" using assms(2) by simp
  have low: "2 ^ 52 * pow2 ?e \<le> ?x"
  proof -
    have "2 ^ 52 * pow2 ?e * rat_of_nat q \<le> 2 ^ 52 * pow2 ?e * pow2 (int ?bq)"
      using q'(2) by (intro mult_left_mono) simp_all
    also have "\<dots> = pow2 (int ?bp - 1)"
      using pow2_add [of "?e + 52" "int ?bq"] pow2_add [of ?e 52] pow2_nat [of 52] by (simp add: algebra_simps)
    also have "\<dots> \<le> rat_of_nat p" by (rule p'(1))
    finally show ?thesis using qpos by (simp add: pos_le_divide_eq)
  qed
  have high: "?x < 2 ^ 53 * pow2 (?e + 1)"
  proof -
    have "rat_of_nat p < pow2 (int ?bp)" by (rule p'(2))
    also have "\<dots> = 2 ^ 53 * pow2 (?e + 1) * pow2 (int ?bq - 1)"
      using pow2_add [of "?e + 54" "int ?bq - 1"] pow2_add [of "?e + 1" 53] pow2_nat [of 53] by (simp add: algebra_simps)
    also have "\<dots> \<le> 2 ^ 53 * pow2 (?e + 1) * rat_of_nat q"
      using q'(1) by (intro mult_left_mono) simp_all
    finally show ?thesis using qpos by (simp add: pos_divide_less_eq)
  qed
  show "2 ^ 52 * pow2 (fl_exponent p q) \<le> ?x" "?x < 2 ^ 53 * pow2 (fl_exponent p q)"
    using low high pow2_add [of ?e 1] pow2_nat [of 1] by (auto simp: fl_exponent_def Let_def)
qed

lemma pow2_Suc: "pow2 (e + 1) = 2 * pow2 e"
  using pow2_add [of e 1] pow2_nat [of 1] by simp

lemma fl_pos_cases:
  assumes "0 < x"
  obtains e where "2 ^ 52 * pow2 e \<le> x" "x < 2 ^ 53 * pow2 e"
    "fl x = of_int (round_half_even (x / pow2 e)) * pow2 e"
proof -
  obtain p q where q: "quotient_of x = (p, q)" by fastforce
  have x: "x = of_int p / of_int q" "0 < q"
    using q by (rule quotient_of_div) (rule quotient_of_denom_pos [OF q])
  then have "0 < p" using assms by (simp add: zero_less_divide_iff)
  then have n: "rat_of_nat (nat p) = of_int p" "rat_of_nat (nat q) = of_int q" "0 < nat p" "0 < nat q"
    using x(2) by simp_all
  let ?e = "fl_exponent (nat p) (nat q)"
  have r: "rat_of_nat (nat p) / rat_of_nat (nat q) = x" by (simp only: n(1,2) x(1))
  have "fl x = fl_pos (nat p) (nat q)" using assms by (simp add: fl_def q Let_def)
  then have "fl x = of_int (round_half_even (x / pow2 ?e)) * pow2 ?e"
    unfolding fl_pos_def Let_def r .
  moreover have "2 ^ 52 * pow2 ?e \<le> x" "x < 2 ^ 53 * pow2 ?e"
    using fl_exponent_bounds [OF n(3,4)] by (simp_all add: n(1,2) x(1) [symmetric])
  ultimately show thesis using that by blast
qed

lemma fl_minus [simp]: "fl (- x) = - fl x"
  by (simp add: fl_def Let_def case_prod_beta)

lemma fl_mono_pos:
  assumes "0 < x" "x \<le> y"
  shows "fl x \<le> fl y"
proof -
  obtain e where e: "2 ^ 52 * pow2 e \<le> x" "x < 2 ^ 53 * pow2 e" "fl x = of_int (round_half_even (x / pow2 e)) * pow2 e"
    using fl_pos_cases [OF assms(1)] by blast
  have "0 < y" using assms by simp
  then obtain f where f: "2 ^ 52 * pow2 f \<le> y" "y < 2 ^ 53 * pow2 f" "fl y = of_int (round_half_even (y / pow2 f)) * pow2 f"
    using fl_pos_cases by blast
  have "e \<le> f"
  proof (rule ccontr)
    assume "\<not> e \<le> f"
    then have "2 ^ 52 * pow2 (f + 1) \<le> 2 ^ 52 * pow2 e" using pow2_mono [of "f + 1" e] by simp
    then show False using e(1) f(2) assms(2) by (simp add: pow2_Suc)
  qed
  then consider "e = f" | "e + 1 \<le> f" by linarith
  then show ?thesis
  proof cases
    case 1
    have "x / pow2 e \<le> y / pow2 e" using assms(2) by (simp add: divide_right_mono)
    then show ?thesis unfolding e(3) f(3) 1 [symmetric]
      by (intro mult_right_mono) (simp_all add: round_half_even_mono)
  next
    case 2
    have "x / pow2 e \<le> of_int (2 ^ 53)" using e(2) by (simp add: divide_le_eq)
    then have "round_half_even (x / pow2 e) \<le> 2 ^ 53"
      using round_half_even_mono [of "x / pow2 e" "of_int (2 ^ 53)"] unfolding round_half_even_of_int by blast
    then have "rat_of_int (round_half_even (x / pow2 e)) \<le> of_int (2 ^ 53)" by (simp only: of_int_le_iff)
    then have "fl x \<le> 2 ^ 53 * pow2 e" unfolding e(3) by (intro mult_right_mono) simp_all
    also have "\<dots> = 2 ^ 52 * pow2 (e + 1)" by (simp add: pow2_Suc)
    also have "\<dots> \<le> 2 ^ 52 * pow2 f" using pow2_mono [OF 2] by simp
    also have "\<dots> \<le> fl y"
    proof -
      have "of_int (2 ^ 52) \<le> y / pow2 f" using f(1) by (simp add: le_divide_eq)
      then have "2 ^ 52 \<le> round_half_even (y / pow2 f)"
        using round_half_even_mono [of "of_int (2 ^ 52)" "y / pow2 f"] unfolding round_half_even_of_int by blast
      then have "of_int (2 ^ 52) \<le> rat_of_int (round_half_even (y / pow2 f))" by (simp only: of_int_le_iff)
      then show ?thesis unfolding f(3) by (intro mult_right_mono) simp_all
    qed
    finally show ?thesis .
  qed
qed

lemma fl_mono: "x \<le> y \<Longrightarrow> fl x \<le> fl y"
proof -
  assume xy: "x \<le> y"
  consider "0 < x" | "x \<le> 0" "0 \<le> y" | "y < 0" by linarith
  then show ?thesis
  proof cases
    case 1
    then show ?thesis using xy by (rule fl_mono_pos)
  next
    case 2
    then show ?thesis using fl_nonneg [of y] fl_nonneg [of "- x"] by simp
  next
    case 3
    then show ?thesis using fl_mono_pos [of "- y" "- x"] xy by simp
  qed
qed

lemma fl_of_int: "\<bar>i\<bar> < 2 ^ 53 \<Longrightarrow> fl (of_int i) = of_int i"
proof -
  have pos: "fl (of_int i) = of_int i" if i: "0 < i" "i < 2 ^ 53" for i
  proof -
    obtain e where e: "2 ^ 52 * pow2 e \<le> of_int i" "fl (of_int i) = of_int (round_half_even (of_int i / pow2 e)) * pow2 e"
      using fl_pos_cases [of "of_int i"] i(1) by auto
    have "e \<le> 0"
    proof (rule ccontr)
      assume "\<not> e \<le> 0"
      then have "pow2 1 \<le> pow2 e" by (intro pow2_mono) simp
      then have "(2::rat) ^ 53 \<le> 2 ^ 52 * pow2 e" by (simp add: pow2_def)
      then have "rat_of_int (2 ^ 53) \<le> of_int i" using e(1) by simp
      then show False using i(2) by (simp only: of_int_le_iff)
    qed
    then have "rat_of_int i / pow2 e = of_int (i * 2 ^ nat (- e))" by (cases "e = 0") (simp_all add: pow2_def)
    then show ?thesis unfolding e(2) by (simp only: round_half_even_of_int) (use \<open>e \<le> 0\<close> in \<open>cases "e = 0"; simp add: pow2_def\<close>)
  qed
  assume "\<bar>i\<bar> < 2 ^ 53"
  then show ?thesis using pos [of i] pos [of "- i"] by (cases i "0 :: int" rule: linorder_cases) simp_all
qed

subsection \<open>\<open>repr()\<close> of a float\<close>

text \<open>
  The shortest digits that read back as the same double, the closest ones among these; positional
  unless the decimal point is more than 3 places left or more than 16 places right of the digits.
  Negative zero, infinities and NaN have no representation here.
\<close>

definition pow10 :: "int \<Rightarrow> rat" where
  "pow10 e = (if 0 \<le> e then 10 ^ nat e else 1 / 10 ^ nat (- e))"

text \<open>The \<open>e\<close> with \<open>10^e \<le> p / q < 10^(e + 1)\<close>.\<close>

definition decimal_exponent :: "nat \<Rightarrow> nat \<Rightarrow> int" where
  "decimal_exponent p q =
     (let e = int (length (nat_digits p)) - int (length (nat_digits q))
      in if pow10 e \<le> rat_of_nat p / rat_of_nat q then e else e - 1)"

definition round_digits :: "rat \<Rightarrow> int \<Rightarrow> nat \<Rightarrow> nat" where
  "round_digits x e n = nat (round_half_even (x / pow10 (e - int n + 1)))"

definition shortest_digits :: "rat \<Rightarrow> int \<Rightarrow> nat" where
  "shortest_digits x e =
     (case List.find (\<lambda>n. fl (rat_of_nat (round_digits x e n) * pow10 (e - int n + 1)) = x) [1..<17] of
        None \<Rightarrow> 17 | Some n \<Rightarrow> n)"

definition strip_zeros :: "string \<Rightarrow> string" where
  "strip_zeros s = rev (dropWhile (\<lambda>c. c = CHR ''0'') (rev s))"

definition format_digits :: "string \<Rightarrow> int \<Rightarrow> string" where
  "format_digits ds decpt =
     (if decpt \<le> -4 \<or> 16 < decpt
      then (let x = decpt - 1; xs = int_str \<bar>x\<bar>
            in take 1 ds @ (if length ds = 1 then [] else ''.'' @ drop 1 ds) @ ''e'' @
               (if x < 0 then ''-'' else ''+'') @ replicate (2 - length xs) (CHR ''0'') @ xs)
      else if decpt \<le> 0 then ''0.'' @ replicate (nat (- decpt)) (CHR ''0'') @ ds
      else if decpt < int (length ds) then take (nat decpt) ds @ ''.'' @ drop (nat decpt) ds
      else ds @ replicate (nat decpt - length ds) (CHR ''0'') @ ''.0'')"

definition float_str :: "rat \<Rightarrow> string" where
  "float_str x =
     (if x = 0 then ''0.0''
      else let (p, q) = quotient_of \<bar>x\<bar>;
               e = decimal_exponent (nat p) (nat q);
               digits = nat_digits (round_digits \<bar>x\<bar> e (shortest_digits \<bar>x\<bar> e));
               decpt = e + 1 + (if length digits > shortest_digits \<bar>x\<bar> e then 1 else 0)
           in (if x < 0 then ''-'' else []) @ format_digits (strip_zeros digits) decpt)"

end
