(* ===== verification/PyValue.thy ===== *)
theory PyValue
  imports PyFloat
begin

section \<open>Python values, UUIDs and JSON payloads\<close>

text \<open>
  The values a JSON column, a job payload or a runtime input holds, \<open>str()\<close> and truth of them, the
  text coercions the modules define for themselves, and \<open>uuid.UUID\<close>: its two text forms and its
  constructor. A float is the rational number it stands for (theory \<open>PyFloat\<close>).
\<close>

datatype pyval =
    PNone
  | PBool bool
  | PInt int
  | PFloat rat
  | PStr string
  | PList "pyval list"
  | PDict "(string \<times> pyval) list"

type_synonym pydict = "(string \<times> pyval) list"

subsection \<open>Dictionaries\<close>

text \<open>\<open>d.get(k)\<close> is \<open>None\<close> for a missing key; \<open>{**d, k: v}\<close> and \<open>d[k] = v\<close> are \<open>AList.update\<close>.\<close>

definition dget :: "pydict \<Rightarrow> string \<Rightarrow> pyval" where
  "dget d k = (case map_of d k of None \<Rightarrow> PNone | Some v \<Rightarrow> v)"

definition dset :: "string \<Rightarrow> pyval \<Rightarrow> pydict \<Rightarrow> pydict" where
  "dset k v d = AList.update k v d"

lemma dget_Nil [simp]: "dget [] k = PNone"
  by (simp add: dget_def)

lemma dget_Cons [simp]: "dget ((k', v) # d) k = (if k' = k then v else dget d k)"
  by (simp add: dget_def)

lemma dget_dset [simp]: "dget (dset k v d) k' = (if k = k' then v else dget d k')"
  by (simp add: dget_def dset_def update_conv')

fun py_truthy :: "pyval \<Rightarrow> bool" where
  "py_truthy PNone = False"
| "py_truthy (PBool b) = b"
| "py_truthy (PInt i) = (i \<noteq> 0)"
| "py_truthy (PFloat x) = (x \<noteq> 0)"
| "py_truthy (PStr s) = (s \<noteq> [])"
| "py_truthy (PList xs) = (xs \<noteq> [])"
| "py_truthy (PDict d) = (d \<noteq> [])"

subsection \<open>\<open>str()\<close>\<close>

definition hex2 :: "nat \<Rightarrow> string" where
  "hex2 n = [digit_char (n div 16), digit_char (n mod 16)]"

definition repr_char :: "char \<Rightarrow> char \<Rightarrow> string" where
  "repr_char q c =
     (let n = (of_char c :: nat) in
      if c = q \<or> c = CHR 0x5C then [CHR 0x5C, c]
      else if n = 9 then [CHR 0x5C, CHR ''t'']
      else if n = 10 then [CHR 0x5C, CHR ''n'']
      else if n = 13 then [CHR 0x5C, CHR ''r'']
      else if n < 32 \<or> n = 127 then [CHR 0x5C, CHR ''x''] @ hex2 n
      else [c])"

definition repr_str :: "string \<Rightarrow> string" where
  "repr_str s =
     (let q = (if CHR 0x27 \<in> set s \<and> CHR 0x22 \<notin> set s then CHR 0x22 else CHR 0x27)
      in [q] @ concat (map (repr_char q) s) @ [q])"

fun join_with :: "string \<Rightarrow> string list \<Rightarrow> string" where
  "join_with sep [] = []"
| "join_with sep [x] = x"
| "join_with sep (x # y # xs) = x @ sep @ join_with sep (y # xs)"

fun py_repr :: "pyval \<Rightarrow> string" where
  "py_repr PNone = ''None''"
| "py_repr (PBool b) = (if b then ''True'' else ''False'')"
| "py_repr (PInt i) = int_str i"
| "py_repr (PFloat x) = float_str x"
| "py_repr (PStr s) = repr_str s"
| "py_repr (PList xs) = ''['' @ join_with '', '' (map py_repr xs) @ '']''"
| "py_repr (PDict d) =
     ''{'' @ join_with '', '' (map (\<lambda>(k, v). repr_str k @ '': '' @ py_repr v) d) @ ''}''"

definition py_str :: "pyval \<Rightarrow> string" where
  "py_str v = (case v of PStr s \<Rightarrow> s | _ \<Rightarrow> py_repr v)"

lemma py_str_PStr [simp]: "py_str (PStr s) = s"
  by (simp add: py_str_def)

subsection \<open>Text coercions\<close>

text \<open>
  \<open>_optional_text\<close> / \<open>_optional_string\<close>: \<open>None\<close> for \<open>None\<close> and for text that is empty after
  \<open>strip()\<close>; \<open>_normalize_text\<close> / \<open>_clean_text\<close>: the empty string instead.
\<close>

definition opt_text :: "string \<Rightarrow> string option" where
  "opt_text t = (if t = [] then None else Some t)"

definition optional_text :: "pyval \<Rightarrow> string option" where
  "optional_text v = (if v = PNone then None else opt_text (strip (py_str v)))"

definition normalize_text :: "pyval \<Rightarrow> string" where
  "normalize_text v = (if v = PNone then [] else strip (py_str v))"

definition normalize_opt :: "string option \<Rightarrow> string" where
  "normalize_opt v = (case v of None \<Rightarrow> [] | Some s \<Rightarrow> strip s)"

definition of_opt_str :: "string option \<Rightarrow> pyval" where
  "of_opt_str v = (case v of None \<Rightarrow> PNone | Some s \<Rightarrow> PStr s)"

definition as_str :: "pyval \<Rightarrow> string option" where
  "as_str v = (case v of PStr s \<Rightarrow> Some s | _ \<Rightarrow> None)"

lemma as_str_simps [simp]:
  "as_str PNone = None" "as_str (PBool b) = None" "as_str (PInt i) = None" "as_str (PFloat x) = None"
  "as_str (PStr s) = Some s" "as_str (PList xs) = None" "as_str (PDict d) = None"
  by (simp_all add: as_str_def)

lemma optional_text_PNone [simp]: "optional_text PNone = None"
  by (simp add: optional_text_def)

lemma optional_text_PStr: "optional_text (PStr s) = opt_text (strip s)"
  by (simp add: optional_text_def)

lemma normalize_text_PNone [simp]: "normalize_text PNone = []"
  by (simp add: normalize_text_def)

lemma normalize_text_PStr [simp]: "normalize_text (PStr s) = strip s"
  by (simp add: normalize_text_def)

lemma normalize_text_idem [simp]: "normalize_text (PStr (normalize_text v)) = normalize_text v"
  by (simp add: normalize_text_def)

lemma strip_normalize_text [simp]: "strip (normalize_text v) = normalize_text v"
  by (simp add: normalize_text_def)

subsection \<open>UUIDs\<close>

fun hex_digits :: "nat \<Rightarrow> nat \<Rightarrow> nat list" where
  "hex_digits 0 n = []"
| "hex_digits (Suc k) n = hex_digits k (n div 16) @ [n mod 16]"

text \<open>\<open>u.hex\<close> and \<open>str(u)\<close>.\<close>

definition uuid_hex :: "uuid \<Rightarrow> string" where
  "uuid_hex u = map digit_char (hex_digits 32 (unat u))"

definition uuid_str :: "uuid \<Rightarrow> string" where
  "uuid_str u =
     (let h = uuid_hex u in
      take 8 h @ ''-'' @ take 4 (drop 8 h) @ ''-'' @ take 4 (drop 12 h) @ ''-'' @
      take 4 (drop 16 h) @ ''-'' @ drop 20 h)"

text \<open>
  \<open>UUID(value)\<close> for a string: drop \<open>urn:\<close> and \<open>uuid:\<close>, strip braces, drop the hyphens, want 32
  characters, read them as a base-16 \<open>int\<close> in range. \<open>None\<close> is its \<open>ValueError\<close>, which is what
  the \<open>_parse_uuid\<close> of every job handler turns it into.
\<close>

definition strip_braces :: "string \<Rightarrow> string" where
  "strip_braces s =
     rev (dropWhile (\<lambda>c. c = CHR ''{'' \<or> c = CHR ''}'')
       (rev (dropWhile (\<lambda>c. c = CHR ''{'' \<or> c = CHR ''}'') s)))"

definition parse_uuid_str :: "string \<Rightarrow> uuid option" where
  "parse_uuid_str value =
     (let h = py_remove ''-'' 0 (strip_braces (py_remove ''uuid:'' 0 (py_remove ''urn:'' 0 value)))
      in if length h \<noteq> 32 then None
         else case py_int16 h of
                None \<Rightarrow> None
              | Some i \<Rightarrow> if 0 \<le> i \<and> i < 2 ^ 128 then Some (word_of_int i) else None)"

definition parse_uuid :: "pyval \<Rightarrow> uuid option" where
  "parse_uuid v = (case as_str v of None \<Rightarrow> None | Some s \<Rightarrow> parse_uuid_str s)"

lemma length_hex_digits [simp]: "length (hex_digits k n) = k"
  by (induction k arbitrary: n) auto

lemma hex_digits_lt: "d \<in> set (hex_digits k n) \<Longrightarrow> d < 16"
  by (induction k arbitrary: n) auto

lemma length_uuid_hex [simp]: "length (uuid_hex u) = 32"
  by (simp add: uuid_hex_def)

lemma read_hex_digits:
  "read_digits 16 acc True (map digit_char (hex_digits k n)) = Some (16 ^ k * acc + n mod 16 ^ k)"
proof (induction k arbitrary: acc n)
  case 0
  then show ?case by simp
next
  case (Suc k)
  have gen: "read_digits 16 acc True (map digit_char ds @ [digit_char d]) =
      (case read_digits 16 acc True (map digit_char ds) of None \<Rightarrow> None | Some v \<Rightarrow> Some (16 * v + d))"
    if "\<forall>x \<in> set ds. x < 16" "d < 16" for ds d acc
    using that
  proof (induction ds arbitrary: acc)
    case Nil
    then show ?case using digit_char_not_punct [of d] by auto
  next
    case (Cons x ds)
    then show ?case using digit_char_not_punct [of x] by auto
  qed
  have "\<forall>x \<in> set (hex_digits k (n div 16)). x < 16" using hex_digits_lt by blast
  moreover have "16 * (n div 16 mod 16 ^ k) + n mod 16 = n mod (16 * 16 ^ k)"
    by (simp add: mod_mult2_eq)
  ultimately show ?case using Suc.IH by (simp add: gen algebra_simps)
qed

lemma read_hex_digits_first:
  assumes "0 < k"
  shows "read_digits 16 0 False (map digit_char (hex_digits k n)) = Some (n mod 16 ^ k)"
proof -
  obtain d ds where ds: "hex_digits k n = d # ds"
    using assms by (metis length_hex_digits list.exhaust list.size(3) less_irrefl)
  have "d < 16" using hex_digits_lt [of d k n] ds by simp
  then have "digit_char d \<noteq> CHR ''_''" using digit_char_not_punct by blast
  then have "read_digits 16 0 False (map digit_char (d # ds)) =
      read_digits 16 0 True (map digit_char (d # ds))" by simp
  with read_hex_digits [of 0 k n] ds show ?thesis by simp
qed

definition hex_alphabet :: "char list" where
  "hex_alphabet = ''0123456789abcdef''"

lemma digit_char_alphabet: "n < 16 \<Longrightarrow> digit_char n \<in> set hex_alphabet"
proof -
  assume "n < 16"
  then have "n \<in> set [0..<16]" by simp
  moreover have "\<forall>n \<in> set [0..<16]. digit_char n \<in> set hex_alphabet" by code_simp
  ultimately show ?thesis by blast
qed

lemma set_uuid_hex: "set (uuid_hex u) \<subseteq> set hex_alphabet"
  using hex_digits_lt digit_char_alphabet by (fastforce simp: uuid_hex_def)

lemma set_uuid_str: "set (uuid_str u) \<subseteq> insert (CHR ''-'') (set hex_alphabet)"
proof -
  have "set (uuid_str u) \<subseteq> insert (CHR ''-'') (set (uuid_hex u))"
    by (auto simp: uuid_str_def Let_def dest: in_set_takeD in_set_dropD)
  with set_uuid_hex [of u] show ?thesis by blast
qed

lemma not_in_uuid_hex: "c \<notin> set hex_alphabet \<Longrightarrow> c \<notin> set (uuid_hex u)"
  using set_uuid_hex [of u] by (rule contra_subsetD)

lemma not_in_uuid_str: "c \<notin> set (CHR ''-'' # hex_alphabet) \<Longrightarrow> c \<notin> set (uuid_str u)"
  using set_uuid_str [of u] by (auto dest: subsetD)

lemma uuid_hex_graphic: "c \<in> set (uuid_hex u) \<Longrightarrow> graphic c"
  using hex_digits_lt by (auto simp: uuid_hex_def)

lemma strip_uuid_hex [simp]: "strip (uuid_hex u) = uuid_hex u"
  by (simp add: strip_graphic uuid_hex_graphic)

lemma strip_uuid_str [simp]: "strip (uuid_str u) = uuid_str u"
proof (rule strip_graphic, rule ballI)
  fix c assume "c \<in> set (uuid_str u)"
  then have "c = CHR ''-'' \<or> c \<in> set (uuid_hex u)"
    by (auto simp: uuid_str_def Let_def dest: in_set_takeD in_set_dropD)
  then show "graphic c" using uuid_hex_graphic by (auto simp: graphic_def)
qed

lemma length_uuid_str [simp]: "length (uuid_str u) = 36"
  by (simp add: uuid_str_def Let_def)

lemma uuid_str_nonempty [simp]: "uuid_str u \<noteq> []"
  by (metis length_uuid_str list.size(3) zero_neq_numeral)

lemma take_drop_join: "take n (drop m xs) @ drop (n + m) xs = drop m xs"
  by (metis append_take_drop_id drop_drop)

lemma uuid_str_filter: "filter (\<lambda>x. x \<noteq> CHR ''-'') (uuid_str u) = uuid_hex u"
proof -
  let ?h = "uuid_hex u"
  have "CHR ''-'' \<notin> set ?h"
    by (rule not_in_uuid_hex) (simp add: hex_alphabet_def)
  then have f: "filter (\<lambda>x. x \<noteq> CHR ''-'') xs = xs" if "set xs \<subseteq> set ?h" for xs
    using that by (intro filter_True) blast
  have parts: "set (take n ?h) \<subseteq> set ?h" "set (drop m ?h) \<subseteq> set ?h"
    "set (take n (drop m ?h)) \<subseteq> set ?h" for n m
    by (auto dest: in_set_takeD in_set_dropD)
  have "filter (\<lambda>x. x \<noteq> CHR ''-'') (uuid_str u) =
      take 8 ?h @ take 4 (drop 8 ?h) @ take 4 (drop 12 ?h) @ take 4 (drop 16 ?h) @ drop 20 ?h"
    by (simp add: uuid_str_def Let_def f parts)
  also have "\<dots> = ?h"
    using take_drop_join [of 4 16 ?h] take_drop_join [of 4 12 ?h] take_drop_join [of 4 8 ?h]
    by simp
  finally show ?thesis .
qed

text \<open>Every UUID the code prints into a payload is the UUID it reads back.\<close>

lemma parse_uuid_str_uuid_str [simp]: "parse_uuid_str (uuid_str u) = Some u"
proof -
  let ?s = "uuid_str u" and ?h = "uuid_hex u"
  have "CHR ''u'' \<notin> set ?s"
    by (rule not_in_uuid_str) (simp add: hex_alphabet_def)
  then have urn: "py_remove ''urn:'' 0 ?s = ?s" and uuid: "py_remove ''uuid:'' 0 ?s = ?s"
    by (auto intro!: py_remove_absent [of "CHR ''u''"])
  have br: "CHR ''{'' \<notin> set ?s" "CHR ''}'' \<notin> set ?s"
    by (rule not_in_uuid_str, simp add: hex_alphabet_def)+
  have d: "dropWhile (\<lambda>c. c = CHR ''{'' \<or> c = CHR ''}'') xs = xs" if "set xs = set ?s" for xs
    using that br by (cases xs) auto
  have braces: "strip_braces ?s = ?s"
    by (simp add: strip_braces_def d)
  have hyph: "py_remove ''-'' 0 ?s = ?h"
    by (simp add: py_remove_char uuid_str_filter)
  obtain c cs where h: "?h = c # cs"
    by (metis length_uuid_hex list.exhaust list.size(3) zero_neq_numeral)
  have "CHR ''-'' \<notin> set ?h" "CHR ''+'' \<notin> set ?h" "CHR ''x'' \<notin> set ?h" "CHR ''X'' \<notin> set ?h"
    by (rule not_in_uuid_hex, simp add: hex_alphabet_def)+
  then have c: "c \<noteq> CHR ''-''" "c \<noteq> CHR ''+''" and x: "\<not> prefix ''0x'' ?h" "\<not> prefix ''0X'' ?h"
    using set_mono_prefix [of "''0x''" ?h] set_mono_prefix [of "''0X''" ?h] by (auto simp: h)
  have sign: "split_sign ?h = (False, ?h)"
    unfolding split_sign_def h using c by simp
  have bound: "unat u < 2 ^ 128" using unsigned_less [of u, where ?'a = nat] by simp
  have "read_digits 16 0 False ?h = Some (unat u mod 16 ^ 32)"
    unfolding uuid_hex_def by (rule read_hex_digits_first) simp
  moreover have "unat u mod 16 ^ 32 = unat u" using bound by simp
  ultimately have int16: "py_int16 ?h = Some (int (unat u))"
    by (simp add: py_int16_def sign x signed_def)
  have "int (unat u) < 2 ^ 128" using bound by (metis of_nat_less_iff of_nat_numeral of_nat_power)
  then show ?thesis
    by (simp add: parse_uuid_str_def urn uuid braces hyph int16)
qed

lemma parse_uuid_simps [simp]:
  "parse_uuid PNone = None" "parse_uuid (PBool b) = None" "parse_uuid (PInt i) = None" "parse_uuid (PFloat x) = None"
  "parse_uuid (PList xs) = None" "parse_uuid (PDict d) = None"
  "parse_uuid (PStr s) = parse_uuid_str s"
  by (simp_all add: parse_uuid_def)

lemma uuid_str_inject [simp]: "uuid_str u = uuid_str v \<longleftrightarrow> u = v"
  by (metis option.inject parse_uuid_str_uuid_str)

lemma optional_text_uuid [simp]: "optional_text (PStr (uuid_str u)) = Some (uuid_str u)"
  by (simp add: optional_text_PStr opt_text_def)

end
