(* ===== verification/PyTime.thy ===== *)
theory PyTime
  imports PyValue
begin

section \<open>datetime\<close>

text \<open>
  A Python \<open>datetime\<close>: the microseconds of its wall clock since 1970-01-01T00:00:00 and, unless it
  is naive, its offset from UTC in microseconds. The calendar is the proleptic Gregorian one of
  the \<open>datetime\<close> module, computed from the day number by the 400-year cycle. The code reads the
  clock with \<open>utcnow()\<close>; a handler that reads it several times takes the readings as an argument
  \<open>clk :: nat \<Rightarrow> datetime\<close>, the i-th reading being \<open>clk i\<close>.
\<close>

record datetime =
  wall_us :: int
  utcoffset_us :: "int option"

type_synonym clock = "nat \<Rightarrow> datetime"

definition us_per_minute :: int where
  "us_per_minute = 60000000"

definition us_per_day :: int where
  "us_per_day = 86400000000"

text \<open>
  \<open>_normalize_time\<close> of scheduler\_runtime.py: a naive value is taken as UTC, an aware one converted.
\<close>

definition normalize_time :: "datetime \<Rightarrow> datetime" where
  "normalize_time d =
     (case utcoffset_us d of
        None \<Rightarrow> \<lparr>wall_us = wall_us d, utcoffset_us = Some 0\<rparr>
      | Some off \<Rightarrow> \<lparr>wall_us = wall_us d - off, utcoffset_us = Some 0\<rparr>)"

definition instant :: "datetime \<Rightarrow> int" where
  "instant d = wall_us (normalize_time d)"

text \<open>\<open>_minute_key\<close> of runner\_service/scheduler.py: the normalised time with seconds and
  microseconds set to zero.\<close>

definition minute_key :: "datetime \<Rightarrow> datetime" where
  "minute_key d =
     (let n = normalize_time d in n\<lparr>wall_us := wall_us n - wall_us n mod us_per_minute\<rparr>)"

definition datetime_min_utc :: datetime where
  "datetime_min_utc = \<lparr>wall_us = - 62135596800000000, utcoffset_us = Some 0\<rparr>"

definition same_minute :: "datetime \<Rightarrow> datetime \<Rightarrow> bool" where
  "same_minute a b \<longleftrightarrow> instant a div us_per_minute = instant b div us_per_minute"

lemma normalize_time_idem [simp]: "normalize_time (normalize_time d) = normalize_time d"
  by (simp add: normalize_time_def split: option.splits)

lemma instant_normalize [simp]: "instant (normalize_time d) = instant d"
  by (simp add: instant_def)

lemma utcoffset_normalize [simp]: "utcoffset_us (normalize_time d) = Some 0"
  by (simp add: normalize_time_def split: option.splits)

lemma wall_minute_key: "wall_us (minute_key d) = instant d div us_per_minute * us_per_minute"
  by (simp add: minute_key_def Let_def instant_def minus_mod_eq_div_mult)

lemma utcoffset_minute_key [simp]: "utcoffset_us (minute_key d) = Some 0"
  by (simp add: minute_key_def Let_def)

lemma minute_key_eq_iff: "minute_key a = minute_key b \<longleftrightarrow> same_minute a b"
proof -
  have "minute_key a = minute_key b \<longleftrightarrow> wall_us (minute_key a) = wall_us (minute_key b)"
    by (metis (full_types) datetime.equality old.unit.exhaust utcoffset_minute_key)
  also have "\<dots> \<longleftrightarrow> same_minute a b"
    by (simp add: wall_minute_key same_minute_def us_per_minute_def)
  finally show ?thesis .
qed

lemma instant_minute_key: "instant (minute_key d) = instant d div us_per_minute * us_per_minute"
  by (simp add: instant_def [of "minute_key d"] normalize_time_def wall_minute_key)

lemma same_minute_refl [simp]: "same_minute d d"
  by (simp add: same_minute_def)

lemma same_minute_normalize [simp]: "same_minute (normalize_time d) d' = same_minute d d'"
  and same_minute_normalize2 [simp]: "same_minute d (normalize_time d') = same_minute d d'"
  by (simp_all add: same_minute_def)

subsection \<open>The calendar\<close>

definition day_number :: "datetime \<Rightarrow> int" where
  "day_number d = wall_us d div us_per_day"

definition dt_hour :: "datetime \<Rightarrow> int" where
  "dt_hour d = wall_us d mod us_per_day div 3600000000"

definition dt_minute :: "datetime \<Rightarrow> int" where
  "dt_minute d = wall_us d mod 3600000000 div us_per_minute"

definition dt_second :: "datetime \<Rightarrow> int" where
  "dt_second d = wall_us d mod us_per_minute div 1000000"

definition dt_microsecond :: "datetime \<Rightarrow> int" where
  "dt_microsecond d = wall_us d mod 1000000"

text \<open>\<open>weekday()\<close>: Monday is 0; day number 0 was a Thursday.\<close>

definition dt_weekday :: "datetime \<Rightarrow> int" where
  "dt_weekday d = (day_number d + 3) mod 7"

definition civil :: "int \<Rightarrow> int \<times> int \<times> int" where
  "civil n =
     (let z = n + 719468;
          era = z div 146097;
          doe = z mod 146097;
          yoe = (doe - doe div 1460 + doe div 36524 - doe div 146096) div 365;
          doy = doe - (365 * yoe + yoe div 4 - yoe div 100);
          mp = (5 * doy + 2) div 153;
          day = doy - (153 * mp + 2) div 5 + 1;
          month = (if mp < 10 then mp + 3 else mp - 9);
          year = yoe + era * 400 + (if month \<le> 2 then 1 else 0)
      in (year, month, day))"

definition dt_year :: "datetime \<Rightarrow> int" where
  "dt_year d = fst (civil (day_number d))"

definition dt_month :: "datetime \<Rightarrow> int" where
  "dt_month d = fst (snd (civil (day_number d)))"

definition dt_day :: "datetime \<Rightarrow> int" where
  "dt_day d = snd (snd (civil (day_number d)))"

lemma dt_minute_range: "0 \<le> dt_minute d \<and> dt_minute d < 60"
  using pos_mod_bound [of 3600000000 "wall_us d"] pos_mod_sign [of 3600000000 "wall_us d"]
  unfolding dt_minute_def us_per_minute_def by linarith

lemma dt_hour_range: "0 \<le> dt_hour d \<and> dt_hour d < 24"
  using pos_mod_bound [of 86400000000 "wall_us d"] pos_mod_sign [of 86400000000 "wall_us d"]
  unfolding dt_hour_def us_per_day_def by linarith

lemma dt_weekday_range: "0 \<le> dt_weekday d \<and> dt_weekday d < 7"
  by (simp add: dt_weekday_def)

subsection \<open>ISO 8601 text\<close>

definition zero_pad :: "nat \<Rightarrow> int \<Rightarrow> string" where
  "zero_pad n i = (let s = int_str i in replicate (n - length s) (CHR ''0'') @ s)"

definition iso_offset :: "int \<Rightarrow> string" where
  "iso_offset off =
     (let a = \<bar>off\<bar>; s = a mod us_per_minute div 1000000; u = a mod 1000000 in
      (if off < 0 then ''-'' else ''+'') @ zero_pad 2 (a div 3600000000) @ '':'' @
      zero_pad 2 (a mod 3600000000 div us_per_minute) @
      (if s \<noteq> 0 \<or> u \<noteq> 0 then '':'' @ zero_pad 2 s else []) @
      (if u \<noteq> 0 then ''.'' @ zero_pad 6 u else []))"

text \<open>\<open>d.isoformat()\<close>\<close>

definition isoformat :: "datetime \<Rightarrow> string" where
  "isoformat d =
     zero_pad 4 (dt_year d) @ ''-'' @ zero_pad 2 (dt_month d) @ ''-'' @ zero_pad 2 (dt_day d) @
     ''T'' @ zero_pad 2 (dt_hour d) @ '':'' @ zero_pad 2 (dt_minute d) @ '':'' @
     zero_pad 2 (dt_second d) @
     (if dt_microsecond d \<noteq> 0 then ''.'' @ zero_pad 6 (dt_microsecond d) else []) @
     (case utcoffset_us d of None \<Rightarrow> [] | Some off \<Rightarrow> iso_offset off)"

lemma graphic_nat_digits: "c \<in> set (nat_digits n) \<Longrightarrow> graphic c"
proof (induction n rule: nat_digits.induct)
  case (1 n)
  then show ?case
    by (cases "n < 10") (auto simp: nat_digits.simps [of n])
qed

lemma graphic_zero_pad: "c \<in> set (zero_pad n i) \<Longrightarrow> graphic c"
  by (auto simp: zero_pad_def int_str_def Let_def split: if_splits dest: graphic_nat_digits)
    (simp_all add: graphic_def)

lemma graphic_iso_offset: "c \<in> set (iso_offset off) \<Longrightarrow> graphic c"
  by (auto simp: iso_offset_def Let_def split: if_splits dest: graphic_zero_pad)
    (simp_all add: graphic_def)

lemma graphic_isoformat: "c \<in> set (isoformat d) \<Longrightarrow> graphic c"
  by (auto simp: isoformat_def split: if_splits option.splits
      dest: graphic_zero_pad graphic_iso_offset)
    (simp_all add: graphic_def)

lemma strip_isoformat [simp]: "strip (isoformat d) = isoformat d"
  by (simp add: strip_graphic graphic_isoformat)

lemma isoformat_nonempty [simp]: "isoformat d \<noteq> []"
  by (simp add: isoformat_def)

subsection \<open>Order of a column of times\<close>

text \<open>A descending column: nulls first, as PostgreSQL sorts them.\<close>

definition desc_time :: "datetime option \<Rightarrow> int \<times> int" where
  "desc_time t = (case t of None \<Rightarrow> (0, 0) | Some v \<Rightarrow> (1, - instant v))"

end
