(* ===== verification/Enums.thy ===== *)
theory Enums
  imports PyTime
begin

section \<open>Enumerations\<close>

text \<open>
  shared/enums.py, runner\_service/failure\_categories.py and control\_plane/job\_types.py: each
  \<open>StrEnum\<close> is a datatype with the function that gives its members' values.
\<close>

datatype asset_status = SAFE | SUSPECT | STALE

fun asset_status_value :: "asset_status \<Rightarrow> string" where
  "asset_status_value SAFE = ''safe''"
| "asset_status_value SUSPECT = ''suspect''"
| "asset_status_value STALE = ''stale''"

datatype asset_lifecycle_status =
  LifecycleActive | RetiredMissing | RetiredReplaced | RetiredManual

fun lifecycle_value :: "asset_lifecycle_status \<Rightarrow> string" where
  "lifecycle_value LifecycleActive = ''active''"
| "lifecycle_value RetiredMissing = ''retired_missing''"
| "lifecycle_value RetiredReplaced = ''retired_replaced''"
| "lifecycle_value RetiredManual = ''retired_manual''"

datatype queued_job_status = ACCEPTED | RUNNING | COMPLETED | FAILED | RETRYABLE_FAILED | SKIPPED

fun queued_job_status_value :: "queued_job_status \<Rightarrow> string" where
  "queued_job_status_value ACCEPTED = ''accepted''"
| "queued_job_status_value RUNNING = ''running''"
| "queued_job_status_value COMPLETED = ''completed''"
| "queued_job_status_value FAILED = ''failed''"
| "queued_job_status_value RETRYABLE_FAILED = ''retryable_failed''"
| "queued_job_status_value SKIPPED = ''skipped''"

datatype execution_result_status = ResultPending | ResultSuccess | ResultFailed

datatype render_result_status = RenderPending | RenderSuccess | RenderFailed

text \<open>The text columns of policies and auth states hold the values of these.\<close>

datatype asset_compile_status = CompilePending | CompileSuccess | CompileFailed

fun asset_compile_status_value :: "asset_compile_status \<Rightarrow> string" where
  "asset_compile_status_value CompilePending = ''pending''"
| "asset_compile_status_value CompileSuccess = ''success''"
| "asset_compile_status_value CompileFailed = ''failed''"

datatype auth_state_status = AuthPending | AuthValid | AuthInvalid | AuthExpired

fun auth_state_status_value :: "auth_state_status \<Rightarrow> string" where
  "auth_state_status_value AuthPending = ''pending''"
| "auth_state_status_value AuthValid = ''valid''"
| "auth_state_status_value AuthInvalid = ''invalid''"
| "auth_state_status_value AuthExpired = ''expired''"

datatype runtime_policy_state = PolicyActive | PolicyPaused

fun runtime_policy_state_value :: "runtime_policy_state \<Rightarrow> string" where
  "runtime_policy_state_value PolicyActive = ''active''"
| "runtime_policy_state_value PolicyPaused = ''paused''"

datatype runtime_trigger_source = TriggerScheduler | TriggerManual | TriggerPlatform

fun trigger_source_value :: "runtime_trigger_source \<Rightarrow> string" where
  "trigger_source_value TriggerScheduler = ''scheduler''"
| "trigger_source_value TriggerManual = ''manual''"
| "trigger_source_value TriggerPlatform = ''platform''"

datatype crawl_scope = ScopeFull | ScopeIncremental

fun crawl_scope_value :: "crawl_scope \<Rightarrow> string" where
  "crawl_scope_value ScopeFull = ''full''"
| "crawl_scope_value ScopeIncremental = ''incremental''"

datatype published_job_state = JobActive | JobPaused | JobArchived

fun published_job_state_value :: "published_job_state \<Rightarrow> string" where
  "published_job_state_value JobActive = ''active''"
| "published_job_state_value JobPaused = ''paused''"
| "published_job_state_value JobArchived = ''archived''"

datatype failure_category =
    SystemNotFound | PageOrMenuNotResolved | ElementAssetMissing | AuthBlocked
  | NavigationFailed | PageNotReady | AssertionFailed | RuntimeError

fun failure_category_value :: "failure_category \<Rightarrow> string" where
  "failure_category_value SystemNotFound = ''system_not_found''"
| "failure_category_value PageOrMenuNotResolved = ''page_or_menu_not_resolved''"
| "failure_category_value ElementAssetMissing = ''element_asset_missing''"
| "failure_category_value AuthBlocked = ''auth_blocked''"
| "failure_category_value NavigationFailed = ''navigation_failed''"
| "failure_category_value PageNotReady = ''page_not_ready''"
| "failure_category_value AssertionFailed = ''assertion_failed''"
| "failure_category_value RuntimeError = ''runtime_error''"

definition all_failure_categories :: "failure_category list" where
  "all_failure_categories =
     [SystemNotFound, PageOrMenuNotResolved, ElementAssetMissing, AuthBlocked,
      NavigationFailed, PageNotReady, AssertionFailed, RuntimeError]"

definition failure_category_of :: "string \<Rightarrow> failure_category option" where
  "failure_category_of s = List.find (\<lambda>c. failure_category_value c = s) all_failure_categories"

lemma failure_category_of_value [simp]: "failure_category_of (failure_category_value c) = Some c"
  by (cases c) (simp_all add: failure_category_of_def all_failure_categories_def)

lemma failure_category_of_Some: "failure_category_of s = Some c \<Longrightarrow> failure_category_value c = s"
  by (auto simp: failure_category_of_def find_Some_iff)

definition AUTH_REFRESH_JOB_TYPE :: string where "AUTH_REFRESH_JOB_TYPE = ''auth_refresh''"
definition CRAWL_JOB_TYPE :: string where "CRAWL_JOB_TYPE = ''crawl''"
definition ASSET_COMPILE_JOB_TYPE :: string where "ASSET_COMPILE_JOB_TYPE = ''asset_compile''"
definition RUN_CHECK_JOB_TYPE :: string where "RUN_CHECK_JOB_TYPE = ''run_check''"

lemmas job_type_defs =
  AUTH_REFRESH_JOB_TYPE_def CRAWL_JOB_TYPE_def ASSET_COMPILE_JOB_TYPE_def RUN_CHECK_JOB_TYPE_def

subsection \<open>Severity order of the asset status\<close>

text \<open>\<open>_max_drift_state\<close> ranks \<open>STALE\<close> over \<open>SUSPECT\<close> over \<open>SAFE\<close>; the instance gives the order to
  the library's \<open>max\<close> and \<open>Max\<close>.\<close>

fun asset_status_rank :: "asset_status \<Rightarrow> nat" where
  "asset_status_rank SAFE = 0"
| "asset_status_rank SUSPECT = 1"
| "asset_status_rank STALE = 2"

lemma asset_status_rank_inject [simp]: "asset_status_rank a = asset_status_rank b \<longleftrightarrow> a = b"
  by (cases a; cases b) simp_all

instantiation asset_status :: linorder
begin

definition less_eq_asset_status :: "asset_status \<Rightarrow> asset_status \<Rightarrow> bool" where
  "less_eq_asset_status a b \<longleftrightarrow> asset_status_rank a \<le> asset_status_rank b"

definition less_asset_status :: "asset_status \<Rightarrow> asset_status \<Rightarrow> bool" where
  "less_asset_status a b \<longleftrightarrow> asset_status_rank a < asset_status_rank b"

instance
  by intro_classes (auto simp: less_eq_asset_status_def less_asset_status_def)

end

text \<open>\<open>_max_drift_state\<close> of asset\_compiler/service.py.\<close>

definition max_drift_state :: "asset_status list \<Rightarrow> asset_status" where
  "max_drift_state states =
     (if states = [] then SAFE
      else if STALE \<in> set states then STALE
      else if SUSPECT \<in> set states then SUSPECT
      else SAFE)"

lemma max_drift_state_Max:
  assumes "states \<noteq> []"
  shows "max_drift_state states = Max (set states)"
proof (rule Max_eqI [symmetric])
  have all: "s \<in> {SAFE, SUSPECT, STALE}" for s by (cases s) simp_all
  obtain s where "s \<in> set states" using assms by (cases states) auto
  then show "max_drift_state states \<in> set states"
    using all [of s] assms by (auto simp: max_drift_state_def)
  fix y assume "y \<in> set states"
  then show "y \<le> max_drift_state states"
    using all [of y] assms by (auto simp: max_drift_state_def less_eq_asset_status_def)
qed simp

end
