(* ===== verification/Schema.thy ===== *)
theory Schema
  imports Enums
begin

section \<open>Database schema\<close>

text \<open>
  infrastructure/db/models: one record per mapped class, with its columns in the order of the
  class (relationship attributes are not columns; the audit stamps of a published job, which no
  code reads, are left out). A \<open>StrEnum\<close> column is the datatype, and so is the status of a queued
  job, whose writers all assign a \<open>QueuedJobStatus\<close>; other text columns are strings. Scores are exact numbers (a double is a rational). The record
  \<open>db\<close> holds the tables; a component reads and writes the ones it names.
\<close>

subsection \<open>Jobs (jobs.py)\<close>

record queued_job =
  qj_id :: uuid
  qj_job_type :: string
  qj_payload :: pydict
  qj_result_payload :: "pydict option"
  qj_policy_id :: "uuid option"
  qj_trigger_source :: "string option"
  qj_scheduled_at :: "datetime option"
  qj_status :: queued_job_status
  qj_created_at :: datetime
  qj_started_at :: "datetime option"
  qj_finished_at :: "datetime option"
  qj_failure_message :: "string option"

record published_job =
  pj_id :: uuid
  pj_job_key :: string
  pj_page_check_id :: uuid
  pj_script_render_id :: "uuid option"
  pj_asset_version :: "string option"
  pj_runtime_policy :: string
  pj_schedule_expr :: string
  pj_timezone :: string
  pj_state :: published_job_state
  pj_pause_reason :: "string option"
  pj_paused_by_snapshot_id :: "uuid option"
  pj_paused_by_asset_id :: "uuid option"
  pj_paused_by_page_check_id :: "uuid option"

record job_run =
  jr_id :: uuid
  jr_published_job_id :: uuid
  jr_queued_job_id :: "uuid option"
  jr_execution_run_id :: "uuid option"
  jr_script_render_id :: "uuid option"
  jr_asset_version :: "string option"
  jr_policy_id :: "uuid option"
  jr_runtime_policy :: string
  jr_schedule_expr :: "string option"
  jr_trigger_source :: string
  jr_run_status :: string
  jr_scheduled_at :: datetime
  jr_started_at :: "datetime option"
  jr_finished_at :: "datetime option"
  jr_failure_message :: "string option"

subsection \<open>Runtime policies (runtime\_policies.py)\<close>

record system_auth_policy =
  ap_id :: uuid
  ap_system_id :: uuid
  ap_enabled :: bool
  ap_state :: string
  ap_schedule_expr :: string
  ap_auth_mode :: string
  ap_captcha_provider :: string
  ap_last_triggered_at :: "datetime option"
  ap_last_succeeded_at :: "datetime option"
  ap_last_failed_at :: "datetime option"
  ap_last_failure_message :: "string option"

record system_crawl_policy =
  cp_id :: uuid
  cp_system_id :: uuid
  cp_enabled :: bool
  cp_state :: string
  cp_schedule_expr :: string
  cp_crawl_scope :: string
  cp_last_triggered_at :: "datetime option"
  cp_last_succeeded_at :: "datetime option"
  cp_last_failed_at :: "datetime option"
  cp_last_failure_message :: "string option"

subsection \<open>Crawl facts (crawl.py)\<close>

record crawl_snapshot =
  cs_id :: uuid
  cs_system_id :: uuid
  cs_crawl_type :: string
  cs_framework_detected :: "string option"
  cs_quality_score :: "rat option"
  cs_degraded :: bool
  cs_state :: string
  cs_activated_at :: "datetime option"
  cs_discarded_at :: "datetime option"
  cs_failure_reason :: "string option"
  cs_warning_messages :: "string list"
  cs_structure_hash :: "string option"
  cs_started_at :: datetime
  cs_finished_at :: "datetime option"

record page =
  pg_id :: uuid
  pg_system_id :: uuid
  pg_snapshot_id :: "uuid option"
  pg_route_path :: string
  pg_page_title :: "string option"
  pg_page_summary :: "string option"
  pg_keywords :: "pydict option"
  pg_discovery_sources :: "string list option"
  pg_entry_candidates :: "pydict list option"
  pg_context_constraints :: "pydict option"
  pg_navigation_diagnostics :: "pydict option"
  pg_crawled_at :: datetime

record menu_node =
  mn_id :: uuid
  mn_system_id :: uuid
  mn_snapshot_id :: uuid
  mn_parent_id :: "uuid option"
  mn_page_id :: "uuid option"
  mn_label :: string
  mn_route_path :: "string option"
  mn_depth :: int
  mn_sort_order :: int
  mn_playwright_locator :: "string option"
  mn_discovery_sources :: "string list option"
  mn_entry_candidates :: "pydict list option"
  mn_context_constraints :: "pydict option"

record page_element =
  pe_id :: uuid
  pe_system_id :: uuid
  pe_snapshot_id :: uuid
  pe_page_id :: uuid
  pe_element_type :: string
  pe_element_role :: "string option"
  pe_element_text :: "string option"
  pe_attributes :: "pydict option"
  pe_playwright_locator :: "string option"
  pe_state_signature :: "string option"
  pe_state_context :: "pydict option"
  pe_locator_candidates :: "pydict list option"
  pe_materialized_by :: "string option"
  pe_navigation_diagnostics :: "pydict option"
  pe_stability_score :: "rat option"
  pe_usage_description :: "string option"

subsection \<open>Archived crawl facts (crawl\_history.py)\<close>

record crawl_snapshot_hist =
  csh_id :: uuid
  csh_snapshot_id :: uuid
  csh_system_id :: uuid
  csh_crawl_type :: string
  csh_framework_detected :: "string option"
  csh_quality_score :: "rat option"
  csh_degraded :: bool
  csh_state :: string
  csh_source_active_snapshot_id :: "uuid option"
  csh_replaced_by_snapshot_id :: "uuid option"
  csh_archive_reason :: "string option"
  csh_activated_at :: "datetime option"
  csh_discarded_at :: "datetime option"
  csh_failure_reason :: "string option"
  csh_warning_messages :: "string list"
  csh_structure_hash :: "string option"
  csh_started_at :: datetime
  csh_finished_at :: "datetime option"
  csh_archived_at :: datetime

record page_hist =
  pgh_id :: uuid
  pgh_page_id :: uuid
  pgh_system_id :: uuid
  pgh_snapshot_id :: "uuid option"
  pgh_route_path :: string
  pgh_page_title :: "string option"
  pgh_page_summary :: "string option"
  pgh_keywords :: "pydict option"
  pgh_discovery_sources :: "string list option"
  pgh_entry_candidates :: "pydict list option"
  pgh_context_constraints :: "pydict option"
  pgh_navigation_diagnostics :: "pydict option"
  pgh_crawled_at :: datetime
  pgh_archived_at :: datetime

record menu_node_hist =
  mnh_id :: uuid
  mnh_menu_node_id :: uuid
  mnh_system_id :: uuid
  mnh_snapshot_id :: uuid
  mnh_parent_id :: "uuid option"
  mnh_page_id :: "uuid option"
  mnh_label :: string
  mnh_route_path :: "string option"
  mnh_depth :: int
  mnh_sort_order :: int
  mnh_playwright_locator :: "string option"
  mnh_discovery_sources :: "string list option"
  mnh_entry_candidates :: "pydict list option"
  mnh_context_constraints :: "pydict option"
  mnh_archived_at :: datetime

record page_element_hist =
  peh_id :: uuid
  peh_page_element_id :: uuid
  peh_system_id :: uuid
  peh_snapshot_id :: uuid
  peh_page_id :: uuid
  peh_element_type :: string
  peh_element_role :: "string option"
  peh_element_text :: "string option"
  peh_attributes :: "pydict option"
  peh_playwright_locator :: "string option"
  peh_state_signature :: "string option"
  peh_state_context :: "pydict option"
  peh_locator_candidates :: "pydict list option"
  peh_materialized_by :: "string option"
  peh_navigation_diagnostics :: "pydict option"
  peh_stability_score :: "rat option"
  peh_usage_description :: "string option"
  peh_archived_at :: datetime

subsection \<open>Compiled assets (assets.py)\<close>

record page_asset =
  pa_id :: uuid
  pa_system_id :: uuid
  pa_page_id :: uuid
  pa_asset_key :: string
  pa_asset_version :: string
  pa_status :: asset_status
  pa_drift_status :: asset_status
  pa_lifecycle_status :: asset_lifecycle_status
  pa_retired_reason :: "string option"
  pa_retired_at :: "datetime option"
  pa_retired_by_snapshot_id :: "uuid option"
  pa_compiled_from_snapshot_id :: "uuid option"
  pa_last_verified_at :: "datetime option"

record page_check =
  pc_id :: uuid
  pc_page_asset_id :: uuid
  pc_check_code :: string
  pc_goal :: string
  pc_lifecycle_status :: asset_lifecycle_status
  pc_retired_reason :: "string option"
  pc_retired_at :: "datetime option"
  pc_retired_by_snapshot_id :: "uuid option"
  pc_input_schema :: "pydict option"
  pc_assertion_schema :: "pydict option"
  pc_module_plan_id :: "uuid option"
  pc_blocking_dependency_json :: "pydict option"
  pc_success_rate :: "rat option"
  pc_last_verified_at :: "datetime option"

record intent_alias =
  ia_id :: uuid
  ia_system_alias :: string
  ia_page_alias :: "string option"
  ia_check_alias :: string
  ia_route_hint :: "string option"
  ia_asset_key :: string
  ia_confidence :: rat
  ia_source :: string
  ia_is_active :: bool
  ia_disabled_reason :: "string option"
  ia_disabled_at :: "datetime option"
  ia_disabled_by_snapshot_id :: "uuid option"

record module_plan =
  mp_id :: uuid
  mp_page_asset_id :: uuid
  mp_check_code :: string
  mp_plan_version :: string
  mp_steps_json :: "pydict list"

record page_navigation_alias =
  na_id :: uuid
  na_system_id :: uuid
  na_page_asset_id :: uuid
  na_alias_type :: string
  na_alias_text :: string
  na_leaf_text :: "string option"
  na_display_chain :: "string option"
  na_chain_complete :: bool
  na_source :: string
  na_is_active :: bool
  na_disabled_reason :: "string option"
  na_disabled_at :: "datetime option"
  na_disabled_by_snapshot_id :: "uuid option"

record asset_snapshot =
  as_id :: uuid
  as_page_asset_id :: uuid
  as_crawl_snapshot_id :: uuid
  as_asset_version :: string
  as_structure_hash :: string
  as_navigation_hash :: string
  as_key_locator_hash :: string
  as_semantic_summary_hash :: string
  as_diff_score_vs_previous :: rat
  as_status :: asset_status

record asset_reconciliation_audit =
  ra_id :: uuid
  ra_snapshot_id :: uuid
  ra_retired_asset_ids :: "string list"
  ra_retired_check_ids :: "string list"
  ra_disabled_alias_ids :: "string list"
  ra_enabled_alias_ids :: "string list"
  ra_retire_reasons :: "pydict list"
  ra_paused_published_job_ids :: "string list"
  ra_resumed_published_job_ids :: "string list"
  ra_created_at :: datetime

subsection \<open>Executions (execution.py) and systems (systems.py)\<close>

record execution_request =
  er_id :: uuid
  er_request_source :: string
  er_system_hint :: string
  er_page_hint :: "string option"
  er_check_goal :: string
  er_strictness :: string
  er_time_budget_ms :: int
  er_template_code :: "string option"
  er_template_version :: "string option"
  er_carrier_hint :: "string option"
  er_template_params :: "pydict option"

record execution_plan =
  ep_id :: uuid
  ep_execution_request_id :: uuid
  ep_resolved_system_id :: "uuid option"
  ep_resolved_page_asset_id :: "uuid option"
  ep_resolved_page_check_id :: "uuid option"
  ep_execution_track :: string
  ep_auth_policy :: string
  ep_module_plan_id :: "uuid option"

record execution_run =
  xr_id :: uuid
  xr_execution_plan_id :: uuid
  xr_status :: string
  xr_duration_ms :: "int option"
  xr_auth_status :: "string option"
  xr_failure_category :: "string option"
  xr_asset_version :: "string option"
  xr_snapshot_version :: "string option"
  xr_created_at :: datetime

record execution_artifact =
  xa_id :: uuid
  xa_execution_run_id :: uuid
  xa_artifact_kind :: string
  xa_result_status :: execution_result_status
  xa_payload :: "pydict option"
  xa_artifact_uri :: "string option"
  xa_created_at :: datetime

record script_render =
  sr_id :: uuid
  sr_execution_artifact_id :: "uuid option"
  sr_execution_plan_id :: "uuid option"
  sr_render_mode :: string
  sr_render_result :: render_result_status
  sr_script_body :: "string option"
  sr_render_metadata :: "pydict option"
  sr_created_at :: datetime

record system_row =
  sys_id :: uuid
  sys_code :: string
  sys_name :: string
  sys_base_url :: string
  sys_framework_type :: string

record system_credential =
  sc_id :: uuid
  sc_system_id :: uuid
  sc_login_url :: string
  sc_login_username_encrypted :: string
  sc_login_password_encrypted :: string
  sc_login_auth_type :: string
  sc_login_selectors :: "pydict option"
  sc_secret_ref :: "string option"

record auth_state =
  au_id :: uuid
  au_system_id :: uuid
  au_status :: string
  au_storage_state :: "pydict option"
  au_cookies :: "pydict option"
  au_local_storage :: "pydict option"
  au_session_storage :: "pydict option"
  au_token_fingerprint :: "string option"
  au_auth_mode :: string
  au_is_valid :: bool
  au_validated_at :: "datetime option"
  au_expires_at :: "datetime option"

subsection \<open>The database\<close>

record db =
  queued_jobs :: "queued_job list"
  published_jobs :: "published_job list"
  job_runs :: "job_run list"
  system_auth_policies :: "system_auth_policy list"
  system_crawl_policies :: "system_crawl_policy list"
  crawl_snapshots :: "crawl_snapshot list"
  pages :: "page list"
  menu_nodes :: "menu_node list"
  page_elements :: "page_element list"
  crawl_snapshots_hist :: "crawl_snapshot_hist list"
  pages_hist :: "page_hist list"
  menu_nodes_hist :: "menu_node_hist list"
  page_elements_hist :: "page_element_hist list"
  page_assets :: "page_asset list"
  page_checks :: "page_check list"
  intent_aliases :: "intent_alias list"
  module_plans :: "module_plan list"
  page_navigation_aliases :: "page_navigation_alias list"
  asset_snapshots :: "asset_snapshot list"
  asset_reconciliation_audits :: "asset_reconciliation_audit list"
  execution_requests :: "execution_request list"
  execution_plans :: "execution_plan list"
  execution_runs :: "execution_run list"
  execution_artifacts :: "execution_artifact list"
  script_renders :: "script_render list"
  systems :: "system_row list"
  system_credentials :: "system_credential list"
  auth_states :: "auth_state list"

definition empty_db :: db where
  "empty_db =
     \<lparr>queued_jobs = [], published_jobs = [], job_runs = [], system_auth_policies = [],
      system_crawl_policies = [], crawl_snapshots = [], pages = [], menu_nodes = [],
      page_elements = [], crawl_snapshots_hist = [], pages_hist = [], menu_nodes_hist = [],
      page_elements_hist = [], page_assets = [], page_checks = [], intent_aliases = [],
      module_plans = [], page_navigation_aliases = [], asset_snapshots = [],
      asset_reconciliation_audits = [], execution_requests = [], execution_plans = [], execution_runs = [],
      execution_artifacts = [], script_renders = [], systems = [],
      system_credentials = [], auth_states = []\<rparr>"

type_synonym db_session = "db session"

subsection \<open>Rows of the job tables\<close>

text \<open>\<open>session.get(QueuedJob, id)\<close>, and the assignments a handler makes to the row it loaded.\<close>

definition get_job :: "uuid \<Rightarrow> db \<Rightarrow> queued_job option" where
  "get_job i d = find_row qj_id i (queued_jobs d)"

definition upd_job :: "uuid \<Rightarrow> (queued_job \<Rightarrow> queued_job) \<Rightarrow> db \<Rightarrow> db" where
  "upd_job i f d = d\<lparr>queued_jobs := upd_row qj_id i f (queued_jobs d)\<rparr>"

definition get_run :: "uuid \<Rightarrow> db \<Rightarrow> job_run option" where
  "get_run i d = find_row jr_id i (job_runs d)"

definition upd_run :: "uuid \<Rightarrow> (job_run \<Rightarrow> job_run) \<Rightarrow> db \<Rightarrow> db" where
  "upd_run i f d = d\<lparr>job_runs := upd_row jr_id i f (job_runs d)\<rparr>"

lemma get_upd_job [row_simps]:
  "(\<And>j. qj_id (f j) = qj_id j) \<Longrightarrow>
    get_job k (upd_job i f d) = (if k = i then map_option f (get_job i d) else get_job k d)"
  by (simp add: get_job_def upd_job_def find_upd_row)

lemma get_upd_run [row_simps]:
  "(\<And>r. jr_id (f r) = jr_id r) \<Longrightarrow>
    get_run k (upd_run i f d) = (if k = i then map_option f (get_run i d) else get_run k d)"
  by (simp add: get_run_def upd_run_def find_upd_row)

lemma get_job_upd_run [row_simps, simp]: "get_job k (upd_run i f d) = get_job k d"
  by (simp add: get_job_def upd_run_def)

lemma get_run_upd_job [row_simps, simp]: "get_run k (upd_job i f d) = get_run k d"
  by (simp add: get_run_def upd_job_def)

lemma get_job_id: "get_job i d = Some j \<Longrightarrow> qj_id j = i"
  by (auto simp: get_job_def dest: find_row_Some_key)

lemma get_run_id: "get_run i d = Some r \<Longrightarrow> jr_id r = i"
  by (auto simp: get_run_def dest: find_row_Some_key)

end
