(* ===== verification/Trigger.thy ===== *)
theory Trigger
  imports Schema
begin

section \<open>The job queue and the trigger of published jobs\<close>

text \<open>
  infrastructure/queue/dispatcher.py and jobs/published\_job\_trigger.py. \<open>QueueDispatcher\<close> is a
  protocol of the code, so it is a locale here: what the client may rely on when it enqueues. The
  lemmas about \<open>PublishedJobTrigger.trigger\<close> are proved from the protocol alone and used through
  its interpretation by \<open>SqlQueueDispatcher\<close>.

  The primary keys that \<open>uuid4()\<close> makes and the reading of the clock are arguments.
\<close>

type_synonym dispatcher =
  "uuid \<Rightarrow> datetime \<Rightarrow> string \<Rightarrow> pydict \<Rightarrow> db_session \<Rightarrow> uuid \<times> db_session"

subsection \<open>\<open>SqlQueueDispatcher\<close>\<close>

definition new_queued_job :: "uuid \<Rightarrow> datetime \<Rightarrow> string \<Rightarrow> pydict \<Rightarrow> queued_job" where
  "new_queued_job i now job_type payload =
     \<lparr>qj_id = i, qj_job_type = job_type, qj_payload = payload, qj_result_payload = None,
      qj_policy_id = None, qj_trigger_source = None, qj_scheduled_at = None,
      qj_status = ACCEPTED, qj_created_at = now, qj_started_at = None, qj_finished_at = None,
      qj_failure_message = None\<rparr>"

definition sql_enqueue :: dispatcher where
  "sql_enqueue i now job_type payload s =
     (i, modify (\<lambda>d. d\<lparr>queued_jobs := queued_jobs d @ [new_queued_job i now job_type payload]\<rparr>) s)"

subsection \<open>\<open>PublishedJobTrigger\<close>\<close>

definition opt_uuid_value :: "uuid option \<Rightarrow> pyval" where
  "opt_uuid_value v = (case v of None \<Rightarrow> PNone | Some u \<Rightarrow> PStr (uuid_str u))"

definition trigger_job_run :: "uuid \<Rightarrow> published_job \<Rightarrow> string \<Rightarrow> datetime \<Rightarrow> job_run" where
  "trigger_job_run run_id pj trigger_source run_scheduled_at =
     \<lparr>jr_id = run_id, jr_published_job_id = pj_id pj, jr_queued_job_id = None,
      jr_execution_run_id = None, jr_script_render_id = pj_script_render_id pj,
      jr_asset_version = pj_asset_version pj, jr_policy_id = None,
      jr_runtime_policy = pj_runtime_policy pj, jr_schedule_expr = Some (pj_schedule_expr pj),
      jr_trigger_source = trigger_source, jr_run_status = queued_job_status_value ACCEPTED,
      jr_scheduled_at = run_scheduled_at, jr_started_at = None, jr_finished_at = None,
      jr_failure_message = None\<rparr>"

definition trigger_payload :: "uuid \<Rightarrow> published_job \<Rightarrow> string \<Rightarrow> datetime \<Rightarrow> pydict" where
  "trigger_payload run_id pj trigger_source run_scheduled_at =
     [(''page_check_id'', PStr (uuid_str (pj_page_check_id pj))),
      (''execution_track'', PStr ''precompiled''),
      (''published_job_id'', PStr (uuid_str (pj_id pj))),
      (''job_run_id'', PStr (uuid_str run_id)),
      (''script_render_id'', opt_uuid_value (pj_script_render_id pj)),
      (''asset_version'', of_opt_str (pj_asset_version pj)),
      (''runtime_policy'', PStr (pj_runtime_policy pj)),
      (''schedule_expr'', PStr (pj_schedule_expr pj)),
      (''trigger_source'', PStr trigger_source),
      (''scheduled_at'', PStr (isoformat run_scheduled_at))]"

definition stamp_queued_job :: "uuid \<Rightarrow> string \<Rightarrow> datetime \<Rightarrow> queued_job \<Rightarrow> queued_job" where
  "stamp_queued_job qid trigger_source run_scheduled_at j =
     j\<lparr>qj_trigger_source := Some trigger_source, qj_scheduled_at := Some run_scheduled_at,
       qj_payload := dset ''queued_job_id'' (PStr (uuid_str qid)) (qj_payload j)\<rparr>"

definition trigger ::
  "dispatcher \<Rightarrow> uuid \<Rightarrow> uuid \<Rightarrow> datetime \<Rightarrow> published_job \<Rightarrow> string \<Rightarrow> datetime option \<Rightarrow>
    db_session \<Rightarrow> (job_run \<times> uuid) \<times> db_session" where
  "trigger enqueue run_id queue_id now pj trigger_source scheduled_at s =
     (let run_scheduled_at = py_or scheduled_at now;
          job_run = trigger_job_run run_id pj trigger_source run_scheduled_at;
          s1 = modify (\<lambda>d. d\<lparr>job_runs := job_runs d @ [job_run]\<rparr>) s;
          (qid, s2) = enqueue queue_id now RUN_CHECK_JOB_TYPE
                        (trigger_payload run_id pj trigger_source run_scheduled_at) s1;
          s3 = modify (upd_run run_id (\<lambda>r. r\<lparr>jr_queued_job_id := Some qid\<rparr>)) s2;
          s4 = (case get_job qid (working s3) of
                  None \<Rightarrow> s3
                | Some j \<Rightarrow> modify (upd_job qid (stamp_queued_job qid trigger_source run_scheduled_at)) s3)
      in ((job_run\<lparr>jr_queued_job_id := Some qid\<rparr>, qid), commit s4))"

subsection \<open>The protocol\<close>

text \<open>
  What \<open>trigger\<close> relies on: \<open>enqueue\<close> with a fresh key appends one accepted row of the queue with
  the given type and payload in the running transaction, and touches nothing else.
\<close>

locale queue_dispatcher =
  fixes enqueue :: dispatcher
  assumes enqueue_db:
      "enqueue i now t p s = (q, s') \<Longrightarrow> i \<notin> keys_of qj_id (queued_jobs (working s)) \<Longrightarrow>
        \<exists>j. working s' = (working s)\<lparr>queued_jobs := queued_jobs (working s) @ [j]\<rparr> \<and>
          qj_id j = q \<and> qj_job_type j = t \<and> qj_payload j = p \<and> qj_status j = ACCEPTED"
    and enqueue_committed: "enqueue i now t p s = (q, s') \<Longrightarrow> committed s' = committed s"
    and enqueue_fresh:
      "enqueue i now t p s = (q, s') \<Longrightarrow> i \<notin> keys_of qj_id (queued_jobs (working s)) \<Longrightarrow>
        q \<notin> keys_of qj_id (queued_jobs (working s))"
begin

text \<open>The rows a trigger adds: a run and a queued job that name each other and the published job.\<close>

lemma trigger_rows:
  assumes "trigger enqueue run_id queue_id now pj src sched s = ((run, qid), s')"
    and "run_id \<notin> keys_of jr_id (job_runs (working s))"
    and "queue_id \<notin> keys_of qj_id (queued_jobs (working s))"
  shows "\<exists>j. working s' = (working s)\<lparr>job_runs := job_runs (working s) @ [run],
             queued_jobs := queued_jobs (working s) @ [j]\<rparr> \<and>
           run = (trigger_job_run run_id pj src (py_or sched now))\<lparr>jr_queued_job_id := Some qid\<rparr> \<and>
           qid \<notin> keys_of qj_id (queued_jobs (working s)) \<and>
           qj_id j = qid \<and> qj_job_type j = RUN_CHECK_JOB_TYPE \<and> qj_status j = ACCEPTED \<and>
           qj_trigger_source j = Some src \<and> qj_scheduled_at j = Some (py_or sched now) \<and>
           qj_payload j = dset ''queued_job_id'' (PStr (uuid_str qid))
             (trigger_payload run_id pj src (py_or sched now))"
proof -
  let ?r = "trigger_job_run run_id pj src (py_or sched now)"
  let ?p = "trigger_payload run_id pj src (py_or sched now)"
  let ?s1 = "modify (\<lambda>d. d\<lparr>job_runs := job_runs d @ [?r]\<rparr>) s"
  obtain q s2 where e: "enqueue queue_id now RUN_CHECK_JOB_TYPE ?p ?s1 = (q, s2)" by fastforce
  have fresh: "queue_id \<notin> keys_of qj_id (queued_jobs (working ?s1))" using assms(3) by simp
  from enqueue_db [OF e fresh] obtain j where
    w2: "working s2 = (working s)\<lparr>job_runs := job_runs (working s) @ [?r],
           queued_jobs := queued_jobs (working s) @ [j]\<rparr>"
    and j: "qj_id j = q" "qj_job_type j = RUN_CHECK_JOB_TYPE" "qj_payload j = ?p"
      "qj_status j = ACCEPTED" by auto
  have qfresh: "q \<notin> qj_id ` set (queued_jobs (working s))"
    using enqueue_fresh [OF e fresh] by (simp add: keys_of_def)
  have rfresh: "run_id \<notin> jr_id ` set (job_runs (working s))"
    using assms(2) by (simp add: keys_of_def)
  have "find_row qj_id q (queued_jobs (working s)) = None"
    using qfresh by (simp add: find_row_None_iff)
  then have get: "get_job q (working s2) = Some j"
    by (simp add: get_job_def w2 row_simps j)
  have id: "jr_id ?r = run_id" by (simp add: trigger_job_run_def)
  have q: "qid = q" and run: "run = ?r\<lparr>jr_queued_job_id := Some q\<rparr>"
    and s': "s' = commit (modify (upd_job q (stamp_queued_job q src (py_or sched now)))
      (modify (upd_run run_id (\<lambda>r. r\<lparr>jr_queued_job_id := Some q\<rparr>)) s2))"
    using assms(1) by (auto simp: trigger_def Let_def e get)
  have w: "working s' = (working s)\<lparr>job_runs := job_runs (working s) @ [run],
       queued_jobs := queued_jobs (working s) @ [stamp_queued_job q src (py_or sched now) j]\<rparr>"
    using qfresh rfresh
    by (simp add: s' w2 upd_run_def upd_job_def row_simps upd_row_absent id j(1) run)
  show ?thesis
    unfolding q using w run qfresh j
    by (intro exI [of _ "stamp_queued_job q src (py_or sched now) j"])
      (simp add: stamp_queued_job_def keys_of_def)
qed

lemma trigger_commits: "trigger enqueue run_id queue_id now pj src sched s = (r, s') \<Longrightarrow> clean s'"
  by (auto simp: trigger_def Let_def clean_def split: prod.splits)

lemma trigger_frame:
  assumes "trigger enqueue run_id queue_id now pj src sched s = ((run, qid), s')"
    and "run_id \<notin> keys_of jr_id (job_runs (working s))"
    and "queue_id \<notin> keys_of qj_id (queued_jobs (working s))"
  shows "job_runs (working s') = job_runs (working s) @ [run]"
    and "published_jobs (working s') = published_jobs (working s)"
    and "run = (trigger_job_run run_id pj src (py_or sched now))\<lparr>jr_queued_job_id := Some qid\<rparr>"
  using trigger_rows [OF assms] by auto

end

text \<open>\<open>SqlQueueDispatcher\<close> keeps the protocol.\<close>

interpretation sql: queue_dispatcher sql_enqueue
  by unfold_locales (auto simp: sql_enqueue_def new_queued_job_def)

end
