(* ===== verification/Cron.thy ===== *)
theory Cron
  imports PyTime
begin

section \<open>Cron expressions of published jobs\<close>

text \<open>
  The functions at the end of runner\_service/scheduler.py that decide whether a published job's
  schedule expression fires at a scheduled time, the abstract reading of the expressions they
  support, and what they do with the ones they do not.
\<close>

subsection \<open>The code\<close>

definition cron_field_matches :: "string \<Rightarrow> int \<Rightarrow> bool" where
  "cron_field_matches field value =
     (if field = ''*'' then True
      else if prefix ''*/'' field then
        (case py_int (drop 2 field) of
           None \<Rightarrow> False
         | Some interval \<Rightarrow> interval > 0 \<and> value mod interval = 0)
      else (case py_int field of None \<Rightarrow> False | Some n \<Rightarrow> n = value))"

definition cron_weekday_matches :: "string \<Rightarrow> int \<Rightarrow> bool" where
  "cron_weekday_matches field value =
     (if field = ''*'' then True
      else if prefix ''*/'' field then
        (case py_int (drop 2 field) of
           None \<Rightarrow> False
         | Some interval \<Rightarrow> interval > 0 \<and> value mod interval = 0)
      else
        (case py_int field of
           None \<Rightarrow> False
         | Some n \<Rightarrow>
             (let expected = (if n = 7 then 0 else n) in
              if expected < 0 \<or> expected > 6 then False else expected = value)))"

definition cron_day_matches :: "string \<Rightarrow> bool \<Rightarrow> string \<Rightarrow> bool \<Rightarrow> bool" where
  "cron_day_matches day_of_month day_of_month_matches weekday weekday_matches =
     (if day_of_month = ''*'' \<and> weekday = ''*'' then True
      else if day_of_month = ''*'' then weekday_matches
      else if weekday = ''*'' then day_of_month_matches
      else day_of_month_matches \<or> weekday_matches)"

definition cron_weekday :: "datetime \<Rightarrow> int" where
  "cron_weekday value = (dt_weekday value + 1) mod 7"

definition cron_matches :: "string \<Rightarrow> datetime \<Rightarrow> bool" where
  "cron_matches schedule_expr scheduled_at =
     (case py_split schedule_expr of
        [minute, hour, day_of_month, month, weekday] \<Rightarrow>
          (let trigger_time = minute_key scheduled_at;
               minute_matches = cron_field_matches minute (dt_minute trigger_time);
               hour_matches = cron_field_matches hour (dt_hour trigger_time);
               month_matches = cron_field_matches month (dt_month trigger_time);
               day_of_month_matches = cron_field_matches day_of_month (dt_day trigger_time);
               weekday_matches = cron_weekday_matches weekday (cron_weekday trigger_time);
               day_matches =
                 cron_day_matches day_of_month day_of_month_matches weekday weekday_matches
           in minute_matches \<and> hour_matches \<and> month_matches \<and> day_matches)
      | _ \<Rightarrow> False)"

subsection \<open>An abstract reading of the fields\<close>

text \<open>
  A field is any value, a step, one value, or nothing the code reads. The fields denote sets of
  values; an expression denotes the set of minutes whose calendar fields are in them, where day of
  month and day of week are alternatives once both are restricted.
\<close>

datatype cron_field = AnyValue | Step int | Exact int | Unreadable

definition read_field :: "string \<Rightarrow> cron_field" where
  "read_field f =
     (if f = ''*'' then AnyValue
      else if prefix ''*/'' f then
        (case py_int (drop 2 f) of None \<Rightarrow> Unreadable | Some k \<Rightarrow> if 0 < k then Step k else Unreadable)
      else (case py_int f of None \<Rightarrow> Unreadable | Some n \<Rightarrow> Exact n))"

fun field_values :: "cron_field \<Rightarrow> int set" where
  "field_values AnyValue = UNIV"
| "field_values (Step k) = {v. k dvd v}"
| "field_values (Exact n) = {n}"
| "field_values Unreadable = {}"

fun weekday_values :: "cron_field \<Rightarrow> int set" where
  "weekday_values AnyValue = UNIV"
| "weekday_values (Step k) = {v. k dvd v}"
| "weekday_values (Exact n) = (if n = 7 then {0} else {n} \<inter> {0..6})"
| "weekday_values Unreadable = {}"

record cron_spec =
  minute_field :: cron_field
  hour_field :: cron_field
  day_field :: cron_field
  month_field :: cron_field
  weekday_field :: cron_field

definition spec_day :: "cron_field \<Rightarrow> cron_field \<Rightarrow> datetime \<Rightarrow> bool" where
  "spec_day day_f week_f t \<longleftrightarrow>
     (let dmon = dt_day t \<in> field_values day_f;
          dwk = (dt_weekday t + 1) mod 7 \<in> weekday_values week_f
      in if day_f \<noteq> AnyValue \<and> week_f \<noteq> AnyValue then dmon \<or> dwk else dmon \<and> dwk)"

definition spec_fires :: "cron_spec \<Rightarrow> datetime \<Rightarrow> bool" where
  "spec_fires c t \<longleftrightarrow>
     dt_minute t \<in> field_values (minute_field c) \<and> dt_hour t \<in> field_values (hour_field c) \<and>
     dt_month t \<in> field_values (month_field c) \<and>
     spec_day (day_field c) (weekday_field c) t"

definition read_expr :: "string \<Rightarrow> cron_spec option" where
  "read_expr e =
     (case py_split e of
        [mi, h, dmon, mo, dwk] \<Rightarrow>
          Some \<lparr>minute_field = read_field mi, hour_field = read_field h, day_field = read_field dmon,
                month_field = read_field mo, weekday_field = read_field dwk\<rparr>
      | _ \<Rightarrow> None)"

lemma cron_field_matches_values: "cron_field_matches f v \<longleftrightarrow> v \<in> field_values (read_field f)"
  by (auto simp: cron_field_matches_def read_field_def dvd_eq_mod_eq_0 split: option.splits)

lemma cron_weekday_matches_values:
  "cron_weekday_matches f v \<longleftrightarrow> v \<in> weekday_values (read_field f)"
  by (auto simp: cron_weekday_matches_def read_field_def dvd_eq_mod_eq_0 Let_def split: option.splits)

lemma read_field_AnyValue: "read_field f = AnyValue \<longleftrightarrow> f = ''*''"
  by (auto simp: read_field_def split: option.splits if_splits)

lemma cron_day_matches_spec:
  "cron_day_matches dmon (cron_field_matches dmon (dt_day t)) dwk (cron_weekday_matches dwk (cron_weekday t))
   \<longleftrightarrow> spec_day (read_field dmon) (read_field dwk) t"
  by (auto simp: cron_day_matches_def spec_day_def cron_weekday_def cron_field_matches_values
      cron_weekday_matches_values Let_def simp flip: read_field_AnyValue)

text \<open>C18: \<open>_cron_matches\<close> refines the abstract reading: an expression fires at a time exactly when it
  has five fields and the minute of that time, in UTC, is in the set of minutes they denote.\<close>

theorem cron_matches_refines_spec:
  "cron_matches e t \<longleftrightarrow> (case read_expr e of None \<Rightarrow> False | Some c \<Rightarrow> spec_fires c (minute_key t))"
  by (simp add: cron_matches_def read_expr_def spec_fires_def Let_def cron_day_matches_spec
      split: list.splits) (simp add: cron_field_matches_values)

text \<open>Firing depends on the scheduled time only through its UTC minute, whatever its seconds and
  whatever offset it is written with.\<close>

theorem cron_matches_same_minute:
  assumes "same_minute t t'"
  shows "cron_matches e t = cron_matches e t'"
proof -
  have *: "minute_key t = minute_key t'" using assms by (simp add: minute_key_eq_iff)
  show ?thesis unfolding cron_matches_def * ..
qed

theorem cron_matches_same_minute_witness:
  "cron_matches ''0 9 * * *'' \<lparr>wall_us = 32400000000, utcoffset_us = None\<rparr> =
   cron_matches ''0 9 * * *'' \<lparr>wall_us = 39600000001, utcoffset_us = Some 7200000000\<rparr>"
  by (rule cron_matches_same_minute) (simp add: same_minute_def instant_def normalize_time_def us_per_minute_def)

subsection \<open>Fields the code cannot read\<close>

lemma read_digits_bad_char:
  "c \<in> set s \<Longrightarrow> digit_value c = None \<Longrightarrow> c \<noteq> CHR ''_'' \<Longrightarrow> read_digits b acc ok s = None"
  by (induction s arbitrary: acc ok) (auto split: option.splits)

lemma set_split_sign:
  "c \<in> set s \<Longrightarrow> c \<notin> {CHR ''-'', CHR ''+''} \<Longrightarrow> c \<in> set (snd (split_sign s))"
  by (cases s) (auto simp: split_sign_def)

lemma set_tl_split_sign: "set (tl s) \<subseteq> set (snd (split_sign s))"
  by (cases s) (auto simp: split_sign_def)

lemma py_int_unreadable:
  assumes "c \<in> set (snd (split_sign (strip s)))" "digit_value c = None" "c \<noteq> CHR ''_''"
  shows "py_int s = None"
  using read_digits_bad_char [OF assms] by (simp add: py_int_def case_prod_beta)

lemma py_int_comma: "CHR '','' \<in> set (strip s) \<Longrightarrow> py_int s = None"
  by (rule py_int_unreadable [of "CHR '',''"]) (simp_all add: set_split_sign digit_value_def)

lemma py_int_inner_minus: "CHR ''-'' \<in> set (tl (strip s)) \<Longrightarrow> py_int s = None"
  using set_tl_split_sign by (intro py_int_unreadable [of "CHR ''-''"]) (auto simp: digit_value_def)

text \<open>A list (with a comma) or a range (a minus sign after the first character) in one field.\<close>

definition list_or_range :: "string \<Rightarrow> bool" where
  "list_or_range f \<longleftrightarrow>
     (\<forall>c \<in> set f. graphic c) \<and> (CHR '','' \<in> set f \<or> (\<not> prefix ''*/'' f \<and> CHR ''-'' \<in> set (tl f)))"

lemma list_or_range_not_star: "\<not> list_or_range ''*''"
  by (simp add: list_or_range_def)

lemma list_or_range_unreadable: "list_or_range f \<Longrightarrow> read_field f = Unreadable"
proof -
  assume a: "list_or_range f"
  then have d: "strip f = f" "strip (drop 2 f) = drop 2 f"
    by (auto simp: list_or_range_def intro!: strip_graphic dest: in_set_dropD)
  have star: "f \<noteq> ''*''" using a list_or_range_not_star by blast
  show ?thesis
  proof (cases "prefix ''*/'' f")
    case True
    then obtain r where "f = ''*/'' @ r" by (auto simp: prefix_def)
    then have "CHR '','' \<in> set (drop 2 f)" using a True by (auto simp: list_or_range_def)
    then show ?thesis using True star d by (simp add: read_field_def py_int_comma)
  next
    case False
    then have "py_int f = None"
      using a d by (auto simp: list_or_range_def intro: py_int_comma py_int_inner_minus)
    then show ?thesis using False star by (simp add: read_field_def)
  qed
qed

text \<open>An expression whose minute, hour or month field is a list or a range, or whose weekday field
  is one while the day of month is \<open>*\<close>, never fires: \<open>_cron_field_matches\<close> reads neither form. The
  check at creation, APScheduler's \<open>CronTrigger.from_crontab\<close>, accepts both.\<close>

theorem cron_list_or_range_never_fires:
  assumes "py_split e = [mi, h, dmon, mo, dwk]"
    and "list_or_range mi \<or> list_or_range h \<or> list_or_range mo \<or> (list_or_range dwk \<and> dmon = ''*'')"
  shows "\<not> cron_matches e t"
  using assms list_or_range_unreadable list_or_range_not_star
  by (auto simp: cron_matches_def Let_def cron_field_matches_values cron_weekday_matches_values
      cron_day_matches_def)

theorem cron_list_or_range_never_fires_witness:
  "\<forall>t. \<not> cron_matches ''0 9 * * 1-5'' t"
proof
  fix t
  have "py_split ''0 9 * * 1-5'' = [''0'', ''9'', ''*'', ''*'', ''1-5'']"
    by code_simp
  moreover have "list_or_range ''1-5''"
    by (simp add: list_or_range_def graphic_def)
  ultimately show "\<not> cron_matches ''0 9 * * 1-5'' t"
    by (intro cron_list_or_range_never_fires) auto
qed

end
