(* ===== verification/PublishedJobs.thy ===== *)
theory PublishedJobs
  imports Trigger Cron
begin

section \<open>Published jobs\<close>

text \<open>
  \<open>PublishedJobService\<close> of runner\_service/scheduler.py: creation, manual and scheduled triggers,
  the list of runs, and the pauses and resumptions that the lifecycle cascades ask for. Each
  operation runs in one transaction; the row locks of \<open>with_for_update\<close> make concurrent calls on
  the same published job take place one after the other, which is how sequences of calls are read
  here. \<open>CronTrigger.from_crontab\<close> of APScheduler is the parameter \<open>valid_cron\<close>, and the object
  \<open>script_renderer\<close> that a caller passes is the parameter \<open>render\<close>.
\<close>

datatype pj_error =
    PublishedJobNotFound
  | ScriptRenderNotFound uuid
  | InvalidSchedule string
  | ValueMustNotBeEmpty
  | UniqueViolation
  | RendererError

subsection \<open>Requests and results\<close>

definition validate_required_text :: "string \<Rightarrow> string option" where
  "validate_required_text value = opt_text (strip value)"

record create_request =
  cr_script_render_id :: uuid
  cr_page_check_id :: uuid
  cr_schedule_type :: string
  cr_schedule_expr :: string
  cr_trigger_source :: string
  cr_enabled :: bool

text \<open>The constructor of \<open>CreatePublishedJobRequest\<close> with its field validators.\<close>

definition create_published_job_request ::
  "uuid \<Rightarrow> uuid \<Rightarrow> string \<Rightarrow> string \<Rightarrow> string \<Rightarrow> bool \<Rightarrow> create_request option" where
  "create_published_job_request render_id check_id schedule_type schedule_expr trigger_source enabled =
     (case (validate_required_text schedule_type, validate_required_text schedule_expr,
            validate_required_text trigger_source) of
        (Some ty, Some ex, Some src) \<Rightarrow>
          Some \<lparr>cr_script_render_id = render_id, cr_page_check_id = check_id, cr_schedule_type = ty,
                cr_schedule_expr = ex, cr_trigger_source = src, cr_enabled = enabled\<rparr>
      | _ \<Rightarrow> None)"

record published_job_created =
  pjc_published_job_id :: uuid
  pjc_page_check_id :: uuid
  pjc_script_render_id :: uuid
  pjc_schedule_expr :: string
  pjc_state :: string
  pjc_asset_version :: "string option"

record trigger_accepted =
  ta_published_job_id :: uuid
  ta_job_run_id :: uuid
  ta_queued_job_id :: uuid
  ta_status :: string

record run_item =
  ri_id :: uuid
  ri_published_job_id :: uuid
  ri_execution_run_id :: "uuid option"
  ri_trigger_source :: string
  ri_run_status :: string
  ri_scheduled_at :: datetime
  ri_started_at :: "datetime option"
  ri_finished_at :: "datetime option"
  ri_failure_message :: "string option"

record runs_list =
  rl_published_job_id :: uuid
  rl_runs :: "run_item list"

subsection \<open>Creation\<close>

definition build_job_key :: "uuid \<Rightarrow> uuid \<Rightarrow> string" where
  "build_job_key page_check_id script_render_id =
     take 12 (uuid_hex page_check_id) @ ''_'' @ take 12 (uuid_hex script_render_id)"

lemma length_build_job_key [simp]: "length (build_job_key c r) = 25"
  by (simp add: build_job_key_def)

definition get_published_job :: "uuid \<Rightarrow> db \<Rightarrow> published_job option" where
  "get_published_job i d = find_row pj_id i (published_jobs d)"

definition get_script_render :: "uuid \<Rightarrow> db \<Rightarrow> script_render option" where
  "get_script_render i d = find_row sr_id i (script_renders d)"

definition render_metadata :: "script_render \<Rightarrow> pydict" where
  "render_metadata r = (case sr_render_metadata r of None \<Rightarrow> [] | Some m \<Rightarrow> m)"

definition new_published_job :: "uuid \<Rightarrow> create_request \<Rightarrow> script_render \<Rightarrow> published_job" where
  "new_published_job i payload r =
     \<lparr>pj_id = i,
      pj_job_key = build_job_key (cr_page_check_id payload) (cr_script_render_id payload),
      pj_page_check_id = cr_page_check_id payload,
      pj_script_render_id = Some (cr_script_render_id payload),
      pj_asset_version = optional_text (dget (render_metadata r) ''asset_version''),
      pj_runtime_policy =
        py_or (optional_text (dget (render_metadata r) ''runtime_policy'')) (cr_schedule_type payload),
      pj_schedule_expr = cr_schedule_expr payload,
      pj_timezone = ''UTC'',
      pj_state = (if cr_enabled payload then JobActive else JobPaused),
      pj_pause_reason = None, pj_paused_by_snapshot_id = None, pj_paused_by_asset_id = None,
      pj_paused_by_page_check_id = None\<rparr>"

text \<open>
  \<open>session.add\<close> and the commit: the unique index on \<open>job_key\<close> makes the flush fail, and the
  failed flush rolls the transaction back.
\<close>

definition insert_published_job :: "published_job \<Rightarrow> db_session \<Rightarrow> (pj_error + unit) \<times> db_session" where
  "insert_published_job pj s =
     (if pj_job_key pj \<in> set (map pj_job_key (published_jobs (working s)))
      then (Inl UniqueViolation, rollback s)
      else (Inr (), commit (modify (\<lambda>d. d\<lparr>published_jobs := published_jobs d @ [pj]\<rparr>) s)))"

definition create_published_job ::
  "(string \<Rightarrow> bool) \<Rightarrow> uuid \<Rightarrow> create_request \<Rightarrow> db_session \<Rightarrow>
    (pj_error + published_job_created) \<times> db_session" where
  "create_published_job valid_cron new_id payload s =
     (if \<not> valid_cron (cr_schedule_expr payload)
      then (Inl (InvalidSchedule (cr_schedule_expr payload)), s)
      else case get_script_render (cr_script_render_id payload) (working s) of
             None \<Rightarrow> (Inl (ScriptRenderNotFound (cr_script_render_id payload)), s)
           | Some r \<Rightarrow>
               (let pj = new_published_job new_id payload r in
                case insert_published_job pj s of
                  (Inl e, s') \<Rightarrow> (Inl e, s')
                | (Inr _, s') \<Rightarrow>
                    (Inr \<lparr>pjc_published_job_id = pj_id pj, pjc_page_check_id = pj_page_check_id pj,
                          pjc_script_render_id = cr_script_render_id payload,
                          pjc_schedule_expr = pj_schedule_expr pj,
                          pjc_state = published_job_state_value (pj_state pj),
                          pjc_asset_version = pj_asset_version pj\<rparr>, s')))"

definition matches_page_check :: "script_render \<Rightarrow> uuid \<Rightarrow> bool" where
  "matches_page_check r page_check_id \<longleftrightarrow>
     dget (render_metadata r) ''page_check_id'' = PStr (uuid_str page_check_id)"

definition latest_published_render :: "uuid \<Rightarrow> db \<Rightarrow> script_render option" where
  "latest_published_render plan_id d =
     first_by (\<lambda>r. (- instant (sr_created_at r), - uint (sr_id r)))
       (filter (\<lambda>r. sr_execution_plan_id r = Some plan_id \<and> sr_render_mode r = ''published'')
          (script_renders d))"

type_synonym script_renderer =
  "uuid \<Rightarrow> string \<Rightarrow> db_session \<Rightarrow> (pj_error + uuid) \<times> db_session"

text \<open>The second half of \<open>_get_or_render_published_script\<close>: render, load the row, attach the plan.\<close>

definition render_published_script ::
  "script_renderer \<Rightarrow> uuid \<Rightarrow> uuid \<Rightarrow> db_session \<Rightarrow> (pj_error + script_render) \<times> db_session" where
  "render_published_script render plan_id page_check_id s =
     (case render page_check_id ''published'' s of
        (Inl e, s1) \<Rightarrow> (Inl e, s1)
      | (Inr rid, s1) \<Rightarrow>
          (case get_script_render rid (working s1) of
             None \<Rightarrow> (Inl (ScriptRenderNotFound rid), s1)
           | Some r \<Rightarrow>
               (Inr (r\<lparr>sr_execution_plan_id := Some plan_id\<rparr>),
                commit (modify (\<lambda>d. d\<lparr>script_renders :=
                  upd_row sr_id rid (\<lambda>r. r\<lparr>sr_execution_plan_id := Some plan_id\<rparr>) (script_renders d)\<rparr>) s1))))"

definition get_or_render_published_script ::
  "script_renderer \<Rightarrow> uuid \<Rightarrow> uuid \<Rightarrow> db_session \<Rightarrow> (pj_error + script_render) \<times> db_session" where
  "get_or_render_published_script render plan_id page_check_id s =
     (case latest_published_render plan_id (working s) of
        None \<Rightarrow> render_published_script render plan_id page_check_id s
      | Some r \<Rightarrow>
          if matches_page_check r page_check_id then (Inr r, s)
          else render_published_script render plan_id page_check_id s)"

definition create_published_job_from_execution ::
  "(string \<Rightarrow> bool) \<Rightarrow> script_renderer \<Rightarrow> uuid \<Rightarrow> uuid \<Rightarrow> uuid \<Rightarrow> string \<Rightarrow> string \<Rightarrow> bool \<Rightarrow>
    db_session \<Rightarrow> (pj_error + published_job_created) \<times> db_session" where
  "create_published_job_from_execution valid_cron render new_id plan_id page_check_id schedule_expr
     trigger_source enabled s =
     (case get_or_render_published_script render plan_id page_check_id s of
        (Inl e, s1) \<Rightarrow> (Inl e, s1)
      | (Inr r, s1) \<Rightarrow>
          (case create_published_job_request (sr_id r) page_check_id ''cron'' schedule_expr
                  trigger_source enabled of
             None \<Rightarrow> (Inl ValueMustNotBeEmpty, s1)
           | Some payload \<Rightarrow> create_published_job valid_cron new_id payload s1))"

subsection \<open>Triggers and runs\<close>

definition trigger_published_job ::
  "dispatcher \<Rightarrow> uuid \<Rightarrow> uuid \<Rightarrow> datetime \<Rightarrow> uuid \<Rightarrow> string \<Rightarrow> db_session \<Rightarrow>
    (pj_error + trigger_accepted) \<times> db_session" where
  "trigger_published_job enqueue run_id queue_id now published_job_id trigger_source s =
     (case get_published_job published_job_id (working s) of
        None \<Rightarrow> (Inl PublishedJobNotFound, s)
      | Some pj \<Rightarrow>
          (let ((job_run, queued_job_id), s') =
                 trigger enqueue run_id queue_id now pj trigger_source None s
           in (Inr \<lparr>ta_published_job_id = pj_id pj, ta_job_run_id = jr_id job_run,
                    ta_queued_job_id = queued_job_id, ta_status = ''accepted''\<rparr>, s')))"

definition run_order :: "job_run \<Rightarrow> int \<times> int" where
  "run_order r = (- instant (jr_scheduled_at r), - uint (jr_id r))"

definition runs_of :: "uuid \<Rightarrow> db \<Rightarrow> job_run list" where
  "runs_of published_job_id d = filter (\<lambda>r. jr_published_job_id r = published_job_id) (job_runs d)"

definition run_item_of :: "job_run \<Rightarrow> run_item" where
  "run_item_of r =
     \<lparr>ri_id = jr_id r, ri_published_job_id = jr_published_job_id r,
      ri_execution_run_id = jr_execution_run_id r, ri_trigger_source = jr_trigger_source r,
      ri_run_status = jr_run_status r, ri_scheduled_at = jr_scheduled_at r,
      ri_started_at = jr_started_at r, ri_finished_at = jr_finished_at r,
      ri_failure_message = jr_failure_message r\<rparr>"

definition list_published_job_runs :: "uuid \<Rightarrow> db_session \<Rightarrow> pj_error + runs_list" where
  "list_published_job_runs published_job_id s =
     (case get_published_job published_job_id (working s) of
        None \<Rightarrow> Inl PublishedJobNotFound
      | Some pj \<Rightarrow>
          Inr \<lparr>rl_published_job_id = pj_id pj,
               rl_runs = map run_item_of (sort_key run_order (runs_of published_job_id (working s)))\<rparr>)"

definition already_triggered_for_minute :: "uuid \<Rightarrow> datetime \<Rightarrow> db \<Rightarrow> bool" where
  "already_triggered_for_minute published_job_id scheduled_at d =
     (case first_by run_order (runs_of published_job_id d) of
        None \<Rightarrow> False
      | Some latest \<Rightarrow> minute_key (jr_scheduled_at latest) = minute_key scheduled_at)"

definition trigger_scheduled_job ::
  "dispatcher \<Rightarrow> uuid \<Rightarrow> uuid \<Rightarrow> datetime \<Rightarrow> uuid \<Rightarrow> datetime \<Rightarrow> db_session \<Rightarrow> bool \<times> db_session" where
  "trigger_scheduled_job enqueue run_id queue_id now published_job_id scheduled_at s =
     (case get_published_job published_job_id (working s) of
        None \<Rightarrow> (False, s)
      | Some locked_job \<Rightarrow>
          if published_job_state_value (pj_state locked_job) \<noteq> published_job_state_value JobActive
          then (False, s)
          else if \<not> cron_matches (pj_schedule_expr locked_job) scheduled_at then (False, s)
          else if already_triggered_for_minute (pj_id locked_job) scheduled_at (working s)
          then (False, s)
          else (let (_, s') = trigger enqueue run_id queue_id now locked_job ''scheduler''
                                (Some scheduled_at) s
                in (True, s')))"

subsection \<open>Pause and resume\<close>

definition upd_published_job :: "uuid \<Rightarrow> (published_job \<Rightarrow> published_job) \<Rightarrow> db \<Rightarrow> db" where
  "upd_published_job i f d = d\<lparr>published_jobs := upd_row pj_id i f (published_jobs d)\<rparr>"

definition pause_row :: "string \<Rightarrow> uuid \<Rightarrow> published_job \<Rightarrow> published_job" where
  "pause_row reason snapshot_id j =
     j\<lparr>pj_state := JobPaused, pj_pause_reason := Some reason,
       pj_paused_by_snapshot_id := Some snapshot_id,
       pj_paused_by_page_check_id := Some (pj_page_check_id j)\<rparr>"

definition resume_row :: "published_job \<Rightarrow> published_job" where
  "resume_row j =
     j\<lparr>pj_state := JobActive, pj_pause_reason := None, pj_paused_by_snapshot_id := None,
       pj_paused_by_asset_id := None, pj_paused_by_page_check_id := None\<rparr>"

definition jobs_in_state :: "published_job_state \<Rightarrow> uuid list \<Rightarrow> db \<Rightarrow> published_job list" where
  "jobs_in_state st ids d =
     sort_key pj_id (filter (\<lambda>j. pj_id j \<in> set ids \<and> pj_state j = st) (published_jobs d))"

definition pause_published_jobs_by_ids ::
  "uuid list \<Rightarrow> uuid \<Rightarrow> string \<Rightarrow> bool \<Rightarrow> db_session \<Rightarrow> (pj_error + nat) \<times> db_session" where
  "pause_published_jobs_by_ids published_job_ids snapshot_id reason do_commit s =
     (case validate_required_text reason of
        None \<Rightarrow> (Inl ValueMustNotBeEmpty, s)
      | Some normalized_reason \<Rightarrow>
          (let deduped_ids = dedupe_uuids published_job_ids in
           if deduped_ids = [] then (Inr 0, s)
           else let jobs = jobs_in_state JobActive deduped_ids (working s) in
                if jobs = [] then (Inr 0, s)
                else let s' = modify (fold (\<lambda>j. upd_published_job (pj_id j)
                                  (pause_row normalized_reason snapshot_id)) jobs) s
                     in (Inr (length jobs), if do_commit then commit s' else s')))"

definition pause_jobs_for_retired_page_check ::
  "uuid \<Rightarrow> uuid \<Rightarrow> string \<Rightarrow> bool \<Rightarrow> db_session \<Rightarrow> (pj_error + nat) \<times> db_session" where
  "pause_jobs_for_retired_page_check page_check_id snapshot_id reason do_commit s =
     pause_published_jobs_by_ids
       (map pj_id (sort_key pj_id
          (filter (\<lambda>j. pj_page_check_id j = page_check_id \<and> pj_state j = JobActive)
             (published_jobs (working s)))))
       snapshot_id reason do_commit s"

definition resume_published_jobs_by_ids ::
  "uuid list \<Rightarrow> bool \<Rightarrow> db_session \<Rightarrow> nat \<times> db_session" where
  "resume_published_jobs_by_ids published_job_ids do_commit s =
     (let deduped_ids = dedupe_uuids published_job_ids in
      if deduped_ids = [] then (0, s)
      else let jobs = jobs_in_state JobPaused deduped_ids (working s) in
           if jobs = [] then (0, s)
           else let s' = modify (fold (\<lambda>j. upd_published_job (pj_id j) resume_row) jobs) s
                in (length jobs, if do_commit then commit s' else s'))"

subsection \<open>Pause and resume: what they do\<close>

definition with_published_jobs :: "(published_job list \<Rightarrow> published_job list) \<Rightarrow> db \<Rightarrow> db" where
  "with_published_jobs f d = d\<lparr>published_jobs := f (published_jobs d)\<rparr>"

definition job_ids_distinct :: "db \<Rightarrow> bool" where
  "job_ids_distinct d \<longleftrightarrow> distinct (map pj_id (published_jobs d))"

definition selected :: "uuid list \<Rightarrow> published_job_state \<Rightarrow> published_job \<Rightarrow> bool" where
  "selected ids st j \<longleftrightarrow> pj_id j \<in> set ids \<and> pj_state j = st"

definition update_selected ::
  "uuid list \<Rightarrow> published_job_state \<Rightarrow> (published_job \<Rightarrow> published_job) \<Rightarrow> published_job list \<Rightarrow>
    published_job list" where
  "update_selected ids st f = map (\<lambda>j. if selected ids st j then f j else j)"

lemma published_jobs_with [row_simps, simp]:
  "published_jobs (with_published_jobs f d) = f (published_jobs d)"
  "job_runs (with_published_jobs f d) = job_runs d"
  "queued_jobs (with_published_jobs f d) = queued_jobs d"
  by (simp_all add: with_published_jobs_def)

lemma row_ids [row_simps, simp]:
  "pj_id (pause_row r sn j) = pj_id j" "pj_id (resume_row j) = pj_id j"
  "pj_job_key (pause_row r sn j) = pj_job_key j" "pj_job_key (resume_row j) = pj_job_key j"
  "pj_state (pause_row r sn j) = JobPaused" "pj_state (resume_row j) = JobActive"
  by (simp_all add: pause_row_def resume_row_def)

lemma fold_upd_published_job:
  "fold (\<lambda>j. upd_published_job (pj_id j) f) js d =
     with_published_jobs (fold (\<lambda>k. upd_row pj_id k f) (map pj_id js)) d"
  by (induction js arbitrary: d) (simp_all add: with_published_jobs_def upd_published_job_def)

lemma length_jobs_in_state:
  "length (jobs_in_state st ids d) = length (filter (selected ids st) (published_jobs d))"
  by (simp add: jobs_in_state_def selected_def [abs_def])

lemma jobs_in_state_Nil:
  "jobs_in_state st ids d = [] \<longleftrightarrow> filter (selected ids st) (published_jobs d) = []"
  by (metis length_0_conv length_jobs_in_state)

lemma update_selected_none:
  "filter (selected ids st) js = [] \<Longrightarrow> update_selected ids st f js = js"
  by (auto simp: update_selected_def filter_empty_conv intro: map_idI)

lemma update_jobs_in_state:
  assumes "job_ids_distinct d" "\<And>j. pj_id (f j) = pj_id j"
  shows "fold (\<lambda>j. upd_published_job (pj_id j) f) (jobs_in_state st ids d) d =
    with_published_jobs (update_selected ids st f) d"
proof -
  let ?js = "published_jobs d"
  have dist: "distinct (map pj_id ?js)" using assms(1) by (simp add: job_ids_distinct_def)
  have set: "set (jobs_in_state st ids d) = {j \<in> set ?js. selected ids st j}"
    by (auto simp: jobs_in_state_def selected_def)
  have inj: "inj_on pj_id (set ?js)" using dist by (simp add: distinct_map)
  have "distinct (map pj_id (jobs_in_state st ids d))"
    using dist inj by (auto simp: distinct_map jobs_in_state_def intro: inj_on_subset)
  then have "fold (\<lambda>k. upd_row pj_id k f) (map pj_id (jobs_in_state st ids d)) ?js =
      map (\<lambda>j. if pj_id j \<in> pj_id ` {j \<in> set ?js. selected ids st j} then f j else j) ?js"
    by (simp add: fold_upd_row assms(2) set)
  also have "\<dots> = update_selected ids st f ?js"
    unfolding update_selected_def by (rule map_cong) (auto dest: inj_onD [OF inj])
  finally show ?thesis by (simp add: fold_upd_published_job with_published_jobs_def)
qed

lemma selected_dedupe [simp]: "selected (dedupe_uuids ids) st = selected ids st"
  by (auto simp: selected_def)

lemma update_selected_dedupe [simp]:
  "update_selected (dedupe_uuids ids) st f = update_selected ids st f"
  by (simp add: update_selected_def)

lemma with_published_jobs_id: "f (published_jobs d) = published_jobs d \<Longrightarrow> with_published_jobs f d = d"
  by (simp add: with_published_jobs_def)

text \<open>What a bulk state change leaves: the updated table, and a commit only when a row changed.\<close>

definition finish :: "bool \<Rightarrow> nat \<Rightarrow> db_session \<Rightarrow> db_session" where
  "finish do_commit n s = (if do_commit \<and> 0 < n then commit s else s)"

lemma working_finish [session_simps, simp]: "working (finish c n s) = working s"
  by (simp add: finish_def)

lemma bulk_update:
  assumes "job_ids_distinct (working s)" "\<And>j. pj_id (f j) = pj_id j"
    and "js = jobs_in_state st (dedupe_uuids ids) (working s)"
  shows "(if dedupe_uuids ids = [] then result 0 s
          else if js = [] then result 0 s
          else result (length js)
                (if c then commit (modify (fold (\<lambda>j. upd_published_job (pj_id j) f) js) s)
                 else modify (fold (\<lambda>j. upd_published_job (pj_id j) f) js) s)) =
    result (length (filter (selected ids st) (published_jobs (working s))))
     (finish c (length (filter (selected ids st) (published_jobs (working s))))
       (modify (with_published_jobs (update_selected ids st f)) s))"
proof (cases "filter (selected ids st) (published_jobs (working s)) = []")
  case True
  have "modify (with_published_jobs (update_selected ids st f)) s = s"
    using update_selected_none [OF True, of f] by (simp add: modify_def with_published_jobs_id)
  then show ?thesis
    using True assms(3) jobs_in_state_Nil [of st "dedupe_uuids ids" "working s"]
    by (simp add: finish_def)
next
  case False
  have "modify (fold (\<lambda>j. upd_published_job (pj_id j) f) js) s =
      modify (with_published_jobs (update_selected ids st f)) s"
    using update_jobs_in_state [OF assms(1,2)] assms(3) by (simp add: modify_def)
  moreover have "ids \<noteq> []" using False by (auto simp: selected_def)
  ultimately show ?thesis
    using False assms(3) jobs_in_state_Nil [of st "dedupe_uuids ids" "working s"]
      length_jobs_in_state [of st "dedupe_uuids ids" "working s"]
    by (auto simp: finish_def)
qed

lemma pause_eq:
  assumes "job_ids_distinct (working s)" "validate_required_text reason = Some r"
  shows "pause_published_jobs_by_ids ids sn reason c s =
    (let n = length (filter (selected ids JobActive) (published_jobs (working s)))
     in (Inr n, finish c n
           (modify (with_published_jobs (update_selected ids JobActive (pause_row r sn))) s)))"
  unfolding pause_published_jobs_by_ids_def assms(2) option.case Let_def
  by (rule bulk_update [OF assms(1) _ refl, where result = "\<lambda>n s'. (Inr n, s')"]) simp

lemma resume_eq:
  assumes "job_ids_distinct (working s)"
  shows "resume_published_jobs_by_ids ids c s =
    (let n = length (filter (selected ids JobPaused) (published_jobs (working s)))
     in (n, finish c n (modify (with_published_jobs (update_selected ids JobPaused resume_row)) s)))"
  unfolding resume_published_jobs_by_ids_def Let_def
  by (rule bulk_update [OF assms _ refl, where result = Pair]) simp

subsection \<open>A concrete store\<close>

definition sample_job :: "uuid \<Rightarrow> published_job" where
  "sample_job i =
     \<lparr>pj_id = i, pj_job_key = uuid_str i, pj_page_check_id = 5, pj_script_render_id = Some 6,
      pj_asset_version = None, pj_runtime_policy = ''published'', pj_schedule_expr = ''*/5 * * * *'',
      pj_timezone = ''UTC'', pj_state = JobActive, pj_pause_reason = None,
      pj_paused_by_snapshot_id = None, pj_paused_by_asset_id = None,
      pj_paused_by_page_check_id = None\<rparr>"

definition sample_db :: db where
  "sample_db = empty_db\<lparr>published_jobs := [sample_job 1, sample_job 2]\<rparr>"

lemma sample_db_simps [simp]:
  "published_jobs sample_db = [sample_job 1, sample_job 2]"
  "job_runs sample_db = []" "queued_jobs sample_db = []" "script_renders sample_db = []"
  "job_ids_distinct sample_db"
  by (simp_all add: sample_db_def sample_job_def job_ids_distinct_def empty_db_def)

lemma strip_gone [simp]: "strip ''gone'' = ''gone''"
  by (rule strip_graphic) (simp add: graphic_def)

text \<open>Pausing by ids reports the number of active jobs among them, marks exactly those rows as
  paused by the snapshot with the stripped reason and leaves every other row and table as it was;
  the transaction is committed only when asked for and when a row changed.\<close>

theorem pause_published_jobs_spec:
  assumes "job_ids_distinct (working s)" "strip reason \<noteq> []"
  shows "pause_published_jobs_by_ids ids sn reason c s =
    (let n = length (filter (selected ids JobActive) (published_jobs (working s)));
         d = (working s)\<lparr>published_jobs :=
                map (\<lambda>j. if pj_id j \<in> set ids \<and> pj_state j = JobActive
                         then j\<lparr>pj_state := JobPaused, pj_pause_reason := Some (strip reason),
                                pj_paused_by_snapshot_id := Some sn,
                                pj_paused_by_page_check_id := Some (pj_page_check_id j)\<rparr>
                         else j) (published_jobs (working s))\<rparr>
     in (Inr n, \<lparr>committed = (if c \<and> 0 < n then d else committed s), working = d\<rparr>))"
proof -
  have v: "validate_required_text reason = Some (strip reason)"
    using assms(2) by (simp add: validate_required_text_def opt_text_def)
  show ?thesis
    using pause_eq [OF assms(1) v]
    by (simp add: Let_def finish_def commit_def modify_def with_published_jobs_def
        update_selected_def selected_def pause_row_def)
qed

lemma sample_ids [simp]: "job_ids_distinct (working (open_session sample_db))"
  by (simp add: open_session_def)

lemma gone_valid: "validate_required_text ''gone'' = Some ''gone''"
  by (simp add: validate_required_text_def opt_text_def)

theorem pause_published_jobs_spec_witness:
  "fst (pause_published_jobs_by_ids [1, 3, 1] 9 ''gone'' True (open_session sample_db)) = Inr 1"
  using pause_published_jobs_spec [of "open_session sample_db" "''gone''" "[1, 3, 1]" 9 True]
  by (simp add: Let_def selected_def sample_job_def)

text \<open>Pausing twice is pausing once: the second call finds no active job, reports zero and changes
  nothing, whatever its snapshot and reason are.\<close>

theorem pause_published_jobs_idempotent:
  assumes "job_ids_distinct (working s)" "strip reason \<noteq> []" "strip reason' \<noteq> []"
    and "pause_published_jobs_by_ids ids sn reason c s = (Inr n, s')"
  shows "pause_published_jobs_by_ids ids sn' reason' c' s' = (Inr 0, s')"
proof -
  have v: "validate_required_text reason = Some (strip reason)"
    "validate_required_text reason' = Some (strip reason')"
    using assms(2,3) by (simp_all add: validate_required_text_def opt_text_def)
  have w: "working s' =
      with_published_jobs (update_selected ids JobActive (pause_row (strip reason) sn)) (working s)"
    using assms(4) by (auto simp: pause_eq [OF assms(1) v(1)] Let_def)
  have "map pj_id (published_jobs (working s')) = map pj_id (published_jobs (working s))"
    by (simp add: w update_selected_def)
  then have d: "job_ids_distinct (working s')" using assms(1) by (simp add: job_ids_distinct_def)
  have none: "filter (selected ids JobActive) (published_jobs (working s')) = []"
    by (auto simp: w update_selected_def selected_def filter_empty_conv)
  then have "modify (with_published_jobs (update_selected ids JobActive f)) s' = s'" for f
    by (simp add: modify_def with_published_jobs_id update_selected_none)
  then show ?thesis
    by (simp add: pause_eq [OF d v(2)] none finish_def)
qed

theorem pause_published_jobs_idempotent_witness:
  "fst (pause_published_jobs_by_ids [1, 2] 8 ''gone'' True
     (snd (pause_published_jobs_by_ids [1, 2] 9 ''gone'' True (open_session sample_db)))) = Inr 0"
proof -
  obtain s' where p: "pause_published_jobs_by_ids [1, 2] 9 ''gone'' True (open_session sample_db) = (Inr 2, s')"
    using pause_eq [OF sample_ids gone_valid, of "[1, 2]" 9 True]
    by (simp add: Let_def selected_def sample_job_def)
  then show ?thesis
    by (simp add: pause_published_jobs_idempotent [OF _ _ _ p])
qed

text \<open>Resuming by ids reports the number of paused jobs among them, makes exactly those active,
  clears all four pause markers, and leaves every other row and table as it was.\<close>

theorem resume_published_jobs_spec:
  assumes "job_ids_distinct (working s)"
  shows "resume_published_jobs_by_ids ids c s =
    (let n = length (filter (selected ids JobPaused) (published_jobs (working s)));
         d = (working s)\<lparr>published_jobs :=
                map (\<lambda>j. if pj_id j \<in> set ids \<and> pj_state j = JobPaused
                         then j\<lparr>pj_state := JobActive, pj_pause_reason := None,
                                pj_paused_by_snapshot_id := None, pj_paused_by_asset_id := None,
                                pj_paused_by_page_check_id := None\<rparr>
                         else j) (published_jobs (working s))\<rparr>
     in (n, \<lparr>committed = (if c \<and> 0 < n then d else committed s), working = d\<rparr>))"
  using resume_eq [OF assms]
  by (simp add: Let_def finish_def commit_def modify_def with_published_jobs_def
      update_selected_def selected_def resume_row_def)

theorem resume_published_jobs_spec_witness:
  "fst (resume_published_jobs_by_ids [1, 2] True (open_session sample_db)) = 0"
  using resume_published_jobs_spec [of "open_session sample_db" "[1, 2]" True]
  by (simp add: Let_def selected_def sample_job_def)

definition unmarked :: "published_job \<Rightarrow> bool" where
  "unmarked j \<longleftrightarrow> pj_pause_reason j = None \<and> pj_paused_by_snapshot_id j = None \<and>
     pj_paused_by_asset_id j = None \<and> pj_paused_by_page_check_id j = None"

lemma resume_pause_row: "unmarked j \<Longrightarrow> pj_state j = JobActive \<Longrightarrow> resume_row (pause_row r sn j) = j"
  by (simp add: resume_row_def pause_row_def unmarked_def)

text \<open>A resumption of the same ids undoes a pause: when none of the jobs was paused before and the
  active ones carry no marker, the database is back as it was, and both calls report the same
  number of jobs.\<close>

theorem resume_undoes_pause:
  assumes "job_ids_distinct (working s)" "strip reason \<noteq> []"
    and "\<forall>j \<in> set (published_jobs (working s)). pj_id j \<in> set ids \<longrightarrow>
           pj_state j \<noteq> JobPaused \<and> (pj_state j = JobActive \<longrightarrow> unmarked j)"
    and "pause_published_jobs_by_ids ids sn reason c s = (Inr n, s1)"
  shows "\<exists>s2. resume_published_jobs_by_ids ids c' s1 = (n, s2) \<and> working s2 = working s"
proof -
  let ?js = "published_jobs (working s)" and ?p = "pause_row (strip reason) sn"
  have v: "validate_required_text reason = Some (strip reason)"
    using assms(2) by (simp add: validate_required_text_def opt_text_def)
  have w: "working s1 = with_published_jobs (update_selected ids JobActive ?p) (working s)"
    and n: "n = length (filter (selected ids JobActive) ?js)"
    using assms(4) by (auto simp: pause_eq [OF assms(1) v] Let_def)
  have "map pj_id (published_jobs (working s1)) = map pj_id ?js"
    by (simp add: w update_selected_def)
  then have d: "job_ids_distinct (working s1)" using assms(1) by (simp add: job_ids_distinct_def)
  have undo: "update_selected ids JobPaused resume_row (update_selected ids JobActive ?p ?js) = ?js"
    using assms(3) by (auto simp: update_selected_def selected_def resume_pause_row intro!: map_idI)
  have "filter (selected ids JobPaused) (map (\<lambda>j. if selected ids JobActive j then ?p j else j) js) =
      map ?p (filter (selected ids JobActive) js)" if "set js \<subseteq> set ?js" for js
    using that assms(3) by (induction js) (auto simp: selected_def)
  then have m: "length (filter (selected ids JobPaused) (update_selected ids JobActive ?p ?js)) = n"
    by (simp add: update_selected_def n)
  show ?thesis
    using undo by (simp add: resume_eq [OF d] m w Let_def with_published_jobs_def)
qed

theorem resume_undoes_pause_witness:
  "\<exists>s1 s2. pause_published_jobs_by_ids [2, 1] 9 ''gone'' True (open_session sample_db) = (Inr 2, s1) \<and>
     resume_published_jobs_by_ids [2, 1] True s1 = (2, s2) \<and>
     working s2 = sample_db"
proof -
  obtain s1 where p: "pause_published_jobs_by_ids [2, 1] 9 ''gone'' True (open_session sample_db) = (Inr 2, s1)"
    using pause_eq [OF sample_ids gone_valid, of "[2, 1]" 9 True]
    by (simp add: Let_def selected_def sample_job_def)
  have "\<exists>s2. resume_published_jobs_by_ids [2, 1] True s1 = (2, s2) \<and>
      working s2 = working (open_session sample_db)"
    by (rule resume_undoes_pause [OF _ _ _ p]) (auto simp: sample_job_def unmarked_def)
  with p show ?thesis by auto
qed

subsection \<open>Creation: what it leaves\<close>

text \<open>Creating a published job either reports an error and leaves the committed database as it was,
  or commits exactly one new row: its key is new, its expression passed APScheduler's check, its
  state is the requested one, no pause marker is set, and its script render exists.\<close>

theorem create_published_job_outcome:
  assumes "create_published_job valid_cron i payload s = (res, s')"
  shows "case res of
      Inl e \<Rightarrow> committed s' = committed s
    | Inr c \<Rightarrow> \<exists>pj. pjc_published_job_id c = i \<and> pj_id pj = i \<and>
        working s' = (working s)\<lparr>published_jobs := published_jobs (working s) @ [pj]\<rparr> \<and>
        committed s' = working s' \<and>
        pj_job_key pj \<notin> pj_job_key ` set (published_jobs (working s)) \<and>
        valid_cron (pj_schedule_expr pj) \<and> pj_page_check_id pj = cr_page_check_id payload \<and>
        (pj_state pj = JobActive \<longleftrightarrow> cr_enabled payload) \<and> unmarked pj \<and>
        cr_script_render_id payload \<in> keys_of sr_id (script_renders (working s))"
proof (cases res)
  case (Inl e)
  with assms show ?thesis
    by (auto simp: create_published_job_def insert_published_job_def Let_def
        split: option.splits if_splits)
next
  case (Inr c)
  let ?new = "new_published_job i payload"
  obtain r where r: "get_script_render (cr_script_render_id payload) (working s) = Some r"
    using assms Inr by (auto simp: create_published_job_def split: if_splits option.splits)
  then have "cr_script_render_id payload \<in> keys_of sr_id (script_renders (working s))"
    unfolding get_script_render_def by (rule find_row_keys)
  moreover have "pj_id (?new r) = i" "unmarked (?new r)"
    "pj_state (?new r) = JobActive \<longleftrightarrow> cr_enabled payload"
    "pj_schedule_expr (?new r) = cr_schedule_expr payload"
    "pj_page_check_id (?new r) = cr_page_check_id payload"
    by (simp_all add: new_published_job_def unmarked_def)
  ultimately show ?thesis
    using assms Inr r
    by (auto simp: create_published_job_def insert_published_job_def Let_def
        split: if_splits intro!: exI [of _ "?new r"])
qed

definition sample_render :: script_render where
  "sample_render =
     \<lparr>sr_id = 6, sr_execution_artifact_id = None, sr_execution_plan_id = None,
      sr_render_mode = ''published'', sr_render_result = RenderSuccess, sr_script_body = Some [],
      sr_render_metadata = None, sr_created_at = datetime_min_utc\<rparr>"

definition sample_request :: create_request where
  "sample_request =
     \<lparr>cr_script_render_id = 6, cr_page_check_id = 5, cr_schedule_type = ''cron'',
      cr_schedule_expr = ''*/5 * * * *'', cr_trigger_source = ''platform'', cr_enabled = True\<rparr>"

theorem create_published_job_outcome_witness:
  "\<exists>c s'. create_published_job (\<lambda>_. True) 3 sample_request
       (open_session (sample_db\<lparr>script_renders := [sample_render]\<rparr>)) = (Inr c, s') \<and>
     length (published_jobs (committed s')) = 3"
proof -
  let ?s = "open_session (sample_db\<lparr>script_renders := [sample_render]\<rparr>)"
  have key: "build_job_key 5 6 \<noteq> uuid_str u" for u
    proof
    assume "build_job_key 5 6 = uuid_str u"
    then have "length (build_job_key 5 6) = length (uuid_str u)" by (rule arg_cong)
    then show False unfolding length_build_job_key length_uuid_str by simp
  qed
  obtain c s' where r: "create_published_job (\<lambda>_. True) 3 sample_request ?s = (Inr c, s')"
    using key
    by (simp add: create_published_job_def sample_request_def get_script_render_def find_row_Cons
        sample_render_def insert_published_job_def Let_def new_published_job_def sample_job_def
        split: if_splits)
  show ?thesis
    using create_published_job_outcome [OF r] r by auto
qed

end
