(* ===== verification/Scheduling.thy ===== *)
theory Scheduling
  imports PublishedJobs "HOL-Library.Multiset"
begin

section \<open>Scheduled triggers and the runs of a published job\<close>

text \<open>
  What the triggers of \<open>PublishedJobService\<close> guarantee over time: one run per minute that the
  expression matches, runs and queued jobs that name each other, the order of the run list, and
  the invariant of the job tables over every sequence of the service's operations.
\<close>

subsection \<open>The last run\<close>

definition run_minute :: "job_run \<Rightarrow> int" where
  "run_minute r = instant (jr_scheduled_at r) div us_per_minute"

definition minute_of :: "datetime \<Rightarrow> int" where
  "minute_of t = instant t div us_per_minute"

lemma same_minute_key: "minute_key (jr_scheduled_at r) = minute_key t \<longleftrightarrow> run_minute r = minute_of t"
  by (simp add: minute_key_eq_iff same_minute_def run_minute_def minute_of_def)

definition runs_until :: "uuid \<Rightarrow> datetime \<Rightarrow> db \<Rightarrow> bool" where
  "runs_until i t d \<longleftrightarrow> (\<forall>r \<in> set (runs_of i d). instant (jr_scheduled_at r) \<le> instant t)"

lemma latest_run_max:
  "first_by run_order rs = Some r \<Longrightarrow> x \<in> set rs \<Longrightarrow>
    instant (jr_scheduled_at x) \<le> instant (jr_scheduled_at r)"
  using first_by_Some(2) [of run_order rs r] by (auto simp: run_order_def)

text \<open>When no run lies after \<open>t\<close>, looking at the last run only is looking at all of them.\<close>

lemma already_triggered_iff:
  assumes "runs_until i t d"
  shows "already_triggered_for_minute i t d \<longleftrightarrow> minute_of t \<in> run_minute ` set (runs_of i d)"
proof (cases "first_by run_order (runs_of i d)")
  case None
  then have "runs_of i d = []" by simp
  then show ?thesis by (simp add: already_triggered_for_minute_def first_by_def)
next
  case (Some r)
  have r: "r \<in> set (runs_of i d)" using first_by_Some(1) [OF Some] .
  have "run_minute r = minute_of t" if x: "x \<in> set (runs_of i d)" "run_minute x = minute_of t" for x
  proof -
    have "run_minute x \<le> run_minute r"
      using latest_run_max [OF Some x(1)] unfolding run_minute_def us_per_minute_def
      by (intro zdiv_mono1) simp_all
    moreover have "run_minute r \<le> minute_of t"
      using assms r unfolding runs_until_def run_minute_def minute_of_def us_per_minute_def
      by (intro zdiv_mono1) simp_all
    ultimately show ?thesis using x(2) by simp
  qed
  then show ?thesis
    using r by (auto simp: already_triggered_for_minute_def Some same_minute_key intro!: rev_image_eqI [of r])
qed

subsection \<open>One scheduled trigger\<close>

definition eligible :: "uuid \<Rightarrow> datetime \<Rightarrow> db \<Rightarrow> bool" where
  "eligible i t d \<longleftrightarrow>
     (\<exists>pj. get_published_job i d = Some pj \<and> pj_state pj = JobActive \<and>
        cron_matches (pj_schedule_expr pj) t)"

lemma published_job_state_value_active [simp]:
  "published_job_state_value st = ''active'' \<longleftrightarrow> st = JobActive"
  by (cases st) simp_all

lemma get_published_job_id: "get_published_job i d = Some pj \<Longrightarrow> pj_id pj = i"
  by (auto simp: get_published_job_def dest: find_row_Some_key)

lemma trigger_scheduled_cases:
  "trigger_scheduled_job enq rid qid now i t s =
     (if eligible i t (working s) \<and> \<not> already_triggered_for_minute i t (working s)
      then (True, snd (trigger enq rid qid now (the (get_published_job i (working s)))
                        ''scheduler'' (Some t) s))
      else (False, s))"
  by (auto simp: trigger_scheduled_job_def eligible_def case_prod_beta Let_def
      dest: get_published_job_id split: option.splits)

text \<open>A scheduled callback triggers exactly when the job exists, is active, its expression matches
  the time and the latest run is not of that minute; otherwise the session is untouched.\<close>

theorem trigger_scheduled_job_iff:
  "trigger_scheduled_job enq rid qid now i t s = (b, s') \<Longrightarrow>
    (b \<longleftrightarrow> (\<exists>pj. get_published_job i (working s) = Some pj \<and> pj_state pj = JobActive \<and>
             cron_matches (pj_schedule_expr pj) t \<and>
             \<not> already_triggered_for_minute i t (working s))) \<and>
    (\<not> b \<longrightarrow> s' = s)"
  by (auto simp: trigger_scheduled_cases eligible_def split: if_splits)

lemma runs_of_append:
  "runs_of i (d\<lparr>job_runs := rs @ [r], queued_jobs := qs\<rparr>) =
     filter (\<lambda>r. jr_published_job_id r = i) rs @ (if jr_published_job_id r = i then [r] else [])"
  by (simp add: runs_of_def)

definition fresh_ids :: "uuid \<Rightarrow> uuid \<Rightarrow> db \<Rightarrow> bool" where
  "fresh_ids rid qid d \<longleftrightarrow> rid \<notin> keys_of jr_id (job_runs d) \<and> qid \<notin> keys_of qj_id (queued_jobs d)"

text \<open>The effect of one scheduled callback on what later callbacks look at.\<close>

lemma trigger_scheduled_effect:
  assumes "trigger_scheduled_job sql_enqueue rid qid now i t s = (b, s')"
    and "fresh_ids rid qid (working s)" "runs_until i t (working s)"
  shows "run_minute ` set (runs_of i (working s')) =
      run_minute ` set (runs_of i (working s)) \<union>
        (if eligible i t (working s) then {minute_of t} else {})"
    and "distinct (map run_minute (runs_of i (working s))) \<Longrightarrow>
      distinct (map run_minute (runs_of i (working s')))"
    and "runs_until i t (working s')"
    and "published_jobs (working s') = published_jobs (working s)"
    and "keys_of jr_id (job_runs (working s')) \<subseteq> insert rid (keys_of jr_id (job_runs (working s)))"
    and "keys_of qj_id (queued_jobs (working s')) \<subseteq> insert qid (keys_of qj_id (queued_jobs (working s)))"
proof -
  let ?d = "working s" and ?pj = "the (get_published_job i (working s))"
  let ?go = "eligible i t ?d \<and> \<not> already_triggered_for_minute i t ?d"
  note cases = assms(1) [unfolded trigger_scheduled_cases]
  have pj: "pj_id ?pj = i" if ?go
    using that by (auto simp: eligible_def dest: get_published_job_id)
  obtain run q s1 where tr: "trigger sql_enqueue rid qid now ?pj ''scheduler'' (Some t) s = ((run, q), s1)"
    by (metis prod.exhaust)
  have fr: "rid \<notin> keys_of jr_id (job_runs ?d)" "qid \<notin> keys_of qj_id (queued_jobs ?d)"
    using assms(2) by (auto simp: fresh_ids_def)
  from sql.trigger_rows [OF tr fr] obtain j where
    w1: "working s1 = ?d\<lparr>job_runs := job_runs ?d @ [run], queued_jobs := queued_jobs ?d @ [j]\<rparr>"
    and run: "run = (trigger_job_run rid ?pj ''scheduler'' t)\<lparr>jr_queued_job_id := Some q\<rparr>"
    and j: "qj_id j = q" by auto
  have q: "q = qid" using tr by (auto simp: trigger_def Let_def sql_enqueue_def split: prod.splits)
  have rr: "jr_published_job_id run = pj_id ?pj" "jr_scheduled_at run = t" "jr_id run = rid"
    by (simp_all add: run trigger_job_run_def)
  then have rm: "run_minute run = minute_of t" by (simp add: run_minute_def minute_of_def)
  have s': "s' = (if ?go then s1 else s)" using cases tr by (auto split: if_splits)
  have runs: "runs_of i (working s1) = runs_of i ?d @ [run]" if ?go
    using pj [OF that] rr by (simp add: w1 runs_of_def)
  note already = already_triggered_iff [OF assms(3)]
  show "run_minute ` set (runs_of i (working s')) = run_minute ` set (runs_of i ?d) \<union>
      (if eligible i t ?d then {minute_of t} else {})"
    using runs already rm s' by auto
  show "distinct (map run_minute (runs_of i ?d)) \<Longrightarrow> distinct (map run_minute (runs_of i (working s')))"
    using runs already rm s' by auto
  show "runs_until i t (working s')"
    using runs assms(3) rr(2) s' by (auto simp: runs_until_def)
  show "published_jobs (working s') = published_jobs ?d" using w1 s' by simp
  show "keys_of jr_id (job_runs (working s')) \<subseteq> insert rid (keys_of jr_id (job_runs ?d))"
    using w1 rr(3) s' by auto
  show "keys_of qj_id (queued_jobs (working s')) \<subseteq> insert qid (keys_of qj_id (queued_jobs ?d))"
    using w1 j q s' by auto
qed

subsection \<open>A sequence of scheduled triggers\<close>

text \<open>
  The callbacks of the scheduler for one published job: each with the keys of the rows it would
  make, its clock reading and its scheduled time. The result lists which of them triggered.
\<close>

type_synonym tick = "uuid \<times> uuid \<times> datetime \<times> datetime"

definition tick_time :: "tick \<Rightarrow> datetime" where
  "tick_time k = snd (snd (snd k))"

fun run_ticks :: "uuid \<Rightarrow> tick list \<Rightarrow> db_session \<Rightarrow> bool list \<times> db_session" where
  "run_ticks i [] s = ([], s)"
| "run_ticks i ((rid, qid, now, t) # ks) s =
     (let (b, s1) = trigger_scheduled_job sql_enqueue rid qid now i t s;
          (bs, s2) = run_ticks i ks s1
      in (b # bs, s2))"

definition ticks_fresh :: "tick list \<Rightarrow> db \<Rightarrow> bool" where
  "ticks_fresh ks d \<longleftrightarrow>
     distinct (map fst ks) \<and> distinct (map (fst \<circ> snd) ks) \<and>
     set (map fst ks) \<inter> keys_of jr_id (job_runs d) = {} \<and>
     set (map (fst \<circ> snd) ks) \<inter> keys_of qj_id (queued_jobs d) = {}"

definition ticks_ordered :: "tick list \<Rightarrow> bool" where
  "ticks_ordered ks \<longleftrightarrow> sorted (map (instant \<circ> tick_time) ks)"

lemma disjoint_step:
  "insert x X \<inter> K = {} \<Longrightarrow> K' \<subseteq> insert x K \<Longrightarrow> x \<notin> X \<Longrightarrow> X \<inter> K' = {}"
  by auto

lemma eligible_cong:
  "published_jobs d = published_jobs d' \<Longrightarrow> eligible i t d = eligible i t d'"
  by (simp add: eligible_def get_published_job_def)

lemma run_ticks_runs:
  assumes "run_ticks i ks s = (bs, s')" "ticks_fresh ks (working s)" "ticks_ordered ks"
    and "\<forall>k \<in> set ks. runs_until i (tick_time k) (working s)"
    and "distinct (map run_minute (runs_of i (working s)))"
  shows "distinct (map run_minute (runs_of i (working s'))) \<and>
    run_minute ` set (runs_of i (working s')) =
      run_minute ` set (runs_of i (working s)) \<union>
      (minute_of \<circ> tick_time) ` set (filter (\<lambda>k. eligible i (tick_time k) (working s)) ks)"
  using assms
proof (induction ks arbitrary: s bs)
  case Nil
  then show ?case by auto
next
  case (Cons k ks)
  obtain rid qid now t where k: "k = (rid, qid, now, t)" by (metis prod_cases4)
  then have kt: "tick_time k = t" by (simp add: tick_time_def)
  obtain b s1 where one: "trigger_scheduled_job sql_enqueue rid qid now i t s = (b, s1)"
    by fastforce
  then obtain bs' where rest: "run_ticks i ks s1 = (bs', s')"
    using Cons.prems(1) k by (auto split: prod.splits)
  have fr: "fresh_ids rid qid (working s)"
    using Cons.prems(2) k by (auto simp: ticks_fresh_def fresh_ids_def)
  have until: "runs_until i t (working s)" using Cons.prems(4) kt by simp
  note eff = trigger_scheduled_effect [OF one fr until]
  have later: "instant t \<le> instant (tick_time k')" if "k' \<in> set ks" for k'
    using Cons.prems(3) that kt by (simp add: ticks_ordered_def)
  have "ticks_fresh ks (working s1)"
    using Cons.prems(2) disjoint_step [OF _ eff(5)] disjoint_step [OF _ eff(6)] k
    by (simp add: ticks_fresh_def)
  moreover have "ticks_ordered ks"
    using Cons.prems(3) by (simp add: ticks_ordered_def)
  moreover have "\<forall>k' \<in> set ks. runs_until i (tick_time k') (working s1)"
    using eff(3) later by (fastforce simp: runs_until_def)
  moreover have "distinct (map run_minute (runs_of i (working s1)))"
    using eff(2) Cons.prems(5) by blast
  ultimately have IH: "distinct (map run_minute (runs_of i (working s'))) \<and>
      run_minute ` set (runs_of i (working s')) = run_minute ` set (runs_of i (working s1)) \<union>
      (minute_of \<circ> tick_time) ` set (filter (\<lambda>k. eligible i (tick_time k) (working s1)) ks)"
    by (rule Cons.IH [OF rest])
  have el: "eligible i u (working s1) = eligible i u (working s)" for u
    using eff(4) by (rule eligible_cong)
  show ?case
    using IH eff(1) kt by (simp add: el)
qed

text \<open>C1: the callbacks of the scheduler, in the order of their times, give a published job exactly one
  run for every minute in which one of them found it eligible, however often the callback of a
  minute is repeated, and never two runs in one minute.\<close>

theorem scheduled_ticks_once_per_minute:
  assumes "run_ticks i ks s = (bs, s')" "ticks_fresh ks (working s)" "ticks_ordered ks"
    and "\<forall>k \<in> set ks. runs_until i (tick_time k) (working s)"
    and "distinct (map run_minute (runs_of i (working s)))"
    and "eligible i t (working s)" "t \<in> tick_time ` set ks"
  shows "card {r \<in> set (runs_of i (working s')). run_minute r = minute_of t} = 1"
proof -
  let ?rs = "runs_of i (working s')"
  have d: "inj_on run_minute (set ?rs)" and m: "minute_of t \<in> run_minute ` set ?rs"
    using run_ticks_runs [OF assms(1-5)] assms(6,7) by (force simp: distinct_map)+
  then obtain r where r: "r \<in> set ?rs" "run_minute r = minute_of t" by auto
  then have "{x \<in> set ?rs. run_minute x = minute_of t} = {r}"
    using d by (auto simp: inj_on_def)
  then show ?thesis by simp
qed

definition minutes_after_epoch :: "int \<Rightarrow> datetime" where
  "minutes_after_epoch m = \<lparr>wall_us = 60000000 * m, utcoffset_us = Some 0\<rparr>"

lemma instant_minutes_after_epoch [simp]: "instant (minutes_after_epoch m) = 60000000 * m"
  by (simp add: minutes_after_epoch_def instant_def normalize_time_def)

definition sample_ticks :: "tick list" where
  "sample_ticks =
     [(11, 21, minutes_after_epoch 5, minutes_after_epoch 5),
      (12, 22, minutes_after_epoch 5, minutes_after_epoch 5),
      (13, 23, minutes_after_epoch 6, minutes_after_epoch 6)]"

lemma sample_eligible: "eligible 1 (minutes_after_epoch 5) sample_db"
proof -
  have "cron_matches ''*/5 * * * *'' (minutes_after_epoch 5)" by code_simp
  then show ?thesis
    by (simp add: eligible_def get_published_job_def find_row_Cons sample_job_def)
qed

theorem scheduled_ticks_once_per_minute_witness:
  "card {r \<in> set (runs_of 1 (working (snd (run_ticks 1 sample_ticks (open_session sample_db))))).
     run_minute r = minute_of (minutes_after_epoch 5)} = 1"
proof -
  obtain bs s' where r: "run_ticks 1 sample_ticks (open_session sample_db) = (bs, s')" by fastforce
  have "card {r \<in> set (runs_of 1 (working s')). run_minute r = minute_of (minutes_after_epoch 5)} = 1"
    by (rule scheduled_ticks_once_per_minute [OF r])
      (simp_all add: sample_ticks_def ticks_fresh_def ticks_ordered_def tick_time_def
        runs_until_def runs_of_def keys_of_def sample_eligible)
  then show ?thesis by (simp add: r)
qed

theorem trigger_scheduled_job_iff_witness:
  "fst (trigger_scheduled_job sql_enqueue 11 21 (minutes_after_epoch 5) 3 (minutes_after_epoch 5)
     (open_session sample_db)) = False"
proof -
  obtain b s' where r: "trigger_scheduled_job sql_enqueue 11 21 (minutes_after_epoch 5) 3
      (minutes_after_epoch 5) (open_session sample_db) = (b, s')" by fastforce
  show ?thesis
    using trigger_scheduled_job_iff [OF r]
    by (simp add: r get_published_job_def find_row_Cons sample_job_def)
qed

subsection \<open>The list of runs\<close>

text \<open>\<open>list_published_job_runs\<close> returns every run of the job once, newest first.\<close>

theorem list_published_job_runs_sorted:
  assumes "list_published_job_runs i s = Inr l"
  shows "mset (rl_runs l) =
      mset (map run_item_of (filter (\<lambda>r. jr_published_job_id r = i) (job_runs (working s)))) \<and>
    sorted_wrt (\<lambda>a b. instant (ri_scheduled_at b) \<le> instant (ri_scheduled_at a)) (rl_runs l)"
proof -
  let ?rs = "runs_of i (working s)"
  have l: "rl_runs l = map run_item_of (sort_key run_order ?rs)"
    using assms by (auto simp: list_published_job_runs_def split: option.splits)
  have "sorted_wrt (\<lambda>a b. run_order a \<le> run_order b) (sort_key run_order ?rs)"
    using sorted_sort_key [of run_order ?rs] by (simp add: sorted_wrt_map)
  then have "sorted_wrt (\<lambda>a b. instant (jr_scheduled_at b) \<le> instant (jr_scheduled_at a))
      (sort_key run_order ?rs)"
    by (rule sorted_wrt_mono_rel [rotated]) (auto simp: run_order_def)
  then show ?thesis
    by (simp add: l sorted_wrt_map run_item_of_def runs_of_def)
qed

definition sample_run :: "uuid \<Rightarrow> int \<Rightarrow> job_run" where
  "sample_run i m = trigger_job_run i (sample_job 1) ''manual'' (minutes_after_epoch m)"

theorem list_published_job_runs_sorted_witness:
  "\<exists>l. list_published_job_runs 1
      (open_session (sample_db\<lparr>job_runs := [sample_run 31 4, sample_run 32 9]\<rparr>)) = Inr l \<and>
    mset (rl_runs l) = {#run_item_of (sample_run 31 4), run_item_of (sample_run 32 9)#}"
proof -
  let ?s = "open_session (sample_db\<lparr>job_runs := [sample_run 31 4, sample_run 32 9]\<rparr>)"
  obtain l where l: "list_published_job_runs 1 ?s = Inr l"
    by (simp add: list_published_job_runs_def get_published_job_def find_row_Cons sample_job_def)
  show ?thesis
    using list_published_job_runs_sorted [OF l] l
    by (simp add: sample_run_def trigger_job_run_def sample_job_def)
qed

subsection \<open>The invariant of the job tables\<close>

text \<open>A run whose published job exists and whose queued job names it back in the payload.\<close>

definition run_linked :: "db \<Rightarrow> job_run \<Rightarrow> bool" where
  "run_linked d r \<longleftrightarrow>
     jr_published_job_id r \<in> keys_of pj_id (published_jobs d) \<and>
     (\<exists>j \<in> set (queued_jobs d).
        jr_queued_job_id r = Some (qj_id j) \<and> qj_job_type j = RUN_CHECK_JOB_TYPE \<and>
        parse_uuid (dget (qj_payload j) ''job_run_id'') = Some (jr_id r) \<and>
        parse_uuid (dget (qj_payload j) ''queued_job_id'') = Some (qj_id j) \<and>
        parse_uuid (dget (qj_payload j) ''published_job_id'') = Some (jr_published_job_id r))"

definition jobs_inv :: "db \<Rightarrow> bool" where
  "jobs_inv d \<longleftrightarrow>
     distinct (map pj_id (published_jobs d)) \<and> distinct (map pj_job_key (published_jobs d)) \<and>
     distinct (map jr_id (job_runs d)) \<and> distinct (map qj_id (queued_jobs d)) \<and>
     (\<forall>r \<in> set (job_runs d). run_linked d r)"

definition session_inv :: "db_session \<Rightarrow> bool" where
  "session_inv s \<longleftrightarrow> jobs_inv (working s) \<and> jobs_inv (committed s)"

text \<open>The calls of the service, in any order, with fresh keys for the rows they make.\<close>

inductive service_step :: "(string \<Rightarrow> bool) \<Rightarrow> db_session \<Rightarrow> db_session \<Rightarrow> bool" for valid_cron where
  step_create:
    "i \<notin> keys_of pj_id (published_jobs (working s)) \<Longrightarrow>
     service_step valid_cron s (snd (create_published_job valid_cron i payload s))"
| step_trigger:
    "fresh_ids rid qid (working s) \<Longrightarrow>
     service_step valid_cron s (snd (trigger_published_job sql_enqueue rid qid now i src s))"
| step_tick:
    "fresh_ids rid qid (working s) \<Longrightarrow>
     service_step valid_cron s (snd (trigger_scheduled_job sql_enqueue rid qid now i t s))"
| step_pause:
    "service_step valid_cron s (snd (pause_published_jobs_by_ids ids sn reason c s))"
| step_pause_check:
    "service_step valid_cron s (snd (pause_jobs_for_retired_page_check check sn reason c s))"
| step_resume:
    "service_step valid_cron s (snd (resume_published_jobs_by_ids ids c s))"

lemma jobs_inv_job_ids: "jobs_inv d \<Longrightarrow> job_ids_distinct d"
  by (simp add: jobs_inv_def job_ids_distinct_def)

lemma run_linked_published:
  assumes "run_linked d r" "keys_of pj_id (published_jobs d) \<subseteq> keys_of pj_id (published_jobs d')"
    and "set (queued_jobs d) \<subseteq> set (queued_jobs d')"
  shows "run_linked d' r"
  using assms unfolding run_linked_def by blast

lemma distinct_map_snoc: "distinct (map key xs) \<Longrightarrow> key x \<notin> keys_of key xs \<Longrightarrow> distinct (map key (xs @ [x]))"
  by (auto simp: keys_of_def)

lemma trigger_inv:
  assumes tr: "trigger sql_enqueue rid qid now pj src sched s = ((run, q), s')"
    and inv: "jobs_inv (working s)" and "fresh_ids rid qid (working s)"
    and "pj_id pj \<in> keys_of pj_id (published_jobs (working s))"
  shows "jobs_inv (working s')"
proof -
  let ?d = "working s"
  have fr: "rid \<notin> keys_of jr_id (job_runs ?d)" "qid \<notin> keys_of qj_id (queued_jobs ?d)"
    using assms(3) by (auto simp: fresh_ids_def)
  from sql.trigger_rows [OF tr fr] obtain j where
    w: "working s' = ?d\<lparr>job_runs := job_runs ?d @ [run], queued_jobs := queued_jobs ?d @ [j]\<rparr>"
    and run: "run = (trigger_job_run rid pj src (py_or sched now))\<lparr>jr_queued_job_id := Some q\<rparr>"
    and j: "q \<notin> keys_of qj_id (queued_jobs ?d)" "qj_id j = q" "qj_job_type j = RUN_CHECK_JOB_TYPE"
      "qj_payload j = dset ''queued_job_id'' (PStr (uuid_str q))
         (trigger_payload rid pj src (py_or sched now))" by blast
  have "run_linked (working s') run"
    using assms(4) j by (simp add: run_linked_def w run trigger_job_run_def trigger_payload_def)
  moreover have "run_linked (working s') r" if "r \<in> set (job_runs ?d)" for r
    using inv that by - (rule run_linked_published [of ?d], auto simp: jobs_inv_def w)
  moreover have "distinct (map jr_id (job_runs ?d @ [run]))"
    using inv fr(1) by (intro distinct_map_snoc) (simp_all add: jobs_inv_def run trigger_job_run_def)
  moreover have "distinct (map qj_id (queued_jobs ?d @ [j]))"
    using inv j by (intro distinct_map_snoc) (simp_all add: jobs_inv_def)
  ultimately show ?thesis
    using inv by (auto simp: jobs_inv_def w)
qed

lemma trigger_session_inv:
  assumes "session_inv s" "fresh_ids rid qid (working s)"
    and "get_published_job i (working s) = Some pj"
  shows "session_inv (snd (trigger sql_enqueue rid qid now pj src sched s))"
proof -
  obtain run q s' where tr: "trigger sql_enqueue rid qid now pj src sched s = ((run, q), s')"
    by (metis prod.exhaust)
  have "pj \<in> set (published_jobs (working s))"
    using assms(3) by (auto simp: get_published_job_def dest: find_row_Some_set)
  then have "pj_id pj \<in> keys_of pj_id (published_jobs (working s))"
    by (auto simp: keys_of_def)
  with trigger_inv [OF tr] assms have "jobs_inv (working s')" by (simp add: session_inv_def)
  then show ?thesis
    using sql.trigger_commits [OF tr] tr by (simp add: session_inv_def clean_def)
qed

lemma update_selected_inv:
  assumes "jobs_inv d" "\<And>j. pj_id (f j) = pj_id j" "\<And>j. pj_job_key (f j) = pj_job_key j"
  shows "jobs_inv (with_published_jobs (update_selected ids st f) d)" (is "jobs_inv ?d")
proof -
  have ids: "map pj_id (update_selected ids st f js) = map pj_id js"
    and keys: "map pj_job_key (update_selected ids st f js) = map pj_job_key js" for js
    using assms(2,3) by (simp_all add: update_selected_def)
  then have "keys_of pj_id (update_selected ids st f js) = keys_of pj_id js" for js
    by (metis keys_of_def list.set_map)
  then have "run_linked ?d r" if "r \<in> set (job_runs d)" for r
    using assms(1) that by - (rule run_linked_published [of d], auto simp: jobs_inv_def)
  then show ?thesis
    using assms(1) by (simp add: jobs_inv_def ids keys)
qed

lemma finish_inv: "jobs_inv (committed s) \<Longrightarrow> jobs_inv (working s) \<Longrightarrow> session_inv (finish c n s)"
  by (simp add: session_inv_def finish_def)

lemma pause_session_inv:
  "session_inv s \<Longrightarrow> session_inv (snd (pause_published_jobs_by_ids ids sn reason c s))"
proof (cases "validate_required_text reason")
  case None
  then show "session_inv s \<Longrightarrow> ?thesis" by (simp add: pause_published_jobs_by_ids_def)
next
  case (Some r)
  assume inv: "session_inv s"
  then have d: "job_ids_distinct (working s)" by (simp add: session_inv_def jobs_inv_job_ids)
  show ?thesis
    using inv by (simp add: pause_eq [OF d Some] Let_def session_inv_def finish_inv
        update_selected_inv finish_inv [unfolded session_inv_def])
qed

lemma resume_session_inv:
  assumes "session_inv s" shows "session_inv (snd (resume_published_jobs_by_ids ids c s))"
proof -
  have d: "job_ids_distinct (working s)" using assms by (simp add: session_inv_def jobs_inv_job_ids)
  show ?thesis
    using assms by (simp add: resume_eq [OF d] Let_def session_inv_def
        update_selected_inv finish_inv [unfolded session_inv_def])
qed

lemma create_session_inv:
  assumes "session_inv s" "i \<notin> keys_of pj_id (published_jobs (working s))"
  shows "session_inv (snd (create_published_job valid_cron i payload s))"
proof -
  have "jobs_inv (working s\<lparr>published_jobs := published_jobs (working s) @ [pj]\<rparr>)"
    if "pj_id pj = i" "pj_job_key pj \<notin> pj_job_key ` set (published_jobs (working s))" for pj
  proof -
    let ?d = "working s\<lparr>published_jobs := published_jobs (working s) @ [pj]\<rparr>"
    have "run_linked ?d r" if "r \<in> set (job_runs (working s))" for r
      using assms(1) that
      by - (rule run_linked_published [of "working s"], auto simp: jobs_inv_def session_inv_def)
    then show ?thesis
      using assms that by (auto simp: jobs_inv_def session_inv_def keys_of_def)
  qed
  then show ?thesis
    using assms(1)
    by (auto simp: create_published_job_def insert_published_job_def Let_def session_inv_def
        new_published_job_def split: option.splits)
qed

text \<open>C2: whatever calls the service receives, keys of published jobs, runs and queued jobs stay unique,
  job keys too, and every run has its published job and a queued job whose payload names the run,
  the job and itself.\<close>

theorem service_keeps_jobs_inv:
  assumes "(service_step valid_cron)\<^sup>*\<^sup>* s s'" "session_inv s"
  shows "session_inv s'"
  using assms
proof (induction rule: rtranclp_induct)
  case base
  then show ?case .
next
  case (step s1 s2)
  then have inv: "session_inv s1" by blast
  from step(2) show ?case
  proof cases
    case step_create
    with inv show ?thesis by (simp add: create_session_inv)
  next
    case step_trigger
    with inv show ?thesis
      by (auto simp: trigger_published_job_def case_prod_beta Let_def
          intro: trigger_session_inv split: option.splits)
  next
    case step_tick
    with inv show ?thesis
      by (auto simp: trigger_scheduled_cases eligible_def intro: trigger_session_inv)
  next
    case step_pause
    with inv show ?thesis by (simp add: pause_session_inv)
  next
    case step_pause_check
    with inv show ?thesis by (simp add: pause_jobs_for_retired_page_check_def pause_session_inv)
  next
    case step_resume
    with inv show ?thesis by (simp add: resume_session_inv)
  qed
qed

theorem service_keeps_jobs_inv_witness:
  "session_inv (snd (trigger_published_job sql_enqueue 11 21 (minutes_after_epoch 5) 1 ''manual''
     (open_session sample_db)))"
proof (rule service_keeps_jobs_inv)
  show "(service_step (\<lambda>_. True))\<^sup>*\<^sup>* (open_session sample_db)
     (snd (trigger_published_job sql_enqueue 11 21 (minutes_after_epoch 5) 1 ''manual''
       (open_session sample_db)))"
    by (rule r_into_rtranclp, rule step_trigger) (simp add: fresh_ids_def)
  show "session_inv (open_session sample_db)"
    by (simp add: session_inv_def jobs_inv_def sample_job_def)
qed

end
