(* ===== verification/Retry.thy ===== *)
theory Retry
  imports Schema
begin

section \<open>Retry decisions and results of a check run\<close>

text \<open>
  jobs/run\_check\_retry.py: which failures of a check run are worth another attempt and how long to
  wait; and the result types of runner\_service/schemas.py that a run returns.
\<close>

subsection \<open>Results\<close>

datatype run_status = RunRunning | RunPassed | RunFailed

fun run_status_value :: "run_status \<Rightarrow> string" where
  "run_status_value RunRunning = ''running''"
| "run_status_value RunPassed = ''passed''"
| "run_status_value RunFailed = ''failed''"

datatype auth_inject_status = AuthReused | AuthRefreshed | AuthBlockedStatus

fun auth_inject_value :: "auth_inject_status \<Rightarrow> string" where
  "auth_inject_value AuthReused = ''reused''"
| "auth_inject_value AuthRefreshed = ''refreshed''"
| "auth_inject_value AuthBlockedStatus = ''blocked''"

record step_result =
  st_module :: string
  st_status :: run_status
  st_detail :: "string option"
  st_output :: "pydict option"

record module_result =
  mx_status :: run_status
  mx_auth_status :: auth_inject_status
  mx_step_results :: "step_result list"

record run_result =
  rs_page_check_id :: "uuid option"
  rs_execution_run_id :: uuid
  rs_status :: run_status
  rs_auth_status :: auth_inject_status
  rs_artifact_ids :: "uuid list"
  rs_screenshot_artifact_ids :: "uuid list"
  rs_step_results :: "step_result list"
  rs_failure_category :: "failure_category option"
  rs_final_url :: "string option"
  rs_page_title :: "string option"
  rs_needs_recrawl :: bool
  rs_needs_recompile :: bool

lemma run_status_value_passed [simp]: "run_status_value st = ''passed'' \<longleftrightarrow> st = RunPassed"
  by (cases st) simp_all

subsection \<open>Classification\<close>

definition RETRYABLE_FAILURE_CATEGORIES :: "string list" where
  "RETRYABLE_FAILURE_CATEGORIES = [''navigation_failed'', ''page_not_ready'']"

definition NON_RETRYABLE_STEP_FAILURES :: "string list" where
  "NON_RETRYABLE_STEP_FAILURES =
     [''context_mismatch'', ''ambiguous_match'', ''locator_all_failed'', ''element_became_hidden'',
      ''state_not_reached'']"

definition TRANSIENT_ERROR_PATTERNS :: "string list" where
  "TRANSIENT_ERROR_PATTERNS =
     [''timeout'', ''net::'', ''connection reset'', ''target closed'', ''temporarily unavailable'']"

definition normalize_failure_category :: "string option \<Rightarrow> string option" where
  "normalize_failure_category failure_category =
     (case failure_category of
        None \<Rightarrow> None
      | Some c \<Rightarrow> if c = [] then None else Some (lower (strip c)))"

definition contains_transient_pattern :: "string \<Rightarrow> string list \<Rightarrow> bool" where
  "contains_transient_pattern haystack patterns \<longleftrightarrow>
     (\<exists>pattern \<in> set patterns. sublist pattern (lower haystack))"

text \<open>A Python \<open>x in (None, "")\<close> is falsy.\<close>

definition truthy_text :: "string option \<Rightarrow> bool" where
  "truthy_text v \<longleftrightarrow> v \<noteq> None \<and> v \<noteq> Some []"

definition is_retryable_failure :: "string option \<Rightarrow> string option \<Rightarrow> bool" where
  "is_retryable_failure failure_category error_message =
     (let category = normalize_failure_category failure_category in
      if truthy_text category \<and> the category \<in> set RETRYABLE_FAILURE_CATEGORIES then True
      else if truthy_text category \<and> the category \<in> set NON_RETRYABLE_STEP_FAILURES then False
      else if category = Some ''runtime_error'' \<and> truthy_text error_message \<and>
              contains_transient_pattern (the error_message) TRANSIENT_ERROR_PATTERNS then True
      else False)"

definition compute_backoff_ms :: "int \<Rightarrow> int \<Rightarrow> int \<Rightarrow> int" where
  "compute_backoff_ms attempt_no base_backoff_ms jitter_ms =
     (let multiplier = 2 ^ nat (max (attempt_no - 1) 0);
          backoff = base_backoff_ms * multiplier + jitter_ms
      in max 0 backoff)"

definition serialize_datetime :: "datetime option \<Rightarrow> pyval" where
  "serialize_datetime v = (case v of None \<Rightarrow> PNone | Some d \<Rightarrow> PStr (isoformat d))"

definition build_attempt_entry ::
  "int \<Rightarrow> datetime option \<Rightarrow> datetime option \<Rightarrow> string \<Rightarrow> string option \<Rightarrow> bool \<Rightarrow> int \<Rightarrow> pydict" where
  "build_attempt_entry attempt_no started_at finished_at status failure_category retryable backoff_ms =
     [(''attempt_no'', PInt attempt_no),
      (''started_at'', serialize_datetime started_at),
      (''finished_at'', serialize_datetime finished_at),
      (''status'', PStr status),
      (''failure_category'', of_opt_str failure_category),
      (''retryable'', PBool retryable),
      (''backoff_ms'', PInt backoff_ms)]"

subsection \<open>What is retried\<close>

lemma backoff_doubles:
  assumes "1 \<le> n" "0 \<le> base"
  shows "compute_backoff_ms (n + 1) base 0 = 2 * compute_backoff_ms n base 0"
proof -
  have "nat n = Suc (nat (n - 1))" using assms(1) by simp
  then show ?thesis using assms by (simp add: compute_backoff_ms_def Let_def max_def)
qed

lemma strip_category [simp]: "strip (failure_category_value c) = failure_category_value c"
  by (cases c) (auto intro!: strip_graphic simp: graphic_def)

lemma lower_category [simp]: "lower (failure_category_value c) = failure_category_value c"
  by (cases c) (simp_all add: lower_def ascii_lower_def)

lemma category_nonempty [simp]: "failure_category_value c \<noteq> []"
  by (cases c) simp_all

lemma normalize_category [simp]:
  "normalize_failure_category (Some (failure_category_value c)) = Some (failure_category_value c)"
  by (simp add: normalize_failure_category_def)

lemma transient_message:
  "truthy_text message \<and> contains_transient_pattern (the message) TRANSIENT_ERROR_PATTERNS \<longleftrightarrow>
     (\<exists>m p. message = Some m \<and> p \<in> set TRANSIENT_ERROR_PATTERNS \<and> sublist p (lower m))"
proof -
  have "p \<noteq> []" if "p \<in> set TRANSIENT_ERROR_PATTERNS" for p
    using that by (auto simp: TRANSIENT_ERROR_PATTERNS_def)
  then have "\<not> contains_transient_pattern [] TRANSIENT_ERROR_PATTERNS"
    by (auto simp: contains_transient_pattern_def lower_def)
  then show ?thesis
    by (cases message) (auto simp: truthy_text_def contains_transient_pattern_def)
qed

text \<open>Of the runner's failure categories, exactly a failed navigation and a page that is not ready
  are retried whatever the message, a runtime error is retried when its message has one of the
  transient patterns in any case, and no other failure is.\<close>

theorem retryable_categories:
  "is_retryable_failure (Some (failure_category_value c)) message =
     (c = NavigationFailed \<or> c = PageNotReady \<or>
      (c = RuntimeError \<and>
       (\<exists>m p. message = Some m \<and>
          p \<in> {''timeout'', ''net::'', ''connection reset'', ''target closed'', ''temporarily unavailable''} \<and>
          sublist p (lower m))))"
proof -
  have set: "set TRANSIENT_ERROR_PATTERNS =
      {''timeout'', ''net::'', ''connection reset'', ''target closed'', ''temporarily unavailable''}"
    by (simp add: TRANSIENT_ERROR_PATTERNS_def)
  have "is_retryable_failure (Some (failure_category_value c)) message =
      (c = NavigationFailed \<or> c = PageNotReady \<or> (c = RuntimeError \<and>
       truthy_text message \<and> contains_transient_pattern (the message) TRANSIENT_ERROR_PATTERNS))"
    unfolding is_retryable_failure_def Let_def normalize_category
    by (cases c) (simp_all add: truthy_text_def RETRYABLE_FAILURE_CATEGORIES_def
        NON_RETRYABLE_STEP_FAILURES_def)
  then show ?thesis unfolding transient_message set .
qed

end
