(* ===== verification/RunCheckJob.thy ===== *)
theory RunCheckJob
  imports Retry
begin

section \<open>The run\_check job\<close>

text \<open>
  jobs/run\_check\_job.py: the handler that a worker runs for a queued check. It validates the
  payload against the database, skips retired assets, runs the check through the runner service
  (with retries on the precompiled track) and leaves the queued job and the job run in a terminal
  state with a result payload.

  The runner service and the control plane are objects the constructor receives: here they are
  arguments. The runner's first argument numbers its calls within one run of the handler, since
  what a browser does differs from call to call; \<open>clk i\<close> is the reading of the clock at the i-th
  place of the handler that reads it. Waiting between attempts is not modelled, the time to wait
  is recorded in the attempt entries.
\<close>

datatype py_exc = ExecutionBlocked string | OtherException string

fun exc_str :: "py_exc \<Rightarrow> string" where
  "exc_str (ExecutionBlocked m) = m"
| "exc_str (OtherException m) = m"

type_synonym page_runner =
  "nat \<Rightarrow> uuid option \<Rightarrow> uuid option \<Rightarrow> pydict option \<Rightarrow> db_session \<Rightarrow> (py_exc + run_result) \<times> db_session"

type_synonym probe_runner = "uuid option \<Rightarrow> db_session \<Rightarrow> (py_exc + run_result) \<times> db_session"

type_synonym probe_feedback = "uuid \<Rightarrow> uuid \<Rightarrow> db_session \<Rightarrow> (py_exc + unit) \<times> db_session"

definition PRECOMPILED_MAX_ATTEMPTS :: nat where "PRECOMPILED_MAX_ATTEMPTS = 3"
definition PRECOMPILED_BASE_BACKOFF_MS :: int where "PRECOMPILED_BASE_BACKOFF_MS = 100"
definition PRECOMPILED_JITTER_MS :: int where "PRECOMPILED_JITTER_MS = 0"
definition ASSET_RETIRED_FAILURE_MESSAGE :: string where
  "ASSET_RETIRED_FAILURE_MESSAGE = ''asset_retired_missing''"

subsection \<open>The result payload\<close>

definition or_text :: "string option \<Rightarrow> string option \<Rightarrow> string option" where
  "or_text a b = (if truthy_text a then a else b)"

text \<open>A keyword argument that defaults to \<open>_UNSET\<close>: absent from \<open>extra\<close>, no entry is made.\<close>

definition unless_unset :: "pydict \<Rightarrow> string \<Rightarrow> pydict" where
  "unless_unset extra k = (case map_of extra k of None \<Rightarrow> [] | Some v \<Rightarrow> [(k, v)])"

definition optional_field :: "pydict \<Rightarrow> string \<Rightarrow> pyval" where
  "optional_field payload k = of_opt_str (optional_text (dget payload k))"

record payload_args =
  pl_execution_request_id :: "string option"
  pl_execution_plan_id :: "string option"
  pl_execution_run_id :: "string option"
  pl_auth_status :: "string option"
  pl_artifact_ids :: "string list"
  pl_error_message :: "string option"
  pl_page_check_id :: "pyval option"

definition no_args :: payload_args where
  "no_args =
     \<lparr>pl_execution_request_id = None, pl_execution_plan_id = None, pl_execution_run_id = None,
      pl_auth_status = None, pl_artifact_ids = [], pl_error_message = None, pl_page_check_id = None\<rparr>"

definition build_result_payload ::
  "queued_job \<Rightarrow> queued_job_status \<Rightarrow> string \<Rightarrow> payload_args \<Rightarrow> pydict \<Rightarrow> pydict" where
  "build_result_payload job queue_status execution_status args extra =
     (let payload = qj_payload job;
          resolved_page_check_id =
            (case pl_page_check_id args of
               None \<Rightarrow> optional_field payload ''page_check_id''
             | Some v \<Rightarrow> of_opt_str (optional_text v))
      in [(''queued_job_id'', PStr (uuid_str (qj_id job))),
          (''queue_status'', PStr (queued_job_status_value queue_status)),
          (''status'', PStr execution_status),
          (''page_check_id'', resolved_page_check_id),
          (''execution_track'', optional_field payload ''execution_track''),
          (''execution_request_id'',
             of_opt_str (or_text (pl_execution_request_id args)
               (optional_text (dget payload ''execution_request_id'')))),
          (''execution_plan_id'',
             of_opt_str (or_text (pl_execution_plan_id args)
               (optional_text (dget payload ''execution_plan_id'')))),
          (''execution_run_id'', of_opt_str (pl_execution_run_id args)),
          (''published_job_id'', optional_field payload ''published_job_id''),
          (''job_run_id'', optional_field payload ''job_run_id''),
          (''script_render_id'', optional_field payload ''script_render_id''),
          (''asset_version'', optional_field payload ''asset_version''),
          (''runtime_policy'', optional_field payload ''runtime_policy''),
          (''schedule_expr'', optional_field payload ''schedule_expr''),
          (''trigger_source'', optional_field payload ''trigger_source''),
          (''scheduled_at'', optional_field payload ''scheduled_at''),
          (''auth_status'', of_opt_str (pl_auth_status args)),
          (''artifact_ids'', PList (map PStr (pl_artifact_ids args))),
          (''error_message'', of_opt_str (pl_error_message args))] @
         unless_unset extra ''attempt_count'' @
         unless_unset extra ''retry_exhausted'' @
         unless_unset extra ''flaky'' @
         unless_unset extra ''retry_policy'' @
         unless_unset extra ''attempts'' @
         unless_unset extra ''final_failure_category'' @
         unless_unset extra ''final_error_message'')"

subsection \<open>Terminal states\<close>

definition close_job ::
  "queued_job_status \<Rightarrow> string \<Rightarrow> clock \<Rightarrow> nat \<Rightarrow> string option \<Rightarrow> pydict \<Rightarrow> queued_job \<Rightarrow> queued_job" where
  "close_job st execution_status clk i message extra j =
     j\<lparr>qj_status := st, qj_started_at := Some (py_or (qj_started_at j) (clk i)),
       qj_finished_at := Some (clk (i + 1)), qj_failure_message := message,
       qj_result_payload := Some (build_result_payload j st execution_status
         (no_args\<lparr>pl_error_message := message\<rparr>) extra)\<rparr>"

definition close_run ::
  "queued_job_status \<Rightarrow> clock \<Rightarrow> nat \<Rightarrow> string option \<Rightarrow> job_run \<Rightarrow> job_run" where
  "close_run st clk i message r =
     r\<lparr>jr_run_status := queued_job_status_value st, jr_started_at := Some (py_or (jr_started_at r) (clk i)),
       jr_finished_at := Some (clk (i + 1)), jr_failure_message := message\<rparr>"

definition on_run :: "uuid option \<Rightarrow> (job_run \<Rightarrow> job_run) \<Rightarrow> db \<Rightarrow> db" where
  "on_run run_id f d = (case run_id of None \<Rightarrow> d | Some r \<Rightarrow> upd_run r f d)"

definition mark_failed ::
  "clock \<Rightarrow> uuid \<Rightarrow> string option \<Rightarrow> uuid option \<Rightarrow> pydict \<Rightarrow> db_session \<Rightarrow> db_session" where
  "mark_failed clk job_id message run_id extra s =
     commit (modify (on_run run_id (close_run FAILED clk 102 message) \<circ>
       upd_job job_id (close_job FAILED ''failed'' clk 100 message extra)) s)"

definition mark_skipped ::
  "clock \<Rightarrow> uuid \<Rightarrow> string option \<Rightarrow> uuid option \<Rightarrow> pydict \<Rightarrow> db_session \<Rightarrow> db_session" where
  "mark_skipped clk job_id message run_id extra s =
     commit (modify (on_run run_id (close_run SKIPPED clk 102 message) \<circ>
       upd_job job_id (close_job SKIPPED ''skipped'' clk 100 message extra)) s)"

definition mark_running :: "clock \<Rightarrow> uuid \<Rightarrow> uuid option \<Rightarrow> db_session \<Rightarrow> db_session" where
  "mark_running clk job_id run_id s =
     commit (modify
       (on_run run_id (\<lambda>r. r\<lparr>jr_run_status := queued_job_status_value RUNNING,
          jr_started_at := Some (py_or (jr_started_at r) (clk 1))\<rparr>) \<circ>
        upd_job job_id (\<lambda>j. j\<lparr>qj_status := RUNNING, qj_started_at := Some (py_or (qj_started_at j) (clk 0))\<rparr>)) s)"

text \<open>The end of a run whose runner returned \<open>result\<close> (lines 219-240).\<close>

definition complete_args :: "string option \<Rightarrow> string option \<Rightarrow> run_result \<Rightarrow> payload_args" where
  "complete_args execution_request_id execution_plan_id result =
     \<lparr>pl_execution_request_id = execution_request_id, pl_execution_plan_id = execution_plan_id,
      pl_execution_run_id = Some (uuid_str (rs_execution_run_id result)),
      pl_auth_status = Some (auth_inject_value (rs_auth_status result)),
      pl_artifact_ids = map uuid_str (rs_artifact_ids result),
      pl_error_message = None,
      pl_page_check_id =
        Some (case rs_page_check_id result of None \<Rightarrow> PNone | Some u \<Rightarrow> PStr (uuid_str u))\<rparr>"

definition mark_completed ::
  "clock \<Rightarrow> uuid \<Rightarrow> uuid option \<Rightarrow> string option \<Rightarrow> string option \<Rightarrow> run_result \<Rightarrow> pydict \<Rightarrow>
    db_session \<Rightarrow> db_session" where
  "mark_completed clk job_id run_id execution_request_id execution_plan_id result extra s =
     commit (modify
       (on_run run_id (\<lambda>r. r\<lparr>jr_execution_run_id := Some (rs_execution_run_id result),
          jr_run_status := queued_job_status_value COMPLETED, jr_finished_at := Some (clk 105),
          jr_failure_message := None\<rparr>) \<circ>
        upd_job job_id (\<lambda>j. j\<lparr>qj_status := COMPLETED, qj_finished_at := Some (clk 104),
          qj_failure_message := None,
          qj_result_payload := Some (build_result_payload j COMPLETED
            (run_status_value (rs_status result))
            (complete_args execution_request_id execution_plan_id result) extra)\<rparr>)) s)"

definition skip_realtime :: "clock \<Rightarrow> uuid \<Rightarrow> db_session \<Rightarrow> db_session" where
  "skip_realtime clk job_id s =
     commit (modify (upd_job job_id
       (close_job SKIPPED ''skipped'' clk 100
          (Some ''realtime execution track is not supported by run_check worker'') [])) s)"

subsection \<open>Retirement\<close>

definition get_page_check :: "uuid \<Rightarrow> db \<Rightarrow> page_check option" where
  "get_page_check i d = find_row pc_id i (page_checks d)"

definition get_page_asset :: "uuid \<Rightarrow> db \<Rightarrow> page_asset option" where
  "get_page_asset i d = find_row pa_id i (page_assets d)"

definition retirement_failure_message :: "asset_lifecycle_status \<Rightarrow> string option" where
  "retirement_failure_message lifecycle_status =
     (if lifecycle_value lifecycle_status = lifecycle_value LifecycleActive then None
      else Some ASSET_RETIRED_FAILURE_MESSAGE)"

definition is_retired_pause_marker :: "published_job \<Rightarrow> bool" where
  "is_retired_pause_marker pj =
     (let normalized_reason = lower (strip (py_or (pj_pause_reason pj) [])) in
      if \<not> sublist ''retired'' normalized_reason then False
      else pj_paused_by_snapshot_id pj \<noteq> None \<or> pj_paused_by_asset_id pj \<noteq> None \<or>
           pj_paused_by_page_check_id pj \<noteq> None)"

definition resolve_retirement_skip_reason :: "uuid \<Rightarrow> uuid option \<Rightarrow> db \<Rightarrow> string option" where
  "resolve_retirement_skip_reason page_check_id published_job_id d =
     (case get_page_check page_check_id d of
        None \<Rightarrow> Some ''asset_retired_missing''
      | Some page_check \<Rightarrow>
          (case retirement_failure_message (pc_lifecycle_status page_check) of
             Some r \<Rightarrow> Some r
           | None \<Rightarrow>
               (case get_page_asset (pc_page_asset_id page_check) d of
                  None \<Rightarrow> Some ''asset_retired_missing''
                | Some asset \<Rightarrow>
                    (case retirement_failure_message (pa_lifecycle_status asset) of
                       Some r \<Rightarrow> Some r
                     | None \<Rightarrow>
                         (case published_job_id of
                            None \<Rightarrow> None
                          | Some pid \<Rightarrow>
                              (case find_row pj_id pid (published_jobs d) of
                                 None \<Rightarrow> None
                               | Some pj \<Rightarrow>
                                   if pj_state pj \<noteq> JobPaused then None
                                   else if is_retired_pause_marker pj
                                   then Some ASSET_RETIRED_FAILURE_MESSAGE else None))))))"

subsection \<open>Validation of the payload\<close>

text \<open>
  Lines 56-156: the early returns, as the left values of a sum, in their order. The right value
  is what the handler goes on with.
\<close>

datatype stop =
    StopFailed string "uuid option"
  | StopRealtime
  | StopRetired string "uuid option"

record run_request =
  rq_execution_track :: string
  rq_page_check_id :: "uuid option"
  rq_execution_plan_text :: "string option"
  rq_execution_plan_id :: "uuid option"
  rq_execution_request_text :: "string option"
  rq_runtime_inputs :: "pydict option"
  rq_job_run_id :: "uuid option"
  rq_published_job_id :: "uuid option"

definition execution_track_of :: "pydict \<Rightarrow> string" where
  "execution_track_of payload =
     (let v = dget payload ''execution_track'' in
      lower (strip (if py_truthy v then py_str v else [])))"

text \<open>Lines 90-107: the page check id; the left value is the failure message.\<close>

definition page_check_of :: "string \<Rightarrow> pyval \<Rightarrow> string + uuid option" where
  "page_check_of track page_check_id =
     (if track = ''realtime_probe'' then
        (if page_check_id = PNone then Inr None
         else case as_str page_check_id of
                None \<Rightarrow> Inl ''invalid page_check_id in run_check job payload''
              | Some t \<Rightarrow>
                  (case parse_uuid_str t of
                     None \<Rightarrow> Inl ''invalid page_check_id in run_check job payload''
                   | Some u \<Rightarrow> Inr (Some u)))
      else case as_str page_check_id of
             None \<Rightarrow> Inl ''missing page_check_id in run_check job payload''
           | Some t \<Rightarrow>
               (case parse_uuid_str t of
                  None \<Rightarrow> Inl ''invalid page_check_id in run_check job payload''
                | Some u \<Rightarrow> Inr (Some u)))"

text \<open>Lines 109-130: the execution request and its runtime inputs.\<close>

definition execution_request_of :: "pydict \<Rightarrow> db \<Rightarrow> string + (string option \<times> pydict option)" where
  "execution_request_of payload d =
     (case as_str (dget payload ''execution_request_id'') of
        None \<Rightarrow> Inr (None, None)
      | Some t \<Rightarrow>
          (case (if t = [] then None else parse_uuid_str t) of
             None \<Rightarrow> Inl ''invalid execution_request_id in run_check job payload''
           | Some rid \<Rightarrow>
               (case find_row er_id rid (execution_requests d) of
                  None \<Rightarrow> Inl (''execution request '' @ uuid_str rid @ '' not found'')
                | Some req \<Rightarrow> Inr (Some t, er_template_params req))))"

text \<open>Lines 131-148: the job run and its linkage; the left value also says which run to mark.\<close>

definition job_run_of :: "pydict \<Rightarrow> uuid option \<Rightarrow> db \<Rightarrow> (string \<times> uuid option) + uuid option" where
  "job_run_of payload published_job_id d =
     (let raw = dget payload ''job_run_id'' in
      if raw = PNone then Inr None
      else case parse_uuid raw of
             None \<Rightarrow> Inl (''invalid job_run_id in run_check job payload'', None)
           | Some rid \<Rightarrow>
               (case get_run rid d of
                  None \<Rightarrow> Inl (''job run '' @ py_str raw @ '' not found'', None)
                | Some r \<Rightarrow>
                    if published_job_id \<noteq> None \<and> Some (jr_published_job_id r) \<noteq> published_job_id
                    then Inl (''published_job_id does not match job_run linkage'', Some rid)
                    else Inr (Some rid)))"

definition prepare :: "pydict \<Rightarrow> db \<Rightarrow> stop + run_request" where
  "prepare payload d =
     (let raw_published = dget payload ''published_job_id'';
          published_job_id = parse_uuid raw_published in
      if raw_published \<noteq> PNone \<and> published_job_id = None
      then Inl (StopFailed ''invalid published_job_id in run_check job payload'' None)
      else
      let page_check_id = dget payload ''page_check_id'';
          track = execution_track_of payload in
      if page_check_id = PNone \<and> track = ''realtime'' then Inl StopRealtime
      else
      let plan_text = as_str (dget payload ''execution_plan_id'');
          plan_id = (case plan_text of None \<Rightarrow> None | Some t \<Rightarrow> parse_uuid_str t) in
      if plan_text \<noteq> None \<and> plan_id = None
      then Inl (StopFailed ''invalid execution_plan_id in run_check job payload'' None)
      else if track = ''realtime_probe'' \<and> plan_id = None
      then Inl (StopFailed ''missing execution_plan_id in run_check job payload'' None)
      else case page_check_of track page_check_id of
        Inl m \<Rightarrow> Inl (StopFailed m None)
      | Inr parsed_page_check_id \<Rightarrow>
      (case execution_request_of payload d of
        Inl m \<Rightarrow> Inl (StopFailed m None)
      | Inr (request_text, inputs) \<Rightarrow>
      (case job_run_of payload published_job_id d of
        Inl (m, run) \<Rightarrow> Inl (StopFailed m run)
      | Inr run_id \<Rightarrow>
      (let request =
             \<lparr>rq_execution_track = track, rq_page_check_id = parsed_page_check_id,
              rq_execution_plan_text = plan_text, rq_execution_plan_id = plan_id,
              rq_execution_request_text = request_text, rq_runtime_inputs = inputs,
              rq_job_run_id = run_id, rq_published_job_id = published_job_id\<rparr>
       in case (if track \<noteq> ''realtime_probe'' then parsed_page_check_id else None) of
            None \<Rightarrow> Inr request
          | Some check \<Rightarrow>
              (case resolve_retirement_skip_reason check published_job_id d of
                 None \<Rightarrow> Inr request
               | Some reason \<Rightarrow> Inl (StopRetired reason run_id))))))"

subsection \<open>The retry loop of the precompiled track\<close>

definition enum_text :: "string \<Rightarrow> string option" where
  "enum_text v = Some (lower (strip v))"

definition extract_error_message :: "run_result \<Rightarrow> string option" where
  "extract_error_message result =
     map_option (\<lambda>st. strip (the (st_detail st)))
       (List.find (\<lambda>st. enum_text (run_status_value (st_status st)) = Some ''failed'' \<and>
            (\<exists>t. st_detail st = Some t \<and> strip t \<noteq> []))
          (rs_step_results result))"

definition build_precompiled_retry_payload ::
  "nat \<Rightarrow> bool \<Rightarrow> bool \<Rightarrow> pydict list \<Rightarrow> string option \<Rightarrow> string option \<Rightarrow> pydict" where
  "build_precompiled_retry_payload attempt_count flaky retry_exhausted attempts
     final_failure_category final_error_message =
     [(''attempt_count'', PInt (int attempt_count)),
      (''retry_exhausted'', PBool retry_exhausted),
      (''flaky'', PBool flaky),
      (''retry_policy'', PDict
         [(''max_attempts'', PInt (int PRECOMPILED_MAX_ATTEMPTS)),
          (''base_backoff_ms'', PInt PRECOMPILED_BASE_BACKOFF_MS),
          (''jitter_ms'', PInt PRECOMPILED_JITTER_MS)]),
      (''attempts'', PList (map PDict attempts)),
      (''final_failure_category'', of_opt_str final_failure_category),
      (''final_error_message'', of_opt_str final_error_message)]"

text \<open>What leaves the loop: a result, or one of the three exceptions the handler tells apart.\<close>

datatype retry_outcome =
    RetryReturned "run_result option" pydict
  | RetryRaised py_exc
  | RetryBlocked string pydict
  | RetryTerminal string pydict

record loop_state =
  lp_attempts :: "pydict list"
  lp_last_result :: "run_result option"
  lp_final_failure_category :: "string option"
  lp_final_error_message :: "string option"
  lp_final_retryable :: bool

definition loop_start :: loop_state where
  "loop_start =
     \<lparr>lp_attempts = [], lp_last_result = None, lp_final_failure_category = None,
      lp_final_error_message = None, lp_final_retryable = False\<rparr>"

definition attempt_backoff :: "nat \<Rightarrow> bool \<Rightarrow> int" where
  "attempt_backoff attempt_no should_retry =
     (if should_retry
      then compute_backoff_ms (int attempt_no) PRECOMPILED_BASE_BACKOFF_MS PRECOMPILED_JITTER_MS
      else 0)"

text \<open>One failed attempt: its entry and what the loop remembers of it.\<close>

definition failed_attempt ::
  "clock \<Rightarrow> nat \<Rightarrow> string option \<Rightarrow> string option \<Rightarrow> run_result option \<Rightarrow> loop_state \<Rightarrow> loop_state" where
  "failed_attempt clk attempt_no category message result st =
     (let retryable = is_retryable_failure category message;
          should_retry = retryable \<and> attempt_no < PRECOMPILED_MAX_ATTEMPTS
      in \<lparr>lp_attempts = lp_attempts st @
            [build_attempt_entry (int attempt_no) (Some (clk (2 * attempt_no)))
               (Some (clk (2 * attempt_no + 1))) ''failed'' category retryable
               (attempt_backoff attempt_no should_retry)],
          lp_last_result = result, lp_final_failure_category = category,
          lp_final_error_message = message, lp_final_retryable = retryable\<rparr>)"

fun retry_loop ::
  "page_runner \<Rightarrow> clock \<Rightarrow> uuid option \<Rightarrow> uuid option \<Rightarrow> pydict option \<Rightarrow> nat list \<Rightarrow> loop_state \<Rightarrow>
    db_session \<Rightarrow> retry_outcome \<times> db_session" where
  "retry_loop runner clk check plan inputs [] st s =
     (RetryReturned (lp_last_result st)
        (build_precompiled_retry_payload PRECOMPILED_MAX_ATTEMPTS False (lp_final_retryable st)
           (lp_attempts st) (lp_final_failure_category st) (lp_final_error_message st)), s)"
| "retry_loop runner clk check plan inputs (attempt_no # rest) st s =
     (case runner attempt_no check plan inputs s of
        (Inl (ExecutionBlocked m), s1) \<Rightarrow>
          (if lp_attempts st = [] then (RetryRaised (ExecutionBlocked m), s1)
           else (RetryBlocked m
                   (build_precompiled_retry_payload (length (lp_attempts st)) False False
                      (lp_attempts st) (lp_final_failure_category st) (lp_final_error_message st)), s1))
      | (Inl (OtherException m), s1) \<Rightarrow>
          (let s2 = rollback s1;
               st' = failed_attempt clk attempt_no (Some ''runtime_error'') (Some m) (lp_last_result st) st;
               retryable = lp_final_retryable st'
           in if \<not> (retryable \<and> attempt_no < PRECOMPILED_MAX_ATTEMPTS)
              then (RetryTerminal m
                      (build_precompiled_retry_payload attempt_no False
                         (retryable \<and> PRECOMPILED_MAX_ATTEMPTS \<le> attempt_no)
                         (lp_attempts st') (lp_final_failure_category st') (lp_final_error_message st')), s2)
              else retry_loop runner clk check plan inputs rest st' s2)
      | (Inr result, s1) \<Rightarrow>
          (if enum_text (run_status_value (rs_status result)) = Some ''passed''
           then (RetryReturned (Some result)
                   (build_precompiled_retry_payload attempt_no (1 < attempt_no) False
                      (lp_attempts st @
                         [build_attempt_entry (int attempt_no) (Some (clk (2 * attempt_no)))
                            (Some (clk (2 * attempt_no + 1))) ''passed'' None False 0])
                      None None), s1)
           else
             let category = (case rs_failure_category result of
                               None \<Rightarrow> None | Some c \<Rightarrow> enum_text (failure_category_value c));
                 message = extract_error_message result;
                 st' = failed_attempt clk attempt_no category message (Some result) st;
                 retryable = lp_final_retryable st'
             in if \<not> (retryable \<and> attempt_no < PRECOMPILED_MAX_ATTEMPTS)
                then (RetryReturned (Some result)
                        (build_precompiled_retry_payload attempt_no
                           (1 < attempt_no \<and> enum_text (run_status_value (rs_status result)) = Some ''passed'')
                           (retryable \<and> PRECOMPILED_MAX_ATTEMPTS \<le> attempt_no)
                           (lp_attempts st') category message), s1)
                else retry_loop runner clk check plan inputs rest st' s1))"

definition run_precompiled_with_retry ::
  "page_runner \<Rightarrow> clock \<Rightarrow> uuid option \<Rightarrow> uuid option \<Rightarrow> pydict option \<Rightarrow> db_session \<Rightarrow>
    retry_outcome \<times> db_session" where
  "run_precompiled_with_retry runner clk check plan inputs s =
     retry_loop runner clk check plan inputs [1..<PRECOMPILED_MAX_ATTEMPTS + 1] loop_start s"

subsection \<open>The handler\<close>

definition raised :: "py_exc + run_result \<Rightarrow> retry_outcome" where
  "raised r = (case r of Inl e \<Rightarrow> RetryRaised e | Inr result \<Rightarrow> RetryReturned (Some result) [])"

text \<open>The body of the \<open>try\<close> (lines 167-191).\<close>

definition execute ::
  "page_runner \<Rightarrow> probe_runner \<Rightarrow> probe_feedback option \<Rightarrow> clock \<Rightarrow> run_request \<Rightarrow> db_session \<Rightarrow>
    retry_outcome \<times> db_session" where
  "execute runner probe feedback clk rq s =
     (if rq_execution_track rq = ''realtime_probe'' then
        (case probe (rq_execution_plan_id rq) s of
           (Inl e, s1) \<Rightarrow> (RetryRaised e, s1)
         | (Inr result, s1) \<Rightarrow>
             (case (feedback, rq_execution_plan_id rq) of
                (Some persist, Some plan) \<Rightarrow>
                  (if run_status_value (rs_status result) = ''passed''
                   then (case persist plan (rs_execution_run_id result) s1 of
                           (Inl e, s2) \<Rightarrow> (RetryRaised e, s2)
                         | (Inr _, s2) \<Rightarrow> (RetryReturned (Some result) [], s2))
                   else (RetryReturned (Some result) [], s1))
              | _ \<Rightarrow> (RetryReturned (Some result) [], s1)))
      else if rq_execution_track rq = ''precompiled'' then
        run_precompiled_with_retry runner clk (rq_page_check_id rq) (rq_execution_plan_id rq)
          (rq_runtime_inputs rq) s
      else let (r, s1) = runner 1 (rq_page_check_id rq) (rq_execution_plan_id rq)
                           (rq_runtime_inputs rq) s
           in (raised r, s1))"

text \<open>The \<open>except\<close> clauses and the end of the handler. The left value is an exception it raises.\<close>

definition conclude ::
  "clock \<Rightarrow> uuid \<Rightarrow> run_request \<Rightarrow> retry_outcome \<Rightarrow> db_session \<Rightarrow> (string + unit) \<times> db_session" where
  "conclude clk job_id rq out s =
     (case out of
        RetryBlocked m payload \<Rightarrow>
          (Inr (), mark_skipped clk job_id (Some ASSET_RETIRED_FAILURE_MESSAGE) (rq_job_run_id rq) payload s)
      | RetryRaised (ExecutionBlocked m) \<Rightarrow>
          (Inr (), mark_skipped clk job_id (Some ASSET_RETIRED_FAILURE_MESSAGE) (rq_job_run_id rq) [] s)
      | RetryTerminal m payload \<Rightarrow>
          (Inr (), mark_failed clk job_id (Some m) (rq_job_run_id rq) payload s)
      | RetryRaised (OtherException m) \<Rightarrow>
          (Inr (), mark_failed clk job_id (Some m) (rq_job_run_id rq) [] s)
      | RetryReturned None payload \<Rightarrow> (Inl ''NoneType'', s)
      | RetryReturned (Some result) payload \<Rightarrow>
          (Inr (), mark_completed clk job_id (rq_job_run_id rq) (rq_execution_request_text rq)
             (rq_execution_plan_text rq) result payload s))"

definition run_check_job ::
  "page_runner \<Rightarrow> probe_runner \<Rightarrow> probe_feedback option \<Rightarrow> clock \<Rightarrow> uuid \<Rightarrow> db_session \<Rightarrow>
    (string + unit) \<times> db_session" where
  "run_check_job runner probe feedback clk job_id s =
     (case get_job job_id (working s) of
        None \<Rightarrow> (Inl (''queued job '' @ uuid_str job_id @ '' not found''), s)
      | Some job \<Rightarrow>
          (case prepare (qj_payload job) (working s) of
             Inl (StopFailed m run) \<Rightarrow> (Inr (), mark_failed clk job_id (Some m) run [] s)
           | Inl StopRealtime \<Rightarrow> (Inr (), skip_realtime clk job_id s)
           | Inl (StopRetired m run) \<Rightarrow> (Inr (), mark_skipped clk job_id (Some m) run [] s)
           | Inr rq \<Rightarrow>
               (let s1 = mark_running clk job_id (rq_job_run_id rq) s;
                    (out, s2) = execute runner probe feedback clk rq s1
                in conclude clk job_id rq out s2)))"

end
