(* ===== verification/RunCheckRetries.thy ===== *)
theory RunCheckRetries
  imports RunCheckJob
begin

section \<open>The retries of a precompiled check\<close>

text \<open>
  What the retry loop of the run\_check handler records: at most three attempts, every attempt but
  the last a failure worth retrying with a doubled wait, and flags that say how it ended.
\<close>

definition retried_entry :: "nat \<Rightarrow> pydict \<Rightarrow> bool" where
  "retried_entry i e \<longleftrightarrow>
     dget e ''attempt_no'' = PInt (int i + 1) \<and> dget e ''status'' = PStr ''failed'' \<and>
     dget e ''retryable'' = PBool True \<and> dget e ''backoff_ms'' = PInt (100 * 2 ^ i)"

definition retried_entries :: "pydict list \<Rightarrow> bool" where
  "retried_entries es \<longleftrightarrow> (\<forall>i < length es. retried_entry i (es ! i))"

text \<open>The report of a loop that ran its course: the retried attempts \<open>es\<close> and the last one \<open>e\<close>.\<close>

definition final_report :: "pydict \<Rightarrow> pydict list \<Rightarrow> pydict \<Rightarrow> bool" where
  "final_report p es e \<longleftrightarrow>
     dget p ''attempts'' = PList (map PDict (es @ [e])) \<and>
     dget p ''attempt_count'' = PInt (int (length es) + 1) \<and>
     length es < 3 \<and> retried_entries es \<and>
     dget e ''attempt_no'' = PInt (int (length es) + 1) \<and> dget e ''backoff_ms'' = PInt 0 \<and>
     dget p ''retry_exhausted'' = dget e ''retryable'' \<and>
     (dget e ''retryable'' = PBool True \<longrightarrow> length es = 2)"

definition good_outcome :: "retry_outcome \<Rightarrow> bool" where
  "good_outcome out \<longleftrightarrow>
     (case out of
        RetryReturned None p \<Rightarrow> False
      | RetryReturned (Some r) p \<Rightarrow>
          (\<exists>es e. final_report p es e \<and>
             (dget e ''status'' = PStr ''passed'' \<longleftrightarrow> rs_status r = RunPassed) \<and>
             dget p ''flaky'' = PBool (rs_status r = RunPassed \<and> es \<noteq> []))
      | RetryTerminal m p \<Rightarrow>
          (\<exists>es e. final_report p es e \<and> dget e ''status'' = PStr ''failed'' \<and>
             dget p ''flaky'' = PBool False \<and> dget p ''final_error_message'' = PStr m)
      | RetryBlocked m p \<Rightarrow>
          (\<exists>es. dget p ''attempts'' = PList (map PDict es) \<and> es \<noteq> [] \<and> length es < 3 \<and>
             retried_entries es \<and> dget p ''attempt_count'' = PInt (int (length es)) \<and>
             dget p ''retry_exhausted'' = PBool False)
      | RetryRaised e \<Rightarrow> (\<exists>m. e = ExecutionBlocked m))"

lemma attempt_entry_fields [simp]:
  "dget (build_attempt_entry n t0 t1 st c r b) ''attempt_no'' = PInt n"
  "dget (build_attempt_entry n t0 t1 st c r b) ''status'' = PStr st"
  "dget (build_attempt_entry n t0 t1 st c r b) ''retryable'' = PBool r"
  "dget (build_attempt_entry n t0 t1 st c r b) ''backoff_ms'' = PInt b"
  by (simp_all add: build_attempt_entry_def)

lemma retry_payload_fields [simp]:
  "dget (build_precompiled_retry_payload n f x es c m) ''attempt_count'' = PInt (int n)"
  "dget (build_precompiled_retry_payload n f x es c m) ''retry_exhausted'' = PBool x"
  "dget (build_precompiled_retry_payload n f x es c m) ''flaky'' = PBool f"
  "dget (build_precompiled_retry_payload n f x es c m) ''attempts'' = PList (map PDict es)"
  "dget (build_precompiled_retry_payload n f x es c m) ''final_error_message'' = of_opt_str m"
  by (simp_all add: build_precompiled_retry_payload_def)

lemma enum_passed [simp]: "enum_text (run_status_value st) = Some ''passed'' \<longleftrightarrow> st = RunPassed"
proof -
  have "strip (run_status_value st) = run_status_value st"
    by (cases st) (auto intro!: strip_graphic simp: graphic_def)
  moreover have "lower (run_status_value st) = run_status_value st"
    by (cases st) (simp_all add: lower_def ascii_lower_def)
  ultimately show ?thesis by (simp add: enum_text_def)
qed

lemma enum_passed_text [simp]: "enum_text ''passed'' = Some ''passed''"
  using enum_passed [of RunPassed] by simp

lemma retried_entries_snoc:
  "retried_entries (es @ [e]) \<longleftrightarrow> retried_entries es \<and> retried_entry (length es) e"
  by (auto simp: retried_entries_def nth_append less_Suc_eq)

definition failed_entry :: "clock \<Rightarrow> nat \<Rightarrow> string option \<Rightarrow> string option \<Rightarrow> pydict" where
  "failed_entry clk n category message =
     build_attempt_entry (int n) (Some (clk (2 * n))) (Some (clk (2 * n + 1))) ''failed'' category
       (is_retryable_failure category message)
       (attempt_backoff n (is_retryable_failure category message \<and> n < PRECOMPILED_MAX_ATTEMPTS))"

lemma failed_attempt_simps:
  "lp_attempts (failed_attempt clk n category message r st) =
     lp_attempts st @ [failed_entry clk n category message]"
  "lp_final_failure_category (failed_attempt clk n category message r st) = category"
  "lp_final_error_message (failed_attempt clk n category message r st) = message"
  "lp_final_retryable (failed_attempt clk n category message r st) = is_retryable_failure category message"
  by (simp_all add: failed_attempt_def failed_entry_def Let_def)

lemma failed_entry_fields [simp]:
  "dget (failed_entry clk n c m) ''attempt_no'' = PInt (int n)"
  "dget (failed_entry clk n c m) ''status'' = PStr ''failed''"
  "dget (failed_entry clk n c m) ''retryable'' = PBool (is_retryable_failure c m)"
  by (simp_all add: failed_entry_def)

lemma failed_entry_last:
  "\<not> (is_retryable_failure c m \<and> n < PRECOMPILED_MAX_ATTEMPTS) \<Longrightarrow>
     dget (failed_entry clk n c m) ''backoff_ms'' = PInt 0"
  by (auto simp add: failed_entry_def attempt_backoff_def)

lemma failed_entry_retried:
  assumes "is_retryable_failure c m" "Suc k < PRECOMPILED_MAX_ATTEMPTS"
  shows "retried_entry k (failed_entry clk (Suc k) c m)"
  using assms
  by (simp add: retried_entry_def failed_entry_def attempt_backoff_def compute_backoff_ms_def
      Let_def PRECOMPILED_BASE_BACKOFF_MS_def PRECOMPILED_JITTER_MS_def)

lemma final_report_failed:
  assumes "retried_entries es" "n = Suc (length es)" "n \<le> PRECOMPILED_MAX_ATTEMPTS"
    and "\<not> (is_retryable_failure c m \<and> n < PRECOMPILED_MAX_ATTEMPTS)"
  shows "final_report (build_precompiled_retry_payload n f
      (is_retryable_failure c m \<and> PRECOMPILED_MAX_ATTEMPTS \<le> n)
      (es @ [failed_entry clk n c m]) c' m') es (failed_entry clk n c m)"
  using assms failed_entry_last [OF assms(4), of clk]
  by (auto simp: final_report_def PRECOMPILED_MAX_ATTEMPTS_def)

lemma retry_loop_good:
  assumes "retry_loop runner clk check plan inputs ns st s = (out, s')"
    and "ns = [Suc k..<Suc PRECOMPILED_MAX_ATTEMPTS]" "k < PRECOMPILED_MAX_ATTEMPTS"
    and "length (lp_attempts st) = k" "retried_entries (lp_attempts st)"
  shows "good_outcome out"
  using assms
proof (induction ns arbitrary: k st s)
  case Nil
  then show ?case by simp
next
  case (Cons n ns)
  let ?max = PRECOMPILED_MAX_ATTEMPTS and ?es = "lp_attempts st"
  have n: "n = Suc k" and rest: "ns = [Suc (Suc k)..<Suc ?max]"
    using Cons.prems(2,3) by (auto simp del: upt_Suc simp: upt_rec [of "Suc k"])
  have step: "good_outcome out"
    if "retry_loop runner clk check plan inputs ns (failed_attempt clk n c m r st) s2 = (out, s')"
      "is_retryable_failure c m" "n < ?max" for c m r s2
  proof (rule Cons.IH [OF that(1) rest])
    show "Suc k < ?max" using that(3) n by simp
    show "length (lp_attempts (failed_attempt clk n c m r st)) = Suc k"
      using Cons.prems(4) by (simp add: failed_attempt_simps)
    show "retried_entries (lp_attempts (failed_attempt clk n c m r st))"
      using Cons.prems(4,5) that n
      by (simp add: failed_attempt_simps retried_entries_snoc failed_entry_retried)
  qed
  obtain r s1 where call: "runner n check plan inputs s = (r, s1)" by fastforce
  have len: "n = Suc (length ?es)" "n \<le> ?max" using n Cons.prems(3,4) by simp_all
  note report = final_report_failed [OF Cons.prems(5) len, of _ _ _ clk]
  show ?case
  proof (cases r)
    case (Inl e)
    show ?thesis
    proof (cases e)
      case (ExecutionBlocked m)
      then show ?thesis
        using Cons.prems(1,3,4,5) call Inl len
        by (auto simp: good_outcome_def PRECOMPILED_MAX_ATTEMPTS_def split: if_splits
            intro!: exI [of _ ?es])
    next
      case (OtherException m)
      show ?thesis
      proof (cases "is_retryable_failure (Some ''runtime_error'') (Some m) \<and> n < ?max")
        case True
        then show ?thesis
          using Cons.prems(1) call Inl OtherException step
          by (simp add: failed_attempt_simps Let_def)
      next
        case False
        let ?c = "Some ''runtime_error''" and ?f = "failed_entry clk n (Some ''runtime_error'') (Some m)"
        have "out = RetryTerminal m (build_precompiled_retry_payload n False
            (is_retryable_failure ?c (Some m) \<and> ?max \<le> n) (?es @ [?f]) ?c (Some m))"
          using Cons.prems(1) call Inl OtherException False
          by (auto simp: failed_attempt_simps Let_def)
        then show ?thesis
          using report [OF False, of False ?c "Some m"]
          by (simp add: good_outcome_def of_opt_str_def) (rule exI, rule exI, rule conjI, assumption, simp)
      qed
    qed
  next
    case (Inr result)
    let ?c = "case rs_failure_category result of None \<Rightarrow> None | Some c \<Rightarrow> enum_text (failure_category_value c)"
    let ?m = "extract_error_message result"
    show ?thesis
    proof (cases "rs_status result = RunPassed")
      case True
      let ?e = "build_attempt_entry (int n) (Some (clk (2 * n))) (Some (clk (2 * n + 1))) ''passed'' None False 0"
      have "final_report (build_precompiled_retry_payload n (1 < n) False (?es @ [?e]) None None) ?es ?e"
        using Cons.prems(3,4,5) len by (simp add: final_report_def PRECOMPILED_MAX_ATTEMPTS_def)
      then show ?thesis
        using Cons.prems(1) call Inr True len
        by (auto simp: good_outcome_def intro!: exI [of _ ?es] exI [of _ ?e])
    next
      case failed: False
      show ?thesis
      proof (cases "is_retryable_failure ?c ?m \<and> n < ?max")
        case True
        then show ?thesis
          using Cons.prems(1) call Inr failed step
          by (simp add: failed_attempt_simps Let_def)
      next
        case False
        have "out = RetryReturned (Some result) (build_precompiled_retry_payload n False
            (is_retryable_failure ?c ?m \<and> ?max \<le> n) (?es @ [failed_entry clk n ?c ?m]) ?c ?m)"
          using Cons.prems(1) call Inr failed False
          by (auto simp: failed_attempt_simps Let_def)
        then show ?thesis
          using report [OF False, of False ?c ?m] failed
          by (simp add: good_outcome_def) (rule exI, rule exI, rule conjI, assumption, simp)
      qed
    qed
  qed
qed

lemma retry_outcome_good:
  "good_outcome (fst (run_precompiled_with_retry runner clk check plan inputs s))"
proof -
  obtain out s' where r: "run_precompiled_with_retry runner clk check plan inputs s = (out, s')"
    by fastforce
  then have "good_outcome out"
    unfolding run_precompiled_with_retry_def
    by (rule retry_loop_good [where k = 0])
      (simp_all add: PRECOMPILED_MAX_ATTEMPTS_def loop_start_def retried_entries_def)
  then show ?thesis by (simp add: r)
qed

text \<open>C14: the precompiled track makes at most three attempts and always ends: with a result whose
  report lists every attempt in order, each but the last a retryable failure after which it waited
  100 ms times a power of two, \<open>flaky\<close> exactly for a success after a failure and \<open>retry_exhausted\<close>
  exactly for a retryable third failure; with a terminal error reported the same way; or blocked.\<close>

theorem precompiled_retry_report:
  "good_outcome (fst (run_precompiled_with_retry runner clk check plan inputs s))"
  by (rule retry_outcome_good)

text \<open>A precompiled check whose runner is blocked at once is not retried, and one whose first
  attempt passes makes that attempt only: the runner's state is what its first call left.\<close>

theorem precompiled_single_attempt:
  assumes "runner 1 check plan inputs s = (r, s1)"
    and "r = Inl (ExecutionBlocked m) \<or> (\<exists>res. r = Inr res \<and> rs_status res = RunPassed)"
  shows "snd (run_precompiled_with_retry runner clk check plan inputs s) = s1"
  using assms
  by (auto simp: run_precompiled_with_retry_def PRECOMPILED_MAX_ATTEMPTS_def loop_start_def upt_rec)

definition sample_result :: run_result where
  "sample_result =
     \<lparr>rs_page_check_id = Some 5, rs_execution_run_id = 40, rs_status = RunPassed,
      rs_auth_status = AuthReused, rs_artifact_ids = [41], rs_screenshot_artifact_ids = [],
      rs_step_results = [], rs_failure_category = None, rs_final_url = None, rs_page_title = None,
      rs_needs_recrawl = False, rs_needs_recompile = False\<rparr>"

theorem precompiled_single_attempt_witness:
  "snd (run_precompiled_with_retry (\<lambda>n check plan inputs s. (Inr sample_result, commit s)) (\<lambda>_. datetime_min_utc)
     (Some 5) None None (open_session empty_db)) = commit (open_session empty_db)"
  by (rule precompiled_single_attempt) (auto simp: sample_result_def)

end
