(* ===== verification/RunCheckStates.thy ===== *)
theory RunCheckStates
  imports RunCheckRetries Trigger
begin

section \<open>How a run\_check job ends\<close>

text \<open>
  The terminal states of the run\_check handler under what it relies on from its runner service,
  its refusal to run retired assets, and the payload of the trigger as its input.
\<close>

subsection \<open>The runner as an interface\<close>

text \<open>
  The runner service shares the handler's session and commits its own rows, but the queue belongs
  to the handler: whatever it does, it leaves the queued jobs and job runs alone.
\<close>

definition jobs_at :: "queued_job list \<times> job_run list \<Rightarrow> db_session \<Rightarrow> bool" where
  "jobs_at t s \<longleftrightarrow>
     (queued_jobs (working s), job_runs (working s)) = t \<and>
     (queued_jobs (committed s), job_runs (committed s)) = t"

locale check_runner =
  fixes runner :: page_runner and probe :: probe_runner and feedback :: "probe_feedback option"
  assumes runner_jobs: "jobs_at t s \<Longrightarrow> jobs_at t (snd (runner n check plan inputs s))"
    and probe_jobs: "jobs_at t s \<Longrightarrow> jobs_at t (snd (probe plan s))"
    and feedback_jobs:
      "feedback = Some persist \<Longrightarrow> jobs_at t s \<Longrightarrow> jobs_at t (snd (persist plan' run s))"

lemma jobs_at_rollback: "jobs_at t s \<Longrightarrow> jobs_at t (rollback s)"
  by (simp add: jobs_at_def)

lemma jobs_at_commit_clean: "clean s \<Longrightarrow> jobs_at (queued_jobs (working s), job_runs (working s)) s"
  by (simp add: jobs_at_def clean_def)

subsection \<open>Updates of the two rows\<close>

lemma get_job_on_run [row_simps, simp]: "get_job k (on_run r f d) = get_job k d"
  by (simp add: on_run_def split: option.splits)

lemma get_run_on_run:
  "(\<And>r. jr_id (f r) = jr_id r) \<Longrightarrow>
    get_run k (on_run run f d) = (if run = Some k then map_option f (get_run k d) else get_run k d)"
  by (auto simp: on_run_def get_upd_run split: option.splits)

lemma close_ids [simp]:
  "qj_id (close_job st e clk i m x j) = qj_id j" "jr_id (close_run st clk i m r) = jr_id r"
  by (simp_all add: close_job_def close_run_def)

lemma build_result_payload_queue_status [simp]:
  "dget (build_result_payload j st e args x) ''queue_status'' = PStr (queued_job_status_value st)"
  "dget (build_result_payload j st e args x) ''queued_job_id'' = PStr (uuid_str (qj_id j))"
  "dget (build_result_payload j st e args x) ''status'' = PStr e"
  by (simp_all add: build_result_payload_def Let_def)

text \<open>A run that agrees with its finished job.\<close>

definition run_ended :: "queued_job \<Rightarrow> job_run \<Rightarrow> bool" where
  "run_ended job r \<longleftrightarrow>
     jr_run_status r = queued_job_status_value (qj_status job) \<and> jr_finished_at r \<noteq> None \<and>
     jr_failure_message r = qj_failure_message job"

text \<open>The three ways to close, read through the committed tables.\<close>

definition closed_as :: "uuid \<Rightarrow> uuid option \<Rightarrow> queued_job_status \<Rightarrow> db_session \<Rightarrow> db_session \<Rightarrow> bool" where
  "closed_as job_id run_id st s s' \<longleftrightarrow>
     clean s' \<and>
     (\<forall>job. get_job job_id (working s) = Some job \<longrightarrow>
        (\<exists>job'. get_job job_id (working s') = Some job' \<and> qj_status job' = st \<and>
           qj_payload job' = qj_payload job \<and> qj_finished_at job' \<noteq> None \<and>
           (qj_started_at job \<noteq> None \<or> st \<noteq> COMPLETED \<longrightarrow> qj_started_at job' \<noteq> None) \<and>
           (qj_failure_message job' = None \<longleftrightarrow> st = COMPLETED) \<and>
           (\<exists>p. qj_result_payload job' = Some p \<and>
              dget p ''queue_status'' = PStr (queued_job_status_value st) \<and>
              dget p ''queued_job_id'' = PStr (uuid_str (qj_id job))) \<and>
           (\<forall>rid r. run_id = Some rid \<longrightarrow> get_run rid (working s) = Some r \<longrightarrow>
              (\<exists>r'. get_run rid (working s') = Some r' \<and> run_ended job' r')))) \<and>
     (\<forall>k. k \<noteq> job_id \<longrightarrow> get_job k (working s') = get_job k (working s)) \<and>
     (\<forall>k. Some k \<noteq> run_id \<longrightarrow> get_run k (working s') = get_run k (working s))"

lemma closed_mark_failed: "closed_as job_id run_id FAILED s (mark_failed clk job_id (Some m) run_id x s)"
  by (auto simp: closed_as_def mark_failed_def get_upd_job get_run_on_run close_job_def close_run_def
      run_ended_def)

lemma closed_mark_skipped: "closed_as job_id run_id SKIPPED s (mark_skipped clk job_id (Some m) run_id x s)"
  by (auto simp: closed_as_def mark_skipped_def get_upd_job get_run_on_run close_job_def close_run_def
      run_ended_def)

lemma closed_mark_completed:
  "closed_as job_id run_id COMPLETED s (mark_completed clk job_id run_id rt pt result x s)"
  by (auto simp: closed_as_def mark_completed_def get_upd_job get_run_on_run run_ended_def)

lemma closed_skip_realtime: "closed_as job_id None SKIPPED s (skip_realtime clk job_id s)"
  by (auto simp: closed_as_def skip_realtime_def get_upd_job close_job_def)

lemma conclude_closed:
  assumes "conclude clk job_id rq out s = (res, s')" "good_outcome out \<or> (\<forall>p. out \<noteq> RetryReturned None p)"
  shows "res = Inr () \<and> (\<exists>st \<in> {COMPLETED, FAILED, SKIPPED}. closed_as job_id (rq_job_run_id rq) st s s')"
proof -
  have "\<exists>st. st \<in> {COMPLETED, FAILED, SKIPPED} \<and> closed_as job_id (rq_job_run_id rq) st s s' \<and> res = Inr ()"
  proof (cases out)
    case (RetryReturned r p)
    then obtain result where "r = Some result"
      using assms(2) by (cases r) (auto simp: good_outcome_def)
    then show ?thesis
      using assms(1) RetryReturned closed_mark_completed by (auto simp: conclude_def)
  next
    case (RetryRaised e)
    then show ?thesis
      using assms(1) closed_mark_failed closed_mark_skipped by (cases e) (auto simp: conclude_def)
  next
    case (RetryBlocked m p)
    then show ?thesis
      using assms(1) closed_mark_skipped by (auto simp: conclude_def)
  next
    case (RetryTerminal m p)
    then show ?thesis
      using assms(1) closed_mark_failed by (auto simp: conclude_def)
  qed
  then show ?thesis by blast
qed

subsection \<open>The end of a run\<close>

text \<open>Which run the handler marks: the one that validation has found.\<close>

definition marked_run :: "pydict \<Rightarrow> db \<Rightarrow> uuid option" where
  "marked_run payload d =
     (case prepare payload d of
        Inl (StopFailed m run) \<Rightarrow> run
      | Inl StopRealtime \<Rightarrow> None
      | Inl (StopRetired m run) \<Rightarrow> run
      | Inr rq \<Rightarrow> rq_job_run_id rq)"

lemma mark_running_tables:
  "get_job k (working (mark_running clk i run s)) =
     (if k = i then map_option (\<lambda>j. j\<lparr>qj_status := RUNNING,
        qj_started_at := Some (py_or (qj_started_at j) (clk 0))\<rparr>) (get_job i (working s))
      else get_job k (working s))"
  "get_run k (working (mark_running clk i run s)) =
     (if run = Some k then map_option (\<lambda>r. r\<lparr>jr_run_status := queued_job_status_value RUNNING,
        jr_started_at := Some (py_or (jr_started_at r) (clk 1))\<rparr>) (get_run k (working s))
      else get_run k (working s))"
  by (auto simp: mark_running_def get_upd_job get_run_on_run)

lemma jobs_at_same:
  assumes "jobs_at t s" "jobs_at t s'"
  shows "get_job k (working s') = get_job k (working s)" "get_run k (working s') = get_run k (working s)"
  using assms by (auto simp: jobs_at_def get_job_def get_run_def)

context check_runner
begin

lemma retry_loop_jobs:
  "jobs_at t s \<Longrightarrow> jobs_at t (snd (retry_loop runner clk check plan inputs ns st s))"
proof (induction ns arbitrary: st s)
  case Nil
  then show ?case by simp
next
  case (Cons n ns)
  obtain r s1 where call: "runner n check plan inputs s = (r, s1)" by fastforce
  have s1: "jobs_at t s1" using runner_jobs [OF Cons.prems, of n check plan inputs] call by simp
  show ?case
  proof (cases r)
    case (Inl e)
    then show ?thesis
      using call s1 Cons.IH [OF jobs_at_rollback [OF s1]]
      by (cases e) (auto simp: Let_def intro: jobs_at_rollback)
  next
    case (Inr result)
    then show ?thesis
      using call s1 Cons.IH [OF s1] by (auto simp: Let_def)
  qed
qed

lemma execute_jobs:
  assumes "jobs_at t s"
  shows "jobs_at t (snd (execute runner probe feedback clk rq s))"
proof -
  have loop: "jobs_at t (snd (run_precompiled_with_retry runner clk check plan inputs s))" for check plan inputs
    unfolding run_precompiled_with_retry_def by (rule retry_loop_jobs [OF assms])
  have call: "jobs_at t (snd (let (r, s1) = runner 1 check plan inputs s in (raised r, s1)))"
    for check plan inputs
    using runner_jobs [OF assms, of 1 check plan inputs] by (simp add: case_prod_beta)
  have pr: "jobs_at t (snd (probe plan s))" for plan by (rule probe_jobs [OF assms])
  have fb: "jobs_at t s2" if "persist plan run s1 = (r, s2)" "feedback = Some persist" "jobs_at t s1"
    for persist plan run r s1 s2
    using feedback_jobs [OF that(2,3), of plan run] that(1) by simp
  obtain r s1 where p: "probe (rq_execution_plan_id rq) s = (r, s1)" by fastforce
  then have s1: "jobs_at t s1" using pr [of "rq_execution_plan_id rq"] by simp
  show ?thesis
    using loop call s1 unfolding execute_def p
    by (auto simp: case_prod_beta Let_def split: sum.splits option.splits prod.splits if_splits
        intro: fb)
qed

lemma execute_outcome:
  assumes "execute runner probe feedback clk rq s = (out, s')"
  shows "good_outcome out \<or> (\<forall>p. out \<noteq> RetryReturned None p)"
proof -
  have loop: "good_outcome out"
    if "run_precompiled_with_retry runner clk check plan inputs s = (out, s')"
    for check plan inputs out s'
    using retry_outcome_good [of runner clk check plan inputs s] that by simp
  show ?thesis
    using assms unfolding execute_def
    by (auto simp: raised_def dest: loop split: if_splits sum.splits option.splits prod.splits)
qed

text \<open>The handler always ends: the job, and its run, are in the committed database as terminal.\<close>

lemma run_check_job_ends:
  assumes "run_check_job runner probe feedback clk i s = (res, s')"
    and "get_job i (working s) = Some job"
  shows "res = Inr () \<and>
    (\<exists>st \<in> {COMPLETED, FAILED, SKIPPED}. closed_as i (marked_run (qj_payload job) (working s)) st s s')"
proof (cases "prepare (qj_payload job) (working s)")
  case (Inl stop)
  then show ?thesis
    using assms closed_mark_failed closed_mark_skipped closed_skip_realtime
    by (cases stop) (auto simp: run_check_job_def marked_run_def)
next
  case (Inr rq)
  let ?run = "rq_job_run_id rq"
  let ?s1 = "mark_running clk i ?run s"
  obtain out s2 where ex: "execute runner probe feedback clk rq ?s1 = (out, s2)" by fastforce
  have "conclude clk i rq out s2 = (res, s')"
    using assms Inr ex by (simp add: run_check_job_def)
  from conclude_closed [OF this execute_outcome [OF ex]] obtain st where
    res: "res = Inr ()" and st: "st \<in> {COMPLETED, FAILED, SKIPPED}" "closed_as i ?run st s2 s'" by blast
  have "clean ?s1" by (simp add: mark_running_def)
  note at = jobs_at_commit_clean [OF this]
  have at2: "jobs_at (queued_jobs (working ?s1), job_runs (working ?s1)) s2"
    using execute_jobs [OF at, of clk rq] ex by simp
  note same = jobs_at_same [OF at at2]
  have "closed_as i ?run st s s'"
    using st(2) assms(2) unfolding closed_as_def same mark_running_tables
    by (auto split: if_splits)
  then show ?thesis using res st(1) Inr by (auto simp: marked_run_def)
qed

end

subsection \<open>Retired assets\<close>

definition retired_check :: "uuid \<Rightarrow> db \<Rightarrow> bool" where
  "retired_check check d \<longleftrightarrow>
     (case get_page_check check d of
        None \<Rightarrow> True
      | Some pc \<Rightarrow>
          pc_lifecycle_status pc \<noteq> LifecycleActive \<or>
          (case get_page_asset (pc_page_asset_id pc) d of
             None \<Rightarrow> True
           | Some asset \<Rightarrow> pa_lifecycle_status asset \<noteq> LifecycleActive))"

lemma lifecycle_value_active [simp]:
  "lifecycle_value l = ''active'' \<longleftrightarrow> l = LifecycleActive"
  by (cases l) simp_all

lemma retired_check_reason:
  "retired_check check d \<Longrightarrow> resolve_retirement_skip_reason check pid d = Some ''asset_retired_missing''"
  by (auto simp: retired_check_def resolve_retirement_skip_reason_def retirement_failure_message_def
      ASSET_RETIRED_FAILURE_MESSAGE_def split: option.splits)

lemma prepare_retired:
  assumes "parse_uuid (dget payload ''page_check_id'') = Some check"
    and "execution_track_of payload \<noteq> ''realtime_probe''" "retired_check check d"
  shows "\<exists>stop. prepare payload d = Inl stop"
proof -
  obtain t where t: "dget payload ''page_check_id'' = PStr t" "parse_uuid_str t = Some check"
    using assms(1) by (cases "dget payload ''page_check_id''") auto
  have "page_check_of (execution_track_of payload) (PStr t) = Inr (Some check)"
    using assms(2) t(2) by (simp add: page_check_of_def)
  then show ?thesis
    using assms(2) t(1) retired_check_reason [OF assms(3)]
    by (auto simp: prepare_def Let_def split: sum.splits prod.splits)
qed

text \<open>C16: a queued check whose page check or page asset is missing or retired is never executed: the
  handler ends the same way whatever runner service it was given, and not as completed.\<close>

theorem retired_check_never_executed:
  assumes "get_job i (working s) = Some job"
    and "parse_uuid (dget (qj_payload job) ''page_check_id'') = Some check"
    and "execution_track_of (qj_payload job) \<noteq> ''realtime_probe''"
    and "retired_check check (working s)"
  shows "run_check_job runner probe feedback clk i s = run_check_job runner' probe' feedback' clk i s \<and>
    (\<exists>job'. get_job i (committed (snd (run_check_job runner probe feedback clk i s))) = Some job' \<and>
       qj_status job' \<in> {FAILED, SKIPPED})"
proof -
  obtain stop where p: "prepare (qj_payload job) (working s) = Inl stop"
    using prepare_retired [OF assms(2-4)] by blast
  then show ?thesis
    using assms(1)
    by (cases stop) (auto simp: run_check_job_def mark_failed_def mark_skipped_def skip_realtime_def
        get_upd_job close_job_def)
qed

definition sample_check_job :: queued_job where
  "sample_check_job =
     new_queued_job 9 datetime_min_utc RUN_CHECK_JOB_TYPE
       [(''page_check_id'', PStr (uuid_str 5)), (''execution_track'', PStr ''precompiled'')]"

lemma track_precompiled [simp]: "lower (strip ''precompiled'') = ''precompiled''"
proof -
  have "strip ''precompiled'' = ''precompiled''"
    by (rule strip_graphic) (simp add: graphic_def)
  then show ?thesis by (simp add: lower_def ascii_lower_def)
qed

theorem retired_check_never_executed_witness:
  "\<forall>runner probe runner' probe' feedback' clk.
     run_check_job runner probe None clk 9 (open_session (empty_db\<lparr>queued_jobs := [sample_check_job]\<rparr>)) =
     run_check_job runner' probe' feedback' clk 9 (open_session (empty_db\<lparr>queued_jobs := [sample_check_job]\<rparr>))"
proof (intro allI)
  fix runner probe runner' probe' feedback' clk
  let ?d = "empty_db\<lparr>queued_jobs := [sample_check_job]\<rparr>"
  have j: "get_job 9 (working (open_session ?d)) = Some sample_check_job"
    by (simp add: get_job_def find_row_Cons sample_check_job_def new_queued_job_def)
  have r: "retired_check 5 (working (open_session ?d))"
    by (simp add: retired_check_def get_page_check_def empty_db_def)
  show "run_check_job runner probe None clk 9 (open_session ?d) = run_check_job runner' probe' feedback' clk 9 (open_session ?d)"
    by (rule retired_check_never_executed [OF j _ _ r, THEN conjunct1])
      (simp_all add: sample_check_job_def new_queued_job_def execution_track_of_def)
qed

subsection \<open>What the trigger enqueues, the handler accepts\<close>

lemma not_retired_reason:
  assumes "\<not> retired_check check d"
    and "find_row pj_id pid (published_jobs d) = Some pj" "pj_state pj \<noteq> JobPaused"
  shows "resolve_retirement_skip_reason check (Some pid) d = None"
  using assms
  by (auto simp: retired_check_def resolve_retirement_skip_reason_def retirement_failure_message_def
      split: option.splits)

text \<open>C15: the job that a trigger of a live published job enqueues passes every check of the run\_check
  handler, which reads back from the payload the page check, the published job and the run that
  the trigger wrote into it.\<close>

theorem triggered_job_is_accepted:
  assumes "trigger sql_enqueue rid qid now pj src sched s = ((run, q), s')"
    and "rid \<notin> keys_of jr_id (job_runs (working s))" "qid \<notin> keys_of qj_id (queued_jobs (working s))"
    and "\<not> retired_check (pj_page_check_id pj) (working s)"
    and "find_row pj_id (pj_id pj) (published_jobs (working s)) = Some pj" "pj_state pj \<noteq> JobPaused"
  shows "\<exists>j. get_job q (committed s') = Some j \<and>
    prepare (qj_payload j) (committed s') =
      Inr \<lparr>rq_execution_track = ''precompiled'', rq_page_check_id = Some (pj_page_check_id pj),
           rq_execution_plan_text = None, rq_execution_plan_id = None,
           rq_execution_request_text = None, rq_runtime_inputs = None,
           rq_job_run_id = Some rid, rq_published_job_id = Some (pj_id pj)\<rparr>"
proof -
  from sql.trigger_rows [OF assms(1-3)] obtain j where
    w: "working s' = (working s)\<lparr>job_runs := job_runs (working s) @ [run],
          queued_jobs := queued_jobs (working s) @ [j]\<rparr>"
    and run: "run = (trigger_job_run rid pj src (py_or sched now))\<lparr>jr_queued_job_id := Some q\<rparr>"
    and j: "q \<notin> keys_of qj_id (queued_jobs (working s))" "qj_id j = q"
      "qj_payload j = dset ''queued_job_id'' (PStr (uuid_str q))
         (trigger_payload rid pj src (py_or sched now))" by blast
  have c: "committed s' = working s'"
    using sql.trigger_commits [OF assms(1)] by (simp add: clean_def)
  have job: "get_job q (working s') = Some j"
    using j(1,2) by (simp add: get_job_def w row_simps find_row_None_iff [THEN iffD2] keys_of_def)
  have rid: "jr_id run = rid" "jr_published_job_id run = pj_id pj"
    by (simp_all add: run trigger_job_run_def)
  then have found: "get_run rid (working s') = Some run"
    using assms(2) by (simp add: get_run_def w row_simps find_row_None_iff [THEN iffD2] keys_of_def)
  have fields: "dget (qj_payload j) ''published_job_id'' = PStr (uuid_str (pj_id pj))"
    "dget (qj_payload j) ''page_check_id'' = PStr (uuid_str (pj_page_check_id pj))"
    "dget (qj_payload j) ''job_run_id'' = PStr (uuid_str rid)"
    "dget (qj_payload j) ''execution_plan_id'' = PNone"
    "dget (qj_payload j) ''execution_request_id'' = PNone"
    "execution_track_of (qj_payload j) = ''precompiled''"
    by (simp_all add: j(3) trigger_payload_def execution_track_of_def)
  have "retired_check check (working s') = retired_check check (working s)" for check
    by (simp add: w retired_check_def get_page_check_def get_page_asset_def cong: option.case_cong)
  then have "\<not> retired_check (pj_page_check_id pj) (working s')" using assms(4) by simp
  then have skip: "resolve_retirement_skip_reason (pj_page_check_id pj) (Some (pj_id pj)) (working s') = None"
    by (rule not_retired_reason) (use assms(5,6) in \<open>simp_all add: w\<close>)
  show ?thesis
    using job found rid skip
    by (simp add: c prepare_def Let_def fields page_check_of_def execution_request_of_def job_run_of_def)
qed

definition live_db :: db where
  "live_db = empty_db\<lparr>
     page_checks := [\<lparr>pc_id = 5, pc_page_asset_id = 8, pc_check_code = ''page_open'', pc_goal = ''open'',
       pc_lifecycle_status = LifecycleActive, pc_retired_reason = None, pc_retired_at = None,
       pc_retired_by_snapshot_id = None, pc_input_schema = None, pc_assertion_schema = None,
       pc_module_plan_id = None, pc_blocking_dependency_json = None, pc_success_rate = None,
       pc_last_verified_at = None\<rparr>],
     page_assets := [\<lparr>pa_id = 8, pa_system_id = 2, pa_page_id = 3, pa_asset_key = ''a'',
       pa_asset_version = ''v1'', pa_status = SAFE, pa_drift_status = SAFE,
       pa_lifecycle_status = LifecycleActive, pa_retired_reason = None, pa_retired_at = None,
       pa_retired_by_snapshot_id = None, pa_compiled_from_snapshot_id = None,
       pa_last_verified_at = None\<rparr>]\<rparr>"

definition live_job :: published_job where
  "live_job =
     \<lparr>pj_id = 1, pj_job_key = ''k'', pj_page_check_id = 5, pj_script_render_id = Some 6,
      pj_asset_version = None, pj_runtime_policy = ''published'', pj_schedule_expr = ''* * * * *'',
      pj_timezone = ''UTC'', pj_state = JobActive, pj_pause_reason = None,
      pj_paused_by_snapshot_id = None, pj_paused_by_asset_id = None,
      pj_paused_by_page_check_id = None\<rparr>"

theorem triggered_job_is_accepted_witness:
  "\<exists>run q s' j. trigger sql_enqueue 11 21 datetime_min_utc live_job ''manual'' None
       (open_session (live_db\<lparr>published_jobs := [live_job]\<rparr>)) = ((run, q), s') \<and>
     get_job q (committed s') = Some j \<and>
     (\<exists>rq. prepare (qj_payload j) (committed s') = Inr rq \<and> rq_job_run_id rq = Some 11)"
proof -
  let ?s = "open_session (live_db\<lparr>published_jobs := [live_job]\<rparr>)"
  obtain run q s' where t: "trigger sql_enqueue 11 21 datetime_min_utc live_job ''manual'' None ?s = ((run, q), s')"
    by (metis prod.exhaust)
  have "\<exists>j. get_job q (committed s') = Some j \<and> prepare (qj_payload j) (committed s') =
      Inr \<lparr>rq_execution_track = ''precompiled'', rq_page_check_id = Some (pj_page_check_id live_job),
           rq_execution_plan_text = None, rq_execution_plan_id = None,
           rq_execution_request_text = None, rq_runtime_inputs = None,
           rq_job_run_id = Some 11, rq_published_job_id = Some (pj_id live_job)\<rparr>"
    by (rule triggered_job_is_accepted [OF t])
      (simp_all add: live_db_def live_job_def empty_db_def find_row_Cons retired_check_def
        get_page_check_def get_page_asset_def)
  with t show ?thesis by auto
qed

end
