(* ===== verification/PyIso.thy ===== *)
theory PyIso
  imports PyTime
begin

section \<open>Reading ISO 8601 times\<close>

text \<open>
  \<open>datetime.fromisoformat\<close> on the extended formats: a date, or a date, one separating byte and a
  time of hours, minutes, seconds and a fraction, each part optional from the right, with an offset
  or \<open>Z\<close>. (The basic formats without hyphens and the week dates are not read: no part of the
  program writes them.) \<open>None\<close> is its \<open>ValueError\<close>.
\<close>

definition days_from_civil :: "int \<Rightarrow> int \<Rightarrow> int \<Rightarrow> int" where
  "days_from_civil y m d =
     (let y' = (if m \<le> 2 then y - 1 else y);
          era = y' div 400;
          yoe = y' mod 400;
          mp = (if 2 < m then m - 3 else m + 9);
          doy = (153 * mp + 2) div 5 + d - 1;
          doe = yoe * 365 + yoe div 4 - yoe div 100 + doy
      in era * 146097 + doe - 719468)"

definition leap_year :: "int \<Rightarrow> bool" where
  "leap_year y \<longleftrightarrow> y mod 4 = 0 \<and> (y mod 100 \<noteq> 0 \<or> y mod 400 = 0)"

definition days_in_month :: "int \<Rightarrow> int \<Rightarrow> int" where
  "days_in_month y m =
     (if m = 2 then (if leap_year y then 29 else 28)
      else if m \<in> {4, 6, 9, 11} then 30 else 31)"

definition dec_digit :: "char \<Rightarrow> nat option" where
  "dec_digit c = (let n = (of_char c :: nat) in if 48 \<le> n \<and> n \<le> 57 then Some (n - 48) else None)"

text \<open>Exactly \<open>n\<close> decimal digits at the front.\<close>

fun take_digits :: "nat \<Rightarrow> int \<Rightarrow> string \<Rightarrow> (int \<times> string) option" where
  "take_digits 0 acc s = Some (acc, s)"
| "take_digits (Suc n) acc [] = None"
| "take_digits (Suc n) acc (c # cs) =
     (case dec_digit c of None \<Rightarrow> None | Some d \<Rightarrow> take_digits n (10 * acc + int d) cs)"

definition expect_char :: "char \<Rightarrow> string \<Rightarrow> string option" where
  "expect_char c s = (case s of x # xs \<Rightarrow> if x = c then Some xs else None | [] \<Rightarrow> None)"

definition read_date :: "string \<Rightarrow> (int \<times> string) option" where
  "read_date s =
     (case take_digits 4 0 s of None \<Rightarrow> None | Some (y, s1) \<Rightarrow>
     (case expect_char (CHR ''-'') s1 of None \<Rightarrow> None | Some s2 \<Rightarrow>
     (case take_digits 2 0 s2 of None \<Rightarrow> None | Some (m, s3) \<Rightarrow>
     (case expect_char (CHR ''-'') s3 of None \<Rightarrow> None | Some s4 \<Rightarrow>
     (case take_digits 2 0 s4 of None \<Rightarrow> None | Some (d, s5) \<Rightarrow>
        if 1 \<le> y \<and> 1 \<le> m \<and> m \<le> 12 \<and> 1 \<le> d \<and> d \<le> days_in_month y m
        then Some (days_from_civil y m d, s5) else None)))))"

text \<open>The digits after the decimal sign: microseconds, further digits dropped.\<close>

definition read_fraction :: "string \<Rightarrow> (int \<times> string) option" where
  "read_fraction s =
     (let ds = takeWhile (\<lambda>c. dec_digit c \<noteq> None) s;
          six = map (\<lambda>c. int (the (dec_digit c))) (take 6 ds) in
      if ds = [] then None
      else Some (foldl (\<lambda>a d. 10 * a + d) 0 (take 6 (six @ [0, 0, 0, 0, 0])), drop (length ds) s))"

text \<open>\<open>hh[:mm[:ss[.ffffff]]]\<close> in microseconds, and what follows.\<close>

definition read_clock :: "string \<Rightarrow> (int \<times> string) option" where
  "read_clock s =
     (case take_digits 2 0 s of None \<Rightarrow> None | Some (h, s1) \<Rightarrow>
       if 24 \<le> h then None else
       (case expect_char (CHR '':'') s1 of None \<Rightarrow> Some (h * 3600000000, s1) | Some s2 \<Rightarrow>
       (case take_digits 2 0 s2 of None \<Rightarrow> None | Some (mi, s3) \<Rightarrow>
         if 60 \<le> mi then None else
         (case expect_char (CHR '':'') s3 of None \<Rightarrow> Some (h * 3600000000 + mi * us_per_minute, s3) | Some s4 \<Rightarrow>
         (case take_digits 2 0 s4 of None \<Rightarrow> None | Some (sec, s5) \<Rightarrow>
           if 60 \<le> sec then None else
           let base = h * 3600000000 + mi * us_per_minute + sec * 1000000 in
           (case s5 of
              c # rest \<Rightarrow>
                if c = CHR ''.'' \<or> c = CHR '',''
                then (case read_fraction rest of None \<Rightarrow> None | Some (us, s6) \<Rightarrow> Some (base + us, s6))
                else Some (base, s5)
            | [] \<Rightarrow> Some (base, s5)))))))"

definition read_offset :: "string \<Rightarrow> int option option" where
  "read_offset s =
     (case s of
        [] \<Rightarrow> Some None
      | c # cs \<Rightarrow>
          if c = CHR ''Z'' \<and> cs = [] then Some (Some 0)
          else if c = CHR ''+'' \<or> c = CHR ''-'' then
            (case read_clock cs of
               Some (us, []) \<Rightarrow> Some (Some (if c = CHR ''-'' then - us else us))
             | _ \<Rightarrow> None)
          else None)"

definition fromisoformat :: "string \<Rightarrow> datetime option" where
  "fromisoformat s =
     (case read_date s of
        None \<Rightarrow> None
      | Some (days, rest) \<Rightarrow>
          (case rest of
             [] \<Rightarrow> Some \<lparr>wall_us = days * us_per_day, utcoffset_us = None\<rparr>
           | sep # t \<Rightarrow>
               (case read_clock t of
                  None \<Rightarrow> None
                | Some (us, tz) \<Rightarrow>
                    (case read_offset tz of
                       None \<Rightarrow> None
                     | Some off \<Rightarrow> Some \<lparr>wall_us = days * us_per_day + us, utcoffset_us = off\<rparr>))))"

text \<open>\<open>_parse_datetime\<close> of the auth and crawl jobs: a naive time is taken as UTC.\<close>

definition parse_datetime :: "pyval \<Rightarrow> datetime option" where
  "parse_datetime v =
     (case as_str v of
        None \<Rightarrow> None
      | Some s \<Rightarrow> map_option normalize_time (fromisoformat s))"

lemma parse_datetime_utc: "parse_datetime v = Some d \<Longrightarrow> utcoffset_us d = Some 0"
  by (auto simp: parse_datetime_def split: option.splits)

end
