(* ===== verification/PolicyJobs.thy ===== *)
theory PolicyJobs
  imports RunCheckStates PyIso
begin

section \<open>Auth refresh and crawl jobs\<close>

text \<open>
  jobs/auth\_refresh\_job.py and jobs/crawl\_job.py. Both handlers copy audit fields from the payload
  to the queued job, find the policy the job belongs to, run their service and record the outcome
  on the job and on the policy; a successful crawl also queues the compilation of its snapshot and
  discards the drafts that it supersedes. The auth and crawler services are constructor arguments
  of the code and arguments here.
\<close>

subsection \<open>Audit fields and policies\<close>

definition apply_queue_audit_fields :: "queued_job \<Rightarrow> queued_job" where
  "apply_queue_audit_fields job =
     (let payload = qj_payload job;
          j1 = (case parse_uuid (dget payload ''policy_id'') of
                  None \<Rightarrow> job | Some u \<Rightarrow> job\<lparr>qj_policy_id := Some u\<rparr>);
          j2 = (case as_str (dget payload ''trigger_source'') of
                  None \<Rightarrow> j1
                | Some t \<Rightarrow> if strip t \<noteq> [] then j1\<lparr>qj_trigger_source := Some (strip t)\<rparr> else j1)
      in (case parse_datetime (dget payload ''scheduled_at'') of
            None \<Rightarrow> j2 | Some t \<Rightarrow> j2\<lparr>qj_scheduled_at := Some t\<rparr>))"

definition resolve_policy ::
  "('p \<Rightarrow> uuid) \<Rightarrow> ('p \<Rightarrow> uuid) \<Rightarrow> 'p list \<Rightarrow> pydict \<Rightarrow> 'p option" where
  "resolve_policy key sys policies payload =
     (let by_system = (\<lambda>i. List.find (\<lambda>p. sys p = i) policies);
          by_id = (case parse_uuid (dget payload ''policy_id'') of
                     None \<Rightarrow> None
                   | Some i \<Rightarrow> (case find_row key i policies of Some p \<Rightarrow> Some p | None \<Rightarrow> by_system i))
      in case by_id of
           Some p \<Rightarrow> Some p
         | None \<Rightarrow>
             (case parse_uuid (dget payload ''system_id'') of
                None \<Rightarrow> None
              | Some i \<Rightarrow> by_system i))"

definition resolve_auth_policy :: "pydict \<Rightarrow> db \<Rightarrow> uuid option" where
  "resolve_auth_policy payload d =
     map_option ap_id (resolve_policy ap_id ap_system_id (system_auth_policies d) payload)"

definition resolve_crawl_policy :: "pydict \<Rightarrow> db \<Rightarrow> uuid option" where
  "resolve_crawl_policy payload d =
     map_option cp_id (resolve_policy cp_id cp_system_id (system_crawl_policies d) payload)"

definition on_auth_policy ::
  "uuid option \<Rightarrow> (system_auth_policy \<Rightarrow> system_auth_policy) \<Rightarrow> db \<Rightarrow> db" where
  "on_auth_policy pid f d =
     (case pid of
        None \<Rightarrow> d
      | Some i \<Rightarrow> d\<lparr>system_auth_policies := upd_row ap_id i f (system_auth_policies d)\<rparr>)"

definition on_crawl_policy ::
  "uuid option \<Rightarrow> (system_crawl_policy \<Rightarrow> system_crawl_policy) \<Rightarrow> db \<Rightarrow> db" where
  "on_crawl_policy pid f d =
     (case pid of
        None \<Rightarrow> d
      | Some i \<Rightarrow> d\<lparr>system_crawl_policies := upd_row cp_id i f (system_crawl_policies d)\<rparr>)"

text \<open>The message of the \<open>ValueError\<close> that \<open>UUID(value)\<close> raises.\<close>

definition uuid_error :: "string \<Rightarrow> string" where
  "uuid_error value =
     (let h = py_remove ''-'' 0 (strip_braces (py_remove ''uuid:'' 0 (py_remove ''urn:'' 0 value)))
      in if length h \<noteq> 32 then ''badly formed hexadecimal UUID string''
         else case py_int16 h of
                None \<Rightarrow> ''invalid literal for int() with base 16: '' @ repr_str h
              | Some i \<Rightarrow> ''int is out of range (need a 128-bit value)'')"

definition close_queued ::
  "queued_job_status \<Rightarrow> clock \<Rightarrow> string option \<Rightarrow> queued_job \<Rightarrow> queued_job" where
  "close_queued st clk message j =
     j\<lparr>qj_status := st, qj_started_at := Some (py_or (qj_started_at j) (clk 1)),
       qj_finished_at := Some (clk 2), qj_failure_message := message\<rparr>"

definition start_queued :: "clock \<Rightarrow> queued_job \<Rightarrow> queued_job" where
  "start_queued clk j =
     j\<lparr>qj_status := RUNNING, qj_started_at := Some (py_or (qj_started_at j) (clk 0))\<rparr>"

subsection \<open>Auth refresh\<close>

record auth_result =
  ar_status :: string
  ar_message :: "string option"

type_synonym auth_refresher = "uuid \<Rightarrow> db_session \<Rightarrow> (py_exc + auth_result) \<times> db_session"

definition auth_mark_failed ::
  "clock \<Rightarrow> uuid \<Rightarrow> string option \<Rightarrow> uuid option \<Rightarrow> db_session \<Rightarrow> db_session" where
  "auth_mark_failed clk job_id message pid s =
     commit (modify
       (on_auth_policy pid (\<lambda>p. p\<lparr>ap_last_failed_at := Some (clk 3), ap_last_failure_message := message\<rparr>) \<circ>
        upd_job job_id (close_queued FAILED clk message)) s)"

text \<open>Lines 49-69: the outcome of the refresh.\<close>

definition auth_conclude ::
  "clock \<Rightarrow> uuid \<Rightarrow> uuid option \<Rightarrow> auth_result \<Rightarrow> db_session \<Rightarrow> db_session" where
  "auth_conclude clk job_id pid result s =
     (let finish = (\<lambda>st message f. commit (modify
            (on_auth_policy pid f \<circ>
             upd_job job_id (\<lambda>j. j\<lparr>qj_status := st, qj_failure_message := message,
               qj_finished_at := Some (clk 5)\<rparr>)) s));
          failed = (\<lambda>p. p\<lparr>ap_last_failed_at := Some (clk 4), ap_last_failure_message := ar_message result\<rparr>)
      in if ar_status result = ''success'' then
           finish COMPLETED None
             (\<lambda>p. p\<lparr>ap_last_succeeded_at := Some (clk 4), ap_last_failure_message := None\<rparr>)
         else if ar_status result = ''retryable_failed'' then
           finish RETRYABLE_FAILED (ar_message result) failed
         else finish FAILED (ar_message result) failed)"

definition auth_refresh_job ::
  "auth_refresher \<Rightarrow> clock \<Rightarrow> uuid \<Rightarrow> db_session \<Rightarrow> (string + unit) \<times> db_session" where
  "auth_refresh_job refresh clk job_id s =
     (case get_job job_id (working s) of
        None \<Rightarrow> (Inl (''queued job '' @ uuid_str job_id @ '' not found''), s)
      | Some job \<Rightarrow>
          (let s1 = modify (upd_job job_id apply_queue_audit_fields) s;
               pid = resolve_auth_policy (qj_payload job) (working s1) in
           case as_str (dget (qj_payload job) ''system_id'') of
             None \<Rightarrow> (Inr (), auth_mark_failed clk job_id
                        (Some ''missing system_id in auth refresh job payload'') pid s1)
           | Some system_id \<Rightarrow>
               (let s2 = commit (modify (upd_job job_id (start_queued clk)) s1) in
                case parse_uuid_str system_id of
                  None \<Rightarrow> (Inr (), auth_mark_failed clk job_id (Some (uuid_error system_id)) pid s2)
                | Some sid \<Rightarrow>
                    (case refresh sid s2 of
                       (Inl e, s3) \<Rightarrow> (Inr (), auth_mark_failed clk job_id (Some (exc_str e)) pid s3)
                     | (Inr result, s3) \<Rightarrow> (Inr (), auth_conclude clk job_id pid result s3)))))"

subsection \<open>Crawl\<close>

record crawl_result =
  cw_status :: string
  cw_snapshot_id :: "uuid option"
  cw_message :: "string option"

type_synonym crawl_runner = "uuid \<Rightarrow> string \<Rightarrow> db_session \<Rightarrow> (py_exc + crawl_result) \<times> db_session"

definition crawl_mark_failed ::
  "clock \<Rightarrow> uuid \<Rightarrow> string option \<Rightarrow> uuid option \<Rightarrow> db_session \<Rightarrow> db_session" where
  "crawl_mark_failed clk job_id message pid s =
     commit (modify
       (on_crawl_policy pid (\<lambda>p. p\<lparr>cp_last_failed_at := Some (clk 3), cp_last_failure_message := message\<rparr>) \<circ>
        upd_job job_id (close_queued FAILED clk message)) s)"

definition queued_snapshot_ids :: "db \<Rightarrow> uuid list" where
  "queued_snapshot_ids d =
     List.map_filter (\<lambda>j. parse_uuid (dget (qj_payload j) ''snapshot_id''))
       (filter (\<lambda>j. qj_job_type j = ASSET_COMPILE_JOB_TYPE) (queued_jobs d))"

definition draft_order :: "crawl_snapshot \<Rightarrow> int \<times> (int \<times> int) \<times> int" where
  "draft_order c = (- instant (cs_started_at c), desc_time (cs_finished_at c), - uint (cs_id c))"

definition discard_row :: "datetime \<Rightarrow> crawl_snapshot \<Rightarrow> crawl_snapshot" where
  "discard_row now c =
     c\<lparr>cs_state := ''discarded'', cs_discarded_at := Some now,
       cs_failure_reason := Some ''superseded_by_newer_draft''\<rparr>"

text \<open>\<open>stamp i\<close> is the reading of the clock in the round of the loop that discards the row \<open>i\<close>.\<close>

definition discard_superseded_uncompiled_drafts :: "(uuid \<Rightarrow> datetime) \<Rightarrow> uuid \<Rightarrow> uuid \<Rightarrow> db \<Rightarrow> db" where
  "discard_superseded_uncompiled_drafts stamp system_id keep_snapshot_id d =
     (let snapshots = sort_key draft_order
            (filter (\<lambda>c. cs_system_id c = system_id \<and> cs_state c = ''draft'') (crawl_snapshots d));
          queued = queued_snapshot_ids d
      in fold (\<lambda>c d.
             if cs_id c = keep_snapshot_id then d
             else if cs_id c \<in> set queued then d
             else d\<lparr>crawl_snapshots :=
                    upd_row cs_id (cs_id c) (\<lambda>r. discard_row (stamp (cs_id r)) r) (crawl_snapshots d)\<rparr>)
           snapshots d)"

definition new_compile_job :: "uuid \<Rightarrow> datetime \<Rightarrow> uuid \<Rightarrow> queued_job" where
  "new_compile_job i now snapshot_id =
     new_queued_job i now ASSET_COMPILE_JOB_TYPE
       [(''snapshot_id'', PStr (uuid_str snapshot_id)), (''compile_scope'', PStr ''impacted_pages_only'')]"

text \<open>Lines 71-93: a successful crawl.\<close>

definition crawl_conclude ::
  "clock \<Rightarrow> (uuid \<Rightarrow> datetime) \<Rightarrow> uuid \<Rightarrow> uuid \<Rightarrow> uuid option \<Rightarrow> uuid \<Rightarrow> uuid \<Rightarrow> db_session \<Rightarrow> db_session" where
  "crawl_conclude clk stamp compile_id job_id pid system_id snapshot_id s =
     commit (modify
       (on_crawl_policy pid (\<lambda>p. p\<lparr>cp_last_succeeded_at := Some (clk 6), cp_last_failure_message := None\<rparr>) \<circ>
        upd_job job_id (\<lambda>j. j\<lparr>qj_status := COMPLETED, qj_failure_message := None,
          qj_finished_at := Some (clk 5),
          qj_result_payload := Some [(''status'', PStr ''success''),
                                     (''snapshot_id'', PStr (uuid_str snapshot_id))]\<rparr>) \<circ>
        (\<lambda>d. d\<lparr>queued_jobs := queued_jobs d @ [new_compile_job compile_id (clk 4) snapshot_id]\<rparr>) \<circ>
        discard_superseded_uncompiled_drafts stamp system_id snapshot_id) s)"

definition crawl_job ::
  "crawl_runner \<Rightarrow> clock \<Rightarrow> (uuid \<Rightarrow> datetime) \<Rightarrow> uuid \<Rightarrow> uuid \<Rightarrow> db_session \<Rightarrow> (string + unit) \<times> db_session" where
  "crawl_job crawl clk stamp compile_id job_id s =
     (case get_job job_id (working s) of
        None \<Rightarrow> (Inl (''queued job '' @ uuid_str job_id @ '' not found''), s)
      | Some job \<Rightarrow>
          (let s1 = modify (upd_job job_id apply_queue_audit_fields) s;
               pid = resolve_crawl_policy (qj_payload job) (working s1);
               crawl_scope = (case map_of (qj_payload job) ''crawl_scope'' of
                                None \<Rightarrow> PStr ''full'' | Some v \<Rightarrow> v) in
           case as_str (dget (qj_payload job) ''system_id'') of
             None \<Rightarrow> (Inr (), crawl_mark_failed clk job_id
                        (Some ''missing system_id in crawl job payload'') pid s1)
           | Some system_id \<Rightarrow>
          (case (case as_str crawl_scope of None \<Rightarrow> None | Some t \<Rightarrow> if strip t = [] then None else Some t) of
             None \<Rightarrow> (Inr (), crawl_mark_failed clk job_id
                        (Some ''missing crawl_scope in crawl job payload'') pid s1)
           | Some scope \<Rightarrow>
               (let s2 = commit (modify (upd_job job_id (start_queued clk)) s1) in
                case parse_uuid_str system_id of
                  None \<Rightarrow> (Inr (), crawl_mark_failed clk job_id (Some (uuid_error system_id)) pid s2)
                | Some sid \<Rightarrow>
                    (case crawl sid scope s2 of
                       (Inl e, s3) \<Rightarrow> (Inr (), crawl_mark_failed clk job_id (Some (exc_str e)) pid s3)
                     | (Inr result, s3) \<Rightarrow>
                         (case (if cw_status result \<noteq> ''success'' then None else cw_snapshot_id result) of
                            None \<Rightarrow> (Inr (), crawl_mark_failed clk job_id
                                       (or_text (cw_message result) (Some (cw_status result))) pid s3)
                          | Some snapshot_id \<Rightarrow>
                              (Inr (), crawl_conclude clk stamp compile_id job_id pid sid snapshot_id s3)))))))"

subsection \<open>The drafts a crawl discards\<close>

definition superseded :: "uuid \<Rightarrow> uuid \<Rightarrow> db \<Rightarrow> crawl_snapshot \<Rightarrow> bool" where
  "superseded system_id keep d c \<longleftrightarrow>
     cs_system_id c = system_id \<and> cs_state c = ''draft'' \<and> cs_id c \<noteq> keep \<and>
     cs_id c \<notin> set (queued_snapshot_ids d)"

definition discard_all :: "(uuid \<Rightarrow> datetime) \<Rightarrow> uuid \<Rightarrow> uuid \<Rightarrow> db \<Rightarrow> crawl_snapshot list" where
  "discard_all stamp system_id keep d =
     map (\<lambda>c. if superseded system_id keep d c then discard_row (stamp (cs_id c)) c else c)
       (crawl_snapshots d)"

lemma discard_row_id [simp]: "cs_id (discard_row t c) = cs_id c"
  by (simp add: discard_row_def)

lemma fold_snapshots:
  "fold (\<lambda>c d. if P c then d else if Q c then d
       else d\<lparr>crawl_snapshots := upd_row cs_id (cs_id c) f (crawl_snapshots d)\<rparr>) cs d =
     d\<lparr>crawl_snapshots :=
       fold (\<lambda>k. upd_row cs_id k f) (map cs_id (filter (\<lambda>c. \<not> P c \<and> \<not> Q c) cs)) (crawl_snapshots d)\<rparr>"
  by (induction cs arbitrary: d) simp_all

lemma discard_superseded:
  assumes "distinct (map cs_id (crawl_snapshots d))"
  shows "discard_superseded_uncompiled_drafts stamp sid keep d =
    d\<lparr>crawl_snapshots := discard_all stamp sid keep d\<rparr>"
proof -
  let ?cs = "crawl_snapshots d" and ?f = "\<lambda>r. discard_row (stamp (cs_id r)) r"
  let ?sel = "filter (\<lambda>c. cs_id c \<noteq> keep \<and> cs_id c \<notin> set (queued_snapshot_ids d))
    (sort_key draft_order (filter (\<lambda>c. cs_system_id c = sid \<and> cs_state c = ''draft'') ?cs))"
  have inj: "inj_on cs_id (set ?cs)" and dd: "distinct ?cs" using assms by (auto simp: distinct_map)
  have set: "set ?sel = {c \<in> set ?cs. superseded sid keep d c}"
    by (auto simp: superseded_def)
  have "distinct ?sel" using dd by simp
  then have "distinct (map cs_id ?sel)"
    unfolding distinct_map set using inj by (auto intro: inj_on_subset)
  then have "fold (\<lambda>k. upd_row cs_id k ?f) (map cs_id ?sel) ?cs =
      map (\<lambda>r. if cs_id r \<in> cs_id ` {c \<in> set ?cs. superseded sid keep d c} then ?f r else r) ?cs"
    by (subst fold_upd_row) (simp_all add: set [symmetric] del: set_filter)
  also have "\<dots> = discard_all stamp sid keep d"
    unfolding discard_all_def by (rule map_cong) (auto dest: inj_onD [OF inj])
  finally show ?thesis
    by (simp add: discard_superseded_uncompiled_drafts_def Let_def fold_snapshots)
qed

end
