(* ===== verification/RunnerService.thy ===== *)
theory RunnerService
  imports RunCheckStates PyFloat
begin

section \<open>The runner service\<close>

text \<open>
  runner\_service/service.py: a page check or a realtime probe is resolved against the database,
  driven in a browser by the module executor and recorded as an execution run with its artifacts.

  The runtime and the module executor are objects the constructor receives; \<open>browser\<close> holds what
  one call of the service gets back from them (\<open>Inl\<close> is a raised exception, or a method the
  runtime does not have where the code tests for it). The primary keys and clock readings of one
  call are in \<open>run_env\<close>.
\<close>

record browser =
  br_set_base_url :: "string \<Rightarrow> py_exc option"
  br_execute :: "pydict list \<Rightarrow> pydict \<Rightarrow> pydict option \<Rightarrow> py_exc + module_result"
  br_call :: "string \<Rightarrow> py_exc + pyval"
  br_screenshot :: "py_exc + string option"
  br_close :: "py_exc option"
  br_screenshot_path :: "uuid \<Rightarrow> string option"

record run_env =
  en_browser :: browser
  en_request_id :: uuid
  en_plan_id :: uuid
  en_run_id :: uuid
  en_artifact_id :: uuid
  en_screenshot_id :: uuid
  en_clock :: clock

subsection \<open>Failure categories and telemetry\<close>

definition failure_category_for_module :: "string \<Rightarrow> failure_category" where
  "failure_category_for_module m =
     (if m = ''nav.menu_chain'' then NavigationFailed
      else if m = ''page.wait_ready'' then PageNotReady
      else if m = ''locator.assert'' then AssertionFailed
      else if prefix ''assert.'' m then AssertionFailed
      else RuntimeError)"

definition first_failed_step :: "step_result list \<Rightarrow> step_result option" where
  "first_failed_step steps = List.find (\<lambda>st. st_status st = RunFailed) steps"

definition resolve_failure_category :: "module_result \<Rightarrow> failure_category option" where
  "resolve_failure_category res =
     (if mx_status res = RunPassed then None
      else case first_failed_step (mx_step_results res) of
             Some st \<Rightarrow>
               (case (case st_output st of
                        None \<Rightarrow> None
                      | Some out \<Rightarrow> (case as_str (dget out ''failure_category'') of
                                       None \<Rightarrow> None | Some c \<Rightarrow> failure_category_of c)) of
                  Some c \<Rightarrow> Some c
                | None \<Rightarrow> Some (failure_category_for_module (st_module st)))
           | None \<Rightarrow>
               if mx_auth_status res = AuthBlockedStatus then Some AuthBlocked else Some RuntimeError)"

definition coerce_positive_int :: "pyval \<Rightarrow> int option" where
  "coerce_positive_int v = (case v of PInt i \<Rightarrow> if 0 < i then Some i else None | _ \<Rightarrow> None)"

definition coerce_bool :: "pyval \<Rightarrow> bool" where
  "coerce_bool v = (case v of PBool b \<Rightarrow> b | _ \<Rightarrow> False)"

record telemetry =
  tl_primary_hit :: bool
  tl_fallback_used :: bool
  tl_matched_rank :: "int option"
  tl_context_mismatch :: bool
  tl_ambiguous_match :: bool

definition telemetry_step :: "step_result \<Rightarrow> telemetry \<Rightarrow> telemetry" where
  "telemetry_step st t =
     (if st_module st \<noteq> ''locator.assert'' then t
      else
      let output = (case st_output st of None \<Rightarrow> [] | Some d \<Rightarrow> d);
          t1 = (case coerce_positive_int (dget output ''matched_rank'') of
                  None \<Rightarrow> t
                | Some rank \<Rightarrow>
                    t\<lparr>tl_matched_rank := Some rank,
                      tl_primary_hit := tl_primary_hit t \<or> rank = 1,
                      tl_fallback_used := tl_fallback_used t \<or> 1 < rank\<rparr>);
          v = dget output ''failure_category'';
          category = lower (strip (if py_truthy v then py_str v else []))
      in t1\<lparr>tl_context_mismatch := tl_context_mismatch t1 \<or> category = ''context_mismatch'' \<or>
               coerce_bool (dget output ''context_mismatch''),
            tl_ambiguous_match := tl_ambiguous_match t1 \<or> category = ''ambiguous_match'' \<or>
               coerce_bool (dget output ''ambiguous_match'')\<rparr>)"

definition opt_int_value :: "int option \<Rightarrow> pyval" where
  "opt_int_value v = (case v of None \<Rightarrow> PNone | Some i \<Rightarrow> PInt i)"

definition build_locator_telemetry :: "step_result list \<Rightarrow> pydict" where
  "build_locator_telemetry steps =
     (let t = fold telemetry_step steps
                \<lparr>tl_primary_hit = False, tl_fallback_used = False, tl_matched_rank = None,
                 tl_context_mismatch = False, tl_ambiguous_match = False\<rparr>
      in [(''locator_primary_hit'', PBool (tl_primary_hit t)),
          (''locator_fallback_used'', PBool (tl_fallback_used t)),
          (''matched_rank'', opt_int_value (tl_matched_rank t)),
          (''context_mismatch'', PBool (tl_context_mismatch t)),
          (''ambiguous_match'', PBool (tl_ambiguous_match t))])"

definition opt_dict_value :: "pydict option \<Rightarrow> pyval" where
  "opt_dict_value v = (case v of None \<Rightarrow> PNone | Some d \<Rightarrow> PDict d)"

definition dump_step :: "step_result \<Rightarrow> pyval" where
  "dump_step st =
     PDict [(''module'', PStr (st_module st)), (''status'', PStr (run_status_value (st_status st))),
            (''detail'', of_opt_str (st_detail st)), (''output'', opt_dict_value (st_output st))]"

subsection \<open>Driving the browser\<close>

definition read_runtime_text :: "browser \<Rightarrow> string \<Rightarrow> string option" where
  "read_runtime_text br m =
     (case br_call br m of
        Inr (PStr t) \<Rightarrow> opt_text (strip t)
      | _ \<Rightarrow> None)"

definition read_runtime_probe :: "browser \<Rightarrow> string \<Rightarrow> pydict option" where
  "read_runtime_probe br m = (case br_call br m of Inr (PDict d) \<Rightarrow> Some d | _ \<Rightarrow> None)"

definition read_runtime_screenshot :: "browser \<Rightarrow> string option" where
  "read_runtime_screenshot br = (case br_screenshot br of Inl e \<Rightarrow> None | Inr v \<Rightarrow> v)"

record drive_result =
  dv_result :: module_result
  dv_final_url :: "string option"
  dv_page_title :: "string option"
  dv_page_probe :: "pydict option"
  dv_screenshot :: "string option"

text \<open>Lines 117-135: the \<open>finally\<close> closes the runtime, and what closing raises prevails.\<close>

definition drive :: "browser \<Rightarrow> string \<Rightarrow> pydict list \<Rightarrow> pydict \<Rightarrow> pydict option \<Rightarrow> py_exc + drive_result" where
  "drive br base_url steps storage_state runtime_inputs =
     (case br_set_base_url br base_url of
        Some e \<Rightarrow> Inl e
      | None \<Rightarrow>
          (let body =
             (case br_execute br steps storage_state runtime_inputs of
                Inl e \<Rightarrow> Inl e
              | Inr res \<Rightarrow>
                  Inr \<lparr>dv_result = res,
                       dv_final_url = read_runtime_text br ''get_final_url'',
                       dv_page_title = read_runtime_text br ''get_page_title'',
                       dv_page_probe = read_runtime_probe br ''probe_page'',
                       dv_screenshot = read_runtime_screenshot br\<rparr>)
           in case br_close br of Some e \<Rightarrow> Inl e | None \<Rightarrow> body))"

definition elapsed_ms :: "datetime \<Rightarrow> datetime \<Rightarrow> int" where
  "elapsed_ms started_at now =
     max 0 (py_trunc (fl (fl (of_int (instant now - instant started_at) / 1000000) * 1000)))"

subsection \<open>Recording a run\<close>

definition add_run :: "execution_run \<Rightarrow> db \<Rightarrow> db" where
  "add_run r d = d\<lparr>execution_runs := execution_runs d @ [r]\<rparr>"

definition add_artifact :: "execution_artifact \<Rightarrow> db \<Rightarrow> db" where
  "add_artifact a d = d\<lparr>execution_artifacts := execution_artifacts d @ [a]\<rparr>"

definition new_run :: "run_env \<Rightarrow> uuid \<Rightarrow> string option \<Rightarrow> execution_run" where
  "new_run env plan_id asset_version =
     \<lparr>xr_id = en_run_id env, xr_execution_plan_id = plan_id,
      xr_status = run_status_value RunRunning, xr_duration_ms = None, xr_auth_status = None,
      xr_failure_category = None, xr_asset_version = asset_version, xr_snapshot_version = None,
      xr_created_at = en_clock env 0\<rparr>"

definition result_of_status :: "run_status \<Rightarrow> execution_result_status" where
  "result_of_status st = (if st = RunPassed then ResultSuccess else ResultFailed)"

definition module_artifact :: "run_env \<Rightarrow> run_status \<Rightarrow> pydict \<Rightarrow> execution_artifact" where
  "module_artifact env st payload =
     \<lparr>xa_id = en_artifact_id env, xa_execution_run_id = en_run_id env,
      xa_artifact_kind = ''module_execution'', xa_result_status = result_of_status st,
      xa_payload = Some payload, xa_artifact_uri = None, xa_created_at = en_clock env 3\<rparr>"

text \<open>Lines 168-194: \<open>None\<close> when there is no screenshot or writing it fails with an \<open>OSError\<close>.\<close>

definition screenshot_artifact :: "run_env \<Rightarrow> drive_result \<Rightarrow> execution_artifact option" where
  "screenshot_artifact env dv =
     (case dv_screenshot dv of
        None \<Rightarrow> None
      | Some bytes \<Rightarrow>
          (case br_screenshot_path (en_browser env) (en_run_id env) of
             None \<Rightarrow> None
           | Some path \<Rightarrow>
               Some \<lparr>xa_id = en_screenshot_id env, xa_execution_run_id = en_run_id env,
                     xa_artifact_kind = ''screenshot'', xa_result_status = ResultSuccess,
                     xa_payload = Some
                       [(''mime_type'', PStr ''image/png''),
                        (''byte_size'', PInt (int (length bytes))),
                        (''final_url'', of_opt_str (dv_final_url dv)),
                        (''page_title'', of_opt_str (dv_page_title dv)),
                        (''page_probe'', opt_dict_value (dv_page_probe dv))],
                     xa_artifact_uri = Some path, xa_created_at = en_clock env 4\<rparr>))"

text \<open>
  The part the two methods share: the run row is flushed, the browser driven, the run completed,
  the artifacts added and everything committed. \<open>payload_of\<close> is the payload of the module artifact
  and \<open>recompile\<close> the recompilation flag of the result.
\<close>

definition run_and_record ::
  "run_env \<Rightarrow> uuid \<Rightarrow> string option \<Rightarrow> string \<Rightarrow> pydict list \<Rightarrow> pydict \<Rightarrow> pydict option \<Rightarrow>
    uuid option \<Rightarrow> (drive_result \<Rightarrow> pydict) \<Rightarrow> (run_status \<Rightarrow> bool) \<Rightarrow> db_session \<Rightarrow>
    (py_exc + run_result) \<times> db_session" where
  "run_and_record env plan_id asset_version base_url steps storage_state runtime_inputs
     result_page_check payload_of recompile s =
     (let run = new_run env plan_id asset_version;
          s1 = modify (add_run run) s in
      case drive (en_browser env) base_url steps storage_state runtime_inputs of
        Inl e \<Rightarrow> (Inl e, s1)
      | Inr dv \<Rightarrow>
          (let res = dv_result dv;
               category = resolve_failure_category res;
               run' = run\<lparr>xr_status := run_status_value (mx_status res),
                          xr_auth_status := Some (auth_inject_value (mx_auth_status res)),
                          xr_duration_ms := Some (elapsed_ms (en_clock env 1) (en_clock env 2)),
                          xr_failure_category := map_option failure_category_value category\<rparr>;
               artifact = module_artifact env (mx_status res) (payload_of dv);
               shot = screenshot_artifact env dv;
               s2 = commit (modify
                      ((\<lambda>d. case shot of None \<Rightarrow> d | Some a \<Rightarrow> add_artifact a d) \<circ>
                       add_artifact artifact \<circ>
                       (\<lambda>d. d\<lparr>execution_runs := upd_row xr_id (en_run_id env) (\<lambda>_. run') (execution_runs d)\<rparr>)) s1)
           in (Inr \<lparr>rs_page_check_id = result_page_check, rs_execution_run_id = en_run_id env,
                    rs_status = mx_status res, rs_auth_status = mx_auth_status res,
                    rs_artifact_ids = en_artifact_id env # (case shot of None \<Rightarrow> [] | Some a \<Rightarrow> [xa_id a]),
                    rs_screenshot_artifact_ids = (case shot of None \<Rightarrow> [] | Some a \<Rightarrow> [xa_id a]),
                    rs_step_results = mx_step_results res, rs_failure_category = category,
                    rs_final_url = dv_final_url dv, rs_page_title = dv_page_title dv,
                    rs_needs_recrawl = False, rs_needs_recompile = recompile (mx_status res)\<rparr>, s2)))"

subsection \<open>Resolution\<close>

definition valid_auth_order :: "auth_state \<Rightarrow> int \<times> int \<times> int" where
  "valid_auth_order a =
     (case au_validated_at a of
        None \<Rightarrow> (0, 0, - uint (au_id a))
      | Some t \<Rightarrow> (1, - instant t, - uint (au_id a)))"

text \<open>\<open>ORDER BY validated_at DESC, id DESC\<close>, where PostgreSQL puts nulls first.\<close>

definition load_valid_auth_state :: "uuid \<Rightarrow> db \<Rightarrow> auth_state option" where
  "load_valid_auth_state system_id d =
     first_by valid_auth_order
       (filter (\<lambda>a. au_system_id a = system_id \<and> au_status a = ''valid'' \<and> au_is_valid a) (auth_states d))"

definition opt_uuid_str :: "uuid option \<Rightarrow> string" where
  "opt_uuid_str v = (case v of None \<Rightarrow> ''None'' | Some u \<Rightarrow> uuid_str u)"

definition not_found :: "string \<Rightarrow> string \<Rightarrow> py_exc" where
  "not_found what i = OtherException (what @ '' '' @ i @ '' not found'')"

text \<open>\<open>_resolve_execution_plan\<close>: the plan's id, after adding a request and a plan when none is given.\<close>

definition resolve_execution_plan ::
  "run_env \<Rightarrow> uuid option \<Rightarrow> page_check \<Rightarrow> page_asset \<Rightarrow> system_row \<Rightarrow> module_plan \<Rightarrow> db_session \<Rightarrow>
    (py_exc + uuid) \<times> db_session" where
  "resolve_execution_plan env execution_plan_id pc pa sy mp s =
     (case execution_plan_id of
        Some pid \<Rightarrow>
          (case find_row ep_id pid (execution_plans (working s)) of
             None \<Rightarrow> (Inl (not_found ''execution plan'' (uuid_str pid)), s)
           | Some plan \<Rightarrow> (Inr (ep_id plan), s))
      | None \<Rightarrow>
          (let request =
                 \<lparr>er_id = en_request_id env, er_request_source = ''runner_service'',
                  er_system_hint = sys_code sy, er_page_hint = Some (pa_asset_key pa),
                  er_check_goal = pc_goal pc, er_strictness = ''balanced'', er_time_budget_ms = 20000,
                  er_template_code = None, er_template_version = None, er_carrier_hint = None,
                  er_template_params = None\<rparr>;
               plan =
                 \<lparr>ep_id = en_plan_id env, ep_execution_request_id = en_request_id env,
                  ep_resolved_system_id = Some (sys_id sy), ep_resolved_page_asset_id = Some (pa_id pa),
                  ep_resolved_page_check_id = Some (pc_id pc), ep_execution_track = ''precompiled'',
                  ep_auth_policy = ''server_injected'', ep_module_plan_id = Some (mp_id mp)\<rparr>
           in (Inr (en_plan_id env),
               modify (\<lambda>d. d\<lparr>execution_requests := execution_requests d @ [request],
                             execution_plans := execution_plans d @ [plan]\<rparr>) s)))"

definition check_payload :: "page_check \<Rightarrow> page_asset \<Rightarrow> system_row \<Rightarrow> drive_result \<Rightarrow> pydict" where
  "check_payload pc pa sy dv =
     [(''page_check_id'', PStr (uuid_str (pc_id pc))),
      (''page_asset_id'', PStr (uuid_str (pa_id pa))),
      (''system_id'', PStr (uuid_str (sys_id sy))),
      (''step_results'', PList (map dump_step (mx_step_results (dv_result dv)))),
      (''final_url'', of_opt_str (dv_final_url dv)),
      (''page_title'', of_opt_str (dv_page_title dv)),
      (''page_probe'', opt_dict_value (dv_page_probe dv)),
      (''locator_telemetry'', PDict (build_locator_telemetry (mx_step_results (dv_result dv))))]"

subsection \<open>\<open>run_page_check\<close>\<close>

text \<open>What a page check resolves to before anything is written; the left value is the exception.\<close>

record check_target =
  ct_page_check :: page_check
  ct_module_plan :: module_plan
  ct_page_asset :: page_asset
  ct_system :: system_row
  ct_storage_state :: pydict

definition resolve_page_check :: "uuid option \<Rightarrow> db \<Rightarrow> py_exc + check_target" where
  "resolve_page_check page_check_id d =
     (case (case page_check_id of None \<Rightarrow> None | Some i \<Rightarrow> get_page_check i d) of
        None \<Rightarrow> Inl (not_found ''page check'' (opt_uuid_str page_check_id))
      | Some pc \<Rightarrow>
     (case retirement_failure_message (pc_lifecycle_status pc) of
        Some reason \<Rightarrow> Inl (ExecutionBlocked reason)
      | None \<Rightarrow>
     (case pc_module_plan_id pc of
        None \<Rightarrow> Inl (OtherException (''page check '' @ opt_uuid_str page_check_id @ '' has no module plan''))
      | Some mid \<Rightarrow>
     (case find_row mp_id mid (module_plans d) of
        None \<Rightarrow> Inl (not_found ''module plan'' (uuid_str mid))
      | Some mp \<Rightarrow>
     (case get_page_asset (pc_page_asset_id pc) d of
        None \<Rightarrow> Inl (not_found ''page asset'' (uuid_str (pc_page_asset_id pc)))
      | Some pa \<Rightarrow>
     (case retirement_failure_message (pa_lifecycle_status pa) of
        Some reason \<Rightarrow> Inl (ExecutionBlocked reason)
      | None \<Rightarrow>
     (case find_row pg_id (pa_page_id pa) (pages d) of
        None \<Rightarrow> Inl (not_found ''page'' (uuid_str (pa_page_id pa)))
      | Some pg \<Rightarrow>
     (case find_row sys_id (pa_system_id pa) (systems d) of
        None \<Rightarrow> Inl (not_found ''system'' (uuid_str (pa_system_id pa)))
      | Some sy \<Rightarrow>
     (case load_valid_auth_state (sys_id sy) d of
        None \<Rightarrow> Inl (OtherException (''valid auth state not found for system '' @ uuid_str (sys_id sy)))
      | Some au \<Rightarrow>
     (case au_storage_state au of
        None \<Rightarrow> Inl (OtherException (''valid auth state not found for system '' @ uuid_str (sys_id sy)))
      | Some storage \<Rightarrow>
          Inr \<lparr>ct_page_check = pc, ct_module_plan = mp, ct_page_asset = pa, ct_system = sy,
               ct_storage_state = storage\<rparr>))))))))))"

definition run_page_check ::
  "run_env \<Rightarrow> uuid option \<Rightarrow> uuid option \<Rightarrow> pydict option \<Rightarrow> db_session \<Rightarrow>
    (py_exc + run_result) \<times> db_session" where
  "run_page_check env page_check_id execution_plan_id runtime_inputs s =
     (case resolve_page_check page_check_id (working s) of
        Inl e \<Rightarrow> (Inl e, s)
      | Inr t \<Rightarrow>
          (case resolve_execution_plan env execution_plan_id (ct_page_check t) (ct_page_asset t)
                  (ct_system t) (ct_module_plan t) s of
             (Inl e, s1) \<Rightarrow> (Inl e, s1)
           | (Inr plan_id, s1) \<Rightarrow>
               run_and_record env plan_id (Some (pa_asset_version (ct_page_asset t)))
                 (sys_base_url (ct_system t)) (mp_steps_json (ct_module_plan t)) (ct_storage_state t)
                 runtime_inputs (Some (pc_id (ct_page_check t)))
                 (check_payload (ct_page_check t) (ct_page_asset t) (ct_system t)) (\<lambda>_. False) s1))"

subsection \<open>\<open>run_realtime_probe\<close>\<close>

definition build_page_probe_plan :: "string \<Rightarrow> pydict list" where
  "build_page_probe_plan route_path =
     [[(''module'', PStr ''auth.inject_state''),
       (''params'', PDict [(''policy'', PStr ''server_injected'')])],
      [(''module'', PStr ''nav.menu_chain''),
       (''params'', PDict [(''menu_chain'', PList []), (''route_path'', PStr route_path)])],
      [(''module'', PStr ''assert.page_open''),
       (''params'', PDict [(''route_path'', PStr route_path)])],
      [(''module'', PStr ''page.wait_ready''),
       (''params'', PDict [(''route_path'', PStr route_path)])]]"

definition opt_id_value :: "uuid option \<Rightarrow> pyval" where
  "opt_id_value v = (case v of None \<Rightarrow> PNone | Some u \<Rightarrow> PStr (uuid_str u))"

text \<open>\<open>_create_realtime_probe_resolution_failure\<close>\<close>

definition probe_resolution_failure ::
  "run_env \<Rightarrow> execution_plan \<Rightarrow> execution_request \<Rightarrow> failure_category \<Rightarrow> string \<Rightarrow> uuid option \<Rightarrow>
    uuid option \<Rightarrow> string option \<Rightarrow> db_session \<Rightarrow> (py_exc + run_result) \<times> db_session" where
  "probe_resolution_failure env plan request category detail system_id page_asset_id asset_version s =
     (let steps = [\<lparr>st_module = ''nav.menu_chain'', st_status = RunFailed, st_detail = Some detail,
                    st_output = Some [(''failure_category'', PStr (failure_category_value category))]\<rparr>];
          run = (new_run env (ep_id plan) asset_version)
                  \<lparr>xr_status := run_status_value RunFailed, xr_duration_ms := Some 0,
                   xr_auth_status := Some (auth_inject_value AuthBlockedStatus),
                   xr_failure_category := Some (failure_category_value category)\<rparr>;
          artifact = module_artifact env RunFailed
                       [(''execution_request_id'', PStr (uuid_str (er_id request))),
                        (''execution_plan_id'', PStr (uuid_str (ep_id plan))),
                        (''page_check_id'', opt_id_value (ep_resolved_page_check_id plan)),
                        (''page_asset_id'', opt_id_value page_asset_id),
                        (''system_id'', opt_id_value system_id),
                        (''step_results'', PList (map dump_step steps)),
                        (''final_url'', PNone), (''page_title'', PNone), (''page_probe'', PNone),
                        (''locator_telemetry'', PDict (build_locator_telemetry steps))]
      in (Inr \<lparr>rs_page_check_id = ep_resolved_page_check_id plan, rs_execution_run_id = en_run_id env,
               rs_status = RunFailed, rs_auth_status = AuthBlockedStatus,
               rs_artifact_ids = [en_artifact_id env], rs_screenshot_artifact_ids = [],
               rs_step_results = steps, rs_failure_category = Some category, rs_final_url = None,
               rs_page_title = None, rs_needs_recrawl = False, rs_needs_recompile = False\<rparr>,
          commit (modify (add_artifact artifact \<circ> add_run run) s)))"

definition probe_payload ::
  "execution_plan \<Rightarrow> execution_request \<Rightarrow> page_asset \<Rightarrow> system_row \<Rightarrow> string \<Rightarrow> drive_result \<Rightarrow> pydict" where
  "probe_payload plan request pa sy route_path dv =
     [(''execution_request_id'', PStr (uuid_str (er_id request))),
      (''execution_plan_id'', PStr (uuid_str (ep_id plan))),
      (''page_check_id'', opt_id_value (ep_resolved_page_check_id plan)),
      (''page_asset_id'', PStr (uuid_str (pa_id pa))),
      (''system_id'', PStr (uuid_str (sys_id sy))),
      (''route_path'', PStr route_path),
      (''step_results'', PList (map dump_step (mx_step_results (dv_result dv)))),
      (''final_url'', of_opt_str (dv_final_url dv)),
      (''page_title'', of_opt_str (dv_page_title dv)),
      (''page_probe'', opt_dict_value (dv_page_probe dv)),
      (''locator_telemetry'', PDict (build_locator_telemetry (mx_step_results (dv_result dv)))),
      (''needs_recrawl'', PBool (ep_resolved_page_asset_id plan = None)),
      (''needs_recompile'', PBool (mx_status (dv_result dv) = RunPassed))]"

definition run_realtime_probe ::
  "run_env \<Rightarrow> uuid option \<Rightarrow> db_session \<Rightarrow> (py_exc + run_result) \<times> db_session" where
  "run_realtime_probe env execution_plan_id s =
     (let d = working s in
      case (case execution_plan_id of None \<Rightarrow> None | Some i \<Rightarrow> find_row ep_id i (execution_plans d)) of
        None \<Rightarrow> (Inl (not_found ''execution plan'' (opt_uuid_str execution_plan_id)), s)
      | Some plan \<Rightarrow>
      if ep_execution_track plan \<noteq> ''realtime_probe''
      then (Inl (OtherException (''execution plan '' @ opt_uuid_str execution_plan_id @ '' is not realtime_probe'')), s)
      else case find_row er_id (ep_execution_request_id plan) (execution_requests d) of
        None \<Rightarrow> (Inl (not_found ''execution request'' (uuid_str (ep_execution_request_id plan))), s)
      | Some request \<Rightarrow>
     (case ep_resolved_system_id plan of
        None \<Rightarrow> probe_resolution_failure env plan request SystemNotFound
                  ''system is not resolved in realtime probe execution plan'' None None None s
      | Some sid \<Rightarrow>
     (case find_row sys_id sid (systems d) of
        None \<Rightarrow> probe_resolution_failure env plan request SystemNotFound
                  (''system '' @ uuid_str sid @ '' not found'') None None None s
      | Some sy \<Rightarrow>
     (case (case load_valid_auth_state (sys_id sy) d of None \<Rightarrow> None | Some au \<Rightarrow> au_storage_state au) of
        None \<Rightarrow> (Inl (OtherException (''valid auth state not found for system '' @ uuid_str (sys_id sy))), s)
      | Some storage \<Rightarrow>
     (case ep_resolved_page_asset_id plan of
        None \<Rightarrow> probe_resolution_failure env plan request PageOrMenuNotResolved
                  ''page asset is not resolved in realtime probe execution plan''
                  (Some (sys_id sy)) None None s
      | Some aid \<Rightarrow>
     (case get_page_asset aid d of
        None \<Rightarrow> probe_resolution_failure env plan request PageOrMenuNotResolved
                  (''page asset '' @ uuid_str aid @ '' not found'') (Some (sys_id sy)) None None s
      | Some pa \<Rightarrow>
     (case find_row pg_id (pa_page_id pa) (pages d) of
        None \<Rightarrow> probe_resolution_failure env plan request PageOrMenuNotResolved
                  (''page '' @ uuid_str (pa_page_id pa) @ '' not found'') (Some (sys_id sy))
                  (Some (pa_id pa)) (Some (pa_asset_version pa)) s
      | Some pg \<Rightarrow>
          run_and_record env (ep_id plan) (Some (pa_asset_version pa)) (sys_base_url sy)
            (build_page_probe_plan (pg_route_path pg)) storage None (ep_resolved_page_check_id plan)
            (probe_payload plan request pa sy (pg_route_path pg)) (\<lambda>st. st = RunPassed) s)))))))"

end
