(* ===== verification/RunnerRecords.thy ===== *)
theory RunnerRecords
  imports RunnerService
begin

section \<open>What a run leaves in the database\<close>

text \<open>
  The rows a run of the runner service records, and the handler of run\_check jobs on top of the
  service: the interface \<open>check_runner\<close> is interpreted by the service's two operations.
\<close>

subsection \<open>The service keeps the queue\<close>

lemma jobs_at_modify_frame:
  assumes "jobs_at t s" "\<And>d. queued_jobs (f d) = queued_jobs d" "\<And>d. job_runs (f d) = job_runs d"
  shows "jobs_at t (modify f s)" "jobs_at t (commit (modify f s))"
  using assms by (simp_all add: jobs_at_def)

lemma run_and_record_jobs:
  "jobs_at t s \<Longrightarrow>
    jobs_at t (snd (run_and_record env plan av url steps storage inputs check payload_of rc s))"
  by (auto simp: run_and_record_def Let_def add_run_def add_artifact_def jobs_at_def
      split: sum.splits option.splits)

lemma resolve_execution_plan_jobs:
  "jobs_at t s \<Longrightarrow> jobs_at t (snd (resolve_execution_plan env plan pc pa sy mp s))"
  by (auto simp: resolve_execution_plan_def Let_def jobs_at_def split: option.splits)

lemma run_page_check_jobs:
  assumes "jobs_at t s" shows "jobs_at t (snd (run_page_check env check plan inputs s))"
proof (cases "resolve_page_check check (working s)")
  case (Inl e)
  then show ?thesis using assms by (simp add: run_page_check_def)
next
  case (Inr ct)
  obtain r s1 where "resolve_execution_plan env plan (ct_page_check ct) (ct_page_asset ct)
      (ct_system ct) (ct_module_plan ct) s = (r, s1)" by fastforce
  moreover from this have "jobs_at t s1"
    using resolve_execution_plan_jobs [OF assms, of env plan "ct_page_check ct" "ct_page_asset ct"
        "ct_system ct" "ct_module_plan ct"] by simp
  ultimately show ?thesis
    using Inr by (cases r) (simp_all add: run_page_check_def run_and_record_jobs)
qed

lemma probe_failure_jobs:
  "jobs_at t s \<Longrightarrow> jobs_at t (snd (probe_resolution_failure env plan rq c m sy pa av s))"
  by (simp add: probe_resolution_failure_def Let_def add_run_def add_artifact_def jobs_at_def)

lemma run_realtime_probe_jobs:
  "jobs_at t s \<Longrightarrow> jobs_at t (snd (run_realtime_probe env plan s))"
  unfolding run_realtime_probe_def Let_def
  by (auto simp: probe_failure_jobs run_and_record_jobs split: option.splits)

interpretation service: check_runner "\<lambda>n. run_page_check (envs n)" "run_realtime_probe env" None for envs env
  by unfold_locales (simp_all add: run_page_check_jobs run_realtime_probe_jobs)

lemma service_with_feedback:
  assumes "\<And>t s persist plan run. feedback = Some persist \<Longrightarrow> jobs_at t s \<Longrightarrow> jobs_at t (snd (persist plan run s))"
  shows "check_runner (\<lambda>n. run_page_check (envs n)) (run_realtime_probe env) feedback"
  using assms by unfold_locales (simp_all add: run_page_check_jobs run_realtime_probe_jobs)

subsection \<open>The rows of a run\<close>

definition fresh_env :: "run_env \<Rightarrow> db \<Rightarrow> bool" where
  "fresh_env env d \<longleftrightarrow>
     en_run_id env \<notin> keys_of xr_id (execution_runs d) \<and>
     en_artifact_id env \<notin> keys_of xa_id (execution_artifacts d) \<and>
     en_screenshot_id env \<notin> keys_of xa_id (execution_artifacts d) \<and>
     en_screenshot_id env \<noteq> en_artifact_id env"

lemma resolve_failure_category_None [simp]:
  "resolve_failure_category res = None \<longleftrightarrow> mx_status res = RunPassed"
  by (auto simp: resolve_failure_category_def split: option.splits)

text \<open>The run row and the artifacts that agree with a result.\<close>

definition recorded :: "run_result \<Rightarrow> db \<Rightarrow> db \<Rightarrow> bool" where
  "recorded r d d' \<longleftrightarrow>
     (\<exists>run arts. execution_runs d' = execution_runs d @ [run] \<and>
        execution_artifacts d' = execution_artifacts d @ arts \<and>
        xr_id run = rs_execution_run_id r \<and> xr_status run = run_status_value (rs_status r) \<and>
        xr_auth_status run = Some (auth_inject_value (rs_auth_status r)) \<and>
        xr_failure_category run = map_option failure_category_value (rs_failure_category r) \<and>
        (\<exists>ms. xr_duration_ms run = Some ms \<and> 0 \<le> ms) \<and>
        map xa_id arts = rs_artifact_ids r \<and> (\<forall>a \<in> set arts. xa_execution_run_id a = xr_id run) \<and>
        map xa_id (filter (\<lambda>a. xa_artifact_kind a = ''screenshot'') arts) = rs_screenshot_artifact_ids r \<and>
        (\<exists>a \<in> set arts. xa_artifact_kind a = ''module_execution'' \<and>
           (xa_result_status a = ResultSuccess \<longleftrightarrow> rs_status r = RunPassed)))"

lemma upd_row_last:
  "k \<notin> keys_of key rows \<Longrightarrow> key x = k \<Longrightarrow> upd_row key k f (rows @ [x]) = rows @ [f x]"
  by (simp add: row_simps upd_row_absent keys_of_def)

lemma run_and_record_recorded:
  assumes "run_and_record env plan av url steps storage inputs check payload_of rc s = (Inr r, s')"
    and "fresh_env env (working s)"
  shows "clean s' \<and> recorded r (working s) (committed s') \<and>
    (rs_failure_category r = None \<longleftrightarrow> rs_status r = RunPassed)"
proof -
  obtain dv where dv: "drive (en_browser env) url steps storage inputs = Inr dv"
    using assms(1) by (auto simp: run_and_record_def Let_def split: sum.splits)
  let ?res = "dv_result dv" and ?run = "new_run env plan av"
  let ?art = "module_artifact env (mx_status ?res) (payload_of dv)"
  let ?run' = "?run\<lparr>xr_status := run_status_value (mx_status ?res),
      xr_auth_status := Some (auth_inject_value (mx_auth_status ?res)),
      xr_duration_ms := Some (elapsed_ms (en_clock env 1) (en_clock env 2)),
      xr_failure_category := map_option failure_category_value (resolve_failure_category ?res)\<rparr>"
  let ?arts = "?art # (case screenshot_artifact env dv of None \<Rightarrow> [] | Some a \<Rightarrow> [a])"
  have id: "xr_id ?run = en_run_id env" by (simp add: new_run_def)
  have fresh: "en_run_id env \<notin> keys_of xr_id (execution_runs (working s))"
    using assms(2) by (simp add: fresh_env_def)
  have "execution_runs (committed s') = execution_runs (working s) @ [?run']"
    using assms(1) by (auto simp: run_and_record_def Let_def dv add_run_def add_artifact_def
        upd_row_last [where key = xr_id, OF fresh id] split: option.splits)
  moreover have "execution_artifacts (committed s') = execution_artifacts (working s) @ ?arts"
    using assms(1) by (auto simp: run_and_record_def Let_def dv add_run_def add_artifact_def
        split: option.splits)
  moreover have "clean s'"
    using assms(1) by (auto simp: run_and_record_def Let_def dv split: option.splits)
  moreover have "xa_artifact_kind a = ''screenshot'' \<and> xa_execution_run_id a = en_run_id env"
    if "screenshot_artifact env dv = Some a" for a
    using that by (auto simp: screenshot_artifact_def split: option.splits)
  moreover have "0 \<le> elapsed_ms t t'" for t t' by (simp add: elapsed_ms_def)
  moreover have "r = \<lparr>rs_page_check_id = check, rs_execution_run_id = en_run_id env,
                    rs_status = mx_status ?res, rs_auth_status = mx_auth_status ?res,
                    rs_artifact_ids = en_artifact_id env #
                      (case screenshot_artifact env dv of None \<Rightarrow> [] | Some a \<Rightarrow> [xa_id a]),
                    rs_screenshot_artifact_ids =
                      (case screenshot_artifact env dv of None \<Rightarrow> [] | Some a \<Rightarrow> [xa_id a]),
                    rs_step_results = mx_step_results ?res,
                    rs_failure_category = resolve_failure_category ?res,
                    rs_final_url = dv_final_url dv, rs_page_title = dv_page_title dv,
                    rs_needs_recrawl = False, rs_needs_recompile = rc (mx_status ?res)\<rparr>"
    using assms(1) by (simp add: run_and_record_def Let_def dv)
  ultimately show ?thesis
    unfolding recorded_def
    by (auto simp: id module_artifact_def result_of_status_def new_run_def
        intro!: exI [of _ ?run'] exI [of _ ?arts] split: option.splits)
qed

lemma resolve_execution_plan_frame:
  assumes "resolve_execution_plan env plan pc pa sy mp s = (r, s1)"
  shows "execution_runs (working s1) = execution_runs (working s)"
    and "execution_artifacts (working s1) = execution_artifacts (working s)"
    and "committed s1 = committed s"
  using assms by (auto simp: resolve_execution_plan_def Let_def split: option.splits)

text \<open>C17: a page check that returns has committed one execution run with the status, authentication
  status and failure category of its result, and exactly the artifacts the result lists, all of
  that run, the module artifact a success exactly when the run passed; a result has no failure
  category exactly when it passed.\<close>

theorem run_page_check_records:
  assumes "run_page_check env check plan inputs s = (Inr r, s')" "fresh_env env (working s)"
  shows "clean s' \<and> recorded r (working s) (committed s') \<and> rs_page_check_id r = check \<and>
    (rs_failure_category r = None \<longleftrightarrow> rs_status r = RunPassed)"
proof -
  obtain ct where ct: "resolve_page_check check (working s) = Inr ct"
    using assms(1) by (auto simp: run_page_check_def split: sum.splits)
  obtain plan_id s1 where pl: "resolve_execution_plan env plan (ct_page_check ct) (ct_page_asset ct)
      (ct_system ct) (ct_module_plan ct) s = (Inr plan_id, s1)"
    using assms(1) ct by (auto simp: run_page_check_def split: sum.splits prod.splits)
  note frame = resolve_execution_plan_frame [OF pl]
  have run: "run_and_record env plan_id (Some (pa_asset_version (ct_page_asset ct)))
        (sys_base_url (ct_system ct)) (mp_steps_json (ct_module_plan ct)) (ct_storage_state ct)
        inputs (Some (pc_id (ct_page_check ct)))
        (check_payload (ct_page_check ct) (ct_page_asset ct) (ct_system ct)) (\<lambda>_. False) s1 = (Inr r, s')"
    using assms(1) ct pl by (simp add: run_page_check_def)
  have "fresh_env env (working s1)" using assms(2) frame by (simp add: fresh_env_def)
  from run_and_record_recorded [OF run this]
  have "clean s' \<and> recorded r (working s) (committed s') \<and> (rs_failure_category r = None \<longleftrightarrow> rs_status r = RunPassed)"
    using frame by (simp add: recorded_def)
  moreover have "check = Some (pc_id (ct_page_check ct))"
    using ct by (auto simp: resolve_page_check_def get_page_check_def split: option.splits
        dest: find_row_Some_key)
  moreover have "rs_page_check_id r = Some (pc_id (ct_page_check ct))"
    using run by (auto simp: run_and_record_def Let_def split: sum.splits)
  ultimately show ?thesis by simp
qed

lemma run_and_record_error:
  assumes "run_and_record env plan av url steps storage inputs check payload_of rc s = (Inl e, s')"
  shows "s' = modify (add_run (new_run env plan av)) s"
  using assms by (auto simp: run_and_record_def Let_def split: sum.splits)

subsection \<open>A world in which a check runs\<close>

definition ok_browser :: browser where
  "ok_browser =
     \<lparr>br_set_base_url = (\<lambda>_. None),
      br_execute = (\<lambda>steps storage inputs. Inr \<lparr>mx_status = RunPassed, mx_auth_status = AuthReused,
        mx_step_results = []\<rparr>),
      br_call = (\<lambda>_. Inr PNone), br_screenshot = Inr None, br_close = None,
      br_screenshot_path = (\<lambda>_. None)\<rparr>"

definition broken_browser :: browser where
  "broken_browser = ok_browser\<lparr>br_execute := (\<lambda>steps storage inputs. Inl (OtherException ''boom''))\<rparr>"

definition sample_env :: "browser \<Rightarrow> run_env" where
  "sample_env br =
     \<lparr>en_browser = br, en_request_id = 50, en_plan_id = 51, en_run_id = 52, en_artifact_id = 53,
      en_screenshot_id = 54, en_clock = (\<lambda>_. datetime_min_utc)\<rparr>"

definition runnable_db :: db where
  "runnable_db = live_db\<lparr>
     page_checks := [(hd (page_checks live_db))\<lparr>pc_module_plan_id := Some 7\<rparr>],
     module_plans := [\<lparr>mp_id = 7, mp_page_asset_id = 8, mp_check_code = ''page_open'',
       mp_plan_version = ''v1'', mp_steps_json = []\<rparr>],
     pages := [\<lparr>pg_id = 3, pg_system_id = 2, pg_snapshot_id = None, pg_route_path = ''/'',
       pg_page_title = None, pg_page_summary = None, pg_keywords = None, pg_discovery_sources = None,
       pg_entry_candidates = None, pg_context_constraints = None, pg_navigation_diagnostics = None,
       pg_crawled_at = datetime_min_utc\<rparr>],
     systems := [\<lparr>sys_id = 2, sys_code = ''s'', sys_name = ''S'', sys_base_url = ''http://s'',
       sys_framework_type = ''react''\<rparr>],
     auth_states := [\<lparr>au_id = 4, au_system_id = 2, au_status = ''valid'', au_storage_state = Some [],
       au_cookies = None, au_local_storage = None, au_session_storage = None,
       au_token_fingerprint = None, au_auth_mode = ''password'', au_is_valid = True,
       au_validated_at = None, au_expires_at = None\<rparr>]\<rparr>"

lemma resolve_runnable: "\<exists>ct. resolve_page_check (Some 5) runnable_db = Inr ct"
  by (simp add: resolve_page_check_def runnable_db_def live_db_def get_page_check_def
      get_page_asset_def find_row_Cons retirement_failure_message_def load_valid_auth_state_def
      first_by_def)

lemma runnable_frame [simp]:
  "execution_runs runnable_db = []" "execution_artifacts runnable_db = []"
  "queued_jobs runnable_db = []" "job_runs runnable_db = []"
  by (simp_all add: runnable_db_def live_db_def empty_db_def)

theorem run_page_check_records_witness:
  "\<exists>r s'. run_page_check (sample_env ok_browser) (Some 5) None None (open_session runnable_db) = (Inr r, s') \<and>
     length (execution_runs (committed s')) = 1"
proof -
  let ?s = "open_session runnable_db"
  obtain ct where ct: "resolve_page_check (Some 5) runnable_db = Inr ct"
    using resolve_runnable by blast
  obtain r s' where r: "run_page_check (sample_env ok_browser) (Some 5) None None ?s = (Inr r, s')"
    using ct by (simp add: run_page_check_def resolve_execution_plan_def Let_def run_and_record_def
        drive_def sample_env_def ok_browser_def)
  have "fresh_env (sample_env ok_browser) (working ?s)"
    by (simp add: fresh_env_def sample_env_def)
  from run_page_check_records [OF r this] r show ?thesis
    by (auto simp: recorded_def)
qed

text \<open>A page check or a probe that raises has committed nothing.\<close>

theorem runner_error_commits_nothing:
  assumes "run_page_check env check plan inputs s = (Inl e, s') \<or>
    run_realtime_probe env plan s = (Inl e, s')"
  shows "committed s' = committed s"
  using assms
proof
  assume a: "run_page_check env check plan inputs s = (Inl e, s')"
  then show ?thesis
    by (auto simp: run_page_check_def split: sum.splits prod.splits
        dest!: resolve_execution_plan_frame(3) run_and_record_error)
next
  assume "run_realtime_probe env plan s = (Inl e, s')"
  then show ?thesis
    unfolding run_realtime_probe_def Let_def
    by (auto simp: probe_resolution_failure_def Let_def split: option.splits if_splits
        dest!: run_and_record_error)
qed

theorem runner_error_commits_nothing_witness:
  "\<forall>env. committed (snd (run_page_check env None None None (open_session empty_db))) = empty_db"
proof
  fix env
  obtain e s' where r: "run_page_check env None None None (open_session empty_db) = (Inl e, s')"
    by (simp add: run_page_check_def resolve_page_check_def)
  have "committed s' = committed (open_session empty_db)"
    using r by (intro runner_error_commits_nothing [of env None None None _ e]) simp
  then show "committed (snd (run_page_check env None None None (open_session empty_db))) = empty_db"
    using r by simp
qed

subsection \<open>A run left behind\<close>

lemma mark_running_frame:
  "page_checks (working (mark_running clk i run s)) = page_checks (working s)"
  "resolve_page_check c (working (mark_running clk i run s)) = resolve_page_check c (working s)"
  "execution_runs (working (mark_running clk i run s)) = execution_runs (working s)"
  by (simp_all add: mark_running_def resolve_page_check_def on_run_def upd_run_def upd_job_def
      get_page_check_def get_page_asset_def load_valid_auth_state_def split: option.splits
      cong: option.case_cong)

text \<open>On the tracks without retries nothing rolls back when the browser raises: the handler's own
  commit, which marks the job failed, also commits the execution run that the service had flushed,
  and that run stays \<open>running\<close>.\<close>

theorem failed_run_left_running:
  assumes "get_job i (working s) = Some job" "prepare (qj_payload job) (working s) = Inr rq"
    and "rq_execution_track rq \<notin> {''realtime_probe'', ''precompiled''}" "rq_execution_plan_id rq = None"
    and "resolve_page_check (rq_page_check_id rq) (working s) = Inr ct"
    and "\<And>url steps storage inputs. drive (en_browser (envs 1)) url steps storage inputs = Inl (OtherException m)"
  shows "\<exists>run \<in> set (execution_runs (committed (snd (run_check_job (\<lambda>n. run_page_check (envs n)) probe feedback clk i s)))).
    xr_id run = en_run_id (envs 1) \<and> xr_status run = run_status_value RunRunning"
proof -
  let ?s1 = "mark_running clk i (rq_job_run_id rq) s"
  let ?run = "new_run (envs 1) (en_plan_id (envs 1)) (Some (pa_asset_version (ct_page_asset ct)))"
  obtain s2 where call: "run_page_check (envs 1) (rq_page_check_id rq) None (rq_runtime_inputs rq) ?s1 =
      (Inl (OtherException m), s2)" and run: "?run \<in> set (execution_runs (working s2))"
    using assms(5,6)
    by (auto simp: run_page_check_def mark_running_frame resolve_execution_plan_def Let_def
        run_and_record_def add_run_def)
  have "execute (\<lambda>n. run_page_check (envs n)) probe feedback clk rq ?s1 = (RetryRaised (OtherException m), s2)"
    using assms(3,4) call by (simp add: execute_def raised_def)
  then have "snd (run_check_job (\<lambda>n. run_page_check (envs n)) probe feedback clk i s) =
      mark_failed clk i (Some m) (rq_job_run_id rq) [] s2"
    using assms(1,2) by (simp add: run_check_job_def conclude_def)
  moreover have "execution_runs (committed (mark_failed clk i (Some m) rr x s2)) = execution_runs (working s2)" for rr x
    by (simp add: mark_failed_def on_run_def upd_run_def upd_job_def split: option.splits)
  ultimately show ?thesis
    using run by (auto simp: new_run_def intro!: bexI [of _ ?run])
qed

text \<open>A queued job without a track, on the world above, and a browser that raises.\<close>

definition trackless_job :: queued_job where
  "trackless_job =
     new_queued_job 9 datetime_min_utc RUN_CHECK_JOB_TYPE [(''page_check_id'', PStr (uuid_str 5))]"

lemma prepare_trackless:
  "prepare (qj_payload trackless_job) (runnable_db\<lparr>queued_jobs := [trackless_job]\<rparr>) =
     Inr \<lparr>rq_execution_track = [], rq_page_check_id = Some 5, rq_execution_plan_text = None,
          rq_execution_plan_id = None, rq_execution_request_text = None, rq_runtime_inputs = None,
          rq_job_run_id = None, rq_published_job_id = None\<rparr>"
  by (simp add: prepare_def trackless_job_def new_queued_job_def Let_def execution_track_of_def
      lower_def page_check_of_def execution_request_of_def job_run_of_def
      resolve_retirement_skip_reason_def get_page_check_def get_page_asset_def runnable_db_def
      live_db_def find_row_Cons retirement_failure_message_def)

theorem failed_run_left_running_witness:
  "\<exists>run \<in> set (execution_runs (committed (snd (run_check_job
       (\<lambda>n. run_page_check (sample_env broken_browser)) (run_realtime_probe (sample_env broken_browser)) None
       (\<lambda>_. datetime_min_utc) 9 (open_session (runnable_db\<lparr>queued_jobs := [trackless_job]\<rparr>)))))).
     xr_id run = 52 \<and> xr_status run = run_status_value RunRunning"
proof -
  let ?d = "runnable_db\<lparr>queued_jobs := [trackless_job]\<rparr>"
  let ?p = "run_realtime_probe (sample_env broken_browser)" and ?clk = "\<lambda>_::nat. datetime_min_utc"
  obtain ct where ct: "resolve_page_check (Some 5) runnable_db = Inr ct"
    using resolve_runnable by blast
  have ct': "resolve_page_check (Some 5) ?d = Inr ct"
    using ct by (simp add: resolve_page_check_def get_page_check_def get_page_asset_def
        load_valid_auth_state_def cong: option.case_cong)
  have j: "get_job 9 ?d = Some trackless_job"
    by (simp add: get_job_def find_row_Cons trackless_job_def new_queued_job_def)
  have prep: "prepare (qj_payload trackless_job) (working (open_session ?d)) = Inr \<lparr>rq_execution_track = [],
      rq_page_check_id = Some 5, rq_execution_plan_text = None, rq_execution_plan_id = None,
      rq_execution_request_text = None, rq_runtime_inputs = None, rq_job_run_id = None,
      rq_published_job_id = None\<rparr>" (is "_ = Inr ?rq")
    using prepare_trackless by simp
  have "\<exists>run \<in> set (execution_runs (committed (snd (run_check_job
       (\<lambda>n. run_page_check ((\<lambda>_. sample_env broken_browser) n)) ?p None ?clk 9 (open_session ?d))))).
     xr_id run = en_run_id ((\<lambda>_. sample_env broken_browser) (1::nat)) \<and>
     xr_status run = run_status_value RunRunning"
    by (rule failed_run_left_running [where envs = "\<lambda>_. sample_env broken_browser" and m = "''boom''"
          and ct = ct, OF _ prep])
      (simp_all add: j ct' sample_env_def broken_browser_def ok_browser_def drive_def)
  then show ?thesis by (simp add: sample_env_def)
qed

end
