(* ===== verification/JobHandlers.thy ===== *)
theory JobHandlers
  imports PolicyJobs RunnerRecords
begin

section \<open>What a job handler does to the queue\<close>

text \<open>
  The protocol \<open>JobHandler\<close> of workers/runner.py as an interface: a handler that is run for an
  accepted job of its type moves that job to a terminal state, leaves the other jobs alone and
  queues at most work of a lower rank. The rank is what makes the worker drain its queue: a crawl
  queues one compilation, no other job queues anything.
\<close>

definition job_rank :: "string \<Rightarrow> nat" where
  "job_rank t = (if t = CRAWL_JOB_TYPE then 2 else 1)"

definition open_status :: "queued_job_status \<Rightarrow> bool" where
  "open_status st \<longleftrightarrow> st = ACCEPTED \<or> st = RUNNING"

text \<open>Only the row of job \<open>i\<close> changes, and it keeps its key, type, payload and creation time.\<close>

definition keeps_identity :: "(queued_job \<Rightarrow> queued_job) \<Rightarrow> bool" where
  "keeps_identity f \<longleftrightarrow>
     (\<forall>j. qj_id (f j) = qj_id j \<and> qj_job_type (f j) = qj_job_type j \<and> qj_payload (f j) = qj_payload j \<and>
        qj_created_at (f j) = qj_created_at j)"

definition row_change :: "uuid \<Rightarrow> queued_job list \<Rightarrow> queued_job list \<Rightarrow> bool" where
  "row_change i qs qs' \<longleftrightarrow> (\<exists>f. keeps_identity f \<and> qs' = upd_row qj_id i f qs)"

definition settled :: "uuid \<Rightarrow> queued_job list \<Rightarrow> bool" where
  "settled i qs \<longleftrightarrow> (\<forall>j \<in> set qs. qj_id j = i \<longrightarrow> \<not> open_status (qj_status j))"

lemma row_change_refl [simp]: "row_change i qs qs"
  unfolding row_change_def keeps_identity_def
  by (intro exI [of _ id]) (simp add: upd_row_def map_idI)

lemma row_change_trans: "row_change i qs qs' \<Longrightarrow> row_change i qs' qs'' \<Longrightarrow> row_change i qs qs''"
proof -
  assume a: "row_change i qs qs'" "row_change i qs' qs''"
  then obtain f g where f: "keeps_identity f" "qs' = upd_row qj_id i f qs"
    and g: "keeps_identity g" "qs'' = upd_row qj_id i g qs'" unfolding row_change_def by blast
  have "qs'' = upd_row qj_id i (g \<circ> f) qs"
    using f by (simp add: g(2) f(2) upd_row_twice keeps_identity_def)
  moreover have "keeps_identity (g \<circ> f)" using f(1) g(1) by (simp add: keeps_identity_def)
  ultimately show ?thesis unfolding row_change_def by blast
qed

lemma row_change_upd: "keeps_identity f \<Longrightarrow> row_change i qs (upd_row qj_id i f qs)"
  unfolding row_change_def by blast

lemma settled_upd:
  "(\<And>j. qj_id (f j) = qj_id j) \<Longrightarrow> (\<And>j. \<not> open_status (qj_status (f j))) \<Longrightarrow> settled i (upd_row qj_id i f qs)"
  by (auto simp: settled_def upd_row_def)

lemma row_change_ids: "row_change i qs qs' \<Longrightarrow> map qj_id qs' = map qj_id qs"
  by (auto simp: row_change_def keeps_identity_def map_key_upd_row)

text \<open>
  What a handler leaves of the queue \<open>qs\<close> when it ran job \<open>i\<close> of type \<open>t\<close>; \<open>cid\<close> is the key of a job
  it may add.
\<close>

definition handled :: "string \<Rightarrow> uuid \<Rightarrow> uuid \<Rightarrow> queued_job list \<Rightarrow> queued_job list \<Rightarrow> bool" where
  "handled t cid i qs qs' \<longleftrightarrow>
     (\<exists>ps extra. qs' = ps @ extra \<and> row_change i qs ps \<and> settled i ps \<and>
        sum_list (map (job_rank \<circ> qj_job_type) extra) < job_rank t \<and>
        (\<forall>j \<in> set extra. qj_id j = cid \<and> qj_status j = ACCEPTED))"

lemma handled_job:
  assumes "find_row qj_id i qs = Some job" "handled t cid i qs qs'"
  shows "\<exists>job'. find_row qj_id i qs' = Some job' \<and> \<not> open_status (qj_status job')"
proof -
  from assms(2) obtain ps extra where q: "qs' = ps @ extra" and rc: "row_change i qs ps" and st: "settled i ps"
    by (auto simp: handled_def)
  from rc obtain f where f: "keeps_identity f" "ps = upd_row qj_id i f qs"
    by (auto simp: row_change_def)
  have "find_row qj_id i ps = Some (f job)"
    using assms(1) f by (simp add: find_upd_row_same keeps_identity_def)
  then have "find_row qj_id i qs' = Some (f job)" "f job \<in> set ps" "qj_id (f job) = i"
    using find_row_Some_set [of qj_id i ps] find_row_Some_key [of qj_id i ps] by (auto simp: q row_simps)
  then show ?thesis using st by (auto simp: settled_def)
qed

lemma handled_ids: "handled t cid i qs qs' \<Longrightarrow> qj_id ` set qs' \<subseteq> insert cid (qj_id ` set qs)"
proof -
  assume "handled t cid i qs qs'"
  then obtain ps extra where q: "qs' = ps @ extra" "row_change i qs ps" "\<forall>j \<in> set extra. qj_id j = cid"
    by (auto simp: handled_def)
  have "qj_id ` set ps = qj_id ` set qs" by (metis q(2) row_change_ids set_map)
  then show ?thesis using q by auto
qed

locale job_handler =
  fixes run :: "uuid \<Rightarrow> db_session \<Rightarrow> (string + unit) \<times> db_session"
    and job_type :: string and cid :: uuid
  assumes settles:
    "clean s \<Longrightarrow> get_job i (working s) = Some job \<Longrightarrow> i \<noteq> cid \<Longrightarrow> run i s = (r, s') \<Longrightarrow>
      r = Inr () \<and> clean s' \<and> handled job_type cid i (queued_jobs (working s)) (queued_jobs (working s'))"
begin

lemma settles_row:
  "clean s \<Longrightarrow> get_job i (working s) = Some job \<Longrightarrow> i \<noteq> cid \<Longrightarrow> run i s = (r, s') \<Longrightarrow>
    \<exists>job'. get_job i (working s') = Some job' \<and> \<not> open_status (qj_status job')"
  using settles handled_job unfolding get_job_def by blast

end

subsection \<open>Updates that handlers make\<close>

lemma keeps_identity_simps [simp]:
  "keeps_identity (close_job st e clk k m x)"
  "keeps_identity (close_queued st clk m)"
  "keeps_identity (start_queued clk)"
  "keeps_identity apply_queue_audit_fields"
  by (simp_all add: keeps_identity_def close_job_def close_queued_def start_queued_def
      apply_queue_audit_fields_def Let_def split: option.splits)

lemma queued_jobs_frames [simp]:
  "queued_jobs (on_run run g d) = queued_jobs d"
  "queued_jobs (on_auth_policy pid h d) = queued_jobs d"
  "queued_jobs (on_crawl_policy pid k d) = queued_jobs d"
  "queued_jobs (upd_job i f d) = upd_row qj_id i f (queued_jobs d)"
  by (simp_all add: on_run_def upd_run_def on_auth_policy_def on_crawl_policy_def upd_job_def
      split: option.splits)

lemma jobs_at_queue: "jobs_at t s \<Longrightarrow> queued_jobs (working s) = fst t"
  by (auto simp: jobs_at_def)

text \<open>A last write to the row that settles it.\<close>

definition closes_row :: "uuid \<Rightarrow> db_session \<Rightarrow> db_session \<Rightarrow> bool" where
  "closes_row i s s' \<longleftrightarrow> clean s' \<and>
     (\<exists>f. keeps_identity f \<and> (\<forall>j. \<not> open_status (qj_status (f j))) \<and>
        queued_jobs (working s') = upd_row qj_id i f (queued_jobs (working s)))"

lemma closes_rowI:
  "clean s' \<Longrightarrow> keeps_identity f \<Longrightarrow> (\<And>j. \<not> open_status (qj_status (f j))) \<Longrightarrow>
    queued_jobs (working s') = upd_row qj_id i f (queued_jobs (working s)) \<Longrightarrow> closes_row i s s'"
  unfolding closes_row_def by blast

lemma closes_row_clean: "closes_row i s s' \<Longrightarrow> clean s'"
  by (simp add: closes_row_def)

lemma closes_row_settles:
  assumes "row_change i qs (queued_jobs (working s))" "closes_row i s s'"
  shows "row_change i qs (queued_jobs (working s')) \<and> settled i (queued_jobs (working s'))"
proof -
  from assms(2) obtain f where f: "keeps_identity f" "\<And>j. \<not> open_status (qj_status (f j))"
    "queued_jobs (working s') = upd_row qj_id i f (queued_jobs (working s))"
    by (auto simp: closes_row_def)
  then show ?thesis
    using row_change_trans [OF assms(1) row_change_upd [OF f(1)]]
    by (auto simp: keeps_identity_def intro!: settled_upd)
qed

lemma open_status_simps [simp]:
  "\<not> open_status COMPLETED" "\<not> open_status FAILED" "\<not> open_status SKIPPED"
  "\<not> open_status RETRYABLE_FAILED" "open_status ACCEPTED" "open_status RUNNING"
  by (simp_all add: open_status_def)

lemma job_rank_pos [simp]: "0 < job_rank t"
  by (simp add: job_rank_def)

lemma settled_handler:
  assumes "row_change i (queued_jobs (working s)) (queued_jobs (working s2))" "closes_row i s2 s'"
  shows "clean s' \<and> handled t cid i (queued_jobs (working s)) (queued_jobs (working s'))"
  using closes_row_settles [OF assms] closes_row_clean [OF assms(2)] unfolding handled_def
  by (intro conjI exI [of _ "queued_jobs (working s')"] exI [of _ "[]"]) auto

subsection \<open>The run\_check handler\<close>

lemma mark_failed_closes: "closes_row i s (mark_failed clk i m run x s)"
  by (rule closes_rowI [where f = "close_job FAILED ''failed'' clk 100 m x"])
    (simp_all add: mark_failed_def close_job_def)

lemma mark_skipped_closes: "closes_row i s (mark_skipped clk i m run x s)"
  by (rule closes_rowI [where f = "close_job SKIPPED ''skipped'' clk 100 m x"])
    (simp_all add: mark_skipped_def close_job_def)

lemma skip_realtime_closes: "closes_row i s (skip_realtime clk i s)"
  unfolding skip_realtime_def
  by (rule closes_rowI [OF _ keeps_identity_simps(1)]) (simp_all add: close_job_def)

lemma mark_completed_closes: "closes_row i s (mark_completed clk i run rt pt result x s)"
  by (rule closes_rowI [where f = "\<lambda>j. j\<lparr>qj_status := COMPLETED, qj_finished_at := Some (clk 104),
          qj_failure_message := None,
          qj_result_payload := Some (build_result_payload j COMPLETED
            (run_status_value (rs_status result)) (complete_args rt pt result) x)\<rparr>"])
    (simp_all add: mark_completed_def keeps_identity_def)

lemma conclude_closes:
  assumes "conclude clk i rq out s = (res, s')" "good_outcome out \<or> (\<forall>p. out \<noteq> RetryReturned None p)"
  shows "closes_row i s s'"
proof (cases out)
  case (RetryReturned r p)
  then obtain result where "r = Some result"
    using assms(2) by (cases r) (auto simp: good_outcome_def)
  then show ?thesis
    using assms(1) RetryReturned mark_completed_closes by (auto simp: conclude_def)
next
  case (RetryRaised e)
  then show ?thesis
    using assms(1) mark_failed_closes mark_skipped_closes by (cases e) (auto simp: conclude_def)
next
  case (RetryBlocked m p)
  then show ?thesis using assms(1) mark_skipped_closes by (auto simp: conclude_def)
next
  case (RetryTerminal m p)
  then show ?thesis using assms(1) mark_failed_closes by (auto simp: conclude_def)
qed

lemma mark_running_change:
  "row_change i (queued_jobs (working s)) (queued_jobs (working (mark_running clk i run s)))"
  unfolding mark_running_def by (simp, rule row_change_upd) (simp add: keeps_identity_def)

lemma run_check_handler:
  assumes "check_runner runner probe feedback"
  shows "job_handler (run_check_job runner probe feedback clk) t cid"
proof
  fix i s job r s'
  assume job: "get_job i (working s) = Some job"
    and run: "run_check_job runner probe feedback clk i s = (r, s')"
  have res: "r = Inr ()"
    using check_runner.run_check_job_ends [OF assms run job] by blast
  have "\<exists>s2. row_change i (queued_jobs (working s)) (queued_jobs (working s2)) \<and> closes_row i s2 s'"
  proof (cases "prepare (qj_payload job) (working s)")
    case (Inl stop)
    then have "closes_row i s s'"
      using run job mark_failed_closes mark_skipped_closes skip_realtime_closes
      by (cases stop) (auto simp: run_check_job_def)
    then show ?thesis using row_change_refl by blast
  next
    case (Inr rq)
    let ?s1 = "mark_running clk i (rq_job_run_id rq) s"
    obtain out s2 where ex: "execute runner probe feedback clk rq ?s1 = (out, s2)" by fastforce
    have con: "conclude clk i rq out s2 = (r, s')"
      using run job Inr ex by (simp add: run_check_job_def)
    have "clean ?s1" by (simp add: mark_running_def)
    from check_runner.execute_jobs [OF assms jobs_at_commit_clean [OF this], of clk rq]
    have "queued_jobs (working s2) = queued_jobs (working ?s1)"
      using ex jobs_at_queue by fastforce
    moreover have "closes_row i s2 s'"
      using conclude_closes [OF con check_runner.execute_outcome [OF assms ex]] .
    ultimately show ?thesis using mark_running_change by metis
  qed
  then obtain s2 where "row_change i (queued_jobs (working s)) (queued_jobs (working s2))" "closes_row i s2 s'"
    by blast
  then show "r = Inr () \<and> clean s' \<and> handled t cid i (queued_jobs (working s)) (queued_jobs (working s'))"
    using res settled_handler by blast
qed

interpretation run_check: job_handler
  "run_check_job (\<lambda>n. run_page_check (envs n)) (run_realtime_probe env) None clk" RUN_CHECK_JOB_TYPE cid
  for envs env clk cid
  by (rule run_check_handler) (rule service_with_feedback, simp)

subsection \<open>The auth refresh and crawl handlers\<close>

text \<open>
  The contract of the auth, crawler and compiler services: called at the start of a transaction,
  they neither add nor change queued jobs.
\<close>

definition keeps_queue :: "(db_session \<Rightarrow> 'a \<times> db_session) \<Rightarrow> bool" where
  "keeps_queue f \<longleftrightarrow>
     (\<forall>s. clean s \<longrightarrow> queued_jobs (working (snd (f s))) = queued_jobs (working s) \<and>
        queued_jobs (committed (snd (f s))) = queued_jobs (working s))"

lemma keeps_queueD:
  "keeps_queue f \<Longrightarrow> f s = (x, s') \<Longrightarrow> clean s \<Longrightarrow> queued_jobs (working s') = queued_jobs (working s)"
  unfolding keeps_queue_def by (metis snd_conv)

lemma keeps_queue_committed:
  "keeps_queue f \<Longrightarrow> f s = (x, s') \<Longrightarrow> clean s \<Longrightarrow> queued_jobs (committed s') = queued_jobs (working s)"
  unfolding keeps_queue_def by (metis snd_conv)

lemma start_change:
  "row_change i (queued_jobs (working s))
     (queued_jobs (working (commit (modify (upd_job i (start_queued clk)) (modify (upd_job i apply_queue_audit_fields) s)))))"
  by simp (rule row_change_trans [OF row_change_upd row_change_upd], simp_all)

lemma audit_change:
  "row_change i (queued_jobs (working s)) (queued_jobs (working (modify (upd_job i apply_queue_audit_fields) s)))"
  by simp (rule row_change_upd, simp)

lemma close_queued_closed: "\<not> open_status st \<Longrightarrow> \<not> open_status (qj_status (close_queued st clk m j))"
  by (simp add: close_queued_def)

lemma auth_mark_failed_closes: "closes_row i s (auth_mark_failed clk i m pid s)"
  by (rule closes_rowI [where f = "close_queued FAILED clk m"])
    (simp_all add: auth_mark_failed_def close_queued_closed)

lemma crawl_mark_failed_closes: "closes_row i s (crawl_mark_failed clk i m pid s)"
  by (rule closes_rowI [where f = "close_queued FAILED clk m"])
    (simp_all add: crawl_mark_failed_def close_queued_closed)

lemma auth_conclude_closes: "closes_row i s (auth_conclude clk i pid result s)"
proof -
  have "closes_row i s (commit (modify (on_auth_policy pid g \<circ>
      upd_job i (\<lambda>j. j\<lparr>qj_status := st, qj_failure_message := m, qj_finished_at := Some t\<rparr>)) s))"
    if "\<not> open_status st" for st m t g
    by (rule closes_rowI [where f = "\<lambda>j. j\<lparr>qj_status := st, qj_failure_message := m, qj_finished_at := Some t\<rparr>"])
      (simp_all add: keeps_identity_def that)
  then show ?thesis by (simp add: auth_conclude_def Let_def)
qed

lemma auth_refresh_handler:
  assumes "\<And>u. keeps_queue (refresh u)"
  shows "job_handler (auth_refresh_job refresh clk) t cid"
proof
  fix i s job r s'
  assume job: "get_job i (working s) = Some job" and run: "auth_refresh_job refresh clk i s = (r, s')"
  let ?s1 = "modify (upd_job i apply_queue_audit_fields) s"
  let ?s2 = "commit (modify (upd_job i (start_queued clk)) ?s1)"
  have keep: "queued_jobs (working s3) = queued_jobs (working ?s2)" if "refresh u ?s2 = (x, s3)" for u x s3
    by (rule keeps_queueD [OF assms that]) simp
  have closed: "closes_row i ?s2 (auth_mark_failed clk i m pid s3)" "closes_row i ?s2 (auth_conclude clk i pid res s3)"
    if "queued_jobs (working s3) = queued_jobs (working ?s2)" for m pid res s3
    using auth_mark_failed_closes [of i s3] auth_conclude_closes [of i s3] that
    by (simp_all add: closes_row_def)
  have "r = Inr () \<and> (\<exists>s2. row_change i (queued_jobs (working s)) (queued_jobs (working s2)) \<and> closes_row i s2 s')"
  proof (cases "as_str (dget (qj_payload job) ''system_id'')")
    case None
    then have "r = Inr ()" "\<exists>m pid. s' = auth_mark_failed clk i m pid ?s1"
      using job run by (auto simp: auth_refresh_job_def Let_def)
    then show ?thesis using audit_change auth_mark_failed_closes by blast
  next
    case (Some sid)
    then have "r = Inr () \<and> closes_row i ?s2 s'"
      using job run keep closed
      by (auto simp: auth_refresh_job_def Let_def split: option.splits sum.splits prod.splits)
    then show ?thesis using start_change by blast
  qed
  then show "r = Inr () \<and> clean s' \<and> handled t cid i (queued_jobs (working s)) (queued_jobs (working s'))"
    using settled_handler by blast
qed

lemma discard_keeps_queue [simp]:
  "queued_jobs (discard_superseded_uncompiled_drafts stamp sid keep d) = queued_jobs d"
  by (simp add: discard_superseded_uncompiled_drafts_def Let_def fold_snapshots)

definition complete_crawl :: "clock \<Rightarrow> uuid \<Rightarrow> queued_job \<Rightarrow> queued_job" where
  "complete_crawl clk n j =
     j\<lparr>qj_status := COMPLETED, qj_failure_message := None, qj_finished_at := Some (clk 5),
       qj_result_payload := Some [(''status'', PStr ''success''), (''snapshot_id'', PStr (uuid_str n))]\<rparr>"

lemma crawl_conclude_queue:
  "queued_jobs (working (crawl_conclude clk stamp cid i pid sid n s)) =
     upd_row qj_id i (complete_crawl clk n) (queued_jobs (working s) @ [new_compile_job cid (clk 4) n])"
  by (simp add: crawl_conclude_def complete_crawl_def [abs_def])

lemma crawl_conclude_settles:
  assumes "row_change i qs (queued_jobs (working s))" "i \<noteq> cid"
  shows "clean (crawl_conclude clk stamp cid i pid sid n s) \<and> handled CRAWL_JOB_TYPE cid i qs
    (queued_jobs (working (crawl_conclude clk stamp cid i pid sid n s)))"
  unfolding handled_def
proof (intro exI conjI)
  show "clean (crawl_conclude clk stamp cid i pid sid n s)" by (simp add: crawl_conclude_def)
  let ?qs' = "upd_row qj_id i (complete_crawl clk n) (queued_jobs (working s))"
  have k: "keeps_identity (complete_crawl clk n)" by (simp add: keeps_identity_def complete_crawl_def)
  have job: "qj_id (new_compile_job cid (clk 4) n) = cid"
    "qj_job_type (new_compile_job cid (clk 4) n) = ASSET_COMPILE_JOB_TYPE"
    by (simp_all add: new_compile_job_def new_queued_job_def)
  show "queued_jobs (working (crawl_conclude clk stamp cid i pid sid n s)) =
      ?qs' @ [new_compile_job cid (clk 4) n]"
    using assms(2) job by (simp add: crawl_conclude_queue row_simps)
  show "row_change i qs ?qs'" by (rule row_change_trans [OF assms(1) row_change_upd [OF k]])
  show "settled i ?qs'" by (rule settled_upd) (simp_all add: complete_crawl_def)
  show "sum_list (map (job_rank \<circ> qj_job_type) [new_compile_job cid (clk 4) n]) < job_rank CRAWL_JOB_TYPE"
    by (simp add: job job_rank_def job_type_defs)
  show "\<forall>j \<in> set [new_compile_job cid (clk 4) n]. qj_id j = cid \<and> qj_status j = ACCEPTED"
    by (simp add: new_compile_job_def new_queued_job_def)
qed

lemma crawl_handler:
  assumes "\<And>u sc. keeps_queue (crawl u sc)"
  shows "job_handler (crawl_job crawl clk stamp cid) CRAWL_JOB_TYPE cid"
proof
  fix i s job r s'
  assume prems: "get_job i (working s) = Some job" "i \<noteq> cid" "crawl_job crawl clk stamp cid i s = (r, s')"
  let ?s1 = "modify (upd_job i apply_queue_audit_fields) s"
  let ?s2 = "commit (modify (upd_job i (start_queued clk)) ?s1)"
  let ?pid = "resolve_crawl_policy (qj_payload job) (working ?s1)"
  have keep: "queued_jobs (working s3) = queued_jobs (working ?s2)" if "crawl u sc ?s2 = (x, s3)" for u sc x s3
    by (rule keeps_queueD [OF assms that]) simp
  have change: "row_change i (queued_jobs (working s)) (queued_jobs (working s3))"
    if "crawl u sc ?s2 = (x, s3)" for u sc x s3
    using start_change [of i s clk] keep [OF that] by simp
  from prems(1,3) consider
      (early) m where "s' = crawl_mark_failed clk i m ?pid ?s1" "r = Inr ()"
    | (badid) m where "s' = crawl_mark_failed clk i m ?pid ?s2" "r = Inr ()"
    | (failed) u sc x s3 m where "crawl u sc ?s2 = (x, s3)" "s' = crawl_mark_failed clk i m ?pid s3" "r = Inr ()"
    | (crawled) u sc x s3 n where "crawl u sc ?s2 = (x, s3)"
        "s' = crawl_conclude clk stamp cid i ?pid u n s3" "r = Inr ()"
    unfolding crawl_job_def Let_def
    by (auto split: option.splits sum.splits prod.splits)
  then show "r = Inr () \<and> clean s' \<and> handled CRAWL_JOB_TYPE cid i (queued_jobs (working s)) (queued_jobs (working s'))"
  proof cases
    case early
    then show ?thesis using settled_handler [OF audit_change crawl_mark_failed_closes] by blast
  next
    case badid
    then show ?thesis using settled_handler [OF start_change crawl_mark_failed_closes] by blast
  next
    case failed
    then show ?thesis using settled_handler [OF change [OF failed(1)] crawl_mark_failed_closes] by blast
  next
    case crawled
    then show ?thesis using crawl_conclude_settles [OF change [OF crawled(1)] prems(2)] by blast
  qed
qed

subsection \<open>What a completed crawl leaves\<close>

lemma fold_upd_row_avoids:
  assumes "r \<in> set (fold (\<lambda>k. upd_row key k f) ks rows)" "\<And>r. \<not> P (f r)" "P r"
    and "\<And>r. key (f r) = key r"
  shows "r \<in> set rows \<and> key r \<notin> set ks"
  using assms(1)
proof (induction ks arbitrary: rows)
  case (Cons k ks)
  then have "r \<in> set (upd_row key k f rows)" "key r \<notin> set ks" by auto
  then show ?case using assms(2,3,4) by (auto simp: upd_row_def split: if_splits)
qed simp

lemma remaining_drafts:
  assumes "c \<in> set (crawl_snapshots (discard_superseded_uncompiled_drafts stamp sid keep d))"
    and "cs_system_id c = sid" "cs_state c = ''draft''"
  shows "cs_id c = keep \<or> cs_id c \<in> set (queued_snapshot_ids d)"
proof -
  let ?sel = "filter (\<lambda>c. cs_id c \<noteq> keep \<and> cs_id c \<notin> set (queued_snapshot_ids d))
    (sort_key draft_order (filter (\<lambda>c. cs_system_id c = sid \<and> cs_state c = ''draft'') (crawl_snapshots d)))"
  let ?f = "\<lambda>r. discard_row (stamp (cs_id r)) r"
  have "c \<in> set (fold (\<lambda>k. upd_row cs_id k ?f) (map cs_id ?sel) (crawl_snapshots d))"
    using assms(1) by (simp add: discard_superseded_uncompiled_drafts_def Let_def fold_snapshots)
  from fold_upd_row_avoids [OF this, of "\<lambda>c. cs_state c = ''draft''"] assms(3)
  have "c \<in> set (crawl_snapshots d)" "cs_id c \<notin> set (map cs_id ?sel)"
    by (auto simp: discard_row_def)
  then show ?thesis using assms(2,3) by auto
qed

lemma queued_snapshot_ids_cong:
  "map (\<lambda>j. (qj_job_type j, qj_payload j)) (queued_jobs d) = map (\<lambda>j. (qj_job_type j, qj_payload j)) (queued_jobs e) \<Longrightarrow>
    queued_snapshot_ids d = queued_snapshot_ids e"
proof -
  have "queued_snapshot_ids d = List.map_filter (\<lambda>(t, p). parse_uuid (dget p ''snapshot_id''))
      (filter (\<lambda>(t, p). t = ASSET_COMPILE_JOB_TYPE) (map (\<lambda>j. (qj_job_type j, qj_payload j)) (queued_jobs d)))" for d
    by (simp add: queued_snapshot_ids_def filter_map map_filter_def comp_def)
  then show "map (\<lambda>j. (qj_job_type j, qj_payload j)) (queued_jobs d) =
      map (\<lambda>j. (qj_job_type j, qj_payload j)) (queued_jobs e) \<Longrightarrow> ?thesis"
    by simp
qed

lemma queued_snapshot_ids_conclude:
  assumes "queued_jobs d = upd_row qj_id i (complete_crawl clk n) (qs @ [new_compile_job cid t n])"
  shows "set (queued_snapshot_ids d) =
    insert n (set (queued_snapshot_ids (empty_db\<lparr>queued_jobs := qs\<rparr>)))"
proof -
  have "queued_snapshot_ids d = queued_snapshot_ids (empty_db\<lparr>queued_jobs := qs @ [new_compile_job cid t n]\<rparr>)"
    by (rule queued_snapshot_ids_cong)
      (simp add: assms upd_row_def complete_crawl_def)
  then show ?thesis
    by (simp add: queued_snapshot_ids_def map_filter_def new_compile_job_def new_queued_job_def)
qed

text \<open>A compile job on record for a snapshot, in whatever state.\<close>

definition compile_job_of :: "uuid \<Rightarrow> db \<Rightarrow> bool" where
  "compile_job_of snapshot_id d \<longleftrightarrow>
     (\<exists>j \<in> set (queued_jobs d). qj_job_type j = ASSET_COMPILE_JOB_TYPE \<and>
        parse_uuid (dget (qj_payload j) ''snapshot_id'') = Some snapshot_id)"

lemma queued_snapshot_ids_iff: "n \<in> set (queued_snapshot_ids d) \<longleftrightarrow> compile_job_of n d"
  by (auto simp: queued_snapshot_ids_def compile_job_of_def map_filter_def image_iff)

lemma crawl_job_completed:
  assumes "crawl_job crawl clk stamp cid i s = (r, s')" "get_job i (working s) = Some job"
    and "get_job i (committed s') = Some job'" "qj_status job' = COMPLETED"
  shows "\<exists>sid scope s2 result s3 n pid. parse_uuid (dget (qj_payload job) ''system_id'') = Some sid \<and>
    crawl sid scope s2 = (Inr result, s3) \<and> cw_status result = ''success'' \<and> cw_snapshot_id result = Some n \<and>
    s' = crawl_conclude clk stamp cid i pid sid n s3"
proof -
  have nofail: False if "s' = crawl_mark_failed clk i m pid s1" for m pid s1
    using assms(3,4) that
    by (auto simp: crawl_mark_failed_def get_job_def find_upd_row_same close_queued_def)
  show ?thesis
    using assms(1,2) nofail unfolding crawl_job_def Let_def
    by (fastforce simp: parse_uuid_def split: option.splits sum.splits prod.splits if_splits)
qed

lemma crawl_conclude_drafts:
  assumes "s' = crawl_conclude clk stamp cid i pid sid n s3" "i \<noteq> cid"
  shows "new_compile_job cid (clk 4) n \<in> set (queued_jobs (committed s'))"
    and "compile_job_of k (committed s') \<longleftrightarrow> k = n \<or> compile_job_of k (working s3)"
    and "crawl_snapshots (committed s') =
      crawl_snapshots (discard_superseded_uncompiled_drafts stamp sid n (working s3))"
proof -
  have q: "queued_jobs (committed s') =
      upd_row qj_id i (complete_crawl clk n) (queued_jobs (working s3) @ [new_compile_job cid (clk 4) n])"
    using assms(1) by (simp add: crawl_conclude_queue crawl_conclude_def complete_crawl_def [abs_def])
  have "qj_id (new_compile_job cid (clk 4) n) = cid" by (simp add: new_compile_job_def new_queued_job_def)
  then show "new_compile_job cid (clk 4) n \<in> set (queued_jobs (committed s'))"
    using assms(2) by (simp add: q row_simps)
  have "set (queued_snapshot_ids (committed s')) = insert n (set (queued_snapshot_ids (working s3)))"
    using queued_snapshot_ids_conclude [OF q] queued_snapshot_ids_cong [of "empty_db\<lparr>queued_jobs := queued_jobs (working s3)\<rparr>" "working s3"]
    by simp
  then show "compile_job_of k (committed s') \<longleftrightarrow> k = n \<or> compile_job_of k (working s3)"
    unfolding queued_snapshot_ids_iff [symmetric] by simp
  show "crawl_snapshots (committed s') =
      crawl_snapshots (discard_superseded_uncompiled_drafts stamp sid n (working s3))"
    using assms(1) by (simp add: crawl_conclude_def on_crawl_policy_def upd_job_def split: option.splits)
qed

text \<open>C21: a crawl job completes only when the crawl of its system reported success with a snapshot. The
  compilation of that very snapshot is then queued, and every snapshot of the system that is still a
  draft is it or has a compile job on record, finished or not. The drafts without one are discarded
  as superseded, and no other snapshot changes.\<close>

theorem completed_crawl_leaves_compilable_drafts:
  assumes "crawl_job crawl clk stamp cid i s = (r, s')" "get_job i (working s) = Some job" "i \<noteq> cid"
    and "get_job i (committed s') = Some job'" "qj_status job' = COMPLETED"
  shows "\<exists>sid scope s2 result s3 n. parse_uuid (dget (qj_payload job) ''system_id'') = Some sid \<and>
    crawl sid scope s2 = (Inr result, s3) \<and> cw_status result = ''success'' \<and> cw_snapshot_id result = Some n \<and>
    new_compile_job cid (clk 4) n \<in> set (queued_jobs (committed s')) \<and>
    (\<forall>c \<in> set (crawl_snapshots (committed s')). cs_system_id c = sid \<and> cs_state c = ''draft'' \<longrightarrow>
       cs_id c = n \<or> compile_job_of (cs_id c) (committed s')) \<and>
    (distinct (map cs_id (crawl_snapshots (working s3))) \<longrightarrow>
       crawl_snapshots (committed s') =
         map (\<lambda>c. if cs_system_id c = sid \<and> cs_state c = ''draft'' \<and> cs_id c \<noteq> n \<and>
                     \<not> compile_job_of (cs_id c) (committed s')
                  then c\<lparr>cs_state := ''discarded'', cs_discarded_at := Some (stamp (cs_id c)),
                         cs_failure_reason := Some ''superseded_by_newer_draft''\<rparr>
                  else c) (crawl_snapshots (working s3)))"
proof -
  from crawl_job_completed [OF assms(1,2,4,5)] obtain sid scope s2 result s3 n pid where
    c: "parse_uuid (dget (qj_payload job) ''system_id'') = Some sid" "crawl sid scope s2 = (Inr result, s3)"
      "cw_status result = ''success''" "cw_snapshot_id result = Some n"
    and s': "s' = crawl_conclude clk stamp cid i pid sid n s3" by blast
  note d = crawl_conclude_drafts [OF s' assms(3)]
  have "cs_id c = n \<or> compile_job_of (cs_id c) (committed s')"
    if "c \<in> set (crawl_snapshots (committed s'))" "cs_system_id c = sid" "cs_state c = ''draft''" for c
    using remaining_drafts [of c stamp sid n "working s3"] that unfolding d(2,3) queued_snapshot_ids_iff by blast
  moreover have "crawl_snapshots (committed s') =
         map (\<lambda>c. if cs_system_id c = sid \<and> cs_state c = ''draft'' \<and> cs_id c \<noteq> n \<and>
                     \<not> compile_job_of (cs_id c) (committed s')
                  then c\<lparr>cs_state := ''discarded'', cs_discarded_at := Some (stamp (cs_id c)),
                         cs_failure_reason := Some ''superseded_by_newer_draft''\<rparr>
                  else c) (crawl_snapshots (working s3))"
    if "distinct (map cs_id (crawl_snapshots (working s3)))"
    unfolding d(3) discard_superseded [OF that]
    by (auto simp: discard_all_def superseded_def queued_snapshot_ids_iff d(2) discard_row_def)
  ultimately show ?thesis using c d(1) by blast
qed

definition sample_crawl :: crawl_runner where
  "sample_crawl _ _ s = (Inr \<lparr>cw_status = ''success'', cw_snapshot_id = Some 7, cw_message = None\<rparr>, s)"

definition sample_draft :: "uuid \<Rightarrow> crawl_snapshot" where
  "sample_draft i =
     \<lparr>cs_id = i, cs_system_id = 3, cs_crawl_type = ''full'', cs_framework_detected = None,
      cs_quality_score = None, cs_degraded = False, cs_state = ''draft'', cs_activated_at = None,
      cs_discarded_at = None, cs_failure_reason = None, cs_warning_messages = [],
      cs_structure_hash = None, cs_started_at = datetime_min_utc, cs_finished_at = None\<rparr>"

definition sample_crawl_db :: db where
  "sample_crawl_db = empty_db\<lparr>queued_jobs :=
       [new_queued_job 9 datetime_min_utc CRAWL_JOB_TYPE [(''system_id'', PStr (uuid_str 3))]],
     crawl_snapshots := [sample_draft 5, sample_draft 7]\<rparr>"

theorem completed_crawl_leaves_compilable_drafts_witness:
  "cs_id ` {c \<in> set (crawl_snapshots (committed (snd (crawl_job sample_crawl (\<lambda>_. datetime_min_utc)
       (\<lambda>_. datetime_min_utc) 10 9 (open_session sample_crawl_db))))). cs_system_id c = 3 \<and> cs_state c = ''draft''} \<subseteq>
     {k. k = 7 \<or> compile_job_of k (committed (snd
       (crawl_job sample_crawl (\<lambda>_. datetime_min_utc) (\<lambda>_. datetime_min_utc) 10 9 (open_session sample_crawl_db))))}"
proof -
  let ?clk = "\<lambda>_. datetime_min_utc" and ?job = "new_queued_job 9 datetime_min_utc CRAWL_JOB_TYPE [(''system_id'', PStr (uuid_str 3))]"
  let ?s = "open_session sample_crawl_db"
  have job: "get_job 9 (working ?s) = Some ?job"
    by (simp add: get_job_def find_row_Cons sample_crawl_db_def new_queued_job_def)
  obtain r s' where run: "crawl_job sample_crawl ?clk ?clk 10 9 ?s = (r, s')" by fastforce
  have sys: "dget (qj_payload ?job) ''system_id'' = PStr (uuid_str 3)"
    by (simp add: new_queued_job_def dget_def)
  have full: "strip ''full'' = ''full''" by (rule strip_graphic) (simp add: graphic_def)
  obtain pid s3 where c: "s' = crawl_conclude ?clk ?clk 10 9 pid 3 7 s3" "queued_jobs (working s3) =
      upd_row qj_id 9 (start_queued ?clk) (upd_row qj_id 9 apply_queue_audit_fields [?job])"
    using run job by (auto simp: crawl_job_def Let_def dget_def full sample_crawl_def new_queued_job_def sample_crawl_db_def)
  have ids: "qj_id (start_queued ?clk j) = qj_id j" "qj_id (apply_queue_audit_fields j) = qj_id j"
    "qj_id (complete_crawl ?clk 7 j) = qj_id j" "qj_id ?job = 9" for j
    using keeps_identity_simps(3,4) by (simp_all add: keeps_identity_def complete_crawl_def new_queued_job_def)
  have q: "queued_jobs (committed s') =
      upd_row qj_id 9 (complete_crawl ?clk 7) (queued_jobs (working s3) @ [new_compile_job 10 datetime_min_utc 7])"
    using c(1) by (simp add: crawl_conclude_queue crawl_conclude_def complete_crawl_def [abs_def])
  have "find_row qj_id 9 (queued_jobs (working s3)) = Some (start_queued ?clk (apply_queue_audit_fields ?job))"
    by (simp add: c(2) find_upd_row_same ids find_row_Cons)
  then obtain job' where job': "get_job 9 (committed s') = Some job'" "qj_status job' = COMPLETED"
    by (simp add: get_job_def q find_upd_row_same ids find_row_append) (simp add: complete_crawl_def)
  obtain sid scope s2 result s3 n where o: "parse_uuid (dget (qj_payload ?job) ''system_id'') = Some sid"
    "sample_crawl sid scope s2 = (Inr result, s3)" "cw_snapshot_id result = Some n"
    "\<forall>c \<in> set (crawl_snapshots (committed s')). cs_system_id c = sid \<and> cs_state c = ''draft'' \<longrightarrow>
       cs_id c = n \<or> compile_job_of (cs_id c) (committed s')"
    using completed_crawl_leaves_compilable_drafts [OF run job _ job'] by (simp, blast)
  have "sid = 3" using o(1) unfolding sys by (simp add: parse_uuid_def)
  moreover have "n = 7" using o(2,3) by (auto simp: sample_crawl_def)
  ultimately show ?thesis using o(4) by (auto simp: run)
qed

subsection \<open>What an auth refresh records\<close>

definition auth_recorded :: "clock \<Rightarrow> uuid \<Rightarrow> uuid option \<Rightarrow> db_session \<Rightarrow> bool" where
  "auth_recorded clk i pid s \<longleftrightarrow>
     (\<forall>j p. get_job i (committed s) = Some j \<and> pid \<noteq> None \<and>
        find_row ap_id (the pid) (system_auth_policies (committed s)) = Some p \<longrightarrow>
        (if qj_status j = COMPLETED
         then qj_failure_message j = None \<and> ap_last_failure_message p = None \<and>
           ap_last_succeeded_at p = Some (clk 4)
         else qj_status j \<in> {FAILED, RETRYABLE_FAILED} \<and>
           ap_last_failure_message p = qj_failure_message j \<and>
           ap_last_failed_at p \<in> {Some (clk 3), Some (clk 4)}))"

lemma find_on_auth_policy:
  "(\<And>p. ap_id (f p) = ap_id p) \<Longrightarrow>
    find_row ap_id k (system_auth_policies (on_auth_policy (Some k) f d)) =
      map_option f (find_row ap_id k (system_auth_policies d))"
  by (simp add: on_auth_policy_def find_upd_row_same)

lemma get_job_on_auth_policy [simp]: "get_job i (on_auth_policy pid f d) = get_job i d"
  by (simp add: get_job_def)

lemma auth_mark_failed_recorded: "auth_recorded clk i pid (auth_mark_failed clk i m pid s)"
  by (auto simp: auth_recorded_def auth_mark_failed_def find_on_auth_policy get_upd_job close_queued_def)

lemma auth_conclude_recorded: "auth_recorded clk i pid (auth_conclude clk i pid result s)"
  by (auto simp: auth_recorded_def auth_conclude_def Let_def find_on_auth_policy get_upd_job)

text \<open>An auth refresh job records its outcome twice and alike. The handler raises nothing for a job
  that exists; the policy the job belongs to gets the time of success and loses its failure message
  when the job completes, and otherwise gets the time of failure and the message of the job, which
  is then failed or retryable.\<close>

theorem auth_refresh_records_outcome:
  assumes "auth_refresh_job refresh clk i s = (r, s')" "get_job i (working s) = Some job"
    and "resolve_auth_policy (qj_payload job) (working s) = Some pid"
    and "get_job i (committed s') = Some job'"
    and "find_row ap_id pid (system_auth_policies (committed s')) = Some p"
  shows "r = Inr () \<and>
    (if qj_status job' = COMPLETED
     then qj_failure_message job' = None \<and> ap_last_failure_message p = None \<and>
       ap_last_succeeded_at p = Some (clk 4)
     else qj_status job' \<in> {FAILED, RETRYABLE_FAILED} \<and>
       ap_last_failure_message p = qj_failure_message job' \<and>
       ap_last_failed_at p \<in> {Some (clk 3), Some (clk 4)})"
proof -
  have pid: "resolve_auth_policy (qj_payload job) (upd_job i apply_queue_audit_fields (working s)) = Some pid"
    using assms(3) by (simp add: resolve_auth_policy_def upd_job_def)
  have "r = Inr () \<and> auth_recorded clk i (Some pid) s'"
    using assms(1,2) pid unfolding auth_refresh_job_def Let_def
    by (auto intro: auth_mark_failed_recorded auth_conclude_recorded split: option.splits sum.splits prod.splits)
  then show ?thesis using assms(4,5) unfolding auth_recorded_def by fastforce
qed

definition sample_auth_policy :: system_auth_policy where
  "sample_auth_policy =
     \<lparr>ap_id = 4, ap_system_id = 3, ap_enabled = True, ap_state = ''active'', ap_schedule_expr = [],
      ap_auth_mode = [], ap_captcha_provider = [], ap_last_triggered_at = None,
      ap_last_succeeded_at = None, ap_last_failed_at = None, ap_last_failure_message = None\<rparr>"

theorem auth_refresh_records_outcome_witness:
  "\<exists>p. find_row ap_id 4 (system_auth_policies (committed (snd (auth_refresh_job
      (\<lambda>_ s. (Inl (OtherException ''down''), s)) (\<lambda>_. datetime_min_utc) 9 (open_session
      (empty_db\<lparr>queued_jobs := [new_queued_job 9 datetime_min_utc AUTH_REFRESH_JOB_TYPE
           [(''policy_id'', PStr (uuid_str 4))]],
         system_auth_policies := [sample_auth_policy]\<rparr>)))))) = Some p \<and> ap_last_failure_message p \<noteq> None"
proof -
  let ?job = "new_queued_job 9 datetime_min_utc AUTH_REFRESH_JOB_TYPE [(''policy_id'', PStr (uuid_str 4))]"
  let ?s = "open_session (empty_db\<lparr>queued_jobs := [?job], system_auth_policies := [sample_auth_policy]\<rparr>)"
  let ?r = "\<lambda>_ s. (Inl (OtherException ''down''), s)" and ?clk = "\<lambda>_::nat. datetime_min_utc"
  have job: "get_job 9 (working ?s) = Some ?job"
    by (simp add: get_job_def find_row_Cons new_queued_job_def)
  have pid: "resolve_auth_policy (qj_payload ?job) (working ?s) = Some 4"
    by (simp add: resolve_auth_policy_def resolve_policy_def new_queued_job_def dget_def
        parse_uuid_def find_row_Cons sample_auth_policy_def)
  define s' where "s' = auth_mark_failed ?clk 9 (Some ''missing system_id in auth refresh job payload'') (Some 4)
       (modify (upd_job 9 apply_queue_audit_fields) ?s)"
  have pid': "resolve_auth_policy (qj_payload ?job) (upd_job 9 apply_queue_audit_fields (working ?s)) = Some 4"
    using pid by (simp add: resolve_auth_policy_def upd_job_def)
  have "as_str (dget (qj_payload ?job) ''system_id'') = None"
    by (simp add: new_queued_job_def dget_def)
  then have s': "auth_refresh_job ?r ?clk 9 ?s = (Inr (), s')"
    using job pid' by (simp add: auth_refresh_job_def Let_def s'_def)
  have audit: "qj_id (apply_queue_audit_fields j) = qj_id j" for j
    using keeps_identity_simps(4) by (simp add: keeps_identity_def)
  obtain job' where job': "get_job 9 (committed s') = Some job'" "qj_status job' = FAILED"
    "qj_failure_message job' \<noteq> None"
    using job by (simp add: s'_def auth_mark_failed_def get_upd_job audit close_queued_def)
  obtain p where p: "find_row ap_id 4 (system_auth_policies (committed s')) = Some p"
    by (simp add: s'_def auth_mark_failed_def find_on_auth_policy upd_job_def find_row_Cons sample_auth_policy_def)
  show ?thesis
    using auth_refresh_records_outcome [OF s' job pid job'(1) p] job' p s' by auto
qed

end
