(* ===== verification/CompileJob.thy ===== *)
theory CompileJob
  imports PolicyJobs PublishedJobs
begin

section \<open>Compile jobs and the cascades of a reconciliation\<close>

text \<open>
  jobs/asset\_compile\_job.py, \<open>apply_reconciliation_cascades\<close> of control\_plane/service.py and the
  two operations on intent aliases of control\_plane/repository.py that it calls. The asset compiler
  service is a constructor argument of the handler and an argument here; the control plane service
  may be absent, and so may the published job service inside it.
\<close>

subsection \<open>Intent aliases\<close>

definition disable_alias_row :: "string \<Rightarrow> datetime \<Rightarrow> uuid \<Rightarrow> intent_alias \<Rightarrow> intent_alias" where
  "disable_alias_row reason now snapshot_id a =
     a\<lparr>ia_is_active := False, ia_disabled_reason := Some reason, ia_disabled_at := Some now,
       ia_disabled_by_snapshot_id := Some snapshot_id\<rparr>"

definition enable_alias_row :: "intent_alias \<Rightarrow> intent_alias" where
  "enable_alias_row a =
     a\<lparr>ia_is_active := True, ia_disabled_reason := None, ia_disabled_at := None,
       ia_disabled_by_snapshot_id := None\<rparr>"

definition upd_alias :: "uuid \<Rightarrow> (intent_alias \<Rightarrow> intent_alias) \<Rightarrow> db \<Rightarrow> db" where
  "upd_alias i f d = d\<lparr>intent_aliases := upd_row ia_id i f (intent_aliases d)\<rparr>"

definition aliases_with :: "bool \<Rightarrow> uuid list \<Rightarrow> db \<Rightarrow> intent_alias list" where
  "aliases_with active ids d =
     sort_key ia_id (filter (\<lambda>a. ia_id a \<in> set ids \<and> ia_is_active a = active) (intent_aliases d))"

definition disable_aliases_from_compiler_decisions ::
  "datetime \<Rightarrow> uuid list \<Rightarrow> uuid \<Rightarrow> string \<Rightarrow> db_session \<Rightarrow> (py_exc + nat) \<times> db_session" where
  "disable_aliases_from_compiler_decisions now alias_ids snapshot_id reason s =
     (if alias_ids = [] then (Inr 0, s)
      else if strip reason = [] then (Inl (OtherException ''reason must not be empty''), s)
      else let aliases = aliases_with True alias_ids (working s) in
           if aliases = [] then (Inr 0, s)
           else (Inr (length aliases),
                 modify (fold (\<lambda>a. upd_alias (ia_id a) (disable_alias_row (strip reason) now snapshot_id))
                   aliases) s))"

definition enable_aliases_from_compiler_decisions :: "uuid list \<Rightarrow> db_session \<Rightarrow> nat \<times> db_session" where
  "enable_aliases_from_compiler_decisions alias_ids s =
     (if alias_ids = [] then (0, s)
      else let aliases = aliases_with False alias_ids (working s) in
           if aliases = [] then (0, s)
           else (length aliases, modify (fold (\<lambda>a. upd_alias (ia_id a) enable_alias_row) aliases) s))"

subsection \<open>Cascades\<close>

record compile_result =
  cx_snapshot_id :: uuid
  cx_status :: string
  cx_assets_created :: int
  cx_checks_created :: int
  cx_drift_state :: asset_status
  cx_switch_outcome :: string
  cx_assets_updated :: int
  cx_assets_retired :: int
  cx_checks_updated :: int
  cx_checks_retired :: int
  cx_alias_disable_decision_count :: int
  cx_alias_enable_decision_count :: int
  cx_published_job_pause_decision_count :: int
  cx_published_job_resume_decision_count :: int
  cx_asset_ids :: "uuid list"
  cx_check_ids :: "uuid list"
  cx_alias_ids_to_disable :: "uuid list"
  cx_alias_ids_to_enable :: "uuid list"
  cx_published_job_ids_to_pause :: "uuid list"
  cx_published_job_ids_to_resume :: "uuid list"
  cx_retire_reasons :: "pydict list"
  cx_message :: "string option"

record cascade_applied =
  ca_snapshot_id :: uuid
  ca_alias_disable_decision_count :: int
  ca_alias_enable_decision_count :: int
  ca_published_job_pause_decision_count :: int
  ca_published_job_resume_decision_count :: int
  ca_aliases_disabled :: nat
  ca_aliases_enabled :: nat
  ca_published_jobs_paused :: nat
  ca_published_jobs_resumed :: nat

definition exc_of_pj :: "pj_error \<Rightarrow> py_exc" where
  "exc_of_pj e =
     (case e of ValueMustNotBeEmpty \<Rightarrow> OtherException ''value must not be empty''
      | _ \<Rightarrow> OtherException [])"

text \<open>
  \<open>with_jobs\<close> says whether the control plane was built with a published job service. A raised
  exception rolls the transaction back and is raised again.
\<close>

definition apply_reconciliation_cascades ::
  "bool \<Rightarrow> datetime \<Rightarrow> compile_result \<Rightarrow> db_session \<Rightarrow> (py_exc + cascade_applied) \<times> db_session" where
  "apply_reconciliation_cascades with_jobs now r s =
     (case disable_aliases_from_compiler_decisions now (cx_alias_ids_to_disable r) (cx_snapshot_id r)
             ''retired_missing'' s of
        (Inl e, s1) \<Rightarrow> (Inl e, rollback s1)
      | (Inr aliases_disabled, s1) \<Rightarrow>
          (let (aliases_enabled, s2) = enable_aliases_from_compiler_decisions (cx_alias_ids_to_enable r) s1;
               applied = (\<lambda>paused resumed.
                 \<lparr>ca_snapshot_id = cx_snapshot_id r,
                  ca_alias_disable_decision_count = cx_alias_disable_decision_count r,
                  ca_alias_enable_decision_count = cx_alias_enable_decision_count r,
                  ca_published_job_pause_decision_count = cx_published_job_pause_decision_count r,
                  ca_published_job_resume_decision_count = cx_published_job_resume_decision_count r,
                  ca_aliases_disabled = aliases_disabled, ca_aliases_enabled = aliases_enabled,
                  ca_published_jobs_paused = paused, ca_published_jobs_resumed = resumed\<rparr>)
           in if \<not> with_jobs then (Inr (applied 0 0), commit s2)
              else case pause_published_jobs_by_ids (cx_published_job_ids_to_pause r) (cx_snapshot_id r)
                          ''asset_retired_missing'' False s2 of
                     (Inl e, s3) \<Rightarrow> (Inl (exc_of_pj e), rollback s3)
                   | (Inr paused, s3) \<Rightarrow>
                       (let (resumed, s4) = resume_published_jobs_by_ids
                                (cx_published_job_ids_to_resume r) False s3
                        in (Inr (applied paused resumed), commit s4))))"

subsection \<open>The handler\<close>

type_synonym compile_service = "uuid \<Rightarrow> db_session \<Rightarrow> (py_exc + compile_result) \<times> db_session"

definition ids_value :: "uuid list \<Rightarrow> pyval" where
  "ids_value us = PList (map (\<lambda>u. PStr (uuid_str u)) us)"

text \<open>\<open>_serialize_compile_result\<close>; the retire reasons hold no UUID objects in this model.\<close>

definition serialize_compile_result :: "compile_result \<Rightarrow> pydict" where
  "serialize_compile_result r =
     [(''snapshot_id'', PStr (uuid_str (cx_snapshot_id r))),
      (''status'', PStr (cx_status r)),
      (''assets_created'', PInt (cx_assets_created r)),
      (''checks_created'', PInt (cx_checks_created r)),
      (''drift_state'', PStr (asset_status_value (cx_drift_state r))),
      (''switch_outcome'', PStr (cx_switch_outcome r)),
      (''assets_updated'', PInt (cx_assets_updated r)),
      (''assets_retired'', PInt (cx_assets_retired r)),
      (''checks_updated'', PInt (cx_checks_updated r)),
      (''checks_retired'', PInt (cx_checks_retired r)),
      (''alias_disable_decision_count'', PInt (cx_alias_disable_decision_count r)),
      (''alias_enable_decision_count'', PInt (cx_alias_enable_decision_count r)),
      (''published_job_pause_decision_count'', PInt (cx_published_job_pause_decision_count r)),
      (''published_job_resume_decision_count'', PInt (cx_published_job_resume_decision_count r)),
      (''asset_ids'', ids_value (cx_asset_ids r)),
      (''check_ids'', ids_value (cx_check_ids r)),
      (''alias_ids_to_disable'', ids_value (cx_alias_ids_to_disable r)),
      (''alias_ids_to_enable'', ids_value (cx_alias_ids_to_enable r)),
      (''published_job_ids_to_pause'', ids_value (cx_published_job_ids_to_pause r)),
      (''published_job_ids_to_resume'', ids_value (cx_published_job_ids_to_resume r)),
      (''retire_reasons'', PList (map PDict (cx_retire_reasons r))),
      (''message'', of_opt_str (cx_message r))]"

definition compile_payload :: "compile_result \<Rightarrow> cascade_applied option \<Rightarrow> pydict" where
  "compile_payload r cascade =
     serialize_compile_result r @
     (case cascade of
        None \<Rightarrow> []
      | Some c \<Rightarrow>
          [(''aliases_disabled'', PInt (int (ca_aliases_disabled c))),
           (''aliases_enabled'', PInt (int (ca_aliases_enabled c))),
           (''published_jobs_paused'', PInt (int (ca_published_jobs_paused c))),
           (''published_jobs_resumed'', PInt (int (ca_published_jobs_resumed c)))])"

definition compile_mark_failed :: "clock \<Rightarrow> uuid \<Rightarrow> string option \<Rightarrow> db_session \<Rightarrow> db_session" where
  "compile_mark_failed clk job_id message s =
     commit (modify (upd_job job_id (close_queued FAILED clk message)) (rollback s))"

definition complete_compile :: "clock \<Rightarrow> pydict \<Rightarrow> queued_job \<Rightarrow> queued_job" where
  "complete_compile clk payload j =
     j\<lparr>qj_status := COMPLETED, qj_finished_at := Some (clk 5), qj_failure_message := None,
       qj_result_payload := Some payload\<rparr>"

text \<open>\<open>cascades\<close> is \<open>None\<close> when the handler has no control plane service.\<close>

definition asset_compile_job ::
  "compile_service \<Rightarrow> bool option \<Rightarrow> clock \<Rightarrow> uuid \<Rightarrow> db_session \<Rightarrow> (string + unit) \<times> db_session" where
  "asset_compile_job compile cascades clk job_id s =
     (case get_job job_id (working s) of
        None \<Rightarrow> (Inl (''queued job '' @ uuid_str job_id @ '' not found''), s)
      | Some job \<Rightarrow>
          (case as_str (dget (qj_payload job) ''snapshot_id'') of
             None \<Rightarrow> (Inr (), compile_mark_failed clk job_id
                        (Some ''missing snapshot_id in asset compile job payload'') s)
           | Some snapshot_id \<Rightarrow>
               (let s1 = commit (modify (upd_job job_id (start_queued clk)) s) in
                case parse_uuid_str snapshot_id of
                  None \<Rightarrow> (Inr (), compile_mark_failed clk job_id (Some (uuid_error snapshot_id)) s1)
                | Some sid \<Rightarrow>
                    (case compile sid s1 of
                       (Inl e, s2) \<Rightarrow> (Inr (), compile_mark_failed clk job_id (Some (exc_str e)) s2)
                     | (Inr result, s2) \<Rightarrow>
                         (case cascades of
                            None \<Rightarrow>
                              (Inr (), commit (modify (upd_job job_id
                                 (complete_compile clk (compile_payload result None))) s2))
                          | Some with_jobs \<Rightarrow>
                              (case apply_reconciliation_cascades with_jobs (clk 6) result s2 of
                                 (Inl e, s3) \<Rightarrow> (Inr (), compile_mark_failed clk job_id (Some (exc_str e)) s3)
                               | (Inr c, s3) \<Rightarrow>
                                   (Inr (), commit (modify (upd_job job_id
                                      (complete_compile clk (compile_payload result (Some c)))) s3))))))))"

subsection \<open>What the cascades do\<close>

definition alias_selected :: "uuid list \<Rightarrow> bool \<Rightarrow> intent_alias \<Rightarrow> bool" where
  "alias_selected ids active a \<longleftrightarrow> ia_id a \<in> set ids \<and> ia_is_active a = active"

lemma alias_row_ids [simp]:
  "ia_id (disable_alias_row r t sn a) = ia_id a" "ia_id (enable_alias_row a) = ia_id a"
  by (simp_all add: disable_alias_row_def enable_alias_row_def)

lemma fold_upd_alias:
  "fold (\<lambda>a. upd_alias (ia_id a) f) as d =
     d\<lparr>intent_aliases := fold (\<lambda>k. upd_row ia_id k f) (map ia_id as) (intent_aliases d)\<rparr>"
  by (induction as arbitrary: d) (simp_all add: upd_alias_def)

lemma fold_aliases:
  assumes "distinct (map ia_id (intent_aliases d))" "\<And>a. ia_id (f a) = ia_id a"
  shows "fold (\<lambda>a. upd_alias (ia_id a) f) (aliases_with act ids d) d =
    d\<lparr>intent_aliases := map (\<lambda>a. if alias_selected ids act a then f a else a) (intent_aliases d)\<rparr>"
proof -
  let ?as = "intent_aliases d"
  have inj: "inj_on ia_id (set ?as)" using assms(1) by (simp add: distinct_map)
  have set: "set (aliases_with act ids d) = {a \<in> set ?as. alias_selected ids act a}"
    by (auto simp: aliases_with_def alias_selected_def)
  have "distinct (map ia_id (aliases_with act ids d))"
    using assms(1) inj by (auto simp: distinct_map aliases_with_def intro: inj_on_subset)
  then have "fold (\<lambda>k. upd_row ia_id k f) (map ia_id (aliases_with act ids d)) ?as =
      map (\<lambda>a. if ia_id a \<in> ia_id ` {a \<in> set ?as. alias_selected ids act a} then f a else a) ?as"
    by (simp add: fold_upd_row assms(2) set)
  also have "\<dots> = map (\<lambda>a. if alias_selected ids act a then f a else a) ?as"
    by (rule map_cong) (auto dest: inj_onD [OF inj])
  finally show ?thesis by (simp add: fold_upd_alias)
qed

lemma strip_reasons [simp]:
  "strip ''retired_missing'' = ''retired_missing''" "strip ''asset_retired_missing'' = ''asset_retired_missing''"
  by (rule strip_graphic, simp add: graphic_def)+

definition set_aliases :: "intent_alias list \<Rightarrow> db \<Rightarrow> db" where
  "set_aliases as d = d\<lparr>intent_aliases := as\<rparr>"

definition update_aliases ::
  "uuid list \<Rightarrow> bool \<Rightarrow> (intent_alias \<Rightarrow> intent_alias) \<Rightarrow> intent_alias list \<Rightarrow> intent_alias list" where
  "update_aliases ids act f = map (\<lambda>a. if alias_selected ids act a then f a else a)"

lemma update_aliases_none: "filter (alias_selected ids act) as = [] \<Longrightarrow> update_aliases ids act f as = as"
  by (auto simp: update_aliases_def filter_empty_conv intro: map_idI)

lemma aliases_with_length: "length (aliases_with act ids d) = length (filter (alias_selected ids act) (intent_aliases d))"
  by (simp add: aliases_with_def alias_selected_def [abs_def])

lemma aliases_with_Nil: "aliases_with act ids d = [] \<longleftrightarrow> filter (alias_selected ids act) (intent_aliases d) = []"
  by (metis aliases_with_length length_0_conv)

lemma modify_fold_aliases:
  assumes "distinct (map ia_id (intent_aliases (working s)))" "\<And>a. ia_id (f a) = ia_id a"
  shows "modify (fold (\<lambda>a. upd_alias (ia_id a) f) (aliases_with act ids (working s))) s =
    modify (set_aliases (update_aliases ids act f (intent_aliases (working s)))) s"
  using fold_aliases [OF assms] by (simp add: modify_def set_aliases_def update_aliases_def)

lemma set_aliases_id: "modify (set_aliases (intent_aliases (working s))) s = s"
  by (simp add: modify_def set_aliases_def)

lemma disable_aliases_eq:
  assumes "distinct (map ia_id (intent_aliases (working s)))" "strip reason \<noteq> []"
  shows "disable_aliases_from_compiler_decisions now ids sn reason s =
    (Inr (length (filter (alias_selected ids True) (intent_aliases (working s)))),
     modify (set_aliases (update_aliases ids True (disable_alias_row (strip reason) now sn)
       (intent_aliases (working s)))) s)"
proof (cases "filter (alias_selected ids True) (intent_aliases (working s)) = []")
  case True
  then show ?thesis
    using aliases_with_Nil [of True ids "working s"] assms(2)
    by (simp add: disable_aliases_from_compiler_decisions_def Let_def update_aliases_none set_aliases_id)
next
  case False
  then have "ids \<noteq> []" by (auto simp: alias_selected_def)
  then show ?thesis
    using False aliases_with_Nil [of True ids "working s"] assms(2) modify_fold_aliases [OF assms(1)]
    by (simp add: disable_aliases_from_compiler_decisions_def Let_def aliases_with_length)
qed

lemma enable_aliases_eq:
  assumes "distinct (map ia_id (intent_aliases (working s)))"
  shows "enable_aliases_from_compiler_decisions ids s =
    (length (filter (alias_selected ids False) (intent_aliases (working s))),
     modify (set_aliases (update_aliases ids False enable_alias_row (intent_aliases (working s)))) s)"
proof (cases "filter (alias_selected ids False) (intent_aliases (working s)) = []")
  case True
  then show ?thesis
    using aliases_with_Nil [of False ids "working s"]
    by (simp add: enable_aliases_from_compiler_decisions_def Let_def update_aliases_none set_aliases_id)
next
  case False
  then have "ids \<noteq> []" by (auto simp: alias_selected_def)
  then show ?thesis
    using False aliases_with_Nil [of False ids "working s"] modify_fold_aliases [OF assms]
    by (simp add: enable_aliases_from_compiler_decisions_def Let_def aliases_with_length)
qed

lemma set_aliases_simps [simp]:
  "intent_aliases (set_aliases as d) = as" "published_jobs (set_aliases as d) = published_jobs d"
  "job_ids_distinct (set_aliases as d) = job_ids_distinct d" "queued_jobs (set_aliases as d) = queued_jobs d"
  "set_aliases bs (set_aliases as d) = set_aliases bs d"
  by (simp_all add: set_aliases_def job_ids_distinct_def)

lemma update_aliases_ids [simp]:
  "(\<And>a. ia_id (f a) = ia_id a) \<Longrightarrow> map ia_id (update_aliases ids act f as) = map ia_id as"
  by (auto simp: update_aliases_def)

lemma update_selected_ids: "(\<And>j. pj_id (f j) = pj_id j) \<Longrightarrow> map pj_id (update_selected ids st f js) = map pj_id js"
  by (auto simp: update_selected_def)

lemma with_published_jobs_compose [simp]:
  "with_published_jobs g (with_published_jobs f d) = with_published_jobs (g \<circ> f) d"
  by (simp add: with_published_jobs_def)

lemma finish_no_commit [simp]: "finish False n s = s"
  by (simp add: finish_def)

lemma cascades_eq:
  assumes "distinct (map ia_id (intent_aliases (working s)))" "job_ids_distinct (working s)"
  shows "apply_reconciliation_cascades True now r s =
    (let as1 = update_aliases (cx_alias_ids_to_disable r) True
                 (disable_alias_row ''retired_missing'' now (cx_snapshot_id r)) (intent_aliases (working s));
         as2 = update_aliases (cx_alias_ids_to_enable r) False enable_alias_row as1;
         js1 = update_selected (cx_published_job_ids_to_pause r) JobActive
                 (pause_row ''asset_retired_missing'' (cx_snapshot_id r)) (published_jobs (working s));
         js2 = update_selected (cx_published_job_ids_to_resume r) JobPaused resume_row js1;
         d = (working s)\<lparr>intent_aliases := as2, published_jobs := js2\<rparr>
     in (Inr \<lparr>ca_snapshot_id = cx_snapshot_id r,
              ca_alias_disable_decision_count = cx_alias_disable_decision_count r,
              ca_alias_enable_decision_count = cx_alias_enable_decision_count r,
              ca_published_job_pause_decision_count = cx_published_job_pause_decision_count r,
              ca_published_job_resume_decision_count = cx_published_job_resume_decision_count r,
              ca_aliases_disabled = length (filter (alias_selected (cx_alias_ids_to_disable r) True) (intent_aliases (working s))),
              ca_aliases_enabled = length (filter (alias_selected (cx_alias_ids_to_enable r) False) as1),
              ca_published_jobs_paused = length (filter (selected (cx_published_job_ids_to_pause r) JobActive) (published_jobs (working s))),
              ca_published_jobs_resumed = length (filter (selected (cx_published_job_ids_to_resume r) JobPaused) js1)\<rparr>,
         \<lparr>committed = d, working = d\<rparr>))"
proof -
  let ?as = "intent_aliases (working s)" and ?js = "published_jobs (working s)"
  let ?as1 = "update_aliases (cx_alias_ids_to_disable r) True
    (disable_alias_row ''retired_missing'' now (cx_snapshot_id r)) ?as"
  let ?as2 = "update_aliases (cx_alias_ids_to_enable r) False enable_alias_row ?as1"
  let ?p = "update_selected (cx_published_job_ids_to_pause r) JobActive
    (pause_row ''asset_retired_missing'' (cx_snapshot_id r))"
  let ?s1 = "modify (set_aliases ?as1) s"
  let ?s2 = "modify (set_aliases ?as2) s"
  let ?s3 = "modify (with_published_jobs ?p) ?s2"
  have d1: "distinct (map ia_id (intent_aliases (working ?s1)))" using assms(1) by simp
  have s2: "modify (set_aliases ?as2) ?s1 = ?s2" by (simp add: comp_def)
  have j2: "job_ids_distinct (working ?s2)" using assms(2) by simp
  have v: "validate_required_text ''asset_retired_missing'' = Some ''asset_retired_missing''"
    by (simp add: validate_required_text_def opt_text_def)
  have j3: "job_ids_distinct (working ?s3)"
    using assms(2) by (simp add: job_ids_distinct_def update_selected_ids)
  show ?thesis
    unfolding apply_reconciliation_cascades_def
    using disable_aliases_eq [OF assms(1), of "''retired_missing''" now "cx_alias_ids_to_disable r" "cx_snapshot_id r"]
      enable_aliases_eq [OF d1, of "cx_alias_ids_to_enable r"]
      pause_eq [OF j2 v, of "cx_published_job_ids_to_pause r" "cx_snapshot_id r" False]
      resume_eq [OF j3, of "cx_published_job_ids_to_resume r" False]
    by (simp add: Let_def s2 commit_def) (simp add: modify_def with_published_jobs_def set_aliases_def)
qed

text \<open>The cascades of a reconciliation commit together and raise nothing: the active aliases among
  those to disable are disabled by the snapshot, then the inactive among those to enable are
  enabled, the active published jobs among those to pause are paused and then the paused among
  those to resume resumed, no other row changes, and the four counts are the numbers of changed
  rows.\<close>

theorem cascades_applied:
  assumes "distinct (map ia_id (intent_aliases (working s)))" "job_ids_distinct (working s)"
  shows "apply_reconciliation_cascades True now r s =
    (let as1 = update_aliases (cx_alias_ids_to_disable r) True
                 (disable_alias_row ''retired_missing'' now (cx_snapshot_id r)) (intent_aliases (working s));
         as2 = update_aliases (cx_alias_ids_to_enable r) False enable_alias_row as1;
         js1 = update_selected (cx_published_job_ids_to_pause r) JobActive
                 (pause_row ''asset_retired_missing'' (cx_snapshot_id r)) (published_jobs (working s));
         js2 = update_selected (cx_published_job_ids_to_resume r) JobPaused resume_row js1;
         d = (working s)\<lparr>intent_aliases := as2, published_jobs := js2\<rparr>
     in (Inr \<lparr>ca_snapshot_id = cx_snapshot_id r,
              ca_alias_disable_decision_count = cx_alias_disable_decision_count r,
              ca_alias_enable_decision_count = cx_alias_enable_decision_count r,
              ca_published_job_pause_decision_count = cx_published_job_pause_decision_count r,
              ca_published_job_resume_decision_count = cx_published_job_resume_decision_count r,
              ca_aliases_disabled = length (filter (alias_selected (cx_alias_ids_to_disable r) True) (intent_aliases (working s))),
              ca_aliases_enabled = length (filter (alias_selected (cx_alias_ids_to_enable r) False) as1),
              ca_published_jobs_paused = length (filter (selected (cx_published_job_ids_to_pause r) JobActive) (published_jobs (working s))),
              ca_published_jobs_resumed = length (filter (selected (cx_published_job_ids_to_resume r) JobPaused) js1)\<rparr>,
         \<lparr>committed = d, working = d\<rparr>))"
  by (rule cascades_eq [OF assms])

definition sample_compile_result :: compile_result where
  "sample_compile_result =
     \<lparr>cx_snapshot_id = 9, cx_status = ''success'', cx_assets_created = 0, cx_checks_created = 0,
      cx_drift_state = SAFE, cx_switch_outcome = ''promoted'', cx_assets_updated = 0,
      cx_assets_retired = 1, cx_checks_updated = 0, cx_checks_retired = 1,
      cx_alias_disable_decision_count = 0, cx_alias_enable_decision_count = 0,
      cx_published_job_pause_decision_count = 1, cx_published_job_resume_decision_count = 0,
      cx_asset_ids = [], cx_check_ids = [], cx_alias_ids_to_disable = [], cx_alias_ids_to_enable = [],
      cx_published_job_ids_to_pause = [1], cx_published_job_ids_to_resume = [],
      cx_retire_reasons = [], cx_message = None\<rparr>"

theorem cascades_applied_witness:
  "\<exists>c. fst (apply_reconciliation_cascades True datetime_min_utc sample_compile_result (open_session sample_db)) = Inr c \<and>
     ca_published_jobs_paused c = 1"
  using cascades_applied [of "open_session sample_db" datetime_min_utc sample_compile_result]
  by (simp add: sample_compile_result_def sample_db_def empty_db_def sample_job_def
      job_ids_distinct_def selected_def Let_def)

text \<open>C15: without a published job service in the control plane the cascades pause and resume no job,
  whatever was decided. The worker builds its control plane like that: \<open>build_worker_runner\<close>
  replaces the one with the service before it hands it to the handlers.\<close>

theorem cascades_without_job_service:
  assumes "apply_reconciliation_cascades False now r s = (Inr c, s')"
  shows "published_jobs (committed s') = published_jobs (working s) \<and>
    ca_published_jobs_paused c = 0 \<and> ca_published_jobs_resumed c = 0"
proof -
  have frame: "published_jobs (fold (\<lambda>a. upd_alias (ia_id a) f) as d) = published_jobs d" for f as d
    by (simp add: fold_upd_alias)
  have dis: "published_jobs (working s1) = published_jobs (working s)"
    if "disable_aliases_from_compiler_decisions now ids sn reason s = (x, s1)" for ids sn reason x s1
    using that by (auto simp: disable_aliases_from_compiler_decisions_def Let_def frame split: if_splits)
  have en: "published_jobs (working s2) = published_jobs (working s1)"
    if "enable_aliases_from_compiler_decisions ids s1 = (x, s2)" for ids x s1 s2
    using that by (auto simp: enable_aliases_from_compiler_decisions_def Let_def frame split: if_splits)
  show ?thesis
    using assms
    by (auto simp: apply_reconciliation_cascades_def Let_def dis en split: sum.splits prod.splits)
qed

theorem cascades_without_job_service_witness:
  "\<exists>c s'. apply_reconciliation_cascades False datetime_min_utc sample_compile_result (open_session sample_db) = (Inr c, s') \<and>
     published_jobs (committed s') = published_jobs sample_db"
proof -
  obtain c s' where r: "apply_reconciliation_cascades False datetime_min_utc sample_compile_result
      (open_session sample_db) = (Inr c, s')"
    by (simp add: apply_reconciliation_cascades_def disable_aliases_from_compiler_decisions_def
        enable_aliases_from_compiler_decisions_def sample_compile_result_def)
  show ?thesis using cascades_without_job_service [OF r] r by simp
qed

subsection \<open>A failed compilation\<close>

lemma disable_never_raises:
  "\<exists>n s1. disable_aliases_from_compiler_decisions now ids sn ''retired_missing'' s = (Inr n, s1)"
  by (simp add: disable_aliases_from_compiler_decisions_def Let_def)

lemma pause_never_raises:
  "\<exists>n s1. pause_published_jobs_by_ids ids sn ''asset_retired_missing'' c s = (Inr n, s1)"
  by (simp add: pause_published_jobs_by_ids_def validate_required_text_def opt_text_def Let_def)

lemma cascades_never_raise: "\<exists>c s'. apply_reconciliation_cascades w now r s = (Inr c, s')"
proof -
  obtain n s1 where d: "disable_aliases_from_compiler_decisions now (cx_alias_ids_to_disable r)
      (cx_snapshot_id r) ''retired_missing'' s = (Inr n, s1)"
    using disable_never_raises by blast
  obtain e s2 where en: "enable_aliases_from_compiler_decisions (cx_alias_ids_to_enable r) s1 = (e, s2)"
    by fastforce
  obtain m s3 where p: "pause_published_jobs_by_ids (cx_published_job_ids_to_pause r) (cx_snapshot_id r)
      ''asset_retired_missing'' False s2 = (Inr m, s3)"
    using pause_never_raises by blast
  show ?thesis
    by (simp add: apply_reconciliation_cascades_def d en p Let_def case_prod_beta)
qed

lemma close_queued_fields [simp]:
  "qj_id (close_queued st clk m j) = qj_id j" "qj_status (close_queued st clk m j) = st"
  "qj_failure_message (close_queued st clk m j) = m"
  by (simp_all add: close_queued_def)

lemma start_queued_id [simp]: "qj_id (start_queued clk j) = qj_id j"
  by (simp add: start_queued_def)

lemma upd_job_twice:
  "(\<And>j. qj_id (f j) = qj_id j) \<Longrightarrow> upd_job i g (upd_job i f d) = upd_job i (g \<circ> f) d"
  by (simp add: upd_job_def upd_row_twice)

text \<open>A compile job either completes, or fails with a message and the database is what it was except
  for the row of the job itself, provided a compilation that raises has committed nothing.\<close>

theorem compile_failure_changes_only_the_job:
  assumes "get_job i (working s) = Some job" "clean s"
    and "\<forall>u s e s'. compile u s = (Inl e, s') \<longrightarrow> committed s' = committed s"
    and "asset_compile_job compile cascades clk i s = (r, s')"
    and "get_job i (committed s') = Some job'" "qj_status job' \<noteq> COMPLETED"
  shows "r = Inr () \<and> qj_status job' = FAILED \<and> qj_failure_message job' \<noteq> None \<and>
    (\<exists>f. committed s' = upd_job i f (committed s))"
proof -
  let ?s1 = "commit (modify (upd_job i (start_queued clk)) s)"
  have failed: "qj_status job' = FAILED \<and> qj_failure_message job' = Some m"
    if "s' = compile_mark_failed clk i (Some m) s2" for m s2
    using assms(5) that by (auto simp: compile_mark_failed_def get_upd_job)
  have c: "committed s = working s" using assms(2) by (simp add: clean_def)
  have early: "committed (compile_mark_failed clk i m s) = upd_job i (close_queued FAILED clk m) (committed s)" for m
    by (simp add: compile_mark_failed_def)
  have late: "committed (compile_mark_failed clk i m s2) =
      upd_job i (close_queued FAILED clk m \<circ> start_queued clk) (committed s)"
    if "committed s2 = committed ?s1" for m s2
    using that by (simp add: compile_mark_failed_def upd_job_twice c)
  have ok: False if "s' = commit (modify (upd_job i (complete_compile clk p)) s2)" for p s2
    using assms(5,6) that by (auto simp: complete_compile_def get_upd_job)
  show ?thesis
  proof (cases "as_str (dget (qj_payload job) ''snapshot_id'')")
    case None
    then have "s' = compile_mark_failed clk i (Some ''missing snapshot_id in asset compile job payload'') s" "r = Inr ()"
      using assms(1,4) by (auto simp: asset_compile_job_def)
    then show ?thesis using failed early by blast
  next
    case snap: (Some t)
    show ?thesis
    proof (cases "parse_uuid_str t")
      case None
      then have "s' = compile_mark_failed clk i (Some (uuid_error t)) ?s1" "r = Inr ()"
        using assms(1,4) snap by (auto simp: asset_compile_job_def)
      then show ?thesis using failed late [of ?s1] by blast
    next
      case (Some u)
      obtain x s2 where comp: "compile u ?s1 = (x, s2)" by fastforce
      show ?thesis
      proof (cases x)
        case (Inl e)
        then have "s' = compile_mark_failed clk i (Some (exc_str e)) s2" "r = Inr ()"
          using assms(1,4) snap Some comp by (auto simp: asset_compile_job_def)
        moreover have "committed s2 = committed ?s1" using assms(3) comp Inl by blast
        ultimately show ?thesis using failed late by blast
      next
        case (Inr res)
        have "\<exists>p s3. s' = commit (modify (upd_job i (complete_compile clk p)) s3)"
        proof (cases cascades)
          case None
          then show ?thesis
            using assms(1,4) snap Some comp Inr by (auto simp: asset_compile_job_def)
        next
          case w: (Some w)
          obtain ca s3 where "apply_reconciliation_cascades w (clk 6) res s2 = (Inr ca, s3)"
            using cascades_never_raise by blast
          then show ?thesis
            using assms(1,4) snap Some comp Inr w by (auto simp: asset_compile_job_def)
        qed
        then show ?thesis using ok by blast
      qed
    qed
  qed
qed

definition sample_compile_job :: queued_job where
  "sample_compile_job = new_queued_job 9 datetime_min_utc ASSET_COMPILE_JOB_TYPE []"

theorem compile_failure_changes_only_the_job_witness:
  "\<exists>job'. get_job 9 (committed (snd (asset_compile_job (\<lambda>u s. (Inl (OtherException []), s)) None
       (\<lambda>_. datetime_min_utc) 9
       (open_session (empty_db\<lparr>queued_jobs := [sample_compile_job]\<rparr>))))) = Some job' \<and>
     qj_status job' = FAILED"
proof -
  let ?s = "open_session (empty_db\<lparr>queued_jobs := [sample_compile_job]\<rparr>)"
  let ?c = "\<lambda>u s. (Inl (OtherException []), s)"
  have j: "get_job 9 (working ?s) = Some sample_compile_job"
    by (simp add: get_job_def find_row_Cons sample_compile_job_def new_queued_job_def)
  obtain r s' where run: "asset_compile_job ?c None (\<lambda>_. datetime_min_utc) 9 ?s = (r, s')" by fastforce
  then obtain job' where j': "get_job 9 (committed s') = Some job'" "qj_status job' \<noteq> COMPLETED"
    using j by (auto simp: asset_compile_job_def sample_compile_job_def new_queued_job_def
        compile_mark_failed_def get_upd_job)
  have "qj_status job' = FAILED"
    using compile_failure_changes_only_the_job [OF j _ _ run j'] by simp
  then show ?thesis using run j' by auto
qed

end
