(* ===== verification/Worker.thy ===== *)
theory Worker
  imports JobHandlers CompileJob
begin

section \<open>The worker\<close>

text \<open>
  workers/runner.py: a worker claims the oldest accepted job, runs the handler registered for its
  type and records a job without handler or a handler that raises; \<open>run_forever\<close> repeats this until
  the stop event is set. \<open>locked\<close> are the rows locked by the transactions of other workers (none
  for a synchronous session); \<open>others n\<close> is what other sessions commit while the worker sleeps
  after round \<open>n\<close>.
\<close>

type_synonym handler = "uuid \<Rightarrow> db_session \<Rightarrow> (string + unit) \<times> db_session"

definition claim_order :: "queued_job \<Rightarrow> int \<times> int" where
  "claim_order j = (instant (qj_created_at j), uint (qj_id j))"

definition claimable :: "uuid list \<Rightarrow> queued_job \<Rightarrow> bool" where
  "claimable locked j \<longleftrightarrow> qj_status j = ACCEPTED \<and> qj_id j \<notin> set locked"

definition next_accepted_job :: "uuid list \<Rightarrow> db \<Rightarrow> queued_job option" where
  "next_accepted_job locked d = first_by claim_order (filter (claimable locked) (queued_jobs d))"

text \<open>The statement has no limit: its \<open>FOR UPDATE\<close> locks every row it returns.\<close>

definition rows_locked_by_claim :: "uuid list \<Rightarrow> db \<Rightarrow> uuid list" where
  "rows_locked_by_claim locked d = map qj_id (filter (claimable locked) (queued_jobs d))"

definition skip_unhandled :: "clock \<Rightarrow> queued_job \<Rightarrow> queued_job" where
  "skip_unhandled clk j =
     j\<lparr>qj_status := SKIPPED, qj_started_at := Some (py_or (qj_started_at j) (clk 200)),
       qj_finished_at := Some (clk 201),
       qj_failure_message := Some (''no handler registered for job type: '' @ qj_job_type j)\<rparr>"

definition crash_job :: "clock \<Rightarrow> string \<Rightarrow> queued_job \<Rightarrow> queued_job" where
  "crash_job clk message j =
     j\<lparr>qj_status := FAILED, qj_started_at := Some (py_or (qj_started_at j) (clk 200)),
       qj_finished_at := Some (clk 201),
       qj_failure_message := Some (''handler crashed: '' @ message)\<rparr>"

definition run_once ::
  "(string \<times> handler) list \<Rightarrow> clock \<Rightarrow> uuid list \<Rightarrow> db_session \<Rightarrow> bool \<times> db_session" where
  "run_once handlers clk locked s =
     (case next_accepted_job locked (working s) of
        None \<Rightarrow> (False, s)
      | Some job \<Rightarrow>
          (case map_of handlers (qj_job_type job) of
             None \<Rightarrow> (True, commit (modify (upd_job (qj_id job) (skip_unhandled clk)) s))
           | Some handler_run \<Rightarrow>
               (case handler_run (qj_id job) s of
                  (Inr u, s1) \<Rightarrow> (True, s1)
                | (Inl exc, s1) \<Rightarrow> (True, commit (modify (upd_job (qj_id job) (crash_job clk exc)) s1)))))"

subsection \<open>The loop\<close>

text \<open>
  What a round of the loop depends on besides the session. The stop event is read before every
  round and once more after a round that found no job: \<open>stop (2 * n)\<close> and \<open>stop (2 * n + 1)\<close>. A
  worker without event has \<open>stop = (\<lambda>_. False)\<close>.
\<close>

record round_env =
  rd_handlers :: "(string \<times> handler) list"
  rd_clock :: clock
  rd_locked :: "uuid list"
  rd_others :: "db \<Rightarrow> db"

definition run_round :: "round_env \<Rightarrow> db_session \<Rightarrow> bool \<times> db_session" where
  "run_round e s = run_once (rd_handlers e) (rd_clock e) (rd_locked e) s"

partial_function (option) run_forever ::
  "(nat \<Rightarrow> round_env) \<Rightarrow> (nat \<Rightarrow> bool) \<Rightarrow> nat \<Rightarrow> db_session \<Rightarrow> db_session option" where
  "run_forever env stop n s =
     (if stop (2 * n) then Some s
      else let (handled, s1) = run_round (env n) s in
           if handled then run_forever env stop (Suc n) s1
           else if stop (2 * n + 1) then Some s1
           else run_forever env stop (Suc n) (open_session (rd_others (env n) (committed s1))))"

text \<open>The state after \<open>n\<close> rounds of a worker that is not stopped and finds a job in each of them.\<close>

fun after_rounds :: "(nat \<Rightarrow> round_env) \<Rightarrow> nat \<Rightarrow> db_session \<Rightarrow> db_session" where
  "after_rounds env 0 s = s"
| "after_rounds env (Suc n) s = snd (run_round (env n) (after_rounds env n s))"

subsection \<open>The handlers of a worker\<close>

text \<open>
  \<open>build_worker_handlers\<close>: one handler per service that is given. A control plane is given by
  whether it has a published job service and by its probe feedback operation; a runner service by
  its two operations. \<open>cid\<close> and \<open>stamp\<close> are the fresh key and the clock readings of a crawl handler.
\<close>

record worker_services =
  ws_auth :: "auth_refresher option"
  ws_crawler :: "crawl_runner option"
  ws_compiler :: "compile_service option"
  ws_control_plane :: "(bool \<times> probe_feedback) option"
  ws_runner :: "(page_runner \<times> probe_runner) option"

definition build_worker_handlers ::
  "worker_services \<Rightarrow> clock \<Rightarrow> (uuid \<Rightarrow> datetime) \<Rightarrow> uuid \<Rightarrow> (string \<times> handler) list" where
  "build_worker_handlers ws clk stamp cid =
     (case ws_auth ws of
        None \<Rightarrow> []
      | Some refresh \<Rightarrow> [(AUTH_REFRESH_JOB_TYPE, auth_refresh_job refresh clk)]) @
     (case ws_crawler ws of
        None \<Rightarrow> []
      | Some crawl \<Rightarrow> [(CRAWL_JOB_TYPE, crawl_job crawl clk stamp cid)]) @
     (case ws_compiler ws of
        None \<Rightarrow> []
      | Some compile \<Rightarrow>
          [(ASSET_COMPILE_JOB_TYPE, asset_compile_job compile (map_option fst (ws_control_plane ws)) clk)]) @
     (case ws_runner ws of
        None \<Rightarrow> []
      | Some (runner, probe) \<Rightarrow>
          [(RUN_CHECK_JOB_TYPE, run_check_job runner probe (map_option snd (ws_control_plane ws)) clk)])"

text \<open>The control plane that \<open>build_worker_runner\<close> hands to the handlers has no published job service.\<close>

definition build_worker_runner ::
  "auth_refresher \<Rightarrow> crawl_runner \<Rightarrow> compile_service \<Rightarrow> probe_feedback \<Rightarrow> page_runner \<Rightarrow> probe_runner \<Rightarrow> worker_services" where
  "build_worker_runner auth crawler compiler feedback runner probe =
     \<lparr>ws_auth = Some auth, ws_crawler = Some crawler, ws_compiler = Some compiler,
      ws_control_plane = Some (False, feedback), ws_runner = Some (runner, probe)\<rparr>"

subsection \<open>Claiming\<close>

lemma next_accepted_job_Some:
  assumes "next_accepted_job locked d = Some job"
  shows "job \<in> set (queued_jobs d)" "qj_status job = ACCEPTED" "qj_id job \<notin> set locked"
  using first_by_Some(1) [OF assms [unfolded next_accepted_job_def]] by (auto simp: claimable_def)

lemma next_accepted_job_None:
  "next_accepted_job locked d = None \<longleftrightarrow> (\<forall>j \<in> set (queued_jobs d). \<not> claimable locked j)"
  by (simp add: next_accepted_job_def filter_empty_conv)

subsection \<open>The compile handler\<close>

lemma keeps_identity_compile [simp]: "keeps_identity (complete_compile clk p)"
  by (simp add: keeps_identity_def complete_compile_def)

lemma fold_alias_queue [simp]: "queued_jobs (fold (\<lambda>a. upd_alias (ia_id a) f) as d) = queued_jobs d"
  by (simp add: fold_upd_alias)

lemma disable_aliases_queue:
  "disable_aliases_from_compiler_decisions now ids sn reason s = (x, s1) \<Longrightarrow>
    queued_jobs (working s1) = queued_jobs (working s)"
  by (auto simp: disable_aliases_from_compiler_decisions_def Let_def split: if_splits)

lemma enable_aliases_queue:
  "enable_aliases_from_compiler_decisions ids s = (x, s1) \<Longrightarrow>
    queued_jobs (working s1) = queued_jobs (working s)"
  by (auto simp: enable_aliases_from_compiler_decisions_def Let_def split: if_splits)

lemma pause_jobs_queue:
  "pause_published_jobs_by_ids ids sn reason False s = (x, s1) \<Longrightarrow>
    queued_jobs (working s1) = queued_jobs (working s)"
  by (auto simp: pause_published_jobs_by_ids_def fold_upd_published_job Let_def split: if_splits option.splits)

lemma resume_jobs_queue:
  "resume_published_jobs_by_ids ids False s = (x, s1) \<Longrightarrow>
    queued_jobs (working s1) = queued_jobs (working s)"
  by (auto simp: resume_published_jobs_by_ids_def fold_upd_published_job Let_def split: if_splits)

lemma cascades_queue:
  assumes "apply_reconciliation_cascades w now r s = (Inr c, s')"
  shows "clean s' \<and> queued_jobs (working s') = queued_jobs (working s)"
  using assms
  by (auto simp: apply_reconciliation_cascades_def Let_def dest!: disable_aliases_queue
      enable_aliases_queue pause_jobs_queue resume_jobs_queue split: sum.splits prod.splits if_splits)

lemma compile_mark_failed_closes:
  assumes "queued_jobs (committed s2) = queued_jobs (working s1)"
  shows "closes_row i s1 (compile_mark_failed clk i m s2)"
  by (rule closes_rowI [where f = "close_queued FAILED clk m"])
    (simp_all add: compile_mark_failed_def close_queued_closed assms)

lemma complete_compile_closes:
  assumes "queued_jobs (working s2) = queued_jobs (working s1)"
  shows "closes_row i s1 (commit (modify (upd_job i (complete_compile clk p)) s2))"
  by (rule closes_rowI [where f = "complete_compile clk p"]) (simp_all add: complete_compile_def assms)

lemma asset_compile_handler:
  assumes "\<And>u. keeps_queue (compile u)"
  shows "job_handler (asset_compile_job compile cascades clk) t cid"
proof
  fix i s job r s'
  assume cl: "clean s" and job: "get_job i (working s) = Some job"
    and run: "asset_compile_job compile cascades clk i s = (r, s')"
  let ?s1 = "commit (modify (upd_job i (start_queued clk)) s)"
  have start: "row_change i (queued_jobs (working s)) (queued_jobs (working ?s1))"
    by simp (rule row_change_upd, simp)
  have "r = Inr () \<and> (closes_row i s s' \<or> closes_row i ?s1 s')"
  proof (cases "as_str (dget (qj_payload job) ''snapshot_id'')")
    case None
    then show ?thesis
      using job run compile_mark_failed_closes [of s s] cl by (auto simp: asset_compile_job_def clean_def)
  next
    case snap: (Some v)
    show ?thesis
    proof (cases "parse_uuid_str v")
      case None
      then show ?thesis
        using job run snap compile_mark_failed_closes [of ?s1 ?s1] by (auto simp: asset_compile_job_def)
    next
      case (Some u)
      obtain x s2 where comp: "compile u ?s1 = (x, s2)" by fastforce
      have q: "queued_jobs (working s2) = queued_jobs (working ?s1)"
        "queued_jobs (committed s2) = queued_jobs (working ?s1)"
        using keeps_queueD [OF assms comp] keeps_queue_committed [OF assms comp] by simp_all
      show ?thesis
      proof (cases x)
        case (Inl e)
        then show ?thesis
          using job run snap Some comp compile_mark_failed_closes [OF q(2)]
          by (auto simp: asset_compile_job_def)
      next
        case (Inr res)
        show ?thesis
        proof (cases cascades)
          case None
          then show ?thesis
            using job run snap Some comp Inr complete_compile_closes [OF q(1)]
            by (auto simp: asset_compile_job_def)
        next
          case w: (Some w)
          obtain c s3 where ca: "apply_reconciliation_cascades w (clk 6) res s2 = (Inr c, s3)"
            using cascades_never_raise by blast
          then show ?thesis
            using job run snap Some comp Inr w complete_compile_closes [of s3 ?s1] cascades_queue [OF ca] q(1)
            by (auto simp: asset_compile_job_def)
        qed
      qed
    qed
  qed
  then show "r = Inr () \<and> clean s' \<and> handled t cid i (queued_jobs (working s)) (queued_jobs (working s'))"
    using settled_handler [OF start] settled_handler [OF row_change_refl] by blast
qed

subsection \<open>Draining the queue\<close>

text \<open>The work in a queue: what its accepted jobs can still cause.\<close>

definition job_work :: "queued_job \<Rightarrow> nat" where
  "job_work j = (if qj_status j = ACCEPTED then job_rank (qj_job_type j) else 0)"

definition pending_work :: "queued_job list \<Rightarrow> nat" where
  "pending_work qs = sum_list (map job_work qs)"

definition running_ids :: "queued_job list \<Rightarrow> uuid set" where
  "running_ids qs = qj_id ` {j \<in> set qs. qj_status j = RUNNING}"

lemma sum_list_one_less:
  fixes w w' :: "'a \<Rightarrow> nat"
  assumes "x \<in> set xs" "w' x + k \<le> w x" "\<And>y. y \<in> set xs \<Longrightarrow> w' y \<le> w y"
  shows "sum_list (map w' xs) + k \<le> sum_list (map w xs)"
proof -
  obtain as bs where xs: "xs = as @ x # bs" using assms(1) by (meson split_list)
  have "sum_list (map w' as) \<le> sum_list (map w as)" "sum_list (map w' bs) \<le> sum_list (map w bs)"
    using assms(3) by (auto simp: xs intro!: sum_list_mono)
  then show ?thesis using assms(2) by (simp add: xs)
qed

lemma pending_work_extra:
  "pending_work (ps @ extra) \<le> pending_work ps + sum_list (map (job_rank \<circ> qj_job_type) extra)"
  by (auto simp: pending_work_def job_work_def intro!: sum_list_mono)

lemma handled_work:
  assumes "handled (qj_job_type job) cid (qj_id job) qs qs'" "job \<in> set qs" "qj_status job = ACCEPTED"
  shows "pending_work qs' < pending_work qs"
proof -
  let ?i = "qj_id job"
  obtain ps extra where q: "qs' = ps @ extra" "row_change ?i qs ps" "settled ?i ps"
    "sum_list (map (job_rank \<circ> qj_job_type) extra) < job_rank (qj_job_type job)"
    using assms(1) by (auto simp: handled_def)
  obtain f where f: "keeps_identity f" "ps = upd_row qj_id ?i f qs" using q(2) by (auto simp: row_change_def)
  let ?g = "\<lambda>j. if qj_id j = ?i then f j else j"
  have ps: "ps = map ?g qs" by (simp add: f(2) upd_row_def)
  have closed: "job_work (?g j) = 0" if "j \<in> set qs" "qj_id j = ?i" for j
    using that q(3) f(1) by (auto simp: settled_def ps job_work_def open_status_def keeps_identity_def)
  have "sum_list (map (job_work \<circ> ?g) qs) + job_rank (qj_job_type job) \<le> sum_list (map job_work qs)"
  proof (rule sum_list_one_less [OF assms(2)])
    show "(job_work \<circ> ?g) job + job_rank (qj_job_type job) \<le> job_work job"
      using closed [OF assms(2)] assms(3) by (simp add: job_work_def)
    show "(job_work \<circ> ?g) j \<le> job_work j" if "j \<in> set qs" for j
      using closed [OF that] by simp
  qed
  then have "pending_work ps + job_rank (qj_job_type job) \<le> pending_work qs"
    by (simp add: pending_work_def ps)
  then show ?thesis using pending_work_extra [of ps extra] q(1,4) by simp
qed

lemma handled_running:
  assumes "handled t cid i qs qs'"
  shows "running_ids qs' \<subseteq> running_ids qs"
proof -
  obtain ps extra f where q: "qs' = ps @ extra" "ps = upd_row qj_id i f qs" "keeps_identity f" "settled i ps"
    "\<forall>j \<in> set extra. qj_status j = ACCEPTED"
    using assms by (auto simp: handled_def row_change_def)
  show ?thesis
  proof
    fix k assume "k \<in> running_ids qs'"
    then obtain j where j: "j \<in> set qs'" "qj_status j = RUNNING" "k = qj_id j" by (auto simp: running_ids_def)
    then have jp: "j \<in> set ps" using q(1,5) by auto
    then have "qj_id j \<noteq> i" using q(4) j(2) by (auto simp: settled_def open_status_def)
    then have "j \<in> set qs" using jp q(2,3) by (auto simp: upd_row_def keeps_identity_def split: if_splits)
    then show "k \<in> running_ids qs" using j by (auto simp: running_ids_def)
  qed
qed

lemma skip_unhandled_handled:
  fixes s :: db_session
  shows "handled t cid i (queued_jobs (working s)) (queued_jobs (upd_job i (skip_unhandled clk) (working s)))"
proof -
  have "closes_row i s (commit (modify (upd_job i (skip_unhandled clk)) s))"
    by (rule closes_rowI [where f = "skip_unhandled clk"])
      (simp_all add: keeps_identity_def skip_unhandled_def)
  from settled_handler [OF row_change_refl this] show ?thesis by simp
qed

lemma job_rank_nonzero [simp]: "job_rank t \<noteq> 0"
  by (simp add: job_rank_def)

lemma no_pending_work: "pending_work (queued_jobs d) = 0 \<Longrightarrow> next_accepted_job locked d = None"
  by (auto simp: pending_work_def job_work_def next_accepted_job_None claimable_def dest!: bspec split: if_splits)

locale worker_env =
  fixes env :: "nat \<Rightarrow> round_env" and ids :: "nat \<Rightarrow> uuid"
  assumes handlers: "map_of (rd_handlers (env n)) t = Some h \<Longrightarrow> job_handler h t (ids n)"
    and alone: "rd_locked (env n) = []"
begin

lemma round_progress:
  assumes "clean s" "ids n \<notin> qj_id ` set (queued_jobs (working s))"
    and "next_accepted_job [] (working s) \<noteq> None" "run_round (env n) s = (b, s')"
  shows "clean s' \<and> pending_work (queued_jobs (working s')) < pending_work (queued_jobs (working s)) \<and>
    qj_id ` set (queued_jobs (working s')) \<subseteq> insert (ids n) (qj_id ` set (queued_jobs (working s))) \<and>
    running_ids (queued_jobs (working s')) \<subseteq> running_ids (queued_jobs (working s))"
proof -
  obtain job where job: "next_accepted_job [] (working s) = Some job" using assms(3) by blast
  note j = next_accepted_job_Some [OF job]
  have fresh: "qj_id job \<noteq> ids n" using j(1) assms(2) by (metis imageI)
  obtain job' where get: "get_job (qj_id job) (working s) = Some job'"
    using j(1) by (cases "get_job (qj_id job) (working s)") (auto simp: get_job_def find_row_None_iff)
  have "clean s' \<and> handled (qj_job_type job) (ids n) (qj_id job) (queued_jobs (working s)) (queued_jobs (working s'))"
  proof (cases "map_of (rd_handlers (env n)) (qj_job_type job)")
    case None
    then show ?thesis
      using assms(4) job skip_unhandled_handled by (auto simp: run_round_def run_once_def alone)
  next
    case (Some h)
    obtain r s1 where h: "h (qj_id job) s = (r, s1)" by fastforce
    note st = job_handler.settles [OF handlers [OF Some] assms(1) get fresh h]
    then have "s' = s1" using assms(4) job Some h by (auto simp: run_round_def run_once_def alone)
    then show ?thesis using st by simp
  qed
  then show ?thesis
    using handled_work j(1,2) handled_ids handled_running by blast
qed

lemma rounds_progress:
  assumes "clean s" "inj_on ids {..<w}" "ids ` {..<w} \<inter> qj_id ` set (queued_jobs (working s)) = {}"
    and "n \<le> w" "\<forall>m < n. next_accepted_job [] (working (after_rounds env m s)) \<noteq> None"
  shows "clean (after_rounds env n s) \<and>
    pending_work (queued_jobs (working (after_rounds env n s))) + n \<le> pending_work (queued_jobs (working s)) \<and>
    qj_id ` set (queued_jobs (working (after_rounds env n s))) \<subseteq>
      ids ` {..<n} \<union> qj_id ` set (queued_jobs (working s)) \<and>
    running_ids (queued_jobs (working (after_rounds env n s))) \<subseteq> running_ids (queued_jobs (working s))"
  using assms(4,5)
proof (induction n)
  case 0
  then show ?case using assms(1) by simp
next
  case (Suc n)
  let ?s = "after_rounds env n s"
  have IH: "clean ?s" "pending_work (queued_jobs (working ?s)) + n \<le> pending_work (queued_jobs (working s))"
    "qj_id ` set (queued_jobs (working ?s)) \<subseteq> ids ` {..<n} \<union> qj_id ` set (queued_jobs (working s))"
    "running_ids (queued_jobs (working ?s)) \<subseteq> running_ids (queued_jobs (working s))"
    using Suc.IH Suc.prems by auto
  have fresh: "ids n \<notin> qj_id ` set (queued_jobs (working ?s))"
  proof
    assume "ids n \<in> qj_id ` set (queued_jobs (working ?s))"
    moreover have "ids n \<in> ids ` {..<w}" using Suc.prems(1) by simp
    then have "ids n \<notin> qj_id ` set (queued_jobs (working s))" using assms(3) by blast
    ultimately have "ids n \<in> ids ` {..<n}" using IH(3) by blast
    then obtain m where "m < n" "ids m = ids n" by auto
    then show False using inj_onD [OF assms(2)] Suc.prems(1) by fastforce
  qed
  obtain b s' where r: "run_round (env n) ?s = (b, s')" by fastforce
  from round_progress [OF IH(1) fresh _ r] Suc.prems
  have "clean s'" "pending_work (queued_jobs (working s')) < pending_work (queued_jobs (working ?s))"
    "qj_id ` set (queued_jobs (working s')) \<subseteq> insert (ids n) (qj_id ` set (queued_jobs (working ?s)))"
    "running_ids (queued_jobs (working s')) \<subseteq> running_ids (queued_jobs (working ?s))"
    by auto
  moreover from this(3) have "qj_id ` set (queued_jobs (working s')) \<subseteq>
      ids ` {..<Suc n} \<union> qj_id ` set (queued_jobs (working s))"
    using IH(3) unfolding lessThan_Suc image_insert by blast
  ultimately show ?case using IH r by auto
qed

lemma drains:
  assumes "clean s" "inj_on ids {..<pending_work (queued_jobs (working s))}"
    and "ids ` {..<pending_work (queued_jobs (working s))} \<inter> qj_id ` set (queued_jobs (working s)) = {}"
  shows "\<exists>n \<le> pending_work (queued_jobs (working s)).
    next_accepted_job [] (working (after_rounds env n s)) = None \<and>
    (\<forall>m < n. next_accepted_job [] (working (after_rounds env m s)) \<noteq> None) \<and>
    clean (after_rounds env n s) \<and>
    running_ids (queued_jobs (working (after_rounds env n s))) \<subseteq> running_ids (queued_jobs (working s))"
proof -
  let ?P = "\<lambda>n. next_accepted_job [] (working (after_rounds env n s)) = None"
  let ?w = "pending_work (queued_jobs (working s))"
  have "\<exists>n \<le> ?w. ?P n"
  proof (cases "\<forall>m < ?w. \<not> ?P m")
    case True
    then have "pending_work (queued_jobs (working (after_rounds env ?w s))) = 0"
      using rounds_progress [OF assms order_refl] by simp
    then show ?thesis using no_pending_work by blast
  next
    case False
    then obtain m where "m < ?w" "?P m" by blast
    then show ?thesis by (intro exI [of _ m]) simp
  qed
  then obtain k where k: "k \<le> ?w" "?P k" by blast
  define n where "n = (LEAST n. ?P n)"
  have "n \<le> k" unfolding n_def by (rule Least_le) (rule k(2))
  moreover have "?P n" unfolding n_def by (rule LeastI) (rule k(2))
  moreover have "\<forall>m < n. \<not> ?P m" unfolding n_def by (intro allI impI not_less_Least)
  ultimately have n: "n \<le> ?w" "?P n" "\<forall>m < n. \<not> ?P m" using k(1) by simp_all
  from rounds_progress [OF assms n(1,3)] show ?thesis using n by blast
qed

end

subsection \<open>The worker of the application\<close>

text \<open>
  What the draining of a worker relies on: its auth, crawler and compiler services leave the queue
  alone, its runner is the runner service, and its probe feedback leaves the jobs alone.
\<close>

definition services_leave_queue :: "worker_services \<Rightarrow> bool" where
  "services_leave_queue ws \<longleftrightarrow>
     (\<forall>refresh u. ws_auth ws = Some refresh \<longrightarrow> keeps_queue (refresh u)) \<and>
     (\<forall>crawl u scope. ws_crawler ws = Some crawl \<longrightarrow> keeps_queue (crawl u scope)) \<and>
     (\<forall>compile u. ws_compiler ws = Some compile \<longrightarrow> keeps_queue (compile u)) \<and>
     (\<forall>r. ws_runner ws = Some r \<longrightarrow>
        (\<exists>envs e. r = (\<lambda>n. run_page_check (envs n), run_realtime_probe e))) \<and>
     (\<forall>w persist plan run t s. ws_control_plane ws = Some (w, persist) \<longrightarrow> jobs_at t s \<longrightarrow>
        jobs_at t (snd (persist plan run s)))"

lemma build_worker_handlers_settle:
  assumes "services_leave_queue ws" "map_of (build_worker_handlers ws clk stamp cid) t = Some h"
  shows "job_handler h t cid"
proof -
  have runner: "job_handler (run_check_job p q (map_option snd (ws_control_plane ws)) clk) t' cid"
    if given: "ws_runner ws = Some (p, q)" for p q t'
  proof -
    obtain envs e where r: "p = (\<lambda>n. run_page_check (envs n))" "q = run_realtime_probe e"
      using assms(1) given unfolding services_leave_queue_def by blast
    have "check_runner p q (map_option snd (ws_control_plane ws))"
      unfolding r using assms(1)
      by (intro service_with_feedback) (auto simp: services_leave_queue_def)
    then show ?thesis by (rule run_check_handler)
  qed
  have opt: "x \<in> set (case w of None \<Rightarrow> [] | Some f \<Rightarrow> [g f]) \<longleftrightarrow> (\<exists>f. w = Some f \<and> x = g f)"
    for x :: "string \<times> handler" and w :: "'x option" and g
    by (cases w) auto
  have prod: "(case w of None \<Rightarrow> [] | Some (p, q) \<Rightarrow> [k p q]) =
      (case w of None \<Rightarrow> [] | Some r \<Rightarrow> [case r of (p, q) \<Rightarrow> k p q])" for w :: "('x \<times> 'y) option" and k :: "'x \<Rightarrow> 'y \<Rightarrow> string \<times> handler"
    by (cases w) auto
  from map_of_SomeD [OF assms(2)] consider
      f where "ws_auth ws = Some f" "h = auth_refresh_job f clk"
    | f where "ws_crawler ws = Some f" "t = CRAWL_JOB_TYPE" "h = crawl_job f clk stamp cid"
    | f where "ws_compiler ws = Some f" "h = asset_compile_job f (map_option fst (ws_control_plane ws)) clk"
    | p q where "ws_runner ws = Some (p, q)"
        "h = run_check_job p q (map_option snd (ws_control_plane ws)) clk"
    unfolding build_worker_handlers_def set_append Un_iff prod opt by auto
  then show ?thesis
  proof cases
    case 1
    then have "keeps_queue (f u)" for u using assms(1) by (simp add: services_leave_queue_def)
    then show ?thesis using 1 auth_refresh_handler by simp
  next
    case 2
    then have "keeps_queue (f u sc)" for u sc using assms(1) by (simp add: services_leave_queue_def)
    then show ?thesis using 2 crawl_handler by simp
  next
    case 3
    then have "keeps_queue (f u)" for u using assms(1) by (simp add: services_leave_queue_def)
    then show ?thesis using 3 asset_compile_handler by simp
  next
    case 4
    then show ?thesis using runner by blast
  qed
qed

text \<open>The rounds of a worker that is the only one.\<close>

definition worker_rounds ::
  "(nat \<Rightarrow> worker_services) \<Rightarrow> (nat \<Rightarrow> clock) \<Rightarrow> (nat \<Rightarrow> uuid \<Rightarrow> datetime) \<Rightarrow> (nat \<Rightarrow> uuid) \<Rightarrow> nat \<Rightarrow> round_env" where
  "worker_rounds ws clk stamp ids n =
     \<lparr>rd_handlers = build_worker_handlers (ws n) (clk n) (stamp n) (ids n), rd_clock = clk n,
      rd_locked = [], rd_others = id\<rparr>"

lemma worker_rounds_env:
  assumes "\<forall>n. services_leave_queue (ws n)"
  shows "worker_env (worker_rounds ws clk stamp ids) ids"
proof (rule worker_env.intro)
  show "job_handler h t (ids n)" if "map_of (rd_handlers (worker_rounds ws clk stamp ids n)) t = Some h" for n t h
    using build_worker_handlers_settle [OF assms [rule_format]] that by (simp add: worker_rounds_def)
  show "rd_locked (worker_rounds ws clk stamp ids n) = []" for n by (simp add: worker_rounds_def)
qed

text \<open>A worker whose runner is the runner service and that has no other service.\<close>

definition check_worker :: "(nat \<Rightarrow> run_env) \<Rightarrow> run_env \<Rightarrow> worker_services" where
  "check_worker envs e =
     \<lparr>ws_auth = None, ws_crawler = None, ws_compiler = None, ws_control_plane = None,
      ws_runner = Some (\<lambda>n. run_page_check (envs n), run_realtime_probe e)\<rparr>"

lemma check_worker_ok: "services_leave_queue (check_worker envs e)"
  by (auto simp: services_leave_queue_def check_worker_def)

interpretation checks: worker_env "worker_rounds (\<lambda>n. check_worker (envs n) (e n)) clk stamp ids" ids
  for envs e clk stamp ids
  by (rule worker_rounds_env) (simp add: check_worker_ok)

text \<open>C19: a single worker drains its queue. If the keys it gives to new jobs are fresh and its services
  leave the queue alone, then after finitely many rounds, at most two for each accepted crawl and
  one for each other accepted job, no accepted job is left, each round before that found one, and
  only jobs that were running before the worker started are still running.\<close>

theorem worker_drains_queue:
  assumes "\<forall>n. services_leave_queue (ws n)" "clean s"
    and "inj_on ids {..<pending_work (queued_jobs (working s))}"
    and "ids ` {..<pending_work (queued_jobs (working s))} \<inter> qj_id ` set (queued_jobs (working s)) = {}"
  shows "\<exists>n \<le> pending_work (queued_jobs (working s)).
    (let env = worker_rounds ws clk stamp ids; s' = after_rounds env n s
     in (\<forall>j \<in> set (queued_jobs (committed s')). qj_status j \<noteq> ACCEPTED) \<and>
        (\<forall>m < n. fst (run_round (env m) (after_rounds env m s))) \<and>
        running_ids (queued_jobs (committed s')) \<subseteq> running_ids (queued_jobs (working s)))"
proof -
  let ?env = "worker_rounds ws clk stamp ids"
  have loc: "worker_env ?env ids" using worker_rounds_env [OF assms(1)] .
  from worker_env.drains [OF loc assms(2-4)] obtain n where n:
    "n \<le> pending_work (queued_jobs (working s))" "next_accepted_job [] (working (after_rounds ?env n s)) = None"
    "\<forall>m < n. next_accepted_job [] (working (after_rounds ?env m s)) \<noteq> None"
    "running_ids (queued_jobs (working (after_rounds ?env n s))) \<subseteq> running_ids (queued_jobs (working s))"
    "clean (after_rounds ?env n s)"
    by blast
  from n(5) have c: "committed (after_rounds ?env n s) = working (after_rounds ?env n s)" by (simp add: clean_def)
  have found: "fst (run_round (?env m) (after_rounds ?env m s))" if "m < n" for m
    using n(3) that by (auto simp: run_round_def run_once_def worker_rounds_def split: option.splits sum.splits prod.splits)
  have "\<forall>j \<in> set (queued_jobs (working (after_rounds ?env n s))). qj_status j \<noteq> ACCEPTED"
    using n(2) by (auto simp: next_accepted_job_None claimable_def)
  then show ?thesis using n(1,4) found c by (intro exI [of _ n]) (simp add: Let_def)
qed

definition sample_services :: worker_services where
  "sample_services =
     (check_worker (\<lambda>_. sample_env ok_browser) (sample_env ok_browser))
       \<lparr>ws_crawler := Some (\<lambda>_ _ s. (Inr \<lparr>cw_status = ''success'', cw_snapshot_id = Some 7, cw_message = None\<rparr>, s)),
        ws_compiler := Some (\<lambda>_ s. (Inl (OtherException ''boom''), s))\<rparr>"

lemma sample_services_ok: "services_leave_queue sample_services"
  by (auto simp: services_leave_queue_def sample_services_def check_worker_def keeps_queue_def clean_def)

theorem worker_drains_queue_witness:
  "\<exists>n \<le> 2. \<forall>j \<in> set (queued_jobs (committed (after_rounds
     (worker_rounds (\<lambda>_. sample_services) (\<lambda>_ _. datetime_min_utc) (\<lambda>_ _. datetime_min_utc) of_nat) n
     (open_session (empty_db\<lparr>queued_jobs :=
        [new_queued_job 9 datetime_min_utc CRAWL_JOB_TYPE []]\<rparr>))))). qj_status j \<noteq> ACCEPTED"
proof -
  let ?s = "open_session (empty_db\<lparr>queued_jobs := [new_queued_job 9 datetime_min_utc CRAWL_JOB_TYPE []]\<rparr>)"
  have w: "pending_work (queued_jobs (working ?s)) = 2"
    by (simp add: pending_work_def job_work_def new_queued_job_def job_rank_def)
  have fresh: "inj_on of_nat {..<2::nat}" "of_nat ` {..<2::nat} \<inter> qj_id ` set (queued_jobs (working ?s)) = {}"
    by (auto simp: new_queued_job_def less_2_cases_iff inj_on_def)
  show ?thesis
    using worker_drains_queue [of "\<lambda>_. sample_services" ?s of_nat] sample_services_ok fresh
    unfolding w by (fastforce simp: Let_def)
qed

subsection \<open>One round\<close>

text \<open>A job row closed by the worker: its state, when it ended and why; what was asked stays.\<close>

definition ended_with :: "queued_job_status \<Rightarrow> string \<Rightarrow> queued_job \<Rightarrow> queued_job \<Rightarrow> bool" where
  "ended_with st message j j' \<longleftrightarrow> qj_status j' = st \<and> qj_failure_message j' = Some message \<and>
     qj_started_at j' \<noteq> None \<and> qj_finished_at j' \<noteq> None \<and>
     (qj_id j', qj_job_type j', qj_payload j', qj_created_at j') =
       (qj_id j, qj_job_type j, qj_payload j, qj_created_at j)"

lemma round_of_job:
  assumes "next_accepted_job locked (working s) = Some job"
  shows "(case map_of handlers (qj_job_type job) of
      None \<Rightarrow> \<exists>f. snd (run_once handlers clk locked s) = commit (modify (upd_job (qj_id job) f) s) \<and>
        (\<forall>j. ended_with SKIPPED (''no handler registered for job type: '' @ qj_job_type j) j (f j))
    | Some h \<Rightarrow>
        (case h (qj_id job) s of
           (Inr u, s1) \<Rightarrow> snd (run_once handlers clk locked s) = s1
         | (Inl exc, s1) \<Rightarrow>
             \<exists>f. snd (run_once handlers clk locked s) = commit (modify (upd_job (qj_id job) f) s1) \<and>
               (\<forall>j. ended_with FAILED (''handler crashed: '' @ exc) j (f j))))"
proof -
  have skip: "\<forall>j. ended_with SKIPPED (''no handler registered for job type: '' @ qj_job_type j) j (skip_unhandled clk j)"
    by (simp add: ended_with_def skip_unhandled_def)
  have crash: "\<forall>j. ended_with FAILED (''handler crashed: '' @ m) j (crash_job clk m j)" for m
    by (simp add: ended_with_def crash_job_def)
  show ?thesis
    using skip crash assms by (auto simp: run_once_def split: option.splits sum.splits prod.splits)
qed

text \<open>C20: a round handles a job exactly when an accepted job is queued that no other worker has locked:
  the oldest such job, the one with the smaller key among equally old ones. It leaves the session to
  the handler registered for the job's type; without one the job is skipped, and when the handler
  raises the job fails, in each case with the reason on its row. Otherwise the round reports that it
  handled nothing and leaves the session alone.\<close>

theorem round_takes_oldest_job:
  "if \<exists>j \<in> set (queued_jobs (working s)). qj_status j = ACCEPTED \<and> qj_id j \<notin> set locked then
     \<exists>job \<in> set (queued_jobs (working s)). qj_status job = ACCEPTED \<and> qj_id job \<notin> set locked \<and>
       (\<forall>j \<in> set (queued_jobs (working s)). qj_status j = ACCEPTED \<longrightarrow> qj_id j \<in> set locked \<or>
          instant (qj_created_at job) < instant (qj_created_at j) \<or>
          instant (qj_created_at job) = instant (qj_created_at j) \<and> qj_id job \<le> qj_id j) \<and>
       fst (run_once handlers clk locked s) \<and>
       (case map_of handlers (qj_job_type job) of
          None \<Rightarrow> \<exists>f. snd (run_once handlers clk locked s) = commit (modify (upd_job (qj_id job) f) s) \<and>
            (\<forall>j. ended_with SKIPPED (''no handler registered for job type: '' @ qj_job_type j) j (f j))
        | Some h \<Rightarrow>
            (case h (qj_id job) s of
               (Inr u, s1) \<Rightarrow> snd (run_once handlers clk locked s) = s1
             | (Inl exc, s1) \<Rightarrow>
                 \<exists>f. snd (run_once handlers clk locked s) = commit (modify (upd_job (qj_id job) f) s1) \<and>
                   (\<forall>j. ended_with FAILED (''handler crashed: '' @ exc) j (f j))))
   else run_once handlers clk locked s = (False, s)"
proof (cases "next_accepted_job locked (working s)")
  case None
  then show ?thesis
    unfolding next_accepted_job_None by (auto simp: run_once_def claimable_def next_accepted_job_None None)
next
  case (Some job)
  note j = next_accepted_job_Some [OF Some]
  have least: "claim_order job \<le> claim_order j"
    if "j \<in> set (queued_jobs (working s))" "claimable locked j" for j
    using first_by_Some(2) [OF Some [unfolded next_accepted_job_def]] that by simp
  then have "instant (qj_created_at job) < instant (qj_created_at j) \<or>
      instant (qj_created_at job) = instant (qj_created_at j) \<and> qj_id job \<le> qj_id j"
    if "j \<in> set (queued_jobs (working s))" "claimable locked j" for j
    using least [OF that] by (auto simp: claim_order_def word_le_def)
  then have old: "\<forall>j \<in> set (queued_jobs (working s)). qj_status j = ACCEPTED \<longrightarrow> qj_id j \<in> set locked \<or>
      instant (qj_created_at job) < instant (qj_created_at j) \<or>
      instant (qj_created_at job) = instant (qj_created_at j) \<and> qj_id job \<le> qj_id j"
    by (auto simp: claimable_def)
  have "fst (run_once handlers clk locked s)"
    using Some by (simp add: run_once_def split: option.splits sum.splits prod.splits)
  moreover note round_of_job [OF Some, of handlers clk]
  moreover have "\<exists>j \<in> set (queued_jobs (working s)). qj_status j = ACCEPTED \<and> qj_id j \<notin> set locked"
    using j by blast
  ultimately show ?thesis using j old by auto
qed

theorem round_takes_oldest_job_witness:
  "fst (run_once [] (\<lambda>_. datetime_min_utc) []
     (open_session (empty_db\<lparr>queued_jobs := [new_queued_job 9 datetime_min_utc CRAWL_JOB_TYPE []]\<rparr>)))"
  using round_takes_oldest_job [where handlers = "[]" and clk = "\<lambda>_. datetime_min_utc" and locked = "[]" and
      s = "open_session (empty_db\<lparr>queued_jobs := [new_queued_job 9 datetime_min_utc CRAWL_JOB_TYPE []]\<rparr>)"]
  by (simp add: new_queued_job_def)


text \<open>The claim statement has no limit and locks every row it returns, so while the transaction of
  one worker that claimed a job is open, another worker finds no accepted job at all.\<close>

theorem open_claim_starves_other_workers:
  "next_accepted_job (rows_locked_by_claim locked d @ locked) d = None"
  by (auto simp: next_accepted_job_None rows_locked_by_claim_def claimable_def)

subsection \<open>Stopping\<close>

lemma run_forever_stops:
  assumes "\<And>i j. i \<le> j \<Longrightarrow> stop i \<Longrightarrow> stop j" "stop (2 * n + 2 * k)"
  shows "\<exists>s'. run_forever env stop n s = Some s'"
  using assms(2)
proof (induction k arbitrary: n s)
  case 0
  then show ?case by (subst run_forever.simps) simp
next
  case (Suc k)
  have "stop (2 * Suc n + 2 * k)" using Suc.prems by simp
  note IH = Suc.IH [OF this]
  show ?case
    by (subst run_forever.simps) (auto simp: Let_def split: prod.splits intro: IH)
qed

lemma run_forever_stopped: "run_forever env stop n s = Some s' \<Longrightarrow> \<exists>i. stop i"
  by (rule run_forever.raw_induct [where P = "\<lambda>env stop n s y. \<exists>i. stop i"])
    (auto simp: Let_def split: if_splits prod.splits)

text \<open>The loop of a worker, whose stop event stays set once it is set, returns if and only if the event
  is set at some time, whatever the handlers do and however the queue changes meanwhile; a worker
  without stop event never returns.\<close>

theorem worker_loop_returns_iff_stopped:
  assumes "\<And>i j. i \<le> j \<Longrightarrow> stop i \<Longrightarrow> stop j"
  shows "(\<exists>s'. run_forever env stop 0 s = Some s') \<longleftrightarrow> (\<exists>i. stop i)"
proof
  assume "\<exists>i. stop i"
  then obtain i where "stop i" by blast
  then have "stop (2 * 0 + 2 * i)" using assms [of i "2 * i"] by simp
  then show "\<exists>s'. run_forever env stop 0 s = Some s'" using run_forever_stops assms by blast
qed (auto dest: run_forever_stopped)

theorem worker_loop_returns_iff_stopped_witness:
  "\<exists>s'. run_forever (worker_rounds (\<lambda>_. sample_services) (\<lambda>_ _. datetime_min_utc) (\<lambda>_ _. datetime_min_utc) of_nat)
     (\<lambda>i. 5 \<le> i) 0 (open_session empty_db) = Some s'"
  using worker_loop_returns_iff_stopped [of "\<lambda>i. 5 \<le> i"] by auto

end
