(* ===== verification/PyData.thy ===== *)
theory PyData
  imports PyValue "HOL-Library.Multiset"
begin

section \<open>Dictionaries in insertion order, iteration and loops that raise\<close>

text \<open>
  A Python \<open>dict\<close> built by a comprehension or by \<open>setdefault(k, []).append(v)\<close> is an association
  list in insertion order. Iterating over a value that a payload holds may raise \<open>TypeError\<close>: the
  error is its message, on the left of a sum.
\<close>

definition dict_of :: "('k \<times> 'v) list \<Rightarrow> ('k \<times> 'v) list" where
  "dict_of kvs = fold (\<lambda>(k, v). AList.update k v) kvs []"

definition append_at :: "'k \<Rightarrow> 'v \<Rightarrow> ('k \<times> 'v list) list \<Rightarrow> ('k \<times> 'v list) list" where
  "append_at k v d = AList.update k ((case map_of d k of None \<Rightarrow> [] | Some vs \<Rightarrow> vs) @ [v]) d"

definition group_by :: "('k \<times> 'v) list \<Rightarrow> ('k \<times> 'v list) list" where
  "group_by kvs = fold (\<lambda>(k, v). append_at k v) kvs []"

definition values_at :: "('k \<times> 'v list) list \<Rightarrow> 'k \<Rightarrow> 'v list" where
  "values_at d k = (case map_of d k of None \<Rightarrow> [] | Some vs \<Rightarrow> vs)"

lemma map_of_fold_update:
  "map_of (fold (\<lambda>(k, v). AList.update k v) kvs d) = map_of d ++ map_of (rev kvs)"
  by (induction kvs arbitrary: d) (auto simp: update_conv' map_add_def fun_eq_iff split: option.splits)

lemma map_of_dict_of [simp]: "map_of (dict_of kvs) = map_of (rev kvs)"
  by (simp add: dict_of_def map_of_fold_update)

lemma map_of_dict_of_distinct: "distinct (map fst kvs) \<Longrightarrow> map_of (dict_of kvs) = map_of kvs"
proof -
  assume d: "distinct (map fst kvs)"
  have "distinct (map fst (rev kvs))" by (simp only: rev_map [symmetric] distinct_rev d)
  then show ?thesis using d map_of_inject_set by (metis map_of_dict_of set_rev)
qed

lemma values_at_append_at:
  "values_at (append_at k v d) k' = (if k = k' then values_at d k @ [v] else values_at d k')"
  by (simp add: values_at_def append_at_def update_conv')

lemma keys_append_at: "fst ` set (append_at k v d) = insert k (fst ` set d)"
  by (simp add: append_at_def AList.dom_update)

lemma distinct_append_at: "distinct (map fst d) \<Longrightarrow> distinct (map fst (append_at k v d))"
  by (simp add: append_at_def distinct_update)

lemma group_by_fold:
  assumes "distinct (map fst d)"
  shows "distinct (map fst (fold (\<lambda>(k, v). append_at k v) kvs d)) \<and>
    fst ` set (fold (\<lambda>(k, v). append_at k v) kvs d) = fst ` set d \<union> fst ` set kvs \<and>
    values_at (fold (\<lambda>(k, v). append_at k v) kvs d) k = values_at d k @ map snd (filter (\<lambda>kv. fst kv = k) kvs)"
  using assms
proof (induction kvs arbitrary: d)
  case (Cons kv kvs)
  obtain k' v where kv: "kv = (k', v)" by fastforce
  from Cons.IH [OF distinct_append_at [OF Cons.prems, of k' v]] show ?case
    by (auto simp: kv keys_append_at values_at_append_at)
qed simp

lemma values_at_group_by [simp]: "values_at (group_by kvs) k = map snd (filter (\<lambda>kv. fst kv = k) kvs)"
  using group_by_fold [of "[]" kvs k] by (simp add: group_by_def values_at_def)

lemma distinct_group_by [simp]: "distinct (map fst (group_by kvs))"
  using group_by_fold [of "[]" kvs] by (simp add: group_by_def)

lemma keys_group_by [simp]: "fst ` set (group_by kvs) = fst ` set kvs"
  using group_by_fold [of "[]" kvs] by (simp add: group_by_def)

lemma group_by_mem:
  assumes "(k, vs) \<in> set (group_by kvs)"
  shows "vs = map snd (filter (\<lambda>kv. fst kv = k) kvs)"
proof -
  have "map_of (group_by kvs) k = Some vs" using assms by (simp add: map_of_is_SomeI)
  then show ?thesis using values_at_group_by [of kvs k] by (simp add: values_at_def)
qed

subsection \<open>Descending sorts\<close>

text \<open>\<open>sorted(xs, key=key, reverse=True)\<close>: equal keys keep their order.\<close>

definition sort_desc :: "('a \<Rightarrow> 'k :: linorder) \<Rightarrow> 'a list \<Rightarrow> 'a list" where
  "sort_desc key xs = rev (sort_key key (rev xs))"

lemma set_sort_desc [simp]: "set (sort_desc key xs) = set xs"
  by (simp add: sort_desc_def)

lemma length_sort_desc [simp]: "length (sort_desc key xs) = length xs"
  by (simp add: sort_desc_def)

lemma mset_sort_desc [simp]: "mset (sort_desc key xs) = mset xs"
  by (simp add: sort_desc_def)

lemma sort_desc_descending:
  "i \<le> j \<Longrightarrow> j < length xs \<Longrightarrow> key (sort_desc key xs ! j) \<le> key (sort_desc key xs ! i)"
proof -
  assume ij: "i \<le> j" "j < length xs"
  let ?ys = "sort_key key (rev xs)"
  have "sorted (map key ?ys)" by (rule sorted_sort_key)
  then have "key (?ys ! (length xs - 1 - j)) \<le> key (?ys ! (length xs - 1 - i))"
    using ij by (auto simp: sorted_iff_nth_mono)
  then show ?thesis using ij by (simp add: sort_desc_def rev_nth)
qed

text \<open>Sorting is stable in both directions.\<close>

lemma filter_sort_desc: "filter (\<lambda>x. key x = k) (sort_desc key xs) = filter (\<lambda>x. key x = k) xs"
proof -
  have "filter (\<lambda>x. k = key x) (sort_key key ys) = filter (\<lambda>x. k = key x) ys" for ys
    using sort_key_stable [of key k ys] by (simp add: eq_commute)
  then show ?thesis by (simp add: sort_desc_def eq_commute flip: rev_filter)
qed

subsection \<open>Iteration\<close>

text \<open>The characters of a text: a byte with the continuation bytes that follow it.\<close>

definition continuation_byte :: "char \<Rightarrow> bool" where
  "continuation_byte c \<longleftrightarrow> 128 \<le> (of_char c :: nat) \<and> (of_char c :: nat) < 192"

function py_chars :: "string \<Rightarrow> string list" where
  "py_chars [] = []"
| "py_chars (c # cs) =
     (c # takeWhile continuation_byte cs) # py_chars (dropWhile continuation_byte cs)"
  by pat_completeness auto
termination
  by (relation "measure length") (simp_all add: le_imp_less_Suc length_dropWhile_le)

lemma concat_py_chars: "concat (py_chars s) = s"
  by (induction s rule: py_chars.induct) simp_all

definition code_point :: "string \<Rightarrow> nat" where
  "code_point ch =
     (case map of_char ch of
        [a] \<Rightarrow> a
      | [a, b] \<Rightarrow> (a - 192) * 64 + (b - 128)
      | [a, b, c] \<Rightarrow> (a - 224) * 4096 + (b - 128) * 64 + (c - 128)
      | [a, b, c, d] \<Rightarrow> (a - 240) * 262144 + (b - 128) * 4096 + (c - 128) * 64 + (d - 128)
      | _ \<Rightarrow> 0)"

definition code_points :: "string \<Rightarrow> nat list" where
  "code_points s = map code_point (py_chars s)"

definition not_iterable :: "string \<Rightarrow> string" where
  "not_iterable t = [CHR 0x27] @ t @ [CHR 0x27] @ '' object is not iterable''"

fun py_iter :: "pyval \<Rightarrow> string + pyval list" where
  "py_iter PNone = Inl (not_iterable ''NoneType'')"
| "py_iter (PBool b) = Inl (not_iterable ''bool'')"
| "py_iter (PInt i) = Inl (not_iterable ''int'')"
| "py_iter (PFloat x) = Inl (not_iterable ''float'')"
| "py_iter (PStr s) = Inr (map PStr (py_chars s))"
| "py_iter (PList xs) = Inr xs"
| "py_iter (PDict d) = Inr (map (\<lambda>(k, v). PStr k) d)"

text \<open>\<open>d.get(k, default)\<close>.\<close>

definition dget_or :: "pydict \<Rightarrow> string \<Rightarrow> pyval \<Rightarrow> pyval" where
  "dget_or d k v = (case map_of d k of None \<Rightarrow> v | Some w \<Rightarrow> w)"

subsection \<open>Numbers in payloads\<close>

text \<open>\<open>_clean_float\<close> / \<open>_normalize_float\<close> and \<open>_clean_int\<close> / \<open>_normalize_int\<close>: a truth value is no float.\<close>

definition clean_float :: "pyval \<Rightarrow> rat \<Rightarrow> rat" where
  "clean_float v otherwise =
     (case v of PInt i \<Rightarrow> fl (of_int i) | PFloat x \<Rightarrow> x | _ \<Rightarrow> otherwise)"

definition clean_int :: "pyval \<Rightarrow> int" where
  "clean_int v = (case v of PBool b \<Rightarrow> if b then 1 else 0 | PInt i \<Rightarrow> i | _ \<Rightarrow> 0)"

text \<open>\<open>sum(xs)\<close> of floats since Python 3.12: the rounding errors are summed in \<open>c\<close> and added at the end.\<close>

definition sum_step :: "rat \<Rightarrow> rat \<times> rat \<Rightarrow> rat \<times> rat" where
  "sum_step x st =
     (let (total, c) = st; t = fl (total + x) in
      (t, fl (c + (if \<bar>x\<bar> \<le> \<bar>total\<bar> then fl (fl (total - t) + x) else fl (fl (x - t) + total)))))"

definition py_sum :: "rat list \<Rightarrow> rat" where
  "py_sum xs =
     (case xs of [] \<Rightarrow> 0
      | x # ys \<Rightarrow> (let (total, c) = fold sum_step ys (x, 0) in if c = 0 then total else fl (total + c)))"

subsection \<open>Loops whose body may raise\<close>

fun loop_raises :: "('a \<Rightarrow> 's \<Rightarrow> 'e + 's) \<Rightarrow> 'a list \<Rightarrow> 's \<Rightarrow> 'e + 's" where
  "loop_raises body [] s = Inr s"
| "loop_raises body (x # xs) s = (case body x s of Inl e \<Rightarrow> Inl e | Inr s' \<Rightarrow> loop_raises body xs s')"

lemma loop_raises_append:
  "loop_raises body (xs @ ys) s =
     (case loop_raises body xs s of Inl e \<Rightarrow> Inl e | Inr s' \<Rightarrow> loop_raises body ys s')"
  by (induction xs arbitrary: s) (auto split: sum.splits)

lemma loop_raises_ok:
  "(\<And>x s. x \<in> set xs \<Longrightarrow> body x s = Inr (f x s)) \<Longrightarrow> loop_raises body xs s = Inr (fold f xs s)"
  by (induction xs arbitrary: s) simp_all

lemma loop_raises_Inr:
  assumes "loop_raises body xs s = Inr s'" "\<And>x s s'. x \<in> set xs \<Longrightarrow> body x s = Inr s' \<Longrightarrow> s' = f x s"
  shows "s' = fold f xs s \<and> (\<forall>x \<in> set xs. \<exists>s t. body x s = Inr t)"
  using assms
proof (induction xs arbitrary: s)
  case (Cons x xs)
  then obtain t where t: "body x s = Inr t" "loop_raises body xs t = Inr s'"
    by (auto split: sum.splits)
  then have "t = f x s" using Cons.prems(2) by simp
  then show ?case using Cons.IH [OF t(2)] Cons.prems(2) t(1) by auto
qed simp

fun collect_raises :: "('a \<Rightarrow> 'e + 'b) \<Rightarrow> 'a list \<Rightarrow> 'e + 'b list" where
  "collect_raises f [] = Inr []"
| "collect_raises f (x # xs) =
     (case f x of
        Inl e \<Rightarrow> Inl e
      | Inr y \<Rightarrow> (case collect_raises f xs of Inl e \<Rightarrow> Inl e | Inr ys \<Rightarrow> Inr (y # ys)))"

lemma fold_append_at_filtered:
  "fold (\<lambda>x d. case g x of None \<Rightarrow> d | Some (k, v) \<Rightarrow> append_at k v d) xs d =
     fold (\<lambda>(k, v). append_at k v) (List.map_filter g xs) d"
  by (induction xs arbitrary: d) (auto simp: map_filter_simps split: option.splits)

lemma distinct_concat_keyed:
  assumes "distinct (map key ds)" "\<And>d. d \<in> set ds \<Longrightarrow> distinct (f d)"
    and "\<And>d x. d \<in> set ds \<Longrightarrow> x \<in> set (f d) \<Longrightarrow> key d = owner x"
  shows "distinct (concat (map f ds))"
  using assms
proof (induction ds)
  case (Cons d ds)
  have "set (f d) \<inter> \<Union> (set ` f ` set ds) = {}"
    using Cons.prems(1,3) by (fastforce simp: image_iff)
  then show ?case using Cons by (auto simp: disjoint_iff)
qed simp

end
