(* ===== verification/Reconciliation.thy ===== *)
theory Reconciliation
  imports PyData PyFloat Schema
begin

section \<open>Retirement of assets and checks\<close>

text \<open>
  asset\_compiler/reconciliation.py: which page assets and checks a new snapshot retires. The truth
  of a snapshot is extracted from its rows, the dependencies of a check from its module plan and its
  assertions, a quality gate decides whether anything may be retired, and the decisions say which
  asset or check goes and why. Sets of routes are lists, dictionaries association lists.
\<close>

definition QUALITY_GATE_MIN_SCORE :: rat where "QUALITY_GATE_MIN_SCORE = fl (7 / 10)"
definition ACTIVE_PAGE_COUNT_COLLAPSE_RATIO :: rat where "ACTIVE_PAGE_COUNT_COLLAPSE_RATIO = 1 / 2"

record retirement_decision =
  rd_page_asset_id :: uuid
  rd_page_check_ids :: "uuid list"
  rd_reason :: string

record collapse_warning =
  cwn_reason :: string
  cwn_current_page_count :: int
  cwn_previous_active_page_count :: int
  cwn_collapse_ratio :: rat
  cwn_collapse_ratio_threshold :: rat

record quality_gate_decision =
  qg_allow_retirement :: bool
  qg_warning_payload :: "collapse_warning option"

record active_page_truth =
  apt_page_asset_id :: uuid
  apt_route_path :: string

record active_check_truth =
  act_page_check_id :: uuid
  act_page_asset_id :: uuid
  act_blocking_dependency_json :: "pydict option"

record snapshot_truth =
  st_route_paths :: "string list"
  st_menu_chain_by_route :: "(string \<times> string list) list"
  st_elements_by_route :: "(string \<times> pydict list) list"

subsection \<open>The quality gate\<close>

definition py_round4 :: "rat \<Rightarrow> rat" where
  "py_round4 x = fl (of_int (round_half_even (x * 10000)) / 10000)"

definition evaluate_retirement_quality_gate ::
  "string \<Rightarrow> bool \<Rightarrow> rat option \<Rightarrow> int \<Rightarrow> int \<Rightarrow> quality_gate_decision" where
  "evaluate_retirement_quality_gate crawl_type degraded quality_score current_page_count
      previous_active_page_count =
     (let refuse = \<lparr>qg_allow_retirement = False, qg_warning_payload = None\<rparr>;
          allow = \<lparr>qg_allow_retirement = True, qg_warning_payload = None\<rparr>
      in if crawl_type \<noteq> ''full'' then refuse
         else if degraded then refuse
         else if (case quality_score of None \<Rightarrow> True | Some q \<Rightarrow> q < QUALITY_GATE_MIN_SCORE) then refuse
         else if previous_active_page_count \<le> 0 then allow
         else let collapse_ratio = fl (of_int current_page_count / of_int previous_active_page_count)
              in if collapse_ratio < ACTIVE_PAGE_COUNT_COLLAPSE_RATIO
                 then \<lparr>qg_allow_retirement = False, qg_warning_payload = Some
                        \<lparr>cwn_reason = ''page_count_collapse'',
                         cwn_current_page_count = current_page_count,
                         cwn_previous_active_page_count = previous_active_page_count,
                         cwn_collapse_ratio = py_round4 collapse_ratio,
                         cwn_collapse_ratio_threshold = ACTIVE_PAGE_COUNT_COLLAPSE_RATIO\<rparr>\<rparr>
                 else allow)"

subsection \<open>The truth of a snapshot\<close>

definition page_route :: "page list \<Rightarrow> uuid option \<Rightarrow> string" where
  "page_route page_rows page_id =
     (case page_id of
        None \<Rightarrow> []
      | Some i \<Rightarrow>
          (case map_of (dict_of (map (\<lambda>p. (pg_id p, strip (pg_route_path p))) page_rows)) i of
             None \<Rightarrow> [] | Some r \<Rightarrow> r))"

definition menu_order :: "menu_node \<Rightarrow> bool \<times> int \<times> int \<times> int \<times> int" where
  "menu_order m =
     (mn_page_id m = None, case mn_page_id m of None \<Rightarrow> -1 | Some i \<Rightarrow> uint i,
      mn_depth m, mn_sort_order m, uint (mn_id m))"

definition element_descriptor :: "page_element \<Rightarrow> pydict" where
  "element_descriptor e =
     [(''kind'', PStr (strip (pe_element_type e))),
      (''role'', PStr (normalize_opt (pe_element_role e))),
      (''text'', PStr (normalize_opt (pe_element_text e)))]"

definition build_current_snapshot_truth ::
  "page list \<Rightarrow> menu_node list \<Rightarrow> page_element list \<Rightarrow> snapshot_truth" where
  "build_current_snapshot_truth page_rows menus elements =
     \<lparr>st_route_paths =
        remdups (filter (\<lambda>r. r \<noteq> []) (map snd (dict_of (map (\<lambda>p. (pg_id p, strip (pg_route_path p))) page_rows)))),
      st_menu_chain_by_route = group_by
        (filter (\<lambda>(r, label). r \<noteq> [] \<and> label \<noteq> [])
          (map (\<lambda>m. (page_route page_rows (mn_page_id m), strip (mn_label m))) (sort_key menu_order menus))),
      st_elements_by_route = group_by
        (filter (\<lambda>(r, d). r \<noteq> [])
          (map (\<lambda>e. (page_route page_rows (Some (pe_page_id e)), element_descriptor e)) elements))\<rparr>"

subsection \<open>The dependencies of a check\<close>

definition clean_labels :: "pyval list \<Rightarrow> string list" where
  "clean_labels labels = filter (\<lambda>l. l \<noteq> []) (map normalize_text labels)"

definition compact_descriptor :: "pydict \<Rightarrow> pydict" where
  "compact_descriptor item =
     filter (\<lambda>(k, v). v \<noteq> PStr [])
       (map (\<lambda>k. (k, PStr (normalize_text (dget item k)))) [''kind'', ''role'', ''text''])"

definition table_descriptor :: pydict where
  "table_descriptor = [(''kind'', PStr ''table''), (''role'', PStr ''table'')]"

definition dialog_descriptor :: pydict where
  "dialog_descriptor = [(''kind'', PStr ''dialog''), (''role'', PStr ''dialog'')]"

text \<open>The loops over \<open>required_elements\<close>.\<close>

definition required_elements_of :: "pyval list \<Rightarrow> pydict list" where
  "required_elements_of items =
     List.map_filter (\<lambda>item. case item of
         PDict d \<Rightarrow> (let c = compact_descriptor d in if c = [] then None else Some c)
       | _ \<Rightarrow> None) items"

fun plan_step_dependency ::
  "pyval \<Rightarrow> string list \<times> pydict list \<Rightarrow> string + string list \<times> pydict list" where
  "plan_step_dependency (PDict step) (menu_chain, derived) =
     (let module_name = normalize_text (dget step ''module'');
          derived' = (if module_name = ''assert.table_visible'' then derived @ [table_descriptor] else derived)
      in case (if module_name = ''nav.menu_chain'' then dget step ''params'' else PNone) of
           PDict params \<Rightarrow>
             (case py_iter (dget_or params ''menu_chain'' (PList [])) of
                Inl e \<Rightarrow> Inl e
              | Inr labels \<Rightarrow> Inr (clean_labels labels, derived'))
         | _ \<Rightarrow> Inr (menu_chain, derived'))"
| "plan_step_dependency step state = Inr state"

definition element_signature :: "pydict \<Rightarrow> pydict" where
  "element_signature e = sort_key fst e"

fun dedupe_elements :: "pydict list \<Rightarrow> pydict list \<Rightarrow> pydict list \<Rightarrow> pydict list" where
  "dedupe_elements [] seen deduped = deduped"
| "dedupe_elements (e # es) seen deduped =
     (if element_signature e \<in> set seen then dedupe_elements es seen deduped
      else dedupe_elements es (element_signature e # seen) (deduped @ [e]))"

definition dependency_json :: "string list \<Rightarrow> pydict list \<Rightarrow> pydict" where
  "dependency_json menu_chain elements =
     [(''menu_chain'', PList (map PStr menu_chain)), (''required_elements'', PList (map PDict elements))]"

definition build_blocking_dependency_json ::
  "pyval list option \<Rightarrow> pydict option \<Rightarrow> string + pydict" where
  "build_blocking_dependency_json steps_json assertion_schema =
     (case loop_raises plan_step_dependency (case steps_json of None \<Rightarrow> [] | Some s \<Rightarrow> s) ([], []) of
        Inl e \<Rightarrow> Inl e
      | Inr (menu_chain, derived) \<Rightarrow>
          (case assertion_schema of
             None \<Rightarrow> Inr (dependency_json menu_chain (dedupe_elements derived [] []))
           | Some schema \<Rightarrow>
               (let assertion_name = normalize_text (dget schema ''assertion'');
                    derived' = derived @
                      (if assertion_name = ''table_visible'' then [table_descriptor] else []) @
                      (if assertion_name = ''modal_visible'' then [dialog_descriptor] else [])
                in case py_iter (dget_or schema ''required_elements'' (PList [])) of
                     Inl e \<Rightarrow> Inl e
                   | Inr items \<Rightarrow>
                       Inr (dependency_json menu_chain
                         (dedupe_elements (required_elements_of items @ derived') [] [])))))"

text \<open>\<open>_normalize_dependency_json\<close>: the menu chain and the required elements.\<close>

definition normalize_dependency_json :: "pydict option \<Rightarrow> string + string list \<times> pydict list" where
  "normalize_dependency_json value =
     (case value of
        None \<Rightarrow> Inr ([], [])
      | Some d \<Rightarrow>
          (case py_iter (dget_or d ''menu_chain'' (PList [])) of
             Inl e \<Rightarrow> Inl e
           | Inr labels \<Rightarrow>
               (case py_iter (dget_or d ''required_elements'' (PList [])) of
                  Inl e \<Rightarrow> Inl e
                | Inr items \<Rightarrow> Inr (clean_labels labels, required_elements_of items))))"

subsection \<open>Satisfied dependencies\<close>

text \<open>\<open>index\<close> never runs past the end: the loop returns when it reaches it.\<close>

fun menu_chain_loop :: "string list \<Rightarrow> nat \<Rightarrow> string list \<Rightarrow> bool" where
  "menu_chain_loop expected index [] = False"
| "menu_chain_loop expected index (label # current) =
     (if label = expected ! index
      then if Suc index = length expected then True else menu_chain_loop expected (Suc index) current
      else menu_chain_loop expected index current)"

definition menu_chain_satisfied :: "string list \<Rightarrow> string list \<Rightarrow> bool" where
  "menu_chain_satisfied expected current =
     (if expected = [] then True
      else if current = [] then False
      else menu_chain_loop expected 0 current)"

definition element_matches :: "pydict \<Rightarrow> pydict \<Rightarrow> bool" where
  "element_matches descriptor current =
     list_all (\<lambda>key. let expected = normalize_text (dget descriptor key)
        in \<not> (expected \<noteq> [] \<and> normalize_text (dget current key) \<noteq> expected))
       [''kind'', ''role'', ''text'']"

definition required_elements_satisfied :: "pydict list \<Rightarrow> pydict list \<Rightarrow> bool" where
  "required_elements_satisfied expected current =
     list_all (\<lambda>descriptor. list_ex (element_matches descriptor) current) expected"

subsection \<open>Decisions\<close>

definition missing_asset_ids :: "active_page_truth list \<Rightarrow> snapshot_truth \<Rightarrow> uuid list" where
  "missing_asset_ids active_pages truth =
     map apt_page_asset_id
       (filter (\<lambda>row. apt_route_path row \<noteq> [] \<and> apt_route_path row \<notin> set (st_route_paths truth)) active_pages)"

definition failure_reason :: "snapshot_truth \<Rightarrow> string \<Rightarrow> string list \<Rightarrow> pydict list \<Rightarrow> string option" where
  "failure_reason truth route_path menu_chain required_elements =
     (if menu_chain \<noteq> [] \<and>
         \<not> menu_chain_satisfied menu_chain (values_at (st_menu_chain_by_route truth) route_path)
      then Some ''missing_menu_chain''
      else if required_elements \<noteq> [] \<and>
         \<not> required_elements_satisfied required_elements (values_at (st_elements_by_route truth) route_path)
      then Some ''missing_key_element''
      else None)"

definition check_group_step ::
  "active_page_truth list \<Rightarrow> snapshot_truth \<Rightarrow> active_check_truth \<Rightarrow>
    ((uuid \<times> string) \<times> uuid list) list \<Rightarrow> string + ((uuid \<times> string) \<times> uuid list) list" where
  "check_group_step active_pages truth row check_groups =
     (let route_path = (case map_of (dict_of (map (\<lambda>p. (apt_page_asset_id p, apt_route_path p)) active_pages))
                               (act_page_asset_id row) of None \<Rightarrow> [] | Some r \<Rightarrow> r)
      in if act_page_asset_id row \<in> set (missing_asset_ids active_pages truth) then Inr check_groups
         else if route_path = [] \<or> route_path \<notin> set (st_route_paths truth) then Inr check_groups
         else case normalize_dependency_json (act_blocking_dependency_json row) of
                Inl e \<Rightarrow> Inl e
              | Inr (menu_chain, required_elements) \<Rightarrow>
                  (case failure_reason truth route_path menu_chain required_elements of
                     None \<Rightarrow> Inr check_groups
                   | Some reason \<Rightarrow>
                       Inr (append_at (act_page_asset_id row, reason) (act_page_check_id row) check_groups)))"

definition reconcile_retirement_decisions ::
  "active_page_truth list \<Rightarrow> active_check_truth list \<Rightarrow> snapshot_truth \<Rightarrow> quality_gate_decision \<Rightarrow>
    string + retirement_decision list" where
  "reconcile_retirement_decisions active_pages active_checks truth quality_gate =
     (if \<not> qg_allow_retirement quality_gate then Inr []
      else let checks_by_asset_id = group_by (map (\<lambda>c. (act_page_asset_id c, act_page_check_id c)) active_checks);
               missing = map (\<lambda>i. \<lparr>rd_page_asset_id = i, rd_page_check_ids = values_at checks_by_asset_id i,
                                   rd_reason = ''missing_page''\<rparr>)
                           (missing_asset_ids active_pages truth)
           in case loop_raises (check_group_step active_pages truth) active_checks [] of
                Inl e \<Rightarrow> Inl e
              | Inr check_groups \<Rightarrow>
                  Inr (missing @
                    map (\<lambda>((asset_id, reason), check_ids).
                        \<lparr>rd_page_asset_id = asset_id, rd_page_check_ids = sort_key uint (remdups check_ids),
                         rd_reason = reason\<rparr>) check_groups))"

subsection \<open>Menu chains are subsequences\<close>

lemma menu_chain_loop_subseq:
  "index < length expected \<Longrightarrow> menu_chain_loop expected index current = subseq (drop index expected) current"
proof (induction expected index current rule: menu_chain_loop.induct)
  case (1 expected index)
  then show ?case by simp
next
  case (2 expected index label current)
  have d: "drop index expected = expected ! index # drop (Suc index) expected"
    using 2(3) by (simp add: Cons_nth_drop_Suc)
  show ?case
  proof (cases "Suc index = length expected")
    case True
    then show ?thesis using 2 by (simp add: d subseq_Cons2_iff)
  next
    case False
    then show ?thesis using 2 by (simp add: d subseq_Cons2_iff)
  qed
qed

lemma menu_chain_satisfied_iff: "menu_chain_satisfied expected current \<longleftrightarrow> subseq expected current"
  by (auto simp: menu_chain_satisfied_def menu_chain_loop_subseq)

text \<open>The menu chain of a check is satisfied by the menu labels of its page exactly when it is a
  subsequence of them: the loop with an index decides the order-preserving embedding.\<close>

theorem menu_chain_satisfied_subseq: "menu_chain_satisfied expected current \<longleftrightarrow> subseq expected current"
  by (rule menu_chain_satisfied_iff)

subsection \<open>Dependencies survive storage\<close>

definition clean_chain :: "string list \<Rightarrow> bool" where
  "clean_chain ls \<longleftrightarrow> (\<forall>l \<in> set ls. l \<noteq> [] \<and> strip l = l)"

definition compact_elements :: "pydict list \<Rightarrow> bool" where
  "compact_elements es \<longleftrightarrow> (\<forall>e \<in> set es. compact_descriptor e = e \<and> e \<noteq> [])"

lemma clean_labels_clean: "clean_chain (clean_labels ls)"
  by (auto simp: clean_chain_def clean_labels_def)

lemma clean_labels_stored: "clean_chain ls \<Longrightarrow> clean_labels (map PStr ls) = ls"
  by (induction ls) (auto simp: clean_chain_def clean_labels_def)

lemma compact_twice [simp]: "compact_descriptor (compact_descriptor d) = compact_descriptor d"
  by (simp add: compact_descriptor_def normalize_text_def)

lemma known_descriptors [simp]:
  "compact_descriptor table_descriptor = table_descriptor" "table_descriptor \<noteq> []"
  "compact_descriptor dialog_descriptor = dialog_descriptor" "dialog_descriptor \<noteq> []"
  "[] \<noteq> table_descriptor" "[] \<noteq> dialog_descriptor"
  by (simp_all add: compact_descriptor_def table_descriptor_def dialog_descriptor_def strip_graphic graphic_def)

lemma required_elements_compact: "compact_elements (required_elements_of items)"
  by (auto simp: compact_elements_def required_elements_of_def map_filter_def Let_def
      split: pyval.splits if_splits)

lemma required_elements_stored: "compact_elements es \<Longrightarrow> required_elements_of (map PDict es) = es"
  by (induction es) (auto simp: compact_elements_def required_elements_of_def map_filter_simps Let_def)

lemma dedupe_elements_subset: "set (dedupe_elements es seen acc) \<subseteq> set acc \<union> set es"
  by (induction es seen acc rule: dedupe_elements.induct) auto

lemma plan_step_keeps:
  "plan_step_dependency step (chain, derived) = Inr (chain', derived') \<Longrightarrow>
    clean_chain chain \<and> compact_elements derived \<Longrightarrow> clean_chain chain' \<and> compact_elements derived'"
  by (cases step)
    (auto simp: Let_def clean_labels_clean compact_elements_def split: if_splits pyval.splits sum.splits)

lemma plan_loop_keeps:
  "loop_raises plan_step_dependency steps (chain, derived) = Inr (chain', derived') \<Longrightarrow>
    clean_chain chain \<and> compact_elements derived \<Longrightarrow> clean_chain chain' \<and> compact_elements derived'"
proof (induction steps arbitrary: chain derived)
  case (Cons step steps)
  then obtain c d where "plan_step_dependency step (chain, derived) = Inr (c, d)"
    "loop_raises plan_step_dependency steps (c, d) = Inr (chain', derived')"
    by (auto split: sum.splits)
  then show ?case using Cons.IH plan_step_keeps Cons.prems(2) by blast
qed simp

lemma normalize_dependency_stored:
  "clean_chain chain \<Longrightarrow> compact_elements es \<Longrightarrow>
    normalize_dependency_json (Some (dependency_json chain es)) = Inr (chain, es)"
  by (simp add: normalize_dependency_json_def dependency_json_def dget_or_def clean_labels_stored
      required_elements_stored)

lemma stored_dependencies:
  assumes "build_blocking_dependency_json steps schema = Inr json"
  shows "\<exists>chain es. json = dependency_json chain es \<and>
    normalize_dependency_json (Some json) = Inr (chain, es) \<and>
    (\<forall>l \<in> set chain. l \<noteq> [] \<and> strip l = l) \<and> (\<forall>e \<in> set es. e \<noteq> [])"
proof -
  obtain chain derived where loop: "loop_raises plan_step_dependency
      (case steps of None \<Rightarrow> [] | Some s \<Rightarrow> s) ([], []) = Inr (chain, derived)"
    using assms by (auto simp: build_blocking_dependency_json_def split: sum.splits prod.splits)
  have cc: "clean_chain chain" "compact_elements derived"
    using plan_loop_keeps [OF loop] by (simp_all add: clean_chain_def compact_elements_def)
  obtain raw where raw: "json = dependency_json chain (dedupe_elements raw [] [])" "compact_elements raw"
  proof (cases schema)
    case None
    then show thesis using assms loop cc that by (auto simp: build_blocking_dependency_json_def)
  next
    case (Some sch)
    obtain items d where "json = dependency_json chain (dedupe_elements (required_elements_of items @ derived @ d) [] [])"
      "set d \<subseteq> {table_descriptor, dialog_descriptor}"
      using assms loop Some
      by (force simp: build_blocking_dependency_json_def Let_def split: sum.splits)
    moreover have "\<forall>e \<in> set d. compact_descriptor e = e \<and> e \<noteq> []" using calculation(2) by auto
    then have "compact_elements (required_elements_of items @ derived @ d)"
      using cc(2) required_elements_compact [of items] by (simp add: compact_elements_def ball_Un)
    ultimately show thesis using that by blast
  qed
  have "compact_elements (dedupe_elements raw [] [])"
    using dedupe_elements_subset [of raw "[]" "[]"] raw(2) by (auto simp: compact_elements_def)
  then show ?thesis
    using normalize_dependency_stored [OF cc(1)] cc(1) raw(1)
    by (auto simp: clean_chain_def compact_elements_def)
qed

text \<open>C25: the dependencies that a compilation stores with a check are what a later reconciliation reads
  back: whatever the plan steps and the assertion schema hold, normalising the stored value gives
  the menu chain and the elements it was built from, all of them stripped and non-empty.\<close>

theorem stored_dependencies_roundtrip:
  assumes "build_blocking_dependency_json steps schema = Inr json"
  shows "\<exists>chain es. json = dependency_json chain es \<and>
    normalize_dependency_json (Some json) = Inr (chain, es) \<and>
    (\<forall>l \<in> set chain. l \<noteq> [] \<and> strip l = l) \<and> (\<forall>e \<in> set es. e \<noteq> [])"
  by (rule stored_dependencies [OF assms])

theorem stored_dependencies_roundtrip_witness:
  "normalize_dependency_json (Some (dependency_json [''Users''] [table_descriptor])) =
     Inr ([''Users''], [table_descriptor])"
proof -
  let ?steps = "[PDict [(''module'', PStr ''nav.menu_chain''),
      (''params'', PDict [(''menu_chain'', PList [PStr ''Users''])])], PDict [(''module'', PStr ''assert.table_visible'')]]"
  have n: "normalize_text (PStr ''nav.menu_chain'') = ''nav.menu_chain''"
    "normalize_text (PStr ''assert.table_visible'') = ''assert.table_visible''"
    "normalize_text (PStr ''Users'') = ''Users''"
    by (simp_all add: strip_graphic graphic_def)
  have b: "build_blocking_dependency_json (Some ?steps) None = Inr (dependency_json [''Users''] [table_descriptor])"
    by (simp add: build_blocking_dependency_json_def n dget_or_def clean_labels_def del: normalize_text_PStr)
  from stored_dependencies_roundtrip [OF b] show ?thesis
    by (auto simp: dependency_json_def inj_map_eq_map inj_def)
qed

subsection \<open>Every check has one verdict\<close>

definition active_route :: "active_page_truth list \<Rightarrow> uuid \<Rightarrow> string" where
  "active_route active_pages i =
     (case map_of (dict_of (map (\<lambda>p. (apt_page_asset_id p, apt_route_path p)) active_pages)) i of
        None \<Rightarrow> [] | Some r \<Rightarrow> r)"

text \<open>What the decisions say about one active check: its asset and the reason why it is retired.\<close>

definition group_verdict :: "active_page_truth list \<Rightarrow> snapshot_truth \<Rightarrow> active_check_truth \<Rightarrow> string option" where
  "group_verdict active_pages truth row =
     (let route = active_route active_pages (act_page_asset_id row) in
      if act_page_asset_id row \<in> set (missing_asset_ids active_pages truth) \<or> route = [] \<or>
         route \<notin> set (st_route_paths truth) then None
      else case normalize_dependency_json (act_blocking_dependency_json row) of
             Inl e \<Rightarrow> None
           | Inr (chain, es) \<Rightarrow> failure_reason truth route chain es)"

definition verdict :: "active_page_truth list \<Rightarrow> snapshot_truth \<Rightarrow> active_check_truth \<Rightarrow> (uuid \<times> string) option" where
  "verdict active_pages truth row =
     (if act_page_asset_id row \<in> set (missing_asset_ids active_pages truth)
      then Some (act_page_asset_id row, ''missing_page'')
      else map_option (Pair (act_page_asset_id row)) (group_verdict active_pages truth row))"

definition group_entry ::
  "active_page_truth list \<Rightarrow> snapshot_truth \<Rightarrow> active_check_truth \<Rightarrow> ((uuid \<times> string) \<times> uuid) option" where
  "group_entry active_pages truth row =
     map_option (\<lambda>r. ((act_page_asset_id row, r), act_page_check_id row)) (group_verdict active_pages truth row)"

lemma check_group_step_verdict:
  "check_group_step active_pages truth row d = Inr d' \<Longrightarrow>
    d' = (case group_entry active_pages truth row of None \<Rightarrow> d | Some (k, v) \<Rightarrow> append_at k v d)"
  by (auto simp: check_group_step_def group_entry_def group_verdict_def active_route_def Let_def
      split: if_splits sum.splits option.splits prod.splits)

lemma check_groups_eq:
  assumes "loop_raises (check_group_step active_pages truth) checks [] = Inr groups"
  shows "groups = group_by (List.map_filter (group_entry active_pages truth) checks)"
  using loop_raises_Inr [OF assms, of "\<lambda>row d. case group_entry active_pages truth row of
      None \<Rightarrow> d | Some (k, v) \<Rightarrow> append_at k v d"] check_group_step_verdict
  by (auto simp: fold_append_at_filtered group_by_def)

lemma failure_reason_not_missing_page: "failure_reason truth route chain es \<noteq> Some ''missing_page''"
  by (simp add: failure_reason_def)

lemma group_verdict_not_missing_page: "group_verdict active_pages truth row \<noteq> Some ''missing_page''"
  by (auto simp: group_verdict_def Let_def failure_reason_not_missing_page split: sum.splits prod.splits)

definition decision_key :: "retirement_decision \<Rightarrow> uuid \<times> string" where
  "decision_key d = (rd_page_asset_id d, rd_reason d)"

lemma map_filter_group:
  "map snd (filter (\<lambda>kv. fst kv = k) (List.map_filter (group_entry active_pages truth) checks)) =
    map act_page_check_id (filter (\<lambda>row. map_option (Pair (act_page_asset_id row)) (group_verdict active_pages truth row) = Some k) checks)"
  by (induction checks) (auto simp: map_filter_simps group_entry_def split: option.splits)

lemma decisions_by_verdict:
  assumes "reconcile_retirement_decisions active_pages checks truth gate = Inr ds"
    and "qg_allow_retirement gate" "distinct (map apt_page_asset_id active_pages)"
  shows "distinct (map decision_key ds)"
    and "d \<in> set ds \<Longrightarrow> set (rd_page_check_ids d) =
      act_page_check_id ` {row \<in> set checks. verdict active_pages truth row = Some (decision_key d)}"
    and "d \<in> set ds \<Longrightarrow> distinct (map act_page_check_id checks) \<Longrightarrow> distinct (rd_page_check_ids d)"
    and "row \<in> set checks \<Longrightarrow> verdict active_pages truth row = Some k \<Longrightarrow> k \<in> decision_key ` set ds"
proof -
  let ?miss = "missing_asset_ids active_pages truth"
  let ?by = "group_by (map (\<lambda>c. (act_page_asset_id c, act_page_check_id c)) checks)"
  let ?m = "\<lambda>i. \<lparr>rd_page_asset_id = i, rd_page_check_ids = values_at ?by i, rd_reason = ''missing_page''\<rparr>"
  let ?entries = "List.map_filter (group_entry active_pages truth) checks"
  let ?g = "\<lambda>((a, r), ids). \<lparr>rd_page_asset_id = a, rd_page_check_ids = sort_key uint (remdups ids), rd_reason = r\<rparr>"
  obtain groups where loop: "loop_raises (check_group_step active_pages truth) checks [] = Inr groups"
    and ds: "ds = map ?m ?miss @ map ?g groups"
    using assms(1,2) by (auto simp: reconcile_retirement_decisions_def Let_def split: sum.splits)
  have groups: "groups = group_by ?entries" by (rule check_groups_eq [OF loop])
  have keys: "map decision_key (map ?g groups) = map fst groups"
    by (auto simp: decision_key_def)
  have entry: "snd (fst e) \<noteq> ''missing_page'' \<and> fst (fst e) \<notin> set ?miss" if "e \<in> set ?entries" for e
    using that by (auto simp: map_filter_def group_entry_def group_verdict_not_missing_page)
      (auto simp: group_verdict_def Let_def split: if_splits)
  then have group_keys: "snd k \<noteq> ''missing_page'' \<and> fst k \<notin> set ?miss" if "k \<in> fst ` set groups" for k
    using that unfolding groups keys_group_by by auto
  have "distinct ?miss"
    using assms(3) by (simp add: missing_asset_ids_def distinct_map_filter)
  then have "distinct (map decision_key (map ?m ?miss))"
    by (simp add: decision_key_def distinct_map inj_on_def)
  moreover have "distinct (map decision_key (map ?g groups))" unfolding keys by (simp add: groups)
  moreover have "set (map decision_key (map ?m ?miss)) \<inter> set (map decision_key (map ?g groups)) = {}"
  proof -
    have "fst k \<in> set ?miss" if "k \<in> set (map decision_key (map ?m ?miss))" for k
      using that by (auto simp: decision_key_def)
    then show ?thesis unfolding keys set_map using group_keys by blast
  qed
  ultimately show "distinct (map decision_key ds)" unfolding ds map_append distinct_append by blast
  have miss_ids: "values_at ?by i = map act_page_check_id (filter (\<lambda>c. act_page_asset_id c = i) checks)" for i
    by (simp add: filter_map comp_def)
  have group_ids: "ids = map act_page_check_id (filter (\<lambda>row.
      map_option (Pair (act_page_asset_id row)) (group_verdict active_pages truth row) = Some k) checks)"
    if "(k, ids) \<in> set groups" for k ids
    using group_by_mem [OF that [unfolded groups]] map_filter_group by metis
  have miss_verdict: "verdict active_pages truth row = Some (i, ''missing_page'') \<longleftrightarrow> act_page_asset_id row = i"
    if "i \<in> set ?miss" for row i
    using that by (auto simp: verdict_def group_verdict_not_missing_page)
  have group_verdict: "verdict active_pages truth row = Some k \<longleftrightarrow>
      map_option (Pair (act_page_asset_id row)) (group_verdict active_pages truth row) = Some k"
    if "(k, ids) \<in> set groups" for row k ids
    using group_keys [of k] that by (force simp: verdict_def group_verdict_def Let_def)
  show "set (rd_page_check_ids d) =
      act_page_check_id ` {row \<in> set checks. verdict active_pages truth row = Some (decision_key d)}"
    if dmem: "d \<in> set ds" for d
  proof -
    consider i where "i \<in> set ?miss" "d = ?m i" | k ids where "(k, ids) \<in> set groups" "d = ?g (k, ids)"
      using dmem unfolding ds by auto
    then show ?thesis
    proof cases
      case 1
      then show ?thesis by (auto simp: miss_ids decision_key_def miss_verdict simp del: values_at_group_by)
    next
      case 2
      have "decision_key d = k" by (cases k) (simp add: 2(2) decision_key_def)
      then show ?thesis using 2 group_ids [OF 2(1)] group_verdict [OF 2(1)] by (cases k) auto
    qed
  qed
  show "distinct (rd_page_check_ids d)" if "d \<in> set ds" "distinct (map act_page_check_id checks)" for d
    using that unfolding ds by (auto simp: miss_ids distinct_map_filter simp del: values_at_group_by)
  show "k \<in> decision_key ` set ds" if "row \<in> set checks" "verdict active_pages truth row = Some k" for row k
  proof (cases "act_page_asset_id row \<in> set ?miss")
    case True
    then have "k = decision_key (?m (act_page_asset_id row))" using that(2) by (simp add: verdict_def decision_key_def)
    then show ?thesis using True unfolding ds by simp
  next
    case False
    then have "group_entry active_pages truth row = Some (k, act_page_check_id row)"
      using that(2) by (auto simp: verdict_def group_entry_def)
    then have "k \<in> fst ` set ?entries" using that(1) by (force simp: map_filter_def)
    then have "k \<in> set (map decision_key (map ?g groups))" unfolding keys by (simp add: groups)
    then show ?thesis unfolding ds set_append image_Un set_map by blast
  qed
qed

subsection \<open>What is retired\<close>

definition dependency_fails :: "snapshot_truth \<Rightarrow> string \<Rightarrow> active_check_truth \<Rightarrow> bool" where
  "dependency_fails truth route row =
     (case normalize_dependency_json (act_blocking_dependency_json row) of
        Inl e \<Rightarrow> False
      | Inr (chain, es) \<Rightarrow>
          \<not> subseq chain (values_at (st_menu_chain_by_route truth) route) \<or>
          \<not> required_elements_satisfied es (values_at (st_elements_by_route truth) route))"

lemma required_elements_satisfied_Nil [simp]: "required_elements_satisfied [] cur"
  by (simp add: required_elements_satisfied_def)

lemma failure_reason_iff:
  "failure_reason truth route chain es \<noteq> None \<longleftrightarrow>
     \<not> subseq chain (values_at (st_menu_chain_by_route truth) route) \<or>
     \<not> required_elements_satisfied es (values_at (st_elements_by_route truth) route)"
  by (cases "chain = []"; cases "es = []") (auto simp: failure_reason_def menu_chain_satisfied_iff)

lemma active_route_page:
  assumes "distinct (map apt_page_asset_id active_pages)" "p \<in> set active_pages"
  shows "active_route active_pages (apt_page_asset_id p) = apt_route_path p"
proof -
  let ?kvs = "map (\<lambda>p. (apt_page_asset_id p, apt_route_path p)) active_pages"
  have "distinct (map fst ?kvs)" using assms(1) by (simp add: comp_def)
  then have "map_of (dict_of ?kvs) (apt_page_asset_id p) = Some (apt_route_path p)"
    using assms(2) by (simp add: map_of_dict_of_distinct map_of_is_SomeI del: map_of_dict_of)
  then show ?thesis by (simp add: active_route_def del: map_of_dict_of)
qed

lemma active_route_absent:
  "i \<notin> apt_page_asset_id ` set active_pages \<Longrightarrow> active_route active_pages i = []"
  by (auto simp: active_route_def split: option.splits dest!: map_of_SomeD)

lemma missing_asset_iff:
  assumes "distinct (map apt_page_asset_id active_pages)" "p \<in> set active_pages"
  shows "apt_page_asset_id p \<in> set (missing_asset_ids active_pages truth) \<longleftrightarrow>
    apt_route_path p \<noteq> [] \<and> apt_route_path p \<notin> set (st_route_paths truth)"
proof -
  have "inj_on apt_page_asset_id (set active_pages)" using assms(1) by (simp add: distinct_map)
  then show ?thesis using assms(2) by (auto simp: missing_asset_ids_def dest: inj_onD)
qed

lemma verdict_iff:
  assumes "distinct (map apt_page_asset_id active_pages)"
  shows "verdict active_pages truth row \<noteq> None \<longleftrightarrow>
    (\<exists>p \<in> set active_pages. apt_page_asset_id p = act_page_asset_id row \<and> apt_route_path p \<noteq> [] \<and>
       (apt_route_path p \<notin> set (st_route_paths truth) \<or> dependency_fails truth (apt_route_path p) row))"
proof (cases "\<exists>p \<in> set active_pages. apt_page_asset_id p = act_page_asset_id row")
  case True
  then obtain p where p: "p \<in> set active_pages" "apt_page_asset_id p = act_page_asset_id row" by blast
  have uniq: "q = p" if "q \<in> set active_pages" "apt_page_asset_id q = act_page_asset_id row" for q
    using that p assms by (metis distinct_map inj_onD)
  have route: "active_route active_pages (act_page_asset_id row) = apt_route_path p"
    using active_route_page [OF assms p(1)] p(2) by simp
  note miss = missing_asset_iff [OF assms p(1), of truth, unfolded p(2)]
  have "verdict active_pages truth row \<noteq> None \<longleftrightarrow> apt_route_path p \<noteq> [] \<and>
      (apt_route_path p \<notin> set (st_route_paths truth) \<or> dependency_fails truth (apt_route_path p) row)"
  proof (cases "normalize_dependency_json (act_blocking_dependency_json row)")
    case (Inl e)
    then show ?thesis
      by (auto simp: verdict_def group_verdict_def route miss dependency_fails_def Let_def)
  next
    case (Inr ce)
    obtain chain es where ce: "ce = (chain, es)" by fastforce
    show ?thesis
      using Inr failure_reason_iff [of truth "apt_route_path p" chain es]
      by (auto simp: verdict_def group_verdict_def route miss dependency_fails_def ce Let_def)
  qed
  then show ?thesis using p uniq by metis
next
  case False
  then have "active_route active_pages (act_page_asset_id row) = []"
    "act_page_asset_id row \<notin> set (missing_asset_ids active_pages truth)"
    by (auto intro!: active_route_absent simp: missing_asset_ids_def image_iff)
  then show ?thesis using False by (auto simp: verdict_def group_verdict_def)
qed

text \<open>C26: with the gate open a check is retired exactly when its page has a route and either the route is
  gone from the snapshot, or it is there but the menu chain the check depends on is no longer a
  subsequence of the menu labels of the page or an element it needs matches none of the page's.\<close>

theorem retired_checks_iff:
  assumes "reconcile_retirement_decisions active_pages checks truth gate = Inr ds"
    and "qg_allow_retirement gate" "distinct (map apt_page_asset_id active_pages)"
  shows "c \<in> (\<Union>d \<in> set ds. set (rd_page_check_ids d)) \<longleftrightarrow>
    (\<exists>row \<in> set checks. act_page_check_id row = c \<and>
       (\<exists>p \<in> set active_pages. apt_page_asset_id p = act_page_asset_id row \<and> apt_route_path p \<noteq> [] \<and>
          (apt_route_path p \<notin> set (st_route_paths truth) \<or> dependency_fails truth (apt_route_path p) row)))"
proof -
  note d = decisions_by_verdict [OF assms]
  have "c \<in> (\<Union>d \<in> set ds. set (rd_page_check_ids d)) \<longleftrightarrow>
      (\<exists>row \<in> set checks. act_page_check_id row = c \<and> verdict active_pages truth row \<noteq> None)"
    using d(2,4) by (fastforce simp del: not_None_eq simp: not_None_eq)
  then show ?thesis using verdict_iff [OF assms(3)] by simp
qed

text \<open>No check is retired twice: with distinct checks and assets, the decisions have distinct pairs of
  asset and reason and no check occurs in two of them, or twice in one.\<close>

theorem check_retired_once:
  assumes "reconcile_retirement_decisions active_pages checks truth gate = Inr ds"
    and "distinct (map apt_page_asset_id active_pages)" "distinct (map act_page_check_id checks)"
  shows "distinct (concat (map rd_page_check_ids ds)) \<and>
    distinct (map (\<lambda>d. (rd_page_asset_id d, rd_reason d)) ds)"
proof (cases "qg_allow_retirement gate")
  case False
  then show ?thesis using assms(1) by (simp add: reconcile_retirement_decisions_def)
next
  case True
  note d = decisions_by_verdict [OF assms(1) True assms(2)]
  have inj: "inj_on act_page_check_id (set checks)" using assms(3) by (simp add: distinct_map)
  let ?owner = "\<lambda>c. the (verdict active_pages truth (the_inv_into (set checks) act_page_check_id c))"
  have "distinct (concat (map rd_page_check_ids ds))"
  proof (rule distinct_concat_keyed [OF d(1) d(3) [OF _ assms(3)]])
    fix x c assume "x \<in> set ds" "c \<in> set (rd_page_check_ids x)"
    then show "decision_key x = ?owner c"
      using d(2) the_inv_into_f_f [OF inj] by fastforce
  qed
  moreover have "(\<lambda>d. (rd_page_asset_id d, rd_reason d)) = decision_key"
    by (auto simp: decision_key_def)
  ultimately show ?thesis using d(1) by simp
qed

text \<open>Nothing is retired on poor evidence: whatever the active pages and checks are, a decision is
  made only for a full crawl that is not degraded, of at least the minimal quality, that found at
  least half as many pages as were active before (when any were).\<close>

theorem retirement_needs_quality:
  assumes "reconcile_retirement_decisions active_pages checks truth
      (evaluate_retirement_quality_gate crawl_type degraded score current previous) = Inr ds"
    and "ds \<noteq> []"
  shows "crawl_type = ''full'' \<and> \<not> degraded \<and> (\<exists>q. score = Some q \<and> QUALITY_GATE_MIN_SCORE \<le> q) \<and>
    (previous \<le> 0 \<or> ACTIVE_PAGE_COUNT_COLLAPSE_RATIO \<le> fl (of_int current / of_int previous))"
  using assms
  by (auto simp: reconcile_retirement_decisions_def evaluate_retirement_quality_gate_def Let_def
      split: if_splits option.splits)

subsection \<open>A concrete reconciliation\<close>

definition sample_pages :: "active_page_truth list" where
  "sample_pages = [\<lparr>apt_page_asset_id = 1, apt_route_path = ''/a''\<rparr>, \<lparr>apt_page_asset_id = 2, apt_route_path = ''/b''\<rparr>]"

definition sample_checks :: "active_check_truth list" where
  "sample_checks =
     [\<lparr>act_page_check_id = 5, act_page_asset_id = 1, act_blocking_dependency_json = None\<rparr>,
      \<lparr>act_page_check_id = 6, act_page_asset_id = 2,
       act_blocking_dependency_json = Some (dependency_json [''Users''] [])\<rparr>]"

definition sample_truth :: snapshot_truth where
  "sample_truth = \<lparr>st_route_paths = [''/b''], st_menu_chain_by_route = [(''/b'', [''Home''])],
     st_elements_by_route = []\<rparr>"

lemma sample_decisions:
  assumes "qg_allow_retirement gate"
  shows "reconcile_retirement_decisions sample_pages sample_checks sample_truth gate =
    Inr [\<lparr>rd_page_asset_id = 1, rd_page_check_ids = [5], rd_reason = ''missing_page''\<rparr>,
         \<lparr>rd_page_asset_id = 2, rd_page_check_ids = [6], rd_reason = ''missing_menu_chain''\<rparr>]"
proof -
  have "clean_labels [PStr ''Users''] = [''Users'']"
    by (simp add: clean_labels_def strip_graphic graphic_def)
  then show ?thesis
    using assms
    by (simp add: reconcile_retirement_decisions_def sample_pages_def sample_checks_def sample_truth_def
        check_group_step_def missing_asset_ids_def normalize_dependency_json_def dependency_json_def
        dget_or_def required_elements_of_def map_filter_simps failure_reason_def menu_chain_satisfied_iff
        append_at_def values_at_def group_by_def subseq_Cons2_iff)
qed

lemma sample_distinct:
  "distinct (map apt_page_asset_id sample_pages)" "distinct (map act_page_check_id sample_checks)"
  by (simp_all add: sample_pages_def sample_checks_def)

theorem retired_checks_iff_witness:
  "(\<exists>p \<in> set sample_pages. apt_page_asset_id p = 2 \<and>
     dependency_fails sample_truth (apt_route_path p) (sample_checks ! 1))"
proof -
  have "(6::uuid) \<in> (\<Union>d \<in> set [\<lparr>rd_page_asset_id = 1, rd_page_check_ids = [5], rd_reason = ''missing_page''\<rparr>,
         \<lparr>rd_page_asset_id = 2, rd_page_check_ids = [6], rd_reason = ''missing_menu_chain''\<rparr>]. set (rd_page_check_ids d))"
    by simp
  then show ?thesis
    using retired_checks_iff [OF sample_decisions [of "\<lparr>qg_allow_retirement = True, qg_warning_payload = None\<rparr>"] _
        sample_distinct(1), of 6]
    by (auto simp: sample_checks_def sample_pages_def sample_truth_def)
qed

theorem check_retired_once_witness:
  "distinct (concat (map rd_page_check_ids
     (projr (reconcile_retirement_decisions sample_pages sample_checks sample_truth
        \<lparr>qg_allow_retirement = True, qg_warning_payload = None\<rparr>))))"
  using check_retired_once [OF sample_decisions [of "\<lparr>qg_allow_retirement = True, qg_warning_payload = None\<rparr>"]
      sample_distinct] by (simp add: sample_decisions)

lemma quality_gate_one: "QUALITY_GATE_MIN_SCORE \<le> 1"
  by code_simp

theorem retirement_needs_quality_witness:
  "\<exists>q. Some (1::rat) = Some q \<and> QUALITY_GATE_MIN_SCORE \<le> q"
proof -
  have "qg_allow_retirement (evaluate_retirement_quality_gate ''full'' False (Some 1) 1 0)"
    using quality_gate_one by (simp add: evaluate_retirement_quality_gate_def)
  from retirement_needs_quality [OF sample_decisions [OF this]] show ?thesis by simp
qed

end
