(* ===== verification/SemanticDiff.thy ===== *)
theory SemanticDiff
  imports PyData "HOL-Library.Multiset"
begin

section \<open>Semantic states and their difference\<close>

text \<open>
  asset\_compiler/current\_state\_diff.py: a page is reduced to a fingerprint of its route, title,
  menu chain and key elements; two snapshots differ when their fingerprints by route do. The
  constructors normalise what they are given; key elements become a sorted tuple without
  duplicates. \<open>ValueError\<close> and \<open>TypeError\<close> are messages on the left of a sum.
\<close>

record key_element =
  ke_kind :: string
  ke_role :: string
  ke_text :: string

text \<open>The order of the dataclass: its fields as a tuple.\<close>

definition key_element_order :: "key_element \<Rightarrow> string \<times> string \<times> string" where
  "key_element_order e = (ke_kind e, ke_role e, ke_text e)"

definition new_key_element :: "pyval \<Rightarrow> pyval \<Rightarrow> pyval \<Rightarrow> key_element" where
  "new_key_element kind role txt =
     \<lparr>ke_kind = normalize_text kind, ke_role = normalize_text role, ke_text = normalize_text txt\<rparr>"

datatype key_element_input = DescriptorInput key_element | MappingInput pydict | OtherInput

fun build_key_element_descriptor :: "key_element_input \<Rightarrow> string + key_element option" where
  "build_key_element_descriptor (DescriptorInput e) =
     Inr (if ke_kind e \<noteq> [] \<or> ke_role e \<noteq> [] \<or> ke_text e \<noteq> [] then Some e else None)"
| "build_key_element_descriptor (MappingInput d) =
     (let e = new_key_element (dget_or d ''kind'' (PStr [])) (dget_or d ''role'' (PStr []))
                (dget_or d ''text'' (PStr []))
      in Inr (if ke_kind e \<noteq> [] \<or> ke_role e \<noteq> [] \<or> ke_text e \<noteq> [] then Some e else None))"
| "build_key_element_descriptor OtherInput =
     Inl ''key elements must be mappings or KeyElementDescriptor instances''"

definition seen_step :: "key_element_input \<Rightarrow> key_element list \<Rightarrow> string + key_element list" where
  "seen_step element seen =
     (case build_key_element_descriptor element of
        Inl e \<Rightarrow> Inl e
      | Inr None \<Rightarrow> Inr seen
      | Inr (Some d) \<Rightarrow> Inr (List.insert d seen))"

definition normalize_key_elements :: "key_element_input list \<Rightarrow> string + key_element list" where
  "normalize_key_elements elements =
     (case loop_raises seen_step elements [] of
        Inl e \<Rightarrow> Inl e
      | Inr seen \<Rightarrow> Inr (sort_key key_element_order seen))"

record page_fingerprint =
  fp_route_path :: string
  fp_page_title :: string
  fp_menu_chain :: "string list"
  fp_key_elements :: "key_element list"

definition new_page_fingerprint ::
  "pyval \<Rightarrow> pyval \<Rightarrow> pyval list \<Rightarrow> key_element_input list \<Rightarrow> string + page_fingerprint" where
  "new_page_fingerprint route_path page_title menu_chain key_elements =
     (case normalize_key_elements key_elements of
        Inl e \<Rightarrow> Inl e
      | Inr elements \<Rightarrow>
          Inr \<lparr>fp_route_path = normalize_text route_path, fp_page_title = normalize_text page_title,
               fp_menu_chain = filter (\<lambda>l. l \<noteq> []) (map normalize_text menu_chain),
               fp_key_elements = elements\<rparr>)"

record semantic_diff =
  sd_added_routes :: "string set"
  sd_deleted_routes :: "string set"
  sd_changed_routes :: "string set"

definition has_changes :: "semantic_diff \<Rightarrow> bool" where
  "has_changes d \<longleftrightarrow> sd_added_routes d \<noteq> {} \<or> sd_deleted_routes d \<noteq> {} \<or> sd_changed_routes d \<noteq> {}"

definition index_step ::
  "page_fingerprint \<Rightarrow> (string \<times> page_fingerprint) list \<Rightarrow> string + (string \<times> page_fingerprint) list" where
  "index_step f index =
     (if fp_route_path f = [] then Inl ''route_path must be non-empty for all fingerprints''
      else if fp_route_path f \<in> fst ` set index
      then Inl (''duplicate fingerprint for route_path '' @ fp_route_path f)
      else Inr (AList.update (fp_route_path f) f index))"

definition index_by_route :: "page_fingerprint list \<Rightarrow> string + (string \<times> page_fingerprint) list" where
  "index_by_route fingerprints = loop_raises index_step fingerprints []"

definition compare_semantic_states ::
  "page_fingerprint list \<Rightarrow> page_fingerprint list \<Rightarrow> string + semantic_diff" where
  "compare_semantic_states active draft =
     (case index_by_route active of
        Inl e \<Rightarrow> Inl e
      | Inr active_by_route \<Rightarrow>
          (case index_by_route draft of
             Inl e \<Rightarrow> Inl e
           | Inr draft_by_route \<Rightarrow>
               Inr \<lparr>sd_added_routes = set (filter (\<lambda>r. r \<notin> fst ` set active_by_route) (map fst draft_by_route)),
                    sd_deleted_routes = set (filter (\<lambda>r. r \<notin> fst ` set draft_by_route) (map fst active_by_route)),
                    sd_changed_routes = set (filter (\<lambda>r. r \<in> fst ` set draft_by_route \<and>
                        map_of active_by_route r \<noteq> map_of draft_by_route r) (map fst active_by_route))\<rparr>))"

subsection \<open>The index\<close>

lemma index_step_Inr:
  "index_step f index = Inr index' \<longleftrightarrow> fp_route_path f \<noteq> [] \<and> fp_route_path f \<notin> fst ` set index \<and>
    index' = AList.update (fp_route_path f) f index"
  by (auto simp: index_step_def)

lemma update_new_key: "k \<notin> fst ` set d \<Longrightarrow> AList.update k v d = d @ [(k, v)]"
  by (induction d) auto

lemma index_by_route_eq:
  assumes "index_by_route fs = Inr index"
  shows "index = map (\<lambda>f. (fp_route_path f, f)) fs \<and> distinct (map fp_route_path fs) \<and>
    [] \<notin> fp_route_path ` set fs"
proof -
  have "loop_raises index_step fs acc = Inr index \<Longrightarrow> distinct (map fst acc) \<Longrightarrow>
      index = acc @ map (\<lambda>f. (fp_route_path f, f)) fs \<and>
      distinct (map fst acc @ map fp_route_path fs) \<and> [] \<notin> fp_route_path ` set fs" for acc
  proof (induction fs arbitrary: acc)
    case (Cons f fs)
    then obtain acc' where acc': "index_step f acc = Inr acc'" "loop_raises index_step fs acc' = Inr index"
      by (auto split: sum.splits)
    then have f: "fp_route_path f \<noteq> []" "fp_route_path f \<notin> fst ` set acc" "acc' = acc @ [(fp_route_path f, f)]"
      by (auto simp: index_step_Inr update_new_key)
    show ?case using Cons.IH [OF acc'(2)] Cons.prems(2) f by auto
  qed simp
  from this [of "[]"] show ?thesis using assms by (simp add: index_by_route_def)
qed

lemma index_by_route_ok:
  "distinct (map fp_route_path fs) \<Longrightarrow> [] \<notin> fp_route_path ` set fs \<Longrightarrow> \<exists>index. index_by_route fs = Inr index"
proof -
  have "distinct (map fst acc @ map fp_route_path fs) \<Longrightarrow> [] \<notin> fp_route_path ` set fs \<Longrightarrow>
      \<exists>index. loop_raises index_step fs acc = Inr index" for acc
  proof (induction fs arbitrary: acc)
    case (Cons f fs)
    then have "fp_route_path f \<notin> fst ` set acc" "fp_route_path f \<noteq> []" by auto
    then have "index_step f acc = Inr (acc @ [(fp_route_path f, f)])"
      by (simp add: index_step_Inr update_new_key)
    then show ?case using Cons by auto
  qed simp
  from this [of "[]"] show "distinct (map fp_route_path fs) \<Longrightarrow> [] \<notin> fp_route_path ` set fs \<Longrightarrow> ?thesis"
    by (simp add: index_by_route_def)
qed

lemma map_of_routes:
  "distinct (map fp_route_path fs) \<Longrightarrow>
    map_of (map (\<lambda>f. (fp_route_path f, f)) fs) r = Some f \<longleftrightarrow> f \<in> set fs \<and> fp_route_path f = r"
  by (auto simp: comp_def dest: map_of_SomeD intro!: map_of_is_SomeI)

lemma no_difference:
  "{r \<in> B. r \<notin> A} = {} \<and> {r \<in> A. r \<notin> B} = {} \<and> {r \<in> A. r \<in> B \<and> f r \<noteq> g r} = {} \<longleftrightarrow>
    A = B \<and> (\<forall>r \<in> A. f r = g r)"
  by blast

text \<open>C24: two states have no semantic difference exactly when they hold the same fingerprints, in
  whatever order their pages come.\<close>

theorem no_changes_iff_same_fingerprints:
  assumes "compare_semantic_states active draft = Inr d"
  shows "\<not> has_changes d \<longleftrightarrow> set active = set draft"
proof -
  let ?ix = "\<lambda>fs. map (\<lambda>f. (fp_route_path f, f)) fs"
  obtain ia ib where i: "index_by_route active = Inr ia" "index_by_route draft = Inr ib"
    using assms by (auto simp: compare_semantic_states_def split: sum.splits)
  note a = index_by_route_eq [OF i(1)] and b = index_by_route_eq [OF i(2)]
  have keys: "map fst (?ix fs) = map fp_route_path fs" for fs by simp
  have "d = \<lparr>sd_added_routes = {r \<in> fp_route_path ` set draft. r \<notin> fp_route_path ` set active},
      sd_deleted_routes = {r \<in> fp_route_path ` set active. r \<notin> fp_route_path ` set draft},
      sd_changed_routes = {r \<in> fp_route_path ` set active. r \<in> fp_route_path ` set draft \<and>
        map_of (?ix active) r \<noteq> map_of (?ix draft) r}\<rparr>"
    using assms i a b by (auto simp: compare_semantic_states_def image_image)
  then have d: "\<not> has_changes d \<longleftrightarrow> fp_route_path ` set active = fp_route_path ` set draft \<and>
      (\<forall>r \<in> fp_route_path ` set active. map_of (?ix active) r = map_of (?ix draft) r)"
    using no_difference [of "fp_route_path ` set draft" "fp_route_path ` set active" "map_of (?ix active)" "map_of (?ix draft)"]
    by (simp only: has_changes_def semantic_diff.simps de_Morgan_disj not_not)
  show ?thesis
  proof
    assume "\<not> has_changes d"
    note e = iffD1 [OF d this]
    note same = bspec [OF conjunct2 [OF e]]
    show "set active = set draft"
    proof (intro equalityI subsetI)
      fix f assume f: "f \<in> set active"
      then have "map_of (?ix active) (fp_route_path f) = Some f" using a by (simp add: map_of_routes)
      then have "map_of (?ix draft) (fp_route_path f) = Some f" using same [of "fp_route_path f"] f by simp
      then show "f \<in> set draft" using b by (simp add: map_of_routes)
    next
      fix f assume f: "f \<in> set draft"
      then have "map_of (?ix draft) (fp_route_path f) = Some f" using b by (simp add: map_of_routes)
      moreover have "fp_route_path f \<in> fp_route_path ` set active" unfolding conjunct1 [OF e] using f by (rule imageI)
      ultimately have "map_of (?ix active) (fp_route_path f) = Some f" using same [of "fp_route_path f"] by simp
      then show "f \<in> set active" using a by (simp add: map_of_routes)
    qed
  next
    assume s: "set active = set draft"
    have "map_of (?ix active) = map_of (?ix draft)"
      using a b s by (intro map_of_inject_set [THEN iffD2]) (auto simp: comp_def)
    then show "\<not> has_changes d" unfolding d s by simp
  qed
qed

theorem no_changes_iff_same_fingerprints_witness:
  "\<not> has_changes (projr (compare_semantic_states
     [\<lparr>fp_route_path = ''/a'', fp_page_title = [], fp_menu_chain = [], fp_key_elements = []\<rparr>,
      \<lparr>fp_route_path = ''/b'', fp_page_title = [], fp_menu_chain = [], fp_key_elements = []\<rparr>]
     [\<lparr>fp_route_path = ''/b'', fp_page_title = [], fp_menu_chain = [], fp_key_elements = []\<rparr>,
      \<lparr>fp_route_path = ''/a'', fp_page_title = [], fp_menu_chain = [], fp_key_elements = []\<rparr>]))"
proof -
  let ?a = "\<lparr>fp_route_path = ''/a'', fp_page_title = [], fp_menu_chain = [], fp_key_elements = []\<rparr>"
  let ?b = "\<lparr>fp_route_path = ''/b'', fp_page_title = [], fp_menu_chain = [], fp_key_elements = []\<rparr>"
  obtain d where d: "compare_semantic_states [?a, ?b] [?b, ?a] = Inr d"
    by (simp add: compare_semantic_states_def index_by_route_def index_step_def)
  from no_changes_iff_same_fingerprints [OF d] show ?thesis unfolding d by (simp add: insert_commute)
qed

subsection \<open>Key elements\<close>

lemma seen_loop:
  assumes "loop_raises seen_step es seen = Inr ks" "distinct seen"
  shows "distinct ks \<and> set ks = set seen \<union> {d. \<exists>e \<in> set es. build_key_element_descriptor e = Inr (Some d)}"
  using assms
proof (induction es arbitrary: seen)
  case (Cons e es)
  then obtain seen' where s: "seen_step e seen = Inr seen'" "loop_raises seen_step es seen' = Inr ks"
    by (auto split: sum.splits)
  then have "distinct seen' \<and> set seen' = set seen \<union> {d. build_key_element_descriptor e = Inr (Some d)}"
    using Cons.prems(2) by (auto simp: seen_step_def split: sum.splits option.splits)
  then show ?case using Cons.IH [OF s(2)] by auto
qed simp

lemma key_element_order_inj: "inj key_element_order"
  by (auto simp: inj_def key_element_order_def)

text \<open>The key elements of a fingerprint are a canonical form: they are strictly sorted, none of them
  is blank, and they depend only on which elements the page has, not on their order or on how
  often an element occurs.\<close>

theorem key_elements_canonical:
  assumes "normalize_key_elements es = Inr ks" "normalize_key_elements es' = Inr ks'"
    and "set es = set es'"
  shows "ks = ks' \<and> sorted (map key_element_order ks) \<and> distinct ks \<and>
    \<lparr>ke_kind = [], ke_role = [], ke_text = []\<rparr> \<notin> set ks"
proof -
  obtain u v where u: "loop_raises seen_step es [] = Inr u" "ks = sort_key key_element_order u"
    and v: "loop_raises seen_step es' [] = Inr v" "ks' = sort_key key_element_order v"
    using assms(1,2) by (auto simp: normalize_key_elements_def split: sum.splits)
  have du: "distinct u" "set u = {d. \<exists>e \<in> set es. build_key_element_descriptor e = Inr (Some d)}"
    and dv: "distinct v" "set v = set u"
    using seen_loop [OF u(1)] seen_loop [OF v(1)] assms(3) by simp_all
  have m: "mset u = mset v" using set_eq_iff_mset_eq_distinct [OF du(1) dv(1)] dv(2) by simp
  have same: "sort_key key_element_order u = ks'"
  proof (rule sort_key_inj_key_eq)
    show "mset u = mset ks'" using m by (simp add: v(2))
    show "inj_on key_element_order (set u)" using key_element_order_inj by (rule inj_on_subset) simp
    show "sorted (map key_element_order ks')" by (simp add: v(2))
  qed
  have "\<lparr>ke_kind = [], ke_role = [], ke_text = []\<rparr> \<notin> set u"
  proof -
    have "build_key_element_descriptor e \<noteq> Inr (Some \<lparr>ke_kind = [], ke_role = [], ke_text = []\<rparr>)" for e
      by (cases e) (auto simp: Let_def)
    then show ?thesis by (simp add: du(2))
  qed
  then have "sorted (map key_element_order ks)" "distinct ks" "\<lparr>ke_kind = [], ke_role = [], ke_text = []\<rparr> \<notin> set ks"
    using du(1) by (simp_all add: u(2))
  then show ?thesis using same u(2) by simp
qed

theorem key_elements_canonical_witness:
  "normalize_key_elements [DescriptorInput \<lparr>ke_kind = ''b'', ke_role = [], ke_text = []\<rparr>,
      DescriptorInput \<lparr>ke_kind = ''a'', ke_role = [], ke_text = []\<rparr>] =
   normalize_key_elements [DescriptorInput \<lparr>ke_kind = ''a'', ke_role = [], ke_text = []\<rparr>,
      DescriptorInput \<lparr>ke_kind = ''b'', ke_role = [], ke_text = []\<rparr>]"
proof -
  let ?a = "DescriptorInput \<lparr>ke_kind = ''a'', ke_role = [], ke_text = []\<rparr>"
  let ?b = "DescriptorInput \<lparr>ke_kind = ''b'', ke_role = [], ke_text = []\<rparr>"
  obtain ks ks' where k: "normalize_key_elements [?b, ?a] = Inr ks" "normalize_key_elements [?a, ?b] = Inr ks'"
    by (simp add: normalize_key_elements_def seen_step_def)
  from key_elements_canonical [OF k] show ?thesis unfolding k by (simp add: insert_commute)
qed

end
