(* ===== verification/PyJson.thy ===== *)
theory PyJson
  imports PyData
begin

section \<open>\<open>json.dumps\<close>\<close>

text \<open>
  The encoder of the standard library, with the options the code passes: \<open>ensure_ascii\<close>,
  \<open>sort_keys\<close> and the separators. Keys are texts; floats print as their \<open>repr()\<close>.
\<close>

record json_options =
  js_ensure_ascii :: bool
  js_sort_keys :: bool
  js_item_separator :: string
  js_key_separator :: string

definition json_u :: "nat \<Rightarrow> string" where
  "json_u n = [CHR 0x5C, CHR ''u''] @ map digit_char (hex_digits 4 n)"

definition json_char :: "bool \<Rightarrow> string \<Rightarrow> string" where
  "json_char ensure_ascii ch =
     (let n = code_point ch in
      if n = 34 \<or> n = 92 then CHR 0x5C # ch
      else if n = 10 then [CHR 0x5C, CHR ''n'']
      else if n = 13 then [CHR 0x5C, CHR ''r'']
      else if n = 9 then [CHR 0x5C, CHR ''t'']
      else if n = 12 then [CHR 0x5C, CHR ''f'']
      else if n = 8 then [CHR 0x5C, CHR ''b'']
      else if n < 32 then json_u n
      else if \<not> ensure_ascii \<or> n < 127 then ch
      else if n < 65536 then json_u n
      else json_u (55296 + (n - 65536) div 1024) @ json_u (56320 + (n - 65536) mod 1024))"

definition json_text :: "bool \<Rightarrow> string \<Rightarrow> string" where
  "json_text ensure_ascii s = CHR 0x22 # concat (map (json_char ensure_ascii) (py_chars s)) @ [CHR 0x22]"

fun json_dumps :: "json_options \<Rightarrow> pyval \<Rightarrow> string" where
  "json_dumps opts PNone = ''null''"
| "json_dumps opts (PBool b) = (if b then ''true'' else ''false'')"
| "json_dumps opts (PInt i) = int_str i"
| "json_dumps opts (PFloat x) = float_str x"
| "json_dumps opts (PStr s) = json_text (js_ensure_ascii opts) s"
| "json_dumps opts (PList xs) =
     ''['' @ join_with (js_item_separator opts) (map (json_dumps opts) xs) @ '']''"
| "json_dumps opts (PDict d) =
     (let items = map (\<lambda>(k, v). (k, json_dumps opts v)) d;
          sorted_items = (if js_sort_keys opts then sort_key fst items else items)
      in ''{'' @ join_with (js_item_separator opts)
           (map (\<lambda>(k, t). json_text (js_ensure_ascii opts) k @ js_key_separator opts @ t) sorted_items) @ ''}'')"

definition compact_json :: json_options where
  "compact_json = \<lparr>js_ensure_ascii = True, js_sort_keys = True, js_item_separator = '','', js_key_separator = '':''\<rparr>"

definition compact_unicode_json :: json_options where
  "compact_unicode_json =
     \<lparr>js_ensure_ascii = False, js_sort_keys = True, js_item_separator = '','', js_key_separator = '':''\<rparr>"

end
