(* ===== verification/SnapshotSwitch.thy ===== *)
theory SnapshotSwitch
  imports SemanticDiff PyJson Schema
begin

section \<open>The active snapshot of a system\<close>

text \<open>
  asset\_compiler/current\_state\_switch.py: a draft snapshot becomes the active one of its system when
  it is of high quality and differs semantically from the active one, whose facts are archived; else
  it is discarded. The function only flushes; its caller commits. A flush fails when two snapshots
  of a system are active, which a unique partial index of the table forbids. Keys and clock
  readings of the archived rows are given by the key of the row they copy.
\<close>

record switch_env =
  se_now :: datetime
  se_hist_id :: "uuid \<Rightarrow> uuid"
  se_archived_at :: "uuid \<Rightarrow> datetime"

record switch_result =
  sw_outcome :: string
  sw_active_snapshot_id :: "uuid option"
  sw_archived_snapshot_id :: "uuid option"

definition active_snapshot :: "crawl_snapshot \<Rightarrow> bool" where
  "active_snapshot c \<longleftrightarrow> cs_state c = ''active''"

text \<open>The index \<open>uq_crawl_snapshots_system_id_active\<close>.\<close>

definition unique_active :: "db \<Rightarrow> bool" where
  "unique_active d \<longleftrightarrow> distinct (map cs_system_id (filter active_snapshot (crawl_snapshots d)))"

definition flush_snapshots :: "db \<Rightarrow> string + db" where
  "flush_snapshots d =
     (if unique_active d then Inr d else Inl ''UNIQUE constraint failed: crawl_snapshots.system_id'')"

definition upd_snapshot :: "uuid \<Rightarrow> (crawl_snapshot \<Rightarrow> crawl_snapshot) \<Rightarrow> db \<Rightarrow> db" where
  "upd_snapshot i f d = d\<lparr>crawl_snapshots := upd_row cs_id i f (crawl_snapshots d)\<rparr>"

definition is_high_quality_snapshot :: "crawl_snapshot \<Rightarrow> bool" where
  "is_high_quality_snapshot c =
     (if cs_crawl_type c \<noteq> ''full'' then False
      else if cs_degraded c then False
      else case cs_quality_score c of None \<Rightarrow> False | Some q \<Rightarrow> fl (9 / 10) \<le> q)"

definition load_active_snapshot :: "uuid \<Rightarrow> uuid \<Rightarrow> db \<Rightarrow> crawl_snapshot option" where
  "load_active_snapshot system_id exclude_snapshot_id d =
     first_by (\<lambda>c. (desc_time (cs_activated_at c), - instant (cs_started_at c), - uint (cs_id c)))
       (filter (\<lambda>c. cs_system_id c = system_id \<and> active_snapshot c \<and> cs_id c \<noteq> exclude_snapshot_id)
          (crawl_snapshots d))"

subsection \<open>The semantic state of a snapshot\<close>

definition normalize_state_context :: "pydict option \<Rightarrow> string" where
  "normalize_state_context v =
     (case v of None \<Rightarrow> [] | Some d \<Rightarrow> if d = [] then [] else json_dumps compact_json (PDict d))"

definition build_element_semantic_text :: "page_element \<Rightarrow> string" where
  "build_element_semantic_text e =
     normalize_opt (pe_element_text e) @ ''|state='' @ normalize_opt (pe_state_signature e) @
     ''|context='' @ normalize_state_context (pe_state_context e)"

definition snapshot_pages :: "uuid \<Rightarrow> db \<Rightarrow> page list" where
  "snapshot_pages snapshot_id d = filter (\<lambda>p. pg_snapshot_id p = Some snapshot_id) (pages d)"

definition snapshot_menus :: "uuid \<Rightarrow> db \<Rightarrow> menu_node list" where
  "snapshot_menus snapshot_id d = filter (\<lambda>m. mn_snapshot_id m = snapshot_id) (menu_nodes d)"

definition snapshot_elements :: "uuid \<Rightarrow> db \<Rightarrow> page_element list" where
  "snapshot_elements snapshot_id d = filter (\<lambda>e. pe_snapshot_id e = snapshot_id) (page_elements d)"

definition page_fingerprint_of ::
  "(uuid \<times> menu_node list) list \<Rightarrow> (uuid \<times> page_element list) list \<Rightarrow> page \<Rightarrow> string + page_fingerprint" where
  "page_fingerprint_of menus_by_page elements_by_page p =
     new_page_fingerprint (PStr (pg_route_path p)) (of_opt_str (pg_page_title p))
       (map (\<lambda>m. PStr (mn_label m)) (filter (\<lambda>m. strip (mn_label m) \<noteq> []) (values_at menus_by_page (pg_id p))))
       (map (\<lambda>e. MappingInput
            [(''kind'', PStr (pe_element_type e)), (''role'', of_opt_str (pe_element_role e)),
             (''text'', PStr (build_element_semantic_text e))])
          (values_at elements_by_page (pg_id p)))"

definition load_snapshot_semantic_state :: "uuid \<Rightarrow> db \<Rightarrow> string + page_fingerprint list" where
  "load_snapshot_semantic_state snapshot_id d =
     (let page_rows = sort_key (\<lambda>p. (pg_route_path p, uint (pg_id p))) (snapshot_pages snapshot_id d);
          menus = sort_key (\<lambda>m. (uint (case mn_page_id m of None \<Rightarrow> 0 | Some i \<Rightarrow> i), mn_depth m,
                                  mn_sort_order m, uint (mn_id m)))
                    (filter (\<lambda>m. mn_page_id m \<noteq> None) (snapshot_menus snapshot_id d));
          elements = sort_key (\<lambda>e. (uint (pe_page_id e), pe_element_type e, uint (pe_id e)))
                       (snapshot_elements snapshot_id d);
          menus_by_page = group_by (map (\<lambda>m. (the (mn_page_id m), m)) menus);
          elements_by_page = group_by (map (\<lambda>e. (pe_page_id e, e)) elements)
      in collect_raises (page_fingerprint_of menus_by_page elements_by_page) page_rows)"

subsection \<open>The archive\<close>

definition archived_snapshot_row :: "switch_env \<Rightarrow> uuid \<Rightarrow> crawl_snapshot \<Rightarrow> crawl_snapshot_hist" where
  "archived_snapshot_row env draft_id c =
     \<lparr>csh_id = se_hist_id env (cs_id c), csh_snapshot_id = cs_id c, csh_system_id = cs_system_id c,
      csh_crawl_type = cs_crawl_type c, csh_framework_detected = cs_framework_detected c,
      csh_quality_score = cs_quality_score c, csh_degraded = cs_degraded c, csh_state = cs_state c,
      csh_source_active_snapshot_id = Some (cs_id c), csh_replaced_by_snapshot_id = Some draft_id,
      csh_archive_reason = Some ''semantic_change'', csh_activated_at = cs_activated_at c,
      csh_discarded_at = cs_discarded_at c, csh_failure_reason = cs_failure_reason c,
      csh_warning_messages = cs_warning_messages c, csh_structure_hash = cs_structure_hash c,
      csh_started_at = cs_started_at c, csh_finished_at = cs_finished_at c,
      csh_archived_at = se_archived_at env (cs_id c)\<rparr>"

definition archived_page :: "switch_env \<Rightarrow> page \<Rightarrow> page_hist" where
  "archived_page env p =
     \<lparr>pgh_id = se_hist_id env (pg_id p), pgh_page_id = pg_id p, pgh_system_id = pg_system_id p,
      pgh_snapshot_id = pg_snapshot_id p, pgh_route_path = pg_route_path p, pgh_page_title = pg_page_title p,
      pgh_page_summary = pg_page_summary p, pgh_keywords = pg_keywords p,
      pgh_discovery_sources = pg_discovery_sources p, pgh_entry_candidates = pg_entry_candidates p,
      pgh_context_constraints = pg_context_constraints p,
      pgh_navigation_diagnostics = pg_navigation_diagnostics p, pgh_crawled_at = pg_crawled_at p,
      pgh_archived_at = se_archived_at env (pg_id p)\<rparr>"

definition archived_menu_node :: "switch_env \<Rightarrow> menu_node \<Rightarrow> menu_node_hist" where
  "archived_menu_node env m =
     \<lparr>mnh_id = se_hist_id env (mn_id m), mnh_menu_node_id = mn_id m, mnh_system_id = mn_system_id m,
      mnh_snapshot_id = mn_snapshot_id m, mnh_parent_id = mn_parent_id m, mnh_page_id = mn_page_id m,
      mnh_label = mn_label m, mnh_route_path = mn_route_path m, mnh_depth = mn_depth m,
      mnh_sort_order = mn_sort_order m, mnh_playwright_locator = mn_playwright_locator m,
      mnh_discovery_sources = mn_discovery_sources m, mnh_entry_candidates = mn_entry_candidates m,
      mnh_context_constraints = mn_context_constraints m,
      mnh_archived_at = se_archived_at env (mn_id m)\<rparr>"

definition archived_page_element :: "switch_env \<Rightarrow> page_element \<Rightarrow> page_element_hist" where
  "archived_page_element env e =
     \<lparr>peh_id = se_hist_id env (pe_id e), peh_page_element_id = pe_id e, peh_system_id = pe_system_id e,
      peh_snapshot_id = pe_snapshot_id e, peh_page_id = pe_page_id e, peh_element_type = pe_element_type e,
      peh_element_role = pe_element_role e, peh_element_text = pe_element_text e,
      peh_attributes = pe_attributes e, peh_playwright_locator = pe_playwright_locator e,
      peh_state_signature = pe_state_signature e, peh_state_context = pe_state_context e,
      peh_locator_candidates = pe_locator_candidates e, peh_materialized_by = pe_materialized_by e,
      peh_navigation_diagnostics = pe_navigation_diagnostics e,
      peh_stability_score = pe_stability_score e, peh_usage_description = pe_usage_description e,
      peh_archived_at = se_archived_at env (pe_id e)\<rparr>"

definition archive_active_snapshot_facts :: "switch_env \<Rightarrow> uuid \<Rightarrow> db \<Rightarrow> string + db" where
  "archive_active_snapshot_facts env active_id d =
     flush_snapshots (d\<lparr>
       pages_hist := pages_hist d @
         map (archived_page env) (sort_key (\<lambda>p. uint (pg_id p)) (snapshot_pages active_id d)),
       menu_nodes_hist := menu_nodes_hist d @
         map (archived_menu_node env) (sort_key (\<lambda>m. uint (mn_id m)) (snapshot_menus active_id d)),
       page_elements_hist := page_elements_hist d @
         map (archived_page_element env) (sort_key (\<lambda>e. uint (pe_id e)) (snapshot_elements active_id d))\<rparr>)"

subsection \<open>The switch\<close>

definition discard_snapshot :: "switch_env \<Rightarrow> crawl_snapshot \<Rightarrow> crawl_snapshot" where
  "discard_snapshot env c = c\<lparr>cs_state := ''discarded'', cs_discarded_at := Some (se_now env)\<rparr>"

definition activate_snapshot :: "switch_env \<Rightarrow> crawl_snapshot \<Rightarrow> crawl_snapshot" where
  "activate_snapshot env c =
     c\<lparr>cs_state := ''active'', cs_activated_at := Some (se_now env), cs_discarded_at := None\<rparr>"

definition returning :: "switch_result \<Rightarrow> string + db \<Rightarrow> string + switch_result \<times> db" where
  "returning r x = map_sum id (Pair r) x"

text \<open>The draft differs from the active snapshot.\<close>

definition replace_active ::
  "switch_env \<Rightarrow> crawl_snapshot \<Rightarrow> crawl_snapshot \<Rightarrow> db \<Rightarrow> string + switch_result \<times> db" where
  "replace_active env active draft d =
     (let archived = archived_snapshot_row env (cs_id draft) active;
          d1 = d\<lparr>crawl_snapshots_hist := crawl_snapshots_hist d @ [archived]\<rparr>
      in case archive_active_snapshot_facts env (cs_id active) d1 of
           Inl e \<Rightarrow> Inl e
         | Inr d2 \<Rightarrow>
             (case flush_snapshots (upd_snapshot (cs_id active) (discard_snapshot env) d2) of
                Inl e \<Rightarrow> Inl e
              | Inr d3 \<Rightarrow>
                  returning \<lparr>sw_outcome = ''promoted'', sw_active_snapshot_id = Some (cs_id draft),
                             sw_archived_snapshot_id = Some (csh_id archived)\<rparr>
                    (flush_snapshots (upd_snapshot (cs_id draft) (activate_snapshot env) d3))))"

definition apply_current_state_switch ::
  "switch_env \<Rightarrow> uuid \<Rightarrow> db \<Rightarrow> string + switch_result \<times> db" where
  "apply_current_state_switch env draft_snapshot_id d =
     (case find_row cs_id draft_snapshot_id (crawl_snapshots d) of
        None \<Rightarrow> Inl (''crawl snapshot '' @ uuid_str draft_snapshot_id @ '' not found'')
      | Some draft \<Rightarrow>
          if active_snapshot draft then
            Inr (\<lparr>sw_outcome = ''promoted'', sw_active_snapshot_id = Some (cs_id draft),
                  sw_archived_snapshot_id = None\<rparr>, d)
          else if cs_state draft \<noteq> ''draft'' then
            Inl (''crawl snapshot '' @ uuid_str draft_snapshot_id @ '' must be draft or active, got '' @ cs_state draft)
          else if \<not> is_high_quality_snapshot draft then
            returning \<lparr>sw_outcome = ''discarded_low_quality'', sw_active_snapshot_id = None,
                       sw_archived_snapshot_id = None\<rparr>
              (flush_snapshots (upd_snapshot (cs_id draft) (discard_snapshot env) d))
          else case load_active_snapshot (cs_system_id draft) (cs_id draft) d of
            None \<Rightarrow>
              returning \<lparr>sw_outcome = ''promoted'', sw_active_snapshot_id = Some (cs_id draft),
                         sw_archived_snapshot_id = None\<rparr>
                (flush_snapshots (upd_snapshot (cs_id draft) (activate_snapshot env) d))
          | Some active \<Rightarrow>
              (case load_snapshot_semantic_state (cs_id active) d of
                 Inl e \<Rightarrow> Inl e
               | Inr active_state \<Rightarrow>
                   (case load_snapshot_semantic_state (cs_id draft) d of
                      Inl e \<Rightarrow> Inl e
                    | Inr draft_state \<Rightarrow>
                        (case compare_semantic_states active_state draft_state of
                           Inl e \<Rightarrow> Inl e
                         | Inr diff \<Rightarrow>
                             if \<not> has_changes diff then
                               returning \<lparr>sw_outcome = ''discarded_no_change'',
                                          sw_active_snapshot_id = Some (cs_id active),
                                          sw_archived_snapshot_id = None\<rparr>
                                 (flush_snapshots (upd_snapshot (cs_id draft) (discard_snapshot env) d))
                             else replace_active env active draft d))))"

subsection \<open>Rows and the index\<close>

abbreviation snapshot_ids :: "db \<Rightarrow> uuid list" where
  "snapshot_ids d \<equiv> map cs_id (crawl_snapshots d)"

lemma flush_snapshots_Inr [simp]: "flush_snapshots d = Inr d' \<longleftrightarrow> unique_active d \<and> d' = d"
  by (auto simp: flush_snapshots_def)

lemma cs_id_discard [simp]: "cs_id (discard_snapshot env c) = cs_id c"
  and cs_system_id_discard [simp]: "cs_system_id (discard_snapshot env c) = cs_system_id c"
  and active_discard [simp]: "\<not> active_snapshot (discard_snapshot env c)"
  by (simp_all add: discard_snapshot_def active_snapshot_def)

lemma cs_id_activate [simp]: "cs_id (activate_snapshot env c) = cs_id c"
  and cs_system_id_activate [simp]: "cs_system_id (activate_snapshot env c) = cs_system_id c"
  and active_activate [simp]: "active_snapshot (activate_snapshot env c)"
  by (simp_all add: activate_snapshot_def active_snapshot_def)

lemma crawl_snapshots_upd [simp]:
  "crawl_snapshots (upd_snapshot i f d) = upd_row cs_id i f (crawl_snapshots d)"
  by (simp add: upd_snapshot_def)

lemma snapshot_ids_upd: "(\<And>c. cs_id (f c) = cs_id c) \<Longrightarrow> snapshot_ids (upd_snapshot i f d) = snapshot_ids d"
  by (simp add: map_key_upd_row)

lemma unique_active_cong: "crawl_snapshots d' = crawl_snapshots d \<Longrightarrow> unique_active d' = unique_active d"
  by (simp add: unique_active_def)

lemma unique_active_iff:
  assumes "distinct (snapshot_ids d)"
  shows "unique_active d \<longleftrightarrow>
    (\<forall>a \<in> set (crawl_snapshots d). \<forall>b \<in> set (crawl_snapshots d).
       active_snapshot a \<longrightarrow> active_snapshot b \<longrightarrow> cs_system_id a = cs_system_id b \<longrightarrow> cs_id a = cs_id b)"
proof -
  have i: "inj_on cs_id (set (crawl_snapshots d))" "distinct (crawl_snapshots d)"
    using assms by (simp_all add: distinct_map)
  show ?thesis
    by (simp add: unique_active_def distinct_map inj_on_def i(2)) (use i(1) in \<open>auto dest: inj_onD\<close>)
qed

lemma unique_activeD:
  assumes "unique_active d" "distinct (snapshot_ids d)"
    and "a \<in> set (crawl_snapshots d)" "b \<in> set (crawl_snapshots d)"
    and "active_snapshot a" "active_snapshot b" "cs_system_id a = cs_system_id b"
  shows "cs_id a = cs_id b"
  using assms unfolding unique_active_iff [OF assms(2)] by blast

lemma unique_after_discard:
  assumes "unique_active d"
  shows "unique_active (upd_snapshot i (discard_snapshot env) d)"
proof -
  have "filter active_snapshot (upd_row cs_id i (discard_snapshot env) rows) =
      filter (\<lambda>c. cs_id c \<noteq> i) (filter active_snapshot rows)" for rows
    by (induction rows) (simp_all add: upd_row_Cons)
  then show ?thesis using assms by (simp only: unique_active_def crawl_snapshots_upd distinct_map_filter)
qed

lemma unique_after_activate:
  assumes u: "unique_active d" and d: "distinct (snapshot_ids d)"
    and draft: "find_row cs_id i (crawl_snapshots d) = Some draft"
    and others: "\<And>a. a \<in> set (crawl_snapshots d) \<Longrightarrow> active_snapshot a \<Longrightarrow> cs_system_id a = cs_system_id draft \<Longrightarrow> cs_id a = i"
  shows "unique_active (upd_snapshot i (activate_snapshot env) d)"
proof -
  let ?d' = "upd_snapshot i (activate_snapshot env) d"
  have dist: "distinct (snapshot_ids ?d')" using d by (simp only: snapshot_ids_upd cs_id_activate)
  have row: "a \<in> set (crawl_snapshots d) \<and> cs_id a \<noteq> i \<or> cs_id a = i \<and> cs_system_id a = cs_system_id draft"
    if a: "a \<in> set (crawl_snapshots ?d')" for a
  proof -
    obtain c where c: "c \<in> set (crawl_snapshots d)" "a = (if cs_id c = i then activate_snapshot env c else c)"
      using a by (auto simp: upd_row_def)
    then show ?thesis using find_row_distinct [OF d c(1)] draft by (cases "cs_id c = i") simp_all
  qed
  have "cs_id a = cs_id b" if "a \<in> set (crawl_snapshots ?d')" "b \<in> set (crawl_snapshots ?d')"
      "active_snapshot a" "active_snapshot b" "cs_system_id a = cs_system_id b" for a b
    using row [OF that(1)] row [OF that(2)] that(3-5) others [of a] others [of b] unique_activeD [OF u d, of a b] by metis
  then show ?thesis unfolding unique_active_iff [OF dist] by blast
qed

lemma load_active_None:
  "load_active_snapshot s x d = None \<longleftrightarrow>
    (\<forall>a \<in> set (crawl_snapshots d). cs_system_id a = s \<longrightarrow> active_snapshot a \<longrightarrow> cs_id a = x)"
  by (auto simp: load_active_snapshot_def filter_empty_conv)

lemma load_active_Some:
  assumes "load_active_snapshot s x d = Some a"
  shows "a \<in> set (crawl_snapshots d)" "cs_system_id a = s" "active_snapshot a" "cs_id a \<noteq> x"
  using first_by_Some(1) [OF assms [unfolded load_active_snapshot_def]] by auto

subsection \<open>The promotion of a changed draft\<close>

text \<open>The database with the facts of snapshot \<open>a\<close> archived, and after the promotion that replaces it.\<close>

definition archived_db :: "switch_env \<Rightarrow> uuid \<Rightarrow> crawl_snapshot \<Rightarrow> db \<Rightarrow> db" where
  "archived_db env i a d =
     d\<lparr>crawl_snapshots_hist := crawl_snapshots_hist d @ [archived_snapshot_row env i a],
       pages_hist := pages_hist d @
         map (archived_page env) (sort_key (\<lambda>p. uint (pg_id p)) (snapshot_pages (cs_id a) d)),
       menu_nodes_hist := menu_nodes_hist d @
         map (archived_menu_node env) (sort_key (\<lambda>m. uint (mn_id m)) (snapshot_menus (cs_id a) d)),
       page_elements_hist := page_elements_hist d @
         map (archived_page_element env) (sort_key (\<lambda>e. uint (pe_id e)) (snapshot_elements (cs_id a) d))\<rparr>"

definition promoted_db :: "switch_env \<Rightarrow> uuid \<Rightarrow> crawl_snapshot \<Rightarrow> db \<Rightarrow> db" where
  "promoted_db env i a d =
     upd_snapshot i (activate_snapshot env) (upd_snapshot (cs_id a) (discard_snapshot env) (archived_db env i a d))"

lemma crawl_snapshots_archived [simp]: "crawl_snapshots (archived_db env i a d) = crawl_snapshots d"
  by (simp add: archived_db_def)

lemma archive_facts_ok:
  assumes "unique_active d"
  shows "archive_active_snapshot_facts env (cs_id a)
      (d\<lparr>crawl_snapshots_hist := crawl_snapshots_hist d @ [archived_snapshot_row env i a]\<rparr>) =
    Inr (archived_db env i a d)"
  using assms
  by (simp add: archive_active_snapshot_facts_def flush_snapshots_def archived_db_def unique_active_def
      snapshot_pages_def snapshot_menus_def snapshot_elements_def)

lemma unique_after_replacement:
  assumes "unique_active d" "distinct (snapshot_ids d)"
    and draft: "find_row cs_id i (crawl_snapshots d) = Some draft"
    and a: "load_active_snapshot (cs_system_id draft) i d = Some a"
  shows "unique_active (upd_snapshot (cs_id a) (discard_snapshot env) (archived_db env i a d))"
    and "unique_active (promoted_db env i a d)"
proof -
  let ?d1 = "archived_db env i a d" let ?d2 = "upd_snapshot (cs_id a) (discard_snapshot env) ?d1"
  note l = load_active_Some [OF a]
  have u1: "unique_active ?d1" "distinct (snapshot_ids ?d1)"
    using assms(1,2) by (simp_all add: unique_active_def)
  show u2: "unique_active ?d2" using unique_after_discard [OF u1(1)] .
  have d2: "find_row cs_id i (crawl_snapshots ?d2) = Some draft"
    using draft l(4) by (simp add: find_upd_row)
  have ids2: "distinct (snapshot_ids ?d2)" using u1(2) by (simp only: snapshot_ids_upd cs_id_discard)
  have others: "cs_id c = i" if c: "c \<in> set (crawl_snapshots ?d2)" "active_snapshot c"
      "cs_system_id c = cs_system_id draft" for c
  proof -
    from c have "c \<in> set (crawl_snapshots d)" "cs_id c \<noteq> cs_id a"
      by (auto simp: upd_row_def split: if_splits)
    moreover have "cs_id c = cs_id a"
      using unique_activeD [OF assms(1,2) calculation(1) l(1) c(2) l(3)] l(2) c(3) by simp
    ultimately show ?thesis by simp
  qed
  show "unique_active (promoted_db env i a d)"
    unfolding promoted_db_def by (rule unique_after_activate [OF u2 ids2 d2 others])
qed

lemma replace_active_ok:
  assumes "unique_active d" "distinct (snapshot_ids d)"
    and draft: "find_row cs_id i (crawl_snapshots d) = Some draft"
    and a: "load_active_snapshot (cs_system_id draft) i d = Some a"
  shows "replace_active env a draft d =
    Inr (\<lparr>sw_outcome = ''promoted'', sw_active_snapshot_id = Some i,
          sw_archived_snapshot_id = Some (se_hist_id env (cs_id a))\<rparr>, promoted_db env i a d)"
proof -
  have i: "cs_id draft = i" using draft by (rule find_row_Some_key)
  have h: "csh_id (archived_snapshot_row env i a) = se_hist_id env (cs_id a)"
    by (simp add: archived_snapshot_row_def)
  show ?thesis
    using unique_after_replacement [OF assms, of env]
    by (simp add: replace_active_def archive_facts_ok assms(1) flush_snapshots_def returning_def i h promoted_db_def)
qed

lemma switch_cases:
  assumes "apply_current_state_switch env i d = Inr (r, d')" "unique_active d" "distinct (snapshot_ids d)"
  obtains (already) draft where "find_row cs_id i (crawl_snapshots d) = Some draft" "active_snapshot draft"
      "r = \<lparr>sw_outcome = ''promoted'', sw_active_snapshot_id = Some i, sw_archived_snapshot_id = None\<rparr>" "d' = d"
  | (discarded) draft where "find_row cs_id i (crawl_snapshots d) = Some draft" "cs_state draft = ''draft''"
      "sw_outcome r \<noteq> ''promoted''" "sw_archived_snapshot_id r = None"
      "d' = upd_snapshot i (discard_snapshot env) d"
  | (first) draft where "find_row cs_id i (crawl_snapshots d) = Some draft" "cs_state draft = ''draft''"
      "load_active_snapshot (cs_system_id draft) i d = None" "is_high_quality_snapshot draft"
      "r = \<lparr>sw_outcome = ''promoted'', sw_active_snapshot_id = Some i, sw_archived_snapshot_id = None\<rparr>"
      "d' = upd_snapshot i (activate_snapshot env) d"
  | (replaced) draft a where "find_row cs_id i (crawl_snapshots d) = Some draft" "cs_state draft = ''draft''"
      "load_active_snapshot (cs_system_id draft) i d = Some a" "is_high_quality_snapshot draft"
      "r = \<lparr>sw_outcome = ''promoted'', sw_active_snapshot_id = Some i,
            sw_archived_snapshot_id = Some (se_hist_id env (cs_id a))\<rparr>"
      "d' = promoted_db env i a d"
proof -
  obtain draft where draft: "find_row cs_id i (crawl_snapshots d) = Some draft"
    using assms(1) by (auto simp: apply_current_state_switch_def split: option.splits)
  have i: "cs_id draft = i" using draft by (rule find_row_Some_key)
  show thesis
  proof (cases "active_snapshot draft")
    case True
    then show thesis using already [OF draft True] assms(1) draft i by (simp add: apply_current_state_switch_def)
  next
    case inactive: False
    then have state: "cs_state draft = ''draft''"
      using assms(1) draft by (auto simp: apply_current_state_switch_def split: if_splits)
    show thesis
    proof (cases "is_high_quality_snapshot draft")
      case False
      then show thesis
        using discarded [OF draft state] assms(1) draft i inactive state
        by (auto simp: apply_current_state_switch_def returning_def flush_snapshots_def split: if_splits)
    next
      case True
      show thesis
      proof (cases "load_active_snapshot (cs_system_id draft) i d")
        case None
        then show thesis
          using first [OF draft state None True] assms(1) draft i inactive state True
          by (auto simp: apply_current_state_switch_def returning_def flush_snapshots_def split: if_splits)
      next
        case (Some a)
        then have "replace_active env a draft d = Inr (r, d') \<or>
            sw_outcome r \<noteq> ''promoted'' \<and> sw_archived_snapshot_id r = None \<and> d' = upd_snapshot i (discard_snapshot env) d"
          using assms(1) draft i inactive state True
          by (auto simp: apply_current_state_switch_def returning_def flush_snapshots_def
              split: if_splits sum.splits)
        then show thesis
          using replaced [OF draft state Some True] discarded [OF draft state]
            replace_active_ok [OF assms(2,3) draft, unfolded i, OF Some] by auto
      qed
    qed
  qed
qed

subsection \<open>Correctness\<close>

lemma switch_keeps_index:
  assumes "apply_current_state_switch env i d = Inr (r, d')" "unique_active d" "distinct (snapshot_ids d)"
  shows "unique_active d' \<and> snapshot_ids d' = snapshot_ids d"
  using assms
proof (cases rule: switch_cases)
  case already
  then show ?thesis using assms by simp
next
  case discarded
  then show ?thesis using unique_after_discard [OF assms(2)] by (simp add: map_key_upd_row)
next
  case (first draft)
  have "unique_active d'"
    unfolding first(6) by (rule unique_after_activate [OF assms(2,3) first(1)]) (use first(3) load_active_None in blast)
  then show ?thesis by (simp add: first(6) map_key_upd_row)
next
  case (replaced draft a)
  then show ?thesis
    using unique_after_replacement(2) [OF assms(2,3) replaced(1,3)]
    by (simp add: map_key_upd_row) (simp add: promoted_db_def map_key_upd_row)
qed

lemma switch_raises:
  assumes "unique_active d" "distinct (snapshot_ids d)" and raises: "apply_current_state_switch env i d = Inl e"
  shows "(case find_row cs_id i (crawl_snapshots d) of
           None \<Rightarrow> e = ''crawl snapshot '' @ uuid_str i @ '' not found''
         | Some draft \<Rightarrow>
             cs_state draft \<notin> {''draft'', ''active''} \<or>
             (\<exists>a. load_active_snapshot (cs_system_id draft) i d = Some a \<and>
               (load_snapshot_semantic_state (cs_id a) d = Inl e \<or>
                load_snapshot_semantic_state i d = Inl e \<or>
                (\<exists>u v. load_snapshot_semantic_state (cs_id a) d = Inr u \<and>
                   load_snapshot_semantic_state i d = Inr v \<and> compare_semantic_states u v = Inl e))))"
proof -
  note Inl = raises
  show ?thesis
  proof (cases "find_row cs_id i (crawl_snapshots d)")
    case None
    then show ?thesis using Inl by (simp add: apply_current_state_switch_def)
  next
    case (Some draft)
    note i = find_row_Some_key [OF Some]
    show ?thesis
    proof (cases "cs_state draft \<notin> {''draft'', ''active''}")
      case False
      then have state: "cs_state draft = ''draft''" "\<not> active_snapshot draft"
        using Inl Some i by (auto simp: apply_current_state_switch_def active_snapshot_def)
      have flushes: "flush_snapshots (upd_snapshot i (discard_snapshot env) d) =
          Inr (upd_snapshot i (discard_snapshot env) d)"
        using unique_after_discard [OF assms(1)] by (simp add: flush_snapshots_def)
      have q: "is_high_quality_snapshot draft"
        using Inl Some i state flushes
        by (cases "is_high_quality_snapshot draft")
          (auto simp: apply_current_state_switch_def returning_def split: sum.splits)
      show ?thesis
      proof (cases "load_active_snapshot (cs_system_id draft) i d")
        case None
        have "unique_active (upd_snapshot i (activate_snapshot env) d)"
          by (rule unique_after_activate [OF assms(1,2) Some]) (use None load_active_None in blast)
        then show ?thesis
          using Inl Some i state q None
          by (simp add: apply_current_state_switch_def returning_def flush_snapshots_def)
      next
        case a: (Some a)
        from Inl Some i state q a flushes replace_active_ok [OF assms(1,2) Some a]
        show ?thesis
          by (auto simp: apply_current_state_switch_def returning_def flush_snapshots_def
              split: sum.splits if_splits)
      qed
    qed (use Inl Some in simp)
  qed
qed

text \<open>C22: from a database with at most one active snapshot per system the switch never hits the unique
  index: it either succeeds and the index still holds, or it fails because the snapshot is missing,
  is neither draft nor active, or because the pages of one of the two snapshots have no semantic
  state (an empty or a duplicate route).\<close>

theorem switch_respects_index:
  assumes "unique_active d" "distinct (snapshot_ids d)"
  shows "case apply_current_state_switch env i d of
      Inr (r, d') \<Rightarrow> unique_active d' \<and> snapshot_ids d' = snapshot_ids d
    | Inl e \<Rightarrow>
        (case find_row cs_id i (crawl_snapshots d) of
           None \<Rightarrow> e = ''crawl snapshot '' @ uuid_str i @ '' not found''
         | Some draft \<Rightarrow>
             cs_state draft \<notin> {''draft'', ''active''} \<or>
             (\<exists>a. load_active_snapshot (cs_system_id draft) i d = Some a \<and>
               (load_snapshot_semantic_state (cs_id a) d = Inl e \<or>
                load_snapshot_semantic_state i d = Inl e \<or>
                (\<exists>u v. load_snapshot_semantic_state (cs_id a) d = Inr u \<and>
                   load_snapshot_semantic_state i d = Inr v \<and> compare_semantic_states u v = Inl e))))"
  using switch_keeps_index [OF _ assms] switch_raises [OF assms]
  by (cases "apply_current_state_switch env i d") auto

text \<open>After a successful switch the rows of the snapshots are those before it, except that the
  draft is active with this activation time when it was promoted and discarded otherwise, and that
  a promotion discards the snapshot of the system that was active: no other snapshot changes.\<close>

theorem switch_changes_only_its_system:
  assumes "apply_current_state_switch env i d = Inr (r, d')" "unique_active d" "distinct (snapshot_ids d)"
  shows "\<exists>draft. find_row cs_id i (crawl_snapshots d) = Some draft \<and>
    crawl_snapshots d' =
      map (\<lambda>c. if cs_id c = i then
                 (if sw_outcome r \<noteq> ''promoted'' then discard_snapshot env c
                  else if active_snapshot c then c else activate_snapshot env c)
               else if sw_outcome r = ''promoted'' \<and> active_snapshot c \<and> cs_system_id c = cs_system_id draft
               then discard_snapshot env c else c) (crawl_snapshots d)"
proof -
  have only: "c = draft" if "c \<in> set (crawl_snapshots d)" "cs_id c = i"
      "find_row cs_id i (crawl_snapshots d) = Some draft" for c draft
    using find_row_distinct [OF assms(3) that(1)] that(2,3) by simp
  from assms show ?thesis
  proof (cases rule: switch_cases)
    case (already draft)
    have others: "cs_id c = i"
      if "c \<in> set (crawl_snapshots d)" "active_snapshot c" "cs_system_id c = cs_system_id draft" for c
      using unique_activeD [OF assms(2,3) that(1) find_row_Some_set [OF already(1)] that(2) already(2)] that(3)
        find_row_Some_key [OF already(1)] by simp
    have act: "active_snapshot c" if "c \<in> set (crawl_snapshots d)" "cs_id c = i" for c
      using only [OF that already(1)] already(2) by simp
    have "(if cs_id c = i then
             (if sw_outcome r \<noteq> ''promoted'' then discard_snapshot env c
              else if active_snapshot c then c else activate_snapshot env c)
           else if sw_outcome r = ''promoted'' \<and> active_snapshot c \<and> cs_system_id c = cs_system_id draft
           then discard_snapshot env c else c) = c"
      if "c \<in> set (crawl_snapshots d)" for c
      using others [OF that] act [OF that] already(3) by (cases "cs_id c = i") auto
    then show ?thesis
      unfolding already(4) by (intro exI [of _ draft] conjI already(1) map_idI [symmetric])
  next
    case (discarded draft)
    then show ?thesis by (simp add: upd_row_def)
  next
    case (first draft)
    have "\<not> (active_snapshot c \<and> cs_system_id c = cs_system_id draft)"
      if "c \<in> set (crawl_snapshots d)" "cs_id c \<noteq> i" for c
      using first(3) that load_active_None by blast
    moreover have "\<not> active_snapshot c" if "c \<in> set (crawl_snapshots d)" "cs_id c = i" for c
      using only [OF that first(1)] first(2) by (simp add: active_snapshot_def)
    ultimately show ?thesis using first by (simp add: upd_row_def) blast
  next
    case (replaced draft a)
    note l = load_active_Some [OF replaced(3)]
    have "active_snapshot c \<and> cs_system_id c = cs_system_id draft \<longleftrightarrow> cs_id c = cs_id a"
      if c: "c \<in> set (crawl_snapshots d)" for c
    proof
      assume "active_snapshot c \<and> cs_system_id c = cs_system_id draft"
      then show "cs_id c = cs_id a" using unique_activeD [OF assms(2,3) c l(1) _ l(3)] l(2) by simp
    next
      assume "cs_id c = cs_id a"
      then have "c = a" using find_row_distinct [OF assms(3) c] find_row_distinct [OF assms(3) l(1)]
        by (metis option.inject)
      then show "active_snapshot c \<and> cs_system_id c = cs_system_id draft" using l by simp
    qed
    moreover have "\<not> active_snapshot c" if "c \<in> set (crawl_snapshots d)" "cs_id c = i" for c
      using only [OF that replaced(1)] replaced(2) by (simp add: active_snapshot_def)
    ultimately show ?thesis
      using replaced(1,5,6) l(4) by (simp add: promoted_db_def upd_row_def)
  qed
qed

subsection \<open>What the archive keeps\<close>

text \<open>The row that an archived row was copied from.\<close>

definition restored_snapshot :: "crawl_snapshot_hist \<Rightarrow> crawl_snapshot" where
  "restored_snapshot h =
     \<lparr>cs_id = csh_snapshot_id h, cs_system_id = csh_system_id h,
      cs_crawl_type = csh_crawl_type h, cs_framework_detected = csh_framework_detected h,
      cs_quality_score = csh_quality_score h, cs_degraded = csh_degraded h, cs_state = csh_state h,
      cs_activated_at = csh_activated_at h, cs_discarded_at = csh_discarded_at h,
      cs_failure_reason = csh_failure_reason h, cs_warning_messages = csh_warning_messages h,
      cs_structure_hash = csh_structure_hash h, cs_started_at = csh_started_at h,
      cs_finished_at = csh_finished_at h\<rparr>"

definition restored_page :: "page_hist \<Rightarrow> page" where
  "restored_page h =
     \<lparr>pg_id = pgh_page_id h, pg_system_id = pgh_system_id h, pg_snapshot_id = pgh_snapshot_id h,
      pg_route_path = pgh_route_path h, pg_page_title = pgh_page_title h,
      pg_page_summary = pgh_page_summary h, pg_keywords = pgh_keywords h,
      pg_discovery_sources = pgh_discovery_sources h, pg_entry_candidates = pgh_entry_candidates h,
      pg_context_constraints = pgh_context_constraints h,
      pg_navigation_diagnostics = pgh_navigation_diagnostics h, pg_crawled_at = pgh_crawled_at h\<rparr>"

definition restored_menu_node :: "menu_node_hist \<Rightarrow> menu_node" where
  "restored_menu_node h =
     \<lparr>mn_id = mnh_menu_node_id h, mn_system_id = mnh_system_id h,
      mn_snapshot_id = mnh_snapshot_id h, mn_parent_id = mnh_parent_id h, mn_page_id = mnh_page_id h,
      mn_label = mnh_label h, mn_route_path = mnh_route_path h, mn_depth = mnh_depth h,
      mn_sort_order = mnh_sort_order h, mn_playwright_locator = mnh_playwright_locator h,
      mn_discovery_sources = mnh_discovery_sources h, mn_entry_candidates = mnh_entry_candidates h,
      mn_context_constraints = mnh_context_constraints h\<rparr>"

definition restored_page_element :: "page_element_hist \<Rightarrow> page_element" where
  "restored_page_element h =
     \<lparr>pe_id = peh_page_element_id h, pe_system_id = peh_system_id h,
      pe_snapshot_id = peh_snapshot_id h, pe_page_id = peh_page_id h,
      pe_element_type = peh_element_type h, pe_element_role = peh_element_role h,
      pe_element_text = peh_element_text h, pe_attributes = peh_attributes h,
      pe_playwright_locator = peh_playwright_locator h, pe_state_signature = peh_state_signature h,
      pe_state_context = peh_state_context h, pe_locator_candidates = peh_locator_candidates h,
      pe_materialized_by = peh_materialized_by h,
      pe_navigation_diagnostics = peh_navigation_diagnostics h,
      pe_stability_score = peh_stability_score h, pe_usage_description = peh_usage_description h\<rparr>"

lemma restored_simps [simp]:
  "restored_snapshot (archived_snapshot_row env i c) = c"
  "restored_page (archived_page env p) = p"
  "restored_menu_node (archived_menu_node env m) = m"
  "restored_page_element (archived_page_element env e) = e"
  by (simp_all add: restored_snapshot_def archived_snapshot_row_def restored_page_def archived_page_def
      restored_menu_node_def archived_menu_node_def restored_page_element_def archived_page_element_def)

lemma restored_comps [simp]:
  "restored_page \<circ> archived_page env = id"
  "restored_menu_node \<circ> archived_menu_node env = id"
  "restored_page_element \<circ> archived_page_element env = id"
  by (simp_all add: fun_eq_iff)

text \<open>C23: the facts of a replaced snapshot are archived completely: its row, still active and naming its
  successor, and its pages, menu nodes and elements are appended to the archive, from which each of
  them can be read back as it was. Any other outcome archives nothing, and no outcome touches the
  facts themselves.\<close>

theorem replaced_facts_archived:
  assumes "apply_current_state_switch env i d = Inr (r, d')" "unique_active d" "distinct (snapshot_ids d)"
  shows "(case sw_archived_snapshot_id r of
      None \<Rightarrow> crawl_snapshots_hist d' = crawl_snapshots_hist d \<and> pages_hist d' = pages_hist d \<and>
        menu_nodes_hist d' = menu_nodes_hist d \<and> page_elements_hist d' = page_elements_hist d
    | Some h \<Rightarrow> \<exists>draft a row ps ms es. find_row cs_id i (crawl_snapshots d) = Some draft \<and>
        a \<in> set (crawl_snapshots d) \<and> cs_state a = ''active'' \<and> cs_id a \<noteq> i \<and>
        cs_system_id a = cs_system_id draft \<and>
        crawl_snapshots_hist d' = crawl_snapshots_hist d @ [row] \<and> restored_snapshot row = a \<and>
        csh_id row = h \<and> csh_source_active_snapshot_id row = Some (cs_id a) \<and>
        csh_replaced_by_snapshot_id row = Some i \<and>
        pages_hist d' = pages_hist d @ ps \<and>
        mset (map restored_page ps) = mset (filter (\<lambda>p. pg_snapshot_id p = Some (cs_id a)) (pages d)) \<and>
        menu_nodes_hist d' = menu_nodes_hist d @ ms \<and>
        mset (map restored_menu_node ms) = mset (filter (\<lambda>m. mn_snapshot_id m = cs_id a) (menu_nodes d)) \<and>
        page_elements_hist d' = page_elements_hist d @ es \<and>
        mset (map restored_page_element es) =
          mset (filter (\<lambda>e. pe_snapshot_id e = cs_id a) (page_elements d))) \<and>
    pages d' = pages d \<and> menu_nodes d' = menu_nodes d \<and> page_elements d' = page_elements d"
  using assms
proof (cases rule: switch_cases)
  case (replaced draft a)
  note l = load_active_Some [OF replaced(3)]
  have row: "csh_id (archived_snapshot_row env i a) = se_hist_id env (cs_id a)"
    "csh_source_active_snapshot_id (archived_snapshot_row env i a) = Some (cs_id a)"
    "csh_replaced_by_snapshot_id (archived_snapshot_row env i a) = Some i"
    by (simp_all add: archived_snapshot_row_def)
  let ?ps = "map (archived_page env) (sort_key (\<lambda>p. uint (pg_id p)) (snapshot_pages (cs_id a) d))"
    and ?ms = "map (archived_menu_node env) (sort_key (\<lambda>m. uint (mn_id m)) (snapshot_menus (cs_id a) d))"
    and ?es = "map (archived_page_element env) (sort_key (\<lambda>e. uint (pe_id e)) (snapshot_elements (cs_id a) d))"
  show ?thesis
    unfolding replaced(5,6) using l replaced(1) row
    by (auto simp: promoted_db_def archived_db_def upd_snapshot_def active_snapshot_def
        snapshot_pages_def snapshot_menus_def snapshot_elements_def multiset.map_comp
        intro!: exI [of _ draft] exI [of _ a] exI [of _ ?ps] exI [of _ ?ms] exI [of _ ?es])
qed (simp_all add: upd_snapshot_def)

text \<open>A promotion may be repeated: applied again to the promoted snapshot, at any later time, the
  switch reports the promotion and changes nothing, so nothing is archived twice.\<close>

theorem promotion_idempotent:
  assumes "apply_current_state_switch env i d = Inr (r, d')" "unique_active d" "distinct (snapshot_ids d)"
    and "sw_outcome r = ''promoted''"
  shows "apply_current_state_switch env' i d' = Inr (r\<lparr>sw_archived_snapshot_id := None\<rparr>, d')"
proof -
  have again: "apply_current_state_switch env' i d' =
      Inr (\<lparr>sw_outcome = ''promoted'', sw_active_snapshot_id = Some i, sw_archived_snapshot_id = None\<rparr>, d')"
    if "find_row cs_id i (crawl_snapshots d') = Some c" "active_snapshot c" for c
    using that find_row_Some_key [OF that(1)] by (simp add: apply_current_state_switch_def)
  from assms(1-3) show ?thesis
  proof (cases rule: switch_cases)
    case (already draft)
    then show ?thesis using again by simp
  next
    case discarded
    then show ?thesis using assms(4) by simp
  next
    case (first draft)
    then show ?thesis using again [of "activate_snapshot env draft"] by (simp add: find_upd_row)
  next
    case (replaced draft a)
    then show ?thesis
      using again [of "activate_snapshot env draft"] load_active_Some(4) [OF replaced(3)]
      by (simp add: promoted_db_def find_upd_row)
  qed
qed

subsection \<open>Concrete inputs\<close>

definition sample_snapshot :: "uuid \<Rightarrow> string \<Rightarrow> crawl_snapshot" where
  "sample_snapshot i state =
     \<lparr>cs_id = i, cs_system_id = 7, cs_crawl_type = ''full'', cs_framework_detected = None,
      cs_quality_score = Some 1, cs_degraded = False, cs_state = state, cs_activated_at = None,
      cs_discarded_at = None, cs_failure_reason = None, cs_warning_messages = [], cs_structure_hash = None,
      cs_started_at = datetime_min_utc, cs_finished_at = None\<rparr>"

definition sample_page :: "uuid \<Rightarrow> uuid \<Rightarrow> string \<Rightarrow> page" where
  "sample_page i snapshot_id route =
     \<lparr>pg_id = i, pg_system_id = 7, pg_snapshot_id = Some snapshot_id, pg_route_path = route,
      pg_page_title = None, pg_page_summary = None, pg_keywords = None, pg_discovery_sources = None,
      pg_entry_candidates = None, pg_context_constraints = None, pg_navigation_diagnostics = None,
      pg_crawled_at = datetime_min_utc\<rparr>"

definition sample_switch_db :: db where
  "sample_switch_db = empty_db\<lparr>
     crawl_snapshots := [sample_snapshot 1 ''active'', sample_snapshot 2 ''draft''],
     pages := [sample_page 11 1 ''/old'', sample_page 12 2 ''/new'']\<rparr>"

definition sample_switch_env :: switch_env where
  "sample_switch_env = \<lparr>se_now = datetime_min_utc, se_hist_id = (\<lambda>i. i + 100), se_archived_at = (\<lambda>i. datetime_min_utc)\<rparr>"

lemma sample_switch_ok: "unique_active sample_switch_db" "distinct (snapshot_ids sample_switch_db)"
  by (simp_all add: sample_switch_db_def empty_db_def unique_active_def sample_snapshot_def active_snapshot_def)

lemma sample_switch_promotes:
  "map_sum id (\<lambda>(r, d'). (r, map cs_state (crawl_snapshots d'), map pgh_route_path (pages_hist d')))
     (apply_current_state_switch sample_switch_env 2 sample_switch_db) =
   Inr (\<lparr>sw_outcome = ''promoted'', sw_active_snapshot_id = Some 2, sw_archived_snapshot_id = Some 101\<rparr>,
     [''discarded'', ''active''], [''/old''])"
  by code_simp

lemma sample_switch_result:
  obtains d' where "apply_current_state_switch sample_switch_env 2 sample_switch_db =
    Inr (\<lparr>sw_outcome = ''promoted'', sw_active_snapshot_id = Some 2, sw_archived_snapshot_id = Some 101\<rparr>, d')"
  using sample_switch_promotes
  by (cases "apply_current_state_switch sample_switch_env 2 sample_switch_db") auto

theorem switch_respects_index_witness:
  "\<exists>r d'. apply_current_state_switch sample_switch_env 2 sample_switch_db = Inr (r, d') \<and>
     unique_active d' \<and> snapshot_ids d' = [1, 2]"
proof -
  obtain d' where d': "apply_current_state_switch sample_switch_env 2 sample_switch_db =
    Inr (\<lparr>sw_outcome = ''promoted'', sw_active_snapshot_id = Some 2, sw_archived_snapshot_id = Some 101\<rparr>, d')"
    by (rule sample_switch_result)
  have "snapshot_ids sample_switch_db = [1, 2]"
    by (simp add: sample_switch_db_def sample_snapshot_def)
  then show ?thesis
    using switch_respects_index [OF sample_switch_ok, where env = sample_switch_env and i = 2] by (simp add: d')
qed

theorem switch_changes_only_its_system_witness:
  "\<exists>r d'. apply_current_state_switch sample_switch_env 2 sample_switch_db = Inr (r, d') \<and>
     map cs_state (crawl_snapshots d') = [''discarded'', ''active'']"
proof -
  obtain d' where d': "apply_current_state_switch sample_switch_env 2 sample_switch_db =
    Inr (\<lparr>sw_outcome = ''promoted'', sw_active_snapshot_id = Some 2, sw_archived_snapshot_id = Some 101\<rparr>, d')"
    by (rule sample_switch_result)
  show ?thesis
    using switch_changes_only_its_system [OF d' sample_switch_ok]
    by (simp add: d') (auto simp: sample_switch_db_def sample_snapshot_def find_row_Cons active_snapshot_def
        discard_snapshot_def activate_snapshot_def)
qed

theorem replaced_facts_archived_witness:
  "\<exists>r d'. apply_current_state_switch sample_switch_env 2 sample_switch_db = Inr (r, d') \<and>
     length (pages_hist d') = 1 \<and> pages d' = pages sample_switch_db"
proof -
  obtain d' where d': "apply_current_state_switch sample_switch_env 2 sample_switch_db =
    Inr (\<lparr>sw_outcome = ''promoted'', sw_active_snapshot_id = Some 2, sw_archived_snapshot_id = Some 101\<rparr>, d')"
    by (rule sample_switch_result)
  obtain a ps where a: "a \<in> set (crawl_snapshots sample_switch_db)" "cs_state a = ''active''"
    "pages_hist d' = pages_hist sample_switch_db @ ps"
    "mset (map restored_page ps) = mset (filter (\<lambda>p. pg_snapshot_id p = Some (cs_id a)) (pages sample_switch_db))"
    "pages d' = pages sample_switch_db"
    using replaced_facts_archived [OF d' sample_switch_ok] by auto
  have "length ps = size (mset (map restored_page ps))" by simp
  also have "\<dots> = 1"
    using a(1,2) unfolding a(4)
    by (auto simp: sample_switch_db_def empty_db_def sample_snapshot_def sample_page_def)
  finally have "length (pages_hist d') = 1"
    by (simp add: a(3) sample_switch_db_def empty_db_def)
  then show ?thesis using d' a(5) by simp
qed

theorem promotion_idempotent_witness:
  "\<exists>r d'. apply_current_state_switch sample_switch_env 2 sample_switch_db = Inr (r, d') \<and>
     map_sum id snd (apply_current_state_switch sample_switch_env 2 d') = Inr d'"
proof -
  obtain d' where d': "apply_current_state_switch sample_switch_env 2 sample_switch_db =
    Inr (\<lparr>sw_outcome = ''promoted'', sw_active_snapshot_id = Some 2, sw_archived_snapshot_id = Some 101\<rparr>, d')"
    by (rule sample_switch_result)
  show ?thesis
    using promotion_idempotent [OF d' sample_switch_ok, of sample_switch_env] by (simp add: d')
qed

end
