(* ===== verification/Sha256.thy ===== *)
theory Sha256
  imports PyValue
begin

section \<open>SHA-256\<close>

text \<open>
  \<open>hashlib.sha256(...).hexdigest()\<close> on the bytes of a text: padding, message schedule and
  compression on 32-bit words.
\<close>

unbundle bit_operations_syntax

type_synonym w32 = "32 word"

definition sha_constants :: "w32 list" where
  "sha_constants =
     [1116352408, 1899447441, 3049323471, 3921009573, 961987163, 1508970993,
      2453635748, 2870763221, 3624381080, 310598401, 607225278, 1426881987,
      1925078388, 2162078206, 2614888103, 3248222580, 3835390401, 4022224774,
      264347078, 604807628, 770255983, 1249150122, 1555081692, 1996064986,
      2554220882, 2821834349, 2952996808, 3210313671, 3336571891, 3584528711,
      113926993, 338241895, 666307205, 773529912, 1294757372, 1396182291,
      1695183700, 1986661051, 2177026350, 2456956037, 2730485921, 2820302411,
      3259730800, 3345764771, 3516065817, 3600352804, 4094571909, 275423344,
      430227734, 506948616, 659060556, 883997877, 958139571, 1322822218,
      1537002063, 1747873779, 1955562222, 2024104815, 2227730452, 2361852424,
      2428436474, 2756734187, 3204031479, 3329325298]"

definition sha_start :: "w32 list" where
  "sha_start =
     [1779033703, 3144134277, 1013904242, 2773480762, 1359893119, 2600822924,
      528734635, 1541459225]"

text \<open>A one bit, zeros, and the length in bits as eight bytes: a multiple of 64 bytes.\<close>

definition sha_pad :: "w32 list \<Rightarrow> w32 list" where
  "sha_pad bytes =
     bytes @ [0x80] @ replicate ((119 - length bytes mod 64) mod 64) 0 @
     map (\<lambda>i. of_nat (8 * length bytes div 256 ^ (7 - i) mod 256)) [0..<8]"

fun chunks_of :: "nat \<Rightarrow> 'a list \<Rightarrow> 'a list list" where
  "chunks_of n xs =
     (if n = 0 \<or> xs = [] then [] else take n xs # chunks_of n (drop n xs))"

declare chunks_of.simps [simp del]

definition be_word :: "w32 list \<Rightarrow> w32" where
  "be_word bytes = fold (\<lambda>b w. push_bit 8 w OR b) bytes 0"

definition schedule_step :: "nat \<Rightarrow> w32 list \<Rightarrow> w32 list" where
  "schedule_step t ws =
     (let x = ws ! (t - 15); y = ws ! (t - 2);
          s0 = word_rotr 7 x XOR word_rotr 18 x XOR drop_bit 3 x;
          s1 = word_rotr 17 y XOR word_rotr 19 y XOR drop_bit 10 y
      in ws @ [s1 + ws ! (t - 7) + s0 + ws ! (t - 16)])"

definition sha_schedule :: "w32 list \<Rightarrow> w32 list" where
  "sha_schedule block = fold schedule_step [16..<64] (map be_word (chunks_of 4 block))"

fun sha_round :: "w32 \<times> w32 \<Rightarrow> w32 list \<Rightarrow> w32 list" where
  "sha_round (k, w) [a, b, c, d, e, f, g, h] =
     (let t1 = h + (word_rotr 6 e XOR word_rotr 11 e XOR word_rotr 25 e) +
                 ((e AND f) XOR (NOT e AND g)) + k + w;
          t2 = (word_rotr 2 a XOR word_rotr 13 a XOR word_rotr 22 a) +
                 ((a AND b) XOR (a AND c) XOR (b AND c))
      in [t1 + t2, a, b, c, d + t1, e, f, g])"
| "sha_round kw st = st"

definition sha_compress :: "w32 list \<Rightarrow> w32 list \<Rightarrow> w32 list" where
  "sha_compress block st =
     map2 (+) st (fold sha_round (zip sha_constants (sha_schedule block)) st)"

definition sha256_hex :: "string \<Rightarrow> string" where
  "sha256_hex s =
     concat (map (\<lambda>w. map digit_char (hex_digits 8 (unat w)))
       (fold sha_compress (chunks_of 64 (sha_pad (map of_char s))) sha_start))"

lemma length_chunks: "0 < n \<Longrightarrow> n dvd length xs \<Longrightarrow> c \<in> set (chunks_of n xs) \<Longrightarrow> length c = n"
proof (induction n xs rule: chunks_of.induct)
  case (1 n xs)
  have "xs \<noteq> []" using 1(4) by (auto simp: chunks_of.simps)
  then have "n \<le> length xs" using 1(3) by (simp add: dvd_imp_le)
  moreover have "n dvd length (drop n xs)" using 1(3) calculation by (simp add: dvd_diff_nat)
  ultimately show ?case using 1 \<open>xs \<noteq> []\<close> by (auto simp: chunks_of.simps [of n xs])
qed

text \<open>Padding fills whole blocks of 64 bytes.\<close>

lemma sha_pad_blocks: "64 dvd length (sha_pad bytes)"
proof -
  obtain q r where qr: "length bytes = 64 * q + r" "r < 64"
    by (metis mult_div_mod_eq mod_less_divisor zero_less_numeral)
  then have "length bytes mod 64 = r" by simp
  then have "length (sha_pad bytes) = 64 * q + (r + 9 + (119 - r) mod 64)"
    by (simp add: sha_pad_def qr(1))
  also have "r + 9 + (119 - r) mod 64 = (if r \<le> 55 then 64 else 128)"
    using qr(2) by (auto simp: mod_if [of "119 - r"])
  finally show ?thesis by (simp split: if_splits)
qed

lemma length_sha_compress [simp]: "length (sha_compress block st) \<le> length st"
  by (simp add: sha_compress_def)

end
