(* ===== verification/FloatSums.thy ===== *)
theory FloatSums
  imports PyData
begin

section \<open>The error of a float sum\<close>

text \<open>
  A rounded operation errs by at most half a unit in the last place; so a sum of a few small floats
  is close to the exact sum, whatever the order of its summands is.
\<close>

lemma round_half_even_error: "\<bar>of_int (round_half_even x) - x\<bar> \<le> 1 / 2"
proof -
  have "of_int \<lfloor>x\<rfloor> \<le> x" "x < of_int \<lfloor>x\<rfloor> + 1" by linarith+
  then show ?thesis by (auto simp: round_half_even_def Let_def abs_le_iff)
qed

lemma fl_error: "\<bar>fl x - x\<bar> \<le> \<bar>x\<bar> / 2 ^ 53"
proof -
  have pos: "\<bar>fl x - x\<bar> \<le> x / 2 ^ 53" if x: "0 < x" for x
  proof -
    obtain e where e: "2 ^ 52 * pow2 e \<le> x" "fl x = of_int (round_half_even (x / pow2 e)) * pow2 e"
      using fl_pos_cases [OF x] by blast
    have "fl x - x = (of_int (round_half_even (x / pow2 e)) - x / pow2 e) * pow2 e"
      using less_imp_neq [OF pow2_pos [of e]] unfolding e(2) by (simp add: left_diff_distrib)
    then have "\<bar>fl x - x\<bar> = \<bar>of_int (round_half_even (x / pow2 e)) - x / pow2 e\<bar> * pow2 e"
      by (simp add: abs_mult)
    also have "\<dots> \<le> 1 / 2 * pow2 e"
      by (intro mult_right_mono round_half_even_error) simp
    also have "\<dots> \<le> x / 2 ^ 53" using e(1) by simp
    finally show ?thesis .
  qed
  show ?thesis
  proof (cases x "0 :: rat" rule: linorder_cases)
    case less
    then show ?thesis using pos [of "- x"] by (simp add: abs_minus_commute)
  next
    case greater
    then show ?thesis using pos [of x] by simp
  qed simp
qed

text \<open>Evaluation: an exponent and a significand that fit determine the rounded value.\<close>

lemma fl_at:
  assumes "2 ^ 52 * pow2 e \<le> x" "x < 2 ^ 53 * pow2 e" "\<bar>x / pow2 e - of_int m\<bar> < 1 / 2"
  shows "fl x = of_int m * pow2 e"
proof -
  have "0 < 2 ^ 52 * pow2 e" by simp
  then have "0 < x" using assms(1) by linarith
  then obtain f where f: "2 ^ 52 * pow2 f \<le> x" "x < 2 ^ 53 * pow2 f" "fl x = of_int (round_half_even (x / pow2 f)) * pow2 f"
    using fl_pos_cases by blast
  have "a \<le> b" if "2 ^ 52 * pow2 a \<le> x" "x < 2 ^ 53 * pow2 b" for a b
  proof (rule ccontr)
    assume "\<not> a \<le> b"
    then have "2 ^ 52 * pow2 (b + 1) \<le> 2 ^ 52 * pow2 a" using pow2_mono [of "b + 1" a] by simp
    then show False using that by (simp add: pow2_Suc)
  qed
  then have e: "f = e" using f(1,2) assms(1,2) by (intro antisym) blast+
  have "\<bar>of_int (round_half_even (x / pow2 e)) - x / pow2 e\<bar> \<le> 1 / 2" by (rule round_half_even_error)
  then have "\<bar>rat_of_int (round_half_even (x / pow2 e)) - of_int m\<bar> < of_int 1"
    using assms(3) unfolding abs_le_iff abs_less_iff of_int_1 by linarith
  then have "\<bar>round_half_even (x / pow2 e) - m\<bar> < 1"
    by (simp only: of_int_diff [symmetric] of_int_abs [symmetric] of_int_less_iff)
  then show ?thesis unfolding f(3) e by simp
qed

lemma fl_double: "\<bar>fl x\<bar> \<le> 2 * \<bar>x\<bar>"
proof -
  have "\<bar>x\<bar> / 2 ^ 53 \<le> \<bar>x\<bar>" by (simp add: divide_le_eq)
  then show ?thesis using fl_error [of x] by linarith
qed

lemma sum_step_error:
  assumes "sum_step x (s, c) = (t, c')" "\<bar>s\<bar> \<le> 3" "0 \<le> x" "x \<le> 1"
  shows "\<bar>t - (s + x)\<bar> \<le> 1 / 2 ^ 51" and "\<bar>c'\<bar> \<le> 2 * \<bar>c\<bar> + 1 / 2 ^ 47"
proof -
  have t: "t = fl (s + x)" using assms(1) by (simp add: sum_step_def Let_def)
  have "\<bar>s + x\<bar> \<le> 4" using assms(2-4) by (auto simp: abs_le_iff)
  then show e: "\<bar>t - (s + x)\<bar> \<le> 1 / 2 ^ 51" unfolding t using fl_error [of "s + x"] by simp
  have corr: "\<bar>fl (fl (u - t) + v)\<bar> \<le> 1 / 2 ^ 49" if "u + v = s + x" "\<bar>v\<bar> \<le> 3" for u v
  proof -
    have "u - t + v = - (t - (s + x))" using that(1) by simp
    then have r: "\<bar>u - t + v\<bar> \<le> 1 / 2 ^ 51" using e by (simp only: abs_minus)
    moreover have "(1 :: rat) / 2 ^ 51 \<le> 1" by simp
    ultimately have "\<bar>u - t\<bar> \<le> 4" using that(2) unfolding abs_le_iff by linarith
    then have "\<bar>fl (u - t) - (u - t)\<bar> \<le> 1 / 2 ^ 51" using fl_error [of "u - t"] by simp
    moreover have "(1 :: rat) / 2 ^ 50 = 1 / 2 ^ 51 + 1 / 2 ^ 51" by simp
    ultimately have "\<bar>fl (u - t) + v\<bar> \<le> 1 / 2 ^ 50" using r unfolding abs_le_iff by linarith
    then have "2 * \<bar>fl (u - t) + v\<bar> \<le> 1 / 2 ^ 49" by simp
    then show ?thesis using fl_double [of "fl (u - t) + v"] by linarith
  qed
  let ?k = "if \<bar>x\<bar> \<le> \<bar>s\<bar> then fl (fl (s - t) + x) else fl (fl (x - t) + s)"
  have k: "\<bar>?k\<bar> \<le> 1 / 2 ^ 49" using corr [of s x] corr [of x s] assms(2-4) by (auto simp: add.commute)
  have "c' = fl (c + ?k)" using assms(1) unfolding sum_step_def Let_def t prod.case by (rule Pair_inject) (rule sym)
  moreover have "\<bar>c + ?k\<bar> \<le> \<bar>c\<bar> + 1 / 2 ^ 49" using k by linarith
  ultimately show "\<bar>c'\<bar> \<le> 2 * \<bar>c\<bar> + 1 / 2 ^ 47" using fl_double [of "c + ?k"] by simp
qed

lemma sum_list_halves:
  "(\<And>y. y \<in> set ys \<Longrightarrow> 0 \<le> y \<and> y \<le> 1 / 2) \<Longrightarrow>
    0 \<le> sum_list ys \<and> sum_list ys \<le> of_nat (length ys) * (1 / 2 :: rat)"
proof (induction ys)
  case (Cons y ys)
  have "0 \<le> sum_list ys \<and> sum_list ys \<le> of_nat (length ys) * (1 / 2)" using Cons by simp
  moreover have "0 \<le> y \<and> y \<le> 1 / 2" using Cons.prems [of y] by simp
  ultimately show ?case by (simp add: distrib_right)
qed simp

lemma py_sum_error:
  assumes "length xs \<le> 4" "\<And>x. x \<in> set xs \<Longrightarrow> 0 \<le> x \<and> x \<le> 1 / 2"
  shows "\<bar>py_sum xs - sum_list xs\<bar> \<le> 1 / 2 ^ 40"
proof -
  have run: "\<bar>t - (s + sum_list ys)\<bar> \<le> of_nat (length ys) / 2 ^ 51 \<and>
      \<bar>c'\<bar> \<le> 2 ^ length ys * (\<bar>c\<bar> + of_nat (length ys) / 2 ^ 47)"
    if "fold sum_step ys (s, c) = (t, c')" "0 \<le> s" "s + of_nat (length ys) * (1 / 2 + 1 / 2 ^ 51) \<le> 5 / 2" "length ys \<le> 3"
      "\<And>x. x \<in> set ys \<Longrightarrow> 0 \<le> x \<and> x \<le> 1 / 2" for ys s c t c'
    using that
  proof (induction ys arbitrary: s c)
    case (Cons y ys)
    obtain t1 c1 where st: "sum_step y (s, c) = (t1, c1)" by fastforce
    have y: "0 \<le> y" "y \<le> 1 / 2" using Cons.prems(5) [of y] by simp_all
    have "0 \<le> of_nat (length (y # ys)) * (1 / 2 + 1 / 2 ^ 51 :: rat)" by simp
    then have "\<bar>s\<bar> \<le> 3" using Cons.prems(2,3) by linarith
    then have e: "\<bar>t1 - (s + y)\<bar> \<le> 1 / 2 ^ 51" "\<bar>c1\<bar> \<le> 2 * \<bar>c\<bar> + 1 / 2 ^ 47"
      using sum_step_error [OF st] y by auto
    have t1: "t1 = fl (s + y)" using st by (simp add: sum_step_def Let_def)
    have "0 \<le> t1" unfolding t1 using Cons.prems(2,5) by (intro fl_nonneg) auto
    moreover have "t1 + of_nat (length ys) * (1 / 2 + 1 / 2 ^ 51) \<le> 5 / 2"
    proof -
      have "of_nat (length (y # ys)) * (1 / 2 + 1 / 2 ^ 51) =
          (1 / 2 + 1 / 2 ^ 51) + of_nat (length ys) * (1 / 2 + 1 / 2 ^ 51 :: rat)"
        by (simp only: length_Cons of_nat_Suc distrib_right mult_1)
      then show ?thesis using abs_le_D1 [OF e(1)] Cons.prems(3) y(2) by linarith
    qed
    ultimately have ih: "\<bar>t - (t1 + sum_list ys)\<bar> \<le> of_nat (length ys) / 2 ^ 51 \<and>
        \<bar>c'\<bar> \<le> 2 ^ length ys * (\<bar>c1\<bar> + of_nat (length ys) / 2 ^ 47)"
      using Cons.IH [of t1 c1] Cons.prems(1,4,5) st by simp
    have "\<bar>c1\<bar> + of_nat (length ys) / 2 ^ 47 \<le> 2 * (\<bar>c\<bar> + of_nat (length (y # ys)) / 2 ^ 47)"
      using e(2) by (simp add: field_simps)
    then have c: "2 ^ length ys * (\<bar>c1\<bar> + of_nat (length ys) / 2 ^ 47) \<le>
        2 ^ length ys * (2 * (\<bar>c\<bar> + of_nat (length (y # ys)) / 2 ^ 47))"
      by (intro mult_left_mono) simp_all
    have "of_nat (length (y # ys)) / 2 ^ 51 = (1 + of_nat (length ys) :: rat) / 2 ^ 51" by simp
    then have "of_nat (length (y # ys)) / 2 ^ 51 = (1 / 2 ^ 51 + of_nat (length ys) / 2 ^ 51 :: rat)"
      by (simp only: add_divide_distrib)
    then have "\<bar>t - (s + sum_list (y # ys))\<bar> \<le> of_nat (length (y # ys)) / 2 ^ 51"
      using ih e(1) unfolding abs_le_iff sum_list.Cons by linarith
    moreover have "\<bar>c'\<bar> \<le> 2 ^ length ys * (2 * (\<bar>c\<bar> + of_nat (length (y # ys)) / 2 ^ 47))"
      by (rule order_trans [OF conjunct2 [OF ih] c])
    ultimately show ?case by (simp only: length_Cons power_Suc mult.assoc mult.left_commute [of 2])
  qed simp
  show ?thesis
  proof (cases xs)
    case Nil
    then show ?thesis by (simp add: py_sum_def)
  next
    case (Cons x ys)
    obtain t c where f: "fold sum_step ys (x, 0) = (t, c)" by fastforce
    have x: "0 \<le> x" "x \<le> 1 / 2" using assms(2) [of x] Cons by simp_all
    have n: "length ys \<le> 3" using assms(1) Cons by simp
    have "of_nat (length ys) \<le> (3 :: rat)" using n by simp
    then have "of_nat (length ys) * (1 / 2 + 1 / 2 ^ 51) \<le> 3 * (1 / 2 + 1 / 2 ^ 51 :: rat)"
      by (rule mult_right_mono) simp
    then have "x + of_nat (length ys) * (1 / 2 + 1 / 2 ^ 51) \<le> 5 / 2" using x(2) by simp
    then have r: "\<bar>t - (x + sum_list ys)\<bar> \<le> of_nat (length ys) / 2 ^ 51 \<and>
        \<bar>c\<bar> \<le> 2 ^ length ys * (\<bar>0\<bar> + of_nat (length ys) / 2 ^ 47)"
      using assms(2) Cons by (intro run [OF f x(1) _ n]) auto
    have t3: "of_nat (length ys) / 2 ^ 51 \<le> (3 :: rat) / 2 ^ 51" using n by simp
    have c3: "2 ^ length ys * (\<bar>0\<bar> + of_nat (length ys) / 2 ^ 47) \<le> (2 ^ 3 * (3 / 2 ^ 47) :: rat)"
      using n by (intro mult_mono power_increasing) simp_all
    have tc: "\<bar>t - (x + sum_list ys)\<bar> \<le> 3 / 2 ^ 51" "\<bar>c\<bar> \<le> 2 ^ 3 * (3 / 2 ^ 47)"
      using order_trans [OF conjunct1 [OF r] t3] order_trans [OF conjunct2 [OF r] c3] .
    have "0 \<le> sum_list ys \<and> sum_list ys \<le> of_nat (length ys) * (1 / 2)"
      using assms(2) Cons by (intro sum_list_halves) simp
    then have "0 \<le> sum_list ys" "sum_list ys \<le> 3 / 2" using \<open>of_nat (length ys) \<le> (3 :: rat)\<close> by linarith+
    moreover have "(3 :: rat) / 2 ^ 51 \<le> 1 / 4" "2 ^ 3 * (3 / 2 ^ 47) \<le> (1 / 4 :: rat)" by simp_all
    ultimately have "\<bar>t + c\<bar> \<le> 3" using tc x unfolding abs_le_iff by linarith
    then have "\<bar>fl (t + c) - (t + c)\<bar> \<le> 1 / 2 ^ 51" using fl_error [of "t + c"] by simp
    moreover have "(3 :: rat) / 2 ^ 51 + 2 ^ 3 * (3 / 2 ^ 47) + 1 / 2 ^ 51 \<le> 1 / 2 ^ 40" by simp
    ultimately have "\<bar>fl (t + c) - (x + sum_list ys)\<bar> \<le> 1 / 2 ^ 40" "\<bar>t - (x + sum_list ys)\<bar> \<le> 1 / 2 ^ 40"
      using tc by linarith+
    then show ?thesis by (simp add: py_sum_def Cons f)
  qed
qed

end
