(* ===== verification/Fingerprints.thy ===== *)
theory Fingerprints
  imports PyJson Sha256 Reconciliation FloatSums
begin

section \<open>Page fingerprints and drift\<close>

text \<open>
  asset\_compiler/fingerprints.py: the hashes of a page's navigation, key locators, semantic summary
  and structure, and the drift between two fingerprints. A fingerprint is a dictionary from the
  names of the components to hex digests. The weights of the changed components are summed over a
  Python set, whose order of iteration is an argument of the comparison.
\<close>

definition SAFE_MAX_DIFF_SCORE :: rat where "SAFE_MAX_DIFF_SCORE = fl (2 / 10)"
definition SUSPECT_MAX_DIFF_SCORE :: rat where "SUSPECT_MAX_DIFF_SCORE = fl (6 / 10)"

definition DIFF_WEIGHTS :: "(string \<times> rat) list" where
  "DIFF_WEIGHTS =
     [(''navigation_hash'', fl (2 / 10)), (''key_locator_hash'', fl (45 / 100)),
      (''semantic_summary_hash'', fl (15 / 100)), (''structure_hash'', fl (2 / 10))]"

definition LEGACY_KEY_LOCATOR_HASH :: string where "LEGACY_KEY_LOCATOR_HASH = ''legacy_key_locator_hash''"
definition LEGACY_STRUCTURE_HASH :: string where "LEGACY_STRUCTURE_HASH = ''legacy_structure_hash''"

record fingerprint_diff =
  fd_score :: rat
  fd_changed_components :: "string list"
  fd_status :: asset_status

definition stable_hash :: "pyval \<Rightarrow> string" where
  "stable_hash v = sha256_hex (json_dumps compact_unicode_json v)"

subsection \<open>Normal forms\<close>

definition as_dict :: "pyval \<Rightarrow> pydict" where
  "as_dict v = (case v of PDict d \<Rightarrow> d | _ \<Rightarrow> [])"

definition dicts_of :: "pyval \<Rightarrow> pydict list" where
  "dicts_of v =
     (case v of PList xs \<Rightarrow> List.map_filter (\<lambda>x. case x of PDict d \<Rightarrow> Some d | _ \<Rightarrow> None) xs | _ \<Rightarrow> [])"

definition clean_at :: "pydict \<Rightarrow> string \<Rightarrow> string \<times> pyval" where
  "clean_at d k = (k, PStr (normalize_text (dget d k)))"

definition normalize_page :: "pyval \<Rightarrow> pydict" where
  "normalize_page p =
     (let payload = as_dict p
      in map (clean_at payload) [''route_path'', ''page_title'', ''page_summary''])"

definition normalize_menu :: "pydict \<Rightarrow> pydict" where
  "normalize_menu item =
     [clean_at item ''label'', clean_at item ''route_path'',
      (''depth'', PInt (clean_int (dget item ''depth''))),
      (''sort_order'', PInt (clean_int (dget item ''sort_order'')))]"

definition menu_sort_key :: "pydict \<Rightarrow> int \<times> int \<times> string \<times> string" where
  "menu_sort_key m =
     (clean_int (dget m ''depth''), clean_int (dget m ''sort_order''),
      py_str (dget m ''label''), py_str (dget m ''route_path''))"

definition normalize_menus :: "pyval \<Rightarrow> pydict list" where
  "normalize_menus menus = sort_key menu_sort_key (map normalize_menu (dicts_of menus))"

definition normalize_attributes :: "pyval \<Rightarrow> pydict" where
  "normalize_attributes v = sort_key fst (as_dict v)"

definition bundle_entry :: "pydict \<Rightarrow> (string \<times> string) option" where
  "bundle_entry item =
     (let strategy_type = normalize_text (dget item ''strategy_type'');
          selector = normalize_text (dget item ''selector'')
      in if strategy_type = [] \<and> selector = [] then None else Some (strategy_type, selector))"

definition normalize_locator_bundle_summary :: "pyval \<Rightarrow> pydict" where
  "normalize_locator_bundle_summary v =
     (let normalized_candidates =
            (case dget (as_dict v) ''candidates'' of
               PList xs \<Rightarrow> List.map_filter bundle_entry (dicts_of (PList xs))
             | _ \<Rightarrow> [])
      in [(''candidate_count'', PInt (int (length normalized_candidates))),
          (''strategies'', PList (map (\<lambda>(s, _). PStr s) normalized_candidates)),
          (''selectors'', PList (map (\<lambda>(_, s). PStr s) normalized_candidates))])"

definition normalize_element :: "pydict \<Rightarrow> pydict" where
  "normalize_element item =
     map (clean_at item) [''element_type'', ''element_role'', ''element_text'', ''playwright_locator'',
       ''state_signature'', ''usage_description''] @
     [(''attributes'', PDict (normalize_attributes (dget item ''attributes''))),
      (''locator_bundle_summary'', PDict (normalize_locator_bundle_summary (dget item ''locator_bundle'')))]"

definition element_sort_key :: "pydict \<Rightarrow> string \<times> string \<times> string \<times> string \<times> string" where
  "element_sort_key e =
     (py_str (dget e ''element_type''), py_str (dget e ''element_role''), py_str (dget e ''element_text''),
      py_str (dget e ''state_signature''), stable_hash (dget e ''locator_bundle_summary''))"

definition normalize_elements :: "pyval \<Rightarrow> pydict list" where
  "normalize_elements elements = sort_key element_sort_key (map normalize_element (dicts_of elements))"

definition pick :: "string list \<Rightarrow> pydict \<Rightarrow> pydict" where
  "pick ks d = map (\<lambda>k. (k, dget d k)) ks"

definition legacy_sort_key :: "pydict \<Rightarrow> string \<times> string \<times> string \<times> string" where
  "legacy_sort_key e =
     (py_str (dget e ''element_type''), py_str (dget e ''element_role''), py_str (dget e ''element_text''),
      py_str (dget e ''playwright_locator''))"

definition legacy_elements_projection :: "pydict list \<Rightarrow> pydict list" where
  "legacy_elements_projection elements =
     sort_key legacy_sort_key
       (map (pick [''element_type'', ''element_role'', ''element_text'', ''playwright_locator'',
                   ''usage_description'', ''attributes'']) elements)"

subsection \<open>The fingerprint\<close>

definition build_page_fingerprint :: "pydict \<Rightarrow> pydict" where
  "build_page_fingerprint page_payload =
     (let page = normalize_page (dget page_payload ''page'');
          menus = PList (map PDict (normalize_menus (dget page_payload ''menus'')));
          elements = normalize_elements (dget page_payload ''elements'');
          legacy = legacy_elements_projection elements;
          all_of = (\<lambda>es. PList (map PDict es))
      in [(''navigation_hash'', PStr (stable_hash (PDict
             [(''page'', PDict (pick [''route_path'', ''page_title''] page)), (''menus'', menus)]))),
          (''key_locator_hash'', PStr (stable_hash (all_of
             (map (pick [''element_type'', ''element_role'', ''state_signature'', ''locator_bundle_summary'',
                         ''attributes'']) elements)))),
          (''semantic_summary_hash'', PStr (stable_hash (PDict
             [(''page_title'', dget page ''page_title''), (''page_summary'', dget page ''page_summary''),
              (''usage_descriptions'', PList (map (\<lambda>e. dget e ''usage_description'') elements)),
              (''texts'', PList (map (\<lambda>e. dget e ''element_text'') elements))]))),
          (''structure_hash'', PStr (stable_hash (PDict
             [(''page'', PDict page), (''menus'', menus), (''elements'', all_of elements)]))),
          (LEGACY_KEY_LOCATOR_HASH, PStr (stable_hash (all_of
             (map (pick [''element_type'', ''element_role'', ''playwright_locator'', ''attributes'']) legacy)))),
          (LEGACY_STRUCTURE_HASH, PStr (stable_hash (PDict
             [(''page'', PDict page), (''menus'', menus), (''elements'', all_of legacy)])))])"

subsection \<open>Drift\<close>

definition legacy_field_for_component :: "string \<Rightarrow> string option" where
  "legacy_field_for_component component =
     (if component = ''key_locator_hash'' then Some LEGACY_KEY_LOCATOR_HASH
      else if component = ''structure_hash'' then Some LEGACY_STRUCTURE_HASH
      else None)"

definition component_changed :: "pydict \<Rightarrow> pydict \<Rightarrow> string \<Rightarrow> bool" where
  "component_changed old_fingerprint new_fingerprint component =
     (let old_value = normalize_text (dget old_fingerprint component)
      in if old_value = normalize_text (dget new_fingerprint component) then False
         else if (case legacy_field_for_component component of
                    None \<Rightarrow> False
                  | Some f \<Rightarrow> old_value = normalize_text (dget new_fingerprint f)) then False
         else True)"

definition map_diff_score_to_status :: "rat \<Rightarrow> asset_status" where
  "map_diff_score_to_status score =
     (if score \<le> SAFE_MAX_DIFF_SCORE then SAFE
      else if score \<le> SUSPECT_MAX_DIFF_SCORE then SUSPECT
      else STALE)"

definition weight_of :: "string \<Rightarrow> rat" where
  "weight_of component = (case map_of DIFF_WEIGHTS component of None \<Rightarrow> 0 | Some w \<Rightarrow> w)"

definition compare_fingerprints ::
  "(string list \<Rightarrow> string list) \<Rightarrow> pydict option \<Rightarrow> pydict \<Rightarrow> fingerprint_diff" where
  "compare_fingerprints set_order old_fingerprint new_fingerprint =
     (case old_fingerprint of
        None \<Rightarrow> \<lparr>fd_score = 0, fd_changed_components = [], fd_status = SAFE\<rparr>
      | Some old \<Rightarrow>
          if old = [] then \<lparr>fd_score = 0, fd_changed_components = [], fd_status = SAFE\<rparr>
          else let changed = set_order (filter (component_changed old new_fingerprint) (map fst DIFF_WEIGHTS));
                   score = py_sum (map weight_of changed)
               in \<lparr>fd_score = py_round4 score, fd_changed_components = changed,
                   fd_status = map_diff_score_to_status score\<rparr>)"

subsection \<open>Drift depends on what changed, not on the order of a set\<close>

text \<open>The weights in decimal.\<close>

definition decimal_weight :: "string \<Rightarrow> rat" where
  "decimal_weight component =
     (if component = ''key_locator_hash'' then 45 / 100
      else if component = ''semantic_summary_hash'' then 15 / 100
      else 20 / 100)"

lemma weights:
  "fl (1 / 5) = 3602879701896397 / 18014398509481984"
  "fl (9 / 20) = 8106479329266893 / 18014398509481984"
  "fl (3 / 20) = 5404319552844595 / 36028797018963968"
  "fl (3 / 5) = 5404319552844595 / 9007199254740992"
  using fl_at [of "-55" "1 / 5" 7205759403792794] fl_at [of "-54" "9 / 20" 8106479329266893]
    fl_at [of "-55" "3 / 20" 5404319552844595] fl_at [of "-53" "3 / 5" 5404319552844595]
  by (simp_all add: pow2_def)

lemma both_orders_suspect:
  "py_sum [fl (9 / 20), fl (3 / 20)] = fl (3 / 5)" "py_sum [fl (3 / 20), fl (9 / 20)] = fl (3 / 5)"
proof -
  have t: "fl (21617278211378381 / 36028797018963968) = 5404319552844595 / 9007199254740992"
    using fl_at [of "-53" "21617278211378381 / 36028797018963968" 5404319552844595] by (simp add: pow2_def)
  have d: "fl (2702159776422297 / 18014398509481984) = 2702159776422297 / 18014398509481984"
    using fl_at [of "-55" "2702159776422297 / 18014398509481984" 5404319552844594] by (simp add: pow2_def)
  have c: "fl (1 / 36028797018963968) = 1 / 36028797018963968"
    using fl_at [of "-107" "1 / 36028797018963968" "2 ^ 52"] by (simp add: pow2_def)
  show "py_sum [fl (9 / 20), fl (3 / 20)] = fl (3 / 5)" "py_sum [fl (3 / 20), fl (9 / 20)] = fl (3 / 5)"
    by (simp_all add: py_sum_def sum_step_def Let_def weights t d c)
qed

lemma component_weight:
  assumes "c \<in> set (map fst DIFF_WEIGHTS)"
  shows "\<bar>weight_of c - decimal_weight c\<bar> \<le> 1 / 2 ^ 50" "0 \<le> weight_of c \<and> weight_of c \<le> 1 / 2"
  using assms by (auto simp: DIFF_WEIGHTS_def weight_of_def decimal_weight_def weights)

lemma sum_near:
  assumes "\<And>c. c \<in> set cs \<Longrightarrow> \<bar>f c - g c\<bar> \<le> (d :: rat)"
  shows "\<bar>sum_list (map f cs) - sum_list (map g cs)\<bar> \<le> of_nat (length cs) * d"
  using assms
proof (induction cs)
  case (Cons c cs)
  then have "\<bar>sum_list (map f cs) - sum_list (map g cs)\<bar> \<le> of_nat (length cs) * d" "\<bar>f c - g c\<bar> \<le> d" by simp_all
  then show ?case by (simp add: distrib_right)
qed simp

lemma score_near:
  assumes "mset cs = mset ds" "distinct ds" "set ds \<subseteq> set (map fst DIFF_WEIGHTS)"
  shows "\<bar>py_sum (map weight_of cs) - sum_list (map decimal_weight ds)\<bar> \<le> 1 / 2 ^ 39"
proof -
  have set: "set cs \<subseteq> set (map fst DIFF_WEIGHTS)" using assms(1,3) by (metis set_mset_mset)
  have "length ds = card (set ds)" using assms(2) by (simp add: distinct_card)
  also have "\<dots> \<le> card (set (map fst DIFF_WEIGHTS))" using assms(3) by (intro card_mono) simp_all
  also have "\<dots> = 4" by (simp add: DIFF_WEIGHTS_def)
  finally have n: "length cs \<le> 4" using mset_eq_length [OF assms(1)] by simp
  have "\<bar>py_sum (map weight_of cs) - sum_list (map weight_of cs)\<bar> \<le> 1 / 2 ^ 40"
    using n set component_weight(2) by (intro py_sum_error) auto
  moreover have "\<bar>sum_list (map weight_of cs) - sum_list (map decimal_weight cs)\<bar> \<le> of_nat (length cs) * (1 / 2 ^ 50)"
    using set component_weight(1) by (intro sum_near) blast
  moreover have "of_nat (length cs) * (1 / 2 ^ 50) \<le> (4 * (1 / 2 ^ 50) :: rat)"
    using n by (intro mult_right_mono) simp_all
  moreover have "sum_list (map decimal_weight cs) = sum_list (map decimal_weight ds)"
    using assms(1) by (metis mset_map sum_mset_sum_list)
  moreover have "1 / 2 ^ 40 + 4 * (1 / 2 ^ 50) \<le> (1 / 2 ^ 39 :: rat)" by simp
  ultimately show ?thesis by linarith
qed

text \<open>A score near a decimal with four digits is reported as that decimal.\<close>

lemma py_round4_near:
  assumes "\<bar>x - of_int k / 10000\<bar> \<le> 1 / 2 ^ 39"
  shows "py_round4 x = fl (of_int k / 10000)"
proof -
  have d: "\<bar>x * 10000 - of_int k\<bar> < 1 / 2"
  proof -
    have "x * 10000 - of_int k = (x - of_int k / 10000) * 10000" by simp
    then have "\<bar>x * 10000 - of_int k\<bar> = \<bar>x - of_int k / 10000\<bar> * 10000" by (simp only: abs_mult)
    also have "\<dots> \<le> 1 / 2 ^ 39 * 10000" using assms by (intro mult_right_mono) simp_all
    finally show ?thesis by simp
  qed
  have "\<bar>of_int (round_half_even (x * 10000)) - x * 10000\<bar> \<le> 1 / 2" by (rule round_half_even_error)
  then have "\<bar>rat_of_int (round_half_even (x * 10000)) - of_int k\<bar> < of_int 1" using d unfolding abs_less_iff abs_le_iff of_int_1 by linarith
  then have "\<bar>rat_of_int (round_half_even (x * 10000) - k)\<bar> < of_int 1" by simp
  then have "\<bar>round_half_even (x * 10000) - k\<bar> < 1" by (simp only: of_int_abs [symmetric] of_int_less_iff)
  then have "round_half_even (x * 10000) = k" by linarith
  then show ?thesis by (simp add: py_round4_def)
qed

lemma status_near:
  assumes "\<bar>score - s\<bar> \<le> 1 / 2 ^ 39"
  shows "s \<le> 19 / 100 \<Longrightarrow> map_diff_score_to_status score = SAFE"
    and "21 / 100 \<le> s \<Longrightarrow> s \<le> 59 / 100 \<Longrightarrow> map_diff_score_to_status score = SUSPECT"
    and "61 / 100 \<le> s \<Longrightarrow> map_diff_score_to_status score = STALE"
proof -
  have t: "SAFE_MAX_DIFF_SCORE = 3602879701896397 / 18014398509481984"
    "SUSPECT_MAX_DIFF_SCORE = 5404319552844595 / 9007199254740992"
    by (simp_all add: SAFE_MAX_DIFF_SCORE_def SUSPECT_MAX_DIFF_SCORE_def weights)
  have d: "score \<le> s + 1 / 1000" "s - 1 / 1000 \<le> score"
    using assms unfolding abs_le_iff by simp_all
  show "s \<le> 19 / 100 \<Longrightarrow> map_diff_score_to_status score = SAFE"
    "21 / 100 \<le> s \<Longrightarrow> s \<le> 59 / 100 \<Longrightarrow> map_diff_score_to_status score = SUSPECT"
    "61 / 100 \<le> s \<Longrightarrow> map_diff_score_to_status score = STALE"
    using d by (auto simp: map_diff_score_to_status_def t)
qed

text \<open>What one change adds, in hundredths.\<close>

definition points :: "bool \<Rightarrow> bool \<Rightarrow> bool \<Rightarrow> bool \<Rightarrow> int" where
  "points navigation key_locator summary structure =
     (if navigation then 20 else 0) + (if key_locator then 45 else 0) +
     (if summary then 15 else 0) + (if structure then 20 else 0)"

lemma points_20: "points a b c d = 20 \<Longrightarrow> \<not> b \<and> \<not> c \<and> a \<noteq> d"
  by (cases a; cases b; cases c; cases d; simp add: points_def)

lemma points_60: "points a b c d = 60 \<Longrightarrow> b \<and> c \<and> \<not> a \<and> \<not> d"
  by (cases a; cases b; cases c; cases d; simp add: points_def)

lemma filter_components:
  "filter P (map fst DIFF_WEIGHTS) =
    (if P ''navigation_hash'' then [''navigation_hash''] else []) @
    (if P ''key_locator_hash'' then [''key_locator_hash''] else []) @
    (if P ''semantic_summary_hash'' then [''semantic_summary_hash''] else []) @
    (if P ''structure_hash'' then [''structure_hash''] else [])"
  by (simp add: DIFF_WEIGHTS_def)

lemma decimal_points:
  "sum_list (map decimal_weight (filter P (map fst DIFF_WEIGHTS))) =
    of_int (points (P ''navigation_hash'') (P ''key_locator_hash'') (P ''semantic_summary_hash'')
      (P ''structure_hash'')) / 100"
  by (simp add: filter_components decimal_weight_def points_def)

lemma single_permutation: "mset cs = mset [c] \<Longrightarrow> cs = [c]"
  by (cases cs) auto

lemma pair_permutation: "mset cs = mset [a, b] \<Longrightarrow> cs = [a, b] \<or> cs = [b, a]"
  by (cases cs; cases "tl cs") (auto simp: add_mset_eq_single add_eq_conv_ex)

lemma changed_status:
  assumes "mset cs = mset (filter P (map fst DIFF_WEIGHTS))"
  defines "n \<equiv> points (P ''navigation_hash'') (P ''key_locator_hash'') (P ''semantic_summary_hash'')
      (P ''structure_hash'')"
  shows "map_diff_score_to_status (py_sum (map weight_of cs)) =
      (if n \<le> 20 then SAFE else if n \<le> 60 then SUSPECT else STALE)"
    and "py_round4 (py_sum (map weight_of cs)) = fl (of_int n / 100)"
proof -
  let ?score = "py_sum (map weight_of cs)"
  have near: "\<bar>?score - of_int n / 100\<bar> \<le> 1 / 2 ^ 39"
    unfolding n_def decimal_points [symmetric]
    by (rule score_near [OF assms(1)]) (auto simp: DIFF_WEIGHTS_def)
  then show "py_round4 ?score = fl (of_int n / 100)"
    using py_round4_near [of ?score "100 * n"] by simp
  have w: "weight_of ''navigation_hash'' = fl (1 / 5)" "weight_of ''structure_hash'' = fl (1 / 5)"
    "weight_of ''key_locator_hash'' = fl (9 / 20)" "weight_of ''semantic_summary_hash'' = fl (3 / 20)"
    by (simp_all add: weight_of_def DIFF_WEIGHTS_def)
  consider "n \<le> 19" | "21 \<le> n" "n \<le> 59" | "61 \<le> n" | "n = 20" | "n = 60" by linarith
  then show "map_diff_score_to_status ?score = (if n \<le> 20 then SAFE else if n \<le> 60 then SUSPECT else STALE)"
  proof cases
    case 1
    then have "rat_of_int n \<le> of_int 19" by (simp only: of_int_le_iff)
    then show ?thesis using status_near(1) [OF near] 1 by simp
  next
    case 2
    then have "rat_of_int 21 \<le> of_int n" "rat_of_int n \<le> of_int 59" by (simp_all only: of_int_le_iff)
    then show ?thesis using status_near(2) [OF near] 2 by simp
  next
    case 3
    then have "rat_of_int 61 \<le> of_int n" by (simp only: of_int_le_iff)
    then show ?thesis using status_near(3) [OF near] 3 by simp
  next
    case 4
    then consider "cs = [''navigation_hash'']" | "cs = [''structure_hash'']"
      using assms(1) points_20 [OF 4 [unfolded n_def]]
      by (cases "P ''navigation_hash''") (simp_all add: filter_components single_permutation)
    then show ?thesis
      using 4 by cases (simp_all add: py_sum_def w map_diff_score_to_status_def SAFE_MAX_DIFF_SCORE_def)
  next
    case 5
    then consider "cs = [''key_locator_hash'', ''semantic_summary_hash'']" |
      "cs = [''semantic_summary_hash'', ''key_locator_hash'']"
      using assms(1) points_60 [OF 5 [unfolded n_def]]
        pair_permutation [of cs "''key_locator_hash''" "''semantic_summary_hash''"]
      by (auto simp: filter_components)
    then have "?score = fl (3 / 5)" by cases (simp_all add: w both_orders_suspect)
    then show ?thesis
      using 5 by (simp add: map_diff_score_to_status_def SAFE_MAX_DIFF_SCORE_def SUSPECT_MAX_DIFF_SCORE_def weights)
  qed
qed

text \<open>The drift of a page depends only on which of the four components changed, in whatever order the
  set of changed components is iterated: the score is the double nearest to the sum of their weights,
  up to 20 points are safe, and exactly 60 points, where the float sum meets the threshold, are
  suspect, not stale.\<close>

theorem drift_by_points:
  assumes "\<forall>cs. mset (set_order cs) = mset cs" "old \<noteq> []"
  shows "let changed = component_changed old new;
             n = points (changed ''navigation_hash'') (changed ''key_locator_hash'')
                   (changed ''semantic_summary_hash'') (changed ''structure_hash'');
             diff = compare_fingerprints set_order (Some old) new
         in fd_score diff = fl (of_int n / 100) \<and> 0 \<le> fd_score diff \<and> fd_score diff \<le> 1 \<and>
            fd_status diff = (if n \<le> 20 then SAFE else if n \<le> 60 then SUSPECT else STALE)"
proof -
  let ?ch = "component_changed old new"
  let ?n = "points (?ch ''navigation_hash'') (?ch ''key_locator_hash'') (?ch ''semantic_summary_hash'')
      (?ch ''structure_hash'')"
  let ?cs = "set_order (filter ?ch (map fst DIFF_WEIGHTS))"
  have m: "mset ?cs = mset (filter ?ch (map fst DIFF_WEIGHTS))" using assms(1) by blast
  have "0 \<le> ?n \<and> ?n \<le> 100" by (simp add: points_def)
  then have "0 \<le> rat_of_int ?n" "rat_of_int ?n \<le> of_int 100" by (simp_all only: of_int_0_le_iff of_int_le_iff)
  then have "0 \<le> fl (of_int ?n / 100)" "fl (of_int ?n / 100) \<le> fl (of_int 1)"
    by (auto intro!: fl_nonneg fl_mono)
  moreover have "fl (of_int 1) = of_int 1" by (rule fl_of_int) simp
  ultimately show ?thesis
    using assms(2) changed_status [OF m] by (simp add: compare_fingerprints_def Let_def)
qed

theorem drift_by_points_witness:
  "fd_status (compare_fingerprints rev
     (Some [(''key_locator_hash'', PStr ''a''), (''semantic_summary_hash'', PStr ''a'')]) []) = SUSPECT"
proof -
  have "strip ''a'' = ''a''" by (rule strip_graphic) (simp add: graphic_def)
  then show ?thesis
    using drift_by_points [of rev "[(''key_locator_hash'', PStr ''a''), (''semantic_summary_hash'', PStr ''a'')]" "[]"]
    by (simp add: Let_def component_changed_def legacy_field_for_component_def points_def)
qed

subsection \<open>What a fingerprint does not depend on\<close>

lemma dicts_of_PDicts [simp]: "dicts_of (PList (map PDict ds)) = ds"
  by (induction ds) (simp_all add: dicts_of_def map_filter_simps)

lemma dget_clean_at [simp]: "py_str (dget (clean_at d k # r) k) = normalize_text (dget d k)"
  by (simp add: clean_at_def)

lemma menu_sort_key_normalized:
  "menu_sort_key (normalize_menu m) =
    (clean_int (dget m ''depth''), clean_int (dget m ''sort_order''),
     normalize_text (dget m ''label''), normalize_text (dget m ''route_path''))"
  by (simp add: menu_sort_key_def normalize_menu_def clean_at_def clean_int_def)

lemma menu_sort_key_inj: "inj_on menu_sort_key (set (map normalize_menu ms))"
  by (auto simp: inj_on_def menu_sort_key_normalized) (simp add: normalize_menu_def clean_at_def)

lemma sort_key_mset:
  "mset xs = mset ys \<Longrightarrow> inj_on key (set xs) \<Longrightarrow> sort_key key xs = sort_key key ys"
  by (rule sort_key_inj_key_eq) simp_all

text \<open>C27: the fingerprint of a page does not depend on the order in which its menu rows and its element
  rows are read, provided the sort key of the elements, and that of the legacy projection, tells
  apart the elements that differ.\<close>

theorem fingerprint_ignores_row_order:
  assumes "mset ms = mset ms'" "mset es = mset es'"
    and "inj_on element_sort_key (set (map normalize_element es))"
    and "inj_on legacy_sort_key (set (map (pick [''element_type'', ''element_role'', ''element_text'',
           ''playwright_locator'', ''usage_description'', ''attributes'']) (map normalize_element es)))"
  shows "build_page_fingerprint
      [(''page'', p), (''menus'', PList (map PDict ms)), (''elements'', PList (map PDict es))] =
    build_page_fingerprint
      [(''page'', p), (''menus'', PList (map PDict ms')), (''elements'', PList (map PDict es'))]"
proof -
  have "normalize_menus (PList (map PDict ms)) = normalize_menus (PList (map PDict ms'))"
    unfolding normalize_menus_def dicts_of_PDicts
    by (rule sort_key_mset) (simp add: assms(1), rule menu_sort_key_inj)
  moreover have elements: "normalize_elements (PList (map PDict es)) = normalize_elements (PList (map PDict es'))"
    unfolding normalize_elements_def dicts_of_PDicts
    by (rule sort_key_mset) (simp add: assms(2), rule assms(3))
  ultimately show ?thesis by (simp add: build_page_fingerprint_def)
qed

theorem fingerprint_ignores_row_order_witness:
  "build_page_fingerprint [(''page'', PNone), (''menus'', PList []), (''elements'', PList
       [PDict [(''element_type'', PStr ''a'')], PDict [(''element_type'', PStr ''b'')]])] =
   build_page_fingerprint [(''page'', PNone), (''menus'', PList []), (''elements'', PList
       [PDict [(''element_type'', PStr ''b'')], PDict [(''element_type'', PStr ''a'')]])]"
proof -
  have s: "strip ''a'' = ''a''" "strip ''b'' = ''b''"
    by (rule strip_graphic, simp add: graphic_def)+
  show ?thesis
    using fingerprint_ignores_row_order [of "[]" "[]"
        "[[(''element_type'', PStr ''a'')], [(''element_type'', PStr ''b'')]]"
        "[[(''element_type'', PStr ''b'')], [(''element_type'', PStr ''a'')]]" PNone]
    by (simp add: s normalize_element_def element_sort_key_def legacy_sort_key_def pick_def clean_at_def)
qed

end
