(* ===== verification/PyRegex.thy ===== *)
theory PyRegex
  imports PyData
begin

section \<open>Regular expressions\<close>

text \<open>
  The patterns the code gives to \<open>re\<close> are regular: \<open>search\<close> and \<open>fullmatch\<close> used as truth values ask
  whether a word, or a part of it, lies in the language of the pattern. Words are lists of code
  points. The matcher takes derivatives; its theorem says that it decides the language.
\<close>

datatype rx =
    RNone
  | REps
  | RChar "nat \<Rightarrow> bool"
  | RSeq rx rx
  | RAlt rx rx
  | RStar rx

inductive in_rx :: "rx \<Rightarrow> nat list \<Rightarrow> bool" where
  "in_rx REps []"
| "p c \<Longrightarrow> in_rx (RChar p) [c]"
| "in_rx r u \<Longrightarrow> in_rx s v \<Longrightarrow> in_rx (RSeq r s) (u @ v)"
| "in_rx r u \<Longrightarrow> in_rx (RAlt r s) u"
| "in_rx s u \<Longrightarrow> in_rx (RAlt r s) u"
| "in_rx (RStar r) []"
| "in_rx r u \<Longrightarrow> in_rx (RStar r) v \<Longrightarrow> in_rx (RStar r) (u @ v)"

inductive_simps in_rx_simps [simp]:
  "in_rx RNone u" "in_rx REps u" "in_rx (RChar p) u" "in_rx (RSeq r s) u" "in_rx (RAlt r s) u"

subsection \<open>The matcher\<close>

fun nullable :: "rx \<Rightarrow> bool" where
  "nullable RNone = False"
| "nullable REps = True"
| "nullable (RChar p) = False"
| "nullable (RSeq r s) = (nullable r \<and> nullable s)"
| "nullable (RAlt r s) = (nullable r \<or> nullable s)"
| "nullable (RStar r) = True"

text \<open>Sequences and alternatives with an empty part are kept small.\<close>

definition seq :: "rx \<Rightarrow> rx \<Rightarrow> rx" where
  "seq r s = (case r of RNone \<Rightarrow> RNone | REps \<Rightarrow> s | _ \<Rightarrow> RSeq r s)"

definition alt :: "rx \<Rightarrow> rx \<Rightarrow> rx" where
  "alt r s = (case r of RNone \<Rightarrow> s | _ \<Rightarrow> (case s of RNone \<Rightarrow> r | _ \<Rightarrow> RAlt r s))"

fun deriv :: "nat \<Rightarrow> rx \<Rightarrow> rx" where
  "deriv c RNone = RNone"
| "deriv c REps = RNone"
| "deriv c (RChar p) = (if p c then REps else RNone)"
| "deriv c (RSeq r s) =
     (if nullable r then alt (seq (deriv c r) s) (deriv c s) else seq (deriv c r) s)"
| "deriv c (RAlt r s) = alt (deriv c r) (deriv c s)"
| "deriv c (RStar r) = seq (deriv c r) (RStar r)"

definition rx_fullmatch :: "rx \<Rightarrow> nat list \<Rightarrow> bool" where
  "rx_fullmatch r u = nullable (fold deriv u r)"

definition any_text :: rx where
  "any_text = RStar (RChar (\<lambda>c. True))"

definition rx_search :: "rx \<Rightarrow> nat list \<Rightarrow> bool" where
  "rx_search r u = rx_fullmatch (RSeq any_text (RSeq r any_text)) u"

lemma in_seq [simp]: "in_rx (seq r s) u = in_rx (RSeq r s) u"
  by (cases r) (auto simp: seq_def)

lemma in_alt [simp]: "in_rx (alt r s) u = in_rx (RAlt r s) u"
  by (cases r; cases s) (auto simp: alt_def)

lemma nullable_iff: "nullable r \<longleftrightarrow> in_rx r []"
  by (induction r) (auto intro: in_rx.intros)

lemma in_star_Cons:
  "in_rx (RStar r) (c # u) \<longleftrightarrow> (\<exists>v w. u = v @ w \<and> in_rx r (c # v) \<and> in_rx (RStar r) w)"
proof
  have "in_rx q x \<Longrightarrow> q = RStar r \<Longrightarrow> x = c # u \<Longrightarrow>
      \<exists>v w. u = v @ w \<and> in_rx r (c # v) \<and> in_rx (RStar r) w" for q x
  proof (induction arbitrary: u rule: in_rx.induct)
    case (7 r' a b)
    then show ?case by (cases a) auto
  qed simp_all
  then show "in_rx (RStar r) (c # u) \<Longrightarrow> \<exists>v w. u = v @ w \<and> in_rx r (c # v) \<and> in_rx (RStar r) w"
    by blast
next
  assume "\<exists>v w. u = v @ w \<and> in_rx r (c # v) \<and> in_rx (RStar r) w"
  then obtain v w where "u = v @ w" "in_rx r (c # v)" "in_rx (RStar r) w" by blast
  then show "in_rx (RStar r) (c # u)" using in_rx.intros(7) [of r "c # v" w] by simp
qed

lemma in_seq_Cons:
  "in_rx (RSeq r s) (c # u) \<longleftrightarrow>
    (\<exists>v w. u = v @ w \<and> in_rx r (c # v) \<and> in_rx s w) \<or> in_rx r [] \<and> in_rx s (c # u)"
  by (auto simp: Cons_eq_append_conv)

lemma in_deriv: "in_rx (deriv c r) u \<longleftrightarrow> in_rx r (c # u)"
proof (induction r arbitrary: u)
  case (RSeq r s)
  then show ?case unfolding in_seq_Cons by (auto simp: nullable_iff)
next
  case (RStar r)
  then show ?case by (auto simp: in_star_Cons)
qed auto

lemma fullmatch_iff: "rx_fullmatch r u \<longleftrightarrow> in_rx r u"
proof -
  have "nullable (fold deriv u r) \<longleftrightarrow> in_rx r u" for u
    by (induction u arbitrary: r) (simp_all add: nullable_iff in_deriv)
  then show ?thesis by (simp add: rx_fullmatch_def)
qed

lemma in_star_char: "in_rx (RStar (RChar p)) u \<longleftrightarrow> (\<forall>c \<in> set u. p c)"
proof (induction u)
  case Nil
  then show ?case by (simp add: in_rx.intros)
next
  case (Cons c u)
  then show ?case by (auto simp: in_star_Cons)
qed

lemma search_iff: "rx_search r u \<longleftrightarrow> (\<exists>a m b. u = a @ m @ b \<and> in_rx r m)"
  by (auto simp: rx_search_def fullmatch_iff any_text_def in_star_char)

subsection \<open>Patterns\<close>

definition rx_lit :: "char \<Rightarrow> rx" where
  "rx_lit c = RChar (\<lambda>n. n = of_char c)"

definition rx_plus :: "rx \<Rightarrow> rx" where
  "rx_plus r = RSeq r (RStar r)"

text \<open>\<open>r{n,}\<close>\<close>

fun rx_at_least :: "nat \<Rightarrow> rx \<Rightarrow> rx" where
  "rx_at_least 0 r = RStar r"
| "rx_at_least (Suc n) r = RSeq r (rx_at_least n r)"

definition rx_text :: "string \<Rightarrow> rx" where
  "rx_text s = foldr (\<lambda>c r. RSeq (rx_lit c) r) s REps"

definition between :: "char \<Rightarrow> nat \<Rightarrow> char \<Rightarrow> bool" where
  "between lo n hi \<longleftrightarrow> of_char lo \<le> n \<and> n \<le> of_char hi"

text \<open>\<open>\d\<close>: the decimal digits of Unicode (version 15) come in runs of ten.\<close>

definition decimal_zeros :: "nat list" where
  "decimal_zeros =
     [48, 1632, 1776, 1984, 2406, 2534, 2662, 2790, 2918, 3046, 3174, 3302, 3430, 3558, 3664,
      3792, 3872, 4160, 4240, 6112, 6160, 6470, 6608, 6784, 6800, 6992, 7088, 7232, 7248,
      42528, 43216, 43264, 43472, 43504, 43600, 44016, 65296, 66720, 68912, 69734, 69872,
      69942, 70096, 70384, 70736, 70864, 71248, 71360, 71472, 71904, 72016, 72784, 73040,
      73120, 73552, 92768, 92864, 93008, 120782, 120792, 120802, 120812, 120822, 123200, 123632,
      124144, 125264, 130032]"

definition is_decimal :: "nat \<Rightarrow> bool" where
  "is_decimal n = list_ex (\<lambda>z. z \<le> n \<and> n < z + 10) decimal_zeros"

text \<open>\<open>\s\<close>: white space.\<close>

definition is_space :: "nat \<Rightarrow> bool" where
  "is_space n \<longleftrightarrow> n \<in> set (map code_point py_spaces)"

lemma in_text: "in_rx (rx_text s) u \<longleftrightarrow> u = map of_char s"
  by (induction s arbitrary: u) (auto simp: rx_text_def rx_lit_def)

lemma in_char_seq: "in_rx (RSeq (RChar p) s) u \<longleftrightarrow> (\<exists>c v. u = c # v \<and> p c \<and> in_rx s v)"
  by (auto intro: exI [of _ "[c]" for c])

lemma in_at_least_char:
  "in_rx (rx_at_least n (RChar p)) u \<longleftrightarrow> n \<le> length u \<and> (\<forall>c \<in> set u. p c)"
proof (induction n arbitrary: u)
  case (Suc n)
  then show ?case by (cases u) (auto simp: in_char_seq simp del: in_rx_simps)
qed (simp add: in_star_char)

lemma in_plus_char: "in_rx (rx_plus (RChar p)) u \<longleftrightarrow> u \<noteq> [] \<and> (\<forall>c \<in> set u. p c)"
  by (cases u) (simp_all add: rx_plus_def in_char_seq in_star_char del: in_rx_simps)

end
