(* ===== verification/LocatorBundles.thy ===== *)
theory LocatorBundles
  imports PyRegex FloatSums
begin

section \<open>Locator bundles\<close>

text \<open>
  asset\_compiler/locator\_bundles.py: the candidates of an element that are stable enough to be
  used, ranked by strategy, scores and observed successes. A candidate is the dictionary the
  crawler stored. Scores are floats; every sum and product of the rank is rounded.
\<close>

type_synonym locator_bundle = "pydict list"

definition strategy_priority :: "string \<Rightarrow> int" where
  "strategy_priority s =
     (if s = ''semantic'' then 100
      else if s = ''label'' then 90
      else if s = ''testid'' then 80
      else if s = ''text_anchor'' then 70
      else if s = ''structure'' then 60
      else if s = ''css'' then 10
      else 0)"

subsection \<open>Forbidden selectors\<close>

definition letter :: "nat \<Rightarrow> bool" where
  "letter n \<longleftrightarrow> between CHR ''A'' n CHR ''Z'' \<or> between CHR ''a'' n CHR ''z''"

definition digit :: "nat \<Rightarrow> bool" where
  "digit n \<longleftrightarrow> between CHR ''0'' n CHR ''9''"

definition dash :: "nat \<Rightarrow> bool" where
  "dash n \<longleftrightarrow> n = of_char CHR ''_'' \<or> n = of_char CHR ''-''"

text \<open>\<open>[A-Za-z_-]\<close>, \<open>[A-Za-z0-9_-]\<close> and \<open>[0-9a-f]\<close>.\<close>

definition stem_char :: "nat \<Rightarrow> bool" where "stem_char n \<longleftrightarrow> letter n \<or> dash n"
definition name_char :: "nat \<Rightarrow> bool" where "name_char n \<longleftrightarrow> letter n \<or> digit n \<or> dash n"
definition hex_char :: "nat \<Rightarrow> bool" where "hex_char n \<longleftrightarrow> digit n \<or> between CHR ''a'' n CHR ''f''"

definition HASH_CLASS_RE :: rx where
  "HASH_CLASS_RE =
     RSeq (rx_lit (CHR ''.'')) (RSeq (RStar (RChar stem_char))
       (RSeq (rx_at_least 6 (RChar hex_char)) (RStar (RChar name_char))))"

definition DYNAMIC_ID_RE :: rx where
  "DYNAMIC_ID_RE =
     RSeq (rx_lit (CHR ''#'')) (RSeq (RStar (RChar stem_char))
       (RSeq (rx_at_least 4 (RChar is_decimal)) (RStar (RChar name_char))))"

definition PURE_NTH_CHILD_RE :: rx where
  "PURE_NTH_CHILD_RE =
     RSeq (RStar (RSeq (rx_plus (RChar name_char)) (RSeq (RStar (RChar is_space))
             (RSeq (rx_lit (CHR ''>'')) (RStar (RChar is_space))))))
       (RSeq (rx_plus (RChar name_char)) (RSeq (rx_text '':nth-child('')
          (RSeq (rx_plus (RChar is_decimal)) (rx_lit (CHR '')'')))))"

text \<open>The number of matches of \<open>\.[A-Za-z0-9_-]+\<close>: a dot is no part of the run after a dot.\<close>

fun class_chain_count :: "nat list \<Rightarrow> nat" where
  "class_chain_count (c # d # u) =
     (if c = of_char CHR ''.'' \<and> name_char d then 1 else 0) + class_chain_count (d # u)"
| "class_chain_count u = 0"

definition is_overlong_class_chain :: "string \<Rightarrow> bool" where
  "is_overlong_class_chain selector \<longleftrightarrow> 6 \<le> class_chain_count (code_points selector)"

definition is_forbidden_locator :: "pydict \<Rightarrow> bool" where
  "is_forbidden_locator candidate =
     (let selector = normalize_text (dget candidate ''selector'')
      in if selector = [] then True
         else if rx_search DYNAMIC_ID_RE (code_points selector) then True
         else if rx_fullmatch PURE_NTH_CHILD_RE (code_points (lower selector)) then True
         else if is_overlong_class_chain selector then True
         else if rx_search HASH_CLASS_RE (code_points selector) then True
         else False)"

subsection \<open>Ranks\<close>

definition rank_locator_candidate :: "pydict \<Rightarrow> rat" where
  "rank_locator_candidate candidate =
     (let strategy_type = lower (normalize_text (dget candidate ''strategy_type''));
          base = fl (of_int (strategy_priority strategy_type));
          stability = clean_float (dget candidate ''stability_score'') 0;
          specificity = clean_float (dget candidate ''specificity_score'') 0;
          observed_success_count = clean_int (dget candidate ''observed_success_count'')
      in fl (fl (fl (base + stability) + specificity) +
             fl (fl (of_int (min observed_success_count 50)) * fl (1 / 100))))"

definition normalized_candidate :: "pydict \<Rightarrow> nat \<Rightarrow> pydict \<Rightarrow> pydict" where
  "normalized_candidate context index candidate =
     [(''strategy_type'', PStr (normalize_text (dget candidate ''strategy_type''))),
      (''selector'', PStr (normalize_text (dget candidate ''selector''))),
      (''context_constraints'', PDict context),
      (''stability_score'', PFloat (clean_float (dget candidate ''stability_score'') 0)),
      (''specificity_score'', PFloat (clean_float (dget candidate ''specificity_score'') 0)),
      (''observed_success_count'', PInt (clean_int (dget candidate ''observed_success_count''))),
      (''fallback_rank'', PInt (int index + 1))]"

definition build_locator_bundle :: "pydict list option \<Rightarrow> pydict option \<Rightarrow> locator_bundle" where
  "build_locator_bundle locator_candidates state_context =
     (let filtered = filter (\<lambda>c. \<not> is_forbidden_locator c)
                       (case locator_candidates of None \<Rightarrow> [] | Some cs \<Rightarrow> cs);
          ranked = sort_desc rank_locator_candidate filtered;
          context = (case state_context of None \<Rightarrow> [] | Some d \<Rightarrow> d)
      in map (\<lambda>(index, c). normalized_candidate context index c) (enumerate 0 ranked))"

subsection \<open>What the patterns mean\<close>

lemma in_lit_seq: "in_rx (RSeq (rx_lit c) r) u \<longleftrightarrow> (\<exists>v. u = of_char c # v \<and> in_rx r v)"
  by (auto simp: rx_lit_def in_char_seq simp del: in_rx_simps)

text \<open>A marker, letters and dashes, then at least \<open>n\<close> characters of one kind.\<close>

lemma marked_run_search:
  "rx_search (RSeq (rx_lit k) (RSeq (RStar (RChar stem_char))
      (RSeq (rx_at_least n (RChar p)) (RStar (RChar name_char))))) u \<longleftrightarrow>
    (\<exists>a stem ds b. u = a @ of_char k # stem @ ds @ b \<and> (\<forall>c \<in> set stem. stem_char c) \<and>
       n \<le> length ds \<and> (\<forall>c \<in> set ds. p c))" (is "rx_search ?r u \<longleftrightarrow> ?spec")
proof
  assume "rx_search ?r u"
  then obtain a m b where u: "u = a @ m @ b" "in_rx ?r m" unfolding search_iff by blast
  then obtain v where v: "m = of_char k # v"
    "in_rx (RSeq (RStar (RChar stem_char)) (RSeq (rx_at_least n (RChar p)) (RStar (RChar name_char)))) v"
    unfolding in_lit_seq by blast
  then obtain stem ds r where "v = stem @ ds @ r" "\<forall>c \<in> set stem. stem_char c" "n \<le> length ds" "\<forall>c \<in> set ds. p c"
    by (auto simp: in_star_char in_at_least_char)
  then show ?spec
    using u(1) v(1) by (intro exI [of _ a] exI [of _ stem] exI [of _ ds] exI [of _ "r @ b"]) simp
next
  assume ?spec
  then obtain a stem ds b where u: "u = a @ (of_char k # stem @ (ds @ [])) @ b"
    and s: "\<forall>c \<in> set stem. stem_char c" "n \<le> length ds" "\<forall>c \<in> set ds. p c" by auto
  have "in_rx (RSeq (RStar (RChar stem_char)) (RSeq (rx_at_least n (RChar p)) (RStar (RChar name_char)))) (stem @ (ds @ []))"
    using s by (intro in_rx.intros(3)) (simp_all add: in_star_char in_at_least_char)
  then have "in_rx ?r (of_char k # stem @ (ds @ []))" unfolding in_lit_seq by blast
  then show "rx_search ?r u" unfolding search_iff using u by blast
qed

text \<open>A locator candidate is kept exactly when its selector is not empty and unstable in none of four
  ways: no identifier that runs into four decimal digits, no class name that runs into six hex
  digits, fewer than six classes, and not a bare path to an n-th child. The derivative matcher
  reads the selector's code points.\<close>

theorem forbidden_locator_iff:
  "\<not> is_forbidden_locator candidate \<longleftrightarrow>
    (let selector = normalize_text (dget candidate ''selector''); u = code_points selector
     in selector \<noteq> [] \<and>
        \<not> (\<exists>a stem ds b. u = a @ of_char CHR ''#'' # stem @ ds @ b \<and> (\<forall>c \<in> set stem. stem_char c) \<and>
             length ds = 4 \<and> (\<forall>c \<in> set ds. is_decimal c)) \<and>
        \<not> (\<exists>a stem ds b. u = a @ of_char CHR ''.'' # stem @ ds @ b \<and> (\<forall>c \<in> set stem. stem_char c) \<and>
             length ds = 6 \<and> (\<forall>c \<in> set ds. hex_char c)) \<and>
        class_chain_count u < 6 \<and>
        \<not> in_rx PURE_NTH_CHILD_RE (code_points (lower selector)))"
proof -
  have shorten: "(\<exists>a stem ds b. u = a @ k # stem @ ds @ b \<and> (\<forall>c \<in> set stem. stem_char c) \<and>
       n \<le> length ds \<and> (\<forall>c \<in> set ds. p c)) \<longleftrightarrow>
     (\<exists>a stem ds b. u = a @ k # stem @ ds @ b \<and> (\<forall>c \<in> set stem. stem_char c) \<and>
       length ds = n \<and> (\<forall>c \<in> set ds. p c))" for k n p u
  proof
    assume "\<exists>a stem ds b. u = a @ k # stem @ ds @ b \<and> (\<forall>c \<in> set stem. stem_char c) \<and>
       n \<le> length ds \<and> (\<forall>c \<in> set ds. p c)"
    then obtain a stem ds b where r: "u = a @ k # stem @ ds @ b" "\<forall>c \<in> set stem. stem_char c"
      "n \<le> length ds" "\<forall>c \<in> set ds. p c" by blast
    then have "u = a @ k # stem @ take n ds @ (drop n ds @ b)"
      using append_take_drop_id [of n ds] by (simp add: append_assoc [symmetric] del: append_assoc)
    moreover have "length (take n ds) = n" using r(3) by simp
    moreover have "\<forall>c \<in> set (take n ds). p c" using r(4) by (meson in_set_takeD)
    ultimately show "\<exists>a stem ds b. u = a @ k # stem @ ds @ b \<and> (\<forall>c \<in> set stem. stem_char c) \<and>
       length ds = n \<and> (\<forall>c \<in> set ds. p c)" using r(2) by blast
  qed blast
  show ?thesis
    unfolding is_forbidden_locator_def Let_def is_overlong_class_chain_def
      DYNAMIC_ID_RE_def HASH_CLASS_RE_def marked_run_search fullmatch_iff shorten
    by (simp add: not_le) blast
qed

lemma rx_at_least_numeral:
  "rx_at_least (numeral k) r = RSeq r (rx_at_least (pred_numeral k) r)"
  by (simp add: numeral_eq_Suc)

lemmas regex_eval =
  rx_search_def rx_fullmatch_def seq_def alt_def any_text_def rx_lit_def rx_plus_def rx_text_def
  DYNAMIC_ID_RE_def HASH_CLASS_RE_def PURE_NTH_CHILD_RE_def rx_at_least_numeral stem_char_def name_char_def
  hex_char_def letter_def digit_def dash_def between_def is_decimal_def decimal_zeros_def is_space_def
  py_spaces_def code_point_def

theorem forbidden_locator_iff_witness:
  "is_forbidden_locator [(''selector'', PStr ''#row1234'')]"
proof (rule ccontr)
  let ?c = "[(''selector'', PStr ''#row1234'')]"
  assume "\<not> is_forbidden_locator ?c"
  then have "\<not> (\<exists>a stem ds b. code_points (normalize_text (dget ?c ''selector'')) =
       a @ of_char CHR ''#'' # stem @ ds @ b \<and> (\<forall>c \<in> set stem. stem_char c) \<and>
       length ds = 4 \<and> (\<forall>c \<in> set ds. is_decimal c))"
    by (rule forbidden_locator_iff [unfolded Let_def, THEN iffD1, THEN conjunct2, THEN conjunct1])
  moreover have "code_points (normalize_text (dget ?c ''selector'')) =
      [] @ of_char CHR ''#'' # [114, 111, 119] @ [49, 50, 51, 52] @ []"
    by (simp add: code_points_def continuation_byte_def code_point_def strip_graphic graphic_def)
  moreover have "\<forall>c \<in> set [114, 111, 119]. stem_char c" "\<forall>c \<in> set [49, 50, 51, 52]. is_decimal c"
    by (simp_all add: stem_char_def letter_def between_def is_decimal_def decimal_zeros_def)
  moreover have "length [49, 50, 51, 52 :: nat] = 4" by simp
  ultimately show False by blast
qed

subsection \<open>The order of a bundle\<close>

text \<open>A bundle holds exactly the candidates that are kept, each normalised with its rank counted from
  one, best rank first; candidates of equal rank stay in the order in which they were observed.\<close>

theorem bundle_best_first:
  "let kept = filter (\<lambda>c. \<not> is_forbidden_locator c) candidates;
       bundle = build_locator_bundle (Some candidates) (Some context_dict)
   in \<exists>ranked. mset ranked = mset kept \<and> length bundle = length ranked \<and>
        (\<forall>i < length ranked. bundle ! i = normalized_candidate context_dict i (ranked ! i)) \<and>
        (\<forall>i j. i \<le> j \<and> j < length ranked \<longrightarrow>
           rank_locator_candidate (ranked ! j) \<le> rank_locator_candidate (ranked ! i)) \<and>
        (\<forall>k. filter (\<lambda>c. rank_locator_candidate c = k) ranked = filter (\<lambda>c. rank_locator_candidate c = k) kept)"
proof -
  let ?kept = "filter (\<lambda>c. \<not> is_forbidden_locator c) candidates"
  let ?ranked = "sort_desc rank_locator_candidate ?kept"
  have "build_locator_bundle (Some candidates) (Some context_dict) ! i = normalized_candidate context_dict i (?ranked ! i)"
    if "i < length ?kept" for i
    using that by (simp add: build_locator_bundle_def nth_enumerate_eq)
  moreover have "length (build_locator_bundle (Some candidates) (Some context_dict)) = length ?ranked"
    by (simp add: build_locator_bundle_def)
  ultimately show ?thesis
    unfolding Let_def
    by (intro exI [of _ ?ranked]) (simp add: sort_desc_descending filter_sort_desc del: filter_filter)
qed

theorem bundle_best_first_witness:
  "length (build_locator_bundle
     (Some [[(''selector'', PStr ''main'')], [(''selector'', PNone)]]) (Some [])) = 1"
proof -
  let ?cs = "[[(''selector'', PStr ''main'')], [(''selector'', PNone)]]"
  have "code_points ''main'' = [109, 97, 105, 110]" "strip ''main'' = ''main''" "lower ''main'' = ''main''"
    by (simp_all add: code_points_def continuation_byte_def code_point_def strip_graphic graphic_def lower_def ascii_lower_def)
  then have "\<not> is_forbidden_locator [(''selector'', PStr ''main'')]"
    by (simp add: is_forbidden_locator_def is_overlong_class_chain_def regex_eval)
  then have kept: "filter (\<lambda>c. \<not> is_forbidden_locator c) ?cs = [[(''selector'', PStr ''main'')]]"
    by (simp add: is_forbidden_locator_def [of "[(''selector'', PNone)]"])
  obtain ranked where "mset ranked = mset (filter (\<lambda>c. \<not> is_forbidden_locator c) ?cs)"
    "length (build_locator_bundle (Some ?cs) (Some [])) = length ranked"
    using bundle_best_first [of ?cs "[]"] unfolding Let_def by blast
  then show ?thesis using size_mset [of ranked] unfolding kept by simp
qed

text \<open>Scores as the crawler records them: fractions of one, and a count.\<close>

definition unit_scores :: "pydict \<Rightarrow> bool" where
  "unit_scores c \<longleftrightarrow>
     0 \<le> clean_float (dget c ''stability_score'') 0 \<and> clean_float (dget c ''stability_score'') 0 \<le> 1 \<and>
     0 \<le> clean_float (dget c ''specificity_score'') 0 \<and> clean_float (dget c ''specificity_score'') 0 \<le> 1 \<and>
     0 \<le> clean_int (dget c ''observed_success_count'')"

abbreviation strategy_of :: "pydict \<Rightarrow> string" where
  "strategy_of c \<equiv> lower (normalize_text (dget c ''strategy_type''))"

lemma strategy_priority_range: "0 \<le> strategy_priority s \<and> strategy_priority s \<le> 100"
  by (simp add: strategy_priority_def)

lemma strategy_priority_gap: "strategy_priority s < strategy_priority t \<Longrightarrow> strategy_priority s + 10 \<le> strategy_priority t"
proof -
  have "10 dvd strategy_priority r" for r by (simp add: strategy_priority_def)
  then obtain a b where "strategy_priority s = 10 * a" "strategy_priority t = 10 * b" by (meson dvdE)
  then show "strategy_priority s < strategy_priority t \<Longrightarrow> ?thesis" by simp
qed

lemma fl_hundredth: "0 \<le> fl (1 / 100)" "fl (1 / 100) \<le> 1 / 50"
proof -
  have "fl (1 / 100) = of_int 5764607523034235 * pow2 (- 59)" by (rule fl_at; simp add: pow2_def)
  then show "0 \<le> fl (1 / 100)" "fl (1 / 100) \<le> 1 / 50" by (simp_all add: pow2_def)
qed

lemma fl_between: "\<bar>i\<bar> < 2 ^ 53 \<Longrightarrow> \<bar>j\<bar> < 2 ^ 53 \<Longrightarrow> of_int i \<le> x \<Longrightarrow> x \<le> of_int j \<Longrightarrow> of_int i \<le> fl x \<and> fl x \<le> of_int j"
  using fl_mono [of "of_int i" x] fl_mono [of x "of_int j"] by (simp add: fl_of_int)

lemma rank_range:
  assumes "unit_scores c"
  shows "of_int (strategy_priority (strategy_of c)) \<le> rank_locator_candidate c \<and>
    rank_locator_candidate c \<le> of_int (strategy_priority (strategy_of c)) + 3"
proof -
  let ?b = "strategy_priority (strategy_of c)"
  let ?n = "min (clean_int (dget c ''observed_success_count'')) 50"
  let ?s1 = "fl (fl (of_int ?b) + clean_float (dget c ''stability_score'') 0)"
  let ?s2 = "fl (?s1 + clean_float (dget c ''specificity_score'') 0)"
  let ?t = "fl (fl (of_int ?n) * fl (1 / 100))"
  note u = assms [unfolded unit_scores_def]
  have small: "\<bar>?b + k\<bar> < 2 ^ 53" if "0 \<le> k" "k \<le> 3" for k
    using strategy_priority_range [of "strategy_of c"] that by simp
  have b: "fl (of_int ?b) = of_int ?b" using small [of 0] fl_of_int by simp
  have s1: "of_int (?b + 0) \<le> ?s1 \<and> ?s1 \<le> of_int (?b + 1)"
    using u by (intro fl_between small) (simp_all add: b)
  then have s2: "of_int (?b + 0) \<le> ?s2 \<and> ?s2 \<le> of_int (?b + 2)"
    using u by (intro fl_between small) simp_all
  have n: "fl (of_int ?n) = of_int ?n" "0 \<le> rat_of_int ?n" "rat_of_int ?n \<le> 50"
    using u by (simp_all add: fl_of_int)
  have "rat_of_int ?n * fl (1 / 100) \<le> 50 * (1 / 50)"
    using n fl_hundredth by (intro mult_mono) simp_all
  then have t: "of_int 0 \<le> ?t \<and> ?t \<le> of_int 1"
    unfolding n(1) using n(2) fl_hundredth(1) by (intro fl_between) simp_all
  have "of_int (?b + 0) \<le> fl (?s2 + ?t) \<and> fl (?s2 + ?t) \<le> of_int (?b + 3)"
    using s2 t by (intro fl_between small) simp_all
  then show ?thesis by (simp add: rank_locator_candidate_def Let_def)
qed

text \<open>Whatever its scores and its history, a candidate of a better strategy outranks every candidate of
  a worse one: the rounded sum of scores stays within the gap between two strategies.\<close>

theorem strategy_outranks_scores:
  assumes "unit_scores c" "unit_scores c'"
    and "strategy_priority (strategy_of c) < strategy_priority (strategy_of c')"
  shows "rank_locator_candidate c < rank_locator_candidate c'"
proof -
  have "rat_of_int (strategy_priority (strategy_of c) + 10) \<le> of_int (strategy_priority (strategy_of c'))"
    using strategy_priority_gap [OF assms(3)] by (simp only: of_int_le_iff)
  then show ?thesis using rank_range [OF assms(1)] rank_range [OF assms(2)] by simp
qed

theorem strategy_outranks_scores_witness:
  "rank_locator_candidate [(''strategy_type'', PStr ''css''), (''stability_score'', PInt 1),
       (''specificity_score'', PInt 1), (''observed_success_count'', PInt 1000)] <
   rank_locator_candidate [(''strategy_type'', PStr ''structure'')]"
proof (rule strategy_outranks_scores)
  have [simp]: "fl 1 = 1" using fl_of_int [of 1] by simp
  show "unit_scores [(''strategy_type'', PStr ''css''), (''stability_score'', PInt 1),
       (''specificity_score'', PInt 1), (''observed_success_count'', PInt 1000)]"
    "unit_scores [(''strategy_type'', PStr ''structure'')]"
    by (simp_all add: unit_scores_def clean_float_def clean_int_def)
  show "strategy_priority (strategy_of [(''strategy_type'', PStr ''css''), (''stability_score'', PInt 1),
       (''specificity_score'', PInt 1), (''observed_success_count'', PInt 1000)])
    < strategy_priority (strategy_of [(''strategy_type'', PStr ''structure'')])"
    by (simp add: strategy_priority_def normalize_text_PStr strip_graphic graphic_def lower_def ascii_lower_def)
qed

end
