(* ===== verification/CheckTemplates.thy ===== *)
theory CheckTemplates
  imports LocatorBundles
begin

section \<open>Check templates\<close>

text \<open>
  asset\_compiler/template\_registry.py and check\_templates.py: the templates of data assertions, and
  the standard checks of a page: which checks a page gets from its summary, its tables and the
  states seen on it. Tuples of a template are lists; a page state is a dictionary.
\<close>

subsection \<open>The registry\<close>

record template_definition =
  td_template_code :: string
  td_template_version :: string
  td_supported_carriers :: "string list"
  td_required_slots :: "string list"
  td_assertion_contract :: pydict
  td_compile_strategy :: pydict
  td_readonly :: bool

definition texts :: "string list \<Rightarrow> pyval" where
  "texts ss = PList (map PStr ss)"

definition field_filter :: "string \<Rightarrow> string \<Rightarrow> string \<Rightarrow> pydict" where
  "field_filter f operator v =
     [(''field'', PStr f), (''operator'', PStr operator), (''value'', PStr v)]"

definition data_count_template :: "string \<Rightarrow> string list \<Rightarrow> string \<Rightarrow> pyval \<Rightarrow> template_definition" where
  "data_count_template code slots bound v =
     \<lparr>td_template_code = code, td_template_version = ''v1'', td_supported_carriers = [''table'', ''list''],
      td_required_slots = slots,
      td_assertion_contract = [(''assertion'', PStr ''data_count''), (bound, v)],
      td_compile_strategy =
        [(''action_chain'', texts [''action.submit_query'']),
         (''assert_module'', PStr ''assert.data_count''),
         (''assert_params'', PDict [(bound, v)])],
      td_readonly = True\<rparr>"

definition row_exists_template :: "string \<Rightarrow> string list \<Rightarrow> pydict \<Rightarrow> template_definition" where
  "row_exists_template code slots row_filter =
     \<lparr>td_template_code = code, td_template_version = ''v1'', td_supported_carriers = [''table'', ''list''],
      td_required_slots = slots,
      td_assertion_contract = (''assertion'', PStr ''row_exists_by_field'') # row_filter,
      td_compile_strategy =
        [(''action_chain'', texts [''action.apply_filter'', ''action.submit_query'']),
         (''action_params'', PDict [(''action.apply_filter'', PDict row_filter)]),
         (''assert_module'', PStr ''assert.row_exists_by_field''),
         (''assert_params'', PDict row_filter)],
      td_readonly = True\<rparr>"

definition TEMPLATE_DEFINITIONS :: "template_definition list" where
  "TEMPLATE_DEFINITIONS =
     [data_count_template ''has_data'' [] ''expected_min'' (PInt 1),
      data_count_template ''no_data'' [] ''expected_max'' (PInt 0),
      row_exists_template ''field_equals_exists'' [''field'', ''operator'', ''value'']
        (field_filter ''{{field}}'' ''{{operator}}'' ''{{value}}''),
      row_exists_template ''status_exists'' [''status''] (field_filter ''status'' ''equals'' ''{{status}}''),
      data_count_template ''count_gte'' [''min_count''] ''expected_min'' (PStr ''{{min_count}}'')]"

definition registry_text :: "string option \<Rightarrow> string" where
  "registry_text v = lower (normalize_opt v)"

definition or_v1 :: "string \<Rightarrow> string" where
  "or_v1 v = (if v = [] then ''v1'' else v)"

definition list_templates :: "string \<Rightarrow> template_definition list" where
  "list_templates version =
     filter (\<lambda>t. td_template_version t = or_v1 (registry_text (Some version))) TEMPLATE_DEFINITIONS"

definition get_template :: "string \<Rightarrow> string \<Rightarrow> template_definition option" where
  "get_template template_code version =
     List.find (\<lambda>t. td_template_code t = registry_text (Some template_code) \<and>
                    td_template_version t = or_v1 (registry_text (Some version))) TEMPLATE_DEFINITIONS"

subsection \<open>Standard checks\<close>

record check_definition =
  cd_check_code :: string
  cd_goal :: string
  cd_input_schema :: "pydict option"
  cd_assertion_schema :: "pydict option"
  cd_state_signature :: "string option"
  cd_locator_bundle :: "locator_bundle option"

definition new_check :: "string \<Rightarrow> string \<Rightarrow> pydict \<Rightarrow> string option \<Rightarrow> check_definition" where
  "new_check code goal assertion_schema state_signature =
     \<lparr>cd_check_code = code, cd_goal = goal, cd_input_schema = None,
      cd_assertion_schema = Some assertion_schema, cd_state_signature = state_signature,
      cd_locator_bundle = None\<rparr>"

definition template_check :: "string option \<Rightarrow> template_definition \<Rightarrow> check_definition" where
  "template_check default_state_signature t =
     \<lparr>cd_check_code = td_template_code t, cd_goal = td_template_code t,
      cd_input_schema = Some [(''required_slots'', texts (td_required_slots t))],
      cd_assertion_schema = Some (td_assertion_contract t),
      cd_state_signature = default_state_signature, cd_locator_bundle = None\<rparr>"

definition build_template_checks :: "string option \<Rightarrow> check_definition list" where
  "build_template_checks default_state_signature =
     map (template_check default_state_signature) (list_templates ''v1'')"

text \<open>The words for adding, creating and building anew, in UTF-8.\<close>

definition CREATE_KEYWORDS :: "string list" where
  "CREATE_KEYWORDS =
     [[CHR 0xE6, CHR 0x96, CHR 0xB0, CHR 0xE5, CHR 0xA2, CHR 0x9E],
      [CHR 0xE5, CHR 0x88, CHR 0x9B, CHR 0xE5, CHR 0xBB, CHR 0xBA],
      [CHR 0xE6, CHR 0x96, CHR 0xB0, CHR 0xE5, CHR 0xBB, CHR 0xBA]]"

definition summary_suggests_create_action :: "string option \<Rightarrow> bool" where
  "summary_suggests_create_action page_summary =
     (case page_summary of
        None \<Rightarrow> False
      | Some s \<Rightarrow> s \<noteq> [] \<and> list_ex (\<lambda>keyword. sublist keyword (strip s)) CREATE_KEYWORDS)"

definition representative_state_check :: "string option \<Rightarrow> pydict \<Rightarrow> check_definition option" where
  "representative_state_check default_state_signature state =
     (let state_signature = normalize_text (dget state ''state_signature'');
          entry_type = normalize_text (dget state ''entry_type'')
      in if state_signature = [] \<or> state_signature = normalize_opt default_state_signature then None
         else if entry_type = ''tab_switch''
         then Some (new_check ''tab_switch_render'' ''tab_switch_render''
                      [(''assertion'', PStr ''table_visible'')] (Some state_signature))
         else if entry_type = ''open_modal''
         then Some (new_check ''open_create_modal_state'' ''open_create_modal''
                      [(''assertion'', PStr ''modal_visible'')] (Some state_signature))
         else None)"

definition build_representative_state_checks ::
  "pydict list option \<Rightarrow> string option \<Rightarrow> check_definition list" where
  "build_representative_state_checks representative_states default_state_signature =
     List.map_filter (representative_state_check default_state_signature)
       (case representative_states of None \<Rightarrow> [] | Some ss \<Rightarrow> ss)"

definition prefer_new_check :: "check_definition \<Rightarrow> check_definition \<Rightarrow> string option \<Rightarrow> bool" where
  "prefer_new_check existing candidate default_state_signature =
     (let default_signature = normalize_opt default_state_signature;
          existing_is_default = (normalize_opt (cd_state_signature existing) = default_signature);
          candidate_is_default = (normalize_opt (cd_state_signature candidate) = default_signature)
      in existing_is_default \<and> \<not> candidate_is_default)"

definition select_step ::
  "string option \<Rightarrow> check_definition \<Rightarrow> (string \<times> check_definition) list \<Rightarrow> (string \<times> check_definition) list" where
  "select_step default_state_signature check selected =
     (case map_of selected (cd_check_code check) of
        None \<Rightarrow> AList.update (cd_check_code check) check selected
      | Some existing \<Rightarrow>
          if prefer_new_check existing check default_state_signature
          then AList.update (cd_check_code check) check selected else selected)"

definition candidate_checks ::
  "string option \<Rightarrow> bool \<Rightarrow> bool \<Rightarrow> pydict list option \<Rightarrow> string option \<Rightarrow> check_definition list" where
  "candidate_checks page_summary has_table has_create_action representative_states default_state_signature =
     [new_check ''page_open'' ''page_open'' [(''assertion'', PStr ''page_ready'')] default_state_signature] @
     (if has_table
      then new_check ''table_render'' ''table_render'' [(''assertion'', PStr ''table_visible'')]
             default_state_signature # build_template_checks default_state_signature
      else []) @
     (if has_create_action \<or> summary_suggests_create_action page_summary
      then [new_check ''open_create_modal'' ''open_create_modal''
              [(''assertion'', PStr ''page_ready''),
               (''required_elements'', PList [PDict [(''kind'', PStr ''button''), (''role'', PStr ''button'')]])]
              default_state_signature]
      else []) @
     build_representative_state_checks representative_states default_state_signature"

definition build_standard_checks ::
  "string option \<Rightarrow> bool \<Rightarrow> bool \<Rightarrow> pydict list option \<Rightarrow> string option \<Rightarrow> check_definition list" where
  "build_standard_checks page_summary has_table has_create_action representative_states
      default_state_signature =
     map snd (fold (select_step default_state_signature)
       (candidate_checks page_summary has_table has_create_action representative_states
         default_state_signature) [])"

subsection \<open>Which checks a page gets\<close>

text \<open>The specification: the first candidate of each check code, in their order.\<close>

function first_of_each :: "('a \<Rightarrow> 'k) \<Rightarrow> 'a list \<Rightarrow> 'a list" where
  "first_of_each key [] = []"
| "first_of_each key (x # xs) = x # first_of_each key (filter (\<lambda>y. key y \<noteq> key x) xs)"
  by pat_completeness auto
termination
  by (relation "measure (\<lambda>(key, xs). length xs)") (simp_all add: less_Suc_eq_le)

lemma set_first_of_each: "set (first_of_each key xs) \<subseteq> set xs"
  by (induction key xs rule: first_of_each.induct) auto

lemma keys_first_of_each: "key ` set (first_of_each key xs) = key ` set xs"
  by (induction key xs rule: first_of_each.induct) auto

lemma distinct_first_of_each: "distinct (map key (first_of_each key xs))"
proof (induction key xs rule: first_of_each.induct)
  case (2 key x xs)
  have "key x \<notin> key ` set (first_of_each key (filter (\<lambda>y. key y \<noteq> key x) xs))"
    by (auto simp: keys_first_of_each)
  then show ?case using 2 by simp
qed simp

lemma select_new:
  "cd_check_code c \<notin> fst ` set sel \<Longrightarrow> select_step d c sel = sel @ [(cd_check_code c, c)]"
proof -
  assume new: "cd_check_code c \<notin> fst ` set sel"
  then have "map_of sel (cd_check_code c) = None" by (simp add: map_of_eq_None_iff)
  moreover have "AList.update k v al = al @ [(k, v)]" if "k \<notin> fst ` set al"
    for k :: string and v :: check_definition and al
    using that by (induction al) auto
  ultimately show ?thesis using new by (simp add: select_step_def)
qed

lemma fold_select:
  assumes "\<And>e c. e \<in> snd ` set sel \<union> set cs \<Longrightarrow> c \<in> set cs \<Longrightarrow> cd_check_code e = cd_check_code c
             \<Longrightarrow> \<not> prefer_new_check e c d"
    and "\<And>k e. (k, e) \<in> set sel \<Longrightarrow> k = cd_check_code e"
  shows "map snd (fold (select_step d) cs sel) =
           map snd sel @ first_of_each cd_check_code (filter (\<lambda>c. cd_check_code c \<notin> fst ` set sel) cs)"
  using assms
proof (induction cs arbitrary: sel)
  case (Cons c cs)
  show ?case
  proof (cases "cd_check_code c \<in> fst ` set sel")
    case True
    then obtain e where e: "map_of sel (cd_check_code c) = Some e"
      by (metis map_of_eq_None_iff not_None_eq)
    then have "(cd_check_code c, e) \<in> set sel" by (rule map_of_SomeD)
    then have "e \<in> snd ` set sel" "cd_check_code e = cd_check_code c"
      using Cons.prems(2) by force+
    then have "\<not> prefer_new_check e c d" using Cons.prems(1) [of e c] by simp
    with e have "select_step d c sel = sel" by (simp add: select_step_def)
    moreover have "map snd (fold (select_step d) cs sel) =
        map snd sel @ first_of_each cd_check_code (filter (\<lambda>c. cd_check_code c \<notin> fst ` set sel) cs)"
      by (rule Cons.IH) (use Cons.prems in auto)
    ultimately show ?thesis using True by simp
  next
    case False
    have "map snd (fold (select_step d) cs (sel @ [(cd_check_code c, c)])) =
        map snd (sel @ [(cd_check_code c, c)]) @ first_of_each cd_check_code
          (filter (\<lambda>c'. cd_check_code c' \<notin> fst ` set (sel @ [(cd_check_code c, c)])) cs)"
      by (rule Cons.IH) (use Cons.prems in auto)
    moreover have "filter (\<lambda>c'. cd_check_code c' \<notin> fst ` set (sel @ [(cd_check_code c, c)])) cs =
        filter (\<lambda>y. cd_check_code y \<noteq> cd_check_code c) (filter (\<lambda>c. cd_check_code c \<notin> fst ` set sel) cs)"
      by (auto intro: filter_cong)
    ultimately show ?thesis using False by (simp add: select_new)
  qed
qed simp

definition fixed_checks :: "bool \<Rightarrow> bool \<Rightarrow> string option \<Rightarrow> check_definition list" where
  "fixed_checks has_table creates d = candidate_checks None has_table creates None d"

lemma candidates_split:
  "candidate_checks ps ht hc rs d =
     fixed_checks ht (hc \<or> summary_suggests_create_action ps) d @ build_representative_state_checks rs d"
  by (simp add: fixed_checks_def candidate_checks_def summary_suggests_create_action_def
      build_representative_state_checks_def map_filter_simps)

lemmas template_defs = TEMPLATE_DEFINITIONS_def data_count_template_def row_exists_template_def

lemma v1_version [simp]: "or_v1 (registry_text (Some ''v1'')) = ''v1''"
  by code_simp

lemma list_templates_v1: "list_templates ''v1'' = TEMPLATE_DEFINITIONS"
  by (simp add: list_templates_def template_defs)

lemma fixed_codes:
  "map cd_check_code (fixed_checks ht c d) =
     [''page_open''] @
     (if ht then [''table_render'', ''has_data'', ''no_data'', ''field_equals_exists'', ''status_exists'', ''count_gte'']
      else []) @
     (if c then [''open_create_modal''] else [])"
  by (simp add: fixed_checks_def candidate_checks_def build_template_checks_def list_templates_v1
      template_defs template_check_def new_check_def summary_suggests_create_action_def
      build_representative_state_checks_def map_filter_simps)

lemma fixed_distinct: "distinct (map cd_check_code (fixed_checks ht c d))"
  unfolding fixed_codes by simp

lemma representative_shape:
  assumes "c \<in> set (build_representative_state_checks rs d)"
  shows "cd_check_code c \<in> {''tab_switch_render'', ''open_create_modal_state''} \<and>
         (\<exists>s. cd_state_signature c = Some s \<and> s \<noteq> [] \<and> s \<noteq> normalize_opt d \<and> strip s = s)"
proof -
  obtain st where "representative_state_check d st = Some c"
    using assms by (auto simp: build_representative_state_checks_def List.map_filter_def split: option.splits)
  moreover have "strip (normalize_text v) = normalize_text v" for v
    by (simp add: normalize_text_def)
  ultimately show ?thesis
    by (auto simp: representative_state_check_def Let_def new_check_def split: if_splits)
qed

lemma candidates_never_replace:
  assumes "e \<in> set (candidate_checks ps ht hc rs d)" "c \<in> set (candidate_checks ps ht hc rs d)"
    and "cd_check_code e = cd_check_code c"
  shows "\<not> prefer_new_check e c d"
proof
  assume replaces: "prefer_new_check e c d"
  let ?fixed = "fixed_checks ht (hc \<or> summary_suggests_create_action ps) d"
  let ?rep = "build_representative_state_checks rs d"
  have codes: "x \<in> set ?fixed \<Longrightarrow> cd_check_code x \<notin> {''tab_switch_render'', ''open_create_modal_state''}" for x
  proof -
    assume "x \<in> set ?fixed"
    then have "cd_check_code x \<in> set (map cd_check_code ?fixed)" by simp
    then show ?thesis unfolding fixed_codes by (auto split: if_splits)
  qed
  have "e \<notin> set ?rep"
  proof
    assume "e \<in> set ?rep"
    then obtain s where "cd_state_signature e = Some s" "strip s \<noteq> normalize_opt d"
      using representative_shape by fastforce
    then show False using replaces by (simp add: prefer_new_check_def normalize_opt_def)
  qed
  then have "e \<in> set ?fixed" using assms(1) by (simp add: candidates_split)
  moreover from this have "c \<in> set ?fixed"
    using codes assms(2,3) representative_shape by (fastforce simp: candidates_split)
  ultimately have "e = c"
    using assms(3) fixed_distinct by (metis distinct_map inj_on_def)
  then show False using replaces by (simp add: prefer_new_check_def)
qed

text \<open>The standard checks of a page are its candidates (opening the page; rendering the table and
  the five data templates when it has one; the create dialog when a create action or the summary
  suggests it; the states seen on it), each check code once and the first candidate of a code
  winning: the rule that replaces a check of the default state by one of another state never
  applies.\<close>

theorem standard_checks_first_of_each:
  "build_standard_checks ps ht hc rs d = first_of_each cd_check_code (candidate_checks ps ht hc rs d)"
  using fold_select [of "[]" "candidate_checks ps ht hc rs d" d] candidates_never_replace [of _ ps ht hc rs d]
  by (simp add: build_standard_checks_def)

lemma standard_checks_codes:
  "distinct (map cd_check_code (build_standard_checks ps ht hc rs d))"
  "set (build_standard_checks ps ht hc rs d) \<subseteq> set (candidate_checks ps ht hc rs d)"
  using fold_select [of "[]" "candidate_checks ps ht hc rs d" d] candidates_never_replace [of _ ps ht hc rs d]
    distinct_first_of_each [of cd_check_code "candidate_checks ps ht hc rs d"]
    set_first_of_each [of cd_check_code "candidate_checks ps ht hc rs d"]
  by (simp_all add: build_standard_checks_def)

end
