(* ===== verification/DataAssertions.thy ===== *)
theory DataAssertions
  imports PyRegex
begin

section \<open>Data assertions\<close>

text \<open>
  runner\_service/data\_assertion\_modules.py: placeholders of the form \<open>{{name}}\<close> in the parameters
  of a step, the bounds of a count assertion, and the assertion itself. \<open>Inl\<close> is the text of a
  \<open>ValueError\<close>.
\<close>

subsection \<open>Placeholders\<close>

definition word_char :: "char \<Rightarrow> bool" where
  "word_char c =
     (let n = (of_char c :: nat) in
      48 \<le> n \<and> n \<le> 57 \<or> 65 \<le> n \<and> n \<le> 90 \<or> 97 \<le> n \<and> n \<le> 122 \<or> n = 95)"

text \<open>The group of \<open>_PLACEHOLDER_PATTERN\<close> when the stripped text matches it.\<close>

definition placeholder_key :: "string \<Rightarrow> string option" where
  "placeholder_key t =
     (let key = strip (drop 2 (take (length t - 2) t)) in
      if 4 \<le> length t \<and> take 2 t = ''{{'' \<and> drop (length t - 2) t = ''}}''
         \<and> key \<noteq> [] \<and> list_all word_char key
      then Some key else None)"

definition resolve_value :: "pydict \<Rightarrow> pyval \<Rightarrow> pyval" where
  "resolve_value runtime_inputs value =
     (case value of
        PStr s \<Rightarrow>
          (case placeholder_key (strip s) of
             None \<Rightarrow> value
           | Some key \<Rightarrow> (case map_of runtime_inputs key of None \<Rightarrow> value | Some v \<Rightarrow> v))
      | _ \<Rightarrow> value)"

definition resolve_template_placeholders :: "pydict \<Rightarrow> pydict option \<Rightarrow> pydict" where
  "resolve_template_placeholders params runtime_inputs =
     (case runtime_inputs of
        None \<Rightarrow> params
      | Some inputs \<Rightarrow>
          if inputs = [] then params else map (\<lambda>(k, v). (k, resolve_value inputs v)) params)"

subsection \<open>Bounds\<close>

text \<open>\<open>str.isdigit()\<close>: the decimal digits and the superscript, circled and similar ones.\<close>

definition digit_ranges :: "(nat \<times> nat) list" where
  "digit_ranges =
     [(178, 179), (185, 185), (4969, 4977), (6618, 6618), (8304, 8304), (8308, 8313), (8320, 8329),
      (9312, 9320), (9332, 9340), (9352, 9360), (9450, 9450), (9461, 9469), (9471, 9471),
      (10102, 10110), (10112, 10120), (10122, 10130), (68160, 68163), (69216, 69224),
      (69714, 69722), (127232, 127242)]"

definition is_digit :: "nat \<Rightarrow> bool" where
  "is_digit n \<longleftrightarrow> is_decimal n \<or> list_ex (\<lambda>(a, b). a \<le> n \<and> n \<le> b) digit_ranges"

definition decimal_digit :: "nat \<Rightarrow> nat" where
  "decimal_digit n =
     (case List.find (\<lambda>z. z \<le> n \<and> n < z + 10) decimal_zeros of None \<Rightarrow> 0 | Some z \<Rightarrow> n - z)"

text \<open>\<open>int(text)\<close> of a text whose characters after the leading signs are all digits.\<close>

definition int_of_digits :: "string \<Rightarrow> string + int" where
  "int_of_digits t =
     (let cs = code_points t;
          neg = (prefix [45] cs);
          ds = (if neg then drop 1 cs else cs)
      in if ds = [] \<or> \<not> list_all is_decimal ds
         then Inl (''invalid literal for int() with base 10: '' @ concat (take 200 (py_chars (repr_str t))))
         else if 4300 < length ds
         then Inl (''Exceeds the limit (4300 digits) for integer string conversion: value has '' @
                   int_str (int (length ds)) @ '' digits; use sys.set_int_max_str_digits() to increase the limit'')
         else Inr (signed neg (fold (\<lambda>c acc. 10 * acc + decimal_digit c) ds 0)))"

definition coerce_optional_int :: "pyval \<Rightarrow> string + int option" where
  "coerce_optional_int v =
     (case v of
        PInt i \<Rightarrow> Inr (Some i)
      | PStr s \<Rightarrow>
          (let normalized = strip s;
               digits = dropWhile (\<lambda>c. c = 45) (code_points normalized)
           in if normalized \<noteq> [] \<and> digits \<noteq> [] \<and> list_all is_digit digits
              then map_sum id Some (int_of_digits normalized)
              else Inr None)
      | _ \<Rightarrow> Inr None)"

subsection \<open>The assertion\<close>

definition validate_data_count_assertion :: "int \<Rightarrow> int option \<Rightarrow> int option \<Rightarrow> string + unit" where
  "validate_data_count_assertion cnt expected_min expected_max =
     (if (case expected_min of None \<Rightarrow> False | Some m \<Rightarrow> cnt < m)
      then Inl (''data_count_assertion_failed: expected at least '' @ int_str (the expected_min) @
                '', got '' @ int_str cnt)
      else if (case expected_max of None \<Rightarrow> False | Some m \<Rightarrow> m < cnt)
      then Inl (''data_count_assertion_failed: expected at most '' @ int_str (the expected_max) @
                '', got '' @ int_str cnt)
      else Inr ())"

lemma validate_data_count_ok:
  "validate_data_count_assertion cnt lo hi = Inr () \<longleftrightarrow>
     (\<forall>m. lo = Some m \<longrightarrow> m \<le> cnt) \<and> (\<forall>m. hi = Some m \<longrightarrow> cnt \<le> m)"
  by (auto simp: validate_data_count_assertion_def split: option.splits)

lemma resolve_no_inputs [simp]: "resolve_template_placeholders params None = params"
  by (simp add: resolve_template_placeholders_def)

lemma dget_resolve:
  "dget (resolve_template_placeholders params inputs) k =
     (case inputs of None \<Rightarrow> dget params k | Some d \<Rightarrow> if d = [] then dget params k
      else resolve_value d (dget params k))"
proof -
  have "map_of (map (\<lambda>(k, v). (k, f v)) params) k = map_option f (map_of params k)" for f :: "pyval \<Rightarrow> pyval"
    by (simp add: map_of_map)
  then show ?thesis
    by (auto simp: resolve_template_placeholders_def dget_def resolve_value_def split: option.splits)
qed

lemma resolve_value_cases:
  "resolve_value d v = v \<or> (\<exists>s key. v = PStr s \<and> placeholder_key (strip s) = Some key \<and>
     map_of d key = Some (resolve_value d v))"
  by (auto simp: resolve_value_def split: pyval.splits option.splits)

lemma resolve_value_other [simp]:
  "resolve_value d PNone = PNone" "resolve_value d (PBool b) = PBool b" "resolve_value d (PInt i) = PInt i"
  "resolve_value d (PFloat x) = PFloat x" "resolve_value d (PList vs) = PList vs"
  "resolve_value d (PDict e) = PDict e"
  by (simp_all add: resolve_value_def)

end
