(* ===== verification/ModulePlans.thy ===== *)
theory ModulePlans
  imports CheckTemplates DataAssertions
begin

section \<open>Module plans\<close>

text \<open>
  asset\_compiler/module\_plan\_builder.py: the steps that run a check: log in, follow the menu, wait for
  the page, enter a state when the check needs one, then the actions and the assertion. The page
  context is a dictionary; a menu chain that cannot be iterated raises \<open>TypeError\<close>.
\<close>

record module_plan_draft =
  pd_check_code :: string
  pd_plan_version :: string
  pd_steps_json :: "pydict list"

definition str_or_empty :: "pyval \<Rightarrow> string" where
  "str_or_empty v = (if py_truthy v then py_str v else [])"

definition plan_step :: "string \<Rightarrow> pydict \<Rightarrow> pydict" where
  "plan_step m params = [(''module'', PStr m), (''params'', PDict params)]"

text \<open>\<open>d.update(other)\<close>.\<close>

definition dict_update :: "pydict \<Rightarrow> pydict \<Rightarrow> pydict" where
  "dict_update other d = fold (\<lambda>(k, v). dset k v) other d"

definition assertion_name :: "string \<Rightarrow> string" where
  "assertion_name check_code =
     (if check_code = ''table_render'' then ''table_visible''
      else if check_code = ''tab_switch_render'' then ''table_visible''
      else if check_code = ''open_create_modal'' then ''page_ready''
      else if check_code = ''open_create_modal_state'' then ''modal_visible''
      else ''page_ready'')"

definition expected_element_type :: "string \<Rightarrow> string" where
  "expected_element_type check_code =
     (if check_code \<in> {''table_render'', ''tab_switch_render''} then ''table''
      else if check_code = ''open_create_modal'' then ''button''
      else if check_code = ''open_create_modal_state'' then ''dialog''
      else ''page'')"

definition uses_legacy_open_create_action :: "string \<Rightarrow> string \<Rightarrow> string \<Rightarrow> bool" where
  "uses_legacy_open_create_action check_code state_signature default_state_signature =
     (if check_code \<noteq> ''open_create_modal'' then False
      else if state_signature = [] then True
      else state_signature = default_state_signature)"

definition resolve_carrier_hint :: "pydict \<Rightarrow> string" where
  "resolve_carrier_hint page_context =
     (let carrier_hint = lower (strip (str_or_empty (dget page_context ''carrier_hint'')))
      in if carrier_hint \<in> {''table'', ''list''} then carrier_hint
         else if py_truthy (dget page_context ''has_table'') then ''table''
         else ''list'')"

definition with_carrier :: "string \<Rightarrow> pyval \<Rightarrow> pydict" where
  "with_carrier carrier module_params =
     (case module_params of
        PDict p \<Rightarrow> dict_update p [(''carrier'', PStr carrier)]
      | _ \<Rightarrow> [(''carrier'', PStr carrier)])"

definition build_template_chain_steps :: "string \<Rightarrow> pydict \<Rightarrow> pydict list" where
  "build_template_chain_steps check_code page_context =
     (case get_template check_code ''v1'' of
        None \<Rightarrow> []
      | Some template \<Rightarrow>
          (let carrier = resolve_carrier_hint page_context;
               strategy = td_compile_strategy template;
               action_chain = (case dget strategy ''action_chain'' of PList ms \<Rightarrow> map py_str ms | _ \<Rightarrow> []);
               action_params_map = (case dget strategy ''action_params'' of PDict d \<Rightarrow> d | _ \<Rightarrow> []);
               steps = map (\<lambda>m. plan_step m (with_carrier carrier (dget action_params_map m))) action_chain;
               assert_module = str_or_empty (dget strategy ''assert_module'')
           in if assert_module = [] then steps
              else steps @ [plan_step assert_module (with_carrier carrier (dget strategy ''assert_params''))]))"

definition locator_assert_step :: "string \<Rightarrow> pydict option \<Rightarrow> pydict" where
  "locator_assert_step check_code locator_bundle =
     plan_step ''locator.assert''
       [(''assertion'', PStr (assertion_name check_code)),
        (''expected_element_type'', PStr (expected_element_type check_code)),
        (''locator_bundle'', PDict (case locator_bundle of
             None \<Rightarrow> [(''candidates'', PList [])]
           | Some b \<Rightarrow> if b = [] then [(''candidates'', PList [])] else b))]"

definition base_steps :: "pyval list \<Rightarrow> string \<Rightarrow> string \<Rightarrow> string \<Rightarrow> pydict list" where
  "base_steps menu_chain route_path state_signature default_state_signature =
     [plan_step ''auth.inject_state'' [(''policy'', PStr ''server_injected'')],
      plan_step ''nav.menu_chain'' [(''menu_chain'', PList menu_chain), (''route_path'', PStr route_path)],
      plan_step ''page.wait_ready'' [(''route_path'', PStr route_path)]] @
     (if state_signature \<noteq> [] \<and> state_signature \<noteq> default_state_signature
      then [plan_step ''state.enter'' [(''state_signature'', PStr state_signature)]] else [])"

definition build_module_plan ::
  "string \<Rightarrow> pydict \<Rightarrow> string option \<Rightarrow> pydict option \<Rightarrow> string + module_plan_draft" where
  "build_module_plan check_code page_context state_signature locator_bundle =
     (case py_iter (dget_or page_context ''menu_chain'' (PList [])) of
        Inl e \<Rightarrow> Inl e
      | Inr menu_chain \<Rightarrow>
          (let route_path = str_or_empty (dget page_context ''route_path'');
               default_state_signature = str_or_empty (dget page_context ''default_state_signature'');
               signature = (case state_signature of None \<Rightarrow> [] | Some s \<Rightarrow> s);
               base = base_steps menu_chain route_path signature default_state_signature;
               steps =
                 (if get_template check_code ''v1'' \<noteq> None
                  then base @ build_template_chain_steps check_code page_context
                  else if uses_legacy_open_create_action check_code signature default_state_signature
                  then base @ [locator_assert_step check_code locator_bundle,
                               plan_step ''action.open_create_modal'' []]
                  else base @ [locator_assert_step check_code locator_bundle])
           in Inr \<lparr>pd_check_code = check_code, pd_plan_version = ''v1'', pd_steps_json = steps\<rparr>))"

subsection \<open>Typing of steps\<close>

text \<open>
  The type of a step: its module is one the executor knows, and its parameters are the ones that
  module reads, each with the values it accepts.
\<close>

definition is_text :: "pyval \<Rightarrow> bool" where
  "is_text v = (as_str v \<noteq> None)"

definition is_filled :: "pyval \<Rightarrow> bool" where
  "is_filled v = (optional_text v \<noteq> None)"

definition is_list :: "pyval \<Rightarrow> bool" where
  "is_list v = (case v of PList vs \<Rightarrow> True | _ \<Rightarrow> False)"

definition is_dict :: "pyval \<Rightarrow> bool" where
  "is_dict v = (case v of PDict d \<Rightarrow> True | _ \<Rightarrow> False)"

definition is_signature :: "pyval \<Rightarrow> bool" where
  "is_signature v = (case v of PStr s \<Rightarrow> s \<noteq> [] | _ \<Rightarrow> False)"

definition is_carrier :: "pyval \<Rightarrow> bool" where
  "is_carrier v = (v \<in> {PStr ''table'', PStr ''list''})"

definition is_given :: "pyval \<Rightarrow> bool" where
  "is_given v = (v \<noteq> PNone)"

text \<open>A bound is a number, a numeral, or anything the assertion takes for no bound at all.\<close>

definition is_bound :: "pyval \<Rightarrow> bool" where
  "is_bound v = (case coerce_optional_int v of Inl e \<Rightarrow> False | Inr b \<Rightarrow> True)"

lemmas param_type_defs =
  is_bound_def
  is_text_def is_filled_def is_list_def is_dict_def is_signature_def is_carrier_def is_given_def

type_synonym param_types = "(string \<times> (pyval \<Rightarrow> bool)) list"

definition row_filter_types :: param_types where
  "row_filter_types =
     [(''field'', is_filled), (''operator'', is_filled), (''value'', is_given), (''carrier'', is_carrier)]"

definition module_types :: "(string \<times> param_types) list" where
  "module_types =
     [(''auth.inject_state'', [(''policy'', is_text)]),
      (''nav.menu_chain'', [(''menu_chain'', is_list), (''route_path'', is_text)]),
      (''page.wait_ready'', [(''route_path'', is_text)]),
      (''state.enter'', [(''state_signature'', is_signature)]),
      (''locator.assert'',
        [(''assertion'', is_filled), (''expected_element_type'', is_filled), (''locator_bundle'', is_dict)]),
      (''assert.table_visible'', []),
      (''assert.page_open'', [(''route_path'', is_text)]),
      (''assert.page_ready'', [(''route_path'', is_text)]),
      (''action.open_create_modal'', []),
      (''action.apply_filter'', row_filter_types),
      (''action.submit_query'', [(''carrier'', is_carrier)]),
      (''assert.data_count'',
        [(''carrier'', is_carrier), (''expected_min'', is_bound), (''expected_max'', is_bound)]),
      (''assert.row_exists_by_field'', row_filter_types)]"

definition params_typed :: "param_types \<Rightarrow> pydict \<Rightarrow> bool" where
  "params_typed ts params = list_all (\<lambda>(k, T). T (dget params k)) ts"

definition step_typed :: "pydict \<Rightarrow> bool" where
  "step_typed st =
     (case (dget st ''module'', dget st ''params'') of
        (PStr m, PDict params) \<Rightarrow>
          (case map_of module_types m of None \<Rightarrow> False | Some ts \<Rightarrow> params_typed ts params)
      | _ \<Rightarrow> False)"

lemma step_typed_plan_step:
  "step_typed (plan_step m params) =
     (case map_of module_types m of None \<Rightarrow> False | Some ts \<Rightarrow> params_typed ts params)"
  by (simp add: step_typed_def plan_step_def)

lemmas typing_simps = step_typed_plan_step module_types_def row_filter_types_def params_typed_def

lemma bound_simps [simp]: "is_bound PNone" "is_bound (PInt i)"
  by (simp_all add: is_bound_def coerce_optional_int_def)

lemma bound_placeholder [simp]: "is_bound (PStr ''{{min_count}}'')"
proof -
  have "\<not> is_digit 123"
    by (simp add: is_digit_def is_decimal_def decimal_zeros_def digit_ranges_def)
  moreover have "code_points ''{{min_count}}'' = 123 # code_points ''{min_count}}''"
    by (simp add: code_points_def code_point_def continuation_byte_def)
  moreover have "strip ''{{min_count}}'' = ''{{min_count}}''"
    by (simp add: strip_graphic graphic_def)
  ultimately show ?thesis
    by (simp add: is_bound_def coerce_optional_int_def)
qed

lemma filled_text: "s \<noteq> [] \<Longrightarrow> \<forall>c \<in> set s. graphic c \<Longrightarrow> is_filled (PStr s)"
  by (simp add: is_filled_def optional_text_PStr opt_text_def strip_graphic)

lemma carrier_hint_typed: "is_carrier (PStr (resolve_carrier_hint ctx))"
  by (simp add: resolve_carrier_hint_def is_carrier_def Let_def)

lemma base_steps_typed:
  "list_all step_typed (base_steps menu route sig dsig)"
  by (simp add: base_steps_def typing_simps is_text_def is_list_def is_signature_def)

lemma locator_step_typed: "step_typed (locator_assert_step code bundle)"
  by (simp add: locator_assert_step_def typing_simps is_dict_def is_filled_def optional_text_PStr
      opt_text_def assertion_name_def expected_element_type_def strip_graphic graphic_def)

lemma template_cases:
  assumes "get_template code ''v1'' = Some t"
  obtains "t = data_count_template ''has_data'' [] ''expected_min'' (PInt 1)"
    | "t = data_count_template ''no_data'' [] ''expected_max'' (PInt 0)"
    | "t = row_exists_template ''field_equals_exists'' [''field'', ''operator'', ''value'']
             (field_filter ''{{field}}'' ''{{operator}}'' ''{{value}}'')"
    | "t = row_exists_template ''status_exists'' [''status'']
             (field_filter ''status'' ''equals'' ''{{status}}'')"
    | "t = data_count_template ''count_gte'' [''min_count''] ''expected_min'' (PStr ''{{min_count}}'')"
proof -
  have "t \<in> set TEMPLATE_DEFINITIONS" using assms unfolding get_template_def find_Some_iff by (metis nth_mem)
  then show thesis unfolding TEMPLATE_DEFINITIONS_def list.set insert_iff empty_iff using that by blast
qed

lemma template_step_typed:
  "list_all step_typed (build_template_chain_steps code ctx)"
proof (cases "get_template code ''v1''")
  case (Some t)
  note evaluate = build_template_chain_steps_def Some data_count_template_def row_exists_template_def
    field_filter_def texts_def with_carrier_def dict_update_def dset_def str_or_empty_def Let_def
    typing_simps is_filled_def is_given_def optional_text_PStr opt_text_def strip_graphic graphic_def
  have carrier: "is_carrier (PStr (resolve_carrier_hint ctx))" by (rule carrier_hint_typed)
  then show ?thesis
  proof (cases rule: template_cases [OF Some])
    case 1 then show ?thesis using carrier by (simp add: evaluate)
  next
    case 2 then show ?thesis using carrier by (simp add: evaluate)
  next
    case 3 then show ?thesis using carrier by (simp add: evaluate)
  next
    case 4 then show ?thesis using carrier by (simp add: evaluate)
  next
    case 5 then show ?thesis using carrier by (simp add: evaluate)
  qed
qed (simp add: build_template_chain_steps_def)

lemma template_steps_no_auth:
  "list_all (\<lambda>st. dget st ''module'' \<noteq> PStr ''auth.inject_state'') (build_template_chain_steps code ctx)"
proof (cases "get_template code ''v1''")
  case (Some t)
  note evaluate = build_template_chain_steps_def Some data_count_template_def row_exists_template_def
    texts_def str_or_empty_def Let_def plan_step_def
  show ?thesis
    by (cases rule: template_cases [OF Some]) (simp_all add: evaluate)
qed (simp add: build_template_chain_steps_def)

lemma first_steps:
  "map (\<lambda>st. dget st ''module'') (base_steps menu route sig dsig) =
     map PStr ([''auth.inject_state'', ''nav.menu_chain'', ''page.wait_ready''] @
       (if sig \<noteq> [] \<and> sig \<noteq> dsig then [''state.enter''] else []))"
  by (simp add: base_steps_def plan_step_def)

lemma plan_steps:
  assumes "build_module_plan code ctx sig bundle = Inr plan"
  shows "\<exists>menu route dsig rest.
           pd_steps_json plan = base_steps menu route (case sig of None \<Rightarrow> [] | Some s \<Rightarrow> s) dsig @ rest \<and>
           list_all step_typed rest \<and>
           list_all (\<lambda>st. dget st ''module'' \<noteq> PStr ''auth.inject_state'') rest"
proof -
  obtain menu route dsig rest where steps:
      "pd_steps_json plan = base_steps menu route (case sig of None \<Rightarrow> [] | Some s \<Rightarrow> s) dsig @ rest"
      "rest \<in> {build_template_chain_steps code ctx,
               [locator_assert_step code bundle, plan_step ''action.open_create_modal'' []],
               [locator_assert_step code bundle]}"
    using assms by (auto simp: build_module_plan_def Let_def split: sum.splits if_splits)
  have "step_typed (plan_step ''action.open_create_modal'' [])" by (simp add: typing_simps)
  then have "list_all step_typed rest"
    using steps(2) template_step_typed locator_step_typed by auto
  moreover have "list_all (\<lambda>st. dget st ''module'' \<noteq> PStr ''auth.inject_state'') rest"
    using steps(2) template_steps_no_auth by (auto simp: locator_assert_step_def plan_step_def)
  ultimately show ?thesis using steps(1) by blast
qed

lemma plan_steps_typed:
  "build_module_plan code ctx sig bundle = Inr plan \<Longrightarrow> list_all step_typed (pd_steps_json plan)"
  by (drule plan_steps) (auto simp: base_steps_typed)

lemma base_steps_first:
  "\<exists>more. base_steps menu route sig dsig = plan_step ''auth.inject_state'' [(''policy'', PStr ''server_injected'')] # more \<and>
     list_all (\<lambda>st. dget st ''module'' \<noteq> PStr ''auth.inject_state'') more"
  by (simp add: base_steps_def plan_step_def)

lemma plan_steps_first:
  assumes "build_module_plan code ctx sig bundle = Inr plan"
  shows "\<exists>rest. pd_steps_json plan =
             plan_step ''auth.inject_state'' [(''policy'', PStr ''server_injected'')] # rest \<and>
           list_all (\<lambda>st. dget st ''module'' \<noteq> PStr ''auth.inject_state'' \<and> step_typed st) rest"
proof -
  obtain menu route dsig rest where "pd_steps_json plan =
      base_steps menu route (case sig of None \<Rightarrow> [] | Some s \<Rightarrow> s) dsig @ rest"
      "list_all step_typed rest" "list_all (\<lambda>st. dget st ''module'' \<noteq> PStr ''auth.inject_state'') rest"
    using plan_steps [OF assms] by blast
  moreover obtain more where "base_steps menu route (case sig of None \<Rightarrow> [] | Some s \<Rightarrow> s) dsig =
      plan_step ''auth.inject_state'' [(''policy'', PStr ''server_injected'')] # more"
      "list_all (\<lambda>st. dget st ''module'' \<noteq> PStr ''auth.inject_state'') more"
    using base_steps_first by blast
  moreover have "list_all step_typed (base_steps menu route (case sig of None \<Rightarrow> [] | Some s \<Rightarrow> s) dsig)"
    by (rule base_steps_typed)
  ultimately show ?thesis by (auto simp: list_all_iff)
qed

text \<open>A plan comes out, typed and with the steps that open every plan.\<close>

definition plan_ready :: "string \<Rightarrow> pydict \<Rightarrow> string option \<Rightarrow> pydict option \<Rightarrow> bool" where
  "plan_ready code ctx sig bundle \<longleftrightarrow>
     (case build_module_plan code ctx sig bundle of
        Inl e \<Rightarrow> False
      | Inr plan \<Rightarrow> list_all step_typed (pd_steps_json plan) \<and>
          map (\<lambda>st. dget st ''module'') (take 3 (pd_steps_json plan)) =
            map PStr [''auth.inject_state'', ''nav.menu_chain'', ''page.wait_ready''])"

lemma plan_ready_iff:
  "plan_ready code ctx sig bundle \<longleftrightarrow> (\<exists>items. py_iter (dget_or ctx ''menu_chain'' (PList [])) = Inr items)"
proof (cases "build_module_plan code ctx sig bundle")
  case (Inr plan)
  then have "plan_ready code ctx sig bundle"
    using plan_steps [OF Inr] plan_steps_typed [OF Inr]
    by (auto simp: plan_ready_def base_steps_def plan_step_def)
  then show ?thesis
    using Inr by (auto simp: build_module_plan_def Let_def split: sum.splits)
qed (auto simp: plan_ready_def build_module_plan_def Let_def split: sum.splits)

text \<open>C28: a plan is built exactly when the menu chain of the context can be iterated (or is absent), and it
  is well typed: every step is of a module the executor knows and has the parameters that module
  reads, each of the values it accepts; the first three steps log in, follow the menu and wait for
  the page.\<close>

theorem built_plans_typed:
  "case dget_or ctx ''menu_chain'' (PList []) of
     PList items \<Rightarrow> plan_ready code ctx sig bundle
   | PStr s \<Rightarrow> plan_ready code ctx sig bundle
   | PDict d \<Rightarrow> plan_ready code ctx sig bundle
   | _ \<Rightarrow> \<exists>e. build_module_plan code ctx sig bundle = Inl e"
  by (cases "dget_or ctx ''menu_chain'' (PList [])")
    (simp_all add: plan_ready_iff build_module_plan_def)

definition example_context :: pydict where
  "example_context =
     [(''menu_chain'', PList [PStr ''Orders'']), (''route_path'', PStr ''/orders''), (''has_table'', PBool True)]"

theorem built_plans_typed_witness:
  "plan_ready ''status_exists'' example_context None None"
  using built_plans_typed [of "''status_exists''" example_context None None]
  by (simp add: example_context_def dget_or_def)

end
