(* ===== verification/ModuleExecutor.thy ===== *)
theory ModuleExecutor
  imports ModulePlans RunnerRecords
begin

section \<open>The module executor\<close>

text \<open>
  runner\_service/module\_executor.py: the steps of a plan run one after the other against a browser
  runtime, until one fails. The runtime is a parameter: it answers each call with a value or with
  the text of an exception, and keeps a state of its own.
\<close>

datatype runtime_call =
    InjectAuthState pydict
  | NavigateMenuChain "string list" string
  | WaitPageReady string
  | AssertTableVisible "string option"
  | AssertPageOpen string
  | OpenCreateModal
  | ApplyFilter string string pyval string
  | SubmitQuery string
  | ReadDataCount string
  | RowExistsByField string string string pyval
  | EnterState string
  | ResolveLocatorBundle pydict "pydict option"

type_synonym 'rt runtime = "runtime_call \<Rightarrow> 'rt \<Rightarrow> (string + pyval) \<times> 'rt"

text \<open>How a step ends: the loop goes on, the run ends with a failed step, or an exception is raised.\<close>

datatype step_flow =
    Next auth_inject_status step_result
  | Halt auth_inject_status step_result
  | Raised string

subsection \<open>Coercions\<close>

definition coerce_params :: "pyval \<Rightarrow> pydict" where
  "coerce_params v = (case v of PDict d \<Rightarrow> d | _ \<Rightarrow> [])"

definition coerce_menu_chain :: "pyval \<Rightarrow> string list" where
  "coerce_menu_chain v = (case v of PList items \<Rightarrow> map py_str (filter (\<lambda>i. i \<noteq> PNone) items) | _ \<Rightarrow> [])"

definition coerce_optional_dict :: "pyval \<Rightarrow> pydict option" where
  "coerce_optional_dict v = (case v of PDict d \<Rightarrow> Some d | _ \<Rightarrow> None)"

record locator_match =
  lm_matched :: bool
  lm_matched_rank :: "int option"
  lm_strategy_type :: "string option"
  lm_failure_category :: string
  lm_context_mismatch :: bool
  lm_ambiguous_match :: bool

definition match_rank :: "pyval \<Rightarrow> int option" where
  "match_rank v = (case v of PInt i \<Rightarrow> if 0 < i then Some i else None | _ \<Rightarrow> None)"

definition coerce_locator_match :: "pyval \<Rightarrow> locator_match" where
  "coerce_locator_match v =
     (let payload = (case v of PDict d \<Rightarrow> d | _ \<Rightarrow> []);
          matched = py_truthy (dget payload ''matched'');
          matched_rank = match_rank (dget payload ''matched_rank'');
          strategy_type = optional_text (dget payload ''strategy_type'');
          category = optional_text (dget payload ''failure_category'');
          context_mismatch = py_truthy (dget payload ''context_mismatch'');
          ambiguous_match = py_truthy (dget payload ''ambiguous_match'')
      in if matched
         then \<lparr>lm_matched = True, lm_matched_rank = Some (py_or matched_rank 1),
               lm_strategy_type = strategy_type, lm_failure_category = [],
               lm_context_mismatch = context_mismatch, lm_ambiguous_match = ambiguous_match\<rparr>
         else \<lparr>lm_matched = False, lm_matched_rank = None, lm_strategy_type = None,
               lm_failure_category = py_or category ''locator_all_failed'',
               lm_context_mismatch = context_mismatch, lm_ambiguous_match = ambiguous_match\<rparr>)"

definition build_locator_output :: "string option \<Rightarrow> string option \<Rightarrow> locator_match \<Rightarrow> pydict" where
  "build_locator_output assertion element_type m =
     [(''matched_rank'', opt_int_value (lm_matched_rank m)),
      (''strategy_type'', of_opt_str (lm_strategy_type m)),
      (''failure_category'', if lm_matched m then PNone else PStr (lm_failure_category m))] @
     (case assertion of None \<Rightarrow> [] | Some a \<Rightarrow> [(''assertion'', PStr a)]) @
     (case element_type of None \<Rightarrow> [] | Some t \<Rightarrow> [(''expected_element_type'', PStr t)]) @
     (if lm_context_mismatch m then [(''context_mismatch'', PBool True)] else []) @
     (if lm_ambiguous_match m then [(''ambiguous_match'', PBool True)] else [])"

definition step_failure_category :: "string \<Rightarrow> failure_category" where
  "step_failure_category m =
     (if m = ''nav.menu_chain'' then NavigationFailed
      else if m = ''page.wait_ready'' then PageNotReady
      else if m = ''locator.assert'' then AssertionFailed
      else if prefix ''assert.'' m then AssertionFailed
      else RuntimeError)"

subsection \<open>One step\<close>

definition passed :: "string \<Rightarrow> pydict option \<Rightarrow> step_result" where
  "passed m output = \<lparr>st_module = m, st_status = RunPassed, st_detail = None, st_output = output\<rparr>"

definition failed :: "string \<Rightarrow> string option \<Rightarrow> pydict \<Rightarrow> step_result" where
  "failed m detail output =
     \<lparr>st_module = m, st_status = RunFailed, st_detail = detail, st_output = Some output\<rparr>"

text \<open>A call whose exception ends the step, and \<open>_expect_truthy\<close>.\<close>

definition calling ::
  "'rt runtime \<Rightarrow> runtime_call \<Rightarrow> 'rt \<Rightarrow> (pyval \<Rightarrow> step_flow) \<Rightarrow> step_flow \<times> 'rt" where
  "calling runtime c rt k =
     (case runtime c rt of (Inl e, rt') \<Rightarrow> (Raised e, rt') | (Inr v, rt') \<Rightarrow> (k v, rt'))"

definition expect_truthy :: "string \<Rightarrow> pyval \<Rightarrow> step_flow \<Rightarrow> step_flow" where
  "expect_truthy m outcome flow =
     (if py_truthy outcome then flow else Raised (''module '' @ m @ '' returned falsy result''))"

definition auth_of_outcome :: "pyval \<Rightarrow> string + auth_inject_status" where
  "auth_of_outcome outcome =
     (if outcome = PBool True then Inr AuthReused
      else if outcome = PBool False then Inr AuthBlockedStatus
      else (let normalized = lower (strip (str_or_empty outcome)) in
        if normalized = ''reused'' then Inr AuthReused
        else if normalized = ''refreshed'' then Inr AuthRefreshed
        else if normalized = ''blocked'' then Inr AuthBlockedStatus
        else Inl (''unsupported auth inject outcome: '' @ py_str outcome)))"

definition auth_flow :: "string \<Rightarrow> pyval \<Rightarrow> step_flow" where
  "auth_flow m outcome =
     (case auth_of_outcome outcome of
        Inl e \<Rightarrow> Raised e
      | Inr st \<Rightarrow>
          if st = AuthBlockedStatus
          then Halt st (failed m None [(''auth_status'', PStr (auth_inject_value st)),
                 (''failure_category'', PStr (failure_category_value AuthBlocked))])
          else Next st (passed m (Some [(''auth_status'', PStr (auth_inject_value st))])))"

definition state_failed :: "string \<Rightarrow> string \<Rightarrow> string \<Rightarrow> step_result" where
  "state_failed m signature detail =
     failed m (Some detail)
       [(''state_signature'', PStr signature), (''failure_category'', PStr ''state_not_reached'')]"

definition state_flow :: "string \<Rightarrow> string \<Rightarrow> auth_inject_status \<Rightarrow> string + pyval \<Rightarrow> step_flow" where
  "state_flow m signature auth outcome =
     (case outcome of
        Inl e \<Rightarrow>
          Halt auth (state_failed m signature (if strip e = [] then ''state_not_reached'' else strip e))
      | Inr v \<Rightarrow>
          if py_truthy v then Next auth (passed m (Some [(''state_signature'', PStr signature)]))
          else Halt auth (state_failed m signature
                 (''state_not_reached: state signature '' @ signature @ '' was not reached'')))"

definition count_flow :: "string \<Rightarrow> string \<Rightarrow> pydict \<Rightarrow> auth_inject_status \<Rightarrow> pyval \<Rightarrow> step_flow" where
  "count_flow m carrier params auth outcome =
     (case (case outcome of PInt i \<Rightarrow> if i < 0 then None else Some i | _ \<Rightarrow> None) of
        None \<Rightarrow> Raised ''assert.data_count requires runtime to return non-negative int''
      | Some n \<Rightarrow>
          (case coerce_optional_int (dget params ''expected_min'') of
             Inl e \<Rightarrow> Raised e
           | Inr given_min \<Rightarrow>
               (case coerce_optional_int (dget params ''expected_max'') of
                  Inl e \<Rightarrow> Raised e
                | Inr expected_max \<Rightarrow>
                    (let expected_min =
                           (if given_min = None \<and> expected_max = None then Some 1 else given_min)
                     in case validate_data_count_assertion n expected_min expected_max of
                          Inl e \<Rightarrow> Raised e
                        | Inr u \<Rightarrow>
                            Next auth (passed m (Some
                              [(''carrier'', PStr carrier), (''actual_count'', PInt n),
                               (''expected_min'', opt_int_value expected_min),
                               (''expected_max'', opt_int_value expected_max)]))))))"

definition locator_flow :: "string \<Rightarrow> pydict \<Rightarrow> auth_inject_status \<Rightarrow> pyval \<Rightarrow> step_flow" where
  "locator_flow m params auth outcome =
     (let lm = coerce_locator_match outcome;
          output = build_locator_output (optional_text (dget params ''assertion''))
                     (optional_text (dget params ''expected_element_type'')) lm
      in if lm_matched lm then Next auth (passed m (Some output))
         else Halt auth (failed m (Some (''locator assert failed: '' @ lm_failure_category lm)) output))"

definition row_output :: "string \<Rightarrow> string \<Rightarrow> pyval \<Rightarrow> pydict" where
  "row_output f operator v = [(''field'', PStr f), (''operator'', PStr operator), (''value'', v)]"

definition row_flow ::
  "string \<Rightarrow> string \<Rightarrow> string \<Rightarrow> pyval \<Rightarrow> string \<Rightarrow> auth_inject_status \<Rightarrow> pyval \<Rightarrow> step_flow" where
  "row_flow m f operator v carrier auth matched =
     (if py_truthy matched
      then Next auth (passed m (Some ((''carrier'', PStr carrier) # row_output f operator v)))
      else Raised (''row_exists_by_field_assertion_failed: field='' @ f @ '' operator='' @ operator @
             '' value='' @ py_str v))"

definition run_step ::
  "'rt runtime \<Rightarrow> pydict \<Rightarrow> string \<Rightarrow> pydict \<Rightarrow> auth_inject_status \<Rightarrow> 'rt \<Rightarrow> step_flow \<times> 'rt" where
  "run_step runtime storage_state m params auth rt =
     (let route_path = str_or_empty (dget params ''route_path'');
          carrier = py_or (optional_text (dget params ''carrier'')) ''table'';
          operator = py_or (optional_text (dget params ''operator'')) ''equals'';
          v = dget params ''value'';
          route_output = Some [(''route_path'', PStr route_path)];
          expecting = (\<lambda>c output.
            calling runtime c rt (\<lambda>outcome. expect_truthy m outcome (Next auth (passed m output))))
      in
      if m = ''auth.inject_state''
      then calling runtime (InjectAuthState storage_state) rt (auth_flow m)
      else if m = ''nav.menu_chain''
      then (let menu_chain = coerce_menu_chain (dget params ''menu_chain'') in
        expecting (NavigateMenuChain menu_chain route_path)
          (Some [(''menu_chain'', texts menu_chain), (''route_path'', PStr route_path)]))
      else if m = ''page.wait_ready''
      then expecting (WaitPageReady route_path) route_output
      else if m = ''assert.table_visible''
      then (let route = optional_text (dget params ''route_path'') in
        expecting (AssertTableVisible route)
          (case route of None \<Rightarrow> None | Some r \<Rightarrow> Some [(''route_path'', PStr r)]))
      else if m \<in> {''assert.page_open'', ''assert.page_ready''}
      then expecting (AssertPageOpen route_path) route_output
      else if m = ''action.open_create_modal''
      then expecting OpenCreateModal None
      else if m = ''action.apply_filter''
      then (case optional_text (dget params ''field'') of
              None \<Rightarrow> (Raised ''action.apply_filter requires non-empty field and value'', rt)
            | Some f \<Rightarrow>
                if v = PNone then (Raised ''action.apply_filter requires non-empty field and value'', rt)
                else expecting (ApplyFilter f operator v carrier)
                       (Some (row_output f operator v @ [(''carrier'', PStr carrier)])))
      else if m = ''action.submit_query''
      then expecting (SubmitQuery carrier) (Some [(''carrier'', PStr carrier)])
      else if m = ''assert.data_count''
      then calling runtime (ReadDataCount carrier) rt (count_flow m carrier params auth)
      else if m = ''assert.row_exists_by_field''
      then (case optional_text (dget params ''field'') of
              None \<Rightarrow> (Raised ''assert.row_exists_by_field requires non-empty field and value'', rt)
            | Some f \<Rightarrow>
                if v = PNone
                then (Raised ''assert.row_exists_by_field requires non-empty field and value'', rt)
                else calling runtime (RowExistsByField carrier f operator v) rt
                       (row_flow m f operator v carrier auth))
      else if m = ''state.enter''
      then (let signature = str_or_empty (dget params ''state_signature'');
                (outcome, rt') = runtime (EnterState signature) rt
            in (state_flow m signature auth outcome, rt'))
      else if m = ''locator.assert''
      then calling runtime
             (ResolveLocatorBundle (coerce_params (dget params ''locator_bundle''))
               (coerce_optional_dict (dget params ''context_constraints''))) rt
             (locator_flow m params auth)
      else (Raised (''unsupported module: '' @ m), rt))"

subsection \<open>The loop\<close>

definition raised_step :: "string \<Rightarrow> string \<Rightarrow> step_result" where
  "raised_step m e =
     failed m (Some e) [(''failure_category'', PStr (failure_category_value (step_failure_category m)))]"

definition step_module :: "pydict \<Rightarrow> string" where
  "step_module raw_step = str_or_empty (dget raw_step ''module'')"

definition step_params :: "pydict option \<Rightarrow> pydict \<Rightarrow> pydict" where
  "step_params runtime_inputs raw_step =
     resolve_template_placeholders (coerce_params (dget raw_step ''params'')) runtime_inputs"

fun execute_steps ::
  "'rt runtime \<Rightarrow> pydict \<Rightarrow> pydict option \<Rightarrow> pydict list \<Rightarrow> auth_inject_status \<Rightarrow> step_result list \<Rightarrow>
   'rt \<Rightarrow> module_result \<times> 'rt" where
  "execute_steps runtime storage_state runtime_inputs [] auth results rt =
     (\<lparr>mx_status = RunPassed, mx_auth_status = auth, mx_step_results = results\<rparr>, rt)"
| "execute_steps runtime storage_state runtime_inputs (raw_step # steps) auth results rt =
     (let m = step_module raw_step in
      case run_step runtime storage_state m (step_params runtime_inputs raw_step) auth rt of
        (Next auth' r, rt') \<Rightarrow>
          execute_steps runtime storage_state runtime_inputs steps auth' (results @ [r]) rt'
      | (Halt auth' r, rt') \<Rightarrow>
          (\<lparr>mx_status = RunFailed, mx_auth_status = auth', mx_step_results = results @ [r]\<rparr>, rt')
      | (Raised e, rt') \<Rightarrow>
          (\<lparr>mx_status = RunFailed, mx_auth_status = auth, mx_step_results = results @ [raised_step m e]\<rparr>, rt'))"

definition execute_plan_steps ::
  "'rt runtime \<Rightarrow> pydict list \<Rightarrow> pydict \<Rightarrow> pydict option \<Rightarrow> 'rt \<Rightarrow> module_result \<times> 'rt" where
  "execute_plan_steps runtime steps_json storage_state runtime_inputs rt =
     execute_steps runtime storage_state runtime_inputs steps_json AuthBlockedStatus [] rt"

subsection \<open>The call of a step and its answer\<close>

text \<open>
  Specification of a step: at most one call to the runtime (none when a parameter is missing or the
  module is unknown), and what the answer to it makes of the step.
\<close>

definition row_call :: "pydict \<Rightarrow> (string \<Rightarrow> string \<Rightarrow> pyval \<Rightarrow> string \<Rightarrow> runtime_call) \<Rightarrow> runtime_call option" where
  "row_call params mk =
     (case optional_text (dget params ''field'') of
        None \<Rightarrow> None
      | Some f \<Rightarrow>
          if dget params ''value'' = PNone then None
          else Some (mk f (py_or (optional_text (dget params ''operator'')) ''equals'') (dget params ''value'')
                 (py_or (optional_text (dget params ''carrier'')) ''table'')))"

definition step_calls :: "pydict \<Rightarrow> pydict \<Rightarrow> (string \<times> runtime_call option) list" where
  "step_calls storage_state params =
     (let route_path = str_or_empty (dget params ''route_path'');
          carrier = py_or (optional_text (dget params ''carrier'')) ''table''
      in [(''auth.inject_state'', Some (InjectAuthState storage_state)),
          (''nav.menu_chain'',
            Some (NavigateMenuChain (coerce_menu_chain (dget params ''menu_chain'')) route_path)),
          (''page.wait_ready'', Some (WaitPageReady route_path)),
          (''assert.table_visible'', Some (AssertTableVisible (optional_text (dget params ''route_path'')))),
          (''assert.page_open'', Some (AssertPageOpen route_path)),
          (''assert.page_ready'', Some (AssertPageOpen route_path)),
          (''action.open_create_modal'', Some OpenCreateModal),
          (''action.apply_filter'', row_call params ApplyFilter),
          (''action.submit_query'', Some (SubmitQuery carrier)),
          (''assert.data_count'', Some (ReadDataCount carrier)),
          (''assert.row_exists_by_field'', row_call params (\<lambda>f op v c. RowExistsByField c f op v)),
          (''state.enter'', Some (EnterState (str_or_empty (dget params ''state_signature'')))),
          (''locator.assert'',
            Some (ResolveLocatorBundle (coerce_params (dget params ''locator_bundle''))
              (coerce_optional_dict (dget params ''context_constraints''))))])"

definition step_call :: "pydict \<Rightarrow> string \<Rightarrow> pydict \<Rightarrow> runtime_call option" where
  "step_call storage_state m params =
     (case map_of (step_calls storage_state params) m of None \<Rightarrow> None | Some c \<Rightarrow> c)"

text \<open>A flow that fits a step: results carry its module, a passed step goes on, a failed one ends it.\<close>

definition halt_output :: "string \<Rightarrow> step_result \<Rightarrow> bool" where
  "halt_output m r =
     (m = ''locator.assert'' \<or>
      (case st_output r of
         None \<Rightarrow> False
       | Some out \<Rightarrow>
           m = ''auth.inject_state'' \<and> st_detail r = None \<and> dget out ''failure_category'' = PStr ''auth_blocked'' \<or>
           m = ''state.enter'' \<and> st_detail r \<noteq> None \<and> dget out ''failure_category'' = PStr ''state_not_reached''))"

definition flow_ok :: "string \<Rightarrow> auth_inject_status \<Rightarrow> step_flow \<Rightarrow> bool" where
  "flow_ok m auth flow =
     (case flow of
        Next a r \<Rightarrow> st_module r = m \<and> st_status r = RunPassed \<and>
          (if m = ''auth.inject_state'' then a \<noteq> AuthBlockedStatus else a = auth)
      | Halt a r \<Rightarrow> st_module r = m \<and> st_status r = RunFailed \<and> halt_output m r \<and>
          (if m = ''auth.inject_state'' then a = AuthBlockedStatus else a = auth)
      | Raised e \<Rightarrow> True)"

lemma flow_ok_simps [simp]:
  "flow_ok m auth (Raised e)"
  "m \<noteq> ''auth.inject_state'' \<Longrightarrow> flow_ok m auth (Next auth (passed m out))"
  "flow_ok ''locator.assert'' auth (Halt auth (failed ''locator.assert'' d out2))"
  by (simp_all add: flow_ok_def passed_def failed_def halt_output_def)

lemma flow_ok_expect [simp]:
  "m \<noteq> ''auth.inject_state'' \<Longrightarrow> flow_ok m auth (expect_truthy m v (Next auth (passed m out)))"
  by (simp add: expect_truthy_def)

lemma flow_ok_auth [simp]: "flow_ok ''auth.inject_state'' auth (auth_flow ''auth.inject_state'' v)"
  by (auto simp: auth_flow_def flow_ok_def passed_def failed_def halt_output_def split: sum.splits)

lemma flow_ok_state [simp]:
  "flow_ok ''state.enter'' auth (state_flow ''state.enter'' sig auth outcome)"
  by (auto simp: state_flow_def state_failed_def flow_ok_def failed_def passed_def halt_output_def
      split: sum.splits)

lemma flow_ok_count [simp]:
  "m \<noteq> ''auth.inject_state'' \<Longrightarrow> flow_ok m auth (count_flow m carrier params auth outcome)"
  by (auto simp: count_flow_def Let_def split: sum.splits option.splits)

lemma flow_ok_row [simp]:
  "m \<noteq> ''auth.inject_state'' \<Longrightarrow> flow_ok m auth (row_flow m f operator v carrier auth matched)"
  by (simp add: row_flow_def)

lemma flow_ok_locator [simp]:
  "flow_ok ''locator.assert'' auth (locator_flow ''locator.assert'' params auth outcome)"
  by (auto simp: locator_flow_def Let_def)

lemma calling_shape:
  assumes "\<And>v. flow_ok m auth (k v)"
  shows "\<exists>answer. (\<forall>out. flow_ok m auth (answer out)) \<and>
           (\<forall>(rt :: 'rt) runtime. calling runtime c rt k = (answer (fst (runtime c rt)), snd (runtime c rt)))"
proof (intro exI conjI allI)
  fix out show "flow_ok m auth ((\<lambda>out. case out of Inl e \<Rightarrow> Raised e | Inr v \<Rightarrow> k v) out)"
    using assms by (simp split: sum.splits)
next
  fix rt :: 'rt and runtime
  show "calling runtime c rt k =
      ((\<lambda>out. case out of Inl e \<Rightarrow> Raised e | Inr v \<Rightarrow> k v) (fst (runtime c rt)), snd (runtime c rt))"
    by (simp add: calling_def split: prod.splits sum.splits)
qed

lemma row_call_None:
  "row_call params mk = None \<longleftrightarrow> optional_text (dget params ''field'') = None \<or> dget params ''value'' = PNone"
  by (simp add: row_call_def split: option.splits)

lemmas step_eval = step_call_def step_calls_def run_step_def Let_def

lemma run_step_no_call:
  "step_call storage m params = None \<Longrightarrow> \<exists>e. run_step runtime storage m params auth rt = (Raised e, rt)"
  by (auto simp: step_call_def step_calls_def run_step_def Let_def row_call_None
      split: if_splits option.splits)

lemma run_step_state:
  "run_step runtime storage ''state.enter'' params auth rt =
     (let (outcome, rt') = runtime (EnterState (str_or_empty (dget params ''state_signature''))) rt
      in (state_flow ''state.enter'' (str_or_empty (dget params ''state_signature'')) auth outcome, rt'))"
  unfolding run_step_def Let_def by simp

lemma run_step_call:
  assumes "step_call storage m params = Some c"
  shows "\<exists>answer. (\<forall>out. flow_ok m auth (answer out)) \<and>
           (\<forall>(rt :: 'rt) runtime. run_step runtime storage m params auth rt =
              (answer (fst (runtime c rt)), snd (runtime c rt)))"
proof -
  consider "m \<in> {''auth.inject_state'', ''nav.menu_chain'', ''page.wait_ready'', ''assert.table_visible'',
             ''assert.page_open'', ''assert.page_ready'', ''action.open_create_modal'', ''action.submit_query''}"
    | "m \<in> {''action.apply_filter'', ''assert.row_exists_by_field''}"
    | "m \<in> {''assert.data_count'', ''locator.assert''}"
    | "m = ''state.enter''"
    using assms by (auto simp: step_call_def step_calls_def Let_def split: if_splits)
  then show ?thesis
  proof cases
    case 1
    then show ?thesis using assms
      by (elim insertE emptyE; simp add: step_eval; intro calling_shape; simp)
  next
    case 2
    then show ?thesis using assms
      by (elim insertE emptyE; simp add: step_eval row_call_def split: option.splits if_splits;
          intro calling_shape; simp)
  next
    case 3
    then show ?thesis using assms
      by (elim insertE emptyE; simp add: step_eval; intro calling_shape; simp)
  next
    case 4
    have "(\<forall>out. flow_ok m auth (state_flow m (str_or_empty (dget params ''state_signature'')) auth out)) \<and>
       (\<forall>(rt :: 'rt) runtime. run_step runtime storage m params auth rt =
          (state_flow m (str_or_empty (dget params ''state_signature'')) auth (fst (runtime c rt)),
           snd (runtime c rt)))"
    proof -
      have "c = EnterState (str_or_empty (dget params ''state_signature''))"
        using assms by (simp add: 4 step_call_def step_calls_def Let_def)
      moreover have "flow_ok m auth (state_flow m (str_or_empty (dget params ''state_signature'')) auth out)"
        for out by (simp add: 4)
      ultimately show ?thesis by (simp add: 4 run_step_state case_prod_beta)
    qed
    then show ?thesis
      by (rule exI [where x = "state_flow m (str_or_empty (dget params ''state_signature'')) auth"])
  qed
qed

lemma run_step_flow_ok: "flow_ok m auth (fst (run_step runtime storage m params auth rt))"
proof (cases "step_call storage m params")
  case None
  then show ?thesis using run_step_no_call [OF None, of runtime auth rt] by auto
next
  case (Some c)
  then obtain answer where "\<And>out. flow_ok m auth (answer out)"
      "\<And>rt runtime. run_step runtime storage m params auth (rt :: 'a) =
         (answer (fst (runtime c rt)), snd (runtime c rt))"
    using run_step_call [OF Some] by blast
  then show ?thesis by simp
qed

subsection \<open>Runs\<close>

definition run_shape :: "pydict list \<Rightarrow> module_result \<Rightarrow> bool" where
  "run_shape steps res =
     (let rs = mx_step_results res in
      map st_module rs = map step_module (take (length rs) steps) \<and>
      list_all (\<lambda>r. st_status r = RunPassed) (butlast rs) \<and>
      (if mx_status res = RunPassed
       then length rs = length steps \<and> list_all (\<lambda>r. st_status r = RunPassed) rs
       else mx_status res = RunFailed \<and> rs \<noteq> [] \<and> st_status (last rs) = RunFailed))"

lemma failed_raised [simp]: "st_status (raised_step m e) = RunFailed" "st_module (raised_step m e) = m"
  by (simp_all add: raised_step_def failed_def)

lemma execute_steps_shape:
  assumes "execute_steps runtime storage inputs steps auth rs rt = (res, rt')"
    and "list_all (\<lambda>r. st_status r = RunPassed) rs"
  shows "\<exists>new. mx_step_results res = rs @ new \<and> run_shape steps (res\<lparr>mx_step_results := new\<rparr>)"
  using assms
proof (induction steps arbitrary: auth rs rt)
  case Nil
  then show ?case by (auto simp: run_shape_def)
next
  case (Cons st steps)
  let ?m = "step_module st"
  obtain flow rt1 where flow:
      "run_step runtime storage ?m (step_params inputs st) auth rt = (flow, rt1)"
    by fastforce
  then have ok: "flow_ok ?m auth flow" using run_step_flow_ok by (metis fst_conv)
  show ?case
  proof (cases flow)
    case (Next a r)
    then have r: "st_module r = ?m" "st_status r = RunPassed" using ok by (simp_all add: flow_ok_def)
    obtain new where "mx_step_results res = (rs @ [r]) @ new" "run_shape steps (res\<lparr>mx_step_results := new\<rparr>)"
      using Cons.IH [of a "rs @ [r]" rt1] Cons.prems flow Next r by auto
    then show ?thesis
      using r by (intro exI [of _ "r # new"]) (auto simp: run_shape_def Let_def split: if_splits)
  next
    case (Halt a r)
    then show ?thesis using ok Cons.prems(1) flow
      by (intro exI [of _ "[r]"]) (auto simp: run_shape_def flow_ok_def)
  next
    case (Raised e)
    then show ?thesis using Cons.prems(1) flow
      by (intro exI [of _ "[raised_step ?m e]"]) (auto simp: run_shape_def)
  qed
qed

lemma execute_shape:
  assumes "execute_plan_steps runtime steps storage inputs rt = (res, rt')"
  shows "run_shape steps res"
proof -
  have "execute_steps runtime storage inputs steps AuthBlockedStatus [] rt = (res, rt')"
    using assms by (simp add: execute_plan_steps_def)
  from execute_steps_shape [OF this] have "run_shape steps (res\<lparr>mx_step_results := mx_step_results res\<rparr>)"
    by auto
  then show ?thesis by simp
qed

subsection \<open>What reaches the runtime\<close>

text \<open>A runtime that also records the calls made to it.\<close>

definition logged :: "'rt runtime \<Rightarrow> ('rt \<times> runtime_call list) runtime" where
  "logged runtime c st =
     (let (out, rt') = runtime c (fst st) in (out, (rt', snd st @ [c])))"

definition planned_call :: "pydict \<Rightarrow> pydict option \<Rightarrow> pydict \<Rightarrow> runtime_call option" where
  "planned_call storage inputs st = step_call storage (step_module st) (step_params inputs st)"

lemma run_step_log:
  assumes "run_step (logged runtime) storage m params auth st = (flow, st')"
  shows "snd st' = snd st @ (case step_call storage m params of None \<Rightarrow> [] | Some c \<Rightarrow> [c])"
proof (cases "step_call storage m params")
  case None
  then show ?thesis using run_step_no_call [OF None, of "logged runtime" auth st] assms by auto
next
  case (Some c)
  then obtain answer where answer: "\<And>st runtime. run_step runtime storage m params auth
      (st :: 'a \<times> runtime_call list) = (answer (fst (runtime c st)), snd (runtime c st))"
    using run_step_call [OF Some] by blast
  then have "st' = snd (logged runtime c st)" using assms by simp
  then show ?thesis using Some by (simp add: logged_def split: prod.split)
qed

lemma execute_steps_log:
  assumes "execute_steps (logged runtime) storage inputs steps auth rs st = (res, st')"
  shows "snd st' = snd st @ List.map_filter (planned_call storage inputs)
           (take (length (mx_step_results res) - length rs) steps) \<and> length rs \<le> length (mx_step_results res)"
  using assms
proof (induction steps arbitrary: auth rs st)
  case Nil
  then show ?case by (auto simp: map_filter_simps)
next
  case (Cons raw steps)
  obtain flow st1 where flow:
      "run_step (logged runtime) storage (step_module raw) (step_params inputs raw) auth st = (flow, st1)"
    by (metis surj_pair)
  note log = run_step_log [OF flow]
  show ?case
  proof (cases flow)
    case (Next a r)
    then have rest: "execute_steps (logged runtime) storage inputs steps a (rs @ [r]) st1 = (res, st')"
      using Cons.prems flow by simp
    then have IH: "snd st' = snd st1 @ List.map_filter (planned_call storage inputs)
        (take (length (mx_step_results res) - Suc (length rs)) steps)"
      "Suc (length rs) \<le> length (mx_step_results res)"
      using Cons.IH [OF rest] by simp_all
    then have "length (mx_step_results res) - length rs = Suc (length (mx_step_results res) - Suc (length rs))"
      by simp
    then show ?thesis
      using log IH by (simp add: planned_call_def [of _ _ raw] map_filter_simps split: option.split)
  qed (use log Cons.prems flow in \<open>auto simp: planned_call_def [of _ _ raw] map_filter_simps split: option.split\<close>)
qed

text \<open>The runtime is called once for every step that ran and has its parameters, in the order of
  the plan, with the parameters of the step after its placeholders were filled in; nothing else
  reaches the browser.\<close>

theorem calls_follow_the_plan:
  "case execute_plan_steps (logged runtime) steps storage inputs (rt, []) of
     (res, rt', made) \<Rightarrow>
       made = List.map_filter (planned_call storage inputs) (take (length (mx_step_results res)) steps)"
  using execute_steps_log [of runtime storage inputs steps AuthBlockedStatus "[]" "(rt, [])"]
  by (auto simp: execute_plan_steps_def split: prod.split)

definition inputs_filled :: "pydict option \<Rightarrow> bool" where
  "inputs_filled inputs =
     (case inputs of None \<Rightarrow> True | Some d \<Rightarrow> list_all (\<lambda>(k, v). is_filled v) d)"

lemma resolved_filled:
  assumes "inputs_filled inputs" "is_filled (dget params k)"
  shows "is_filled (dget (resolve_template_placeholders params inputs) k)"
proof (cases inputs)
  case (Some d)
  have "is_filled (resolve_value d (dget params k))"
    using resolve_value_cases [of d "dget params k"]
  proof
    assume "\<exists>s key. dget params k = PStr s \<and> placeholder_key (strip s) = Some key \<and>
        map_of d key = Some (resolve_value d (dget params k))"
    then obtain key where "(key, resolve_value d (dget params k)) \<in> set d"
      by (auto dest: map_of_SomeD)
    then show ?thesis using assms(1) Some by (auto simp: inputs_filled_def list_all_iff)
  qed (use assms(2) in simp)
  then show ?thesis using Some assms(2) by (simp add: dget_resolve)
qed (use assms in simp)

lemma resolved_given:
  assumes "inputs_filled inputs" "is_given (dget params k)"
  shows "is_given (dget (resolve_template_placeholders params inputs) k)"
proof (cases inputs)
  case (Some d)
  have "is_given (resolve_value d (dget params k))"
    using resolve_value_cases [of d "dget params k"]
  proof
    assume "\<exists>s key. dget params k = PStr s \<and> placeholder_key (strip s) = Some key \<and>
        map_of d key = Some (resolve_value d (dget params k))"
    then obtain key where "(key, resolve_value d (dget params k)) \<in> set d"
      by (auto dest: map_of_SomeD)
    then have "is_filled (resolve_value d (dget params k))"
      using assms(1) Some by (auto simp: inputs_filled_def list_all_iff)
    then show ?thesis by (auto simp: is_filled_def is_given_def)
  qed (use assms(2) in simp)
  then show ?thesis using Some assms(2) by (simp add: dget_resolve)
qed (use assms in simp)

lemma typed_step_calls:
  assumes "step_typed st" "inputs_filled inputs"
  shows "planned_call storage inputs st \<noteq> None"
proof -
  obtain m params ts where st: "dget st ''module'' = PStr m" "dget st ''params'' = PDict params"
      "map_of module_types m = Some ts" "params_typed ts params"
    using assms(1) by (auto simp: step_typed_def split: pyval.splits option.splits)
  have step: "step_module st = m" "step_params inputs st = resolve_template_placeholders params inputs"
    by (simp_all add: step_module_def step_params_def st coerce_params_def str_or_empty_def)
  let ?p = "resolve_template_placeholders params inputs"
  have row: "row_call ?p mk \<noteq> None" if "params_typed row_filter_types params" for mk
  proof -
    have "is_filled (dget ?p ''field'')" "is_given (dget ?p ''value'')"
      using that resolved_filled [OF assms(2)] resolved_given [OF assms(2)]
      by (simp_all add: params_typed_def row_filter_types_def)
    then show ?thesis by (simp add: row_call_None is_filled_def is_given_def)
  qed
  show ?thesis unfolding planned_call_def step
    using st(3,4) row by (auto simp: module_types_def step_call_def step_calls_def Let_def split: if_splits)
qed

lemma probe_plan_typed: "list_all step_typed (build_page_probe_plan route)"
  by (simp add: build_page_probe_plan_def step_typed_def module_types_def params_typed_def
      is_text_def is_list_def)

text \<open>Which call carries out a step of which module.\<close>

fun carries_out :: "runtime_call \<Rightarrow> string \<Rightarrow> bool" where
  "carries_out (InjectAuthState storage) m \<longleftrightarrow> m = ''auth.inject_state''"
| "carries_out (NavigateMenuChain menu route) m \<longleftrightarrow> m = ''nav.menu_chain''"
| "carries_out (WaitPageReady route) m \<longleftrightarrow> m = ''page.wait_ready''"
| "carries_out (AssertTableVisible route) m \<longleftrightarrow> m = ''assert.table_visible''"
| "carries_out (AssertPageOpen route) m \<longleftrightarrow> m \<in> {''assert.page_open'', ''assert.page_ready''}"
| "carries_out OpenCreateModal m \<longleftrightarrow> m = ''action.open_create_modal''"
| "carries_out (ApplyFilter f operator v carrier) m \<longleftrightarrow> m = ''action.apply_filter''"
| "carries_out (SubmitQuery carrier) m \<longleftrightarrow> m = ''action.submit_query''"
| "carries_out (ReadDataCount carrier) m \<longleftrightarrow> m = ''assert.data_count''"
| "carries_out (RowExistsByField carrier f operator v) m \<longleftrightarrow> m = ''assert.row_exists_by_field''"
| "carries_out (EnterState signature) m \<longleftrightarrow> m = ''state.enter''"
| "carries_out (ResolveLocatorBundle b constraints) m \<longleftrightarrow> m = ''locator.assert''"

lemma step_call_carries_out: "step_call storage m params = Some c \<Longrightarrow> carries_out c m"
  by (auto simp: step_call_def step_calls_def row_call_def Let_def split: if_splits option.splits)

lemma run_steps_call:
  assumes "list_all step_typed steps" "inputs_filled inputs"
    and "execute_plan_steps (logged runtime) steps storage inputs (rt, []) = (res, rt', made)"
  shows "list_all2 carries_out made (map st_module (mx_step_results res))"
proof -
  let ?ran = "take (length (mx_step_results res)) steps"
  have shape: "map st_module (mx_step_results res) = map step_module ?ran"
    using execute_shape [OF assms(3)] by (simp add: run_shape_def Let_def)
  have made: "made = List.map_filter (planned_call storage inputs) ?ran"
    using execute_steps_log [of runtime storage inputs steps AuthBlockedStatus "[]" "(rt, [])"] assms(3)
    by (auto simp: execute_plan_steps_def)
  have "list_all2 carries_out (List.map_filter (planned_call storage inputs) sts) (map step_module sts)"
    if "set sts \<subseteq> set steps" for sts
    using that
  proof (induction sts)
    case (Cons st sts)
    then have "step_typed st" using assms(1) by (auto simp: list_all_iff)
    then obtain c where c: "planned_call storage inputs st = Some c"
      using typed_step_calls [OF _ assms(2)] by blast
    then have "carries_out c (step_module st)"
      unfolding planned_call_def by (rule step_call_carries_out)
    then show ?case using Cons c by (simp add: map_filter_simps)
  qed (simp add: map_filter_simps)
  then show ?thesis unfolding made shape by (simp add: set_take_subset)
qed

lemma typed_step_runs:
  assumes "step_typed st" "inputs_filled inputs"
  shows "\<exists>c flow rt'. run_step (logged runtime) storage (step_module st) (step_params inputs st) auth (rt, []) =
    (flow, rt', [c]) \<and> carries_out c (step_module st)"
proof -
  obtain c where c: "step_call storage (step_module st) (step_params inputs st) = Some c"
    using typed_step_calls [OF assms] unfolding planned_call_def by blast
  obtain flow rt' made where run: "run_step (logged runtime) storage (step_module st) (step_params inputs st) auth
      (rt, []) = (flow, rt', made)" by (metis surj_pair)
  then show ?thesis
    using run_step_log [OF run] c step_call_carries_out [OF c] by auto
qed

text \<open>C29: with every input filled in, a step of a built plan is never refused by the executor: whatever
  came before it, running it makes exactly one call to the runtime, the one that carries out its
  module, so none is of an unknown module and none lacks a parameter it needs. A run therefore makes
  one call for each step it reports on, in order, and reports on every step when it passes.\<close>

theorem built_plans_reach_the_runtime:
  assumes "build_module_plan code ctx sig bundle = Inr plan" "inputs_filled inputs"
    and "execute_plan_steps (logged runtime) (pd_steps_json plan) storage inputs (rt, []) = (res, rt', made)"
  shows "list_all (\<lambda>st. \<forall>auth rt1. \<exists>c flow rt2.
        run_step (logged runtime) storage (step_module st) (step_params inputs st) auth (rt1, []) = (flow, rt2, [c]) \<and>
        carries_out c (step_module st)) (pd_steps_json plan) \<and>
    list_all2 carries_out made (map st_module (mx_step_results res)) \<and>
    map st_module (mx_step_results res) =
      map step_module (take (length (mx_step_results res)) (pd_steps_json plan)) \<and>
    (mx_status res = RunPassed \<longrightarrow> length made = length (pd_steps_json plan))"
proof -
  note typed = plan_steps_typed [OF assms(1)]
  note calls = run_steps_call [OF typed assms(2,3)]
  have len: "length made = length (mx_step_results res)" using list_all2_lengthD [OF calls] by simp
  have steps: "list_all (\<lambda>st. \<forall>auth rt1. \<exists>c flow rt2.
        run_step (logged runtime) storage (step_module st) (step_params inputs st) auth (rt1, []) = (flow, rt2, [c]) \<and>
        carries_out c (step_module st)) (pd_steps_json plan)"
    using typed typed_step_runs [OF _ assms(2)] by (fastforce simp: list_all_iff)
  have "map st_module (mx_step_results res) =
      map step_module (take (length (mx_step_results res)) (pd_steps_json plan)) \<and>
    (mx_status res = RunPassed \<longrightarrow> length made = length (pd_steps_json plan))"
    using execute_shape [OF assms(3)] len by (simp add: run_shape_def Let_def)
  then show ?thesis using calls steps by blast
qed

text \<open>A runtime that answers no to everything.\<close>

definition refusing :: "unit runtime" where
  "refusing c rt = (Inr (PBool False), rt)"

theorem built_plans_reach_the_runtime_witness:
  "\<exists>res rt made. execute_plan_steps (logged refusing)
      (pd_steps_json (projr (build_module_plan ''status_exists'' example_context None None))) []
      (Some [(''status'', PStr ''paid'')]) ((), []) = (res, rt, made) \<and>
    list_all2 carries_out made (map st_module (mx_step_results res))"
proof -
  obtain plan where plan: "build_module_plan ''status_exists'' example_context None None = Inr plan"
    by (simp add: build_module_plan_def example_context_def dget_or_def Let_def)
  have "is_filled (PStr ''paid'')" by (rule filled_text) (simp_all add: graphic_def)
  then have filled: "inputs_filled (Some [(''status'', PStr ''paid'')])" by (simp add: inputs_filled_def)
  obtain res rt made where run: "execute_plan_steps (logged refusing) (pd_steps_json plan) []
      (Some [(''status'', PStr ''paid'')]) ((), []) = (res, rt, made)"
    by (metis surj_pair)
  from built_plans_reach_the_runtime [OF plan filled run] run show ?thesis by (auto simp: plan)
qed

lemma step_typed_no_auth:
  "step_typed st \<Longrightarrow> dget st ''module'' \<noteq> PStr ''auth.inject_state'' \<Longrightarrow> step_module st \<noteq> ''auth.inject_state''"
  by (auto simp: step_typed_def step_module_def str_or_empty_def split: pyval.splits)

lemma execute_steps_auth:
  assumes "execute_steps runtime storage inputs steps auth rs st = (res, st')"
    and "\<And>raw. raw \<in> set steps \<Longrightarrow> step_module raw \<noteq> ''auth.inject_state''"
  shows "mx_auth_status res = auth"
  using assms
proof (induction steps arbitrary: auth rs st)
  case (Cons raw steps)
  obtain flow st1 where flow:
      "run_step runtime storage (step_module raw) (step_params inputs raw) auth st = (flow, st1)"
    by (metis surj_pair)
  have "flow_ok (step_module raw) auth flow"
    using run_step_flow_ok [of "step_module raw" auth runtime] flow by (metis fst_conv)
  then show ?case using Cons flow by (cases flow) (auto simp: flow_ok_def)
qed auto

text \<open>C30: a login that does not succeed ends the run of a built plan before anything else: the only
  call made is the injection of the stored login state.\<close>

theorem blocked_login_stops_the_run:
  assumes "build_module_plan code ctx sig bundle = Inr plan"
    and "execute_plan_steps (logged runtime) (pd_steps_json plan) storage inputs (rt, []) = (res, (rt', made))"
    and "mx_auth_status res = AuthBlockedStatus"
  shows "made = [InjectAuthState storage] \<and> length (mx_step_results res) = 1 \<and> mx_status res = RunFailed"
proof -
  obtain rest where steps: "pd_steps_json plan =
      plan_step ''auth.inject_state'' [(''policy'', PStr ''server_injected'')] # rest"
      "list_all (\<lambda>st. dget st ''module'' \<noteq> PStr ''auth.inject_state'' \<and> step_typed st) rest"
    using plan_steps_first [OF assms(1)] by blast
  let ?m = "''auth.inject_state''"
  let ?st = "plan_step ?m [(''policy'', PStr ''server_injected'')]"
  have m: "step_module ?st = ?m" by (simp add: step_module_def plan_step_def str_or_empty_def)
  obtain flow st1 where flow: "run_step (logged runtime) storage ?m (step_params inputs ?st)
      AuthBlockedStatus (rt, []) = (flow, st1)" by (metis surj_pair)
  have ok: "flow_ok ?m AuthBlockedStatus flow"
    using run_step_flow_ok [of ?m AuthBlockedStatus "logged runtime"] flow by (metis fst_conv)
  have made: "snd st1 = [InjectAuthState storage]"
    using run_step_log [OF flow] by (simp add: step_call_def step_calls_def Let_def)
  have run: "execute_steps (logged runtime) storage inputs (?st # rest) AuthBlockedStatus [] (rt, []) =
      (res, (rt', made))"
    using assms(2) steps(1) by (simp add: execute_plan_steps_def)
  show ?thesis
  proof (cases flow)
    case (Next a r)
    then have a: "a \<noteq> AuthBlockedStatus" using ok by (simp add: flow_ok_def)
    have "execute_steps (logged runtime) storage inputs rest a [r] st1 = (res, (rt', made))"
      using run flow Next m by simp
    then have "mx_auth_status res = a"
      by (rule execute_steps_auth) (use steps(2) in \<open>auto simp: list_all_iff step_typed_no_auth\<close>)
    then show ?thesis using a assms(3) by simp
  qed (use made run flow m in auto)
qed

theorem blocked_login_stops_the_run_witness:
  "let (res, rt, made) = execute_plan_steps (logged refusing)
         (pd_steps_json (projr (build_module_plan ''page_open'' example_context None None))) [] None ((), [])
   in made = [InjectAuthState []] \<and> mx_status res = RunFailed"
proof -
  let ?plan = "build_module_plan ''page_open'' example_context None None"
  obtain plan where plan: "?plan = Inr plan"
    by (simp add: build_module_plan_def example_context_def dget_or_def Let_def)
  obtain res rt made where run: "execute_plan_steps (logged refusing) (pd_steps_json plan) [] None ((), []) = (res, rt, made)"
    by (metis surj_pair)
  obtain rest where "pd_steps_json plan =
      plan_step ''auth.inject_state'' [(''policy'', PStr ''server_injected'')] # rest"
    using plan_steps_first [OF plan] by blast
  then have "mx_auth_status res = AuthBlockedStatus"
    using run by (auto simp: execute_plan_steps_def plan_step_def step_module_def str_or_empty_def run_step_def Let_def
        calling_def logged_def refusing_def auth_flow_def auth_of_outcome_def)
  then have "made = [InjectAuthState []] \<and> mx_status res = RunFailed"
    using blocked_login_stops_the_run [OF plan run] by simp
  then show ?thesis by (simp add: plan run)
qed

subsection \<open>Why a run failed\<close>

lemma step_failure_category_same: "step_failure_category m = failure_category_for_module m"
  by (simp add: step_failure_category_def failure_category_for_module_def)

definition last_failed :: "step_result \<Rightarrow> bool" where
  "last_failed r \<longleftrightarrow> (\<exists>e. r = raised_step (st_module r) e) \<or> halt_output (st_module r) r"

lemma last_failed_category:
  assumes "last_failed r" "st_module r \<noteq> ''locator.assert''"
  shows "(case (case st_output r of
                  None \<Rightarrow> None
                | Some out \<Rightarrow> (case as_str (dget out ''failure_category'') of
                                 None \<Rightarrow> None | Some c \<Rightarrow> failure_category_of c)) of
            Some c \<Rightarrow> Some c
          | None \<Rightarrow> Some (failure_category_for_module (st_module r))) =
         Some (if st_detail r = None then AuthBlocked else failure_category_for_module (st_module r))"
proof -
  have "failure_category_of ''auth_blocked'' = Some AuthBlocked"
    "failure_category_of ''state_not_reached'' = None"
    by (simp_all add: failure_category_of_def all_failure_categories_def)
  note codes = this
  show ?thesis
  proof (cases "\<exists>e. r = raised_step (st_module r) e")
    case True
    then obtain e where "st_detail r = Some e" "st_output r =
        Some [(''failure_category'', PStr (failure_category_value (failure_category_for_module (st_module r))))]"
      by (metis raised_step_def failed_def step_failure_category_same step_result.select_convs(3,4))
    then show ?thesis by simp
  next
    case False
    then show ?thesis using assms codes
      by (auto simp: last_failed_def halt_output_def split: option.splits)
  qed
qed

lemma execute_steps_last:
  assumes "execute_steps runtime storage inputs steps auth rs st = (res, st')" "mx_status res = RunFailed"
  shows "last_failed (last (mx_step_results res))"
  using assms
proof (induction steps arbitrary: auth rs st)
  case (Cons raw steps)
  obtain flow st1 where flow:
      "run_step runtime storage (step_module raw) (step_params inputs raw) auth st = (flow, st1)"
    by (metis surj_pair)
  have "flow_ok (step_module raw) auth flow"
    using run_step_flow_ok [of "step_module raw" auth runtime] flow by (metis fst_conv)
  then show ?case using Cons flow by (cases flow) (auto simp: flow_ok_def last_failed_def)
qed auto

text \<open>C31: the runner finds out why a run failed from its results: the login when it was refused, and
  otherwise the category of the module of the last step that ran. (A missed locator says itself why.)\<close>

theorem failed_runs_are_classified:
  assumes "execute_plan_steps runtime steps storage inputs rt = (res, rt')" "mx_status res = RunFailed"
    and "st_module (last (mx_step_results res)) \<noteq> ''locator.assert''"
  shows "resolve_failure_category res = Some
           (if st_detail (last (mx_step_results res)) = None then AuthBlocked
            else failure_category_for_module (st_module (last (mx_step_results res))))"
proof -
  let ?last = "last (mx_step_results res)"
  have "run_shape steps res" using assms(1) by (rule execute_shape)
  then have rs: "mx_step_results res = butlast (mx_step_results res) @ [?last]" "st_status ?last = RunFailed"
      "list_all (\<lambda>r. st_status r = RunPassed) (butlast (mx_step_results res))"
    using assms(2) by (auto simp: run_shape_def Let_def)
  have "List.find (\<lambda>r. st_status r = RunFailed) (xs @ [r]) = Some r"
    if "list_all (\<lambda>r. st_status r = RunPassed) xs" "st_status r = RunFailed" for xs r
    using that by (induction xs) auto
  then have first: "first_failed_step (mx_step_results res) = Some ?last"
    using rs unfolding first_failed_step_def by metis
  have "last_failed ?last"
    using execute_steps_last [of runtime storage inputs steps AuthBlockedStatus "[]" rt res rt'] assms(1,2)
    by (simp add: execute_plan_steps_def)
  from last_failed_category [OF this assms(3)] show ?thesis
    using assms(2) first by (simp add: resolve_failure_category_def)
qed

theorem failed_runs_are_classified_witness:
  "resolve_failure_category (fst (execute_plan_steps refusing [plan_step ''auth.inject_state'' []] [] None ())) =
     Some AuthBlocked"
proof -
  obtain res rt where run: "execute_plan_steps refusing [plan_step ''auth.inject_state'' []] [] None () = (res, rt)"
    by (metis surj_pair)
  then have "res = \<lparr>mx_status = RunFailed, mx_auth_status = AuthBlockedStatus,
      mx_step_results = [failed ''auth.inject_state'' None
        [(''auth_status'', PStr ''blocked''), (''failure_category'', PStr ''auth_blocked'')]]\<rparr>"
    by (auto simp: execute_plan_steps_def plan_step_def step_module_def str_or_empty_def run_step_def Let_def
        calling_def refusing_def auth_flow_def auth_of_outcome_def)
  then show ?thesis using failed_runs_are_classified [OF run] run by (simp add: failed_def)
qed

subsection \<open>The runner with this executor\<close>

text \<open>What the runner service gets when its executor is this one, on a runtime in the state \<open>rt\<close>.\<close>

definition with_executor :: "'rt runtime \<Rightarrow> 'rt \<Rightarrow> run_env \<Rightarrow> run_env" where
  "with_executor runtime rt env =
     env\<lparr>en_browser := (en_browser env)\<lparr>br_execute := (\<lambda>steps storage inputs.
        Inr (fst (execute_plan_steps runtime steps storage inputs rt)))\<rparr>\<rparr>"

lemma run_and_record_result:
  assumes "run_and_record env plan av url steps storage inputs check payload_of rc s = (Inr r, s')"
  shows "\<exists>res. br_execute (en_browser env) steps storage inputs = Inr res \<and>
           rs_step_results r = mx_step_results res \<and> rs_status r = mx_status res \<and>
           rs_auth_status r = mx_auth_status res"
  using assms by (auto simp: run_and_record_def drive_def Let_def split: sum.splits option.splits)

text \<open>A page check that returns reports a run of the module plan stored for the check: the steps of
  a prefix of it, all but the last passed, and it passes exactly when every step of the plan passed.\<close>

theorem page_check_reports_its_plan:
  assumes "resolve_page_check check (working s) = Inr t"
    and "run_page_check (with_executor runtime rt env) check plan inputs s = (Inr r, s')"
  shows "run_shape (mp_steps_json (ct_module_plan t))
           \<lparr>mx_status = rs_status r, mx_auth_status = rs_auth_status r, mx_step_results = rs_step_results r\<rparr>"
proof -
  let ?steps = "mp_steps_json (ct_module_plan t)" and ?storage = "ct_storage_state t"
  obtain plan_id s1 where
      "run_and_record (with_executor runtime rt env) plan_id (Some (pa_asset_version (ct_page_asset t)))
        (sys_base_url (ct_system t)) ?steps ?storage inputs (Some (pc_id (ct_page_check t)))
        (check_payload (ct_page_check t) (ct_page_asset t) (ct_system t)) (\<lambda>_. False) s1 = (Inr r, s')"
    using assms by (auto simp: run_page_check_def split: sum.splits prod.splits)
  from run_and_record_result [OF this] have
      "rs_step_results r = mx_step_results (fst (execute_plan_steps runtime ?steps ?storage inputs rt))"
      "rs_status r = mx_status (fst (execute_plan_steps runtime ?steps ?storage inputs rt))"
      "rs_auth_status r = mx_auth_status (fst (execute_plan_steps runtime ?steps ?storage inputs rt))"
    by (auto simp: with_executor_def)
  moreover have "run_shape ?steps (fst (execute_plan_steps runtime ?steps ?storage inputs rt))"
    by (metis execute_shape surj_pair fst_conv)
  ultimately show ?thesis
    by (cases "fst (execute_plan_steps runtime ?steps ?storage inputs rt)") simp
qed

theorem page_check_reports_its_plan_witness:
  "\<exists>r s'. run_page_check (with_executor refusing () (sample_env ok_browser)) (Some 5) None None
            (open_session runnable_db) = (Inr r, s') \<and> rs_step_results r = []"
proof -
  let ?env = "with_executor refusing () (sample_env ok_browser)" and ?s = "open_session runnable_db"
  obtain t where t: "resolve_page_check (Some 5) runnable_db = Inr t"
    using resolve_runnable by blast
  then have steps: "mp_steps_json (ct_module_plan t) = []"
    by (auto simp: resolve_page_check_def runnable_db_def live_db_def get_page_check_def
      get_page_asset_def find_row_Cons retirement_failure_message_def load_valid_auth_state_def first_by_def)
  obtain r s' where r: "run_page_check ?env (Some 5) None None ?s = (Inr r, s')"
    using t by (simp add: run_page_check_def resolve_execution_plan_def Let_def run_and_record_def
        drive_def sample_env_def ok_browser_def with_executor_def)
  have "run_shape (mp_steps_json (ct_module_plan t))
      \<lparr>mx_status = rs_status r, mx_auth_status = rs_auth_status r, mx_step_results = rs_step_results r\<rparr>"
    by (rule page_check_reports_its_plan [OF _ r]) (simp add: t)
  then have "rs_step_results r = []" by (simp add: run_shape_def steps Let_def)
  then show ?thesis using r by blast
qed

end
