(* ===== verification/CompileElements.thy ===== *)
theory CompileElements
  imports ModulePlans Reconciliation Fingerprints
begin

section \<open>Elements of a page as the compiler sees them\<close>

text \<open>
  The functions of asset\_compiler/service.py that read only rows: keys and versions of assets, the
  normal form of a page element, the states seen on a page, and the choice of the locators of a
  check. A set of words or signatures already seen is a list.
\<close>

subsection \<open>Keys, versions, signatures\<close>

text \<open>\<open>text.split("/")\<close>\<close>

fun split_char :: "char \<Rightarrow> string \<Rightarrow> string list" where
  "split_char sep [] = [[]]"
| "split_char sep (c # cs) =
     (if c = sep then [] # split_char sep cs
      else case split_char sep cs of [] \<Rightarrow> [[c]] | w # ws \<Rightarrow> (c # w) # ws)"

definition strip_char :: "char \<Rightarrow> string \<Rightarrow> string" where
  "strip_char c s = rev (dropWhile (\<lambda>x. x = c) (rev (dropWhile (\<lambda>x. x = c) s)))"

definition route_segments :: "string \<Rightarrow> string list" where
  "route_segments route_path = filter (\<lambda>s. s \<noteq> []) (split_char (CHR ''/'') (strip_char (CHR ''/'') route_path))"

definition replace_char :: "char \<Rightarrow> char \<Rightarrow> string \<Rightarrow> string" where
  "replace_char a b s = map (\<lambda>c. if c = a then b else c) s"

definition build_asset_key :: "string \<Rightarrow> string \<Rightarrow> string option \<Rightarrow> string" where
  "build_asset_key system_code route_path page_title =
     (if route_segments route_path \<noteq> []
      then replace_char (CHR ''-'') (CHR ''_'') (join_with ''.'' (lower system_code # route_segments route_path))
      else (let title = (case page_title of None \<Rightarrow> [] | Some t \<Rightarrow> t);
                fallback = replace_char (CHR '' '') (CHR ''_'') (strip (if title = [] then ''page'' else title))
            in join_with ''.'' [lower system_code, lower fallback]))"

text \<open>\<open>started_at\<close> is a column without nulls, so the branch for a missing one is dead.\<close>

definition build_asset_version :: "crawl_snapshot \<Rightarrow> string" where
  "build_asset_version snapshot =
     (let t = cs_started_at snapshot in
      zero_pad 4 (dt_year t) @ zero_pad 2 (dt_month t) @ zero_pad 2 (dt_day t) @
      zero_pad 2 (dt_hour t) @ zero_pad 2 (dt_minute t) @ zero_pad 2 (dt_second t))"

definition suggests_create_action :: "string option \<Rightarrow> bool" where
  "suggests_create_action label =
     (case label of
        None \<Rightarrow> False
      | Some l \<Rightarrow> l \<noteq> [] \<and> list_ex (\<lambda>keyword. sublist keyword l) CREATE_KEYWORDS)"

definition build_default_state_signature :: "string \<Rightarrow> string" where
  "build_default_state_signature route_path =
     (let segments = route_segments route_path
      in (if segments = [] then ''page'' else last segments) @ '':default'')"

definition normalize_route_path :: "string \<Rightarrow> string" where
  "normalize_route_path route_path = strip route_path"

definition is_high_quality_full_snapshot :: "crawl_snapshot \<Rightarrow> bool" where
  "is_high_quality_full_snapshot snapshot =
     (if cs_crawl_type snapshot \<noteq> ''full'' then False
      else if cs_degraded snapshot then False
      else case cs_quality_score snapshot of
             None \<Rightarrow> False
           | Some q \<Rightarrow> QUALITY_GATE_MIN_SCORE \<le> q)"

definition previous_snapshot_to_dict :: "asset_snapshot option \<Rightarrow> pydict option" where
  "previous_snapshot_to_dict previous_snapshot =
     (case previous_snapshot of
        None \<Rightarrow> None
      | Some p \<Rightarrow>
          Some [(''navigation_hash'', PStr (as_navigation_hash p)),
                (''key_locator_hash'', PStr (as_key_locator_hash p)),
                (''semantic_summary_hash'', PStr (as_semantic_summary_hash p)),
                (''structure_hash'', PStr (as_structure_hash p))])"

subsection \<open>The normal form of an element\<close>

definition infer_strategy_type :: "string \<Rightarrow> string" where
  "infer_strategy_type playwright_locator =
     (let locator = lower (strip playwright_locator)
      in if sublist ''get_by_role'' locator \<or> prefix ''role='' locator then ''semantic''
         else if sublist ''get_by_label'' locator \<or> prefix ''label='' locator then ''label''
         else if sublist ''testid'' locator \<or> sublist ''data-testid'' locator then ''testid''
         else if sublist ''get_by_text'' locator \<or> prefix ''text='' locator then ''text_anchor''
         else ''css'')"

definition raw_candidates_of :: "page_element \<Rightarrow> pydict list" where
  "raw_candidates_of element =
     (let stored = (case pe_locator_candidates element of None \<Rightarrow> [] | Some cs \<Rightarrow> cs)
      in if stored \<noteq> [] then stored
         else case pe_playwright_locator element of
                None \<Rightarrow> []
              | Some l \<Rightarrow>
                  if l = [] then []
                  else [[(''strategy_type'', PStr (infer_strategy_type l)), (''selector'', PStr l)]])"

definition bundle_value :: "locator_bundle \<Rightarrow> pyval" where
  "bundle_value candidates = PDict [(''candidates'', PList (map PDict candidates))]"

definition build_normalized_element :: "page_element \<Rightarrow> string \<Rightarrow> pydict" where
  "build_normalized_element element default_state_signature =
     (let raw_candidates = raw_candidates_of element;
          own_state = normalize_opt (pe_state_signature element);
          state_context = (case pe_state_context element of None \<Rightarrow> [] | Some d \<Rightarrow> d);
          locator_bundle = build_locator_bundle (Some raw_candidates) (Some state_context)
      in [(''element_type'', PStr (strip (pe_element_type element))),
          (''element_role'', PStr (normalize_opt (pe_element_role element))),
          (''element_text'', PStr (normalize_opt (pe_element_text element))),
          (''attributes'', PDict (case pe_attributes element of None \<Rightarrow> [] | Some d \<Rightarrow> d)),
          (''playwright_locator'', PStr (normalize_opt (pe_playwright_locator element))),
          (''usage_description'', PStr (normalize_opt (pe_usage_description element))),
          (''state_signature'', PStr (if own_state = [] then default_state_signature else own_state)),
          (''state_context'', PDict state_context),
          (''locator_candidates'', PList (map PDict raw_candidates)),
          (''materialized_by'', PStr (normalize_opt (pe_materialized_by element))),
          (''navigation_diagnostics'',
            PDict (case pe_navigation_diagnostics element of None \<Rightarrow> [] | Some d \<Rightarrow> d)),
          (''locator_bundle'', bundle_value locator_bundle)])"

subsection \<open>States of a page\<close>

fun collect_states :: "(string \<times> string) list \<Rightarrow> pydict list \<Rightarrow> (string \<times> string) list" where
  "collect_states seen [] = seen"
| "collect_states seen (element # elements) =
     (let state_signature = normalize_text (dget element ''state_signature'');
          context = (case dget element ''state_context'' of PDict d \<Rightarrow> d | _ \<Rightarrow> []);
          entry_type = normalize_text (dget context ''entry_type'')
      in if state_signature = [] \<or> entry_type = [] \<or> (state_signature, entry_type) \<in> set seen
         then collect_states seen elements
         else collect_states (seen @ [(state_signature, entry_type)]) elements)"

definition collect_representative_states :: "pydict list \<Rightarrow> pydict list" where
  "collect_representative_states elements =
     map (\<lambda>(s, t). [(''state_signature'', PStr s), (''entry_type'', PStr t)]) (collect_states [] elements)"

subsection \<open>The locators of a check\<close>

definition normalize_locator_candidate :: "pyval \<Rightarrow> pydict" where
  "normalize_locator_candidate candidate =
     (let payload = (case candidate of PDict d \<Rightarrow> d | _ \<Rightarrow> [])
      in [(''strategy_type'', PStr (normalize_text (dget payload ''strategy_type''))),
          (''selector'', PStr (normalize_text (dget payload ''selector''))),
          (''context_constraints'',
            case dget payload ''context_constraints'' of PDict d \<Rightarrow> PDict d | _ \<Rightarrow> PDict []),
          (''stability_score'', PFloat (clean_float (dget payload ''stability_score'') 0)),
          (''specificity_score'', PFloat (clean_float (dget payload ''specificity_score'') 0)),
          (''observed_success_count'', PInt (clean_int (dget payload ''observed_success_count''))),
          (''fallback_rank'', PInt (clean_int (dget payload ''fallback_rank'')))])"

definition element_candidates :: "pydict \<Rightarrow> pyval list" where
  "element_candidates element =
     (case dget element ''locator_bundle'' of
        PDict b \<Rightarrow> (case dget b ''candidates'' of PList cs \<Rightarrow> cs | _ \<Rightarrow> [])
      | _ \<Rightarrow> [])"

definition bundle_matches :: "string option \<Rightarrow> string \<Rightarrow> pydict \<Rightarrow> bool" where
  "bundle_matches element_type state_signature element =
     ((state_signature = [] \<or> normalize_text (dget element ''state_signature'') = state_signature) \<and>
      (case element_type of
         None \<Rightarrow> True
       | Some t \<Rightarrow> t = [] \<or> normalize_text (dget element ''element_type'') = t) \<and>
      element_candidates element \<noteq> [])"

definition find_element_bundle :: "pydict list \<Rightarrow> string option \<Rightarrow> string \<Rightarrow> locator_bundle option" where
  "find_element_bundle elements element_type state_signature =
     map_option (\<lambda>e. map normalize_locator_candidate (element_candidates e))
       (List.find (bundle_matches element_type state_signature) elements)"

definition expected_element_type_for_check :: "string \<Rightarrow> string option" where
  "expected_element_type_for_check check_code =
     (if check_code \<in> {''table_render'', ''tab_switch_render''} then Some ''table''
      else if check_code = ''open_create_modal'' then Some ''button''
      else if check_code = ''open_create_modal_state'' then Some ''dialog''
      else None)"

definition select_locator_bundle_for_check ::
  "string \<Rightarrow> string \<Rightarrow> string \<Rightarrow> pydict list \<Rightarrow> locator_bundle" where
  "select_locator_bundle_for_check check_code state_signature default_state_signature elements =
     (let expected = expected_element_type_for_check check_code;
          preferred_states = state_signature #
            (if state_signature \<noteq> default_state_signature then [default_state_signature] else [])
      in case List.map_filter (find_element_bundle elements expected) (preferred_states @ [[]]) of
           [] \<Rightarrow> []
         | b # bs \<Rightarrow> b)"

end
