(* ===== verification/NavigationAliases.thy ===== *)
theory NavigationAliases
  imports PyData Schema
begin

section \<open>Navigation aliases\<close>

text \<open>
  asset\_compiler/navigation\_aliases.py: the names under which a page can be reached (its title, the
  label of its menu entry, the chain of labels that leads there), derived from the menu nodes of
  the page and their ancestors. A set of signatures is the list of the candidates' signatures.
\<close>

record navigation_alias_draft =
  nd_alias_type :: string
  nd_alias_text :: string
  nd_leaf_text :: "string option"
  nd_display_chain :: "string option"
  nd_chain_complete :: bool

subsection \<open>The chain of one candidate\<close>

definition label_text :: "menu_node \<Rightarrow> string" where
  "label_text node = strip (mn_label node)"

definition route_matches :: "string option \<Rightarrow> string \<Rightarrow> bool" where
  "route_matches node_route_path target_route_path =
     (case node_route_path of None \<Rightarrow> False | Some r \<Rightarrow> r \<noteq> [] \<and> r = target_route_path)"

text \<open>\<open>{node.id: node for node in nodes}\<close>\<close>

definition node_by_id :: "menu_node list \<Rightarrow> uuid \<Rightarrow> menu_node option" where
  "node_by_id nodes i = find_row mn_id i (rev nodes)"

lemma node_by_id_Some:
  "node_by_id nodes i = Some n \<Longrightarrow> n \<in> set nodes \<and> mn_id n = i"
  unfolding node_by_id_def by (metis find_row_Some_set find_row_Some_key set_rev)

lemma unvisited_decrease:
  assumes "n \<in> set nodes" "mn_id n \<notin> set visited"
  shows "length (filter (\<lambda>m. mn_id m \<notin> set (mn_id n # visited)) nodes) <
         length (filter (\<lambda>m. mn_id m \<notin> set visited) nodes)"
proof -
  have "filter (\<lambda>m. mn_id m \<notin> set (mn_id n # visited)) nodes =
      filter (\<lambda>m. mn_id m \<noteq> mn_id n) (filter (\<lambda>m. mn_id m \<notin> set visited) nodes)"
    by (auto intro: filter_cong)
  moreover have "n \<in> set (filter (\<lambda>m. mn_id m \<notin> set visited) nodes)" using assms by simp
  ultimately show ?thesis
    using length_filter_less [of n "filter (\<lambda>m. mn_id m \<notin> set visited) nodes" "\<lambda>m. mn_id m \<noteq> mn_id n"]
    by simp
qed

text \<open>The \<open>while\<close> loop: the ancestors of a node, \<open>None\<close> when one is missing or comes up twice.\<close>

function lineage_of :: "menu_node list \<Rightarrow> uuid list \<Rightarrow> menu_node list \<Rightarrow> menu_node \<Rightarrow> menu_node list option" where
  "lineage_of nodes visited lineage current =
     (case mn_parent_id current of
        None \<Rightarrow> Some lineage
      | Some pid \<Rightarrow>
          (case node_by_id nodes pid of
             None \<Rightarrow> None
           | Some parent \<Rightarrow>
               if mn_id parent \<in> set visited then None
               else lineage_of nodes (mn_id parent # visited) (parent # lineage) parent))"
  by pat_completeness auto

termination
  by (relation "measure (\<lambda>(nodes, visited, lineage, current).
      length (filter (\<lambda>m. mn_id m \<notin> set visited) nodes))")
    (auto simp del: set_simps dest!: node_by_id_Some intro!: unvisited_decrease)

declare lineage_of.simps [simp del]

definition depth_continuous :: "menu_node list \<Rightarrow> bool" where
  "depth_continuous lineage =
     list_all (\<lambda>(parent, child). mn_depth child = mn_depth parent + 1) (zip lineage (tl lineage))"

definition derive_chain_from_depth_fallback :: "menu_node \<Rightarrow> string list \<times> bool" where
  "derive_chain_from_depth_fallback preferred_leaf = ([label_text preferred_leaf], False)"

definition derive_chain_for_candidate :: "menu_node list \<Rightarrow> menu_node \<Rightarrow> string list \<times> bool" where
  "derive_chain_for_candidate nodes candidate =
     (case lineage_of nodes [mn_id candidate] [candidate] candidate of
        None \<Rightarrow> derive_chain_from_depth_fallback candidate
      | Some lineage \<Rightarrow>
          if mn_depth (hd lineage) \<noteq> 0 \<or> \<not> depth_continuous lineage
          then (if mn_parent_id candidate = None then derive_chain_from_depth_fallback candidate
                else ([label_text candidate], False))
          else (map label_text lineage, True))"

subsection \<open>The chain of a page\<close>

definition child_count :: "menu_node list \<Rightarrow> menu_node \<Rightarrow> nat" where
  "child_count nodes node = length (filter (\<lambda>m. mn_parent_id m = Some (mn_id node)) nodes)"

definition candidate_order :: "string \<Rightarrow> menu_node \<Rightarrow> int \<times> int \<times> int \<times> string \<times> string" where
  "candidate_order route_path node =
     (if route_matches (mn_route_path node) route_path then 0 else 1, - mn_depth node, mn_sort_order node,
      label_text node, uuid_str (mn_id node))"

text \<open>The signatures of the candidates that have a chain, each once.\<close>

definition route_signatures :: "menu_node list \<Rightarrow> menu_node list \<Rightarrow> (string list \<times> bool) list" where
  "route_signatures nodes candidates =
     remdups (filter (\<lambda>(chain, whole). chain \<noteq> []) (map (derive_chain_for_candidate nodes) candidates))"

definition candidate_signatures :: "menu_node list \<Rightarrow> menu_node list \<Rightarrow> (string \<times> string list \<times> bool) list" where
  "candidate_signatures nodes candidates =
     remdups (filter (\<lambda>(label, chain, whole). chain \<noteq> [])
       (map (\<lambda>n. (label_text n, derive_chain_for_candidate nodes n)) candidates))"

definition derive_menu_chain :: "menu_node list \<Rightarrow> string \<Rightarrow> string list \<times> bool" where
  "derive_menu_chain menus route_path =
     (let labeled = filter (\<lambda>n. label_text n \<noteq> []) menus;
          leaves = filter (\<lambda>n. child_count labeled n = 0) labeled;
          leaf_candidates = (if leaves = [] then labeled else leaves);
          matching = filter (\<lambda>n. route_matches (mn_route_path n) route_path) labeled
      in if labeled = [] then ([], False)
         else if matching \<noteq> [] \<and> 1 < length (route_signatures labeled matching) then ([], False)
         else if matching = [] \<and> 1 < length (candidate_signatures labeled leaf_candidates) then ([], False)
         else (let pool = (if matching \<noteq> [] then matching else leaf_candidates);
                   ordered = sort_key (candidate_order route_path) pool
               in case List.find (\<lambda>r. fst r \<noteq> []) (map (derive_chain_for_candidate labeled) ordered) of
                    None \<Rightarrow> ([], False)
                  | Some r \<Rightarrow> r))"

definition format_chain :: "string list \<Rightarrow> string option" where
  "format_chain chain = (if chain = [] then None else Some (join_with '' -> '' chain))"

subsection \<open>The aliases of a page\<close>

fun dedupe_drafts :: "navigation_alias_draft list \<Rightarrow> navigation_alias_draft list \<Rightarrow> navigation_alias_draft list" where
  "dedupe_drafts deduped [] = deduped"
| "dedupe_drafts deduped (d # ds) =
     (if d \<in> set deduped then dedupe_drafts deduped ds else dedupe_drafts (deduped @ [d]) ds)"

definition build_navigation_aliases ::
  "string option \<Rightarrow> string \<Rightarrow> menu_node list \<Rightarrow> navigation_alias_draft list" where
  "build_navigation_aliases page_title route_path menu_topology =
     (let (chain, chain_complete) = derive_menu_chain menu_topology route_path;
          leaf = (if chain = [] then None else Some (last chain));
          chain_text = format_chain chain
      in dedupe_drafts []
        ((case page_title of
            None \<Rightarrow> []
          | Some title \<Rightarrow>
              if title = [] then []
              else [\<lparr>nd_alias_type = ''page_title'', nd_alias_text = title, nd_leaf_text = leaf,
                     nd_display_chain = chain_text, nd_chain_complete = chain_complete\<rparr>]) @
         (case leaf of
            None \<Rightarrow> []
          | Some l \<Rightarrow> [\<lparr>nd_alias_type = ''menu_leaf'', nd_alias_text = l, nd_leaf_text = leaf,
                      nd_display_chain = chain_text, nd_chain_complete = chain_complete\<rparr>]) @
         (case chain_text of
            None \<Rightarrow> []
          | Some t \<Rightarrow>
              if chain_complete \<and> t \<noteq> []
              then [\<lparr>nd_alias_type = ''menu_chain'', nd_alias_text = t, nd_leaf_text = leaf,
                     nd_display_chain = Some t, nd_chain_complete = True\<rparr>]
              else [])))"

subsection \<open>What a complete chain is\<close>

text \<open>A path down the menu: it starts at a root and every node is the parent of the next, one level up.\<close>

fun descends :: "menu_node list \<Rightarrow> bool" where
  "descends [] = True"
| "descends [n] = True"
| "descends (p # c # ns) =
     (mn_parent_id c = Some (mn_id p) \<and> mn_depth c = mn_depth p + 1 \<and> descends (c # ns))"

definition menu_path :: "menu_node list \<Rightarrow> menu_node list \<Rightarrow> bool" where
  "menu_path menus path \<longleftrightarrow>
     path \<noteq> [] \<and> set path \<subseteq> set menus \<and> descends path \<and>
     mn_parent_id (hd path) = None \<and> mn_depth (hd path) = 0"

fun linked :: "menu_node list \<Rightarrow> bool" where
  "linked [] = True"
| "linked [n] = True"
| "linked (p # c # ns) = (mn_parent_id c = Some (mn_id p) \<and> linked (c # ns))"

lemma linked_depths: "linked ns \<Longrightarrow> depth_continuous ns \<Longrightarrow> descends ns"
  by (induction ns rule: linked.induct) (simp_all add: depth_continuous_def)

lemma linked_Cons: "linked (n # ns) \<longleftrightarrow> ns = [] \<or> mn_parent_id (hd ns) = Some (mn_id n) \<and> linked ns"
  by (cases ns) simp_all

lemma lineage_of_linked:
  assumes "lineage_of nodes visited lineage current = Some path"
    and "lineage = current # rest" "linked lineage" "set lineage \<subseteq> set nodes"
  shows "path \<noteq> [] \<and> linked path \<and> set path \<subseteq> set nodes \<and> mn_parent_id (hd path) = None \<and>
         last path = last lineage"
  using assms
proof (induction nodes visited lineage current arbitrary: rest rule: lineage_of.induct)
  case (1 nodes visited lineage current)
  show ?case
  proof (cases "mn_parent_id current")
    case None
    then show ?thesis using "1.prems" by (auto simp: lineage_of.simps [of nodes visited])
  next
    case (Some pid)
    then obtain parent where parent: "node_by_id nodes pid = Some parent" "mn_id parent \<notin> set visited"
        "lineage_of nodes (mn_id parent # visited) (parent # lineage) parent = Some path"
      using "1.prems"(1) by (auto simp: lineage_of.simps [of nodes visited] split: option.splits if_splits)
    have "linked (parent # lineage)" "set (parent # lineage) \<subseteq> set nodes"
      using node_by_id_Some [OF parent(1)] Some "1.prems" by (auto simp: linked_Cons)
    from "1.IH" [OF Some parent(1,2) parent(3) refl this] show ?thesis
      using "1.prems"(2) by simp
  qed
qed

lemma complete_candidate:
  assumes "derive_chain_for_candidate nodes n = (chain, True)" "n \<in> set nodes"
  shows "\<exists>path. menu_path nodes path \<and> last path = n \<and> chain = map label_text path"
proof -
  obtain path where path: "lineage_of nodes [mn_id n] [n] n = Some path" "mn_depth (hd path) = 0"
      "depth_continuous path" "chain = map label_text path"
    using assms(1) by (auto simp: derive_chain_for_candidate_def derive_chain_from_depth_fallback_def
        split: option.splits if_splits)
  from lineage_of_linked [OF path(1) refl] assms(2)
  have "path \<noteq> [] \<and> linked path \<and> set path \<subseteq> set nodes \<and> mn_parent_id (hd path) = None \<and> last path = n"
    by simp
  then show ?thesis using path linked_depths by (auto simp: menu_path_def)
qed

lemma found_in: "List.find P xs = Some x \<Longrightarrow> x \<in> set xs"
  by (induction xs) (auto split: if_splits)

lemma guarded_find:
  assumes "(if a then ([], False) else if b then ([], False) else if c then ([], False)
    else (case f of None \<Rightarrow> ([], False) | Some r \<Rightarrow> r)) = (chain, whole)" "chain \<noteq> []"
  shows "f = Some (chain, whole)"
  using assms by (auto split: if_splits option.splits)

lemma derived_from_candidate:
  assumes "derive_menu_chain menus route = (chain, whole)" "chain \<noteq> []"
  shows "\<exists>n. n \<in> set menus \<and> label_text n \<noteq> [] \<and>
           derive_chain_for_candidate (filter (\<lambda>n. label_text n \<noteq> []) menus) n = (chain, whole) \<and>
           ((\<exists>m \<in> set menus. label_text m \<noteq> [] \<and> route_matches (mn_route_path m) route) \<longrightarrow>
              route_matches (mn_route_path n) route)"
proof -
  let ?labeled = "filter (\<lambda>n. label_text n \<noteq> []) menus"
  let ?matching = "filter (\<lambda>n. route_matches (mn_route_path n) route) ?labeled"
  let ?leaves = "filter (\<lambda>n. child_count ?labeled n = 0) ?labeled"
  let ?pool = "if ?matching \<noteq> [] then ?matching else if ?leaves = [] then ?labeled else ?leaves"
  have "List.find (\<lambda>r. fst r \<noteq> [])
      (map (derive_chain_for_candidate ?labeled) (sort_key (candidate_order route) ?pool)) = Some (chain, whole)"
    by (rule guarded_find [OF assms(1) [unfolded derive_menu_chain_def Let_def] assms(2)])
  then have "(chain, whole) \<in> set (map (derive_chain_for_candidate ?labeled) (sort_key (candidate_order route) ?pool))"
    by (rule found_in)
  then have "(chain, whole) \<in> derive_chain_for_candidate ?labeled ` set ?pool"
    by (simp only: set_map set_sort)
  then obtain n where n: "n \<in> set ?pool" "derive_chain_for_candidate ?labeled n = (chain, whole)"
    by (elim imageE) simp
  then show ?thesis
    by (intro exI [of _ n]) (auto split: if_splits simp: filter_empty_conv)
qed

text \<open>C32: the chain of an alias that is marked complete is the labels of a path down the menu of the page,
  from a root through consecutive levels, each node the parent of the next; it ends at an entry of
  the page's own route whenever the menu has one.\<close>

theorem complete_chain_is_menu_path:
  assumes "derive_menu_chain menus route = (chain, True)" "chain \<noteq> []"
  shows "\<exists>path. menu_path menus path \<and> chain = map label_text path \<and>
           ((\<exists>m \<in> set menus. label_text m \<noteq> [] \<and> route_matches (mn_route_path m) route) \<longrightarrow>
              route_matches (mn_route_path (last path)) route)"
proof -
  obtain n where n: "n \<in> set menus" "label_text n \<noteq> []"
      "derive_chain_for_candidate (filter (\<lambda>n. label_text n \<noteq> []) menus) n = (chain, True)"
      "(\<exists>m \<in> set menus. label_text m \<noteq> [] \<and> route_matches (mn_route_path m) route) \<longrightarrow>
        route_matches (mn_route_path n) route"
    using derived_from_candidate [OF assms] by blast
  obtain path where "menu_path (filter (\<lambda>n. label_text n \<noteq> []) menus) path" "last path = n"
      "chain = map label_text path"
    using complete_candidate [OF n(3)] n(1,2) by auto
  then show ?thesis using n(4) by (intro exI [of _ path]) (auto simp: menu_path_def)
qed

definition sample_menu :: "uuid \<Rightarrow> uuid option \<Rightarrow> string \<Rightarrow> int \<Rightarrow> menu_node" where
  "sample_menu i parent label d =
     \<lparr>mn_id = i, mn_system_id = 1, mn_snapshot_id = 1, mn_parent_id = parent, mn_page_id = None,
      mn_label = label, mn_route_path = Some ''/a'', mn_depth = d, mn_sort_order = 0,
      mn_playwright_locator = None, mn_discovery_sources = None, mn_entry_candidates = None,
      mn_context_constraints = None\<rparr>"

theorem complete_chain_is_menu_path_witness:
  "\<exists>path. menu_path [sample_menu 1 None ''Root'' 0] path \<and> [''Root''] = map label_text path"
proof -
  have "label_text (sample_menu 1 None ''Root'' 0) = ''Root''"
    by (simp add: label_text_def sample_menu_def strip_graphic graphic_def)
  then have "derive_menu_chain [sample_menu 1 None ''Root'' 0] ''/a'' = ([''Root''], True)"
    by (simp add: derive_menu_chain_def Let_def route_matches_def route_signatures_def lineage_of.simps
        derive_chain_for_candidate_def depth_continuous_def sample_menu_def)
  from complete_chain_is_menu_path [OF this] show ?thesis by auto
qed

end
