(* ===== verification/CompileService.thy ===== *)
theory CompileService
  imports CompileElements NavigationAliases SnapshotSwitch CompileJob
begin

section \<open>The asset compiler service\<close>

text \<open>
  asset\_compiler/service.py, \<open>compile_snapshot\<close> and its queries: a promoted snapshot becomes page
  assets, checks, module plans and aliases; then what the snapshot no longer supports is retired and
  the aliases and published jobs to switch off and on again are chosen. Keys of new rows and clock
  readings are in \<open>compile_env\<close>, by the page (and check) they are for. Queries see what the session
  holds, as they flush it first. The changes pending when an exception is raised are left out: every
  caller rolls back.
\<close>

record compile_env =
  ce_switch :: switch_env
  ce_set_order :: "string list \<Rightarrow> string list"
  ce_asset_id :: "uuid \<Rightarrow> uuid"
  ce_asset_snapshot_id :: "uuid \<Rightarrow> uuid"
  ce_plan_id :: "uuid \<Rightarrow> string \<Rightarrow> uuid"
  ce_check_id :: "uuid \<Rightarrow> string \<Rightarrow> uuid"
  ce_intent_id :: "uuid \<Rightarrow> string \<Rightarrow> nat \<Rightarrow> uuid"
  ce_navigation_id :: "uuid \<Rightarrow> nat \<Rightarrow> uuid"
  ce_audit_id :: uuid
  ce_disabled_at :: "uuid \<Rightarrow> datetime"
  ce_now :: datetime
  ce_audit_at :: datetime

text \<open>What the loop over the pages accumulates.\<close>

record compile_state =
  ks_db :: db
  ks_assets_created :: int
  ks_assets_updated :: int
  ks_checks_created :: int
  ks_checks_updated :: int
  ks_page_asset_ids :: "uuid list"
  ks_page_check_ids :: "uuid list"
  ks_drift_states :: "asset_status list"
  ks_reactivated_check_ids :: "uuid list"

subsection \<open>Queries\<close>

definition ordered_pages :: "uuid \<Rightarrow> db \<Rightarrow> page list" where
  "ordered_pages sid d =
     sort_key (\<lambda>p. (pg_route_path p, uint (pg_id p))) (filter (\<lambda>p. pg_snapshot_id p = Some sid) (pages d))"

definition snapshot_menu_rows :: "uuid \<Rightarrow> db \<Rightarrow> menu_node list" where
  "snapshot_menu_rows sid d =
     sort_key (\<lambda>m. (mn_depth m, mn_sort_order m, uint (mn_id m)))
       (filter (\<lambda>m. mn_snapshot_id m = sid) (menu_nodes d))"

definition snapshot_element_rows :: "uuid \<Rightarrow> db \<Rightarrow> page_element list" where
  "snapshot_element_rows sid d =
     sort_key (\<lambda>e. (uint (pe_page_id e), uint (pe_id e)))
       (filter (\<lambda>e. pe_snapshot_id e = sid) (page_elements d))"

definition find_page_asset :: "uuid \<Rightarrow> string \<Rightarrow> db \<Rightarrow> page_asset option" where
  "find_page_asset system_id asset_key d =
     first_by (\<lambda>a. uint (pa_id a))
       (filter (\<lambda>a. pa_system_id a = system_id \<and> pa_asset_key a = asset_key) (page_assets d))"

definition find_page_check :: "uuid \<Rightarrow> string \<Rightarrow> db \<Rightarrow> page_check option" where
  "find_page_check page_asset_id check_code d =
     first_by (\<lambda>c. uint (pc_id c))
       (filter (\<lambda>c. pc_page_asset_id c = page_asset_id \<and> pc_check_code c = check_code) (page_checks d))"

definition find_latest_asset_snapshot :: "uuid \<Rightarrow> db \<Rightarrow> asset_snapshot option" where
  "find_latest_asset_snapshot page_asset_id d =
     first_by (\<lambda>s. - uint (as_id s)) (filter (\<lambda>s. as_page_asset_id s = page_asset_id) (asset_snapshots d))"

definition load_active_page_assets :: "uuid \<Rightarrow> db \<Rightarrow> page_asset list" where
  "load_active_page_assets system_id d =
     sort_key (\<lambda>a. uint (pa_id a))
       (filter (\<lambda>a. pa_system_id a = system_id \<and> pa_lifecycle_status a = LifecycleActive) (page_assets d))"

definition load_active_page_checks :: "uuid list \<Rightarrow> db \<Rightarrow> page_check list" where
  "load_active_page_checks page_asset_ids d =
     sort_key (\<lambda>c. uint (pc_id c))
       (filter (\<lambda>c. pc_page_asset_id c \<in> set page_asset_ids \<and> pc_lifecycle_status c = LifecycleActive)
          (page_checks d))"

definition load_pages_by_ids :: "uuid list \<Rightarrow> db \<Rightarrow> page list" where
  "load_pages_by_ids page_ids d =
     sort_key (\<lambda>p. uint (pg_id p)) (filter (\<lambda>p. pg_id p \<in> set page_ids) (pages d))"

definition load_module_plans :: "uuid list \<Rightarrow> db \<Rightarrow> module_plan list" where
  "load_module_plans module_plan_ids d =
     sort_key (\<lambda>m. uint (mp_id m)) (filter (\<lambda>m. mp_id m \<in> set module_plan_ids) (module_plans d))"

subsection \<open>Menus of a page\<close>

definition group_by_page :: "('r \<Rightarrow> 'k) \<Rightarrow> 'r list \<Rightarrow> ('k \<times> 'r list) list" where
  "group_by_page page_id records = group_by (map (\<lambda>r. (page_id r, r)) records)"

lemma unvisited_mono:
  "length (filter (\<lambda>m. mn_id m \<notin> set (i # visited)) nodes) \<le> length (filter (\<lambda>m. mn_id m \<notin> set visited) nodes)"
  by (induction nodes) auto

text \<open>\<open>_append_menu_with_ancestors\<close>: the loop puts the ancestors in front, so no reversal is left.\<close>

function menu_lineage :: "menu_node list \<Rightarrow> uuid list \<Rightarrow> menu_node list \<Rightarrow> menu_node \<Rightarrow> menu_node list" where
  "menu_lineage menus visited lineage current =
     (if mn_id current \<in> set visited then lineage
      else case mn_parent_id current of
             None \<Rightarrow> current # lineage
           | Some pid \<Rightarrow>
               (case node_by_id menus pid of
                  None \<Rightarrow> current # lineage
                | Some parent \<Rightarrow> menu_lineage menus (mn_id current # visited) (current # lineage) parent))"
  by pat_completeness auto

termination
proof (relation "measures [\<lambda>(menus, visited, lineage, current).
      length (filter (\<lambda>m. mn_id m \<notin> set visited) menus),
      \<lambda>(menus, visited, lineage, current). if current \<in> set menus then 0 else 1]", goal_cases)
  case (2 menus visited lineage current pid parent)
  then have "parent \<in> set menus" using node_by_id_Some by blast
  then show ?case
    using 2 unvisited_decrease [of current menus visited] unvisited_mono [of "mn_id current" visited menus]
    by (auto simp del: set_simps simp: le_less)
qed simp

declare menu_lineage.simps [simp del]

definition append_menu_with_ancestors ::
  "menu_node list \<Rightarrow> menu_node \<Rightarrow> menu_node list \<Rightarrow> menu_node list" where
  "append_menu_with_ancestors menus menu topology =
     fold (\<lambda>n t. if mn_id n \<in> mn_id ` set t then t else t @ [n]) (menu_lineage menus [] [] menu) topology"

definition build_navigation_menu_topology :: "uuid \<Rightarrow> menu_node list \<Rightarrow> menu_node list" where
  "build_navigation_menu_topology page_id menus =
     fold (append_menu_with_ancestors menus) (filter (\<lambda>m. mn_page_id m = Some page_id) menus) []"

subsection \<open>The asset of a page\<close>

definition upd_asset :: "uuid \<Rightarrow> (page_asset \<Rightarrow> page_asset) \<Rightarrow> db \<Rightarrow> db" where
  "upd_asset i f d = d\<lparr>page_assets := upd_row pa_id i f (page_assets d)\<rparr>"

definition upd_check :: "uuid \<Rightarrow> (page_check \<Rightarrow> page_check) \<Rightarrow> db \<Rightarrow> db" where
  "upd_check i f d = d\<lparr>page_checks := upd_row pc_id i f (page_checks d)\<rparr>"

definition new_page_asset :: "compile_env \<Rightarrow> system_row \<Rightarrow> crawl_snapshot \<Rightarrow> page \<Rightarrow> string \<Rightarrow> page_asset" where
  "new_page_asset env system snapshot page_row asset_key =
     \<lparr>pa_id = ce_asset_id env (pg_id page_row), pa_system_id = sys_id system, pa_page_id = pg_id page_row,
      pa_asset_key = asset_key, pa_asset_version = build_asset_version snapshot, pa_status = SAFE,
      pa_drift_status = SAFE, pa_lifecycle_status = LifecycleActive, pa_retired_reason = None,
      pa_retired_at = None, pa_retired_by_snapshot_id = None,
      pa_compiled_from_snapshot_id = Some (cs_id snapshot), pa_last_verified_at = None\<rparr>"

definition refresh_asset :: "crawl_snapshot \<Rightarrow> page \<Rightarrow> page_asset \<Rightarrow> page_asset" where
  "refresh_asset snapshot page_row a =
     a\<lparr>pa_page_id := pg_id page_row, pa_asset_version := build_asset_version snapshot,
       pa_compiled_from_snapshot_id := Some (cs_id snapshot)\<rparr>"

text \<open>The drift status, and the way back to life of a retired asset.\<close>

definition drift_asset :: "bool \<Rightarrow> asset_status \<Rightarrow> page_asset \<Rightarrow> page_asset" where
  "drift_asset high_quality st a =
     (let a' = a\<lparr>pa_status := st, pa_drift_status := st\<rparr>
      in if high_quality \<and> pa_lifecycle_status a \<noteq> LifecycleActive
         then a'\<lparr>pa_lifecycle_status := LifecycleActive, pa_retired_reason := None, pa_retired_at := None,
                 pa_retired_by_snapshot_id := None\<rparr>
         else a')"

definition new_asset_snapshot ::
  "compile_env \<Rightarrow> crawl_snapshot \<Rightarrow> page \<Rightarrow> uuid \<Rightarrow> pydict \<Rightarrow> fingerprint_diff \<Rightarrow> asset_snapshot" where
  "new_asset_snapshot env snapshot page_row asset_id fingerprint diff =
     \<lparr>as_id = ce_asset_snapshot_id env (pg_id page_row), as_page_asset_id = asset_id,
      as_crawl_snapshot_id = cs_id snapshot, as_asset_version = build_asset_version snapshot,
      as_structure_hash = py_str (dget fingerprint ''structure_hash''),
      as_navigation_hash = py_str (dget fingerprint ''navigation_hash''),
      as_key_locator_hash = py_str (dget fingerprint ''key_locator_hash''),
      as_semantic_summary_hash = py_str (dget fingerprint ''semantic_summary_hash''),
      as_diff_score_vs_previous = fd_score diff, as_status = fd_status diff\<rparr>"

definition page_payload :: "page \<Rightarrow> menu_node list \<Rightarrow> pydict list \<Rightarrow> pydict" where
  "page_payload page_row page_menus normalized_elements =
     [(''page'', PDict
        [(''route_path'', PStr (pg_route_path page_row)), (''page_title'', of_opt_str (pg_page_title page_row)),
         (''page_summary'', of_opt_str (pg_page_summary page_row))]),
      (''menus'', PList (map (\<lambda>m. PDict
        [(''label'', PStr (mn_label m)), (''route_path'', of_opt_str (mn_route_path m)),
         (''depth'', PInt (mn_depth m)), (''sort_order'', PInt (mn_sort_order m))]) page_menus)),
      (''elements'', PList (map PDict normalized_elements))]"

text \<open>The asset is found by its key or added, then gets its drift against its last snapshot.\<close>

definition upsert_asset ::
  "compile_env \<Rightarrow> system_row \<Rightarrow> crawl_snapshot \<Rightarrow> page \<Rightarrow> db \<Rightarrow> uuid \<times> bool \<times> db" where
  "upsert_asset env system snapshot page_row d =
     (let asset_key = build_asset_key (sys_code system) (pg_route_path page_row) (pg_page_title page_row)
      in case find_page_asset (sys_id system) asset_key d of
           None \<Rightarrow>
             (let a = new_page_asset env system snapshot page_row asset_key
              in (pa_id a, True, d\<lparr>page_assets := page_assets d @ [a]\<rparr>))
         | Some a \<Rightarrow> (pa_id a, False, upd_asset (pa_id a) (refresh_asset snapshot page_row) d))"

definition record_drift ::
  "compile_env \<Rightarrow> crawl_snapshot \<Rightarrow> page \<Rightarrow> uuid \<Rightarrow> pydict \<Rightarrow> db \<Rightarrow> asset_status \<times> db" where
  "record_drift env snapshot page_row asset_id fingerprint d =
     (let diff = compare_fingerprints (ce_set_order env)
                   (previous_snapshot_to_dict (find_latest_asset_snapshot asset_id d)) fingerprint;
          d1 = upd_asset asset_id (drift_asset (is_high_quality_full_snapshot snapshot) (fd_status diff)) d
      in (fd_status diff,
          d1\<lparr>asset_snapshots := asset_snapshots d1 @
               [new_asset_snapshot env snapshot page_row asset_id fingerprint diff]\<rparr>))"

subsection \<open>The checks of a page\<close>

definition ensure_intent_alias ::
  "compile_env \<Rightarrow> page \<Rightarrow> string \<Rightarrow> string \<Rightarrow> nat \<times> string \<Rightarrow> db \<Rightarrow> db" where
  "ensure_intent_alias env page_row asset_key check_code candidate d =
     (let (n, system_alias) = candidate;
          page_alias = (case pg_page_title page_row of
            None \<Rightarrow> pg_route_path page_row
          | Some t \<Rightarrow> if t = [] then pg_route_path page_row else t)
      in case List.find (\<lambda>a. ia_system_alias a = system_alias \<and> ia_page_alias a = Some page_alias \<and>
                ia_check_alias a = check_code \<and> ia_asset_key a = asset_key) (intent_aliases d) of
           Some existing \<Rightarrow>
             upd_alias (ia_id existing)
               (\<lambda>a. a\<lparr>ia_route_hint := Some (pg_route_path page_row), ia_confidence := 1,
                      ia_source := ''asset_compiler''\<rparr>) d
         | None \<Rightarrow>
             d\<lparr>intent_aliases := intent_aliases d @
               [\<lparr>ia_id = ce_intent_id env (pg_id page_row) check_code n, ia_system_alias = system_alias,
                 ia_page_alias = Some page_alias, ia_check_alias = check_code,
                 ia_route_hint = Some (pg_route_path page_row), ia_asset_key = asset_key, ia_confidence = 1,
                 ia_source = ''asset_compiler'', ia_is_active = True, ia_disabled_reason = None,
                 ia_disabled_at = None, ia_disabled_by_snapshot_id = None\<rparr>]\<rparr>)"

definition ensure_intent_aliases ::
  "compile_env \<Rightarrow> system_row \<Rightarrow> page \<Rightarrow> string \<Rightarrow> string \<Rightarrow> db \<Rightarrow> db" where
  "ensure_intent_aliases env system page_row asset_key check_code d =
     fold (ensure_intent_alias env page_row asset_key check_code)
       [(0, sys_code system), (1, sys_name system)] d"

definition new_page_check :: "compile_env \<Rightarrow> page \<Rightarrow> uuid \<Rightarrow> check_definition \<Rightarrow> page_check" where
  "new_page_check env page_row asset_id c =
     \<lparr>pc_id = ce_check_id env (pg_id page_row) (cd_check_code c), pc_page_asset_id = asset_id,
      pc_check_code = cd_check_code c, pc_goal = cd_goal c, pc_lifecycle_status = LifecycleActive,
      pc_retired_reason = None, pc_retired_at = None, pc_retired_by_snapshot_id = None,
      pc_input_schema = None, pc_assertion_schema = None, pc_module_plan_id = None,
      pc_blocking_dependency_json = None, pc_success_rate = None, pc_last_verified_at = None\<rparr>"

text \<open>\<open>{**input_schema, "state_signature": signature}\<close> is \<open>dset\<close>.\<close>

definition refresh_check ::
  "check_definition \<Rightarrow> string \<Rightarrow> uuid \<Rightarrow> pydict \<Rightarrow> page_check \<Rightarrow> page_check" where
  "refresh_check c check_state_signature plan_id dependencies row =
     row\<lparr>pc_goal := cd_goal c,
         pc_input_schema := Some (dset ''state_signature'' (PStr check_state_signature)
           (case cd_input_schema c of None \<Rightarrow> [] | Some i \<Rightarrow> i)),
         pc_assertion_schema := cd_assertion_schema c,
         pc_module_plan_id := Some plan_id,
         pc_blocking_dependency_json := Some dependencies\<rparr>"

definition reactivate_check :: "page_check \<Rightarrow> page_check" where
  "reactivate_check row =
     row\<lparr>pc_lifecycle_status := LifecycleActive, pc_retired_reason := None, pc_retired_at := None,
         pc_retired_by_snapshot_id := None\<rparr>"

text \<open>What the compilation of one page's checks shares.\<close>

record page_frame =
  pf_system :: system_row
  pf_snapshot :: crawl_snapshot
  pf_page :: page
  pf_asset_id :: uuid
  pf_asset_key :: string
  pf_default_state :: string
  pf_elements :: "pydict list"
  pf_context :: pydict

definition upsert_check ::
  "compile_env \<Rightarrow> page_frame \<Rightarrow> check_definition \<Rightarrow> db \<Rightarrow> uuid \<times> bool \<times> db" where
  "upsert_check env f c d =
     (case find_page_check (pf_asset_id f) (cd_check_code c) d of
        None \<Rightarrow>
          (let row = new_page_check env (pf_page f) (pf_asset_id f) c
           in (pc_id row, True, d\<lparr>page_checks := page_checks d @ [row]\<rparr>))
      | Some row \<Rightarrow> (pc_id row, False, d))"

definition check_is_retired :: "uuid \<Rightarrow> db \<Rightarrow> bool" where
  "check_is_retired check_id d =
     (case find_row pc_id check_id (page_checks d) of
        None \<Rightarrow> False
      | Some row \<Rightarrow> pc_lifecycle_status row \<noteq> LifecycleActive)"

definition signature_or :: "string \<Rightarrow> string option \<Rightarrow> string" where
  "signature_or default_signature v = (case v of None \<Rightarrow> default_signature | Some s \<Rightarrow> if s = [] then default_signature else s)"

definition check_plan :: "compile_env \<Rightarrow> page_frame \<Rightarrow> check_definition \<Rightarrow> string + module_plan" where
  "check_plan env f c =
     (let check_state_signature = signature_or (pf_default_state f) (cd_state_signature c);
          bundle = select_locator_bundle_for_check (cd_check_code c) check_state_signature
                     (pf_default_state f) (pf_elements f)
      in map_sum id (\<lambda>draft.
           \<lparr>mp_id = ce_plan_id env (pg_id (pf_page f)) (cd_check_code c), mp_page_asset_id = pf_asset_id f,
            mp_check_code = cd_check_code c, mp_plan_version = pd_plan_version draft,
            mp_steps_json = pd_steps_json draft\<rparr>)
         (build_module_plan (cd_check_code c) (pf_context f) (Some check_state_signature)
           (Some [(''candidates'', PList (map PDict bundle))])))"

definition compile_check ::
  "compile_env \<Rightarrow> page_frame \<Rightarrow> check_definition \<Rightarrow> compile_state \<Rightarrow> string + compile_state" where
  "compile_check env f c ks =
     (case check_plan env f c of
        Inl e \<Rightarrow> Inl e
      | Inr plan \<Rightarrow>
          (let check_state_signature = signature_or (pf_default_state f) (cd_state_signature c);
               d1 = (ks_db ks)\<lparr>module_plans := module_plans (ks_db ks) @ [plan]\<rparr>;
               (check_id, created, d2) = upsert_check env f c d1
           in case build_blocking_dependency_json (Some (map PDict (mp_steps_json plan)))
                     (cd_assertion_schema c) of
                Inl e \<Rightarrow> Inl e
              | Inr dependencies \<Rightarrow>
                  (let d3 = upd_check check_id
                              (refresh_check c check_state_signature (mp_id plan) dependencies) d2;
                       revive = is_high_quality_full_snapshot (pf_snapshot f) \<and> check_is_retired check_id d3;
                       d4 = (if revive then upd_check check_id reactivate_check d3 else d3);
                       d5 = ensure_intent_aliases env (pf_system f) (pf_page f) (pf_asset_key f)
                              (cd_check_code c) d4
                   in Inr (ks\<lparr>ks_db := d5,
                         ks_reactivated_check_ids :=
                           ks_reactivated_check_ids ks @ (if revive then [check_id] else []),
                         ks_page_check_ids := ks_page_check_ids ks @ [check_id],
                         ks_checks_created := ks_checks_created ks + (if created then 1 else 0),
                         ks_checks_updated := ks_checks_updated ks + (if created then 0 else 1)\<rparr>))))"

subsection \<open>A page\<close>

definition replace_navigation_aliases ::
  "compile_env \<Rightarrow> uuid \<Rightarrow> uuid \<Rightarrow> uuid \<Rightarrow> uuid \<Rightarrow> navigation_alias_draft list \<Rightarrow> db \<Rightarrow> db" where
  "replace_navigation_aliases env page_id system_id page_asset_id snapshot_id drafts d =
     d\<lparr>page_navigation_aliases :=
         map (\<lambda>a. if na_page_asset_id a = page_asset_id \<and> na_is_active a
                  then a\<lparr>na_is_active := False, na_disabled_reason := Some ''recompiled'',
                         na_disabled_at := Some (ce_disabled_at env page_id),
                         na_disabled_by_snapshot_id := Some snapshot_id\<rparr>
                  else a) (page_navigation_aliases d) @
         map (\<lambda>(n, draft).
           \<lparr>na_id = ce_navigation_id env page_id n, na_system_id = system_id,
            na_page_asset_id = page_asset_id, na_alias_type = nd_alias_type draft,
            na_alias_text = nd_alias_text draft, na_leaf_text = nd_leaf_text draft,
            na_display_chain = nd_display_chain draft, na_chain_complete = nd_chain_complete draft,
            na_source = ''asset_compiler'', na_is_active = True, na_disabled_reason = None,
            na_disabled_at = None, na_disabled_by_snapshot_id = None\<rparr>) (enumerate 0 drafts)\<rparr>"

definition page_context ::
  "system_row \<Rightarrow> page \<Rightarrow> menu_node list \<Rightarrow> bool \<Rightarrow> string \<Rightarrow> pydict" where
  "page_context system page_row page_menus has_table default_state_signature =
     [(''system_code'', PStr (sys_code system)), (''page_title'', of_opt_str (pg_page_title page_row)),
      (''route_path'', PStr (pg_route_path page_row)),
      (''menu_chain'', texts (filter (\<lambda>l. l \<noteq> []) (map mn_label page_menus))),
      (''has_table'', PBool has_table), (''default_state_signature'', PStr default_state_signature)]"

definition page_checks_for :: "page \<Rightarrow> bool \<Rightarrow> string \<Rightarrow> pydict list \<Rightarrow> check_definition list" where
  "page_checks_for page_row has_table default_state_signature elements =
     build_standard_checks (pg_page_summary page_row) has_table
       (list_ex (\<lambda>e. suggests_create_action (Some (normalize_text (dget e ''element_text'')))) elements)
       (Some (collect_representative_states elements)) (Some default_state_signature)"

definition compile_page ::
  "compile_env \<Rightarrow> system_row \<Rightarrow> crawl_snapshot \<Rightarrow> menu_node list \<Rightarrow> page_element list \<Rightarrow> page \<Rightarrow>
    compile_state \<Rightarrow> string + compile_state" where
  "compile_page env system snapshot menus elements page_row ks =
     (let default_state_signature = build_default_state_signature (pg_route_path page_row);
          normalized_elements = map (\<lambda>e. build_normalized_element e default_state_signature)
            (values_at (group_by_page pe_page_id elements) (pg_id page_row));
          page_menus = values_at (group_by_page mn_page_id menus) (Some (pg_id page_row));
          fingerprint = build_page_fingerprint (page_payload page_row page_menus normalized_elements);
          (asset_id, created, d1) = upsert_asset env system snapshot page_row (ks_db ks);
          (st, d2) = record_drift env snapshot page_row asset_id fingerprint d1;
          has_table = list_ex (\<lambda>e. normalize_text (dget e ''element_type'') = ''table'') normalized_elements;
          frame = \<lparr>pf_system = system, pf_snapshot = snapshot, pf_page = page_row, pf_asset_id = asset_id,
                   pf_asset_key = build_asset_key (sys_code system) (pg_route_path page_row) (pg_page_title page_row),
                   pf_default_state = default_state_signature, pf_elements = normalized_elements,
                   pf_context = page_context system page_row page_menus has_table default_state_signature\<rparr>;
          ks1 = ks\<lparr>ks_db := d2, ks_drift_states := ks_drift_states ks @ [st],
                   ks_assets_updated := ks_assets_updated ks + (if created then 0 else 1)\<rparr>
      in case loop_raises (compile_check env frame)
                (page_checks_for page_row has_table default_state_signature normalized_elements) ks1 of
           Inl e \<Rightarrow> Inl e
         | Inr ks2 \<Rightarrow>
             (let drafts = build_navigation_aliases (pg_page_title page_row)
                     (normalize_route_path (pg_route_path page_row))
                     (build_navigation_menu_topology (pg_id page_row) menus)
              in Inr (ks2\<lparr>ks_db := replace_navigation_aliases env (pg_id page_row) (sys_id system) asset_id
                                    (cs_id snapshot) drafts (ks_db ks2),
                          ks_page_asset_ids := ks_page_asset_ids ks2 @ [asset_id],
                          ks_assets_created := ks_assets_created ks2 + (if created then 1 else 0)\<rparr>)))"

end
