(* ===== verification/CompileSnapshot.thy ===== *)
theory CompileSnapshot
  imports CompileService
begin

section \<open>Compiling a snapshot\<close>

text \<open>
  asset\_compiler/service.py: the second phase of \<open>compile_snapshot\<close> (what is retired, which aliases
  and published jobs are switched off and on again, the audit row, the result) and the whole
  operation. The loops over rows that are live objects read the current row by its key.
\<close>

subsection \<open>Aliases and published jobs\<close>

definition alias_targets :: "(string \<times> string) list \<Rightarrow> (string \<times> string) list" where
  "alias_targets targets = filter (\<lambda>(asset_key, check_code). asset_key \<noteq> [] \<and> check_code \<noteq> []) targets"

definition aliases_of :: "string list \<Rightarrow> bool \<Rightarrow> db \<Rightarrow> intent_alias list" where
  "aliases_of asset_keys active d =
     sort_key (\<lambda>a. uint (ia_id a))
       (filter (\<lambda>a. ia_asset_key a \<in> set asset_keys \<and> ia_is_active a = active) (intent_aliases d))"

definition query_alias_ids_to_disable :: "string list \<Rightarrow> (string \<times> string) list \<Rightarrow> db \<Rightarrow> uuid list" where
  "query_alias_ids_to_disable retired_asset_keys retired_check_targets d =
     (let targets = alias_targets retired_check_targets;
          candidate_asset_keys = retired_asset_keys @ map fst targets;
          retired_keys = filter (\<lambda>k. k \<noteq> []) retired_asset_keys
      in if candidate_asset_keys = [] then []
         else map ia_id (filter (\<lambda>a. ia_asset_key a \<in> set retired_keys \<or>
                                     (ia_asset_key a, ia_check_alias a) \<in> set targets)
                (aliases_of candidate_asset_keys True d)))"

definition is_system_disabled_alias :: "intent_alias \<Rightarrow> bool" where
  "is_system_disabled_alias a =
     (if ia_disabled_by_snapshot_id a = None then False
      else let reason = lower (normalize_opt (ia_disabled_reason a))
           in if reason = [] then False
              else prefix ''retired_'' reason \<or> prefix ''asset_retired'' reason \<or> sublist ''retired'' reason)"

definition query_alias_ids_to_enable :: "(string \<times> string) list \<Rightarrow> db \<Rightarrow> uuid list" where
  "query_alias_ids_to_enable reactivated_check_targets d =
     (let targets = alias_targets reactivated_check_targets
      in if targets = [] then []
         else map ia_id (filter (\<lambda>a. (ia_asset_key a, ia_check_alias a) \<in> set targets \<and>
                                     is_system_disabled_alias a)
                (aliases_of (map fst targets) False d)))"

definition jobs_of_checks :: "uuid list \<Rightarrow> published_job_state \<Rightarrow> db \<Rightarrow> published_job list" where
  "jobs_of_checks page_check_ids st d =
     sort_key (\<lambda>j. uint (pj_id j))
       (filter (\<lambda>j. pj_page_check_id j \<in> set page_check_ids \<and> pj_state j = st) (published_jobs d))"

definition query_published_jobs_to_pause :: "uuid list \<Rightarrow> db \<Rightarrow> published_job list" where
  "query_published_jobs_to_pause page_check_ids d = jobs_of_checks page_check_ids JobActive d"

definition is_system_paused_job :: "published_job \<Rightarrow> bool" where
  "is_system_paused_job j =
     (sublist ''retired'' (lower (normalize_opt (pj_pause_reason j))) \<and>
      (pj_paused_by_snapshot_id j \<noteq> None \<or> pj_paused_by_asset_id j \<noteq> None \<or>
       pj_paused_by_page_check_id j \<noteq> None))"

definition query_published_jobs_to_resume :: "uuid list \<Rightarrow> db \<Rightarrow> published_job list" where
  "query_published_jobs_to_resume page_check_ids d =
     filter is_system_paused_job (jobs_of_checks page_check_ids JobPaused d)"

subsection \<open>What is active\<close>

definition active_page_truths :: "page_asset list \<Rightarrow> db \<Rightarrow> active_page_truth list" where
  "active_page_truths active_assets d =
     (let pages_by_id = load_pages_by_ids (map pa_page_id active_assets) d
      in List.map_filter (\<lambda>row.
           case find_row pg_id (pa_page_id row) pages_by_id of
             None \<Rightarrow> None
           | Some p \<Rightarrow>
               (let route_path = normalize_route_path (pg_route_path p)
                in if route_path = [] then None
                   else Some \<lparr>apt_page_asset_id = pa_id row, apt_route_path = route_path\<rparr>)) active_assets)"

text \<open>A check without stored dependencies gets those of its module plan and assertions.\<close>

definition active_check_step ::
  "module_plan list \<Rightarrow> page_check \<Rightarrow> active_check_truth list \<times> db \<Rightarrow> string + active_check_truth list \<times> db" where
  "active_check_step plans row acc =
     (let (truths, d) = acc;
          truth = (\<lambda>dependencies. \<lparr>act_page_check_id = pc_id row, act_page_asset_id = pc_page_asset_id row,
                                   act_blocking_dependency_json = Some dependencies\<rparr>)
      in case pc_blocking_dependency_json row of
           Some dependencies \<Rightarrow> Inr (truths @ [truth dependencies], d)
         | None \<Rightarrow>
             (let steps = (case pc_module_plan_id row of
                  None \<Rightarrow> []
                | Some i \<Rightarrow> (case find_row mp_id i plans of None \<Rightarrow> [] | Some p \<Rightarrow> mp_steps_json p))
              in case build_blocking_dependency_json (Some (map PDict steps)) (pc_assertion_schema row) of
                   Inl e \<Rightarrow> Inl e
                 | Inr dependencies \<Rightarrow>
                     Inr (truths @ [truth dependencies],
                          upd_check (pc_id row) (\<lambda>c. c\<lparr>pc_blocking_dependency_json := Some dependencies\<rparr>) d)))"

definition previous_active_page_count :: "uuid \<Rightarrow> db \<Rightarrow> int" where
  "previous_active_page_count system_id d =
     (let active_assets = load_active_page_assets system_id d;
          pages_by_id = load_pages_by_ids (map pa_page_id active_assets) d
      in int (length (remdups (List.map_filter
           (\<lambda>row. map_option (\<lambda>p. normalize_route_path (pg_route_path p)) (find_row pg_id (pa_page_id row) pages_by_id))
           active_assets))))"

subsection \<open>Retirement\<close>

record retire_state =
  rt_db :: db
  rt_asset_ids :: "uuid list"
  rt_check_ids :: "uuid list"
  rt_reasons :: "(string \<times> uuid \<times> uuid list) list"

definition retire_asset_row :: "datetime \<Rightarrow> uuid \<Rightarrow> page_asset \<Rightarrow> page_asset" where
  "retire_asset_row now snapshot_id a =
     a\<lparr>pa_lifecycle_status := RetiredMissing, pa_retired_reason := Some ''missing_page'',
       pa_retired_at := Some now, pa_retired_by_snapshot_id := Some snapshot_id\<rparr>"

definition retire_check_row :: "datetime \<Rightarrow> uuid \<Rightarrow> string \<Rightarrow> page_check \<Rightarrow> page_check" where
  "retire_check_row now snapshot_id reason c =
     c\<lparr>pc_lifecycle_status := RetiredMissing, pc_retired_reason := Some reason,
       pc_retired_at := Some now, pc_retired_by_snapshot_id := Some snapshot_id\<rparr>"

text \<open>An active asset or check among those that were loaded.\<close>

definition retirable_asset :: "uuid list \<Rightarrow> uuid \<Rightarrow> db \<Rightarrow> bool" where
  "retirable_asset loaded i d =
     (i \<in> set loaded \<and> (case find_row pa_id i (page_assets d) of
        None \<Rightarrow> False | Some a \<Rightarrow> pa_lifecycle_status a = LifecycleActive))"

definition retirable_check :: "uuid list \<Rightarrow> uuid \<Rightarrow> db \<Rightarrow> bool" where
  "retirable_check loaded i d =
     (i \<in> set loaded \<and> (case find_row pc_id i (page_checks d) of
        None \<Rightarrow> False | Some c \<Rightarrow> pc_lifecycle_status c = LifecycleActive))"

definition retire_check_step ::
  "uuid list \<Rightarrow> datetime \<Rightarrow> uuid \<Rightarrow> string \<Rightarrow> uuid \<Rightarrow> uuid list \<times> db \<Rightarrow> uuid list \<times> db" where
  "retire_check_step loaded now snapshot_id reason check_id acc =
     (let (retired, d) = acc
      in if retirable_check loaded check_id d
         then (retired @ [check_id], upd_check check_id (retire_check_row now snapshot_id reason) d)
         else (retired, d))"

definition retire_step ::
  "uuid list \<Rightarrow> uuid list \<Rightarrow> datetime \<Rightarrow> uuid \<Rightarrow> retirement_decision \<Rightarrow> retire_state \<Rightarrow> retire_state" where
  "retire_step loaded_assets loaded_checks now snapshot_id decision rt =
     (let asset_id = rd_page_asset_id decision;
          retires = (rd_reason decision = ''missing_page'' \<and> retirable_asset loaded_assets asset_id (rt_db rt));
          d1 = (if retires then upd_asset asset_id (retire_asset_row now snapshot_id) (rt_db rt) else rt_db rt);
          (retired, d2) = fold (retire_check_step loaded_checks now snapshot_id (rd_reason decision))
                            (rd_page_check_ids decision) ([], d1)
      in \<lparr>rt_db = d2,
          rt_asset_ids = rt_asset_ids rt @ (if retires then [asset_id] else []),
          rt_check_ids = rt_check_ids rt @ retired,
          rt_reasons = rt_reasons rt @ [(rd_reason decision, asset_id, retired)]\<rparr>)"

subsection \<open>Reports\<close>

definition check_targets :: "page_asset list \<Rightarrow> page_check list \<Rightarrow> uuid list \<Rightarrow> (string \<times> string) list" where
  "check_targets active_assets active_checks check_ids =
     List.map_filter (\<lambda>i.
       case find_row pc_id i active_checks of
         None \<Rightarrow> None
       | Some c \<Rightarrow>
           map_option (\<lambda>a. (pa_asset_key a, pc_check_code c)) (find_row pa_id (pc_page_asset_id c) active_assets))
     check_ids"

definition reason_value :: "published_job list \<Rightarrow> string \<times> uuid \<times> uuid list \<Rightarrow> pydict" where
  "reason_value jobs_to_pause entry =
     (let (reason, asset_id, check_ids) = entry;
          job_ids = remdups (concat (map (\<lambda>c.
            map pj_id (filter (\<lambda>j. pj_page_check_id j = c) jobs_to_pause)) check_ids))
      in [(''reason'', PStr reason), (''page_asset_id'', PStr (uuid_str asset_id)),
          (''page_check_ids'', ids_value check_ids),
          (''published_job_ids'', ids_value (sort_key uuid_str job_ids))])"

definition warning_value :: "collapse_warning \<Rightarrow> pydict" where
  "warning_value w =
     [(''reason'', PStr ''quality_gate_blocked''), (''page_asset_id'', PNone), (''page_check_ids'', PList []),
      (''published_job_ids'', PList []),
      (''warning'', PDict
        [(''reason'', PStr (cwn_reason w)), (''current_page_count'', PInt (cwn_current_page_count w)),
         (''previous_active_page_count'', PInt (cwn_previous_active_page_count w)),
         (''collapse_ratio'', PFloat (cwn_collapse_ratio w)),
         (''collapse_ratio_threshold'', PFloat (cwn_collapse_ratio_threshold w))])]"

text \<open>The ids the second phase decides on.\<close>

record compile_decisions =
  dc_retired_assets :: "uuid list"
  dc_retired_checks :: "uuid list"
  dc_aliases_off :: "uuid list"
  dc_aliases_on :: "uuid list"
  dc_jobs_pause :: "published_job list"
  dc_jobs_resume :: "published_job list"

definition decide ::
  "page_asset list \<Rightarrow> page_check list \<Rightarrow> uuid list \<Rightarrow> retire_state \<Rightarrow> compile_decisions" where
  "decide active_assets active_checks reactivated rt =
     (let d = rt_db rt;
          retired_assets = dedupe_uuids (rt_asset_ids rt);
          retired_checks = dedupe_uuids (rt_check_ids rt);
          resume_checks = filter (\<lambda>i. i \<notin> set retired_checks) (dedupe_uuids reactivated);
          retired_keys = List.map_filter (\<lambda>i. map_option pa_asset_key (find_row pa_id i active_assets)) retired_assets
      in \<lparr>dc_retired_assets = retired_assets, dc_retired_checks = retired_checks,
          dc_aliases_off = query_alias_ids_to_disable retired_keys
            (check_targets active_assets active_checks retired_checks) d,
          dc_aliases_on = query_alias_ids_to_enable (check_targets active_assets active_checks resume_checks) d,
          dc_jobs_pause = query_published_jobs_to_pause retired_checks d,
          dc_jobs_resume = query_published_jobs_to_resume resume_checks d\<rparr>)"

definition retire_reasons :: "compile_decisions \<Rightarrow> quality_gate_decision \<Rightarrow> retire_state \<Rightarrow> pydict list" where
  "retire_reasons dc gate rt =
     map (reason_value (dc_jobs_pause dc)) (rt_reasons rt) @
     (case qg_warning_payload gate of None \<Rightarrow> [] | Some w \<Rightarrow> [warning_value w])"

definition new_audit :: "compile_env \<Rightarrow> uuid \<Rightarrow> compile_decisions \<Rightarrow> pydict list \<Rightarrow> asset_reconciliation_audit" where
  "new_audit env snapshot_id dc reasons =
     \<lparr>ra_id = ce_audit_id env, ra_snapshot_id = snapshot_id,
      ra_retired_asset_ids = map uuid_str (dc_retired_assets dc),
      ra_retired_check_ids = map uuid_str (dc_retired_checks dc),
      ra_disabled_alias_ids = map uuid_str (dc_aliases_off dc),
      ra_enabled_alias_ids = map uuid_str (dc_aliases_on dc),
      ra_retire_reasons = reasons,
      ra_paused_published_job_ids = map (uuid_str \<circ> pj_id) (dc_jobs_pause dc),
      ra_resumed_published_job_ids = map (uuid_str \<circ> pj_id) (dc_jobs_resume dc),
      ra_created_at = ce_audit_at env\<rparr>"

definition compiled_result :: "uuid \<Rightarrow> compile_state \<Rightarrow> compile_decisions \<Rightarrow> pydict list \<Rightarrow> compile_result" where
  "compiled_result snapshot_id ks dc reasons =
     \<lparr>cx_snapshot_id = snapshot_id, cx_status = ''success'', cx_assets_created = ks_assets_created ks,
      cx_checks_created = ks_checks_created ks, cx_drift_state = max_drift_state (ks_drift_states ks),
      cx_switch_outcome = ''promoted'', cx_assets_updated = ks_assets_updated ks,
      cx_assets_retired = int (length (dc_retired_assets dc)), cx_checks_updated = ks_checks_updated ks,
      cx_checks_retired = int (length (dc_retired_checks dc)),
      cx_alias_disable_decision_count = int (length (dc_aliases_off dc)),
      cx_alias_enable_decision_count = int (length (dc_aliases_on dc)),
      cx_published_job_pause_decision_count = int (length (dc_jobs_pause dc)),
      cx_published_job_resume_decision_count = int (length (dc_jobs_resume dc)),
      cx_asset_ids = ks_page_asset_ids ks, cx_check_ids = ks_page_check_ids ks,
      cx_alias_ids_to_disable = dc_aliases_off dc, cx_alias_ids_to_enable = dc_aliases_on dc,
      cx_published_job_ids_to_pause = map pj_id (dc_jobs_pause dc),
      cx_published_job_ids_to_resume = map pj_id (dc_jobs_resume dc),
      cx_retire_reasons = reasons, cx_message = None\<rparr>"

subsection \<open>\<open>compile_snapshot\<close>\<close>

definition start_state :: "db \<Rightarrow> compile_state" where
  "start_state d =
     \<lparr>ks_db = d, ks_assets_created = 0, ks_assets_updated = 0, ks_checks_created = 0, ks_checks_updated = 0,
      ks_page_asset_ids = [], ks_page_check_ids = [], ks_drift_states = [], ks_reactivated_check_ids = []\<rparr>"

definition switched_result :: "uuid \<Rightarrow> string \<Rightarrow> compile_result" where
  "switched_result snapshot_id outcome =
     (compiled_result snapshot_id (start_state empty_db)
        \<lparr>dc_retired_assets = [], dc_retired_checks = [], dc_aliases_off = [], dc_aliases_on = [],
         dc_jobs_pause = [], dc_jobs_resume = []\<rparr> [])
       \<lparr>cx_switch_outcome := outcome,
        cx_message := Some (''snapshot '' @ uuid_str snapshot_id @ '' '' @ outcome)\<rparr>"

text \<open>The first phase: one page after the other.\<close>

definition compile_pages ::
  "compile_env \<Rightarrow> system_row \<Rightarrow> crawl_snapshot \<Rightarrow> db \<Rightarrow> string + compile_state" where
  "compile_pages env system snapshot d =
     loop_raises (compile_page env system snapshot (snapshot_menu_rows (cs_id snapshot) d)
         (snapshot_element_rows (cs_id snapshot) d))
       (ordered_pages (cs_id snapshot) d) (start_state d)"

definition quality_gate_of :: "system_row \<Rightarrow> crawl_snapshot \<Rightarrow> snapshot_truth \<Rightarrow> db \<Rightarrow> quality_gate_decision" where
  "quality_gate_of system snapshot truth d =
     evaluate_retirement_quality_gate (cs_crawl_type snapshot) (cs_degraded snapshot) (cs_quality_score snapshot)
       (int (length (st_route_paths truth))) (previous_active_page_count (sys_id system) d)"

text \<open>The second phase, on the state the first leaves.\<close>

definition reconcile ::
  "compile_env \<Rightarrow> system_row \<Rightarrow> crawl_snapshot \<Rightarrow> snapshot_truth \<Rightarrow> quality_gate_decision \<Rightarrow> compile_state \<Rightarrow>
    string + compile_result \<times> db" where
  "reconcile env system snapshot truth gate ks =
     (let active_assets = load_active_page_assets (sys_id system) (ks_db ks);
          active_checks = load_active_page_checks (map pa_id active_assets) (ks_db ks);
          plans = load_module_plans (List.map_filter pc_module_plan_id active_checks) (ks_db ks);
          active_pages = active_page_truths active_assets (ks_db ks)
      in case loop_raises (active_check_step plans) active_checks ([], ks_db ks) of
           Inl e \<Rightarrow> Inl e
         | Inr (check_truths, d1) \<Rightarrow>
             (case reconcile_retirement_decisions active_pages check_truths truth gate of
                Inl e \<Rightarrow> Inl e
              | Inr decisions \<Rightarrow>
                  (let rt = fold (retire_step (map pa_id active_assets) (map pc_id active_checks) (ce_now env)
                              (cs_id snapshot)) decisions
                              \<lparr>rt_db = d1, rt_asset_ids = [], rt_check_ids = [], rt_reasons = []\<rparr>;
                       dc = decide active_assets active_checks (ks_reactivated_check_ids ks) rt;
                       reasons = retire_reasons dc gate rt;
                       d2 = rt_db rt
                   in Inr (compiled_result (cs_id snapshot) ks dc reasons,
                           d2\<lparr>asset_reconciliation_audits :=
                               asset_reconciliation_audits d2 @ [new_audit env (cs_id snapshot) dc reasons]\<rparr>))))"

definition compile_db :: "compile_env \<Rightarrow> uuid \<Rightarrow> db \<Rightarrow> string + compile_result \<times> db" where
  "compile_db env snapshot_id d =
     (case find_row cs_id snapshot_id (crawl_snapshots d) of
        None \<Rightarrow> Inl (''crawl snapshot '' @ uuid_str snapshot_id @ '' not found'')
      | Some before \<Rightarrow>
     (case find_row sys_id (cs_system_id before) (systems d) of
        None \<Rightarrow> Inl (''system '' @ uuid_str (cs_system_id before) @ '' not found'')
      | Some system \<Rightarrow>
     (case apply_current_state_switch (ce_switch env) snapshot_id d of
        Inl e \<Rightarrow> Inl e
      | Inr (sw, d1) \<Rightarrow>
          if sw_outcome sw \<noteq> ''promoted'' then Inr (switched_result snapshot_id (sw_outcome sw), d1)
          else (case find_row cs_id snapshot_id (crawl_snapshots d1) of
              None \<Rightarrow> Inl []
            | Some snapshot \<Rightarrow>
                (let truth = build_current_snapshot_truth (ordered_pages snapshot_id d1)
                       (snapshot_menu_rows snapshot_id d1) (snapshot_element_rows snapshot_id d1)
                 in case compile_pages env system snapshot d1 of
                      Inl e \<Rightarrow> Inl e
                    | Inr ks \<Rightarrow>
                        reconcile env system snapshot truth (quality_gate_of system snapshot truth d1) ks)))))"

definition compile_snapshot :: "compile_env \<Rightarrow> compile_service" where
  "compile_snapshot env snapshot_id s =
     (case compile_db env snapshot_id (working s) of
        Inl e \<Rightarrow> (Inl (OtherException e), s)
      | Inr (res, d) \<Rightarrow> (Inr res, commit (modify (\<lambda>_. d) s)))"

end
