(* ===== verification/CompilePages.thy ===== *)
theory CompilePages
  imports CompileSnapshot
begin

section \<open>What compiling the pages of a snapshot does\<close>

text \<open>
  How the first phase of a compilation changes the tables: crawl facts and published jobs stay,
  assets and checks keep their identity and are only added where none is, and every page ends up
  with an asset and its checks. A compilation repeated on the same facts therefore creates nothing.
\<close>

subsection \<open>Growing tables\<close>

definition asset_ident :: "page_asset \<Rightarrow> uuid \<times> uuid \<times> string" where
  "asset_ident a = (pa_id a, pa_system_id a, pa_asset_key a)"

definition check_ident :: "page_check \<Rightarrow> uuid \<times> uuid \<times> string" where
  "check_ident c = (pc_id c, pc_page_asset_id c, pc_check_code c)"

text \<open>Assets are only added under a key that no asset of the system has.\<close>

fun adds_keys :: "(uuid \<times> uuid \<times> string) list \<Rightarrow> (uuid \<times> uuid \<times> string) list \<Rightarrow> bool" where
  "adds_keys old [] = True"
| "adds_keys old (x # xs) = (snd x \<notin> snd ` set old \<and> adds_keys (old @ [x]) xs)"

lemma adds_keys_append: "adds_keys old (xs @ ys) \<longleftrightarrow> adds_keys old xs \<and> adds_keys (old @ xs) ys"
  by (induction xs arbitrary: old) auto

lemma adds_keys_new: "adds_keys old xs \<Longrightarrow> x \<in> set xs \<Longrightarrow> snd x \<notin> snd ` set old"
proof (induction xs arbitrary: old)
  case (Cons y ys)
  show ?case
  proof (cases "x = y")
    case False
    then have "snd x \<notin> snd ` set (old @ [y])" using Cons.IH [of "old @ [y]"] Cons.prems by simp
    then show ?thesis by simp
  qed (use Cons.prems in simp)
qed simp

definition same_facts :: "db \<Rightarrow> db \<Rightarrow> bool" where
  "same_facts d d' \<longleftrightarrow> pages d' = pages d \<and> menu_nodes d' = menu_nodes d \<and> page_elements d' = page_elements d \<and>
     crawl_snapshots d' = crawl_snapshots d \<and> systems d' = systems d \<and> published_jobs d' = published_jobs d \<and>
     queued_jobs d' = queued_jobs d \<and> asset_reconciliation_audits d' = asset_reconciliation_audits d"

definition grows :: "db \<Rightarrow> db \<Rightarrow> bool" where
  "grows d d' \<longleftrightarrow> same_facts d d' \<and>
     (\<exists>as. map asset_ident (page_assets d') = map asset_ident (page_assets d) @ as \<and>
           adds_keys (map asset_ident (page_assets d)) as) \<and>
     (\<exists>cs. map check_ident (page_checks d') = map check_ident (page_checks d) @ cs)"

lemma same_facts_refl [simp]: "same_facts d d"
  by (simp add: same_facts_def)

lemma same_facts_trans: "same_facts a b \<Longrightarrow> same_facts b c \<Longrightarrow> same_facts a c"
  by (simp add: same_facts_def)

lemma grows_refl [simp]: "grows d d"
  by (simp add: grows_def)

lemma grows_trans: "grows a b \<Longrightarrow> grows b c \<Longrightarrow> grows a c"
  by (force simp: grows_def adds_keys_append intro: same_facts_trans)

lemma growsI:
  assumes "same_facts d d'" "map asset_ident (page_assets d') = map asset_ident (page_assets d)"
    and "map check_ident (page_checks d') = map check_ident (page_checks d)"
  shows "grows d d'"
  using assms by (simp add: grows_def)

lemma map_upd_row_ident:
  "(\<And>r. ident (f r) = ident r) \<Longrightarrow> map ident (upd_row key k f rows) = map ident rows"
  by (simp add: upd_row_def)

lemma grows_upd_asset:
  assumes "\<And>a. asset_ident (f a) = asset_ident a" shows "grows d (upd_asset i f d)"
  by (rule growsI) (simp_all add: upd_asset_def same_facts_def map_upd_row_ident [where ident = asset_ident, OF assms])

lemma grows_upd_check:
  assumes "\<And>c. check_ident (f c) = check_ident c" shows "grows d (upd_check i f d)"
  by (rule growsI) (simp_all add: upd_check_def same_facts_def map_upd_row_ident [where ident = check_ident, OF assms])

lemma grows_other_tables [simp]:
  "grows d (d\<lparr>asset_snapshots := x1\<rparr>)" "grows d (d\<lparr>module_plans := x2\<rparr>)"
  "grows d (d\<lparr>intent_aliases := x3\<rparr>)" "grows d (d\<lparr>page_navigation_aliases := x4\<rparr>)"
  by (simp_all add: growsI same_facts_def)

lemma grows_upd_alias [simp]: "grows d (upd_alias i f d)"
  by (simp add: upd_alias_def)

lemma grows_fold: "(\<And>x d. x \<in> set xs \<Longrightarrow> grows d (f x d)) \<Longrightarrow> grows d (fold f xs d)"
proof (induction xs arbitrary: d)
  case (Cons x xs)
  then have "grows d (f x d)" "grows (f x d) (fold f xs (f x d))" by simp_all
  from grows_trans [OF this] show ?case by simp
qed simp

lemma row_idents [simp]:
  "asset_ident (refresh_asset sn p a) = asset_ident a"
  "asset_ident (drift_asset hq st a) = asset_ident a"
  "asset_ident (retire_asset_row now sid a) = asset_ident a"
  "check_ident (refresh_check c sig plan deps row) = check_ident row"
  "check_ident (reactivate_check row) = check_ident row"
  "check_ident (retire_check_row now sid reason row) = check_ident row"
  by (simp_all add: asset_ident_def check_ident_def refresh_asset_def drift_asset_def retire_asset_row_def
      refresh_check_def reactivate_check_def retire_check_row_def Let_def)

subsection \<open>Lookups by identity\<close>

text \<open>The id of the asset of a key.\<close>

definition asset_id_at :: "uuid \<Rightarrow> string \<Rightarrow> db \<Rightarrow> uuid option" where
  "asset_id_at system_id asset_key d = map_option pa_id (find_page_asset system_id asset_key d)"

definition has_check :: "uuid \<Rightarrow> string \<Rightarrow> db \<Rightarrow> bool" where
  "has_check asset_id check_code d =
     list_ex (\<lambda>c. pc_page_asset_id c = asset_id \<and> pc_check_code c = check_code) (page_checks d)"

lemma has_check_idents:
  "has_check i code d \<longleftrightarrow> (\<exists>x \<in> set (map check_ident (page_checks d)). snd x = (i, code))"
  by (auto simp: has_check_def check_ident_def list_ex_iff)

lemma find_page_check_None: "find_page_check i code d = None \<longleftrightarrow> \<not> has_check i code d"
  by (auto simp: find_page_check_def has_check_def filter_empty_conv list_ex_iff)

lemma first_by_map: "first_by key (map f xs) = map_option f (first_by (key \<circ> f) xs)"
proof -
  have "insort_key key (f x) (map f ys) = map f (insort_key (key \<circ> f) x ys)" for x ys
    by (induction ys) simp_all
  then have "sort_key key (map f xs) = map f (sort_key (key \<circ> f) xs)"
    by (induction xs) simp_all
  then show ?thesis by (simp add: first_by_def split: list.split)
qed

lemma asset_id_at_idents:
  "asset_id_at s k d = first_by uint (map fst (filter (\<lambda>x. snd x = (s, k)) (map asset_ident (page_assets d))))"
proof -
  have "map fst (filter (\<lambda>x. snd x = (s, k)) (map asset_ident as)) =
      map pa_id (filter (\<lambda>a. pa_system_id a = s \<and> pa_asset_key a = k) as)" for as
    by (induction as) (auto simp: asset_ident_def)
  then show ?thesis by (simp add: asset_id_at_def find_page_asset_def first_by_map comp_def)
qed

lemma asset_id_at_None:
  "asset_id_at s k d = None \<longleftrightarrow> (s, k) \<notin> snd ` set (map asset_ident (page_assets d))"
  unfolding asset_id_at_idents by (force simp: filter_empty_conv)

lemma grows_asset_id: "grows d d' \<Longrightarrow> asset_id_at s k d = Some i \<Longrightarrow> asset_id_at s k d' = Some i"
proof -
  assume g: "grows d d'" and i: "asset_id_at s k d = Some i"
  let ?old = "map asset_ident (page_assets d)"
  obtain as where as: "map asset_ident (page_assets d') = ?old @ as" "adds_keys ?old as"
    using g by (auto simp: grows_def)
  have "(s, k) \<in> snd ` set ?old" using i asset_id_at_None [of s k d] by auto
  then have "filter (\<lambda>x. snd x = (s, k)) as = []"
    using adds_keys_new [OF as(2)] unfolding filter_empty_conv by metis
  then show ?thesis using i by (simp add: asset_id_at_idents as(1))
qed

lemma grows_has_check: "grows d d' \<Longrightarrow> has_check i code d \<Longrightarrow> has_check i code d'"
  by (auto simp: grows_def has_check_idents simp del: set_map)

subsection \<open>The steps\<close>

lemma grows_add_asset:
  assumes "asset_id_at (pa_system_id a) (pa_asset_key a) d = None"
  shows "grows d (d\<lparr>page_assets := page_assets d @ [a]\<rparr>)"
proof -
  have "adds_keys (map asset_ident (page_assets d)) [asset_ident a]"
    using assms by (simp add: asset_id_at_None) (simp add: asset_ident_def)
  then show ?thesis unfolding grows_def by (auto simp: same_facts_def)
qed

lemma grows_add_check: "grows d (d\<lparr>page_checks := page_checks d @ [c]\<rparr>)"
  unfolding grows_def by (auto simp: same_facts_def)

lemma upsert_asset_ok:
  assumes "upsert_asset env system snapshot p d = (i, created, d')"
  shows "grows d d' \<and> asset_id_at (sys_id system) (build_asset_key (sys_code system) (pg_route_path p) (pg_page_title p)) d' = Some i \<and>
    (created \<longleftrightarrow> asset_id_at (sys_id system) (build_asset_key (sys_code system) (pg_route_path p) (pg_page_title p)) d = None)"
proof -
  let ?key = "build_asset_key (sys_code system) (pg_route_path p) (pg_page_title p)"
  show ?thesis
  proof (cases "find_page_asset (sys_id system) ?key d")
    case None
    let ?a = "new_page_asset env system snapshot p ?key"
    have none: "asset_id_at (sys_id system) ?key d = None" using None by (simp add: asset_id_at_def)
    have d': "d' = d\<lparr>page_assets := page_assets d @ [?a]\<rparr>" "i = pa_id ?a" "created"
      using assms None by (auto simp: upsert_asset_def Let_def)
    have a: "pa_system_id ?a = sys_id system" "pa_asset_key ?a = ?key" by (simp_all add: new_page_asset_def)
    then have "grows d d'" using none d'(1) grows_add_asset [of ?a d] by simp
    moreover have "filter (\<lambda>x. snd x = (sys_id system, ?key)) (map asset_ident (page_assets d)) = []"
      using none unfolding asset_id_at_None filter_empty_conv by (metis image_eqI)
    then have "asset_id_at (sys_id system) ?key d' = Some i"
      using a by (simp add: asset_id_at_idents d'(1,2) first_by_def asset_ident_def)
    ultimately show ?thesis using none d'(3) by simp
  next
    case (Some a)
    then have d': "d' = upd_asset (pa_id a) (refresh_asset snapshot p) d" "i = pa_id a" "\<not> created"
      using assms by (auto simp: upsert_asset_def Let_def)
    then have "grows d d'" by (simp add: grows_upd_asset)
    moreover have "asset_id_at (sys_id system) ?key d = Some i" using Some d'(2) by (simp add: asset_id_at_def)
    ultimately show ?thesis using d'(3) grows_asset_id by simp
  qed
qed

lemma record_drift_grows:
  assumes "record_drift env snapshot p i fp d = (st, d')" shows "grows d d'"
proof -
  let ?d1 = "upd_asset i (drift_asset (is_high_quality_full_snapshot snapshot) st) d"
  obtain xs where "d' = ?d1\<lparr>asset_snapshots := xs\<rparr>"
    using assms by (auto simp: record_drift_def Let_def)
  moreover have "grows d ?d1" by (simp add: grows_upd_asset)
  ultimately show ?thesis using grows_trans by simp
qed

lemma ensure_intent_aliases_grows: "grows d (ensure_intent_aliases env system p key code d)"
  unfolding ensure_intent_aliases_def
  by (rule grows_fold) (auto simp: ensure_intent_alias_def Let_def split: prod.split option.split)

lemma replace_navigation_aliases_grows: "grows d (replace_navigation_aliases env pid sid aid snid drafts d)"
  by (simp add: replace_navigation_aliases_def)

lemma upsert_check_ok:
  assumes "upsert_check env f c d = (i, created, d')"
  shows "grows d d' \<and> has_check (pf_asset_id f) (cd_check_code c) d' \<and>
    (created \<longleftrightarrow> \<not> has_check (pf_asset_id f) (cd_check_code c) d)"
proof (cases "find_page_check (pf_asset_id f) (cd_check_code c) d")
  case None
  then have "d' = d\<lparr>page_checks := page_checks d @ [new_page_check env (pf_page f) (pf_asset_id f) c]\<rparr>" "created"
    using assms by (auto simp: upsert_check_def Let_def)
  then show ?thesis using None grows_add_check
    by (auto simp: find_page_check_None has_check_def check_ident_def new_page_check_def)
next
  case (Some row)
  then have "d' = d" "\<not> created" using assms by (auto simp: upsert_check_def)
  moreover have "has_check (pf_asset_id f) (cd_check_code c) d"
    using Some find_page_check_None by (metis option.distinct(1))
  ultimately show ?thesis by simp
qed

lemma compile_check_ok:
  assumes "compile_check env f c ks = Inr ks'"
  shows "grows (ks_db ks) (ks_db ks') \<and> has_check (pf_asset_id f) (cd_check_code c) (ks_db ks') \<and>
    ks_checks_created ks' = ks_checks_created ks + (if has_check (pf_asset_id f) (cd_check_code c) (ks_db ks) then 0 else 1) \<and>
    ks_assets_created ks' = ks_assets_created ks"
proof -
  obtain plan where plan: "check_plan env f c = Inr plan"
    using assms by (auto simp: compile_check_def split: sum.splits)
  let ?sig = "signature_or (pf_default_state f) (cd_state_signature c)"
  let ?d1 = "(ks_db ks)\<lparr>module_plans := module_plans (ks_db ks) @ [plan]\<rparr>"
  obtain i created d2 where up: "upsert_check env f c ?d1 = (i, created, d2)" by (metis surj_pair)
  obtain deps where deps: "build_blocking_dependency_json (Some (map PDict (mp_steps_json plan)))
      (cd_assertion_schema c) = Inr deps"
    using assms plan up by (auto simp: compile_check_def Let_def split: sum.splits)
  let ?d3 = "upd_check i (refresh_check c ?sig (mp_id plan) deps) d2"
  let ?revive = "is_high_quality_full_snapshot (pf_snapshot f) \<and> check_is_retired i ?d3"
  let ?d4 = "if ?revive then upd_check i reactivate_check ?d3 else ?d3"
  let ?d5 = "ensure_intent_aliases env (pf_system f) (pf_page f) (pf_asset_key f) (cd_check_code c) ?d4"
  have ks': "ks_db ks' = ?d5" "ks_checks_created ks' = ks_checks_created ks + (if created then 1 else 0)"
      "ks_assets_created ks' = ks_assets_created ks"
    using assms plan up deps by (auto simp: compile_check_def Let_def)
  note up_ok = upsert_check_ok [OF up]
  have g1: "grows (ks_db ks) ?d1" by simp
  have g3: "grows d2 ?d3" by (simp add: grows_upd_check)
  have "grows ?d3 ?d4" by (simp add: grows_upd_check)
  then have g: "grows d2 ?d5" using g3 ensure_intent_aliases_grows grows_trans by blast
  have "has_check (pf_asset_id f) (cd_check_code c) ?d1 \<longleftrightarrow> has_check (pf_asset_id f) (cd_check_code c) (ks_db ks)"
    by (simp add: has_check_def)
  moreover have "grows (ks_db ks) ?d5"
    using g1 up_ok g by (blast intro: grows_trans)
  moreover have "has_check (pf_asset_id f) (cd_check_code c) ?d5"
    using up_ok g by (blast intro: grows_has_check)
  ultimately show ?thesis using ks' up_ok by simp
qed

subsection \<open>Pages\<close>

definition page_key :: "system_row \<Rightarrow> page \<Rightarrow> string" where
  "page_key system p = build_asset_key (sys_code system) (pg_route_path p) (pg_page_title p)"

text \<open>The codes of the checks a page gets from its elements.\<close>

definition page_codes :: "page_element list \<Rightarrow> page \<Rightarrow> string list" where
  "page_codes elements p =
     (let dsig = build_default_state_signature (pg_route_path p);
          es = map (\<lambda>e. build_normalized_element e dsig) (values_at (group_by_page pe_page_id elements) (pg_id p))
      in map cd_check_code (page_checks_for p (list_ex (\<lambda>e. normalize_text (dget e ''element_type'') = ''table'') es) dsig es))"

definition compiled :: "system_row \<Rightarrow> page_element list \<Rightarrow> page \<Rightarrow> db \<Rightarrow> bool" where
  "compiled system elements p d \<longleftrightarrow>
     (\<exists>i. asset_id_at (sys_id system) (page_key system p) d = Some i \<and>
        (\<forall>code \<in> set (page_codes elements p). has_check i code d))"

lemma grows_compiled: "grows d d' \<Longrightarrow> compiled system elements p d \<Longrightarrow> compiled system elements p d'"
  using grows_asset_id grows_has_check unfolding compiled_def by blast

lemma compile_checks_ok:
  assumes "loop_raises (compile_check env f) cs ks = Inr ks'"
  shows "grows (ks_db ks) (ks_db ks') \<and> (\<forall>c \<in> set cs. has_check (pf_asset_id f) (cd_check_code c) (ks_db ks')) \<and>
    ks_assets_created ks' = ks_assets_created ks \<and> ks_checks_created ks \<le> ks_checks_created ks' \<and>
    ((\<forall>c \<in> set cs. has_check (pf_asset_id f) (cd_check_code c) (ks_db ks)) \<longrightarrow>
       ks_checks_created ks' = ks_checks_created ks)"
  using assms
proof (induction cs arbitrary: ks)
  case (Cons c cs)
  obtain ks1 where ks1: "compile_check env f c ks = Inr ks1" "loop_raises (compile_check env f) cs ks1 = Inr ks'"
    using Cons.prems by (auto split: sum.splits)
  note one = compile_check_ok [OF ks1(1)] and rest = Cons.IH [OF ks1(2)]
  have "has_check (pf_asset_id f) (cd_check_code c) (ks_db ks')"
    using one rest grows_has_check by blast
  moreover have "\<forall>c \<in> set cs. has_check (pf_asset_id f) (cd_check_code c) (ks_db ks1)"
    if "\<forall>c \<in> set cs. has_check (pf_asset_id f) (cd_check_code c) (ks_db ks)"
    using that one grows_has_check by blast
  ultimately show ?case using one rest grows_trans by (auto split: if_splits)
qed simp

lemma compile_page_ok:
  assumes "compile_page env system snapshot menus elements p ks = Inr ks'"
  shows "grows (ks_db ks) (ks_db ks') \<and> compiled system elements p (ks_db ks') \<and>
    ks_assets_created ks \<le> ks_assets_created ks' \<and> ks_checks_created ks \<le> ks_checks_created ks' \<and>
    (compiled system elements p (ks_db ks) \<longrightarrow>
       ks_assets_created ks' = ks_assets_created ks \<and> ks_checks_created ks' = ks_checks_created ks)"
proof -
  let ?dsig = "build_default_state_signature (pg_route_path p)"
  let ?es = "map (\<lambda>e. build_normalized_element e ?dsig) (values_at (group_by_page pe_page_id elements) (pg_id p))"
  let ?menus = "values_at (group_by_page mn_page_id menus) (Some (pg_id p))"
  let ?fp = "build_page_fingerprint (page_payload p ?menus ?es)"
  let ?table = "list_ex (\<lambda>e. normalize_text (dget e ''element_type'') = ''table'') ?es"
  obtain i created d1 where up: "upsert_asset env system snapshot p (ks_db ks) = (i, created, d1)"
    by (metis surj_pair)
  obtain st d2 where drift: "record_drift env snapshot p i ?fp d1 = (st, d2)" by (metis surj_pair)
  let ?f = "\<lparr>pf_system = system, pf_snapshot = snapshot, pf_page = p, pf_asset_id = i,
      pf_asset_key = build_asset_key (sys_code system) (pg_route_path p) (pg_page_title p),
      pf_default_state = ?dsig, pf_elements = ?es,
      pf_context = page_context system p ?menus ?table ?dsig\<rparr>"
  let ?cs = "page_checks_for p ?table ?dsig ?es"
  let ?ks1 = "ks\<lparr>ks_db := d2, ks_drift_states := ks_drift_states ks @ [st],
      ks_assets_updated := ks_assets_updated ks + (if created then 0 else 1)\<rparr>"
  obtain ks2 where loop: "loop_raises (compile_check env ?f) ?cs ?ks1 = Inr ks2"
    using assms up drift by (auto simp: compile_page_def Let_def split: sum.splits)
  have codes: "map cd_check_code ?cs = page_codes elements p" by (simp add: page_codes_def Let_def)
  have ks': "\<exists>drafts. ks_db ks' = replace_navigation_aliases env (pg_id p) (sys_id system) i (cs_id snapshot) drafts (ks_db ks2)"
      "ks_assets_created ks' = ks_assets_created ks2 + (if created then 1 else 0)"
      "ks_checks_created ks' = ks_checks_created ks2"
    using assms up drift loop by (auto simp: compile_page_def Let_def)
  note upsert = upsert_asset_ok [OF up, folded page_key_def] and checks = compile_checks_ok [OF loop]
  have g2: "grows (ks_db ks) d2" using upsert record_drift_grows [OF drift] grows_trans by blast
  have g3: "grows d2 (ks_db ks')"
    using checks ks'(1) replace_navigation_aliases_grows grows_trans by fastforce
  have "grows (ks_db ks2) (ks_db ks')" using ks'(1) replace_navigation_aliases_grows by auto
  then have "\<forall>code \<in> set (page_codes elements p). has_check i code (ks_db ks')"
    using checks grows_has_check unfolding codes [symmetric] by auto
  moreover have i: "asset_id_at (sys_id system) (page_key system p) d2 = Some i"
    using upsert record_drift_grows [OF drift] grows_asset_id by blast
  ultimately have "compiled system elements p (ks_db ks')"
    unfolding compiled_def using grows_asset_id [OF g3 i] by blast
  moreover have "\<not> created \<and> ks_checks_created ks2 = ks_checks_created ks" if c: "compiled system elements p (ks_db ks)"
  proof -
    obtain i' where i': "asset_id_at (sys_id system) (page_key system p) (ks_db ks) = Some i'"
        "\<forall>code \<in> set (page_codes elements p). has_check i' code (ks_db ks)"
      using c unfolding compiled_def by blast
    have "i' = i" using grows_asset_id [OF g2 i'(1)] i by simp
    then have "\<forall>code \<in> set (page_codes elements p). has_check i code d2"
      using i'(2) g2 grows_has_check by blast
    then have "\<forall>c \<in> set ?cs. has_check i (cd_check_code c) d2" unfolding codes [symmetric] by simp
    then show ?thesis using checks upsert i'(1) by simp
  qed
  moreover have "grows (ks_db ks) (ks_db ks')" using g2 g3 by (rule grows_trans)
  ultimately show ?thesis using checks ks'(2,3) by auto
qed

lemma pages_loop_ok:
  assumes "loop_raises (compile_page env system snapshot menus elements) ps ks = Inr ks'"
  shows "grows (ks_db ks) (ks_db ks') \<and> (\<forall>p \<in> set ps. compiled system elements p (ks_db ks')) \<and>
    ks_assets_created ks \<le> ks_assets_created ks' \<and> ks_checks_created ks \<le> ks_checks_created ks' \<and>
    ((\<forall>p \<in> set ps. compiled system elements p (ks_db ks)) \<longrightarrow>
       ks_assets_created ks' = ks_assets_created ks \<and> ks_checks_created ks' = ks_checks_created ks)"
  using assms
proof (induction ps arbitrary: ks)
  case (Cons p ps)
  obtain ks1 where ks1: "compile_page env system snapshot menus elements p ks = Inr ks1"
      "loop_raises (compile_page env system snapshot menus elements) ps ks1 = Inr ks'"
    using Cons.prems by (auto split: sum.splits)
  note one = compile_page_ok [OF ks1(1)] and rest = Cons.IH [OF ks1(2)]
  have "compiled system elements p (ks_db ks')" using one rest grows_compiled by blast
  moreover have "\<forall>p \<in> set ps. compiled system elements p (ks_db ks1)"
    if "\<forall>p \<in> set ps. compiled system elements p (ks_db ks)"
    using that one grows_compiled by blast
  ultimately show ?case using one rest grows_trans by auto
qed simp

subsection \<open>The second phase keeps identities\<close>

lemma active_check_steps_grow:
  "loop_raises (active_check_step plans) rows (ts, d) = Inr (ts', d') \<Longrightarrow> grows d d'"
proof (induction rows arbitrary: ts d)
  case (Cons row rows)
  then obtain ts1 d1 where step: "active_check_step plans row (ts, d) = Inr (ts1, d1)"
      "loop_raises (active_check_step plans) rows (ts1, d1) = Inr (ts', d')"
    by (auto split: sum.splits)
  have stored: "grows d (upd_check i (\<lambda>c. c\<lparr>pc_blocking_dependency_json := Some x\<rparr>) d)" for i x
    by (rule grows_upd_check) (simp add: check_ident_def)
  have "d1 = d \<or> (\<exists>i x. d1 = upd_check i (\<lambda>c. c\<lparr>pc_blocking_dependency_json := Some x\<rparr>) d)"
    using step(1) by (auto simp: active_check_step_def Let_def split: option.splits sum.splits)
  then have "grows d d1" using stored by auto
  then show ?case using Cons.IH [OF step(2)] grows_trans by blast
qed simp

lemma retire_check_step_grows: "grows (snd acc) (snd (retire_check_step loaded now sid reason i acc))"
  by (simp add: retire_check_step_def grows_upd_check split: prod.split)

lemma retire_checks_grow: "grows (snd acc) (snd (fold (retire_check_step loaded now sid reason) is acc))"
proof (induction "is" arbitrary: acc)
  case (Cons i "is")
  show ?case using grows_trans [OF retire_check_step_grows Cons.IH] by simp
qed simp

lemma retire_step_grows: "grows (rt_db rt) (rt_db (retire_step la lc now sid decision rt))"
proof -
  let ?retires = "rd_reason decision = ''missing_page'' \<and> retirable_asset la (rd_page_asset_id decision) (rt_db rt)"
  let ?d1 = "if ?retires then upd_asset (rd_page_asset_id decision) (retire_asset_row now sid) (rt_db rt) else rt_db rt"
  have "grows (rt_db rt) ?d1" by (simp add: grows_upd_asset)
  moreover have "rt_db (retire_step la lc now sid decision rt) =
      snd (fold (retire_check_step lc now sid (rd_reason decision)) (rd_page_check_ids decision) ([], ?d1))"
    by (simp only: retire_step_def Let_def case_prod_beta retire_state.select_convs)
  ultimately show ?thesis
    using retire_checks_grow [of "([], ?d1)" lc now sid "rd_reason decision" "rd_page_check_ids decision"]
    by (simp only: snd_conv) (rule grows_trans)
qed

lemma retire_steps_grow: "grows (rt_db rt) (rt_db (fold (retire_step la lc now sid) decisions rt))"
proof (induction decisions arbitrary: rt)
  case (Cons x xs)
  show ?case using grows_trans [OF retire_step_grows Cons.IH] by simp
qed simp

lemma reconcile_ok:
  assumes "reconcile env system snapshot truth gate ks = Inr (res, d')"
  shows "\<exists>d0 a. grows (ks_db ks) d0 \<and> d' = d0\<lparr>asset_reconciliation_audits := asset_reconciliation_audits d0 @ [a]\<rparr> \<and>
    cx_assets_created res = ks_assets_created ks \<and> cx_checks_created res = ks_checks_created ks \<and>
    cx_switch_outcome res = ''promoted''"
proof -
  let ?assets = "load_active_page_assets (sys_id system) (ks_db ks)"
  let ?checks = "load_active_page_checks (map pa_id ?assets) (ks_db ks)"
  let ?plans = "load_module_plans (List.map_filter pc_module_plan_id ?checks) (ks_db ks)"
  obtain ts d1 where loop: "loop_raises (active_check_step ?plans) ?checks ([], ks_db ks) = Inr (ts, d1)"
    using assms by (auto simp: reconcile_def Let_def split: sum.splits prod.splits)
  obtain decisions where dec: "reconcile_retirement_decisions (active_page_truths ?assets (ks_db ks)) ts truth gate =
      Inr decisions"
    using assms loop by (auto simp: reconcile_def Let_def split: sum.splits)
  let ?rt = "fold (retire_step (map pa_id ?assets) (map pc_id ?checks) (ce_now env) (cs_id snapshot)) decisions
      \<lparr>rt_db = d1, rt_asset_ids = [], rt_check_ids = [], rt_reasons = []\<rparr>"
  let ?dc = "decide ?assets ?checks (ks_reactivated_check_ids ks) ?rt"
  let ?reasons = "retire_reasons ?dc gate ?rt"
  have eq: "res = compiled_result (cs_id snapshot) ks ?dc ?reasons"
      "d' = (rt_db ?rt)\<lparr>asset_reconciliation_audits := asset_reconciliation_audits (rt_db ?rt) @
              [new_audit env (cs_id snapshot) ?dc ?reasons]\<rparr>"
    using assms loop dec by (simp_all add: reconcile_def Let_def)
  have "grows (ks_db ks) (rt_db ?rt)"
    using active_check_steps_grow [OF loop]
      retire_steps_grow [of "\<lparr>rt_db = d1, rt_asset_ids = [], rt_check_ids = [], rt_reasons = []\<rparr>"]
      grows_trans by simp
  then show ?thesis using eq by (auto simp: compiled_result_def)
qed

subsection \<open>Compiling again\<close>

lemma promoted_is_active:
  assumes "apply_current_state_switch env i d = Inr (r, d')" "unique_active d" "distinct (snapshot_ids d)"
    and "sw_outcome r = ''promoted''"
  shows "\<exists>c. find_row cs_id i (crawl_snapshots d') = Some c \<and> active_snapshot c"
  using assms(1-3)
proof (cases rule: switch_cases)
  case (already draft) then show ?thesis by simp
next
  case discarded then show ?thesis using assms(4) by simp
next
  case (first draft) then show ?thesis by (simp add: find_upd_row)
next
  case (replaced draft a)
  then show ?thesis using load_active_Some(4) [OF replaced(3)] by (simp add: promoted_db_def find_upd_row)
qed

lemma switch_active:
  assumes "find_row cs_id i (crawl_snapshots d) = Some c" "active_snapshot c"
  shows "apply_current_state_switch env i d =
    Inr (\<lparr>sw_outcome = ''promoted'', sw_active_snapshot_id = Some i, sw_archived_snapshot_id = None\<rparr>, d)"
  using assms find_row_Some_key [OF assms(1)] by (simp add: apply_current_state_switch_def)

lemma compile_db_promoted:
  assumes "compile_db env sid d = Inr (res, d')" "cx_switch_outcome res = ''promoted''"
  obtains system snapshot sw d1 ks where
    "apply_current_state_switch (ce_switch env) sid d = Inr (sw, d1)" "sw_outcome sw = ''promoted''"
    "find_row cs_id sid (crawl_snapshots d1) = Some snapshot" "cs_id snapshot = sid"
    "\<exists>before. find_row cs_id sid (crawl_snapshots d) = Some before \<and> find_row sys_id (cs_system_id before) (systems d) = Some system"
    "compile_pages env system snapshot d1 = Inr ks"
    "reconcile env system snapshot
       (build_current_snapshot_truth (ordered_pages sid d1) (snapshot_menu_rows sid d1) (snapshot_element_rows sid d1))
       (quality_gate_of system snapshot
         (build_current_snapshot_truth (ordered_pages sid d1) (snapshot_menu_rows sid d1) (snapshot_element_rows sid d1)) d1)
       ks = Inr (res, d')"
proof -
  obtain before system where row: "find_row cs_id sid (crawl_snapshots d) = Some before"
      "find_row sys_id (cs_system_id before) (systems d) = Some system"
    using assms(1) by (auto simp: compile_db_def split: option.splits)
  obtain sw d1 where sw: "apply_current_state_switch (ce_switch env) sid d = Inr (sw, d1)"
    using assms(1) row by (auto simp: compile_db_def split: sum.splits)
  have promoted: "sw_outcome sw = ''promoted''"
    using assms row sw by (auto simp: compile_db_def switched_result_def split: if_splits)
  obtain snapshot where snapshot: "find_row cs_id sid (crawl_snapshots d1) = Some snapshot"
    using assms(1) row sw promoted by (auto simp: compile_db_def split: option.splits)
  obtain ks where ks: "compile_pages env system snapshot d1 = Inr ks"
    using assms(1) row sw promoted snapshot by (auto simp: compile_db_def Let_def split: sum.splits)
  show thesis
    using assms(1) row sw promoted snapshot ks find_row_Some_key [OF snapshot]
    by (intro that [OF sw promoted snapshot _ _ ks]) (auto simp: compile_db_def Let_def)
qed

lemma switch_keeps_systems:
  assumes "apply_current_state_switch env i d = Inr (r, d')" "unique_active d" "distinct (snapshot_ids d)"
    and "find_row cs_id i (crawl_snapshots d) = Some before" "find_row cs_id i (crawl_snapshots d') = Some after"
  shows "cs_system_id after = cs_system_id before \<and> systems d' = systems d"
  using assms(1-3)
proof (cases rule: switch_cases)
  case (already draft) then show ?thesis using assms(4,5) by simp
next
  case (discarded draft)
  then show ?thesis using assms(4,5) by (auto simp: find_upd_row upd_snapshot_def discard_snapshot_def)
next
  case (first draft)
  then show ?thesis using assms(4,5) by (auto simp: find_upd_row upd_snapshot_def activate_snapshot_def)
next
  case (replaced draft a)
  then show ?thesis using load_active_Some(4) [OF replaced(3)] assms(4,5)
    by (auto simp: promoted_db_def archived_db_def find_upd_row upd_snapshot_def activate_snapshot_def)
qed

lemma compile_db_setup:
  assumes "compile_db env sid d = Inr (res, d')" "cx_switch_outcome res = ''promoted''"
    and "unique_active d" "distinct (snapshot_ids d)"
  shows "\<exists>system snapshot sw d1 ks.
    apply_current_state_switch (ce_switch env) sid d = Inr (sw, d1) \<and> sw_outcome sw = ''promoted'' \<and>
    find_row cs_id sid (crawl_snapshots d1) = Some snapshot \<and> cs_id snapshot = sid \<and>
    compile_pages env system snapshot d1 = Inr ks \<and>
    (\<exists>truth gate. reconcile env system snapshot truth gate ks = Inr (res, d')) \<and>
    find_row sys_id (cs_system_id snapshot) (systems d') = Some system"
proof -
  obtain system snapshot sw d1 ks where first:
      "apply_current_state_switch (ce_switch env) sid d = Inr (sw, d1)" "sw_outcome sw = ''promoted''"
      "find_row cs_id sid (crawl_snapshots d1) = Some snapshot" "cs_id snapshot = sid"
      "\<exists>before. find_row cs_id sid (crawl_snapshots d) = Some before \<and> find_row sys_id (cs_system_id before) (systems d) = Some system"
      "compile_pages env system snapshot d1 = Inr ks"
      "\<exists>truth gate. reconcile env system snapshot truth gate ks = Inr (res, d')"
    using compile_db_promoted [OF assms(1,2)] by metis
  have "grows d1 (ks_db ks)"
    using pages_loop_ok [OF first(6) [unfolded compile_pages_def]] by (simp add: start_state_def)
  then have "systems d' = systems d1"
    using first(7) reconcile_ok by (fastforce simp: grows_def same_facts_def)
  moreover have "find_row sys_id (cs_system_id snapshot) (systems d1) = Some system"
    using first(5) switch_keeps_systems [OF first(1) assms(3,4) _ first(3)] by fastforce
  ultimately show ?thesis using first by auto
qed

text \<open>What a promoted compilation leaves: the snapshot is active and every page of it is compiled.\<close>

lemma compile_db_leaves:
  assumes "compile_db env sid d = Inr (res, d')" "cx_switch_outcome res = ''promoted''"
    and "unique_active d" "distinct (snapshot_ids d)"
  shows "\<exists>snapshot system. find_row cs_id sid (crawl_snapshots d') = Some snapshot \<and> active_snapshot snapshot \<and>
    find_row sys_id (cs_system_id snapshot) (systems d') = Some system \<and>
    (\<forall>p \<in> set (ordered_pages sid d'). compiled system (snapshot_element_rows sid d') p d')"
proof -
  obtain system snapshot sw d1 ks where first:
      "apply_current_state_switch (ce_switch env) sid d = Inr (sw, d1)" "sw_outcome sw = ''promoted''"
      "find_row cs_id sid (crawl_snapshots d1) = Some snapshot" "cs_id snapshot = sid"
      "compile_pages env system snapshot d1 = Inr ks"
      "\<exists>truth gate. reconcile env system snapshot truth gate ks = Inr (res, d')"
      "find_row sys_id (cs_system_id snapshot) (systems d') = Some system"
    using compile_db_setup [OF assms] by blast
  have active: "active_snapshot snapshot"
    using promoted_is_active [OF first(1) assms(3,4) first(2)] first(3) by simp
  have ks: "grows d1 (ks_db ks)" "\<forall>p \<in> set (ordered_pages sid d1). compiled system (snapshot_element_rows sid d1) p (ks_db ks)"
    using pages_loop_ok [OF first(5) [unfolded compile_pages_def]] first(4) by (simp_all add: start_state_def)
  obtain d0 a where d': "grows (ks_db ks) d0" "d' = d0\<lparr>asset_reconciliation_audits := a\<rparr>"
    using first(6) reconcile_ok by blast
  have facts: "crawl_snapshots d' = crawl_snapshots d1" "pages d' = pages d1" "page_elements d' = page_elements d1"
    using ks(1) d' by (simp_all add: grows_def same_facts_def)
  have same: "ordered_pages sid d' = ordered_pages sid d1" "snapshot_element_rows sid d' = snapshot_element_rows sid d1"
    by (simp_all add: ordered_pages_def snapshot_element_rows_def facts)
  have "compiled system (snapshot_element_rows sid d') p d'" if "p \<in> set (ordered_pages sid d')" for p
  proof -
    have "compiled system (snapshot_element_rows sid d') p d0" using ks(2) d'(1) grows_compiled same that by metis
    then show ?thesis by (simp add: d'(2) compiled_def asset_id_at_idents has_check_def)
  qed
  then show ?thesis using first(3,7) active facts by auto
qed

lemma compile_db_outcome:
  assumes "compile_db env sid d = Inr (res, d')" "apply_current_state_switch (ce_switch env) sid d = Inr (sw, d1)"
  shows "cx_switch_outcome res = sw_outcome sw"
  using assms reconcile_ok
  by (fastforce simp: compile_db_def switched_result_def Let_def split: option.splits sum.splits if_splits)

end
