(* ===== verification/CompileTotal.thy ===== *)
theory CompileTotal
  imports CompilePages
begin

section \<open>When a compilation raises\<close>

text \<open>
  The compiler reads the menu chain of a plan step and the required elements of an assertion, which
  must be iterable, and what it stored with a check in earlier compilations. A database where all of
  these can be read stays one under every compilation, and in it nothing raises but a missing row
  and the switch of the active snapshot.
\<close>

subsection \<open>What can be read\<close>

definition readable_step :: "pydict \<Rightarrow> bool" where
  "readable_step st \<longleftrightarrow> (\<forall>acc. \<exists>acc'. plan_step_dependency (PDict st) acc = Inr acc')"

definition readable_schema :: "pydict option \<Rightarrow> bool" where
  "readable_schema schema =
     (case schema of None \<Rightarrow> True
      | Some s \<Rightarrow> (case py_iter (dget_or s ''required_elements'' (PList [])) of Inl e \<Rightarrow> False | Inr items \<Rightarrow> True))"

definition readable_dependencies :: "pydict option \<Rightarrow> bool" where
  "readable_dependencies v = (case normalize_dependency_json v of Inl e \<Rightarrow> False | Inr x \<Rightarrow> True)"

definition readable_check :: "page_check \<Rightarrow> bool" where
  "readable_check c \<longleftrightarrow>
     readable_dependencies (pc_blocking_dependency_json c) \<and> readable_schema (pc_assertion_schema c)"

definition readable :: "db \<Rightarrow> bool" where
  "readable d \<longleftrightarrow>
     (\<forall>p \<in> set (module_plans d). list_all readable_step (mp_steps_json p)) \<and>
     (\<forall>c \<in> set (page_checks d). readable_check c)"

lemma readable_None [simp]: "readable_schema None" "readable_dependencies None"
  by (simp_all add: readable_schema_def readable_dependencies_def normalize_dependency_json_def)

lemma steps_readable:
  "list_all readable_step steps \<Longrightarrow> \<exists>acc'. loop_raises plan_step_dependency (map PDict steps) acc = Inr acc'"
proof (induction steps arbitrary: acc)
  case (Cons st steps)
  have "readable_step st" "list_all readable_step steps" using Cons.prems by simp_all
  then obtain acc1 where "plan_step_dependency (PDict st) acc = Inr acc1"
    unfolding readable_step_def by blast
  then show ?case using Cons.IH [OF \<open>list_all readable_step steps\<close>, of acc1]
    by (simp del: plan_step_dependency.simps)
qed simp

lemma dependencies_built:
  assumes "list_all readable_step steps" "readable_schema schema"
  obtains deps where "build_blocking_dependency_json (Some (map PDict steps)) schema = Inr deps"
    and "readable_dependencies (Some deps)"
proof -
  obtain chain derived where loop: "loop_raises plan_step_dependency (map PDict steps) ([], []) = Inr (chain, derived)"
    using steps_readable [OF assms(1)] by (metis surj_pair)
  have "\<exists>deps. build_blocking_dependency_json (Some (map PDict steps)) schema = Inr deps"
  proof (cases schema)
    case None
    then show ?thesis by (simp add: build_blocking_dependency_json_def loop)
  next
    case (Some sch)
    obtain items where "py_iter (dget_or sch ''required_elements'' (PList [])) = Inr items"
      using assms(2) Some by (auto simp: readable_schema_def split: sum.splits)
    then show ?thesis using Some by (simp add: build_blocking_dependency_json_def loop Let_def)
  qed
  then obtain deps where deps: "build_blocking_dependency_json (Some (map PDict steps)) schema = Inr deps" ..
  have "readable_dependencies (Some deps)"
    using stored_dependencies [OF deps] by (auto simp: readable_dependencies_def)
  then show thesis using that deps by blast
qed

text \<open>A well-typed step can be read: its menu chain is a list.\<close>

lemma module_names_stripped: "map_of module_types m = Some ts \<Longrightarrow> strip m = m"
  by (auto simp: module_types_def strip_graphic graphic_def split: if_splits)

lemma typed_step_readable: "step_typed st \<Longrightarrow> readable_step st"
  unfolding readable_step_def
proof (intro allI)
  fix acc assume t: "step_typed st"
  obtain m params ts where st: "dget st ''module'' = PStr m" "dget st ''params'' = PDict params"
      "map_of module_types m = Some ts" "params_typed ts params"
    using t by (auto simp: step_typed_def split: pyval.splits option.splits)
  have "normalize_text (PStr m) = m" using module_names_stripped [OF st(3)] by simp
  moreover have "\<exists>vs. py_iter (dget_or params ''menu_chain'' (PList [])) = Inr vs" if "m = ''nav.menu_chain''"
    using st(3,4) that
    by (auto simp: module_types_def params_typed_def is_list_def dget_def dget_or_def split: option.splits pyval.splits)
  ultimately show "\<exists>acc'. plan_step_dependency (PDict st) acc = Inr acc'"
    using st(1,2) by (cases acc) (auto simp: Let_def split: sum.splits)
qed

subsection \<open>Checks and plans of a page\<close>

lemma update_values: "snd ` set (AList.update k v al) \<subseteq> insert v (snd ` set al)"
  by (induction al) auto

lemma selected_values: "snd ` set (fold (select_step dsig) cs sel) \<subseteq> snd ` set sel \<union> set cs"
proof (induction cs arbitrary: sel)
  case (Cons c cs)
  have "snd ` set (select_step dsig c sel) \<subseteq> insert c (snd ` set sel)"
    using update_values [of "cd_check_code c" c sel]
    by (auto simp: select_step_def split: option.splits)
  then show ?case using Cons.IH [of "select_step dsig c sel"]
    by (simp only: fold_Cons comp_apply list.set) blast
qed simp

lemma candidate_readable:
  assumes "c \<in> set (candidate_checks s t a rs dsig)" shows "readable_schema (cd_assertion_schema c)"
proof -
  have state: "readable_schema (cd_assertion_schema c)"
    if "representative_state_check dsig st = Some c" for st
    using that by (auto simp: representative_state_check_def new_check_def readable_schema_def dget_or_def Let_def
        split: if_splits)
  have template: "readable_schema (cd_assertion_schema c)" if "c \<in> set (build_template_checks dsig)"
    using that by (auto simp: build_template_checks_def list_templates_def TEMPLATE_DEFINITIONS_def template_check_def
        data_count_template_def row_exists_template_def field_filter_def readable_schema_def dget_or_def)
  show ?thesis
    using assms state template
    by (auto simp: candidate_checks_def build_representative_state_checks_def new_check_def readable_schema_def
        dget_or_def map_filter_def split: if_splits)
qed

lemma page_checks_readable:
  "c \<in> set (page_checks_for p t dsig es) \<Longrightarrow> readable_schema (cd_assertion_schema c)"
  using selected_values [where sel = "[]"] candidate_readable
  by (fastforce simp: page_checks_for_def build_standard_checks_def)

lemma check_plan_built:
  assumes "pf_context f = page_context system p menus t dsig"
  obtains plan where "check_plan env f c = Inr plan" "list_all step_typed (mp_steps_json plan)"
    "mp_check_code plan = cd_check_code c" "mp_page_asset_id plan = pf_asset_id f"
proof -
  let ?sig = "Some (signature_or (pf_default_state f) (cd_state_signature c))"
  obtain lb where lb: "check_plan env f c = map_sum id (\<lambda>draft.
      \<lparr>mp_id = ce_plan_id env (pg_id (pf_page f)) (cd_check_code c), mp_page_asset_id = pf_asset_id f,
       mp_check_code = cd_check_code c, mp_plan_version = pd_plan_version draft, mp_steps_json = pd_steps_json draft\<rparr>)
      (build_module_plan (cd_check_code c) (pf_context f) ?sig lb)"
    by (simp add: check_plan_def Let_def)
  obtain draft where draft: "build_module_plan (cd_check_code c) (pf_context f) ?sig lb = Inr draft"
    by (simp add: build_module_plan_def assms page_context_def dget_or_def texts_def Let_def)
  show thesis
    by (rule that, simp add: lb draft, simp_all add: plan_steps_typed [OF draft])
qed

subsection \<open>One check\<close>

text \<open>What a step of the first phase does to the stored plans and checks.\<close>

definition adds_plans :: "compile_state \<Rightarrow> compile_state \<Rightarrow> bool" where
  "adds_plans ks ks' \<longleftrightarrow> (\<exists>plans. module_plans (ks_db ks') = module_plans (ks_db ks) @ plans \<and>
     (\<forall>p \<in> set plans. list_all step_typed (mp_steps_json p)) \<and>
     ks_checks_created ks' + ks_checks_updated ks' =
       ks_checks_created ks + ks_checks_updated ks + int (length plans))"

lemma adds_plans_refl [simp]: "adds_plans ks ks"
  by (simp add: adds_plans_def)

lemma adds_plans_trans:
  assumes "adds_plans a b" "adds_plans b c" shows "adds_plans a c"
proof -
  obtain ps qs where "module_plans (ks_db b) = module_plans (ks_db a) @ ps"
      "\<forall>p \<in> set ps. list_all step_typed (mp_steps_json p)"
      "ks_checks_created b + ks_checks_updated b = ks_checks_created a + ks_checks_updated a + int (length ps)"
      "module_plans (ks_db c) = module_plans (ks_db b) @ qs"
      "\<forall>p \<in> set qs. list_all step_typed (mp_steps_json p)"
      "ks_checks_created c + ks_checks_updated c = ks_checks_created b + ks_checks_updated b + int (length qs)"
    using assms unfolding adds_plans_def by blast
  then show ?thesis unfolding adds_plans_def by (intro exI [of _ "ps @ qs"]) auto
qed

lemma aliases_frame [simp]:
  "module_plans (ensure_intent_aliases env system p key code d) = module_plans d"
  "page_checks (ensure_intent_aliases env system p key code d) = page_checks d"
  by (simp_all add: ensure_intent_aliases_def ensure_intent_alias_def upd_alias_def Let_def split: option.split)

lemma check_frame [simp]: "module_plans (upd_check i f d) = module_plans d"
  by (simp add: upd_check_def)

lemma readable_cong:
  "page_checks d' = page_checks d \<Longrightarrow> module_plans d' = module_plans d \<Longrightarrow> readable d' = readable d"
  by (simp add: readable_def)

lemma readable_upd_check:
  "readable d \<Longrightarrow> (\<And>c. readable_check c \<Longrightarrow> readable_check (f c)) \<Longrightarrow> readable (upd_check i f d)"
  by (auto simp: readable_def upd_check_def upd_row_def)

lemma readable_refreshed:
  "readable_dependencies (Some deps) \<Longrightarrow> readable_schema (cd_assertion_schema c) \<Longrightarrow>
    readable_check (refresh_check c sig i deps row)"
  by (simp add: readable_check_def refresh_check_def)

lemma readable_reactivated [simp]: "readable_check (reactivate_check row) = readable_check row"
  by (simp add: readable_check_def reactivate_check_def)

lemma upsert_check_frame:
  assumes "upsert_check env f c d = (i, created, d')"
  shows "module_plans d' = module_plans d" and "readable d \<Longrightarrow> readable d'"
  using assms by (auto simp: upsert_check_def Let_def readable_def readable_check_def new_page_check_def
      split: option.splits)

lemma compile_check_total:
  assumes "pf_context f = page_context system p menus t dsig" "readable_schema (cd_assertion_schema c)"
    and "readable (ks_db ks)"
  obtains ks' where "compile_check env f c ks = Inr ks'" "readable (ks_db ks')" "adds_plans ks ks'"
proof -
  obtain plan where plan: "check_plan env f c = Inr plan" "list_all step_typed (mp_steps_json plan)"
    using check_plan_built [OF assms(1)] .
  then have steps: "list_all readable_step (mp_steps_json plan)"
    using typed_step_readable by (auto simp: list_all_iff)
  obtain deps where deps: "build_blocking_dependency_json (Some (map PDict (mp_steps_json plan)))
      (cd_assertion_schema c) = Inr deps" "readable_dependencies (Some deps)"
    using dependencies_built [OF steps assms(2)] .
  let ?d1 = "(ks_db ks)\<lparr>module_plans := module_plans (ks_db ks) @ [plan]\<rparr>"
  obtain i created d2 where up: "upsert_check env f c ?d1 = (i, created, d2)" by (metis surj_pair)
  let ?d3 = "upd_check i (refresh_check c (signature_or (pf_default_state f) (cd_state_signature c)) (mp_id plan) deps) d2"
  have "readable ?d1" using assms(3) steps by (auto simp: readable_def)
  then have d2: "readable d2" "module_plans d2 = module_plans (ks_db ks) @ [plan]"
    using upsert_check_frame [OF up] by simp_all
  have d3: "readable ?d3"
    by (rule readable_upd_check [OF d2(1)]) (rule readable_refreshed [OF deps(2) assms(2)])
  have d4: "readable (upd_check i reactivate_check ?d3)" by (rule readable_upd_check [OF d3]) simp
  obtain ks' where ks': "compile_check env f c ks = Inr ks'" by (simp add: compile_check_def plan(1) up deps(1) Let_def)
  have "readable (ks_db ks')"
    using ks' d3 d4 by (auto simp: compile_check_def plan(1) up deps(1) Let_def intro: readable_cong [THEN iffD2])
  moreover have "adds_plans ks ks'"
    using ks' d2(2) plan(2) by (auto simp: compile_check_def plan(1) up deps(1) Let_def adds_plans_def)
  ultimately show thesis using that ks' by blast
qed

subsection \<open>The first phase\<close>

lemma compile_checks_total:
  assumes "pf_context f = page_context system p menus t dsig" "readable (ks_db ks)"
    and "\<And>c. c \<in> set cs \<Longrightarrow> readable_schema (cd_assertion_schema c)"
  shows "\<exists>ks'. loop_raises (compile_check env f) cs ks = Inr ks' \<and> readable (ks_db ks') \<and> adds_plans ks ks'"
  using assms(2,3)
proof (induction cs arbitrary: ks)
  case (Cons c cs)
  have schema: "readable_schema (cd_assertion_schema c)" using Cons.prems(2) by simp
  obtain ks1 where ks1: "compile_check env f c ks = Inr ks1" "readable (ks_db ks1)" "adds_plans ks ks1"
    using compile_check_total [OF assms(1) schema Cons.prems(1)] .
  obtain ks2 where ks2: "loop_raises (compile_check env f) cs ks1 = Inr ks2" "readable (ks_db ks2)" "adds_plans ks1 ks2"
    using Cons.IH [OF ks1(2)] Cons.prems(2) by auto
  show ?case using ks1(1) ks2(1,2) adds_plans_trans [OF ks1(3) ks2(3)] by simp
qed simp

lemma upsert_asset_frame:
  assumes "upsert_asset env system snapshot p d = (i, created, d')"
  shows "module_plans d' = module_plans d \<and> page_checks d' = page_checks d"
  using assms by (auto simp: upsert_asset_def upd_asset_def Let_def split: option.splits)

lemma record_drift_frame:
  assumes "record_drift env snapshot p i fp d = (st, d')"
  shows "module_plans d' = module_plans d \<and> page_checks d' = page_checks d"
  using assms by (auto simp: record_drift_def upd_asset_def Let_def)

lemma compile_page_total:
  assumes "readable (ks_db ks)"
  shows "\<exists>ks'. compile_page env system snapshot menus elements p ks = Inr ks' \<and>
    readable (ks_db ks') \<and> adds_plans ks ks'"
proof -
  let ?dsig = "build_default_state_signature (pg_route_path p)"
  let ?es = "map (\<lambda>e. build_normalized_element e ?dsig) (values_at (group_by_page pe_page_id elements) (pg_id p))"
  let ?menus = "values_at (group_by_page mn_page_id menus) (Some (pg_id p))"
  let ?fp = "build_page_fingerprint (page_payload p ?menus ?es)"
  let ?table = "list_ex (\<lambda>e. normalize_text (dget e ''element_type'') = ''table'') ?es"
  obtain i created d1 where up: "upsert_asset env system snapshot p (ks_db ks) = (i, created, d1)"
    by (metis surj_pair)
  obtain st d2 where drift: "record_drift env snapshot p i ?fp d1 = (st, d2)" by (metis surj_pair)
  let ?f = "\<lparr>pf_system = system, pf_snapshot = snapshot, pf_page = p, pf_asset_id = i,
      pf_asset_key = build_asset_key (sys_code system) (pg_route_path p) (pg_page_title p),
      pf_default_state = ?dsig, pf_elements = ?es,
      pf_context = page_context system p ?menus ?table ?dsig\<rparr>"
  let ?ks1 = "ks\<lparr>ks_db := d2, ks_drift_states := ks_drift_states ks @ [st],
      ks_assets_updated := ks_assets_updated ks + (if created then 0 else 1)\<rparr>"
  note frame = upsert_asset_frame [OF up] record_drift_frame [OF drift]
  have r1: "readable (ks_db ?ks1)" using assms frame by (simp add: readable_def)
  have c: "pf_context ?f = page_context system p ?menus ?table ?dsig" by simp
  have "\<exists>ks2. loop_raises (compile_check env ?f) (page_checks_for p ?table ?dsig ?es) ?ks1 = Inr ks2 \<and>
      readable (ks_db ks2) \<and> adds_plans ?ks1 ks2"
    by (rule compile_checks_total [OF c r1]) (rule page_checks_readable)
  then obtain ks2 where ks2: "loop_raises (compile_check env ?f) (page_checks_for p ?table ?dsig ?es) ?ks1 = Inr ks2"
      "readable (ks_db ks2)" "adds_plans ?ks1 ks2"
    by (elim exE conjE) (rule that)
  obtain ks' where ks': "compile_page env system snapshot menus elements p ks = Inr ks'"
      "page_checks (ks_db ks') = page_checks (ks_db ks2)" "module_plans (ks_db ks') = module_plans (ks_db ks2)"
      "ks_checks_created ks' = ks_checks_created ks2" "ks_checks_updated ks' = ks_checks_updated ks2"
    using up drift ks2(1) by (simp add: compile_page_def Let_def replace_navigation_aliases_def)
  have "readable (ks_db ks')" using ks2(2) readable_cong [OF ks'(2,3)] by simp
  moreover have "adds_plans ks ks'"
    using ks2(3) frame ks'(3-5) by (simp add: adds_plans_def)
  ultimately show ?thesis using ks'(1) by blast
qed

lemma pages_total:
  assumes "readable (ks_db ks)"
  shows "\<exists>ks'. loop_raises (compile_page env system snapshot menus elements) ps ks = Inr ks' \<and>
    readable (ks_db ks') \<and> adds_plans ks ks'"
  using assms
proof (induction ps arbitrary: ks)
  case (Cons p ps)
  obtain ks1 where ks1: "compile_page env system snapshot menus elements p ks = Inr ks1" "readable (ks_db ks1)"
      "adds_plans ks ks1"
    using compile_page_total [OF Cons.prems] by blast
  then obtain ks2 where ks2: "loop_raises (compile_page env system snapshot menus elements) ps ks1 = Inr ks2"
      "readable (ks_db ks2)" "adds_plans ks1 ks2"
    using Cons.IH by blast
  show ?case using ks1(1) ks2(1,2) adds_plans_trans [OF ks1(3) ks2(3)] by simp
qed simp

subsection \<open>The second phase\<close>

definition readable_truth :: "active_check_truth \<Rightarrow> bool" where
  "readable_truth t = readable_dependencies (act_blocking_dependency_json t)"

lemma readable_stored:
  "readable d \<Longrightarrow> readable_dependencies (Some deps) \<Longrightarrow>
    readable (upd_check i (\<lambda>c. c\<lparr>pc_blocking_dependency_json := Some deps\<rparr>) d)"
  by (rule readable_upd_check) (simp_all add: readable_check_def)

lemma active_check_step_total:
  assumes "readable_check row" "\<forall>p \<in> set plans. list_all readable_step (mp_steps_json p)"
    and "readable d" "list_all readable_truth ts"
  shows "\<exists>ts' d'. active_check_step plans row (ts, d) = Inr (ts', d') \<and> readable d' \<and> list_all readable_truth ts'"
proof (cases "pc_blocking_dependency_json row")
  case (Some deps)
  then show ?thesis
    using assms by (simp add: active_check_step_def readable_check_def readable_truth_def)
next
  case None
  define steps where "steps = (case pc_module_plan_id row of None \<Rightarrow> []
    | Some i \<Rightarrow> (case find_row mp_id i plans of None \<Rightarrow> [] | Some p \<Rightarrow> mp_steps_json p))"
  have "list_all readable_step steps"
    using assms(2) by (auto simp: steps_def split: option.splits dest: find_row_Some_set)
  then obtain deps where deps: "build_blocking_dependency_json (Some (map PDict steps)) (pc_assertion_schema row) = Inr deps"
      "readable_dependencies (Some deps)"
    using dependencies_built assms(1) unfolding readable_check_def by blast
  then have "active_check_step plans row (ts, d) =
      Inr (ts @ [\<lparr>act_page_check_id = pc_id row, act_page_asset_id = pc_page_asset_id row,
                   act_blocking_dependency_json = Some deps\<rparr>],
           upd_check (pc_id row) (\<lambda>c. c\<lparr>pc_blocking_dependency_json := Some deps\<rparr>) d)"
    by (simp add: active_check_step_def None steps_def)
  then show ?thesis using readable_stored [OF assms(3) deps(2)] assms(4) deps(2) by (simp add: readable_truth_def)
qed

lemma active_checks_total:
  assumes "\<forall>row \<in> set rows. readable_check row" "\<forall>p \<in> set plans. list_all readable_step (mp_steps_json p)"
    and "readable d" "list_all readable_truth ts"
  shows "\<exists>ts' d'. loop_raises (active_check_step plans) rows (ts, d) = Inr (ts', d') \<and> readable d' \<and>
    list_all readable_truth ts'"
  using assms(1,3,4)
proof (induction rows arbitrary: ts d)
  case (Cons row rows)
  then have "readable_check row" by simp
  obtain ts1 d1 where "active_check_step plans row (ts, d) = Inr (ts1, d1)" "readable d1" "list_all readable_truth ts1"
    using active_check_step_total [OF \<open>readable_check row\<close> assms(2) Cons.prems(2,3)] by blast
  then show ?case using Cons.IH [of d1 ts1] Cons.prems(1) by simp
qed simp

lemma decisions_total:
  assumes "list_all readable_truth checks"
  shows "\<exists>ds. reconcile_retirement_decisions aps checks truth gate = Inr ds"
proof -
  have step: "\<exists>g'. check_group_step aps truth row g = Inr g'" if "readable_truth row" for row g
    using that by (auto simp: check_group_step_def readable_truth_def readable_dependencies_def Let_def
        split: sum.splits option.splits)
  have "\<exists>g'. loop_raises (check_group_step aps truth) checks g = Inr g'" for g
    using assms
  proof (induction checks arbitrary: g)
    case (Cons row checks)
    obtain g1 where "check_group_step aps truth row g = Inr g1" using step Cons.prems by auto
    then show ?case using Cons by simp
  qed simp
  then obtain g where "loop_raises (check_group_step aps truth) checks [] = Inr g" by blast
  then show ?thesis by (simp add: reconcile_retirement_decisions_def Let_def)
qed

lemma readable_retired [simp]: "readable_check (retire_check_row now sid reason row) = readable_check row"
  by (simp add: readable_check_def retire_check_row_def)

lemma retire_checks_readable:
  "readable (snd acc) \<Longrightarrow> readable (snd (fold (retire_check_step loaded now sid reason) is acc))"
proof (induction "is" arbitrary: acc)
  case (Cons i "is")
  have "readable (snd (retire_check_step loaded now sid reason i acc))"
    using Cons.prems by (cases acc) (auto simp: retire_check_step_def intro: readable_upd_check)
  then show ?case using Cons.IH by simp
qed simp

lemma retire_steps_readable:
  "readable (rt_db rt) \<Longrightarrow> readable (rt_db (fold (retire_step la lc now sid) decisions rt))"
proof (induction decisions arbitrary: rt)
  case (Cons x xs)
  let ?d1 = "if rd_reason x = ''missing_page'' \<and> retirable_asset la (rd_page_asset_id x) (rt_db rt)
      then upd_asset (rd_page_asset_id x) (retire_asset_row now sid) (rt_db rt) else rt_db rt"
  have "readable ?d1" using Cons.prems by (simp add: readable_def upd_asset_def)
  moreover have "rt_db (retire_step la lc now sid x rt) =
      snd (fold (retire_check_step lc now sid (rd_reason x)) (rd_page_check_ids x) ([], ?d1))"
    by (simp only: retire_step_def Let_def case_prod_beta retire_state.select_convs)
  ultimately have "readable (rt_db (retire_step la lc now sid x rt))"
    using retire_checks_readable [of "([], ?d1)"] by (simp only: snd_conv)
  then show ?case using Cons.IH by simp
qed simp

lemma reconcile_total:
  assumes "readable (ks_db ks)"
  shows "\<exists>res d'. reconcile env system snapshot truth gate ks = Inr (res, d') \<and> readable d'"
proof -
  let ?assets = "load_active_page_assets (sys_id system) (ks_db ks)"
  let ?checks = "load_active_page_checks (map pa_id ?assets) (ks_db ks)"
  let ?plans = "load_module_plans (List.map_filter pc_module_plan_id ?checks) (ks_db ks)"
  have rows: "\<forall>row \<in> set ?checks. readable_check row"
    using assms by (auto simp: load_active_page_checks_def readable_def)
  have plans: "\<forall>p \<in> set ?plans. list_all readable_step (mp_steps_json p)"
    using assms by (auto simp: load_module_plans_def readable_def)
  have "list_all readable_truth []" by simp
  then obtain ts d1 where loop: "loop_raises (active_check_step ?plans) ?checks ([], ks_db ks) = Inr (ts, d1)"
      "readable d1" "list_all readable_truth ts"
    using active_checks_total [OF rows plans assms] by blast
  obtain ds where ds: "reconcile_retirement_decisions (active_page_truths ?assets (ks_db ks)) ts truth gate = Inr ds"
    using decisions_total [OF loop(3)] by blast
  let ?rt = "fold (retire_step (map pa_id ?assets) (map pc_id ?checks) (ce_now env) (cs_id snapshot)) ds
      \<lparr>rt_db = d1, rt_asset_ids = [], rt_check_ids = [], rt_reasons = []\<rparr>"
  have "readable (rt_db ?rt)" by (rule retire_steps_readable) (simp add: loop(2))
  then show ?thesis using loop(1) ds by (simp add: reconcile_def Let_def readable_def)
qed

subsection \<open>A whole compilation\<close>

lemma switch_keeps_assets:
  assumes "apply_current_state_switch env i d = Inr (r, d')" "unique_active d" "distinct (snapshot_ids d)"
  shows "module_plans d' = module_plans d \<and> page_checks d' = page_checks d \<and> page_assets d' = page_assets d \<and>
    published_jobs d' = published_jobs d \<and> intent_aliases d' = intent_aliases d \<and> queued_jobs d' = queued_jobs d"
  using assms by (cases rule: switch_cases) (simp_all add: upd_snapshot_def promoted_db_def archived_db_def)

lemma compile_db_total:
  assumes "readable d" "unique_active d" "distinct (snapshot_ids d)"
    and "find_row cs_id sid (crawl_snapshots d) = Some before"
    and "find_row sys_id (cs_system_id before) (systems d) = Some system"
    and "apply_current_state_switch (ce_switch env) sid d = Inr (sw, d1)"
  shows "\<exists>res d'. compile_db env sid d = Inr (res, d') \<and> readable d' \<and> crawl_snapshots d' = crawl_snapshots d1"
proof -
  have r1: "readable d1"
    using switch_keeps_assets [OF assms(6,2,3)] assms(1) readable_cong by metis
  show ?thesis
  proof (cases "sw_outcome sw = ''promoted''")
    case False
    then show ?thesis using assms r1 by (simp add: compile_db_def)
  next
    case True
    obtain snapshot where snapshot: "find_row cs_id sid (crawl_snapshots d1) = Some snapshot"
      using promoted_is_active [OF assms(6,2,3) True] by blast
    have "readable (ks_db (start_state d1))" using r1 by (simp add: start_state_def)
    then obtain ks where ks: "compile_pages env system snapshot d1 = Inr ks" "readable (ks_db ks)"
      using pages_total unfolding compile_pages_def by blast
    let ?truth = "build_current_snapshot_truth (ordered_pages sid d1) (snapshot_menu_rows sid d1) (snapshot_element_rows sid d1)"
    obtain res d' where rec: "reconcile env system snapshot ?truth (quality_gate_of system snapshot ?truth d1) ks = Inr (res, d')"
        "readable d'"
      using reconcile_total [OF ks(2)] by blast
    have "grows d1 (ks_db ks)"
      using pages_loop_ok [OF ks(1) [unfolded compile_pages_def]] by (simp add: start_state_def)
    then have "crawl_snapshots d' = crawl_snapshots d1"
      using reconcile_ok [OF rec(1)] by (auto simp: grows_def same_facts_def)
    then show ?thesis using assms(4,5,6) True snapshot ks(1) rec by (simp add: compile_db_def Let_def)
  qed
qed

text \<open>In the model, whose text columns hold texts of any length and whose numbers do not overflow, a
  compilation raises only when the snapshot or its system is missing or the switch of the active
  snapshot raises: no page, plan, check or decision of it does, as long as what earlier compilations
  stored can be read; and after a successful compilation that, the index of active snapshots and
  their keys are as before.\<close>

theorem compilation_raises_only:
  assumes "readable d" "unique_active d" "distinct (snapshot_ids d)"
  shows "case compile_db env sid d of
      Inr (res, d') \<Rightarrow> readable d' \<and> unique_active d' \<and> snapshot_ids d' = snapshot_ids d
    | Inl e \<Rightarrow>
        (case find_row cs_id sid (crawl_snapshots d) of
           None \<Rightarrow> e = ''crawl snapshot '' @ uuid_str sid @ '' not found''
         | Some c \<Rightarrow>
             (case find_row sys_id (cs_system_id c) (systems d) of
                None \<Rightarrow> e = ''system '' @ uuid_str (cs_system_id c) @ '' not found''
              | Some system \<Rightarrow> apply_current_state_switch (ce_switch env) sid d = Inl e))"
proof (cases "find_row cs_id sid (crawl_snapshots d)")
  case None
  then show ?thesis by (simp add: compile_db_def)
next
  case (Some c)
  show ?thesis
  proof (cases "find_row sys_id (cs_system_id c) (systems d)")
    case None
    then show ?thesis using Some by (simp add: compile_db_def)
  next
    case sys: (Some system)
    show ?thesis
    proof (cases "apply_current_state_switch (ce_switch env) sid d")
      case (Inl e)
      then show ?thesis using Some sys by (simp add: compile_db_def)
    next
      case (Inr x)
      then obtain sw d1 where sw: "apply_current_state_switch (ce_switch env) sid d = Inr (sw, d1)" by (cases x) simp
      obtain res d' where run: "compile_db env sid d = Inr (res, d')" "readable d'" "crawl_snapshots d' = crawl_snapshots d1"
        using compile_db_total [OF assms Some sys sw] by blast
      have "unique_active d' \<and> snapshot_ids d' = snapshot_ids d"
        using switch_keeps_index [OF sw assms(2,3)] run(3) unique_active_cong [OF run(3)] by simp
      then show ?thesis using run by simp
    qed
  qed
qed

subsection \<open>An example\<close>

text \<open>A system with one page, whose snapshot is the active one already.\<close>

definition sample_system :: system_row where
  "sample_system = \<lparr>sys_id = 7, sys_code = ''erp'', sys_name = ''ERP'', sys_base_url = ''https://erp'', sys_framework_type = ''react''\<rparr>"

definition sample_compile_env :: compile_env where
  "sample_compile_env =
     \<lparr>ce_switch = sample_switch_env, ce_set_order = id, ce_asset_id = (\<lambda>p. p + 100),
      ce_asset_snapshot_id = (\<lambda>p. p + 200), ce_plan_id = (\<lambda>p code. 1000 * p + of_nat (length code)),
      ce_check_id = (\<lambda>p code. 2000 * p + of_nat (length code)), ce_intent_id = (\<lambda>p code n. 3000 * p + of_nat n),
      ce_navigation_id = (\<lambda>p n. 4000 * p + of_nat n), ce_audit_id = 5, ce_disabled_at = (\<lambda>p. datetime_min_utc),
      ce_now = datetime_min_utc, ce_audit_at = datetime_min_utc\<rparr>"

definition sample_compile_db :: db where
  "sample_compile_db = empty_db\<lparr>systems := [sample_system], crawl_snapshots := [sample_snapshot 1 ''active''],
     pages := [sample_page 11 1 ''/orders'']\<rparr>"

lemma sample_compile_rows:
  "find_row cs_id 1 (crawl_snapshots sample_compile_db) = Some (sample_snapshot 1 ''active'')"
  "active_snapshot (sample_snapshot 1 ''active'')"
  "find_row sys_id (cs_system_id (sample_snapshot 1 ''active'')) (systems sample_compile_db) = Some sample_system"
  "readable sample_compile_db" "unique_active sample_compile_db" "distinct (snapshot_ids sample_compile_db)"
  by (simp_all add: sample_compile_db_def empty_db_def sample_snapshot_def sample_system_def find_row_Cons
      active_snapshot_def readable_def unique_active_def)

theorem compilation_raises_only_witness:
  "\<exists>res d'. compile_db sample_compile_env 1 sample_compile_db = Inr (res, d') \<and> readable d'"
  using compilation_raises_only [OF sample_compile_rows(4-6), of 1 sample_compile_env]
    switch_active [OF sample_compile_rows(1,2), of "ce_switch sample_compile_env"]
  by (auto simp: sample_compile_rows(1,3) split: sum.splits)

subsection \<open>Compiling again\<close>

text \<open>The rows of assets and checks, and how the counters of a compilation follow them.\<close>

definition row_counts :: "db \<Rightarrow> nat \<times> nat" where
  "row_counts d = (length (page_assets d), length (page_checks d))"

definition uncounted_rows :: "compile_state \<Rightarrow> int \<times> int" where
  "uncounted_rows ks =
     (int (length (page_assets (ks_db ks))) - ks_assets_created ks,
      int (length (page_checks (ks_db ks))) - ks_checks_created ks)"

lemma loop_raises_measure:
  assumes "loop_raises body xs s = Inr s'" "\<And>x s s'. body x s = Inr s' \<Longrightarrow> m s' = m s"
  shows "m s' = m s"
  using assms(1)
proof (induction xs arbitrary: s)
  case (Cons x xs)
  then obtain s1 where "body x s = Inr s1" "loop_raises body xs s1 = Inr s'" by (auto split: sum.splits)
  then show ?case using Cons.IH assms(2) by metis
qed simp

lemma row_counts_simps [simp]:
  "row_counts (upd_asset i f d) = row_counts d" "row_counts (upd_check i g d) = row_counts d"
  "row_counts (upd_alias i h d) = row_counts d"
  "row_counts (d\<lparr>asset_snapshots := x1\<rparr>) = row_counts d" "row_counts (d\<lparr>module_plans := x2\<rparr>) = row_counts d"
  "row_counts (d\<lparr>intent_aliases := x3\<rparr>) = row_counts d"
  "row_counts (d\<lparr>page_navigation_aliases := x4\<rparr>) = row_counts d"
  "row_counts (d\<lparr>asset_reconciliation_audits := x5\<rparr>) = row_counts d"
  by (simp_all add: row_counts_def upd_asset_def upd_check_def upd_alias_def upd_row_def)

lemma row_counts_aliases [simp]:
  "row_counts (ensure_intent_aliases env system p key code d) = row_counts d"
  "row_counts (replace_navigation_aliases env pid sid aid snid drafts d) = row_counts d"
  by (simp_all add: ensure_intent_aliases_def ensure_intent_alias_def replace_navigation_aliases_def Let_def
      split: prod.split option.split)

lemma upsert_check_counts:
  "upsert_check env f c d = (i, created, d') \<Longrightarrow>
    row_counts d' = (fst (row_counts d), snd (row_counts d) + (if created then 1 else 0))"
  by (auto simp: upsert_check_def row_counts_def Let_def split: option.splits)

lemma upsert_asset_counts:
  "upsert_asset env system snapshot p d = (i, created, d') \<Longrightarrow>
    row_counts d' = (fst (row_counts d) + (if created then 1 else 0), snd (row_counts d))"
  by (auto simp: upsert_asset_def row_counts_def upd_asset_def upd_row_def Let_def split: option.splits)

lemma record_drift_counts: "record_drift env snapshot p i fp d = (st, d') \<Longrightarrow> row_counts d' = row_counts d"
  by (auto simp: record_drift_def Let_def)

lemma uncounted_rows_counts:
  "uncounted_rows ks =
     (int (fst (row_counts (ks_db ks))) - ks_assets_created ks, int (snd (row_counts (ks_db ks))) - ks_checks_created ks)"
  by (simp add: uncounted_rows_def row_counts_def)

lemma compile_check_counts:
  assumes "compile_check env f c ks = Inr ks'"
  shows "uncounted_rows ks' = uncounted_rows ks"
proof -
  obtain plan where plan: "check_plan env f c = Inr plan"
    using assms by (auto simp: compile_check_def split: sum.splits)
  let ?d1 = "(ks_db ks)\<lparr>module_plans := module_plans (ks_db ks) @ [plan]\<rparr>"
  obtain i created d2 where up: "upsert_check env f c ?d1 = (i, created, d2)" by (metis surj_pair)
  have "row_counts (ks_db ks') = row_counts d2 \<and> ks_assets_created ks' = ks_assets_created ks \<and>
      ks_checks_created ks' = ks_checks_created ks + (if created then 1 else 0)"
    using assms plan up by (auto simp: compile_check_def Let_def split: sum.splits)
  then show ?thesis
    using upsert_check_counts [OF up] by (simp add: uncounted_rows_counts)
qed

lemma compile_page_counts:
  assumes "compile_page env system snapshot menus elements p ks = Inr ks'"
  shows "uncounted_rows ks' = uncounted_rows ks"
proof -
  obtain i created d1 where up: "upsert_asset env system snapshot p (ks_db ks) = (i, created, d1)"
    by (metis surj_pair)
  let ?dsig = "build_default_state_signature (pg_route_path p)"
  let ?es = "map (\<lambda>e. build_normalized_element e ?dsig) (values_at (group_by_page pe_page_id elements) (pg_id p))"
  let ?menus = "values_at (group_by_page mn_page_id menus) (Some (pg_id p))"
  let ?fp = "build_page_fingerprint (page_payload p ?menus ?es)"
  let ?table = "list_ex (\<lambda>e. normalize_text (dget e ''element_type'') = ''table'') ?es"
  obtain st d2 where drift: "record_drift env snapshot p i ?fp d1 = (st, d2)" by (metis surj_pair)
  let ?f = "\<lparr>pf_system = system, pf_snapshot = snapshot, pf_page = p, pf_asset_id = i,
      pf_asset_key = build_asset_key (sys_code system) (pg_route_path p) (pg_page_title p),
      pf_default_state = ?dsig, pf_elements = ?es,
      pf_context = page_context system p ?menus ?table ?dsig\<rparr>"
  let ?ks1 = "ks\<lparr>ks_db := d2, ks_drift_states := ks_drift_states ks @ [st],
      ks_assets_updated := ks_assets_updated ks + (if created then 0 else 1)\<rparr>"
  obtain ks2 where loop: "loop_raises (compile_check env ?f) (page_checks_for p ?table ?dsig ?es) ?ks1 = Inr ks2"
    using assms up drift by (auto simp: compile_page_def Let_def split: sum.splits)
  have ks': "row_counts (ks_db ks') = row_counts (ks_db ks2)"
      "ks_assets_created ks' = ks_assets_created ks2 + (if created then 1 else 0)"
      "ks_checks_created ks' = ks_checks_created ks2"
    using assms up drift loop by (auto simp: compile_page_def Let_def)
  have "uncounted_rows ks2 = uncounted_rows ?ks1"
    by (rule loop_raises_measure [OF loop]) (rule compile_check_counts)
  then show ?thesis
    using upsert_asset_counts [OF up] record_drift_counts [OF drift] ks'
    by (cases created) (simp_all add: uncounted_rows_counts)
qed

lemma retire_step_counts: "row_counts (rt_db (retire_step la lc now sid decision rt)) = row_counts (rt_db rt)"
proof -
  have "row_counts (snd (fold (retire_check_step lc now sid reason) is acc)) = row_counts (snd acc)" for reason "is" acc
  proof (induction "is" arbitrary: acc)
    case (Cons i "is")
    have "row_counts (snd (retire_check_step lc now sid reason i acc)) = row_counts (snd acc)"
      by (simp add: retire_check_step_def split: prod.split)
    then show ?case using Cons.IH by simp
  qed simp
  then show ?thesis
    by (simp add: retire_step_def Let_def case_prod_beta)
qed

lemma reconcile_counts:
  assumes "reconcile env system snapshot truth gate ks = Inr (res, d')"
  shows "row_counts d' = row_counts (ks_db ks)"
proof -
  obtain plans rows ts d1 where loop: "loop_raises (active_check_step plans) rows ([], ks_db ks) = Inr (ts, d1)"
    and d': "\<exists>la lc ds audits. d' = (rt_db (fold (retire_step la lc (ce_now env) (cs_id snapshot)) ds
        \<lparr>rt_db = d1, rt_asset_ids = [], rt_check_ids = [], rt_reasons = []\<rparr>))\<lparr>asset_reconciliation_audits := audits\<rparr>"
    using assms by (fastforce simp: reconcile_def Let_def split: sum.splits prod.splits)
  have "row_counts (rt_db (fold (retire_step la lc now sid) ds rt)) = row_counts (rt_db rt)" for la lc now sid ds rt
    by (induction ds arbitrary: rt) (simp_all add: retire_step_counts)
  then have "row_counts d' = row_counts d1" using d' by auto
  moreover have "row_counts (snd x') = row_counts (snd x)" if "active_check_step plans row x = Inr x'" for plans row x x'
    using that by (cases x) (auto simp: active_check_step_def Let_def split: option.splits sum.splits prod.splits)
  then have "row_counts d1 = row_counts (ks_db ks)"
    using loop_raises_measure [OF loop, where m = "\<lambda>x. row_counts (snd x)"] by simp
  ultimately show ?thesis by simp
qed

text \<open>C34: a compilation that is repeated for a promoted snapshot, with any clock and any keys, adds no
  asset and no check to the tables, and counts none as created: every page finds the asset of its key
  and each of its checks, whose rows keep their ids, owners and codes.\<close>

theorem recompile_creates_nothing:
  assumes "compile_db env sid d = Inr (res, d')" "cx_switch_outcome res = ''promoted''"
    and "unique_active d" "distinct (snapshot_ids d)"
    and "compile_db env2 sid d' = Inr (res2, d2)"
  shows "cx_assets_created res2 = 0 \<and> cx_checks_created res2 = 0 \<and> cx_switch_outcome res2 = ''promoted'' \<and>
    map (\<lambda>a. (pa_id a, pa_system_id a, pa_asset_key a)) (page_assets d2) =
      map (\<lambda>a. (pa_id a, pa_system_id a, pa_asset_key a)) (page_assets d') \<and>
    map (\<lambda>c. (pc_id c, pc_page_asset_id c, pc_check_code c)) (page_checks d2) =
      map (\<lambda>c. (pc_id c, pc_page_asset_id c, pc_check_code c)) (page_checks d')"
proof -
  obtain snapshot system where left: "find_row cs_id sid (crawl_snapshots d') = Some snapshot" "active_snapshot snapshot"
      "find_row sys_id (cs_system_id snapshot) (systems d') = Some system"
      "\<forall>p \<in> set (ordered_pages sid d'). compiled system (snapshot_element_rows sid d') p d'"
    using compile_db_leaves [OF assms(1-4)] by blast
  note switch = switch_active [OF left(1,2), of "ce_switch env2"]
  have promoted: "cx_switch_outcome res2 = ''promoted''"
    using compile_db_outcome [OF assms(5) switch] by simp
  obtain system2 snapshot2 sw2 d12 ks2 where again:
      "apply_current_state_switch (ce_switch env2) sid d' = Inr (sw2, d12)" "cs_id snapshot2 = sid"
      "\<exists>before. find_row cs_id sid (crawl_snapshots d') = Some before \<and> find_row sys_id (cs_system_id before) (systems d') = Some system2"
      "compile_pages env2 system2 snapshot2 d12 = Inr ks2"
      "\<exists>truth gate. reconcile env2 system2 snapshot2 truth gate ks2 = Inr (res2, d2)"
    using compile_db_promoted [OF assms(5) promoted] by metis
  have same: "d12 = d'" "system2 = system" using again(1,3) switch left(1,3) by auto
  note loop = again(4) [unfolded compile_pages_def same]
  have created: "ks_assets_created ks2 = 0" "ks_checks_created ks2 = 0" and g1: "grows d' (ks_db ks2)"
    using pages_loop_ok [OF loop] left(4) again(2) by (simp_all add: start_state_def)
  have "uncounted_rows ks2 = uncounted_rows (start_state d')"
    by (rule loop_raises_measure [OF loop]) (rule compile_page_counts)
  then have "row_counts (ks_db ks2) = row_counts d'"
    using created by (simp add: uncounted_rows_counts start_state_def prod_eq_iff)
  then have counts: "row_counts d2 = row_counts d'"
    using again(5) reconcile_counts by metis
  obtain d0 a where d0: "grows (ks_db ks2) d0" "d2 = d0\<lparr>asset_reconciliation_audits := a\<rparr>"
    using again(5) reconcile_ok by blast
  have "grows d' d0" using g1 d0(1) by (rule grows_trans)
  then obtain as cs where new: "map asset_ident (page_assets d2) = map asset_ident (page_assets d') @ as"
      "map check_ident (page_checks d2) = map check_ident (page_checks d') @ cs"
    by (auto simp: grows_def d0(2))
  have "as = [] \<and> cs = []"
    using new [THEN arg_cong [where f = length]] counts by (simp add: row_counts_def)
  then have "map asset_ident (page_assets d2) = map asset_ident (page_assets d')"
    "map check_ident (page_checks d2) = map check_ident (page_checks d')" using new by simp_all
  moreover have "cx_assets_created res2 = 0 \<and> cx_checks_created res2 = 0"
    using again(5) reconcile_ok created by metis
  ultimately show ?thesis using promoted by (simp add: asset_ident_def [abs_def] check_ident_def [abs_def])
qed

theorem recompile_creates_nothing_witness:
  "\<exists>res d' res2 d2. compile_db sample_compile_env 1 sample_compile_db = Inr (res, d') \<and>
     compile_db sample_compile_env 1 d' = Inr (res2, d2) \<and> cx_assets_created res2 = 0"
proof -
  let ?env = sample_compile_env
  note rows = sample_compile_rows
  note switch = switch_active [OF rows(1,2), of "ce_switch ?env"]
  obtain res d' where run: "compile_db ?env 1 sample_compile_db = Inr (res, d')" "readable d'"
      "crawl_snapshots d' = crawl_snapshots sample_compile_db"
    using compile_db_total [OF rows(4-6,1,3) switch] by blast
  have promoted: "cx_switch_outcome res = ''promoted''" using compile_db_outcome [OF run(1) switch] by simp
  have s: "find_row cs_id 1 (crawl_snapshots d') = Some (sample_snapshot 1 ''active'')"
    using rows(1) run(3) by simp
  then obtain system where system: "find_row sys_id (cs_system_id (sample_snapshot 1 ''active'')) (systems d') = Some system"
    using compile_db_leaves [OF run(1) promoted rows(5,6)] by auto
  have u: "unique_active d'" "distinct (snapshot_ids d')"
    using rows(5,6) run(3) by (simp_all add: unique_active_def)
  obtain res2 d2 where again: "compile_db ?env 1 d' = Inr (res2, d2)"
    using compile_db_total [OF run(2) u s system switch_active [OF s rows(2)]] by blast
  then show ?thesis using recompile_creates_nothing [OF run(1) promoted rows(5,6) again] run(1) by blast
qed

end
