(* ===== verification/CompileDecisions.thy ===== *)
theory CompileDecisions
  imports CompileTotal
begin

section \<open>Retired checks and their published jobs\<close>

text \<open>
  A compilation retires checks, brings others back, and tells the control plane which published jobs
  to pause and to resume. Here the lifecycle of a check is followed through both phases and through
  the cascades, to relate it to the state of its jobs when the compile job has completed.
\<close>

subsection \<open>The lifecycle of a check\<close>

definition life :: "uuid \<Rightarrow> db \<Rightarrow> asset_lifecycle_status option" where
  "life c d = map_option pc_lifecycle_status (find_row pc_id c (page_checks d))"

lemma life_cong: "page_checks d' = page_checks d \<Longrightarrow> life c d' = life c d"
  by (simp add: life_def)

lemma life_upd_check:
  assumes "\<And>row. pc_id (f row) = pc_id row"
  shows "life c (upd_check i f d) =
    (if c = i then map_option (pc_lifecycle_status \<circ> f) (find_row pc_id c (page_checks d)) else life c d)"
  by (simp add: life_def upd_check_def find_upd_row [where key = pc_id, OF assms] option.map_comp)

lemma check_row_fields [simp]:
  "pc_id (refresh_check cd sig i deps row) = pc_id row" "pc_id (reactivate_check row) = pc_id row"
  "pc_id (retire_check_row now sid reason row) = pc_id row"
  "pc_lifecycle_status (refresh_check cd sig i deps row) = pc_lifecycle_status row"
  "pc_lifecycle_status (reactivate_check row) = LifecycleActive"
  "pc_lifecycle_status (retire_check_row now sid reason row) = RetiredMissing"
  by (simp_all add: refresh_check_def reactivate_check_def retire_check_row_def)

text \<open>What the first phase does: a check keeps its lifecycle or is brought back, which is recorded.\<close>

definition revives :: "compile_state \<Rightarrow> compile_state \<Rightarrow> bool" where
  "revives ks ks' \<longleftrightarrow> set (ks_reactivated_check_ids ks) \<subseteq> set (ks_reactivated_check_ids ks') \<and>
     (\<forall>c l. life c (ks_db ks) = Some l \<longrightarrow> life c (ks_db ks') = Some l \<or>
        life c (ks_db ks') = Some LifecycleActive \<and> c \<in> set (ks_reactivated_check_ids ks'))"

lemma revives_refl [simp]: "revives ks ks"
  by (simp add: revives_def)

lemma revives_trans:
  assumes "revives a b" "revives b c" shows "revives a c"
proof -
  have "life k (ks_db c) = Some l \<or> life k (ks_db c) = Some LifecycleActive \<and> k \<in> set (ks_reactivated_check_ids c)"
    if k: "life k (ks_db a) = Some l" for k l
  proof (cases "life k (ks_db b) = Some l")
    case True
    then show ?thesis using assms(2) by (simp add: revives_def)
  next
    case False
    then have "life k (ks_db b) = Some LifecycleActive" "k \<in> set (ks_reactivated_check_ids b)"
      using assms(1) k unfolding revives_def by blast+
    then show ?thesis using assms(2) unfolding revives_def by blast
  qed
  then show ?thesis using assms unfolding revives_def by blast
qed

lemma revives_same:
  "page_checks (ks_db ks') = page_checks (ks_db ks) \<Longrightarrow>
    ks_reactivated_check_ids ks' = ks_reactivated_check_ids ks \<Longrightarrow> revives ks ks'"
  by (simp add: revives_def life_def)

lemma upsert_check_life:
  assumes "upsert_check env f c d = (i, created, d')" "life k d = Some l" shows "life k d' = Some l"
  using assms by (auto simp: upsert_check_def life_def find_row_append Let_def split: option.splits)

lemma compile_check_revives:
  assumes "compile_check env f c ks = Inr ks'" shows "revives ks ks'"
proof -
  obtain plan where plan: "check_plan env f c = Inr plan"
    using assms by (auto simp: compile_check_def split: sum.splits)
  let ?d1 = "(ks_db ks)\<lparr>module_plans := module_plans (ks_db ks) @ [plan]\<rparr>"
  obtain i created d2 where up: "upsert_check env f c ?d1 = (i, created, d2)" by (metis surj_pair)
  obtain deps where deps: "build_blocking_dependency_json (Some (map PDict (mp_steps_json plan)))
      (cd_assertion_schema c) = Inr deps"
    using assms plan up by (auto simp: compile_check_def Let_def split: sum.splits)
  let ?d3 = "upd_check i (refresh_check c (signature_or (pf_default_state f) (cd_state_signature c)) (mp_id plan) deps) d2"
  let ?revive = "is_high_quality_full_snapshot (pf_snapshot f) \<and> check_is_retired i ?d3"
  let ?d4 = "if ?revive then upd_check i reactivate_check ?d3 else ?d3"
  have ks': "page_checks (ks_db ks') = page_checks ?d4"
      "ks_reactivated_check_ids ks' = ks_reactivated_check_ids ks @ (if ?revive then [i] else [])"
    using assms plan up deps by (auto simp: compile_check_def Let_def)
  have "life k (ks_db ks') = Some l \<or>
      life k (ks_db ks') = Some LifecycleActive \<and> k \<in> set (ks_reactivated_check_ids ks')"
    if k: "life k (ks_db ks) = Some l" for k l
  proof -
    have "life k ?d1 = Some l" using k by (simp add: life_def)
    then have "life k d2 = Some l" by (rule upsert_check_life [OF up])
    then have d3: "life k ?d3 = Some l" by (auto simp: life_upd_check) (auto simp: life_def)
    have "life k (upd_check i reactivate_check ?d3) = (if k = i then Some LifecycleActive else Some l)"
      using d3 by (auto simp: life_upd_check [where f = reactivate_check]) (auto simp: life_def)
    then show ?thesis using d3 life_cong [OF ks'(1), of k] ks'(2) by auto
  qed
  then show ?thesis using ks'(2) by (auto simp: revives_def)
qed

lemma compile_checks_revive: "loop_raises (compile_check env f) cs ks = Inr ks' \<Longrightarrow> revives ks ks'"
proof (induction cs arbitrary: ks)
  case (Cons c cs)
  then obtain ks1 where "compile_check env f c ks = Inr ks1" "loop_raises (compile_check env f) cs ks1 = Inr ks'"
    by (auto split: sum.splits)
  then show ?case using Cons.IH compile_check_revives revives_trans by blast
qed simp

lemma compile_page_revives:
  assumes "compile_page env system snapshot menus elements p ks = Inr ks'" shows "revives ks ks'"
proof -
  obtain i created d1 where up: "upsert_asset env system snapshot p (ks_db ks) = (i, created, d1)"
    by (metis surj_pair)
  let ?es = "map (\<lambda>e. build_normalized_element e (build_default_state_signature (pg_route_path p)))
    (values_at (group_by_page pe_page_id elements) (pg_id p))"
  let ?menus = "values_at (group_by_page mn_page_id menus) (Some (pg_id p))"
  obtain st d2 where drift:
      "record_drift env snapshot p i (build_page_fingerprint (page_payload p ?menus ?es)) d1 = (st, d2)"
    by (metis surj_pair)
  let ?ks1 = "ks\<lparr>ks_db := d2, ks_drift_states := ks_drift_states ks @ [st],
      ks_assets_updated := ks_assets_updated ks + (if created then 0 else 1)\<rparr>"
  obtain f cs ks2 where loop: "loop_raises (compile_check env f) cs ?ks1 = Inr ks2"
      "page_checks (ks_db ks') = page_checks (ks_db ks2)"
      "ks_reactivated_check_ids ks' = ks_reactivated_check_ids ks2"
    using assms up drift
    by (auto simp: compile_page_def Let_def replace_navigation_aliases_def split: sum.splits)
  have "revives ks ?ks1"
    by (rule revives_same) (simp_all add: upsert_asset_frame [OF up] record_drift_frame [OF drift])
  moreover have "revives ?ks1 ks2" by (rule compile_checks_revive [OF loop(1)])
  moreover have "revives ks2 ks'" by (rule revives_same [OF loop(2,3)])
  ultimately show ?thesis using revives_trans by blast
qed

lemma pages_revive: "loop_raises (compile_page env system snapshot menus elements) ps ks = Inr ks' \<Longrightarrow> revives ks ks'"
proof (induction ps arbitrary: ks)
  case (Cons p ps)
  then obtain ks1 where "compile_page env system snapshot menus elements p ks = Inr ks1"
      "loop_raises (compile_page env system snapshot menus elements) ps ks1 = Inr ks'"
    by (auto split: sum.splits)
  then show ?case using Cons.IH compile_page_revives revives_trans by blast
qed simp

subsection \<open>What the second phase retires\<close>

text \<open>The checks retired so far are retired, every other check is as it was.\<close>

definition retired_in :: "db \<Rightarrow> uuid list \<Rightarrow> db \<Rightarrow> bool" where
  "retired_in d0 ids d \<longleftrightarrow>
     (\<forall>c. life c d = (if c \<in> set ids then Some RetiredMissing else life c d0))"

lemma retired_in_cong: "page_checks d' = page_checks d \<Longrightarrow> retired_in d0 ids d' = retired_in d0 ids d"
  by (simp add: retired_in_def life_def)

lemma retire_check_step_lives:
  assumes "retired_in d0 (ids @ fst acc) (snd acc)"
  shows "retired_in d0 (ids @ fst (retire_check_step loaded now sid reason i acc))
    (snd (retire_check_step loaded now sid reason i acc))"
proof (cases "retirable_check loaded i (snd acc)")
  case True
  then obtain row where "find_row pc_id i (page_checks (snd acc)) = Some row"
    by (auto simp: retirable_check_def split: option.splits)
  then have "life c (upd_check i (retire_check_row now sid reason) (snd acc)) =
      (if c = i then Some RetiredMissing else life c (snd acc))" for c
    by (simp add: life_upd_check)
  then show ?thesis
    using True assms by (simp add: retire_check_step_def case_prod_beta retired_in_def)
next
  case False
  then show ?thesis using assms by (simp add: retire_check_step_def case_prod_beta)
qed

lemma retire_checks_lives:
  "retired_in d0 (ids @ fst acc) (snd acc) \<Longrightarrow>
    retired_in d0 (ids @ fst (fold (retire_check_step loaded now sid reason) cs acc))
      (snd (fold (retire_check_step loaded now sid reason) cs acc))"
proof (induction cs arbitrary: acc)
  case (Cons c cs)
  show ?case using Cons.IH [OF retire_check_step_lives [OF Cons.prems]] by simp
qed simp

lemma retire_step_lives:
  assumes "retired_in d0 (rt_check_ids rt) (rt_db rt)"
  shows "retired_in d0 (rt_check_ids (retire_step la lc now sid x rt)) (rt_db (retire_step la lc now sid x rt))"
proof -
  let ?d1 = "if rd_reason x = ''missing_page'' \<and> retirable_asset la (rd_page_asset_id x) (rt_db rt)
      then upd_asset (rd_page_asset_id x) (retire_asset_row now sid) (rt_db rt) else rt_db rt"
  let ?f = "fold (retire_check_step lc now sid (rd_reason x)) (rd_page_check_ids x) ([], ?d1)"
  have "retired_in d0 (rt_check_ids rt) ?d1" using assms retired_in_cong [of ?d1 "rt_db rt"] by (simp add: upd_asset_def)
  then have "retired_in d0 (rt_check_ids rt @ fst ?f) (snd ?f)" by (intro retire_checks_lives) simp
  moreover have "rt_db (retire_step la lc now sid x rt) = snd ?f"
      "rt_check_ids (retire_step la lc now sid x rt) = rt_check_ids rt @ fst ?f"
    by (simp_all only: retire_step_def Let_def case_prod_beta retire_state.select_convs)
  ultimately show ?thesis by simp
qed

lemma retire_steps_lives:
  "retired_in d0 (rt_check_ids rt) (rt_db rt) \<Longrightarrow>
    retired_in d0 (rt_check_ids (fold (retire_step la lc now sid) xs rt)) (rt_db (fold (retire_step la lc now sid) xs rt))"
proof (induction xs arbitrary: rt)
  case (Cons x xs)
  show ?case using Cons.IH [OF retire_step_lives [OF Cons.prems]] by simp
qed simp

lemma active_check_steps_life:
  "loop_raises (active_check_step plans) rows (ts, d) = Inr (ts', d') \<Longrightarrow> life c d' = life c d"
proof (induction rows arbitrary: ts d)
  case (Cons row rows)
  then obtain ts1 d1 where step: "active_check_step plans row (ts, d) = Inr (ts1, d1)"
      "loop_raises (active_check_step plans) rows (ts1, d1) = Inr (ts', d')"
    by (auto split: sum.splits)
  have stored: "life c (upd_check i (\<lambda>c. c\<lparr>pc_blocking_dependency_json := Some x\<rparr>) d) = life c d" for i x
    by (auto simp: life_upd_check) (simp add: life_def comp_def)
  have "d1 = d \<or> (\<exists>i x. d1 = upd_check i (\<lambda>c. c\<lparr>pc_blocking_dependency_json := Some x\<rparr>) d)"
    using step(1) by (auto simp: active_check_step_def Let_def split: option.splits sum.splits)
  then have "life c d1 = life c d" using stored by auto
  then show ?case using Cons.IH [OF step(2)] by simp
qed simp

text \<open>The decisions on published jobs, with the lifecycles they rest on.\<close>

definition jobs_to_pause :: "uuid list \<Rightarrow> published_job list \<Rightarrow> uuid list" where
  "jobs_to_pause checks jobs =
     map pj_id (sort_key (\<lambda>j. uint (pj_id j)) (filter (\<lambda>j. pj_page_check_id j \<in> set checks \<and> pj_state j = JobActive) jobs))"

definition jobs_to_resume :: "uuid list \<Rightarrow> published_job list \<Rightarrow> uuid list" where
  "jobs_to_resume checks jobs =
     map pj_id (filter is_system_paused_job
       (sort_key (\<lambda>j. uint (pj_id j)) (filter (\<lambda>j. pj_page_check_id j \<in> set checks \<and> pj_state j = JobPaused) jobs)))"

lemma reconcile_lives:
  assumes "reconcile env system snapshot truth gate ks = Inr (res, d')"
  shows "\<exists>retired resumed. retired_in (ks_db ks) retired d' \<and>
    set resumed = set (ks_reactivated_check_ids ks) - set retired \<and>
    cx_published_job_ids_to_pause res = jobs_to_pause retired (published_jobs (ks_db ks)) \<and>
    cx_published_job_ids_to_resume res = jobs_to_resume resumed (published_jobs (ks_db ks)) \<and>
    published_jobs d' = published_jobs (ks_db ks) \<and> queued_jobs d' = queued_jobs (ks_db ks)"
proof -
  let ?assets = "load_active_page_assets (sys_id system) (ks_db ks)"
  let ?checks = "load_active_page_checks (map pa_id ?assets) (ks_db ks)"
  let ?plans = "load_module_plans (List.map_filter pc_module_plan_id ?checks) (ks_db ks)"
  obtain ts d1 where loop: "loop_raises (active_check_step ?plans) ?checks ([], ks_db ks) = Inr (ts, d1)"
    using assms by (auto simp: reconcile_def Let_def split: sum.splits prod.splits)
  obtain decisions where dec: "reconcile_retirement_decisions (active_page_truths ?assets (ks_db ks)) ts truth gate =
      Inr decisions"
    using assms loop by (auto simp: reconcile_def Let_def split: sum.splits)
  let ?rt0 = "\<lparr>rt_db = d1, rt_asset_ids = [], rt_check_ids = [], rt_reasons = []\<rparr>"
  define rt where "rt = fold (retire_step (map pa_id ?assets) (map pc_id ?checks) (ce_now env) (cs_id snapshot)) decisions ?rt0"
  define dc where "dc = decide ?assets ?checks (ks_reactivated_check_ids ks) rt"
  have eq: "res = compiled_result (cs_id snapshot) ks dc (retire_reasons dc gate rt)"
      "d' = (rt_db rt)\<lparr>asset_reconciliation_audits := asset_reconciliation_audits (rt_db rt) @
              [new_audit env (cs_id snapshot) dc (retire_reasons dc gate rt)]\<rparr>"
    using assms loop dec by (simp_all add: reconcile_def Let_def rt_def dc_def)
  have "retired_in (ks_db ks) (rt_check_ids ?rt0) (rt_db ?rt0)"
    using active_check_steps_life [OF loop] by (simp add: retired_in_def)
  then have "retired_in (ks_db ks) (rt_check_ids rt) (rt_db rt)" unfolding rt_def by (rule retire_steps_lives)
  then have lives: "retired_in (ks_db ks) (dedupe_uuids (rt_check_ids rt)) d'"
    by (simp add: eq(2) retired_in_def life_def)
  have "grows (ks_db ks) (rt_db rt)"
    using active_check_steps_grow [OF loop] retire_steps_grow [of ?rt0] grows_trans unfolding rt_def by simp
  then have jobs: "published_jobs (rt_db rt) = published_jobs (ks_db ks)" "queued_jobs (rt_db rt) = queued_jobs (ks_db ks)"
    by (simp_all add: grows_def same_facts_def)
  let ?resumed = "filter (\<lambda>i. i \<notin> set (dedupe_uuids (rt_check_ids rt))) (dedupe_uuids (ks_reactivated_check_ids ks))"
  show ?thesis
    by (intro exI [where x = "dedupe_uuids (rt_check_ids rt)"] exI [where x = ?resumed])
      (use lives jobs in \<open>auto simp: eq compiled_result_def dc_def decide_def Let_def jobs_to_pause_def
        jobs_to_resume_def query_published_jobs_to_pause_def query_published_jobs_to_resume_def jobs_of_checks_def\<close>)
qed

subsection \<open>A compilation, its cascades and the job\<close>

text \<open>What a compilation does to the checks that exist, in terms of two disjoint sets of checks.\<close>

definition check_moves :: "db \<Rightarrow> db \<Rightarrow> uuid list \<Rightarrow> uuid list \<Rightarrow> bool" where
  "check_moves d d' retired resumed \<longleftrightarrow> set retired \<inter> set resumed = {} \<and>
     (\<forall>c l. life c d = Some l \<longrightarrow> life c d' \<noteq> None \<and>
        (l = LifecycleActive \<and> life c d' \<noteq> Some LifecycleActive \<longrightarrow> c \<in> set retired) \<and>
        (l \<noteq> LifecycleActive \<and> life c d' = Some LifecycleActive \<longrightarrow> c \<in> set resumed))"

lemma check_moves_cong:
  "page_checks d1 = page_checks d \<Longrightarrow> check_moves d1 d' retired resumed = check_moves d d' retired resumed"
  "page_checks d2 = page_checks d' \<Longrightarrow> check_moves d d2 retired resumed = check_moves d d' retired resumed"
  by (simp_all add: check_moves_def life_def)

lemma phases_move:
  assumes "revives ks0 ks" "ks_reactivated_check_ids ks0 = []" "retired_in (ks_db ks) retired d'"
    and "set resumed = set (ks_reactivated_check_ids ks) - set retired"
  shows "check_moves (ks_db ks0) d' retired resumed"
  unfolding check_moves_def
proof (intro conjI allI impI)
  fix c l assume c: "life c (ks_db ks0) = Some l"
  then have first: "life c (ks_db ks) = Some l \<or>
      life c (ks_db ks) = Some LifecycleActive \<and> c \<in> set (ks_reactivated_check_ids ks)"
    using assms(1) unfolding revives_def by blast
  have second: "life c d' = (if c \<in> set retired then Some RetiredMissing else life c (ks_db ks))"
    using assms(3) unfolding retired_in_def by blast
  show "life c d' \<noteq> None" using first second by auto
  show "c \<in> set retired" if "l = LifecycleActive \<and> life c d' \<noteq> Some LifecycleActive"
    using that first second by (cases "c \<in> set retired") auto
  show "c \<in> set resumed" if "l \<noteq> LifecycleActive \<and> life c d' = Some LifecycleActive"
    using that first second assms(4) by (cases "c \<in> set retired") auto
qed (use assms(4) in auto)

lemma compile_db_moves:
  assumes "compile_db env sid d = Inr (res, d')" "unique_active d" "distinct (snapshot_ids d)"
  shows "\<exists>retired resumed. check_moves d d' retired resumed \<and>
    published_jobs d' = published_jobs d \<and> queued_jobs d' = queued_jobs d \<and>
    cx_published_job_ids_to_pause res = jobs_to_pause retired (published_jobs d) \<and>
    cx_published_job_ids_to_resume res = jobs_to_resume resumed (published_jobs d)"
proof (cases "cx_switch_outcome res = ''promoted''")
  case True
  obtain system snapshot sw d1 ks where first: "apply_current_state_switch (ce_switch env) sid d = Inr (sw, d1)"
      "compile_pages env system snapshot d1 = Inr ks"
      "\<exists>truth gate. reconcile env system snapshot truth gate ks = Inr (res, d')"
    using compile_db_setup [OF assms(1) True assms(2,3)] by metis
  note kept = switch_keeps_assets [OF first(1) assms(2,3)]
  have loop: "revives (start_state d1) ks" "grows d1 (ks_db ks)"
    using pages_revive [OF first(2) [unfolded compile_pages_def]] pages_loop_ok [OF first(2) [unfolded compile_pages_def]]
    by (simp_all add: start_state_def)
  then have jobs: "published_jobs (ks_db ks) = published_jobs d" "queued_jobs (ks_db ks) = queued_jobs d"
    using kept by (simp_all add: grows_def same_facts_def)
  obtain retired resumed where r: "retired_in (ks_db ks) retired d'"
      "set resumed = set (ks_reactivated_check_ids ks) - set retired"
      "cx_published_job_ids_to_pause res = jobs_to_pause retired (published_jobs (ks_db ks))"
      "cx_published_job_ids_to_resume res = jobs_to_resume resumed (published_jobs (ks_db ks))"
      "published_jobs d' = published_jobs (ks_db ks)" "queued_jobs d' = queued_jobs (ks_db ks)"
    using first(3) reconcile_lives by blast
  have "check_moves (ks_db (start_state d1)) d' retired resumed"
    by (rule phases_move [OF loop(1) _ r(1,2)]) (simp add: start_state_def)
  then have "check_moves d d' retired resumed"
    using check_moves_cong(1) [of d1 d] kept by (simp add: start_state_def)
  then show ?thesis using r(3-6) jobs by auto
next
  case False
  then obtain sw d1 where sw: "apply_current_state_switch (ce_switch env) sid d = Inr (sw, d1)" "sw_outcome sw \<noteq> ''promoted''"
    using assms(1) compile_db_outcome [OF assms(1)]
    by (auto simp: compile_db_def split: option.splits sum.splits)
  then have res: "d' = d1" "res = switched_result sid (sw_outcome sw)"
    using assms(1) by (auto simp: compile_db_def split: option.splits)
  have "check_moves d d [] []" by (simp add: check_moves_def)
  then have "check_moves d d' [] []" "published_jobs d' = published_jobs d" "queued_jobs d' = queued_jobs d"
    using switch_keeps_assets [OF sw(1) assms(2,3)] res(1) check_moves_cong(2) [of d' d] by simp_all
  then show ?thesis
    by (intro exI [where x = "[]"])
      (simp add: res(2) switched_result_def compiled_result_def jobs_to_pause_def jobs_to_resume_def)
qed

lemma disable_sets_aliases:
  assumes "disable_aliases_from_compiler_decisions now ids sn reason s = (Inr n, s1)"
  shows "\<exists>as. s1 = modify (set_aliases as) s"
proof -
  have "modify (fold (\<lambda>a. upd_alias (ia_id a) f) as) s =
      modify (set_aliases (fold (\<lambda>k. upd_row ia_id k f) (map ia_id as) (intent_aliases (working s)))) s" for f as
    by (simp add: fold_upd_alias modify_def set_aliases_def)
  then show ?thesis
    using assms set_aliases_id [of s]
    by (auto simp: disable_aliases_from_compiler_decisions_def Let_def split: if_splits) metis+
qed

lemma enable_sets_aliases:
  "\<exists>as. snd (enable_aliases_from_compiler_decisions ids s) = modify (set_aliases as) s"
proof -
  have "modify (fold (\<lambda>a. upd_alias (ia_id a) f) as) s =
      modify (set_aliases (fold (\<lambda>k. upd_row ia_id k f) (map ia_id as) (intent_aliases (working s)))) s" for f as
    by (simp add: fold_upd_alias modify_def set_aliases_def)
  then show ?thesis
    using set_aliases_id [of s, symmetric] by (auto simp: enable_aliases_from_compiler_decisions_def Let_def)
qed

lemma cascades_on_jobs:
  assumes "job_ids_distinct (working s)" "apply_reconciliation_cascades True now r s = (Inr c, s')"
  shows "published_jobs (committed s') =
      update_selected (cx_published_job_ids_to_resume r) JobPaused resume_row
        (update_selected (cx_published_job_ids_to_pause r) JobActive
          (pause_row ''asset_retired_missing'' (cx_snapshot_id r)) (published_jobs (working s))) \<and>
    page_checks (committed s') = page_checks (working s) \<and> queued_jobs (committed s') = queued_jobs (working s) \<and>
    working s' = committed s'"
proof -
  obtain n s1 where dis: "disable_aliases_from_compiler_decisions now (cx_alias_ids_to_disable r)
      (cx_snapshot_id r) ''retired_missing'' s = (Inr n, s1)"
    using disable_never_raises by blast
  obtain as1 where s1: "s1 = modify (set_aliases as1) s" using disable_sets_aliases [OF dis] by blast
  obtain m s2 where en: "enable_aliases_from_compiler_decisions (cx_alias_ids_to_enable r) s1 = (m, s2)"
    by (metis surj_pair)
  obtain as2 where s2: "s2 = modify (set_aliases as2) s1"
    using enable_sets_aliases [of "cx_alias_ids_to_enable r" s1] en by auto
  let ?p = "update_selected (cx_published_job_ids_to_pause r) JobActive
    (pause_row ''asset_retired_missing'' (cx_snapshot_id r))"
  have v: "validate_required_text ''asset_retired_missing'' = Some ''asset_retired_missing''"
    by (simp add: validate_required_text_def opt_text_def)
  have frame: "published_jobs (working s2) = published_jobs (working s)" "page_checks (working s2) = page_checks (working s)"
      "queued_jobs (working s2) = queued_jobs (working s)"
    by (simp_all add: s2 s1 set_aliases_def)
  have j2: "job_ids_distinct (working s2)" using assms(1) by (simp add: frame(1) job_ids_distinct_def)
  have j3: "job_ids_distinct (working (modify (with_published_jobs ?p) s2))"
    using j2 by (simp add: job_ids_distinct_def update_selected_ids pause_row_def)
  have "s' = commit (modify (with_published_jobs (update_selected (cx_published_job_ids_to_resume r) JobPaused resume_row))
      (modify (with_published_jobs ?p) s2))"
    using assms(2) pause_eq [OF j2 v, of "cx_published_job_ids_to_pause r" "cx_snapshot_id r" False]
      resume_eq [OF j3, of "cx_published_job_ids_to_resume r" False]
    by (simp add: apply_reconciliation_cascades_def dis en Let_def del: modify_modify)
  then show ?thesis by (simp add: frame) (simp add: with_published_jobs_def frame)
qed

text \<open>The states of the jobs of one check after the cascades.\<close>

lemma row_keys [simp]:
  "pj_id (pause_row r sn j) = pj_id j" "pj_id (resume_row j) = pj_id j"
  "pj_page_check_id (pause_row r sn j) = pj_page_check_id j" "pj_page_check_id (resume_row j) = pj_page_check_id j"
  "pj_state (pause_row r sn j) = JobPaused" "pj_state (resume_row j) = JobActive"
  by (simp_all add: pause_row_def resume_row_def)

lemma jobs_to_pause_mem:
  "distinct (map pj_id js) \<Longrightarrow> j \<in> set js \<Longrightarrow>
    pj_id j \<in> set (jobs_to_pause cs js) \<longleftrightarrow> pj_page_check_id j \<in> set cs \<and> pj_state j = JobActive"
  by (auto simp: jobs_to_pause_def distinct_map dest: inj_onD)

lemma jobs_to_resume_mem:
  "distinct (map pj_id js) \<Longrightarrow> j \<in> set js \<Longrightarrow>
    pj_id j \<in> set (jobs_to_resume cs js) \<longleftrightarrow>
      pj_page_check_id j \<in> set cs \<and> pj_state j = JobPaused \<and> is_system_paused_job j"
  by (auto simp: jobs_to_resume_def distinct_map dest: inj_onD)

lemma aligned_jobs:
  assumes d: "distinct (map pj_id js)" and disjoint: "set retired \<inter> set resumed = {}"
    and j': "j' \<in> set (update_selected (jobs_to_resume resumed js) JobPaused resume_row
      (update_selected (jobs_to_pause retired js) JobActive (pause_row r sn) js))"
  shows "(pj_page_check_id j' \<in> set retired \<longrightarrow> pj_state j' \<noteq> JobActive) \<and>
    (pj_page_check_id j' \<in> set resumed \<longrightarrow> \<not> (pj_state j' = JobPaused \<and> is_system_paused_job j'))"
proof -
  let ?P = "jobs_to_pause retired js" and ?R = "jobs_to_resume resumed js"
  obtain j where j: "j \<in> set js"
      "j' = (let k = if selected ?P JobActive j then pause_row r sn j else j
             in if selected ?R JobPaused k then resume_row k else k)"
    using j' by (auto simp: update_selected_def Let_def)
  note mem = jobs_to_pause_mem [OF d j(1), of retired] jobs_to_resume_mem [OF d j(1), of resumed]
  show ?thesis
    using disjoint mem by (auto simp: j(2) selected_def Let_def)
qed

lemma completed_compile_run:
  assumes "get_job i (working s) = Some job" "asset_compile_job compile (Some w) clk i s = (r, s')"
    and "get_job i (committed s') = Some job'" "qj_status job' = COMPLETED"
  shows "\<exists>sid result s2 c s3 p. compile sid (commit (modify (upd_job i (start_queued clk)) s)) = (Inr result, s2) \<and>
    apply_reconciliation_cascades w (clk 6) result s2 = (Inr c, s3) \<and>
    s' = commit (modify (upd_job i (complete_compile clk p)) s3)"
proof -
  have failed: False if "s' = compile_mark_failed clk i m t" for m t
    using assms(3,4) that by (auto simp: compile_mark_failed_def get_upd_job)
  obtain raw where raw: "as_str (dget (qj_payload job) ''snapshot_id'') = Some raw"
    using assms(1,2) failed by (cases "as_str (dget (qj_payload job) ''snapshot_id'')")
      (auto simp: asset_compile_job_def)
  obtain sid where sid: "parse_uuid_str raw = Some sid"
    using assms(1,2) failed raw by (cases "parse_uuid_str raw") (auto simp: asset_compile_job_def Let_def)
  obtain x s2 where x: "compile sid (commit (modify (upd_job i (start_queued clk)) s)) = (x, s2)" by (metis surj_pair)
  obtain result where result: "x = Inr result"
    using assms(1,2) failed raw sid x by (cases x) (auto simp: asset_compile_job_def Let_def)
  obtain c s3 where c: "apply_reconciliation_cascades w (clk 6) result s2 = (Inr c, s3)"
    using cascades_never_raise by blast
  have "s' = commit (modify (upd_job i (complete_compile clk (compile_payload result (Some c)))) s3)"
    using assms(1,2) raw sid x result c by (simp add: asset_compile_job_def Let_def)
  then show ?thesis using x result c by blast
qed

text \<open>C5: when a compile job of a worker with a published job service has completed, no published job is
  active on a check that the job retired, and none is left paused by a retirement on a check that
  the job brought back: compilation, decisions and cascades agree on every check that existed.\<close>

theorem compile_job_aligns_published_jobs:
  assumes "asset_compile_job (compile_snapshot env) (Some True) clk i s = (r, s')"
    and "get_job i (working s) = Some job" "get_job i (committed s') = Some job'" "qj_status job' = COMPLETED"
    and "unique_active (working s)" "distinct (snapshot_ids (working s))" "job_ids_distinct (working s)"
    and "find_row pc_id c (page_checks (working s)) = Some before"
    and "find_row pc_id c (page_checks (committed s')) = Some after"
    and "j \<in> set (published_jobs (committed s'))" "pj_page_check_id j = c"
  shows "(pc_lifecycle_status before = LifecycleActive \<and> pc_lifecycle_status after \<noteq> LifecycleActive \<longrightarrow>
            pj_state j \<noteq> JobActive) \<and>
    (pc_lifecycle_status before \<noteq> LifecycleActive \<and> pc_lifecycle_status after = LifecycleActive \<longrightarrow>
            \<not> (pj_state j = JobPaused \<and> is_system_paused_job j))"
proof -
  let ?s1 = "commit (modify (upd_job i (start_queued clk)) s)"
  obtain sid result s2 ca s3 p where run: "compile_snapshot env sid ?s1 = (Inr result, s2)"
      "apply_reconciliation_cascades True (clk 6) result s2 = (Inr ca, s3)"
      "s' = commit (modify (upd_job i (complete_compile clk p)) s3)"
    using completed_compile_run [OF assms(2,1,3,4)] by blast
  have start: "published_jobs (working ?s1) = published_jobs (working s)" "page_checks (working ?s1) = page_checks (working s)"
      "crawl_snapshots (working ?s1) = crawl_snapshots (working s)"
    by (simp_all add: upd_job_def)
  obtain d where d: "compile_db env sid (working ?s1) = Inr (result, d)" "working s2 = d"
    using run(1) by (auto simp: compile_snapshot_def split: sum.splits)
  have "unique_active (working ?s1)" "distinct (snapshot_ids (working ?s1))"
    using assms(5,6) start(3) by (simp_all add: unique_active_def)
  then obtain retired resumed where moves: "check_moves (working ?s1) d retired resumed"
      "published_jobs d = published_jobs (working s)"
      "cx_published_job_ids_to_pause result = jobs_to_pause retired (published_jobs (working s))"
      "cx_published_job_ids_to_resume result = jobs_to_resume resumed (published_jobs (working s))"
    using compile_db_moves [OF d(1)] start(1) by metis
  have js: "distinct (map pj_id (published_jobs (working s)))" using assms(7) by (simp add: job_ids_distinct_def)
  have "job_ids_distinct (working s2)" using js moves(2) d(2) by (simp add: job_ids_distinct_def)
  note cascade = cascades_on_jobs [OF this run(2)]
  have final: "published_jobs (committed s') = published_jobs (committed s3)"
      "page_checks (committed s') = page_checks (committed s3)"
    using cascade by (simp_all add: run(3) upd_job_def)
  have "check_moves (working s) (committed s') retired resumed"
    using check_moves_cong(1) [OF start(2), of d retired resumed] moves(1) cascade final(2) d(2)
      check_moves_cong(2) [of "committed s'" d "working s" retired resumed] by simp
  moreover have "life c (working s) = Some (pc_lifecycle_status before)"
      "life c (committed s') = Some (pc_lifecycle_status after)"
    using assms(8,9) by (simp_all add: life_def)
  ultimately have sides: "pc_lifecycle_status before = LifecycleActive \<and> pc_lifecycle_status after \<noteq> LifecycleActive \<longrightarrow> c \<in> set retired"
      "pc_lifecycle_status before \<noteq> LifecycleActive \<and> pc_lifecycle_status after = LifecycleActive \<longrightarrow> c \<in> set resumed"
      "set retired \<inter> set resumed = {}"
    unfolding check_moves_def by auto
  have "j \<in> set (update_selected (jobs_to_resume resumed (published_jobs (working s))) JobPaused resume_row
      (update_selected (jobs_to_pause retired (published_jobs (working s))) JobActive
        (pause_row ''asset_retired_missing'' (cx_snapshot_id result)) (published_jobs (working s))))"
    using assms(10) final(1) cascade moves(2-4) d(2) by simp
  from aligned_jobs [OF js sides(3) this] show ?thesis using sides(1,2) assms(11) by blast
qed

text \<open>An active check whose page is gone, with an active job.\<close>

definition gone_check :: page_check where
  "gone_check =
     \<lparr>pc_id = 50, pc_page_asset_id = 60, pc_check_code = ''page_open'', pc_goal = ''page_open'',
      pc_lifecycle_status = LifecycleActive, pc_retired_reason = None, pc_retired_at = None,
      pc_retired_by_snapshot_id = None, pc_input_schema = None, pc_assertion_schema = None,
      pc_module_plan_id = None, pc_blocking_dependency_json = None, pc_success_rate = None,
      pc_last_verified_at = None\<rparr>"

definition gone_asset :: page_asset where
  "gone_asset = (new_page_asset sample_compile_env sample_system (sample_snapshot 3 ''discarded'')
     (sample_page 12 3 ''/gone'') ''erp.gone'')\<lparr>pa_id := 60\<rparr>"

definition gone_db :: db where
  "gone_db = sample_compile_db\<lparr>pages := [sample_page 11 1 ''/orders'', sample_page 12 3 ''/gone''],
     page_assets := [gone_asset], page_checks := [gone_check],
     published_jobs := [(sample_job 1)\<lparr>pj_page_check_id := 50\<rparr>],
     queued_jobs := [new_queued_job 9 datetime_min_utc ASSET_COMPILE_JOB_TYPE
       [(''snapshot_id'', PStr (uuid_str 1))]]\<rparr>"

lemma gone_db_rows:
  "find_row cs_id 1 (crawl_snapshots gone_db) = Some (sample_snapshot 1 ''active'')"
  "find_row sys_id (cs_system_id (sample_snapshot 1 ''active'')) (systems gone_db) = Some sample_system"
  "readable gone_db" "unique_active gone_db" "distinct (snapshot_ids gone_db)" "job_ids_distinct gone_db"
  "find_row pc_id 50 (page_checks gone_db) = Some gone_check" "page_checks gone_db = [gone_check]"
  "published_jobs gone_db = [(sample_job 1)\<lparr>pj_page_check_id := 50\<rparr>]"
  using sample_compile_rows(1,3-6)
  by (simp_all add: gone_db_def sample_compile_db_def readable_def readable_check_def gone_check_def find_row_Cons
      unique_active_def job_ids_distinct_def)

theorem compile_job_aligns_published_jobs_witness:
  "\<exists>s' after j. asset_compile_job (compile_snapshot sample_compile_env) (Some True) (\<lambda>_. datetime_min_utc) 9
       (open_session gone_db) = (Inr (), s') \<and>
     find_row pc_id 50 (page_checks (committed s')) = Some after \<and> published_jobs (committed s') = [j] \<and>
     (pc_lifecycle_status after, pj_state j) \<noteq> (RetiredMissing, JobActive)"
proof -
  let ?env = sample_compile_env and ?clk = "\<lambda>_ :: nat. datetime_min_utc" and ?s = "open_session gone_db"
  let ?job = "new_queued_job 9 datetime_min_utc ASSET_COMPILE_JOB_TYPE [(''snapshot_id'', PStr (uuid_str 1))]"
  let ?s1 = "commit (modify (upd_job 9 (start_queued ?clk)) ?s)"
  have j: "get_job 9 (working ?s) = Some ?job"
    by (simp add: gone_db_def get_job_def find_row_Cons new_queued_job_def)
  have d1: "working ?s1 = upd_job 9 (start_queued ?clk) gone_db" by simp
  have rows: "find_row cs_id 1 (crawl_snapshots (working ?s1)) = Some (sample_snapshot 1 ''active'')"
      "find_row sys_id (cs_system_id (sample_snapshot 1 ''active'')) (systems (working ?s1)) = Some sample_system"
      "readable (working ?s1)" "unique_active (working ?s1)" "distinct (snapshot_ids (working ?s1))"
    using gone_db_rows unfolding d1 by (simp_all add: upd_job_def readable_def unique_active_def)
  obtain res d' where comp: "compile_db ?env 1 (working ?s1) = Inr (res, d')"
    using compile_db_total [OF rows(3-5,1,2) switch_active [OF rows(1) sample_compile_rows(2)]] by blast
  obtain retired resumed where moves: "check_moves (working ?s1) d' retired resumed"
      "published_jobs d' = published_jobs gone_db" "queued_jobs d' = queued_jobs (working ?s1)"
    using compile_db_moves [OF comp rows(4,5)] unfolding d1 by (auto simp: upd_job_def)
  let ?s2 = "commit (modify (\<lambda>_. d') ?s1)"
  have snap: "compile_snapshot ?env 1 ?s1 = (Inr res, ?s2)" by (simp add: compile_snapshot_def comp [unfolded d1])
  obtain ca s3 where c: "apply_reconciliation_cascades True (?clk 6) res ?s2 = (Inr ca, s3)"
    using cascades_never_raise by blast
  have "job_ids_distinct (working ?s2)" using gone_db_rows(6) moves(2) by (simp add: job_ids_distinct_def)
  note cascade = cascades_on_jobs [OF this c]
  define s' where "s' = commit (modify (upd_job 9 (complete_compile ?clk (compile_payload res (Some ca)))) s3)"
  have run: "asset_compile_job (compile_snapshot ?env) (Some True) ?clk 9 ?s = (Inr (), s')"
    using j snap c by (simp add: asset_compile_job_def new_queued_job_def Let_def s'_def)
  have "queued_jobs (working s3) = queued_jobs (working ?s1)" using cascade moves(3) by simp
  then have "get_job 9 (working s3) = Some (start_queued ?clk ?job)"
    using j unfolding d1 by (simp add: get_job_def upd_job_def find_upd_row)
  then obtain job' where job': "get_job 9 (committed s') = Some job'" "qj_status job' = COMPLETED"
    by (simp add: s'_def get_upd_job complete_compile_def)
  have checks: "page_checks (committed s') = page_checks d'" using cascade by (simp add: s'_def upd_job_def)
  have "life 50 (working ?s1) = Some LifecycleActive"
    using gone_db_rows(7) unfolding d1 by (simp add: life_def upd_job_def gone_check_def)
  then have "life 50 d' \<noteq> None" using moves(1) unfolding check_moves_def by blast
  then obtain after where after: "find_row pc_id 50 (page_checks (committed s')) = Some after"
    by (auto simp: life_def checks)
  have jobs: "map pj_page_check_id (published_jobs (committed s')) = [50]"
    using cascade moves(2) by (simp add: s'_def upd_job_def gone_db_rows(9) update_selected_def)
  then obtain pj where pj: "published_jobs (committed s') = [pj]" "pj_page_check_id pj = 50" by auto
  have "(pc_lifecycle_status after, pj_state pj) \<noteq> (RetiredMissing, JobActive)"
    using compile_job_aligns_published_jobs [OF run j job', of 50 gone_check after pj] gone_db_rows(4-7) after pj
    by (auto simp: gone_check_def)
  then show ?thesis using run after pj(1) by blast
qed

end
