(* ===== verification/TableChecks.thy ===== *)
theory TableChecks
  imports CompileTotal
begin

section \<open>What a table check depends on\<close>

text \<open>
  The table check of a page: the element that makes the compiler add it, and the dependency that the
  reconciliation compares with the elements of the current snapshot.
\<close>

lemma loop_keeps_derived:
  assumes "loop_raises plan_step_dependency (map PDict steps) (chain, derived) = Inr (chain', derived')"
    and "list_all (\<lambda>st. normalize_text (dget st ''module'') \<noteq> ''assert.table_visible'') steps"
  shows "derived' = derived"
  using assms
proof (induction steps arbitrary: chain derived)
  case (Cons st steps)
  obtain c d where step: "plan_step_dependency (PDict st) (chain, derived) = Inr (c, d)"
      "loop_raises plan_step_dependency (map PDict steps) (c, d) = Inr (chain', derived')"
    using Cons.prems(1) by (auto simp del: plan_step_dependency.simps split: sum.splits)
  have "d = derived" using step(1) Cons.prems(2) by (auto simp: Let_def split: if_splits pyval.splits sum.splits)
  then show ?case using Cons.IH [OF step(2)] Cons.prems(2) by simp
qed simp

lemma table_check_schema:
  assumes "c \<in> set (page_checks_for p t dsig es)" "cd_check_code c = ''table_render''"
  shows "cd_assertion_schema c = Some [(''assertion'', PStr ''table_visible'')]"
proof -
  obtain cands where cands: "c \<in> set (candidate_checks (pg_page_summary p) t cands
      (Some (collect_representative_states es)) (Some dsig))"
    using assms(1) selected_values [where sel = "[]"] by (fastforce simp: page_checks_for_def build_standard_checks_def)
  have "cd_check_code c \<noteq> ''table_render''" if "c \<in> set (build_template_checks (Some dsig))"
    using that by (auto simp: build_template_checks_def list_templates_def TEMPLATE_DEFINITIONS_def template_check_def
        data_count_template_def row_exists_template_def)
  moreover have "cd_check_code c \<noteq> ''table_render''" if "representative_state_check (Some dsig) st = Some c" for st
    using that by (auto simp: representative_state_check_def new_check_def Let_def split: if_splits)
  ultimately show ?thesis
    using cands assms(2) by (auto simp: candidate_checks_def build_representative_state_checks_def map_filter_def
        new_check_def split: if_splits) blast
qed

lemma table_check_steps:
  assumes "check_plan env f c = Inr plan" "cd_check_code c = ''table_render''"
  shows "list_all (\<lambda>st. normalize_text (dget st ''module'') \<noteq> ''assert.table_visible'') (mp_steps_json plan)"
proof -
  have none: "get_template ''table_render'' ''v1'' = None"
    by (simp add: get_template_def TEMPLATE_DEFINITIONS_def data_count_template_def row_exists_template_def
        registry_text_def normalize_opt_def strip_graphic graphic_def lower_def ascii_lower_def)
  obtain menu route sig dsig lb where "mp_steps_json plan = base_steps menu route sig dsig @ [locator_assert_step ''table_render'' lb]"
    using assms by (auto simp: check_plan_def build_module_plan_def none uses_legacy_open_create_action_def Let_def
        split: sum.splits)
  then show ?thesis
    by (simp add: base_steps_def locator_assert_step_def plan_step_def strip_graphic graphic_def)
qed

lemma table_check_requires:
  assumes "c \<in> set (page_checks_for p t dsig es)" "cd_check_code c = ''table_render''"
    and "check_plan env f c = Inr plan"
    and "build_blocking_dependency_json (Some (map PDict (mp_steps_json plan))) (cd_assertion_schema c) = Inr deps"
    and "normalize_dependency_json (Some deps) = Inr (chain, required)"
  shows "required_elements_satisfied required (map element_descriptor rows) \<longleftrightarrow>
    (\<exists>e \<in> set rows. strip (pe_element_type e) = ''table'' \<and> normalize_opt (pe_element_role e) = ''table'')"
proof -
  note schema = table_check_schema [OF assms(1,2)]
  obtain menu derived where loop: "loop_raises plan_step_dependency (map PDict (mp_steps_json plan)) ([], []) = Inr (menu, derived)"
    using assms(4) by (auto simp: build_blocking_dependency_json_def split: sum.splits)
  have "derived = []" by (rule loop_keeps_derived [OF loop table_check_steps [OF assms(3,2)]])
  then have deps: "deps = dependency_json menu [table_descriptor]"
    using assms(4) by (simp add: build_blocking_dependency_json_def loop schema dget_or_def required_elements_of_def
        map_filter_simps strip_graphic graphic_def Let_def)
  have "required = [table_descriptor]"
  proof -
    have "clean_chain menu" using plan_loop_keeps [OF loop] by (simp add: clean_chain_def compact_elements_def)
    then have "normalize_dependency_json (Some deps) = Inr (menu, [table_descriptor])"
      unfolding deps by (rule normalize_dependency_stored) (simp add: compact_elements_def)
    then show ?thesis using assms(5) by simp
  qed
  then show ?thesis
    by (auto simp: required_elements_satisfied_def element_matches_def table_descriptor_def element_descriptor_def
        list_ex_iff strip_graphic graphic_def normalize_opt_def split: option.splits)
qed

text \<open>The elements of a page as the compiler reads them, and whether one of them is a table.\<close>

definition page_elements_of :: "page \<Rightarrow> page_element list \<Rightarrow> pydict list" where
  "page_elements_of p elements =
     map (\<lambda>e. build_normalized_element e (build_default_state_signature (pg_route_path p)))
       (filter (\<lambda>e. pe_page_id e = pg_id p) elements)"

definition has_table :: "pydict list \<Rightarrow> bool" where
  "has_table es \<longleftrightarrow> list_ex (\<lambda>e. normalize_text (dget e ''element_type'') = ''table'') es"

lemma has_table_iff:
  "has_table (page_elements_of p elements) \<longleftrightarrow>
    (\<exists>e \<in> set elements. pe_page_id e = pg_id p \<and> strip (pe_element_type e) = ''table'')"
  by (auto simp: has_table_def page_elements_of_def list_ex_iff build_normalized_element_def Let_def)

lemma table_code_iff:
  "''table_render'' \<in> cd_check_code ` set (page_checks_for p t dsig es) \<longleftrightarrow> t"
proof -
  let ?c = "list_ex (\<lambda>e. suggests_create_action (Some (normalize_text (dget e ''element_text'')))) es"
    and ?r = "build_representative_state_checks (Some (collect_representative_states es)) (Some dsig)"
  let ?f = "fixed_checks t (?c \<or> summary_suggests_create_action (pg_page_summary p)) (Some dsig)"
  have "cd_check_code ` set (page_checks_for p t dsig es) = set (map cd_check_code ?f) \<union> cd_check_code ` set ?r"
    by (simp add: page_checks_for_def standard_checks_first_of_each keys_first_of_each candidates_split image_Un)
  moreover have "''table_render'' \<notin> cd_check_code ` set ?r"
    using representative_shape by fastforce
  ultimately show ?thesis unfolding fixed_codes by auto
qed

lemma page_codes_table:
  "''table_render'' \<in> set (page_codes elements p) \<longleftrightarrow> has_table (page_elements_of p elements)"
proof -
  have "values_at (group_by_page pe_page_id elements) (pg_id p) = filter (\<lambda>e. pe_page_id e = pg_id p) elements"
    by (simp add: group_by_page_def filter_map comp_def)
  then have "set (page_codes elements p) = cd_check_code ` set (page_checks_for p (has_table (page_elements_of p elements))
      (build_default_state_signature (pg_route_path p)) (page_elements_of p elements))"
    by (simp add: page_codes_def has_table_def page_elements_of_def Let_def)
  then show ?thesis by (simp add: table_code_iff)
qed

text \<open>C33: compiling a page leaves it a table check as soon as one of its elements is of type table, whatever
  the role of that element; but the dependency built for such a check is met only by an element that
  has the type and also the role table. A page whose tables have no such role gets a check whose
  required element none of its own elements is.\<close>

theorem table_check_needs_role:
  assumes "compile_page env system snapshot menus elements p ks = Inr ks'"
    and "e \<in> set elements" "pe_page_id e = pg_id p" "strip (pe_element_type e) = ''table''"
  shows "(\<exists>a \<in> set (page_assets (ks_db ks')). \<exists>c \<in> set (page_checks (ks_db ks')).
      pa_system_id a = sys_id system \<and>
      pa_asset_key a = build_asset_key (sys_code system) (pg_route_path p) (pg_page_title p) \<and>
      pc_page_asset_id c = pa_id a \<and> pc_check_code c = ''table_render'') \<and>
    (\<forall>c \<in> set (page_checks_for p (has_table (page_elements_of p elements))
        (build_default_state_signature (pg_route_path p)) (page_elements_of p elements)).
      cd_check_code c = ''table_render'' \<longrightarrow>
      (\<forall>f plan deps chain required rows. check_plan env f c = Inr plan \<and>
         build_blocking_dependency_json (Some (map PDict (mp_steps_json plan))) (cd_assertion_schema c) = Inr deps \<and>
         normalize_dependency_json (Some deps) = Inr (chain, required) \<longrightarrow>
         (required_elements_satisfied required (map element_descriptor rows) \<longleftrightarrow>
            (\<exists>e \<in> set rows. strip (pe_element_type e) = ''table'' \<and> normalize_opt (pe_element_role e) = ''table''))))"
proof -
  have tab: "has_table (page_elements_of p elements)" using assms(2-4) has_table_iff by blast
  then have "''table_render'' \<in> set (page_codes elements p)" by (simp add: page_codes_table)
  then obtain i where i: "asset_id_at (sys_id system) (page_key system p) (ks_db ks') = Some i"
      "has_check i ''table_render'' (ks_db ks')"
    using compile_page_ok [OF assms(1)] by (auto simp: compiled_def)
  obtain a where "find_page_asset (sys_id system) (page_key system p) (ks_db ks') = Some a" "pa_id a = i"
    using i(1) by (auto simp: asset_id_at_def)
  then have a: "a \<in> set (page_assets (ks_db ks'))" "pa_system_id a = sys_id system" "pa_asset_key a = page_key system p"
    unfolding find_page_asset_def by (auto dest!: first_by_Some(1))
  have row: "\<exists>c \<in> set (page_checks (ks_db ks')). pc_page_asset_id c = pa_id a \<and> pc_check_code c = ''table_render''"
    using i(2) \<open>pa_id a = i\<close> by (auto simp: has_check_def list_ex_iff)
  show ?thesis
  proof (intro conjI ballI impI allI)
    show "\<exists>a \<in> set (page_assets (ks_db ks')). \<exists>c \<in> set (page_checks (ks_db ks')).
      pa_system_id a = sys_id system \<and>
      pa_asset_key a = build_asset_key (sys_code system) (pg_route_path p) (pg_page_title p) \<and>
      pc_page_asset_id c = pa_id a \<and> pc_check_code c = ''table_render''"
      using a row unfolding page_key_def by blast
  next
    fix c f plan deps chain required rows
    assume "c \<in> set (page_checks_for p (has_table (page_elements_of p elements))
        (build_default_state_signature (pg_route_path p)) (page_elements_of p elements))"
      and "cd_check_code c = ''table_render''"
      and "check_plan env f c = Inr plan \<and>
         build_blocking_dependency_json (Some (map PDict (mp_steps_json plan))) (cd_assertion_schema c) = Inr deps \<and>
         normalize_dependency_json (Some deps) = Inr (chain, required)"
    then show "required_elements_satisfied required (map element_descriptor rows) \<longleftrightarrow>
        (\<exists>e \<in> set rows. strip (pe_element_type e) = ''table'' \<and> normalize_opt (pe_element_role e) = ''table'')"
      using table_check_requires by blast
  qed
qed

text \<open>A table as the crawler stores it when the node has no role attribute.\<close>

definition roleless_table :: page_element where
  "roleless_table =
     \<lparr>pe_id = 70, pe_system_id = 7, pe_snapshot_id = 1, pe_page_id = 11, pe_element_type = ''table'',
      pe_element_role = None, pe_element_text = None, pe_attributes = None, pe_playwright_locator = None,
      pe_state_signature = None, pe_state_context = None, pe_locator_candidates = None, pe_materialized_by = None,
      pe_navigation_diagnostics = None, pe_stability_score = None, pe_usage_description = None\<rparr>"

theorem table_check_needs_role_witness:
  "\<exists>ks'. compile_page sample_compile_env sample_system (sample_snapshot 1 ''active'') [] [roleless_table]
      (sample_page 11 1 ''/orders'') (start_state sample_compile_db) = Inr ks' \<and>
    (\<exists>c \<in> set (page_checks (ks_db ks')). pc_check_code c = ''table_render'') \<and>
    normalize_opt (pe_element_role roleless_table) = []"
proof -
  have "readable (ks_db (start_state sample_compile_db))"
    using sample_compile_rows(4) by (simp add: start_state_def)
  then obtain ks' where ks': "compile_page sample_compile_env sample_system (sample_snapshot 1 ''active'') [] [roleless_table]
      (sample_page 11 1 ''/orders'') (start_state sample_compile_db) = Inr ks'"
    using compile_page_total by blast
  have "roleless_table \<in> set [roleless_table]" "pe_page_id roleless_table = pg_id (sample_page 11 1 ''/orders'')"
    "strip (pe_element_type roleless_table) = ''table''"
    by (simp_all add: roleless_table_def sample_page_def strip_graphic graphic_def)
  from table_check_needs_role [OF ks' this] ks' show ?thesis
    by (auto simp: roleless_table_def normalize_opt_def)
qed

end
