(* ===== verification/SchedulerRegistry.thy ===== *)
theory SchedulerRegistry
  imports Scheduling PolicyJobs
begin

section \<open>The registry of schedules\<close>

text \<open>
  control\_plane/scheduler\_registry.py: the jobs of the scheduler mirror the active published jobs and
  policies of the database. The job store of APScheduler is a map from job ids; what
  \<open>CronTrigger.from_crontab\<close> accepts for an expression and a time zone is the parameter
  \<open>valid_cron\<close>. An operation that raises leaves what it did to the scheduler before.
\<close>

record scheduled_entry =
  en_schedule_expr :: string
  en_timezone :: string
  en_kind :: string
  en_entity_id :: string

type_synonym registry = "string \<rightharpoonup> scheduled_entry"
type_synonym registry_op = "registry \<Rightarrow> (string + unit) \<times> registry"

definition build_published_job_id :: "uuid \<Rightarrow> string" where
  "build_published_job_id i = ''published_job:'' @ uuid_str i"

definition build_auth_policy_job_id :: "uuid \<Rightarrow> string" where
  "build_auth_policy_job_id system_id = ''auth_policy:'' @ uuid_str system_id"

definition build_crawl_policy_job_id :: "uuid \<Rightarrow> string" where
  "build_crawl_policy_job_id system_id = ''crawl_policy:'' @ uuid_str system_id"

subsection \<open>Operations\<close>

text \<open>A missing job is no error.\<close>

definition registry_remove_job :: "string \<Rightarrow> registry \<Rightarrow> registry" where
  "registry_remove_job job_id reg = reg(job_id := None)"

definition upsert_job :: "(string \<Rightarrow> string \<Rightarrow> bool) \<Rightarrow> string \<Rightarrow> scheduled_entry \<Rightarrow> registry_op" where
  "upsert_job valid_cron job_id entry reg =
     (if valid_cron (en_schedule_expr entry) (en_timezone entry)
      then (Inr (), reg(job_id \<mapsto> entry))
      else (Inl (en_schedule_expr entry), reg))"

definition published_job_entry :: "published_job \<Rightarrow> scheduled_entry" where
  "published_job_entry pj =
     \<lparr>en_schedule_expr = pj_schedule_expr pj, en_timezone = pj_timezone pj,
      en_kind = ''published_job'', en_entity_id = uuid_str (pj_id pj)\<rparr>"

definition auth_policy_entry :: "system_auth_policy \<Rightarrow> scheduled_entry" where
  "auth_policy_entry p =
     \<lparr>en_schedule_expr = ap_schedule_expr p, en_timezone = ''UTC'',
      en_kind = ''auth_policy'', en_entity_id = uuid_str (ap_id p)\<rparr>"

definition crawl_policy_entry :: "system_crawl_policy \<Rightarrow> scheduled_entry" where
  "crawl_policy_entry p =
     \<lparr>en_schedule_expr = cp_schedule_expr p, en_timezone = ''UTC'',
      en_kind = ''crawl_policy'', en_entity_id = uuid_str (cp_id p)\<rparr>"

definition upsert_published_job :: "(string \<Rightarrow> string \<Rightarrow> bool) \<Rightarrow> db \<Rightarrow> uuid \<Rightarrow> registry_op" where
  "upsert_published_job valid_cron d i reg =
     (let job_id = build_published_job_id i
      in case get_published_job i d of
           None \<Rightarrow> (Inr (), registry_remove_job job_id reg)
         | Some pj \<Rightarrow>
             if published_job_state_value (pj_state pj) \<noteq> published_job_state_value JobActive
             then (Inr (), registry_remove_job job_id reg)
             else upsert_job valid_cron job_id (published_job_entry pj) reg)"

definition upsert_auth_policy :: "(string \<Rightarrow> string \<Rightarrow> bool) \<Rightarrow> db \<Rightarrow> uuid \<Rightarrow> registry_op" where
  "upsert_auth_policy valid_cron d i reg =
     (case find_row ap_id i (system_auth_policies d) of
        None \<Rightarrow> (Inr (), reg)
      | Some p \<Rightarrow>
          (let job_id = build_auth_policy_job_id (ap_system_id p)
           in if \<not> ap_enabled p \<or> ap_state p \<noteq> runtime_policy_state_value PolicyActive
              then (Inr (), registry_remove_job job_id reg)
              else upsert_job valid_cron job_id (auth_policy_entry p) reg))"

definition upsert_crawl_policy :: "(string \<Rightarrow> string \<Rightarrow> bool) \<Rightarrow> db \<Rightarrow> uuid \<Rightarrow> registry_op" where
  "upsert_crawl_policy valid_cron d i reg =
     (case find_row cp_id i (system_crawl_policies d) of
        None \<Rightarrow> (Inr (), reg)
      | Some p \<Rightarrow>
          (let job_id = build_crawl_policy_job_id (cp_system_id p)
           in if \<not> cp_enabled p \<or> cp_state p \<noteq> runtime_policy_state_value PolicyActive
              then (Inr (), registry_remove_job job_id reg)
              else upsert_job valid_cron job_id (crawl_policy_entry p) reg))"

text \<open>A loop over rows that stops where one raises.\<close>

fun each_row :: "('k \<Rightarrow> registry_op) \<Rightarrow> 'k list \<Rightarrow> registry_op" where
  "each_row upsert [] reg = (Inr (), reg)"
| "each_row upsert (k # ks) reg =
     (case upsert k reg of (Inl e, reg') \<Rightarrow> (Inl e, reg') | (Inr u, reg') \<Rightarrow> each_row upsert ks reg')"

definition load_all_from_db :: "(string \<Rightarrow> string \<Rightarrow> bool) \<Rightarrow> db \<Rightarrow> registry_op" where
  "load_all_from_db valid_cron d reg =
     (case each_row (upsert_published_job valid_cron d) (map pj_id (published_jobs d)) reg of
        (Inl e, reg1) \<Rightarrow> (Inl e, reg1)
      | (Inr _, reg1) \<Rightarrow>
          (case each_row (upsert_auth_policy valid_cron d) (map ap_id (system_auth_policies d)) reg1 of
             (Inl e, reg2) \<Rightarrow> (Inl e, reg2)
           | (Inr _, reg2) \<Rightarrow>
               each_row (upsert_crawl_policy valid_cron d) (map cp_id (system_crawl_policies d)) reg2))"

subsection \<open>Job ids\<close>

lemma uuid_str_inj [simp]: "uuid_str a = uuid_str b \<longleftrightarrow> a = b"
  by (metis option.inject parse_uuid_str_uuid_str)

lemma job_ids_distinct_kinds [simp]:
  "build_published_job_id a = build_published_job_id b \<longleftrightarrow> a = b"
  "build_auth_policy_job_id a = build_auth_policy_job_id b \<longleftrightarrow> a = b"
  "build_crawl_policy_job_id a = build_crawl_policy_job_id b \<longleftrightarrow> a = b"
  "build_published_job_id a \<noteq> build_auth_policy_job_id b" "build_auth_policy_job_id b \<noteq> build_published_job_id a"
  "build_published_job_id a \<noteq> build_crawl_policy_job_id b" "build_crawl_policy_job_id b \<noteq> build_published_job_id a"
  "build_auth_policy_job_id a \<noteq> build_crawl_policy_job_id b" "build_crawl_policy_job_id b \<noteq> build_auth_policy_job_id a"
  by (simp_all add: build_published_job_id_def build_auth_policy_job_id_def build_crawl_policy_job_id_def)

subsection \<open>What the registry should hold\<close>

text \<open>
  The specification: a row of the database wants one job id to be registered with an entry or to be
  absent. Rows of different tables or keys want different ids.
\<close>

type_synonym wish = "string \<times> scheduled_entry option"

definition published_job_wish :: "published_job \<Rightarrow> wish" where
  "published_job_wish pj =
     (build_published_job_id (pj_id pj), if pj_state pj = JobActive then Some (published_job_entry pj) else None)"

definition auth_policy_wish :: "system_auth_policy \<Rightarrow> wish" where
  "auth_policy_wish p =
     (build_auth_policy_job_id (ap_system_id p),
      if ap_enabled p \<and> ap_state p = ''active'' then Some (auth_policy_entry p) else None)"

definition crawl_policy_wish :: "system_crawl_policy \<Rightarrow> wish" where
  "crawl_policy_wish p =
     (build_crawl_policy_job_id (cp_system_id p),
      if cp_enabled p \<and> cp_state p = ''active'' then Some (crawl_policy_entry p) else None)"

definition wishes :: "db \<Rightarrow> wish list" where
  "wishes d = map published_job_wish (published_jobs d) @ map auth_policy_wish (system_auth_policies d) @
     map crawl_policy_wish (system_crawl_policies d)"

definition grant :: "wish list \<Rightarrow> registry \<Rightarrow> registry" where
  "grant ws = fold (\<lambda>(k, e) reg. reg(k := e)) ws"

definition grantable :: "(string \<Rightarrow> string \<Rightarrow> bool) \<Rightarrow> wish \<Rightarrow> bool" where
  "grantable valid_cron w =
     (case snd w of None \<Rightarrow> True | Some e \<Rightarrow> valid_cron (en_schedule_expr e) (en_timezone e))"

text \<open>The rows of one key are unique, and so are the policies of a system (its unique constraint).\<close>

definition unique_rows :: "db \<Rightarrow> bool" where
  "unique_rows d \<longleftrightarrow> distinct (map pj_id (published_jobs d)) \<and>
     distinct (map ap_id (system_auth_policies d)) \<and> distinct (map ap_system_id (system_auth_policies d)) \<and>
     distinct (map cp_id (system_crawl_policies d)) \<and> distinct (map cp_system_id (system_crawl_policies d))"

lemma grant_lookup:
  "distinct (map fst ws) \<Longrightarrow> grant ws reg k = (case map_of ws k of None \<Rightarrow> reg k | Some e \<Rightarrow> e)"
proof (induction ws arbitrary: reg)
  case (Cons w ws)
  then have "fst w \<notin> fst ` set ws" by simp
  then have "map_of ws (fst w) = None" by (simp add: map_of_eq_None_iff)
  then show ?case using Cons by (auto simp: grant_def case_prod_beta split: option.split)
qed (simp add: grant_def)

lemma wish_keys_distinct: "unique_rows d \<Longrightarrow> distinct (map fst (wishes d))"
  by (auto simp: unique_rows_def wishes_def distinct_map inj_on_def published_job_wish_def auth_policy_wish_def
      crawl_policy_wish_def)

text \<open>One operation grants one wish, or raises and grants nothing.\<close>

definition grants :: "(string \<Rightarrow> string \<Rightarrow> bool) \<Rightarrow> wish \<Rightarrow> registry_op \<Rightarrow> bool" where
  "grants valid_cron w step \<longleftrightarrow>
     (\<forall>reg. step reg = (if grantable valid_cron w then (Inr (), reg(fst w := snd w))
                        else (Inl (en_schedule_expr (the (snd w))), reg)))"

lemma upsert_published_job_grants:
  "find_row pj_id (pj_id pj) (published_jobs d) = Some pj \<Longrightarrow>
    grants valid_cron (published_job_wish pj) (upsert_published_job valid_cron d (pj_id pj))"
  by (auto simp: grants_def grantable_def upsert_published_job_def published_job_wish_def get_published_job_def
      upsert_job_def registry_remove_job_def Let_def)

lemma upsert_auth_policy_grants:
  "find_row ap_id (ap_id p) (system_auth_policies d) = Some p \<Longrightarrow>
    grants valid_cron (auth_policy_wish p) (upsert_auth_policy valid_cron d (ap_id p))"
  by (auto simp: grants_def grantable_def upsert_auth_policy_def auth_policy_wish_def
      upsert_job_def registry_remove_job_def Let_def)

lemma upsert_crawl_policy_grants:
  "find_row cp_id (cp_id p) (system_crawl_policies d) = Some p \<Longrightarrow>
    grants valid_cron (crawl_policy_wish p) (upsert_crawl_policy valid_cron d (cp_id p))"
  by (auto simp: grants_def grantable_def upsert_crawl_policy_def crawl_policy_wish_def
      upsert_job_def registry_remove_job_def Let_def)

lemma each_row_grants:
  assumes "\<And>r. r \<in> set rows \<Longrightarrow> grants valid_cron (wish r) (upsert (key r))"
  shows "each_row upsert (map key rows) reg =
    (case find (\<lambda>r. \<not> grantable valid_cron (wish r)) rows of
       None \<Rightarrow> (Inr (), grant (map wish rows) reg)
     | Some r \<Rightarrow> (Inl (en_schedule_expr (the (snd (wish r)))),
                  grant (takeWhile (grantable valid_cron) (map wish rows)) reg))"
  using assms
proof (induction rows arbitrary: reg)
  case (Cons r rows)
  then have "grants valid_cron (wish r) (upsert (key r))" by simp
  then show ?case using Cons by (auto simp: grants_def grant_def case_prod_beta split: option.split)
qed (simp add: grant_def)

lemma find_append:
  "List.find P (xs @ ys) = (case List.find P xs of None \<Rightarrow> List.find P ys | Some x \<Rightarrow> Some x)"
  by (induction xs) auto

lemma find_map: "List.find P (map f xs) = map_option f (List.find (\<lambda>x. P (f x)) xs)"
  by (induction xs) auto

lemma find_None_all: "List.find (\<lambda>x. \<not> P x) xs = None \<longleftrightarrow> (\<forall>x \<in> set xs. P x)"
  by (induction xs) auto

text \<open>The loop over one table, in terms of the wishes of its rows.\<close>

definition grant_all :: "(string \<Rightarrow> string \<Rightarrow> bool) \<Rightarrow> wish list \<Rightarrow> registry_op" where
  "grant_all valid_cron ws reg =
     (case List.find (\<lambda>w. \<not> grantable valid_cron w) ws of
        None \<Rightarrow> (Inr (), grant ws reg)
      | Some w \<Rightarrow> (Inl (en_schedule_expr (the (snd w))), grant (takeWhile (grantable valid_cron) ws) reg))"

lemma each_row_eq:
  assumes "distinct (map key rows)" "\<And>r. find_row key (key r) rows = Some r \<Longrightarrow> grants valid_cron (wish r) (upsert (key r))"
  shows "each_row upsert (map key rows) = grant_all valid_cron (map wish rows)"
proof (rule ext)
  fix reg
  have "each_row upsert (map key rows) reg =
      (case List.find (\<lambda>r. \<not> grantable valid_cron (wish r)) rows of
         None \<Rightarrow> (Inr (), grant (map wish rows) reg)
       | Some r \<Rightarrow> (Inl (en_schedule_expr (the (snd (wish r)))),
                    grant (takeWhile (grantable valid_cron) (map wish rows)) reg))"
    by (rule each_row_grants) (rule assms(2) [OF find_row_distinct [OF assms(1)]])
  then show "each_row upsert (map key rows) reg = grant_all valid_cron (map wish rows) reg"
    by (simp add: grant_all_def find_map split: option.split)
qed

lemma grant_all_append:
  "grant_all valid_cron (xs @ ys) reg =
     (case grant_all valid_cron xs reg of (Inl e, reg1) \<Rightarrow> (Inl e, reg1) | (Inr u, reg1) \<Rightarrow> grant_all valid_cron ys reg1)"
proof (cases "List.find (\<lambda>w. \<not> grantable valid_cron w) xs")
  case None
  then have "takeWhile (grantable valid_cron) (xs @ ys) = xs @ takeWhile (grantable valid_cron) ys"
    using find_None_all [of "grantable valid_cron" xs] by (simp add: takeWhile_append)
  then show ?thesis using None by (simp add: grant_all_def find_append grant_def split: option.split)
next
  case (Some w)
  then have "takeWhile (grantable valid_cron) (xs @ ys) = takeWhile (grantable valid_cron) xs"
    using find_None_all [of "grantable valid_cron" xs] by (auto simp: takeWhile_append)
  then show ?thesis using Some by (simp add: grant_all_def find_append)
qed

lemma load_all_eq:
  assumes "unique_rows d"
  shows "load_all_from_db valid_cron d reg = grant_all valid_cron (wishes d) reg"
proof -
  have tables: "each_row (upsert_published_job valid_cron d) (map pj_id (published_jobs d)) =
        grant_all valid_cron (map published_job_wish (published_jobs d))"
      "each_row (upsert_auth_policy valid_cron d) (map ap_id (system_auth_policies d)) =
        grant_all valid_cron (map auth_policy_wish (system_auth_policies d))"
      "each_row (upsert_crawl_policy valid_cron d) (map cp_id (system_crawl_policies d)) =
        grant_all valid_cron (map crawl_policy_wish (system_crawl_policies d))"
    using assms unfolding unique_rows_def
    by (auto intro!: each_row_eq upsert_published_job_grants upsert_auth_policy_grants upsert_crawl_policy_grants)
  show ?thesis
    by (simp add: load_all_from_db_def tables wishes_def grant_all_append split: prod.split sum.split)
qed

text \<open>Loading the registry from the database registers every active published job and every enabled
  active policy under its own id with its schedule, removes those that are not active and leaves the
  ids of no row alone; a row whose schedule cannot be parsed raises, and then exactly the rows before
  it have been handled.\<close>

theorem registry_mirrors_database:
  assumes "unique_rows d"
  shows "load_all_from_db valid_cron d reg =
    (case List.find (\<lambda>w. \<not> grantable valid_cron w) (wishes d) of
       None \<Rightarrow> (Inr (), \<lambda>k. case map_of (wishes d) k of None \<Rightarrow> reg k | Some e \<Rightarrow> e)
     | Some w \<Rightarrow> (Inl (en_schedule_expr (the (snd w))), grant (takeWhile (grantable valid_cron) (wishes d)) reg))"
  using grant_lookup [OF wish_keys_distinct [OF assms]]
  by (auto simp: load_all_eq [OF assms] grant_all_def split: option.split)

definition sample_auth_policy :: system_auth_policy where
  "sample_auth_policy =
     \<lparr>ap_id = 31, ap_system_id = 7, ap_enabled = True, ap_state = ''active'', ap_schedule_expr = ''0 * * * *'',
      ap_auth_mode = ''form'', ap_captcha_provider = ''ddddocr'', ap_last_triggered_at = None,
      ap_last_succeeded_at = None, ap_last_failed_at = None, ap_last_failure_message = None\<rparr>"

definition sample_schedule_db :: db where
  "sample_schedule_db = sample_db\<lparr>system_auth_policies := [sample_auth_policy],
     system_crawl_policies := []\<rparr>"

theorem registry_mirrors_database_witness:
  "\<exists>reg. load_all_from_db (\<lambda>e tz. True) sample_schedule_db Map.empty = (Inr (), reg) \<and>
     reg (build_auth_policy_job_id 7) = Some (auth_policy_entry sample_auth_policy)"
proof -
  have u: "unique_rows sample_schedule_db"
    by (simp add: unique_rows_def sample_schedule_db_def sample_db_def sample_job_def sample_auth_policy_def)
  have g: "List.find (\<lambda>w. \<not> grantable (\<lambda>e tz. True) w) ws = None" for ws
    by (simp add: find_None_all grantable_def split: option.split)
  show ?thesis
    using registry_mirrors_database [OF u, of "\<lambda>e tz. True" Map.empty]
    by (simp add: g wishes_def sample_schedule_db_def sample_db_def sample_job_def published_job_wish_def
        auth_policy_wish_def sample_auth_policy_def)
qed

end
