(* ===== verification/SchedulerRuntime.thy ===== *)
theory SchedulerRuntime
  imports SchedulerRegistry
begin

section \<open>The scheduler runtime\<close>

text \<open>
  runtime/scheduler\_runtime.py and runtime/scheduler\_daemon.py: what happens when a schedule fires.
  A callback opens a session of its own, so a trigger maps the stored database to the stored
  database; what it leaves uncommitted is lost when the session is closed. The keys of new rows and
  the readings of the clock are arguments. The job store, the listeners and the running state of
  APScheduler are a record.
\<close>

definition runtime_minute_key :: "datetime option \<Rightarrow> datetime" where
  "runtime_minute_key value = (case value of None \<Rightarrow> datetime_min_utc | Some t \<Rightarrow> minute_key t)"

subsection \<open>Triggers\<close>

type_synonym db_op = "db \<Rightarrow> (string + bool) \<times> db"

definition with_session :: "(db_session \<Rightarrow> 'r \<times> db_session) \<Rightarrow> db \<Rightarrow> 'r \<times> db" where
  "with_session func d = (let (r, s) = func (open_session d) in (r, committed s))"

definition trigger_published_job_now ::
  "uuid \<Rightarrow> uuid \<Rightarrow> datetime \<Rightarrow> string \<Rightarrow> datetime option \<Rightarrow> db_op" where
  "trigger_published_job_now run_id queue_id now published_job_id scheduled_at =
     (let run_time = normalize_time (py_or scheduled_at now)
      in with_session (\<lambda>s.
           case parse_uuid_str published_job_id of
             None \<Rightarrow> (Inl (uuid_error published_job_id), s)
           | Some i \<Rightarrow> (let (b, s') = trigger_scheduled_job sql_enqueue run_id queue_id now i run_time s
                       in (Inr b, s'))))"

definition load_auth_policy :: "uuid \<Rightarrow> db \<Rightarrow> system_auth_policy option" where
  "load_auth_policy identifier d =
     (case find_row ap_id identifier (system_auth_policies d) of
        Some policy \<Rightarrow> Some policy
      | None \<Rightarrow> List.find (\<lambda>p. ap_system_id p = identifier) (system_auth_policies d))"

definition load_crawl_policy :: "uuid \<Rightarrow> db \<Rightarrow> system_crawl_policy option" where
  "load_crawl_policy identifier d =
     (case find_row cp_id identifier (system_crawl_policies d) of
        Some policy \<Rightarrow> Some policy
      | None \<Rightarrow> List.find (\<lambda>p. cp_system_id p = identifier) (system_crawl_policies d))"

definition auth_policy_payload :: "system_auth_policy \<Rightarrow> datetime \<Rightarrow> pydict" where
  "auth_policy_payload policy run_time =
     [(''system_id'', PStr (uuid_str (ap_system_id policy))),
      (''policy_id'', PStr (uuid_str (ap_id policy))),
      (''trigger_source'', PStr (trigger_source_value TriggerScheduler)),
      (''scheduled_at'', PStr (isoformat run_time))]"

definition crawl_policy_payload :: "system_crawl_policy \<Rightarrow> datetime \<Rightarrow> pydict" where
  "crawl_policy_payload policy run_time =
     [(''system_id'', PStr (uuid_str (cp_system_id policy))),
      (''crawl_scope'', PStr (cp_crawl_scope policy)),
      (''policy_id'', PStr (uuid_str (cp_id policy))),
      (''trigger_source'', PStr (trigger_source_value TriggerScheduler)),
      (''scheduled_at'', PStr (isoformat run_time))]"

text \<open>The audit columns of the queued job: \<open>policy_id\<close>, \<open>trigger_source\<close> and \<open>scheduled_at\<close>.\<close>

definition stamp_policy_job :: "uuid \<Rightarrow> datetime \<Rightarrow> queued_job \<Rightarrow> queued_job" where
  "stamp_policy_job pid run_time j =
     j\<lparr>qj_policy_id := Some pid, qj_trigger_source := Some (trigger_source_value TriggerScheduler),
       qj_scheduled_at := Some run_time\<rparr>"

definition trigger_auth_policy_now :: "uuid \<Rightarrow> datetime \<Rightarrow> string \<Rightarrow> datetime option \<Rightarrow> db_op" where
  "trigger_auth_policy_now queue_id now policy_id scheduled_at =
     (let run_time = normalize_time (py_or scheduled_at now)
      in with_session (\<lambda>s.
           case parse_uuid_str policy_id of
             None \<Rightarrow> (Inl (uuid_error policy_id), s)
           | Some identifier \<Rightarrow>
               (case load_auth_policy identifier (working s) of
                  None \<Rightarrow> (Inr False, s)
                | Some policy \<Rightarrow>
                    if \<not> ap_enabled policy \<or> ap_state policy \<noteq> runtime_policy_state_value PolicyActive
                    then (Inr False, s)
                    else if runtime_minute_key (ap_last_triggered_at policy) = runtime_minute_key (Some run_time)
                    then (Inr False, s)
                    else
                      (let (qid, s1) = sql_enqueue queue_id now AUTH_REFRESH_JOB_TYPE
                                         (auth_policy_payload policy run_time) s;
                           s2 = (case get_job qid (working s1) of
                                   None \<Rightarrow> s1
                                 | Some j \<Rightarrow> modify (upd_job qid (stamp_policy_job (ap_id policy) run_time)) s1)
                       in (Inr True, commit (modify (on_auth_policy (Some (ap_id policy))
                             (\<lambda>p. p\<lparr>ap_last_triggered_at := Some run_time\<rparr>)) s2))))))"

definition trigger_crawl_policy_now :: "uuid \<Rightarrow> datetime \<Rightarrow> string \<Rightarrow> datetime option \<Rightarrow> db_op" where
  "trigger_crawl_policy_now queue_id now policy_id scheduled_at =
     (let run_time = normalize_time (py_or scheduled_at now)
      in with_session (\<lambda>s.
           case parse_uuid_str policy_id of
             None \<Rightarrow> (Inl (uuid_error policy_id), s)
           | Some identifier \<Rightarrow>
               (case load_crawl_policy identifier (working s) of
                  None \<Rightarrow> (Inr False, s)
                | Some policy \<Rightarrow>
                    if \<not> cp_enabled policy \<or> cp_state policy \<noteq> runtime_policy_state_value PolicyActive
                    then (Inr False, s)
                    else if runtime_minute_key (cp_last_triggered_at policy) = runtime_minute_key (Some run_time)
                    then (Inr False, s)
                    else
                      (let (qid, s1) = sql_enqueue queue_id now CRAWL_JOB_TYPE
                                         (crawl_policy_payload policy run_time) s;
                           s2 = (case get_job qid (working s1) of
                                   None \<Rightarrow> s1
                                 | Some j \<Rightarrow> modify (upd_job qid (stamp_policy_job (cp_id policy) run_time)) s1)
                       in (Inr True, commit (modify (on_crawl_policy (Some (cp_id policy))
                             (\<lambda>p. p\<lparr>cp_last_triggered_at := Some run_time\<rparr>)) s2))))))"

subsection \<open>Events of the scheduler\<close>

text \<open>
  \<open>job_id.split(":", 1)\<close> is used where a colon occurs. The keyword arguments of a registered job are
  always strings, so the test of their types is true for every entry of the registry.
\<close>

fun split_colon :: "string \<Rightarrow> (string \<times> string) option" where
  "split_colon [] = None"
| "split_colon (c # cs) =
     (if c = CHR '':'' then Some ([], cs)
      else map_option (\<lambda>(a, b). (c # a, b)) (split_colon cs))"

definition resolve_callback_target :: "registry \<Rightarrow> string \<Rightarrow> (string \<times> string) option" where
  "resolve_callback_target reg job_id =
     (case reg job_id of
        Some entry \<Rightarrow> Some (en_kind entry, en_entity_id entry)
      | None \<Rightarrow>
          (case split_colon job_id of
             None \<Rightarrow> None
           | Some (kind_prefix, entity_id) \<Rightarrow>
               if kind_prefix \<in> {''published_job'', ''auth_policy'', ''crawl_policy''}
               then Some (kind_prefix, entity_id) else None))"

definition dispatch_callback_async ::
  "uuid \<Rightarrow> uuid \<Rightarrow> datetime \<Rightarrow> string \<Rightarrow> string \<Rightarrow> datetime \<Rightarrow> db_op" where
  "dispatch_callback_async run_id queue_id now kind entity_id fire_time =
     (if kind = ''published_job'' then trigger_published_job_now run_id queue_id now entity_id (Some fire_time)
      else if kind = ''auth_policy'' then trigger_auth_policy_now queue_id now entity_id (Some fire_time)
      else if kind = ''crawl_policy'' then trigger_crawl_policy_now queue_id now entity_id (Some fire_time)
      else (\<lambda>d. (Inr False, d)))"

text \<open>The listener drops the answer of the trigger; an exception leaves it.\<close>

definition on_scheduler_job_event ::
  "uuid \<Rightarrow> uuid \<Rightarrow> datetime \<Rightarrow> registry \<Rightarrow> string \<Rightarrow> datetime option \<Rightarrow> db \<Rightarrow> (string + unit) \<times> db" where
  "on_scheduler_job_event run_id queue_id now reg job_id scheduled_run_time d =
     (case resolve_callback_target reg job_id of
        None \<Rightarrow> (Inr (), d)
      | Some (kind, entity_id) \<Rightarrow>
          (let fire_time = normalize_time (py_or scheduled_run_time now);
               (r, d') = dispatch_callback_async run_id queue_id now kind entity_id fire_time d
           in (map_sum id (\<lambda>_. ()) r, d')))"

subsection \<open>Start, reload and stop\<close>

text \<open>
  The states of an APScheduler: \<open>running\<close> is true unless it is stopped, \<open>resume\<close> leaves the paused
  state. What a shutdown leaves in the job store is the parameter \<open>shut\<close>.
\<close>

datatype scheduler_state = SchedulerStopped | SchedulerRunning | SchedulerPaused

record scheduler_runtime =
  sr_registry :: registry
  sr_state :: scheduler_state
  sr_listeners :: nat
  sr_listener_registered :: bool

definition runtime_reload_all ::
  "(string \<Rightarrow> string \<Rightarrow> bool) \<Rightarrow> db \<Rightarrow> scheduler_runtime \<Rightarrow> (string + unit) \<times> scheduler_runtime" where
  "runtime_reload_all valid_cron d rt =
     (let (r, reg) = load_all_from_db valid_cron d (sr_registry rt) in (r, rt\<lparr>sr_registry := reg\<rparr>))"

definition ensure_job_listener :: "scheduler_runtime \<Rightarrow> scheduler_runtime" where
  "ensure_job_listener rt =
     (if sr_listener_registered rt then rt
      else rt\<lparr>sr_listeners := sr_listeners rt + 1, sr_listener_registered := True\<rparr>)"

definition runtime_start ::
  "(string \<Rightarrow> string \<Rightarrow> bool) \<Rightarrow> db \<Rightarrow> scheduler_runtime \<Rightarrow> (string + unit) \<times> scheduler_runtime" where
  "runtime_start valid_cron d rt =
     (case runtime_reload_all valid_cron d rt of
        (Inl e, rt1) \<Rightarrow> (Inl e, rt1)
      | (Inr u, rt1) \<Rightarrow> (Inr u, (ensure_job_listener rt1)\<lparr>sr_state := SchedulerRunning\<rparr>))"

definition runtime_stop :: "(registry \<Rightarrow> registry) \<Rightarrow> scheduler_runtime \<Rightarrow> scheduler_runtime" where
  "runtime_stop shut rt =
     (if sr_state rt \<noteq> SchedulerStopped
      then rt\<lparr>sr_state := SchedulerStopped, sr_registry := shut (sr_registry rt)\<rparr> else rt)"

text \<open>
  \<open>run_scheduler_daemon\<close>: each wait of the loop is given by whether the stop event is set at its end
  and by the database at that time. The result is \<open>None\<close> while the daemon still waits after the last
  given wait; otherwise how it ended, the scheduler stopped by the \<open>finally\<close> clause. The seconds it
  waits do not matter here; \<open>reloads\<close> is whether the reload interval is positive.
\<close>

fun daemon_loop ::
  "(string \<Rightarrow> string \<Rightarrow> bool) \<Rightarrow> (registry \<Rightarrow> registry) \<Rightarrow> bool \<Rightarrow> (bool \<times> db) list \<Rightarrow> scheduler_runtime \<Rightarrow>
    (string + unit) option \<times> scheduler_runtime" where
  "daemon_loop valid_cron shut reloads [] rt = (None, rt)"
| "daemon_loop valid_cron shut reloads ((stop_is_set, d) # waits) rt =
     (if stop_is_set then (Some (Inr ()), runtime_stop shut rt)
      else if reloads then
        (case runtime_reload_all valid_cron d rt of
           (Inl e, rt1) \<Rightarrow> (Some (Inl e), runtime_stop shut rt1)
         | (Inr _, rt1) \<Rightarrow> daemon_loop valid_cron shut reloads waits rt1)
      else daemon_loop valid_cron shut reloads waits rt)"

definition run_scheduler_daemon ::
  "(string \<Rightarrow> string \<Rightarrow> bool) \<Rightarrow> (registry \<Rightarrow> registry) \<Rightarrow> bool \<Rightarrow> bool \<Rightarrow> db \<Rightarrow> (bool \<times> db) list \<Rightarrow>
    scheduler_runtime \<Rightarrow> (string + unit) option \<times> scheduler_runtime" where
  "run_scheduler_daemon valid_cron shut scheduler_enabled reloads d waits rt =
     (if \<not> scheduler_enabled then (Some (Inr ()), rt)
      else case runtime_start valid_cron d rt of
             (Inl e, rt1) \<Rightarrow> (Some (Inl e), rt1)
           | (Inr _, rt1) \<Rightarrow> daemon_loop valid_cron shut reloads waits rt1)"

subsection \<open>Triggering a policy\<close>

lemma runtime_minute_key_of: "runtime_minute_key (Some t) = minute_key t"
  by (simp add: runtime_minute_key_def)

text \<open>The row a trigger adds, and whether a policy can be triggered at a time.\<close>

definition policy_job :: "uuid \<Rightarrow> datetime \<Rightarrow> string \<Rightarrow> pydict \<Rightarrow> uuid \<Rightarrow> datetime \<Rightarrow> queued_job" where
  "policy_job qid now job_type payload pid t = stamp_policy_job pid t (new_queued_job qid now job_type payload)"

definition auth_policy_due :: "system_auth_policy \<Rightarrow> datetime \<Rightarrow> bool" where
  "auth_policy_due p t \<longleftrightarrow> ap_enabled p \<and> ap_state p = ''active'' \<and>
     runtime_minute_key (ap_last_triggered_at p) \<noteq> minute_key t"

definition crawl_policy_due :: "system_crawl_policy \<Rightarrow> datetime \<Rightarrow> bool" where
  "crawl_policy_due p t \<longleftrightarrow> cp_enabled p \<and> cp_state p = ''active'' \<and>
     runtime_minute_key (cp_last_triggered_at p) \<noteq> minute_key t"

lemma enqueue_stamp:
  assumes "qid \<notin> keys_of qj_id (queued_jobs d)"
  shows "modify (upd_job qid (stamp_policy_job pid t)) (snd (sql_enqueue qid now ty payload (open_session d))) =
    modify (\<lambda>d. d\<lparr>queued_jobs := queued_jobs d @ [policy_job qid now ty payload pid t]\<rparr>) (open_session d)"
  using assms
  by (simp add: sql_enqueue_def policy_job_def upd_job_def row_simps upd_row_absent keys_of_def modify_def
      open_session_def new_queued_job_def)

lemma enqueue_found:
  assumes "qid \<notin> keys_of qj_id (queued_jobs d)"
  shows "get_job qid (working (snd (sql_enqueue qid now ty payload (open_session d)))) =
    Some (new_queued_job qid now ty payload)"
proof -
  have "find_row qj_id qid (queued_jobs d) = None" using assms by (simp add: find_row_None_iff keys_of_def)
  then show ?thesis by (simp add: sql_enqueue_def get_job_def row_simps new_queued_job_def)
qed

lemma trigger_auth_policy_eq:
  assumes "parse_uuid_str raw = Some i" "qid \<notin> keys_of qj_id (queued_jobs d)"
  shows "trigger_auth_policy_now qid now raw (Some t) d =
    (case load_auth_policy i d of
       None \<Rightarrow> (Inr False, d)
     | Some p \<Rightarrow>
         if auth_policy_due p t then
           (Inr True, on_auth_policy (Some (ap_id p)) (\<lambda>p. p\<lparr>ap_last_triggered_at := Some (normalize_time t)\<rparr>)
              (d\<lparr>queued_jobs := queued_jobs d @
                 [policy_job qid now AUTH_REFRESH_JOB_TYPE (auth_policy_payload p (normalize_time t)) (ap_id p)
                    (normalize_time t)]\<rparr>))
         else (Inr False, d))"
proof (cases "load_auth_policy i d")
  case (Some p)
  have key: "minute_key (normalize_time t) = minute_key t" by (simp add: minute_key_eq_iff)
  have fst: "fst (sql_enqueue qid now ty payload s) = qid" for ty payload s by (simp add: sql_enqueue_def)
  show ?thesis
    using Some assms enqueue_found [OF assms(2)] enqueue_stamp [OF assms(2)]
    by (auto simp: trigger_auth_policy_now_def with_session_def auth_policy_due_def runtime_minute_key_of
        key fst case_prod_beta Let_def)
qed (simp add: trigger_auth_policy_now_def with_session_def assms Let_def)

lemma trigger_crawl_policy_eq:
  assumes "parse_uuid_str raw = Some i" "qid \<notin> keys_of qj_id (queued_jobs d)"
  shows "trigger_crawl_policy_now qid now raw (Some t) d =
    (case load_crawl_policy i d of
       None \<Rightarrow> (Inr False, d)
     | Some p \<Rightarrow>
         if crawl_policy_due p t then
           (Inr True, on_crawl_policy (Some (cp_id p)) (\<lambda>p. p\<lparr>cp_last_triggered_at := Some (normalize_time t)\<rparr>)
              (d\<lparr>queued_jobs := queued_jobs d @
                 [policy_job qid now CRAWL_JOB_TYPE (crawl_policy_payload p (normalize_time t)) (cp_id p)
                    (normalize_time t)]\<rparr>))
         else (Inr False, d))"
proof (cases "load_crawl_policy i d")
  case (Some p)
  have key: "minute_key (normalize_time t) = minute_key t" by (simp add: minute_key_eq_iff)
  have fst: "fst (sql_enqueue qid now ty payload s) = qid" for ty payload s by (simp add: sql_enqueue_def)
  show ?thesis
    using Some assms enqueue_found [OF assms(2)] enqueue_stamp [OF assms(2)]
    by (auto simp: trigger_crawl_policy_now_def with_session_def crawl_policy_due_def runtime_minute_key_of
        key fst case_prod_beta Let_def)
qed (simp add: trigger_crawl_policy_now_def with_session_def assms Let_def)

subsection \<open>Repeated callbacks of one policy\<close>

text \<open>A callback: the key of the job it would queue, its clock reading and its scheduled time.\<close>

type_synonym policy_tick = "uuid \<times> datetime \<times> datetime"

fun policy_ticks ::
  "(uuid \<Rightarrow> datetime \<Rightarrow> datetime \<Rightarrow> 'd \<Rightarrow> bool \<times> 'd) \<Rightarrow> policy_tick list \<Rightarrow> 'd \<Rightarrow> bool list \<times> 'd" where
  "policy_ticks fire [] d = ([], d)"
| "policy_ticks fire ((qid, now, t) # ks) d =
     (let (b, d1) = fire qid now t d; (bs, d2) = policy_ticks fire ks d1 in (b # bs, d2))"

definition policy_tick_time :: "policy_tick \<Rightarrow> datetime" where
  "policy_tick_time k = snd (snd k)"

definition job_minute :: "queued_job \<Rightarrow> datetime" where
  "job_minute j = runtime_minute_key (qj_scheduled_at j)"

text \<open>
  What the callbacks of a policy promise, whatever its kind: \<open>last d\<close> is the time of its last trigger
  (\<open>None\<close> when it is missing or switched off), \<open>mine j\<close> that a job belongs to it. A callback in the
  minute of the last trigger does nothing; another one queues one job.
\<close>

locale policy_trigger =
  fixes fire :: "uuid \<Rightarrow> datetime \<Rightarrow> datetime \<Rightarrow> 'd \<Rightarrow> bool \<times> 'd"
    and last_trigger :: "'d \<Rightarrow> datetime option option"
    and jobs_of :: "'d \<Rightarrow> queued_job list"
    and mine :: "queued_job \<Rightarrow> bool"
  assumes fire_same_minute:
      "last_trigger d = Some l \<Longrightarrow> qid \<notin> keys_of qj_id (jobs_of d) \<Longrightarrow> runtime_minute_key l = minute_key t \<Longrightarrow>
        fire qid now t d = (False, d)"
    and fire_due:
      "last_trigger d = Some l \<Longrightarrow> qid \<notin> keys_of qj_id (jobs_of d) \<Longrightarrow> runtime_minute_key l \<noteq> minute_key t \<Longrightarrow>
        \<exists>d' j. fire qid now t d = (True, d') \<and> last_trigger d' = Some (Some (normalize_time t)) \<and>
          jobs_of d' = jobs_of d @ [j] \<and> qj_id j = qid \<and> mine j \<and> qj_scheduled_at j = Some (normalize_time t)"
begin

text \<open>A sequence of callbacks queues one job whenever the minute changes.\<close>

lemma ticks_jobs:
  assumes "policy_ticks fire ks d = (bs, d')" "last_trigger d = Some l"
    and "distinct (map fst ks)" "set (map fst ks) \<inter> keys_of qj_id (jobs_of d) = {}"
  shows "\<exists>js. jobs_of d' = jobs_of d @ js \<and> (\<forall>j \<in> set js. mine j) \<and>
    map job_minute js = tl (remdups_adj (runtime_minute_key l # map (minute_key \<circ> policy_tick_time) ks))"
  using assms
proof (induction ks arbitrary: d l bs)
  case (Cons k ks)
  obtain qid now t where k: "k = (qid, now, t)" by (metis prod_cases3)
  obtain b d1 where one: "fire qid now t d = (b, d1)" by fastforce
  then obtain bs' where rest: "policy_ticks fire ks d1 = (bs', d')"
    using Cons.prems(1) k by (auto split: prod.splits)
  have fresh: "qid \<notin> keys_of qj_id (jobs_of d)" and dist: "distinct (map fst ks)"
    using Cons.prems(3,4) k by auto
  show ?case
  proof (cases "runtime_minute_key l = minute_key t")
    case True
    then have "d1 = d" using fire_same_minute [OF Cons.prems(2) fresh] one by simp
    then show ?thesis
      using Cons.IH [OF rest, of l] Cons.prems(2,4) dist True k
      by (simp add: policy_tick_time_def)
  next
    case False
    from fire_due [OF Cons.prems(2) fresh this, of now] one obtain j where
      j: "last_trigger d1 = Some (Some (normalize_time t))" "jobs_of d1 = jobs_of d @ [j]" "qj_id j = qid" "mine j"
        "qj_scheduled_at j = Some (normalize_time t)"
      by auto
    have key: "runtime_minute_key (Some (normalize_time t)) = minute_key t"
      by (simp add: runtime_minute_key_of minute_key_eq_iff)
    have "set (map fst ks) \<inter> keys_of qj_id (jobs_of d1) = {}"
      using Cons.prems(3,4) k j(2,3) by (auto simp: keys_of_def)
    from Cons.IH [OF rest j(1) dist this] obtain js where
      js: "jobs_of d' = jobs_of d1 @ js" "\<forall>j \<in> set js. mine j"
        "map job_minute js = tl (remdups_adj (minute_key t # map (minute_key \<circ> policy_tick_time) ks))"
      unfolding key by blast
    have hd: "remdups_adj (x # xs) = x # tl (remdups_adj (x # xs))" for x :: datetime and xs
      by (metis list.sel(1) list.collapse list.distinct(1) remdups_adj_Nil_iff hd_remdups_adj)
    have "job_minute j = minute_key t" by (simp add: job_minute_def j(5) key)
    then show ?thesis
      using js j(2,4) False k hd
      by (intro exI [of _ "j # js"]) (simp add: policy_tick_time_def comp_def)
  qed
qed simp

end

text \<open>The callbacks of a policy as the scheduler dispatches them, and when the policy was triggered last.\<close>

definition policy_fire :: "string \<Rightarrow> uuid \<Rightarrow> uuid \<Rightarrow> datetime \<Rightarrow> datetime \<Rightarrow> db \<Rightarrow> bool \<times> db" where
  "policy_fire kind i qid now t d =
     (let (r, d') = dispatch_callback_async qid qid now kind (uuid_str i) t d in (r = Inr True, d'))"

definition policy_last_trigger :: "string \<Rightarrow> uuid \<Rightarrow> db \<Rightarrow> datetime option option" where
  "policy_last_trigger kind i d =
     (if kind = ''auth_policy'' then
        (case find_row ap_id i (system_auth_policies d) of
           None \<Rightarrow> None
         | Some p \<Rightarrow> if ap_enabled p \<and> ap_state p = ''active'' then Some (ap_last_triggered_at p) else None)
      else
        (case find_row cp_id i (system_crawl_policies d) of
           None \<Rightarrow> None
         | Some p \<Rightarrow> if cp_enabled p \<and> cp_state p = ''active'' then Some (cp_last_triggered_at p) else None))"

definition policy_owns :: "string \<Rightarrow> uuid \<Rightarrow> queued_job \<Rightarrow> bool" where
  "policy_owns job_type i j \<longleftrightarrow> qj_job_type j = job_type \<and> qj_policy_id j = Some i \<and>
     qj_trigger_source j = Some ''scheduler'' \<and> qj_status j = ACCEPTED \<and>
     parse_uuid (dget (qj_payload j) ''policy_id'') = Some i"

lemma policy_job_simps [simp]:
  "qj_id (policy_job qid now ty payload pid t) = qid"
  "qj_scheduled_at (policy_job qid now ty payload pid t) = Some t"
  "policy_owns ty pid (policy_job qid now ty payload pid t) \<longleftrightarrow>
     parse_uuid (dget payload ''policy_id'') = Some pid"
  by (simp_all add: policy_job_def stamp_policy_job_def new_queued_job_def policy_owns_def)

lemma auth_policy_loaded:
  assumes "policy_last_trigger ''auth_policy'' i d = Some l"
  obtains p where "load_auth_policy i d = Some p" "find_row ap_id i (system_auth_policies d) = Some p"
    "ap_id p = i" "ap_enabled p" "ap_state p = ''active''" "ap_last_triggered_at p = l"
  using assms
  by (auto simp: policy_last_trigger_def load_auth_policy_def split: option.splits if_splits dest: find_row_Some_key)

lemma crawl_policy_loaded:
  assumes "policy_last_trigger ''crawl_policy'' i d = Some l"
  obtains p where "load_crawl_policy i d = Some p" "find_row cp_id i (system_crawl_policies d) = Some p"
    "cp_id p = i" "cp_enabled p" "cp_state p = ''active''" "cp_last_triggered_at p = l"
  using assms
  by (auto simp: policy_last_trigger_def load_crawl_policy_def split: option.splits if_splits dest: find_row_Some_key)

interpretation auth: policy_trigger "policy_fire ''auth_policy'' i" "policy_last_trigger ''auth_policy'' i"
  queued_jobs "policy_owns AUTH_REFRESH_JOB_TYPE i" for i
proof unfold_locales
  fix d l qid t now
  assume last: "policy_last_trigger ''auth_policy'' i d = Some l" and fresh: "qid \<notin> keys_of qj_id (queued_jobs d)"
  obtain p where p: "load_auth_policy i d = Some p" "find_row ap_id i (system_auth_policies d) = Some p"
      "ap_id p = i" "ap_enabled p" "ap_state p = ''active''" "ap_last_triggered_at p = l"
    by (rule auth_policy_loaded [OF last])
  note fire = policy_fire_def dispatch_callback_async_def trigger_auth_policy_eq [OF parse_uuid_str_uuid_str fresh]
    p auth_policy_due_def
  show "policy_fire ''auth_policy'' i qid now t d = (False, d)" if "runtime_minute_key l = minute_key t"
    using that by (simp add: fire)
  show "\<exists>d' j. policy_fire ''auth_policy'' i qid now t d = (True, d') \<and>
      policy_last_trigger ''auth_policy'' i d' = Some (Some (normalize_time t)) \<and>
      queued_jobs d' = queued_jobs d @ [j] \<and> qj_id j = qid \<and> policy_owns AUTH_REFRESH_JOB_TYPE i j \<and>
      qj_scheduled_at j = Some (normalize_time t)" if "runtime_minute_key l \<noteq> minute_key t"
    using that
    by (simp add: fire on_auth_policy_def policy_last_trigger_def find_upd_row_same auth_policy_payload_def)
qed

interpretation crawl: policy_trigger "policy_fire ''crawl_policy'' i" "policy_last_trigger ''crawl_policy'' i"
  queued_jobs "policy_owns CRAWL_JOB_TYPE i" for i
proof unfold_locales
  fix d l qid t now
  assume last: "policy_last_trigger ''crawl_policy'' i d = Some l" and fresh: "qid \<notin> keys_of qj_id (queued_jobs d)"
  obtain p where p: "load_crawl_policy i d = Some p" "find_row cp_id i (system_crawl_policies d) = Some p"
      "cp_id p = i" "cp_enabled p" "cp_state p = ''active''" "cp_last_triggered_at p = l"
    by (rule crawl_policy_loaded [OF last])
  note fire = policy_fire_def dispatch_callback_async_def trigger_crawl_policy_eq [OF parse_uuid_str_uuid_str fresh]
    p crawl_policy_due_def
  show "policy_fire ''crawl_policy'' i qid now t d = (False, d)" if "runtime_minute_key l = minute_key t"
    using that by (simp add: fire)
  show "\<exists>d' j. policy_fire ''crawl_policy'' i qid now t d = (True, d') \<and>
      policy_last_trigger ''crawl_policy'' i d' = Some (Some (normalize_time t)) \<and>
      queued_jobs d' = queued_jobs d @ [j] \<and> qj_id j = qid \<and> policy_owns CRAWL_JOB_TYPE i j \<and>
      qj_scheduled_at j = Some (normalize_time t)" if "runtime_minute_key l \<noteq> minute_key t"
    using that
    by (simp add: fire on_crawl_policy_def policy_last_trigger_def find_upd_row_same crawl_policy_payload_def)
qed

definition policy_job_type :: "string \<Rightarrow> string" where
  "policy_job_type kind = (if kind = ''auth_policy'' then AUTH_REFRESH_JOB_TYPE else CRAWL_JOB_TYPE)"

text \<open>Minutes that do not go back change only to later ones.\<close>

lemma sorted_distinct_adj:
  fixes ys :: "'b::linorder list"
  shows "sorted ys \<Longrightarrow> distinct_adj ys \<Longrightarrow> sorted_wrt (<) ys"
  by (induction ys rule: induct_list012) force+

lemma sorted_remdups_adj_distinct:
  fixes f :: "'a \<Rightarrow> 'b::linorder"
  assumes "sorted (map f xs)" "inj_on f (set xs)"
  shows "distinct (remdups_adj xs)"
proof -
  have "sorted (map f (remdups_adj xs))"
    using assms(1) by (induction xs rule: remdups_adj.induct) auto
  moreover have "distinct_adj (map f (remdups_adj xs))"
    using assms(2) distinct_adj_remdups_adj [of xs]
    by (subst distinct_adj_map_iff) (auto simp: inj_on_def)
  ultimately have "sorted_wrt (<) (map f (remdups_adj xs))" by (rule sorted_distinct_adj)
  then show ?thesis by (metis distinct_map strict_sorted_iff)
qed

lemma minute_key_inj: "inj_on wall_us (insert (runtime_minute_key l) (minute_key ` T))"
proof -
  have "utcoffset_us (runtime_minute_key l) = Some 0"
    by (simp add: runtime_minute_key_def datetime_min_utc_def split: option.split)
  then show ?thesis
    by (auto simp: inj_on_def intro!: datetime.equality)
qed

text \<open>C8: the callbacks of a login or crawl policy that is switched on queue one job of its type for the
  policy each time the minute of the callbacks changes, counting from the last trigger the policy has
  recorded, and none for a callback repeated within a minute; when the callbacks come in the order of
  their minutes no minute gets two jobs.\<close>

theorem policy_callbacks_once_per_minute:
  assumes "policy_ticks (policy_fire kind i) ks d = (bs, d')"
    and "kind \<in> {''auth_policy'', ''crawl_policy''}" "policy_last_trigger kind i d = Some l"
    and "distinct (map fst ks)" "set (map fst ks) \<inter> keys_of qj_id (queued_jobs d) = {}"
  shows "\<exists>js. queued_jobs d' = queued_jobs d @ js \<and> (\<forall>j \<in> set js. policy_owns (policy_job_type kind) i j) \<and>
    map job_minute js = tl (remdups_adj (runtime_minute_key l # map (minute_key \<circ> policy_tick_time) ks)) \<and>
    (sorted (map wall_us (runtime_minute_key l # map (minute_key \<circ> policy_tick_time) ks)) \<longrightarrow>
      distinct (map job_minute js))"
proof -
  let ?ms = "runtime_minute_key l # map (minute_key \<circ> policy_tick_time) ks"
  obtain js where js: "queued_jobs d' = queued_jobs d @ js" "\<forall>j \<in> set js. policy_owns (policy_job_type kind) i j"
      "map job_minute js = tl (remdups_adj ?ms)"
    using assms(2) auth.ticks_jobs [OF _ _ assms(4,5), of i bs d' l] crawl.ticks_jobs [OF _ _ assms(4,5), of i bs d' l]
      assms(1,3) by (auto simp: policy_job_type_def)
  have "distinct (map job_minute js)" if "sorted (map wall_us ?ms)"
  proof -
    have "inj_on wall_us (set ?ms)"
      using minute_key_inj [of l "policy_tick_time ` set ks"] by (simp add: image_comp)
    then show ?thesis
      using sorted_remdups_adj_distinct [OF that] by (simp add: js(3) distinct_tl)
  qed
  with js show ?thesis by blast
qed

definition sample_policy_ticks :: "policy_tick list" where
  "sample_policy_ticks =
     [(41, minutes_after_epoch 5, minutes_after_epoch 5), (42, minutes_after_epoch 5, minutes_after_epoch 5),
      (43, minutes_after_epoch 6, minutes_after_epoch 6)]"

theorem policy_callbacks_once_per_minute_witness:
  "\<exists>js. queued_jobs (snd (policy_ticks (policy_fire ''auth_policy'' 31) sample_policy_ticks sample_schedule_db)) =
     queued_jobs sample_schedule_db @ js \<and>
     map job_minute js = [minutes_after_epoch 5, minutes_after_epoch 6]"
proof -
  obtain bs d' where r: "policy_ticks (policy_fire ''auth_policy'' 31) sample_policy_ticks sample_schedule_db = (bs, d')"
    by fastforce
  have l: "policy_last_trigger ''auth_policy'' 31 sample_schedule_db = Some None"
    by (simp add: policy_last_trigger_def sample_schedule_db_def sample_auth_policy_def row_simps)
  have m: "minute_key (minutes_after_epoch m) = minutes_after_epoch m" for m
    by (simp add: minute_key_def minutes_after_epoch_def normalize_time_def us_per_minute_def)
  have keys: "distinct (map fst sample_policy_ticks)"
      "set (map fst sample_policy_ticks) \<inter> keys_of qj_id (queued_jobs sample_schedule_db) = {}"
    by (simp_all add: sample_policy_ticks_def sample_schedule_db_def sample_db_def empty_db_def)
  have "tl (remdups_adj (runtime_minute_key None # map (minute_key \<circ> policy_tick_time) sample_policy_ticks)) =
      [minutes_after_epoch 5, minutes_after_epoch 6]"
    by (simp add: sample_policy_ticks_def policy_tick_time_def m runtime_minute_key_def)
      (simp add: minutes_after_epoch_def datetime_min_utc_def)
  then show ?thesis
    using policy_callbacks_once_per_minute [OF r _ l keys] by (auto simp: r)
qed

subsection \<open>From the schedule to the handler\<close>

lemma split_colon_append: "CHR '':'' \<notin> set k \<Longrightarrow> split_colon (k @ CHR '':'' # e) = Some (k, e)"
  by (induction k) auto

lemma resolve_crawl_job:
  assumes "reg (build_crawl_policy_job_id sys) = None"
  shows "resolve_callback_target reg (build_crawl_policy_job_id sys) = Some (''crawl_policy'', uuid_str sys)"
  using assms split_colon_append [of "''crawl_policy''" "uuid_str sys"]
  by (simp add: resolve_callback_target_def build_crawl_policy_job_id_def)

lemma loaded_crawl_entry:
  assumes "unique_rows d" "load_all_from_db valid_cron d reg = (Inr (), reg')"
    and "p \<in> set (system_crawl_policies d)" "cp_enabled p" "cp_state p = ''active''"
  shows "reg' (build_crawl_policy_job_id (cp_system_id p)) = Some (crawl_policy_entry p)"
proof -
  note w = wish_keys_distinct [OF assms(1)]
  have "reg' = grant (wishes d) reg"
    using assms(2) by (simp add: load_all_eq [OF assms(1)] grant_all_def split: option.splits)
  moreover have "map_of (wishes d) (build_crawl_policy_job_id (cp_system_id p)) = Some (Some (crawl_policy_entry p))"
    using assms(3-5) by (intro map_of_is_SomeI [OF w]) (force simp: wishes_def crawl_policy_wish_def)
  ultimately show ?thesis by (simp add: grant_lookup [OF w])
qed

lemma crawl_policy_by_id:
  assumes "unique_rows d" "p \<in> set (system_crawl_policies d)"
  shows "load_crawl_policy (cp_id p) d = Some p"
  using assms by (simp add: unique_rows_def load_crawl_policy_def find_row_distinct)

lemma crawl_policy_by_system:
  assumes "unique_rows d" "p \<in> set (system_crawl_policies d)"
    and "cp_system_id p \<notin> keys_of cp_id (system_crawl_policies d)"
  shows "load_crawl_policy (cp_system_id p) d = Some p"
proof -
  have "find_row cp_system_id (cp_system_id p) (system_crawl_policies d) = Some p"
    using assms(1,2) by (simp add: unique_rows_def find_row_distinct)
  moreover have "find_row cp_id (cp_system_id p) (system_crawl_policies d) = None"
    using assms(3) by (simp add: find_row_None_iff keys_of_def)
  ultimately show ?thesis by (simp add: load_crawl_policy_def find_row_def)
qed

text \<open>C35: the event of a crawl policy's schedule, whether its entry is still registered as loaded or has
  left the job store, queues a crawl whose payload leads the crawl handler back to that policy and
  its system with the policy's scope, and records the trigger on the policy.\<close>

theorem scheduled_event_reaches_policy:
  assumes "unique_rows d" "p \<in> set (system_crawl_policies d)" "crawl_policy_due p t"
    and "load_all_from_db valid_cron d reg = (Inr (), reg') \<or>
      reg' (build_crawl_policy_job_id (cp_system_id p)) = None"
    and "cp_system_id p \<notin> keys_of cp_id (system_crawl_policies d)" "qid \<notin> keys_of qj_id (queued_jobs d)"
  shows "\<exists>d' j. on_scheduler_job_event rid qid now reg' (build_crawl_policy_job_id (cp_system_id p)) (Some t) d =
      (Inr (), d') \<and>
    queued_jobs d' = queued_jobs d @ [j] \<and> qj_job_type j = CRAWL_JOB_TYPE \<and>
    resolve_crawl_policy (qj_payload j) d' = Some (cp_id p) \<and>
    parse_uuid (dget (qj_payload j) ''system_id'') = Some (cp_system_id p) \<and>
    dget (qj_payload j) ''crawl_scope'' = PStr (cp_crawl_scope p) \<and>
    map_option cp_last_triggered_at (find_row cp_id (cp_id p) (system_crawl_policies d')) =
      Some (Some (normalize_time t))"
proof -
  obtain raw i where target: "resolve_callback_target reg' (build_crawl_policy_job_id (cp_system_id p)) =
        Some (''crawl_policy'', raw)"
      and raw: "parse_uuid_str raw = Some i" "load_crawl_policy i d = Some p"
  proof (cases "reg' (build_crawl_policy_job_id (cp_system_id p)) = None")
    case True
    then show ?thesis
      using that [OF resolve_crawl_job [of reg', OF True]] crawl_policy_by_system [OF assms(1,2,5)] by simp
  next
    case False
    then have "reg' (build_crawl_policy_job_id (cp_system_id p)) = Some (crawl_policy_entry p)"
      using assms(2-4) loaded_crawl_entry [OF assms(1)] by (auto simp: crawl_policy_due_def)
    then show ?thesis
      using that [of "uuid_str (cp_id p)"] crawl_policy_by_id [OF assms(1,2)]
      by (simp add: resolve_callback_target_def crawl_policy_entry_def)
  qed
  have due: "crawl_policy_due p (normalize_time t)"
    using assms(3) minute_key_eq_iff [of "normalize_time t" t] by (simp add: crawl_policy_due_def)
  have here: "find_row cp_id (cp_id p) (system_crawl_policies d) = Some p"
    using assms(1,2) by (simp add: unique_rows_def find_row_distinct)
  show ?thesis
    using due here
    by (simp add: on_scheduler_job_event_def target dispatch_callback_async_def
        trigger_crawl_policy_eq [OF raw(1) assms(6)] raw(2) on_crawl_policy_def find_upd_row_same
        policy_job_def stamp_policy_job_def new_queued_job_def crawl_policy_payload_def
        resolve_crawl_policy_def resolve_policy_def)
qed

definition sample_crawl_policy :: system_crawl_policy where
  "sample_crawl_policy =
     \<lparr>cp_id = 32, cp_system_id = 7, cp_enabled = True, cp_state = ''active'', cp_schedule_expr = ''0 * * * *'',
      cp_crawl_scope = ''full'', cp_last_triggered_at = None, cp_last_succeeded_at = None,
      cp_last_failed_at = None, cp_last_failure_message = None\<rparr>"

theorem scheduled_event_reaches_policy_witness:
  "\<exists>d' j. on_scheduler_job_event 0 41 (minutes_after_epoch 5) Map.empty (build_crawl_policy_job_id 7)
      (Some (minutes_after_epoch 5)) (sample_schedule_db\<lparr>system_crawl_policies := [sample_crawl_policy]\<rparr>) = (Inr (), d') \<and>
    queued_jobs d' = [j] \<and> resolve_crawl_policy (qj_payload j) d' = Some 32"
proof -
  let ?d = "sample_schedule_db\<lparr>system_crawl_policies := [sample_crawl_policy]\<rparr>"
  have u: "unique_rows ?d"
    by (simp add: unique_rows_def sample_schedule_db_def sample_db_def sample_job_def sample_auth_policy_def)
  have due: "crawl_policy_due sample_crawl_policy (minutes_after_epoch 5)"
    by (simp add: crawl_policy_due_def sample_crawl_policy_def runtime_minute_key_def minute_key_def
        normalize_time_def minutes_after_epoch_def datetime_min_utc_def us_per_minute_def)
  show ?thesis
    using scheduled_event_reaches_policy [OF u _ due, of "\<lambda>e tz. True" Map.empty Map.empty 41 0 "minutes_after_epoch 5"]
    by (auto simp: sample_crawl_policy_def sample_schedule_db_def sample_db_def empty_db_def)
qed

subsection \<open>The daemon\<close>

lemma daemon_loop_ended:
  "daemon_loop valid_cron shut reloads waits rt = (Some r, rt') \<Longrightarrow> sr_state rt' = SchedulerStopped"
  by (induction waits arbitrary: rt)
    (auto simp: runtime_stop_def split: if_splits prod.splits sum.splits)

lemma reload_state:
  "runtime_reload_all valid_cron d rt = (r, rt') \<Longrightarrow>
    sr_state rt' = sr_state rt \<and> sr_listener_registered rt' = sr_listener_registered rt"
  by (auto simp: runtime_reload_all_def split: prod.splits)

lemma daemon_loop_waiting:
  "daemon_loop valid_cron shut reloads waits rt = (None, rt') \<Longrightarrow>
    sr_state rt' = sr_state rt \<and> sr_listener_registered rt' = sr_listener_registered rt \<and> (\<forall>w \<in> set waits. \<not> fst w)"
proof (induction waits arbitrary: rt)
  case (Cons w waits)
  obtain stop d where w: "w = (stop, d)" by fastforce
  show ?case
  proof (cases reloads)
    case True
    with Cons.prems w obtain rt1 where
      "runtime_reload_all valid_cron d rt = (Inr (), rt1)" "daemon_loop valid_cron shut reloads waits rt1 = (None, rt')"
      "\<not> stop"
      by (auto split: if_splits prod.splits sum.splits)
    then show ?thesis using Cons.IH [of rt1] reload_state [of valid_cron d rt] w by simp
  next
    case False
    then show ?thesis using Cons.IH [of rt] Cons.prems w by (auto split: if_splits)
  qed
qed simp

lemma daemon_loop_last:
  "daemon_loop valid_cron shut True (waits @ [(stop, d)]) rt = (None, rt') \<Longrightarrow>
    \<exists>rt1. runtime_reload_all valid_cron d rt1 = (Inr (), rt')"
  by (induction waits arbitrary: rt) (auto split: if_splits prod.splits sum.splits)

lemma reload_mirrors:
  assumes "unique_rows d" "runtime_reload_all valid_cron d rt = (Inr (), rt')" "(k, e) \<in> set (wishes d)"
  shows "sr_registry rt' k = e"
proof -
  note w = wish_keys_distinct [OF assms(1)]
  have "sr_registry rt' = grant (wishes d) (sr_registry rt)"
    using assms(2)
    by (auto simp: runtime_reload_all_def load_all_eq [OF assms(1)] grant_all_def split: option.splits)
  then show ?thesis using assms(3) by (simp add: grant_lookup [OF w] map_of_is_SomeI [OF w])
qed

definition refused_by :: "(string \<Rightarrow> string \<Rightarrow> bool) \<Rightarrow> string \<Rightarrow> db \<Rightarrow> bool" where
  "refused_by valid_cron e d \<longleftrightarrow>
     (\<exists>k en. (k, Some en) \<in> set (wishes d) \<and> \<not> valid_cron (en_schedule_expr en) (en_timezone en) \<and>
        e = en_schedule_expr en)"

text \<open>What is registered after a load that raised: a row was loaded or its id is as before.\<close>

lemma load_raises:
  assumes "unique_rows d" "load_all_from_db valid_cron d reg = (Inl e, reg')"
  shows "refused_by valid_cron e d" and "reg' k = reg k \<or> (k, reg' k) \<in> set (wishes d)"
proof -
  obtain w where w: "List.find (\<lambda>w. \<not> grantable valid_cron w) (wishes d) = Some w" "e = en_schedule_expr (the (snd w))"
    and reg': "reg' = grant (takeWhile (grantable valid_cron) (wishes d)) reg"
    using assms(2) by (auto simp: load_all_eq [OF assms(1)] grant_all_def split: option.splits)
  have in_w: "w \<in> set (wishes d)" "\<not> grantable valid_cron w"
    using w(1) by (auto simp: find_Some_iff)
  then show "refused_by valid_cron e d"
  proof (cases "snd w")
    case (Some en)
    then have "(fst w, Some en) \<in> set (wishes d)" "\<not> valid_cron (en_schedule_expr en) (en_timezone en)"
      using in_w by (metis prod.collapse) (use in_w Some in \<open>auto simp: grantable_def\<close>)
    then show ?thesis unfolding refused_by_def w(2) using Some by auto
  qed (simp add: grantable_def)
  let ?ws = "takeWhile (grantable valid_cron) (wishes d)"
  have "distinct (map fst ?ws)"
    by (metis distinct_takeWhile distinct_map inj_on_subset set_takeWhileD subsetI wish_keys_distinct [OF assms(1)])
  then have "reg' k = (case map_of ?ws k of None \<Rightarrow> reg k | Some e \<Rightarrow> e)"
    by (simp add: reg' grant_lookup)
  then show "reg' k = reg k \<or> (k, reg' k) \<in> set (wishes d)"
    by (cases "map_of ?ws k") (auto dest: map_of_SomeD set_takeWhileD)
qed

lemma daemon_loop_ends:
  assumes "daemon_loop valid_cron shut reloads waits rt = (Some r, rt')" "\<forall>w \<in> set waits. unique_rows (snd w)"
  shows "case r of Inr _ \<Rightarrow> \<exists>w \<in> set waits. fst w | Inl e \<Rightarrow> \<exists>w \<in> set waits. refused_by valid_cron e (snd w)"
  using assms
proof (induction waits arbitrary: rt)
  case (Cons w waits)
  obtain stop d where w: "w = (stop, d)" by fastforce
  show ?case
  proof (cases "stop \<or> \<not> reloads")
    case True
    then show ?thesis using Cons w by (cases r) (auto split: if_splits)
  next
    case False
    obtain res rt1 where load: "runtime_reload_all valid_cron d rt = (res, rt1)" by fastforce
    show ?thesis
    proof (cases res)
      case (Inl e)
      then have "refused_by valid_cron e d"
        using load load_raises(1) Cons.prems(2) w by (auto simp: runtime_reload_all_def split: prod.splits)
      then show ?thesis using Cons.prems(1) w False load Inl by auto
    next
      case (Inr u)
      then have "daemon_loop valid_cron shut reloads waits rt1 = (Some r, rt')"
        using Cons.prems(1) w False load by simp
      from Cons.IH [OF this] show ?thesis using Cons.prems(2) by (cases r) auto
    qed
  qed
qed simp

text \<open>C9: a daemon that reloads either still runs after its last wait, and then no stop event was set and
  every active row of the database of that wait is scheduled as the row says and every inactive one
  not; or it has stopped its scheduler, because a stop event was set or because a reload met an active
  row whose schedule does not parse; or it never started, because the first load met such a row. Then
  the state of the scheduler and its listeners are as before, and at most rows of that first load are
  registered.\<close>

theorem daemon_current_or_stopped:
  assumes "run_scheduler_daemon valid_cron shut True True d0 (waits @ [(stop, d)]) rt = (r, rt')" "unique_rows d0"
    and "\<forall>w \<in> set (waits @ [(stop, d)]). unique_rows (snd w)"
  shows "case r of
      None \<Rightarrow> (\<forall>w \<in> set (waits @ [(stop, d)]). \<not> fst w) \<and> sr_state rt' = SchedulerRunning \<and>
        sr_listener_registered rt' \<and> (\<forall>(k, e) \<in> set (wishes d). sr_registry rt' k = e)
    | Some (Inr _) \<Rightarrow> sr_state rt' = SchedulerStopped \<and> (\<exists>w \<in> set (waits @ [(stop, d)]). fst w)
    | Some (Inl e) \<Rightarrow>
        sr_state rt' = SchedulerStopped \<and> (\<exists>w \<in> set (waits @ [(stop, d)]). refused_by valid_cron e (snd w)) \<or>
        refused_by valid_cron e d0 \<and> rt' = rt\<lparr>sr_registry := sr_registry rt'\<rparr> \<and>
          (\<forall>k. sr_registry rt' k = sr_registry rt k \<or> (k, sr_registry rt' k) \<in> set (wishes d0))"
proof (cases "runtime_start valid_cron d0 rt")
  case (Pair res rt1)
  show ?thesis
  proof (cases res)
    case (Inl e)
    then obtain reg where reg: "load_all_from_db valid_cron d0 (sr_registry rt) = (Inl e, reg)" "rt1 = rt\<lparr>sr_registry := reg\<rparr>"
      using Pair by (auto simp: runtime_start_def runtime_reload_all_def split: prod.splits sum.splits)
    then show ?thesis
      using assms(1) Pair Inl load_raises [OF assms(2) reg(1)] by (auto simp: run_scheduler_daemon_def)
  next
    case (Inr u)
    then have up: "sr_state rt1 = SchedulerRunning" "sr_listener_registered rt1"
      using Pair by (auto simp: runtime_start_def ensure_job_listener_def split: prod.splits sum.splits)
    have loop: "daemon_loop valid_cron shut True (waits @ [(stop, d)]) rt1 = (r, rt')"
      using assms(1) Pair Inr by (simp add: run_scheduler_daemon_def)
    show ?thesis
    proof (cases r)
      case None
      with loop have l: "daemon_loop valid_cron shut True (waits @ [(stop, d)]) rt1 = (None, rt')" by simp
      then obtain rt2 where "runtime_reload_all valid_cron d rt2 = (Inr (), rt')"
        using daemon_loop_last by blast
      then show ?thesis
        using None daemon_loop_waiting [OF l] up reload_mirrors [of d] assms(3) by auto
    next
      case (Some x)
      then have l: "daemon_loop valid_cron shut True (waits @ [(stop, d)]) rt1 = (Some x, rt')" using loop by simp
      show ?thesis
        using daemon_loop_ended [OF l] daemon_loop_ends [OF l assms(3)] Some by (cases x) simp_all
    qed
  qed
qed

definition fresh_runtime :: scheduler_runtime where
  "fresh_runtime = \<lparr>sr_registry = (\<lambda>k. None), sr_state = SchedulerStopped, sr_listeners = 0, sr_listener_registered = False\<rparr>"

theorem daemon_current_or_stopped_witness:
  "\<exists>r rt'. run_scheduler_daemon (\<lambda>e tz. True) id True True empty_db [(False, sample_schedule_db)] fresh_runtime = (r, rt') \<and>
     (case r of
        None \<Rightarrow> sr_registry rt' (build_auth_policy_job_id 7) = Some (auth_policy_entry sample_auth_policy)
      | Some _ \<Rightarrow> False)"
proof -
  obtain r rt' where
    r: "run_scheduler_daemon (\<lambda>e tz. True) id True True empty_db ([] @ [(False, sample_schedule_db)]) fresh_runtime = (r, rt')"
    by fastforce
  have u: "unique_rows sample_schedule_db" "unique_rows empty_db"
    by (simp_all add: unique_rows_def sample_schedule_db_def sample_db_def sample_job_def sample_auth_policy_def empty_db_def)
  have ok: "List.find (\<lambda>w. \<not> grantable (\<lambda>e tz. True) w) ws = None" for ws
    by (simp add: find_None_all grantable_def split: option.split)
  have "r = None"
    using r by (auto simp: run_scheduler_daemon_def runtime_start_def runtime_reload_all_def load_all_eq [OF u(1)]
        load_all_eq [OF u(2)] grant_all_def ok)
  moreover have "(build_auth_policy_job_id 7, Some (auth_policy_entry sample_auth_policy)) \<in> set (wishes sample_schedule_db)"
    by (simp add: wishes_def sample_schedule_db_def auth_policy_wish_def sample_auth_policy_def)
  ultimately show ?thesis
    using daemon_current_or_stopped [OF r u(2)] u(1) r by force
qed

end
