(* ===== verification/CheckRequests.thy ===== *)
theory CheckRequests
  imports RunnerRecords CheckTemplates PublishedJobs
begin

section \<open>Check requests\<close>

text \<open>
  control\_plane/service.py and repository.py: a request names a system, a page and a goal by hints;
  the repository resolves them to a page check, and the service stores the request with an execution
  plan and queues its run. The same service queues login refreshes, crawls and compilations and
  learns aliases from successful probes. Queries without an order take the rows in the order of the
  table. The keys of new rows and the clock are arguments; the queue is a parameter of the service,
  an interface below.
\<close>

datatype api_error = HTTPException int string | ValidationError | Raised string

type_synonym 'a api_op = "db_session \<Rightarrow> (api_error + 'a) \<times> db_session"

subsection \<open>Requests (schemas.py)\<close>

record check_request =
  cq_system_hint :: string
  cq_page_hint :: "string option"
  cq_check_goal :: string
  cq_strictness :: string
  cq_time_budget_ms :: int
  cq_request_source :: string
  cq_template_code :: "string option"
  cq_template_version :: "string option"
  cq_carrier_hint :: "string option"
  cq_template_params :: "pydict option"

definition normalize_optional_text :: "string option \<Rightarrow> string option" where
  "normalize_optional_text value = (case value of None \<Rightarrow> None | Some t \<Rightarrow> opt_text (strip t))"

definition has_template_context :: "check_request \<Rightarrow> bool" where
  "has_template_context p \<longleftrightarrow> cq_template_code p \<noteq> None \<or> cq_template_version p \<noteq> None \<or>
     cq_carrier_hint p \<noteq> None \<or> cq_template_params p \<noteq> None"

definition template_metadata_complete :: "check_request \<Rightarrow> bool" where
  "template_metadata_complete p \<longleftrightarrow> cq_template_code p \<noteq> None \<and> cq_template_version p \<noteq> None \<and>
     cq_carrier_hint p \<noteq> None"

text \<open>The constructor of \<open>CreateCheckRequest\<close> with its validators; the argument holds the raw fields.\<close>

definition create_check_request :: "check_request \<Rightarrow> check_request option" where
  "create_check_request raw =
     (case (validate_required_text (cq_system_hint raw), validate_required_text (cq_check_goal raw),
            validate_required_text (cq_strictness raw), validate_required_text (cq_request_source raw)) of
        (Some sys, Some goal, Some strict, Some source) \<Rightarrow>
          (let p = raw\<lparr>cq_system_hint := sys, cq_check_goal := goal, cq_strictness := strict,
                       cq_request_source := source,
                       cq_page_hint := normalize_optional_text (cq_page_hint raw),
                       cq_template_code := normalize_optional_text (cq_template_code raw),
                       cq_template_version := normalize_optional_text (cq_template_version raw)\<rparr>
           in if cq_time_budget_ms p \<le> 0 then None
              else if cq_carrier_hint p \<noteq> None \<and> cq_carrier_hint p \<notin> {Some ''table'', Some ''list''} then None
              else if has_template_context p \<and> \<not> template_metadata_complete p then None
              else Some p)
      | _ \<Rightarrow> None)"

record check_accepted =
  ck_request_id :: uuid
  ck_plan_id :: uuid
  ck_page_check_id :: "uuid option"
  ck_execution_track :: string
  ck_auth_policy :: string
  ck_job_id :: uuid

subsection \<open>Resolution (repository.py)\<close>

definition normalize_hint :: "string \<Rightarrow> string" where
  "normalize_hint t = lower (strip t)"

definition resolve_system :: "string \<Rightarrow> db \<Rightarrow> system_row option" where
  "resolve_system system_hint d =
     List.find (\<lambda>s. lower (sys_code s) = normalize_hint system_hint \<or> lower (sys_name s) = normalize_hint system_hint)
       (systems d)"

text \<open>\<open>lower(column) = hint\<close>, false where the column is null.\<close>

definition text_matches :: "string \<Rightarrow> string option \<Rightarrow> bool" where
  "text_matches hint column = (case column of None \<Rightarrow> False | Some t \<Rightarrow> lower t = hint)"

definition first_row :: "'r list \<Rightarrow> 'r option" where
  "first_row rows = (case rows of [] \<Rightarrow> None | r # _ \<Rightarrow> Some r)"

definition goal_matches :: "string \<Rightarrow> page_check \<Rightarrow> bool" where
  "goal_matches goal pc \<longleftrightarrow> lower (pc_goal pc) = goal \<or> lower (pc_check_code pc) = goal"

definition safe_asset_of :: "uuid \<Rightarrow> page_asset \<Rightarrow> bool" where
  "safe_asset_of system_id pa \<longleftrightarrow> pa_system_id pa = system_id \<and> pa_status pa = SAFE"

definition live_asset_of :: "uuid \<Rightarrow> page_asset \<Rightarrow> bool" where
  "live_asset_of system_id pa \<longleftrightarrow> safe_asset_of system_id pa \<and> pa_lifecycle_status pa = LifecycleActive"

definition live_check :: "string \<Rightarrow> page_check \<Rightarrow> bool" where
  "live_check goal pc \<longleftrightarrow> pc_lifecycle_status pc = LifecycleActive \<and> goal_matches goal pc"

fun dedupe_matches ::
  "uuid list \<Rightarrow> (page_asset \<times> page_check \<times> page_navigation_alias) list \<Rightarrow>
    (page_asset \<times> page_check \<times> page_navigation_alias) list" where
  "dedupe_matches seen [] = []"
| "dedupe_matches seen ((pa, pc, na) # rows) =
     (if pc_id pc \<in> set seen then dedupe_matches seen rows
      else (pa, pc, na) # dedupe_matches (seen @ [pc_id pc]) rows)"

definition navigation_matches ::
  "uuid \<Rightarrow> string \<Rightarrow> string \<Rightarrow> db \<Rightarrow> (page_asset \<times> page_check \<times> page_navigation_alias) list" where
  "navigation_matches system_id page_hint goal d =
     (let rows = [(pa, pc, na). pa \<leftarrow> filter (live_asset_of system_id) (page_assets d),
                    pc \<leftarrow> filter (\<lambda>pc. pc_page_asset_id pc = pa_id pa \<and> live_check goal pc) (page_checks d),
                    na \<leftarrow> filter (\<lambda>na. na_page_asset_id na = pa_id pa \<and> na_is_active na \<and>
                                       lower (na_alias_text na) = page_hint) (page_navigation_aliases d)];
          by_ids = sort_key (\<lambda>(pa, pc, na). (uint (pc_id pc), uint (na_id na))) rows;
          by_version = sort_desc (\<lambda>(pa, pc, na). pa_asset_version pa) by_ids
      in dedupe_matches [] (sort_key (\<lambda>(pa, pc, na). \<not> na_chain_complete na) by_version))"

text \<open>The assets that intent aliases lead to: the best confidence first, then the newest version.\<close>

definition alias_matches :: "string \<Rightarrow> string \<Rightarrow> string \<Rightarrow> intent_alias \<Rightarrow> bool" where
  "alias_matches system_hint goal page_hint ia \<longleftrightarrow>
     lower (ia_system_alias ia) = system_hint \<and> lower (ia_check_alias ia) = goal \<and>
     (text_matches page_hint (ia_page_alias ia) \<or> text_matches page_hint (ia_route_hint ia))"

definition alias_assets :: "(intent_alias \<Rightarrow> bool) \<Rightarrow> (page_asset \<Rightarrow> bool) \<Rightarrow> db \<Rightarrow> page_asset list" where
  "alias_assets alias_ok asset_ok d =
     (let rows = [(ia, pa). pa \<leftarrow> filter asset_ok (page_assets d),
                    ia \<leftarrow> filter (\<lambda>ia. ia_asset_key ia = pa_asset_key pa \<and> alias_ok ia) (intent_aliases d)]
      in map snd (sort_desc (\<lambda>(ia, pa). ia_confidence ia) (sort_desc (\<lambda>(ia, pa). pa_asset_version pa) rows)))"

definition page_hint_matches :: "string \<Rightarrow> db \<Rightarrow> page_asset \<Rightarrow> bool" where
  "page_hint_matches hint d pa =
     (case find_row pg_id (pa_page_id pa) (pages d) of
        None \<Rightarrow> False
      | Some pg \<Rightarrow> text_matches hint (pg_page_title pg) \<or> lower (pg_route_path pg) = hint \<or>
                   lower (pa_asset_key pa) = hint)"

definition page_hint_assets :: "(page_asset \<Rightarrow> bool) \<Rightarrow> string \<Rightarrow> db \<Rightarrow> page_asset list" where
  "page_hint_assets asset_ok hint d =
     sort_desc pa_asset_version
       (sort_key (\<lambda>pa. uint (pa_id pa)) (filter (\<lambda>pa. asset_ok pa \<and> page_hint_matches hint d pa) (page_assets d)))"

definition check_of_asset :: "page_asset \<Rightarrow> (page_check \<Rightarrow> bool) \<Rightarrow> db \<Rightarrow> page_check option" where
  "check_of_asset pa ok d =
     first_by (\<lambda>pc. uint (pc_id pc)) (filter (\<lambda>pc. pc_page_asset_id pc = pa_id pa \<and> ok pc) (page_checks d))"

record check_resolution =
  cn_system :: "system_row option"
  cn_page_asset :: "page_asset option"
  cn_page_check :: "page_check option"
  cn_miss_reason :: "string option"

definition unresolved :: "system_row option \<Rightarrow> string \<Rightarrow> check_resolution" where
  "unresolved system reason =
     \<lparr>cn_system = system, cn_page_asset = None, cn_page_check = None, cn_miss_reason = Some reason\<rparr>"

definition resolved_asset :: "system_row \<Rightarrow> page_asset \<Rightarrow> string \<Rightarrow> db \<Rightarrow> check_resolution" where
  "resolved_asset system pa goal d =
     (case check_of_asset pa (live_check goal) d of
        None \<Rightarrow> \<lparr>cn_system = Some system, cn_page_asset = Some pa, cn_page_check = None,
                 cn_miss_reason = Some ''element_asset_missing''\<rparr>
      | Some pc \<Rightarrow> \<lparr>cn_system = Some system, cn_page_asset = Some pa, cn_page_check = Some pc,
                   cn_miss_reason = None\<rparr>)"

definition resolve_page_asset_and_check :: "string \<Rightarrow> string option \<Rightarrow> string \<Rightarrow> db \<Rightarrow> check_resolution" where
  "resolve_page_asset_and_check system_hint page_hint check_goal d =
     (let normalized_system_hint = normalize_hint system_hint; normalized_goal = normalize_hint check_goal in
      case resolve_system system_hint d of
        None \<Rightarrow> unresolved None ''system_not_found''
      | Some system \<Rightarrow>
     (case page_hint of
        None \<Rightarrow> unresolved (Some system) ''page_or_menu_not_resolved''
      | Some hint \<Rightarrow>
          (let page_hint = normalize_hint hint in
           case navigation_matches (sys_id system) page_hint normalized_goal d of
             _ # _ # _ \<Rightarrow> unresolved (Some system) ''ambiguous_page_alias''
           | [(pa, pc, _)] \<Rightarrow> \<lparr>cn_system = Some system, cn_page_asset = Some pa, cn_page_check = Some pc,
                               cn_miss_reason = None\<rparr>
           | [] \<Rightarrow>
               (case first_row (alias_assets (\<lambda>ia. ia_is_active ia \<and>
                          alias_matches normalized_system_hint normalized_goal page_hint ia)
                        (live_asset_of (sys_id system)) d) of
                  Some pa \<Rightarrow> resolved_asset system pa normalized_goal d
                | None \<Rightarrow>
                    (case first_row (page_hint_assets (live_asset_of (sys_id system)) page_hint d) of
                       None \<Rightarrow> unresolved (Some system) ''page_or_menu_not_resolved''
                     | Some pa \<Rightarrow> resolved_asset system pa normalized_goal d)))))"

definition retired_target :: "page_asset \<Rightarrow> string \<Rightarrow> db \<Rightarrow> (page_asset \<times> page_check option) option" where
  "retired_target pa goal d =
     (if pa_lifecycle_status pa \<noteq> LifecycleActive then Some (pa, None)
      else case check_of_asset pa (\<lambda>pc. goal_matches goal pc \<and> pc_lifecycle_status pc \<noteq> LifecycleActive) d of
             None \<Rightarrow> None
           | Some pc \<Rightarrow> Some (pa, Some pc))"

definition resolve_retired_page_asset_or_check ::
  "string \<Rightarrow> uuid option \<Rightarrow> string option \<Rightarrow> string \<Rightarrow> db \<Rightarrow> (page_asset \<times> page_check option) option" where
  "resolve_retired_page_asset_or_check system_hint system_id page_hint check_goal d =
     (case page_hint of
        None \<Rightarrow> None
      | Some hint \<Rightarrow>
          (let goal = normalize_hint check_goal; hint = normalize_hint hint;
               by_alias = (case first_row (alias_assets (alias_matches (normalize_hint system_hint) goal hint)
                                 (\<lambda>pa. pa_status pa = SAFE \<and> (system_id = None \<or> system_id = Some (pa_system_id pa))) d) of
                             None \<Rightarrow> None
                           | Some pa \<Rightarrow> retired_target pa goal d)
           in case by_alias of
                Some target \<Rightarrow> Some target
              | None \<Rightarrow>
                  (case system_id of
                     None \<Rightarrow> None
                   | Some sid \<Rightarrow>
                       (case first_row (page_hint_assets (safe_asset_of sid) hint d) of
                          None \<Rightarrow> None
                        | Some pa \<Rightarrow> retired_target pa goal d))))"

subsection \<open>The queue of the service\<close>

text \<open>
  \<open>QueueDispatcher.enqueue\<close> as the service sees it: it may raise. What it promises when it returns is
  the interface below; \<open>SqlQueueDispatcher\<close> never raises.
\<close>

type_synonym job_dispatcher =
  "uuid \<Rightarrow> datetime \<Rightarrow> string \<Rightarrow> pydict \<Rightarrow> db_session \<Rightarrow> (string + uuid) \<times> db_session"

definition sql_dispatch :: job_dispatcher where
  "sql_dispatch i now job_type payload s =
     (let (qid, s') = sql_enqueue i now job_type payload s in (Inr qid, s'))"

subsection \<open>Accepting a request (service.py)\<close>

definition DEFAULT_AUTH_POLICY :: string where
  "DEFAULT_AUTH_POLICY = ''server_injected''"

record request_ids =
  ri_request_id :: uuid
  ri_plan_id :: uuid
  ri_job_id :: uuid
  ri_now :: datetime

definition new_execution_request :: "uuid \<Rightarrow> check_request \<Rightarrow> execution_request" where
  "new_execution_request i p =
     \<lparr>er_id = i, er_request_source = cq_request_source p, er_system_hint = cq_system_hint p,
      er_page_hint = cq_page_hint p, er_check_goal = cq_check_goal p, er_strictness = cq_strictness p,
      er_time_budget_ms = cq_time_budget_ms p, er_template_code = cq_template_code p,
      er_template_version = cq_template_version p, er_carrier_hint = cq_carrier_hint p,
      er_template_params = cq_template_params p\<rparr>"

record plan_target =
  pt_system_id :: "uuid option"
  pt_page_asset_id :: "uuid option"
  pt_page_check_id :: "uuid option"
  pt_module_plan_id :: "uuid option"
  pt_execution_track :: string

definition new_execution_plan :: "uuid \<Rightarrow> uuid \<Rightarrow> plan_target \<Rightarrow> execution_plan" where
  "new_execution_plan i request_id t =
     \<lparr>ep_id = i, ep_execution_request_id = request_id, ep_resolved_system_id = pt_system_id t,
      ep_resolved_page_asset_id = pt_page_asset_id t, ep_resolved_page_check_id = pt_page_check_id t,
      ep_execution_track = pt_execution_track t, ep_auth_policy = DEFAULT_AUTH_POLICY,
      ep_module_plan_id = pt_module_plan_id t\<rparr>"

definition run_check_payload :: "request_ids \<Rightarrow> plan_target \<Rightarrow> pydict" where
  "run_check_payload ids t =
     [(''execution_plan_id'', PStr (uuid_str (ri_plan_id ids))),
      (''execution_request_id'', PStr (uuid_str (ri_request_id ids))),
      (''page_check_id'', opt_uuid_value (pt_page_check_id t)),
      (''execution_track'', PStr (pt_execution_track t))]"

text \<open>A raised exception rolls the transaction back.\<close>

definition accept_check_request ::
  "job_dispatcher \<Rightarrow> request_ids \<Rightarrow> check_request \<Rightarrow> plan_target \<Rightarrow> check_accepted api_op" where
  "accept_check_request enqueue ids payload t s =
     (let s1 = modify (\<lambda>d. d\<lparr>execution_requests := execution_requests d @
                 [new_execution_request (ri_request_id ids) payload]\<rparr>) s;
          s2 = modify (\<lambda>d. d\<lparr>execution_plans := execution_plans d @
                 [new_execution_plan (ri_plan_id ids) (ri_request_id ids) t]\<rparr>) s1
      in case enqueue (ri_job_id ids) (ri_now ids) RUN_CHECK_JOB_TYPE (run_check_payload ids t) s2 of
           (Inl e, s3) \<Rightarrow> (Inl (Raised e), rollback s3)
         | (Inr job_id, s3) \<Rightarrow>
             (Inr \<lparr>ck_request_id = ri_request_id ids, ck_plan_id = ri_plan_id ids,
                   ck_page_check_id = pt_page_check_id t, ck_execution_track = pt_execution_track t,
                   ck_auth_policy = DEFAULT_AUTH_POLICY, ck_job_id = job_id\<rparr>, commit s3))"

definition readonly_template_request :: "check_request \<Rightarrow> bool" where
  "readonly_template_request p =
     (case cq_template_code p of
        None \<Rightarrow> True
      | Some code \<Rightarrow>
          (case get_template code (case cq_template_version p of None \<Rightarrow> ''v1'' | Some v \<Rightarrow> or_v1 v) of
             None \<Rightarrow> False
           | Some t \<Rightarrow> td_readonly t))"

text \<open>Lines 140-147: what the plan of a resolution is about.\<close>

definition submit_target :: "check_resolution \<Rightarrow> plan_target" where
  "submit_target r =
     \<lparr>pt_system_id = map_option sys_id (cn_system r), pt_page_asset_id = map_option pa_id (cn_page_asset r),
      pt_page_check_id = map_option pc_id (cn_page_check r),
      pt_module_plan_id = Option.bind (cn_page_check r) pc_module_plan_id,
      pt_execution_track = (if cn_page_check r \<noteq> None then ''precompiled'' else ''realtime_probe'')\<rparr>"

definition submit_check_request ::
  "job_dispatcher \<Rightarrow> request_ids \<Rightarrow> check_request \<Rightarrow> check_accepted api_op" where
  "submit_check_request enqueue ids raw s =
     (case create_check_request raw of
        None \<Rightarrow> (Inl ValidationError, s)
      | Some payload \<Rightarrow>
     if \<not> readonly_template_request payload then (Inl (HTTPException 422 ''readonly template required''), s)
     else
      (let d = working s;
           r = resolve_page_asset_and_check (cq_system_hint payload) (cq_page_hint payload) (cq_check_goal payload) d;
           system_id = map_option sys_id (cn_system r)
       in
       if (case cn_page_asset r of None \<Rightarrow> False | Some pa \<Rightarrow> pa_lifecycle_status pa \<noteq> LifecycleActive)
       then (Inl (HTTPException 409 ''asset is retired''), s)
       else if (case cn_page_check r of None \<Rightarrow> False | Some pc \<Rightarrow> pc_lifecycle_status pc \<noteq> LifecycleActive)
       then (Inl (HTTPException 409 ''page check is retired''), s)
       else
       case (if cn_page_check r = None
             then resolve_retired_page_asset_or_check (cq_system_hint payload) system_id (cq_page_hint payload)
                    (cq_check_goal payload) d
             else None) of
         Some (_, check) \<Rightarrow>
           (Inl (HTTPException 409 (if check \<noteq> None then ''page check is retired'' else ''asset is retired'')), s)
       | None \<Rightarrow>
           if cn_miss_reason r = Some ''element_asset_missing''
           then (Inl (HTTPException 409 ''element asset is missing''), s)
           else accept_check_request enqueue ids payload (submit_target r) s))"

subsection \<open>Running a page check by its id\<close>

definition page_check_lookup :: "uuid \<Rightarrow> db \<Rightarrow> (page_check \<times> page_asset \<times> system_row) option" where
  "page_check_lookup page_check_id d =
     (case get_page_check page_check_id d of
        None \<Rightarrow> None
      | Some pc \<Rightarrow>
     (case get_page_asset (pc_page_asset_id pc) d of
        None \<Rightarrow> None
      | Some pa \<Rightarrow>
     (case find_row sys_id (pa_system_id pa) (systems d) of
        None \<Rightarrow> None
      | Some sy \<Rightarrow> Some (pc, pa, sy))))"

definition page_check_run_target :: "uuid \<Rightarrow> db \<Rightarrow> (page_check \<times> page_asset \<times> system_row) option" where
  "page_check_run_target page_check_id d =
     (case page_check_lookup page_check_id d of
        None \<Rightarrow> None
      | Some (pc, pa, sy) \<Rightarrow>
          if pa_status pa = SAFE \<and> pa_lifecycle_status pa = LifecycleActive \<and> pc_lifecycle_status pc = LifecycleActive
          then Some (pc, pa, sy) else None)"

text \<open>\<open>run_page_check\<close> of the service; its \<open>RunPageCheck\<close> payload has three fields.\<close>

definition request_page_check ::
  "job_dispatcher \<Rightarrow> request_ids \<Rightarrow> uuid \<Rightarrow> string \<Rightarrow> int \<Rightarrow> string \<Rightarrow> check_accepted api_op" where
  "request_page_check enqueue ids page_check_id strictness time_budget_ms triggered_by s =
     (case (validate_required_text strictness, validate_required_text triggered_by) of
        (Some strict, Some source) \<Rightarrow>
          if time_budget_ms \<le> 0 then (Inl ValidationError, s)
          else
          (case page_check_run_target page_check_id (working s) of
             None \<Rightarrow>
               (case page_check_lookup page_check_id (working s) of
                  None \<Rightarrow> (Inl (HTTPException 404 ''page check not found''), s)
                | Some (pc, pa, sy) \<Rightarrow>
                    if pc_lifecycle_status pc \<noteq> LifecycleActive
                    then (Inl (HTTPException 409 ''page check is retired''), s)
                    else if pa_lifecycle_status pa \<noteq> LifecycleActive
                    then (Inl (HTTPException 409 ''asset is retired''), s)
                    else (Inl (HTTPException 404 ''page check not found''), s))
           | Some (pc, pa, sy) \<Rightarrow>
               (case create_check_request
                       \<lparr>cq_system_hint = sys_code sy, cq_page_hint = Some (pa_asset_key pa),
                        cq_check_goal = pc_goal pc, cq_strictness = strict, cq_time_budget_ms = time_budget_ms,
                        cq_request_source = source, cq_template_code = None, cq_template_version = None,
                        cq_carrier_hint = None, cq_template_params = None\<rparr> of
                  None \<Rightarrow> (Inl ValidationError, s)
                | Some payload \<Rightarrow>
                    accept_check_request enqueue ids payload
                      \<lparr>pt_system_id = Some (sys_id sy), pt_page_asset_id = Some (pa_id pa),
                       pt_page_check_id = Some (pc_id pc), pt_module_plan_id = pc_module_plan_id pc,
                       pt_execution_track = ''precompiled''\<rparr> s))
      | _ \<Rightarrow> (Inl ValidationError, s))"

subsection \<open>Jobs of the service\<close>

definition enqueue_job :: "job_dispatcher \<Rightarrow> uuid \<Rightarrow> datetime \<Rightarrow> string \<Rightarrow> pydict \<Rightarrow> uuid api_op" where
  "enqueue_job enqueue job_id now job_type payload s =
     (case enqueue job_id now job_type payload s of
        (Inl e, s1) \<Rightarrow> (Inl (Raised e), rollback s1)
      | (Inr i, s1) \<Rightarrow> (Inr i, commit s1))"

definition refresh_auth :: "job_dispatcher \<Rightarrow> uuid \<Rightarrow> datetime \<Rightarrow> uuid \<Rightarrow> (uuid \<times> uuid) api_op" where
  "refresh_auth enqueue job_id now system_id s =
     (case find_row sys_id system_id (systems (working s)) of
        None \<Rightarrow> (Inl (HTTPException 404 ''system not found''), s)
      | Some sy \<Rightarrow>
          (let (r, s1) = enqueue_job enqueue job_id now AUTH_REFRESH_JOB_TYPE
                           [(''system_id'', PStr (uuid_str (sys_id sy)))] s
           in (map_sum id (\<lambda>i. (sys_id sy, i)) r, s1)))"

definition trigger_crawl ::
  "job_dispatcher \<Rightarrow> uuid \<Rightarrow> datetime \<Rightarrow> uuid \<Rightarrow> string \<Rightarrow> string \<Rightarrow> int \<Rightarrow> (uuid \<times> uuid) api_op" where
  "trigger_crawl enqueue job_id now system_id crawl_scope framework_hint max_pages s =
     (case find_row sys_id system_id (systems (working s)) of
        None \<Rightarrow> (Inl (HTTPException 404 ''system not found''), s)
      | Some sy \<Rightarrow>
          (let (r, s1) = enqueue_job enqueue job_id now CRAWL_JOB_TYPE
                           [(''system_id'', PStr (uuid_str (sys_id sy))), (''crawl_scope'', PStr crawl_scope),
                            (''framework_hint'', PStr framework_hint), (''max_pages'', PInt max_pages)] s
           in (map_sum id (\<lambda>i. (sys_id sy, i)) r, s1)))"

definition compile_assets :: "job_dispatcher \<Rightarrow> uuid \<Rightarrow> datetime \<Rightarrow> uuid \<Rightarrow> string \<Rightarrow> (uuid \<times> uuid) api_op" where
  "compile_assets enqueue job_id now snapshot_id compile_scope s =
     (case find_row cs_id snapshot_id (crawl_snapshots (working s)) of
        None \<Rightarrow> (Inl (HTTPException 404 ''snapshot not found''), s)
      | Some cs \<Rightarrow>
          (let (r, s1) = enqueue_job enqueue job_id now ASSET_COMPILE_JOB_TYPE
                           [(''snapshot_id'', PStr (uuid_str (cs_id cs))), (''compile_scope'', PStr compile_scope)] s
           in (map_sum id (\<lambda>i. (cs_id cs, i)) r, s1)))"

subsection \<open>Feedback of a realtime probe\<close>

definition upsert_intent_alias ::
  "uuid \<Rightarrow> string \<Rightarrow> string option \<Rightarrow> string \<Rightarrow> string option \<Rightarrow> string \<Rightarrow> string \<Rightarrow> rat \<Rightarrow> db \<Rightarrow> db" where
  "upsert_intent_alias alias_id system_alias page_alias check_alias route_hint asset_key source confidence d =
     (case List.find (\<lambda>ia. ia_system_alias ia = system_alias \<and> ia_page_alias ia = page_alias \<and>
                           ia_check_alias ia = check_alias \<and> ia_asset_key ia = asset_key) (intent_aliases d) of
        None \<Rightarrow> d\<lparr>intent_aliases := intent_aliases d @
          [\<lparr>ia_id = alias_id, ia_system_alias = system_alias, ia_page_alias = page_alias,
            ia_check_alias = check_alias, ia_route_hint = route_hint, ia_asset_key = asset_key,
            ia_confidence = confidence, ia_source = source, ia_is_active = True, ia_disabled_reason = None,
            ia_disabled_at = None, ia_disabled_by_snapshot_id = None\<rparr>]\<rparr>
      | Some ia \<Rightarrow> d\<lparr>intent_aliases := upd_row ia_id (ia_id ia)
          (\<lambda>ia. ia\<lparr>ia_route_hint := route_hint, ia_confidence := confidence, ia_source := source\<rparr>)
          (intent_aliases d)\<rparr>)"

definition run_order_key :: "execution_run \<Rightarrow> int \<times> int" where
  "run_order_key r = (- instant (xr_created_at r), - uint (xr_id r))"

definition latest_execution_run :: "uuid \<Rightarrow> db \<Rightarrow> execution_run option" where
  "latest_execution_run plan_id d =
     first_by run_order_key (filter (\<lambda>r. xr_execution_plan_id r = plan_id) (execution_runs d))"

definition persist_realtime_probe_feedback :: "uuid \<Rightarrow> uuid \<Rightarrow> uuid \<Rightarrow> unit api_op" where
  "persist_realtime_probe_feedback alias_id execution_plan_id execution_run_id s =
     (let d = working s in
      case find_row ep_id execution_plan_id (execution_plans d) of
        None \<Rightarrow> (Inl (HTTPException 404 ''execution plan not found''), s)
      | Some plan \<Rightarrow>
      if ep_execution_track plan \<noteq> ''realtime_probe''
      then (Inl (HTTPException 409 ''execution plan is not realtime_probe''), s)
      else case ep_resolved_page_asset_id plan of
        None \<Rightarrow> (Inl (HTTPException 409 ''page asset is not resolved in execution plan''), s)
      | Some asset_id \<Rightarrow>
      if \<not> (case (find_row xr_id execution_run_id (execution_runs d), latest_execution_run execution_plan_id d) of
              (Some run, Some latest) \<Rightarrow>
                xr_execution_plan_id run = execution_plan_id \<and> xr_status run = ''passed'' \<and>
                xr_id latest = execution_run_id
            | _ \<Rightarrow> False)
      then (Inl (HTTPException 409 ''realtime probe execution is not successful''), s)
      else case find_row er_id (ep_execution_request_id plan) (execution_requests d) of
        None \<Rightarrow> (Inl (HTTPException 404 ''execution request not found''), s)
      | Some request \<Rightarrow>
     (case get_page_asset asset_id d of
        None \<Rightarrow> (Inl (HTTPException 404 ''page asset not found''), s)
      | Some pa \<Rightarrow>
     (case find_row pg_id (pa_page_id pa) (pages d) of
        None \<Rightarrow> (Inl (HTTPException 404 ''page not found''), s)
      | Some pg \<Rightarrow>
          (Inr (), commit (modify (upsert_intent_alias alias_id (er_system_hint request) (er_page_hint request)
             (er_check_goal request) (Some (pg_route_path pg)) (pa_asset_key pa) ''realtime_probe'' 1) s)))))"

end
