(* ===== verification/PolicyAdmin.thy ===== *)
theory PolicyAdmin
  imports SchedulerRuntime CheckRequests
begin

section \<open>Runtime policies of a system\<close>

text \<open>
  control\_plane/runtime\_policies.py and the policy operations of control\_plane/service.py and
  repository.py: reading and writing the login and crawl policies of a system, and keeping the
  schedules of the registry in step. \<open>rival\<close> is a policy of the same system that another transaction
  commits between the query and the flush, which makes the flush hit the unique constraint. The
  registry has a session of its own, so it reads the committed database; \<open>None\<close> is a service without
  a registry.
\<close>

subsection \<open>Policies (runtime\_policies.py, schemas.py)\<close>

definition resolve_runtime_policy_state :: "bool \<Rightarrow> string" where
  "resolve_runtime_policy_state enabled =
     runtime_policy_state_value (if enabled then PolicyActive else PolicyPaused)"

definition is_policy_effectively_active :: "bool \<Rightarrow> string \<Rightarrow> bool" where
  "is_policy_effectively_active enabled state \<longleftrightarrow> enabled \<and> state = runtime_policy_state_value PolicyActive"

definition invalid_schedule :: "string \<Rightarrow> api_error" where
  "invalid_schedule expr = HTTPException 422 (''invalid schedule expression: '' @ expr)"

record auth_policy_update =
  up_enabled :: bool
  up_schedule_expr :: string
  up_auth_mode :: string
  up_captcha_provider :: string

record crawl_policy_update =
  uc_enabled :: bool
  uc_schedule_expr :: string
  uc_crawl_scope :: string

definition validate_allowed_text :: "string list \<Rightarrow> string \<Rightarrow> string option" where
  "validate_allowed_text allowed value =
     (case validate_required_text value of
        None \<Rightarrow> None
      | Some t \<Rightarrow> if lower t \<in> set allowed then Some (lower t) else None)"

definition ALLOWED_AUTH_MODES :: "string list" where
  "ALLOWED_AUTH_MODES = [''none'', ''image_captcha'', ''slider_captcha'', ''sms_captcha'']"

text \<open>The constructors of the update payloads with their validators.\<close>

definition update_auth_policy :: "auth_policy_update \<Rightarrow> auth_policy_update option" where
  "update_auth_policy raw =
     (case (validate_required_text (up_schedule_expr raw), validate_required_text (up_captcha_provider raw),
            validate_allowed_text ALLOWED_AUTH_MODES (up_auth_mode raw)) of
        (Some expr, Some provider, Some mode) \<Rightarrow>
          Some (raw\<lparr>up_schedule_expr := expr, up_captcha_provider := provider, up_auth_mode := mode\<rparr>)
      | _ \<Rightarrow> None)"

definition update_crawl_policy :: "crawl_policy_update \<Rightarrow> crawl_policy_update option" where
  "update_crawl_policy raw =
     (case (validate_required_text (uc_schedule_expr raw),
            validate_allowed_text [crawl_scope_value ScopeFull, crawl_scope_value ScopeIncremental] (uc_crawl_scope raw)) of
        (Some expr, Some scope) \<Rightarrow> Some (raw\<lparr>uc_schedule_expr := expr, uc_crawl_scope := scope\<rparr>)
      | _ \<Rightarrow> None)"

subsection \<open>The repository\<close>

definition get_system_auth_policy :: "uuid \<Rightarrow> db \<Rightarrow> system_auth_policy option" where
  "get_system_auth_policy system_id d = List.find (\<lambda>p. ap_system_id p = system_id) (system_auth_policies d)"

definition get_system_crawl_policy :: "uuid \<Rightarrow> db \<Rightarrow> system_crawl_policy option" where
  "get_system_crawl_policy system_id d = List.find (\<lambda>p. cp_system_id p = system_id) (system_crawl_policies d)"

definition write_auth_policy :: "auth_policy_update \<Rightarrow> system_auth_policy \<Rightarrow> system_auth_policy" where
  "write_auth_policy payload p =
     p\<lparr>ap_enabled := up_enabled payload, ap_state := resolve_runtime_policy_state (up_enabled payload),
       ap_schedule_expr := up_schedule_expr payload, ap_auth_mode := up_auth_mode payload,
       ap_captcha_provider := up_captcha_provider payload\<rparr>"

definition write_crawl_policy :: "crawl_policy_update \<Rightarrow> system_crawl_policy \<Rightarrow> system_crawl_policy" where
  "write_crawl_policy payload p =
     p\<lparr>cp_enabled := uc_enabled payload, cp_state := resolve_runtime_policy_state (uc_enabled payload),
       cp_schedule_expr := uc_schedule_expr payload, cp_crawl_scope := uc_crawl_scope payload\<rparr>"

definition new_auth_policy :: "uuid \<Rightarrow> uuid \<Rightarrow> auth_policy_update \<Rightarrow> system_auth_policy" where
  "new_auth_policy i system_id payload =
     \<lparr>ap_id = i, ap_system_id = system_id, ap_enabled = up_enabled payload,
      ap_state = resolve_runtime_policy_state (up_enabled payload), ap_schedule_expr = up_schedule_expr payload,
      ap_auth_mode = up_auth_mode payload, ap_captcha_provider = up_captcha_provider payload,
      ap_last_triggered_at = None, ap_last_succeeded_at = None, ap_last_failed_at = None,
      ap_last_failure_message = None\<rparr>"

definition new_crawl_policy :: "uuid \<Rightarrow> uuid \<Rightarrow> crawl_policy_update \<Rightarrow> system_crawl_policy" where
  "new_crawl_policy i system_id payload =
     \<lparr>cp_id = i, cp_system_id = system_id, cp_enabled = uc_enabled payload,
      cp_state = resolve_runtime_policy_state (uc_enabled payload), cp_schedule_expr = uc_schedule_expr payload,
      cp_crawl_scope = uc_crawl_scope payload, cp_last_triggered_at = None, cp_last_succeeded_at = None,
      cp_last_failed_at = None, cp_last_failure_message = None\<rparr>"

text \<open>A session after a rollback sees what the other transaction has committed.\<close>

definition upsert_auth_policy_row ::
  "system_auth_policy option \<Rightarrow> uuid \<Rightarrow> uuid \<Rightarrow> auth_policy_update \<Rightarrow>
    db_session \<Rightarrow> (api_error + system_auth_policy) \<times> db_session" where
  "upsert_auth_policy_row rival i system_id payload s =
     (case get_system_auth_policy system_id (working s) of
        Some p \<Rightarrow> (Inr (write_auth_policy payload p), modify (on_auth_policy (Some (ap_id p)) (write_auth_policy payload)) s)
      | None \<Rightarrow>
          (case rival of
             None \<Rightarrow> (Inr (new_auth_policy i system_id payload), modify (\<lambda>d. d\<lparr>system_auth_policies :=
                       system_auth_policies d @ [new_auth_policy i system_id payload]\<rparr>) s)
           | Some r \<Rightarrow>
               (let s1 = open_session ((committed s)\<lparr>system_auth_policies := system_auth_policies (committed s) @ [r]\<rparr>)
                in case get_system_auth_policy system_id (working s1) of
                     None \<Rightarrow> (Inl (Raised ''IntegrityError''), s1)
                   | Some p \<Rightarrow> (Inr (write_auth_policy payload p),
                                modify (on_auth_policy (Some (ap_id p)) (write_auth_policy payload)) s1))))"

definition upsert_crawl_policy_row ::
  "system_crawl_policy option \<Rightarrow> uuid \<Rightarrow> uuid \<Rightarrow> crawl_policy_update \<Rightarrow>
    db_session \<Rightarrow> (api_error + system_crawl_policy) \<times> db_session" where
  "upsert_crawl_policy_row rival i system_id payload s =
     (case get_system_crawl_policy system_id (working s) of
        Some p \<Rightarrow> (Inr (write_crawl_policy payload p), modify (on_crawl_policy (Some (cp_id p)) (write_crawl_policy payload)) s)
      | None \<Rightarrow>
          (case rival of
             None \<Rightarrow> (Inr (new_crawl_policy i system_id payload), modify (\<lambda>d. d\<lparr>system_crawl_policies :=
                       system_crawl_policies d @ [new_crawl_policy i system_id payload]\<rparr>) s)
           | Some r \<Rightarrow>
               (let s1 = open_session ((committed s)\<lparr>system_crawl_policies := system_crawl_policies (committed s) @ [r]\<rparr>)
                in case get_system_crawl_policy system_id (working s1) of
                     None \<Rightarrow> (Inl (Raised ''IntegrityError''), s1)
                   | Some p \<Rightarrow> (Inr (write_crawl_policy payload p),
                                modify (on_crawl_policy (Some (cp_id p)) (write_crawl_policy payload)) s1))))"

subsection \<open>The service\<close>

definition read_auth_policy :: "uuid \<Rightarrow> db \<Rightarrow> api_error + system_auth_policy" where
  "read_auth_policy system_id d =
     (case find_row sys_id system_id (systems d) of
        None \<Rightarrow> Inl (HTTPException 404 ''system not found'')
      | Some sy \<Rightarrow>
          (case get_system_auth_policy system_id d of
             None \<Rightarrow> Inl (HTTPException 404 ''auth policy not found'')
           | Some p \<Rightarrow> Inr p))"

definition read_crawl_policy :: "uuid \<Rightarrow> db \<Rightarrow> api_error + system_crawl_policy" where
  "read_crawl_policy system_id d =
     (case find_row sys_id system_id (systems d) of
        None \<Rightarrow> Inl (HTTPException 404 ''system not found'')
      | Some sy \<Rightarrow>
          (case get_system_crawl_policy system_id d of
             None \<Rightarrow> Inl (HTTPException 404 ''crawl policy not found'')
           | Some p \<Rightarrow> Inr p))"

text \<open>The \<open>safely\<close> variants: an exception of the registry is logged and dropped.\<close>

definition sync_auth_policy_registry ::
  "(string \<Rightarrow> string \<Rightarrow> bool) \<Rightarrow> db \<Rightarrow> system_auth_policy \<Rightarrow> registry option \<Rightarrow> registry option" where
  "sync_auth_policy_registry valid_cron d p reg =
     (case reg of
        None \<Rightarrow> None
      | Some r \<Rightarrow>
          if is_policy_effectively_active (ap_enabled p) (ap_state p)
          then Some (snd (upsert_auth_policy valid_cron d (ap_id p) r))
          else Some (registry_remove_job (build_auth_policy_job_id (ap_system_id p)) r))"

definition sync_crawl_policy_registry ::
  "(string \<Rightarrow> string \<Rightarrow> bool) \<Rightarrow> db \<Rightarrow> system_crawl_policy \<Rightarrow> registry option \<Rightarrow> registry option" where
  "sync_crawl_policy_registry valid_cron d p reg =
     (case reg of
        None \<Rightarrow> None
      | Some r \<Rightarrow>
          if is_policy_effectively_active (cp_enabled p) (cp_state p)
          then Some (snd (upsert_crawl_policy valid_cron d (cp_id p) r))
          else Some (registry_remove_job (build_crawl_policy_job_id (cp_system_id p)) r))"

definition upsert_system_auth_policy ::
  "(string \<Rightarrow> string \<Rightarrow> bool) \<Rightarrow> system_auth_policy option \<Rightarrow> uuid \<Rightarrow> uuid \<Rightarrow> auth_policy_update \<Rightarrow>
    db_session \<Rightarrow> registry option \<Rightarrow> (api_error + system_auth_policy) \<times> db_session \<times> registry option" where
  "upsert_system_auth_policy valid_cron rival i system_id raw s reg =
     (case update_auth_policy raw of
        None \<Rightarrow> (Inl ValidationError, s, reg)
      | Some payload \<Rightarrow>
     (case find_row sys_id system_id (systems (working s)) of
        None \<Rightarrow> (Inl (HTTPException 404 ''system not found''), s, reg)
      | Some sy \<Rightarrow>
          if \<not> valid_cron (up_schedule_expr payload) ''UTC''
          then (Inl (invalid_schedule (up_schedule_expr payload)), s, reg)
          else
            (case upsert_auth_policy_row rival i system_id payload s of
               (Inl e, s1) \<Rightarrow> (Inl e, rollback s1, reg)
             | (Inr p, s1) \<Rightarrow>
                 (Inr p, commit s1, sync_auth_policy_registry valid_cron (committed (commit s1)) p reg))))"

definition upsert_system_crawl_policy ::
  "(string \<Rightarrow> string \<Rightarrow> bool) \<Rightarrow> system_crawl_policy option \<Rightarrow> uuid \<Rightarrow> uuid \<Rightarrow> crawl_policy_update \<Rightarrow>
    db_session \<Rightarrow> registry option \<Rightarrow> (api_error + system_crawl_policy) \<times> db_session \<times> registry option" where
  "upsert_system_crawl_policy valid_cron rival i system_id raw s reg =
     (case update_crawl_policy raw of
        None \<Rightarrow> (Inl ValidationError, s, reg)
      | Some payload \<Rightarrow>
     (case find_row sys_id system_id (systems (working s)) of
        None \<Rightarrow> (Inl (HTTPException 404 ''system not found''), s, reg)
      | Some sy \<Rightarrow>
          if \<not> valid_cron (uc_schedule_expr payload) ''UTC''
          then (Inl (invalid_schedule (uc_schedule_expr payload)), s, reg)
          else
            (case upsert_crawl_policy_row rival i system_id payload s of
               (Inl e, s1) \<Rightarrow> (Inl e, rollback s1, reg)
             | (Inr p, s1) \<Rightarrow>
                 (Inr p, commit s1, sync_crawl_policy_registry valid_cron (committed (commit s1)) p reg))))"

text \<open>The registry after a published job was created.\<close>

definition sync_published_job_registry ::
  "(string \<Rightarrow> string \<Rightarrow> bool) \<Rightarrow> db \<Rightarrow> uuid \<Rightarrow> registry option \<Rightarrow> registry option" where
  "sync_published_job_registry valid_cron d published_job_id reg =
     map_option (\<lambda>r. snd (upsert_published_job valid_cron d published_job_id r)) reg"

subsection \<open>The registry stays in step\<close>

definition mirrors :: "db \<Rightarrow> registry \<Rightarrow> bool" where
  "mirrors d reg \<longleftrightarrow> (\<forall>(k, e) \<in> set (wishes d). reg k = e)"

text \<open>A change of one wish that the registry follows keeps it in step.\<close>

lemma mirrors_update:
  assumes "mirrors d reg" "\<And>k' e'. (k', e') \<in> set (wishes d') \<Longrightarrow> (k' = k \<and> e' = e) \<or> (k' \<noteq> k \<and> (k', e') \<in> set (wishes d))"
  shows "mirrors d' (reg(k := e))"
  using assms unfolding mirrors_def by fastforce

lemma auth_wish_written [simp]:
  "auth_policy_wish (write_auth_policy payload p) =
     (build_auth_policy_job_id (ap_system_id p),
      if up_enabled payload then Some (auth_policy_entry (write_auth_policy payload p)) else None)"
  by (simp add: auth_policy_wish_def write_auth_policy_def resolve_runtime_policy_state_def)

lemma auth_wish_new [simp]:
  "auth_policy_wish (new_auth_policy i sys payload) =
     (build_auth_policy_job_id sys,
      if up_enabled payload then Some (auth_policy_entry (new_auth_policy i sys payload)) else None)"
  by (simp add: auth_policy_wish_def new_auth_policy_def resolve_runtime_policy_state_def)

lemma write_auth_policy_fields [simp]:
  "ap_id (write_auth_policy payload p) = ap_id p" "ap_system_id (write_auth_policy payload p) = ap_system_id p"
  "ap_enabled (write_auth_policy payload p) = up_enabled payload"
  "ap_schedule_expr (write_auth_policy payload p) = up_schedule_expr payload"
  "ap_state (write_auth_policy payload p) = resolve_runtime_policy_state (up_enabled payload)"
  "ap_auth_mode (write_auth_policy payload p) = up_auth_mode payload"
  "ap_captcha_provider (write_auth_policy payload p) = up_captcha_provider payload"
  by (simp_all add: write_auth_policy_def)

text \<open>The registry after a policy row was written: it holds the wish of the row.\<close>

lemma sync_auth_follows:
  assumes "find_row ap_id (ap_id p) (system_auth_policies d) = Some p" "valid_cron (ap_schedule_expr p) ''UTC''"
    and "ap_state p = resolve_runtime_policy_state (ap_enabled p)"
  shows "sync_auth_policy_registry valid_cron d p (Some reg) =
    Some (reg(fst (auth_policy_wish p) := snd (auth_policy_wish p)))"
  using assms
  by (auto simp: sync_auth_policy_registry_def is_policy_effectively_active_def upsert_auth_policy_def
      auth_policy_wish_def upsert_job_def registry_remove_job_def resolve_runtime_policy_state_def
      auth_policy_entry_def Let_def)

text \<open>The table of login policies after the upsert, and the row it wrote.\<close>

definition auth_row_written :: "uuid \<Rightarrow> auth_policy_update \<Rightarrow> db \<Rightarrow> system_auth_policy \<Rightarrow> db \<Rightarrow> bool" where
  "auth_row_written sys payload d p d' \<longleftrightarrow>
     (\<exists>ps. d' = d\<lparr>system_auth_policies := ps\<rparr> \<and> p \<in> set ps \<and> ap_system_id p = sys \<and>
        distinct (map ap_id ps) \<and> distinct (map ap_system_id ps) \<and>
        (\<forall>q \<in> set ps. q = p \<or> (q \<in> set (system_auth_policies d) \<and> ap_system_id q \<noteq> sys)) \<and>
        (\<forall>q \<in> set (system_auth_policies d). ap_system_id q \<noteq> sys \<longrightarrow> q \<in> set ps) \<and>
        ap_enabled p = up_enabled payload \<and> ap_schedule_expr p = up_schedule_expr payload \<and>
        ap_state p = resolve_runtime_policy_state (up_enabled payload) \<and>
        ap_auth_mode p = up_auth_mode payload \<and> ap_captcha_provider p = up_captcha_provider payload)"

lemma auth_row_updated:
  assumes "unique_rows d" "get_system_auth_policy sys d = Some p"
  shows "auth_row_written sys payload d (write_auth_policy payload p)
    (on_auth_policy (Some (ap_id p)) (write_auth_policy payload) d)"
proof -
  let ?ps = "upd_row ap_id (ap_id p) (write_auth_policy payload) (system_auth_policies d)"
  have p: "p \<in> set (system_auth_policies d)" "ap_system_id p = sys"
    using assms(2) by (auto simp: get_system_auth_policy_def find_Some_iff)
  have u: "distinct (map ap_id (system_auth_policies d))" "distinct (map ap_system_id (system_auth_policies d))"
    using assms(1) by (auto simp: unique_rows_def)
  have keys: "map ap_id ?ps = map ap_id (system_auth_policies d)" "map ap_system_id ?ps = map ap_system_id (system_auth_policies d)"
    by (auto simp: upd_row_def)
  have other: "q = write_auth_policy payload p \<or> (q \<in> set (system_auth_policies d) \<and> ap_system_id q \<noteq> sys)"
    if "q \<in> set ?ps" for q
    using that p u by (auto simp: upd_row_def distinct_map inj_on_def split: if_splits)
  have kept: "q \<in> set ?ps" if "q \<in> set (system_auth_policies d)" "ap_system_id q \<noteq> sys" for q
    using that p u by (force simp: upd_row_def distinct_map inj_on_def image_iff)
  have "write_auth_policy payload p \<in> set ?ps" using p by (auto simp: upd_row_def)
  then show ?thesis
    unfolding auth_row_written_def on_auth_policy_def
    using p u other kept by (intro exI [of _ ?ps]) (simp add: keys write_auth_policy_def)
qed

lemma auth_row_added:
  assumes "unique_rows d" "get_system_auth_policy sys d = None" "i \<notin> keys_of ap_id (system_auth_policies d)"
  shows "auth_row_written sys payload d (new_auth_policy i sys payload)
    (d\<lparr>system_auth_policies := system_auth_policies d @ [new_auth_policy i sys payload]\<rparr>)"
proof -
  have "ap_system_id q \<noteq> sys" if "q \<in> set (system_auth_policies d)" for q
    using assms(2) that by (auto simp: get_system_auth_policy_def find_None_iff)
  then show ?thesis
    using assms(1,3) unfolding auth_row_written_def
    by (intro exI [of _ "system_auth_policies d @ [new_auth_policy i sys payload]"])
      (auto simp: new_auth_policy_def unique_rows_def keys_of_def)
qed

text \<open>A rival row is one for the same system under a key of its own.\<close>

definition rival_ok :: "uuid \<Rightarrow> system_auth_policy option \<Rightarrow> db \<Rightarrow> bool" where
  "rival_ok sys rival d \<longleftrightarrow>
     (case rival of None \<Rightarrow> True | Some r \<Rightarrow> ap_system_id r = sys \<and> ap_id r \<notin> keys_of ap_id (system_auth_policies d))"

lemma auth_row_rival:
  assumes "unique_rows d" "get_system_auth_policy sys d = None" "rival_ok sys (Some r) d"
  shows "get_system_auth_policy sys (d\<lparr>system_auth_policies := system_auth_policies d @ [r]\<rparr>) = Some r"
    and "auth_row_written sys payload d (write_auth_policy payload r)
      (on_auth_policy (Some (ap_id r)) (write_auth_policy payload)
        (d\<lparr>system_auth_policies := system_auth_policies d @ [r]\<rparr>))"
proof -
  let ?d = "d\<lparr>system_auth_policies := system_auth_policies d @ [r]\<rparr>"
  have r: "ap_system_id r = sys" "ap_id r \<notin> keys_of ap_id (system_auth_policies d)"
    using assms(3) by (simp_all add: rival_ok_def)
  have none: "ap_system_id q \<noteq> sys" if "q \<in> set (system_auth_policies d)" for q
    using assms(2) that by (auto simp: get_system_auth_policy_def find_None_iff)
  then show got: "get_system_auth_policy sys ?d = Some r"
    using assms(2) r by (simp add: get_system_auth_policy_def find_append)
  have "sys \<notin> ap_system_id ` set (system_auth_policies d)" using none by blast
  then have "unique_rows ?d"
    using assms(1) r by (simp add: unique_rows_def keys_of_def)
  from auth_row_updated [OF this got, of payload] obtain ps where
    "on_auth_policy (Some (ap_id r)) (write_auth_policy payload) ?d = ?d\<lparr>system_auth_policies := ps\<rparr>"
    and ps: "write_auth_policy payload r \<in> set ps" "distinct (map ap_id ps)" "distinct (map ap_system_id ps)"
      "\<forall>q \<in> set ps. q = write_auth_policy payload r \<or> (q \<in> set (system_auth_policies ?d) \<and> ap_system_id q \<noteq> sys)"
      "\<forall>q \<in> set (system_auth_policies ?d). ap_system_id q \<noteq> sys \<longrightarrow> q \<in> set ps"
    by (auto simp: auth_row_written_def)
  then show "auth_row_written sys payload d (write_auth_policy payload r)
      (on_auth_policy (Some (ap_id r)) (write_auth_policy payload) ?d)"
    using r(1) unfolding auth_row_written_def by (intro exI [of _ ps]) auto
qed

lemma upsert_row_written:
  assumes "unique_rows (committed s)" "clean s" "rival_ok sys rival (committed s)"
    and "i \<notin> keys_of ap_id (system_auth_policies (committed s))"
  obtains p s1 where "upsert_auth_policy_row rival i sys payload s = (Inr p, s1)"
    "auth_row_written sys payload (committed s) p (working s1)"
proof -
  have w: "working s = committed s" using assms(2) by (simp add: clean_def)
  show thesis
  proof (cases "get_system_auth_policy sys (committed s)")
    case None
    show ?thesis
    proof (cases rival)
      case None
      with \<open>get_system_auth_policy sys (committed s) = None\<close> show ?thesis
        using that auth_row_added [OF assms(1) _ assms(4)] by (simp add: upsert_auth_policy_row_def w)
    next
      case (Some r)
      with \<open>get_system_auth_policy sys (committed s) = None\<close> show ?thesis
        using that auth_row_rival(1) [OF assms(1), of sys r] auth_row_rival(2) [OF assms(1), of sys r payload] assms(3)
        by (simp add: upsert_auth_policy_row_def w)
    qed
  next
    case (Some p)
    then show ?thesis
      using that auth_row_updated [OF assms(1) Some, of payload] by (simp add: upsert_auth_policy_row_def w)
  qed
qed

lemma written_mirrors:
  assumes "unique_rows d" "mirrors d reg" "auth_row_written sys payload d p d'"
  shows "unique_rows d'" and "mirrors d' (reg(fst (auth_policy_wish p) := snd (auth_policy_wish p)))"
    and "get_system_auth_policy sys d' = Some p" and "find_row ap_id (ap_id p) (system_auth_policies d') = Some p"
proof -
  obtain ps where d': "d' = d\<lparr>system_auth_policies := ps\<rparr>" and p: "p \<in> set ps" "ap_system_id p = sys"
      and u: "distinct (map ap_id ps)" "distinct (map ap_system_id ps)"
      and others: "\<forall>q \<in> set ps. q = p \<or> (q \<in> set (system_auth_policies d) \<and> ap_system_id q \<noteq> sys)"
    using assms(3) by (auto simp: auth_row_written_def)
  show "unique_rows d'" using assms(1) u by (simp add: unique_rows_def d')
  show "find_row ap_id (ap_id p) (system_auth_policies d') = Some p"
    using u(1) p(1) by (simp add: d' find_row_distinct)
  show "get_system_auth_policy sys d' = Some p"
    using find_row_distinct [OF u(2) p(1)] p(2) by (simp add: get_system_auth_policy_def d' find_row_def)
  have keys: "fst (auth_policy_wish q) = build_auth_policy_job_id (ap_system_id q)" for q
    by (simp add: auth_policy_wish_def)
  show "mirrors d' (reg(fst (auth_policy_wish p) := snd (auth_policy_wish p)))"
  proof (rule mirrors_update [OF assms(2)])
    fix k e assume "(k, e) \<in> set (wishes d')"
    then consider (auth) q where "q \<in> set ps" "(k, e) = auth_policy_wish q"
      | (pub) q where "q \<in> set (published_jobs d)" "(k, e) = published_job_wish q"
      | (crawl) q where "q \<in> set (system_crawl_policies d)" "(k, e) = crawl_policy_wish q"
      by (auto simp: wishes_def d')
    then show "(k = fst (auth_policy_wish p) \<and> e = snd (auth_policy_wish p)) \<or>
        (k \<noteq> fst (auth_policy_wish p) \<and> (k, e) \<in> set (wishes d))"
    proof cases
      case auth
      then have k: "k = build_auth_policy_job_id (ap_system_id q)" by (metis keys fst_conv)
      show ?thesis
      proof (cases "q = p")
        case True
        then show ?thesis using auth(2) by (metis fst_conv snd_conv)
      next
        case False
        then have "q \<in> set (system_auth_policies d)" "ap_system_id q \<noteq> sys" using others auth(1) by auto
        then show ?thesis using auth(2) k p(2) by (simp add: keys wishes_def)
      qed
    next
      case pub
      then show ?thesis by (auto simp: wishes_def published_job_wish_def keys)
    next
      case crawl
      then show ?thesis by (auto simp: wishes_def crawl_policy_wish_def keys)
    qed
  qed
qed

lemma update_auth_policy_values:
  assumes "update_auth_policy raw = Some payload"
  shows "up_enabled payload = up_enabled raw" "up_schedule_expr payload = strip (up_schedule_expr raw)"
    "up_captcha_provider payload = strip (up_captcha_provider raw)" "up_auth_mode payload = lower (strip (up_auth_mode raw))"
    "up_auth_mode payload \<in> set ALLOWED_AUTH_MODES"
  using assms
  by (auto simp: update_auth_policy_def validate_allowed_text_def validate_required_text_def opt_text_def
      split: option.splits if_splits)

text \<open>C10: writing the login policy of a system keeps the registry a mirror of the stored rows, also when a
  concurrent transaction inserts the policy first: an accepted write is stored as the only policy of
  the system, switched on or off, with the schedule, the login mode and the captcha provider as given
  (stripped, and the mode in lower case and one of the known ones), every other policy is as before,
  and its schedule is registered or removed at once; a refused one changes nothing.\<close>

theorem policy_upsert_keeps_mirror:
  assumes "upsert_system_auth_policy valid_cron rival i sys raw s (Some reg) = (r, s', reg')"
    and "unique_rows (committed s)" "clean s" "mirrors (committed s) reg"
    and "rival_ok sys rival (committed s)" "i \<notin> keys_of ap_id (system_auth_policies (committed s))"
  shows "unique_rows (committed s') \<and> (\<exists>reg1. reg' = Some reg1 \<and> mirrors (committed s') reg1) \<and>
    (case r of
       Inl e \<Rightarrow> s' = s
     | Inr p \<Rightarrow> read_auth_policy sys (committed s') = Inr p \<and>
         {q \<in> set (system_auth_policies (committed s')). ap_system_id q = sys} = {p} \<and>
         {q \<in> set (system_auth_policies (committed s')). ap_system_id q \<noteq> sys} =
           {q \<in> set (system_auth_policies (committed s)). ap_system_id q \<noteq> sys} \<and>
         ap_enabled p = up_enabled raw \<and> ap_state p = (if up_enabled raw then ''active'' else ''paused'') \<and>
         ap_schedule_expr p = strip (up_schedule_expr raw) \<and> valid_cron (ap_schedule_expr p) ''UTC'' \<and>
         ap_auth_mode p = lower (strip (up_auth_mode raw)) \<and> ap_auth_mode p \<in> set ALLOWED_AUTH_MODES \<and>
         ap_captcha_provider p = strip (up_captcha_provider raw))"
proof (cases r)
  case (Inl e)
  have "s' = s \<and> reg' = Some reg"
  proof (cases "update_auth_policy raw")
    case None
    then show ?thesis using assms(1) by (simp add: upsert_system_auth_policy_def)
  next
    case (Some payload)
    obtain p s1 where "upsert_auth_policy_row rival i sys payload s = (Inr p, s1)"
      by (rule upsert_row_written [OF assms(2,3,5,6)])
    then show ?thesis
      using assms(1) Inl Some by (auto simp: upsert_system_auth_policy_def split: option.splits if_splits)
  qed
  then show ?thesis using assms(2,4) Inl by simp
next
  case (Inr p)
  obtain payload sy where payload: "update_auth_policy raw = Some payload"
      and sy: "find_row sys_id sys (systems (working s)) = Some sy" and ok: "valid_cron (up_schedule_expr payload) ''UTC''"
    using assms(1) Inr by (auto simp: upsert_system_auth_policy_def split: option.splits if_splits)
  obtain q s1 where row: "upsert_auth_policy_row rival i sys payload s = (Inr q, s1)"
      and written: "auth_row_written sys payload (committed s) q (working s1)"
    by (rule upsert_row_written [OF assms(2,3,5,6)])
  note w = written_mirrors [OF assms(2,4) written]
  have fields: "ap_enabled q = up_enabled payload" "ap_schedule_expr q = up_schedule_expr payload"
      "ap_state q = resolve_runtime_policy_state (up_enabled payload)" "ap_auth_mode q = up_auth_mode payload"
      "ap_captcha_provider q = up_captcha_provider payload"
    using written by (auto simp: auth_row_written_def)
  have s': "p = q" "s' = commit s1" "reg' = sync_auth_policy_registry valid_cron (working s1) q (Some reg)"
    using assms(1) Inr payload sy ok row by (auto simp: upsert_system_auth_policy_def)
  then have reg: "reg' = Some (reg(fst (auth_policy_wish q) := snd (auth_policy_wish q)))"
    using sync_auth_follows [OF w(4)] ok fields by simp
  have "systems (working s1) = systems (committed s)" using written by (auto simp: auth_row_written_def)
  then have "read_auth_policy sys (committed s') = Inr p"
    using s' sy w(3) assms(3) by (simp add: read_auth_policy_def clean_def)
  moreover have "{q \<in> set (system_auth_policies (working s1)). ap_system_id q = sys} = {q} \<and>
      {q \<in> set (system_auth_policies (working s1)). ap_system_id q \<noteq> sys} =
        {q \<in> set (system_auth_policies (committed s)). ap_system_id q \<noteq> sys}"
    using written by (auto simp: auth_row_written_def)
  moreover have "ap_state q = (if up_enabled payload then ''active'' else ''paused'')"
    using fields(3) by (simp add: resolve_runtime_policy_state_def)
  ultimately show ?thesis
    using w(1,2) reg s' fields update_auth_policy_values [OF payload] ok Inr by simp
qed

definition sample_policy_update :: auth_policy_update where
  "sample_policy_update =
     \<lparr>up_enabled = True, up_schedule_expr = '' 0 * * * *'', up_auth_mode = ''None'', up_captcha_provider = ''ddddocr''\<rparr>"

theorem policy_upsert_keeps_mirror_witness:
  "\<exists>r s' reg1. upsert_system_auth_policy (\<lambda>e tz. True) None 31 3 sample_policy_update
      (open_session (empty_db\<lparr>systems := [\<lparr>sys_id = 3, sys_code = ''erp'', sys_name = ''Plan'', sys_base_url = ''http'',
         sys_framework_type = ''vue''\<rparr>]\<rparr>)) (Some Map.empty) = (r, s', Some reg1) \<and> mirrors (committed s') reg1"
proof -
  let ?d = "empty_db\<lparr>systems := [\<lparr>sys_id = 3, sys_code = ''erp'', sys_name = ''Plan'', sys_base_url = ''http'',
         sys_framework_type = ''vue''\<rparr>]\<rparr>"
  obtain r s' reg' where u: "upsert_system_auth_policy (\<lambda>e tz. True) None 31 3 sample_policy_update
      (open_session ?d) (Some Map.empty) = (r, s', reg')" by (metis prod_cases3)
  have "unique_rows ?d" "mirrors ?d Map.empty" "rival_ok 3 None ?d" "31 \<notin> keys_of ap_id (system_auth_policies ?d)"
    by (simp_all add: unique_rows_def mirrors_def wishes_def rival_ok_def empty_db_def)
  then show ?thesis
    using policy_upsert_keeps_mirror [OF u] u by auto
qed

end
