(* ===== verification/CheckResults.thy ===== *)
theory CheckResults
  imports PolicyAdmin
begin

section \<open>Results of check requests and their publication\<close>

text \<open>
  control\_plane/repository.py, result\_views.py and control\_plane/service.py: the status and the result
  view of a request, the checks of an asset, and the publication of a request's check as a scheduled
  job. A view whose track is neither of the two public ones fails its model's validation. The
  published job service and the registry are optional in the code; here a service without them is
  the value \<open>False\<close> or \<open>None\<close>.
\<close>

subsection \<open>Artifacts\<close>

definition normalize_public_execution_track :: "string \<Rightarrow> string" where
  "normalize_public_execution_track track = (if track = ''realtime'' then ''realtime_probe'' else track)"

definition public_track :: "execution_plan option \<Rightarrow> (string option) option" where
  "public_track plan =
     (case plan of
        None \<Rightarrow> Some None
      | Some p \<Rightarrow>
          (let t = normalize_public_execution_track (ep_execution_track p)
           in if t \<in> {''precompiled'', ''realtime_probe''} then Some (Some t) else None))"

definition get_payload_text :: "pydict option \<Rightarrow> string \<Rightarrow> string option" where
  "get_payload_text payload key =
     (case payload of None \<Rightarrow> None | Some p \<Rightarrow> Option.bind (as_str (dget p key)) opt_text)"

definition get_payload_bool :: "pydict option \<Rightarrow> string \<Rightarrow> bool option" where
  "get_payload_bool payload key =
     (case payload of None \<Rightarrow> None | Some p \<Rightarrow> (case dget p key of PBool b \<Rightarrow> Some b | _ \<Rightarrow> None))"

type_synonym context_texts = "string option \<times> string option"

definition artifact_context :: "execution_artifact \<Rightarrow> context_texts" where
  "artifact_context a = (get_payload_text (xa_payload a) ''final_url'', get_payload_text (xa_payload a) ''page_title'')"

definition first_context :: "execution_artifact list \<Rightarrow> context_texts option" where
  "first_context artifacts = List.find (\<lambda>c. fst c \<noteq> None \<or> snd c \<noteq> None) (map artifact_context artifacts)"

definition extract_page_context :: "execution_artifact list \<Rightarrow> context_texts" where
  "extract_page_context artifacts =
     (case first_context (filter (\<lambda>a. xa_artifact_kind a = ''module_execution'') artifacts) of
        Some c \<Rightarrow> c
      | None \<Rightarrow> (case first_context artifacts of Some c \<Rightarrow> c | None \<Rightarrow> (None, None)))"

text \<open>The first artifact with a hint decides; earlier ones had neither.\<close>

fun extract_probe_hints :: "execution_artifact list \<Rightarrow> bool option \<times> bool option" where
  "extract_probe_hints [] = (None, None)"
| "extract_probe_hints (a # artifacts) =
     (let recrawl = get_payload_bool (xa_payload a) ''needs_recrawl'';
          recompile = get_payload_bool (xa_payload a) ''needs_recompile''
      in if recrawl \<noteq> None \<or> recompile \<noteq> None then (recrawl, recompile) else extract_probe_hints artifacts)"

subsection \<open>Status and result\<close>

definition request_plan :: "uuid \<Rightarrow> db \<Rightarrow> execution_plan option" where
  "request_plan request_id d = List.find (\<lambda>p. ep_execution_request_id p = request_id) (execution_plans d)"

definition find_check_request_queued_job :: "uuid \<Rightarrow> db \<Rightarrow> queued_job option" where
  "find_check_request_queued_job request_id d =
     List.find (\<lambda>j. dget (qj_payload j) ''execution_request_id'' = PStr (uuid_str request_id)) (queued_jobs d)"

record request_status =
  rqs_request_id :: uuid
  rqs_plan_id :: "uuid option"
  rqs_page_check_id :: "uuid option"
  rqs_execution_track :: "string option"
  rqs_auth_policy :: "string option"
  rqs_status :: string

definition get_check_request_status :: "uuid \<Rightarrow> db \<Rightarrow> api_error + request_status" where
  "get_check_request_status request_id d =
     (case find_row er_id request_id (execution_requests d) of
        None \<Rightarrow> Inl (HTTPException 404 ''check request not found'')
      | Some request \<Rightarrow>
          (let plan = request_plan request_id d in
           case public_track plan of
             None \<Rightarrow> Inl ValidationError
           | Some track \<Rightarrow>
               Inr \<lparr>rqs_request_id = er_id request, rqs_plan_id = map_option ep_id plan,
                    rqs_page_check_id = Option.bind plan ep_resolved_page_check_id, rqs_execution_track = track,
                    rqs_auth_policy = map_option ep_auth_policy plan,
                    rqs_status = (case find_check_request_queued_job request_id d of
                                    None \<Rightarrow> ''accepted'' | Some j \<Rightarrow> queued_job_status_value (qj_status j))\<rparr>))"

record execution_summary =
  es_execution_run_id :: uuid
  es_status :: string
  es_auth_status :: "string option"
  es_duration_ms :: "int option"
  es_failure_category :: "string option"
  es_asset_version :: "string option"
  es_snapshot_version :: "string option"
  es_final_url :: "string option"
  es_page_title :: "string option"

record result_view =
  rv_request_id :: uuid
  rv_plan_id :: "uuid option"
  rv_page_check_id :: "uuid option"
  rv_execution_track :: "string option"
  rv_execution_summary :: "execution_summary option"
  rv_artifacts :: "execution_artifact list"
  rv_needs_recrawl :: bool
  rv_needs_recompile :: bool

definition summarize_run :: "execution_run \<Rightarrow> execution_artifact list \<Rightarrow> execution_summary" where
  "summarize_run run artifacts =
     \<lparr>es_execution_run_id = xr_id run, es_status = xr_status run, es_auth_status = xr_auth_status run,
      es_duration_ms = xr_duration_ms run, es_failure_category = xr_failure_category run,
      es_asset_version = xr_asset_version run, es_snapshot_version = xr_snapshot_version run,
      es_final_url = fst (extract_page_context artifacts), es_page_title = snd (extract_page_context artifacts)\<rparr>"

definition run_artifacts :: "uuid \<Rightarrow> db \<Rightarrow> execution_artifact list" where
  "run_artifacts run_id d =
     sort_key (\<lambda>a. instant (xa_created_at a)) (filter (\<lambda>a. xa_execution_run_id a = run_id) (execution_artifacts d))"

definition finished_status :: "queued_job_status \<Rightarrow> bool" where
  "finished_status st \<longleftrightarrow> st \<in> {COMPLETED, FAILED, RETRYABLE_FAILED, SKIPPED}"

definition result_of_plan :: "execution_plan option \<Rightarrow> result_view \<Rightarrow> db \<Rightarrow> result_view" where
  "result_of_plan plan view d =
     (let run = Option.bind plan (\<lambda>p. latest_execution_run (ep_id p) d);
          artifacts = (case run of None \<Rightarrow> [] | Some r \<Rightarrow> run_artifacts (xr_id r) d);
          summary = map_option (\<lambda>r. summarize_run r artifacts) run;
          (recrawl, recompile) = extract_probe_hints artifacts;
          unresolved_pass = (recrawl = None \<and> recompile = None \<and>
            (case (plan, summary) of
               (Some p, Some su) \<Rightarrow> es_status su = ''passed'' \<and> ep_execution_track p = ''realtime_probe'' \<and>
                                   ep_resolved_page_asset_id p = None
             | _ \<Rightarrow> False))
      in view\<lparr>rv_execution_summary := summary, rv_artifacts := artifacts,
              rv_needs_recrawl := unresolved_pass \<or> recrawl = Some True,
              rv_needs_recompile := unresolved_pass \<or> recompile = Some True\<rparr>)"

text \<open>Lines 995-1011: a request whose job has not finished shows no execution.\<close>

definition get_check_request_result :: "uuid \<Rightarrow> db \<Rightarrow> api_error + result_view" where
  "get_check_request_result request_id d =
     (case find_row er_id request_id (execution_requests d) of
        None \<Rightarrow> Inl (HTTPException 404 ''check request not found'')
      | Some request \<Rightarrow>
          (let plan = request_plan request_id d in
           case public_track plan of
             None \<Rightarrow> Inl ValidationError
           | Some track \<Rightarrow>
               (let view = \<lparr>rv_request_id = er_id request, rv_plan_id = map_option ep_id plan,
                            rv_page_check_id = Option.bind plan ep_resolved_page_check_id,
                            rv_execution_track = track, rv_execution_summary = None, rv_artifacts = [],
                            rv_needs_recrawl = False, rv_needs_recompile = False\<rparr>
                in case find_check_request_queued_job request_id d of
                     Some j \<Rightarrow> if \<not> finished_status (qj_status j) then Inr view
                               else Inr (result_of_plan plan view d)
                   | None \<Rightarrow> Inr (result_of_plan plan view d))))"

subsection \<open>Checks of an asset\<close>

record asset_check_item =
  ci_id :: uuid
  ci_page_asset_id :: uuid
  ci_check_code :: string
  ci_goal :: string
  ci_module_plan_id :: "uuid option"
  ci_status :: string
  ci_drift_status :: string
  ci_lifecycle_status :: string

definition list_page_asset_checks :: "uuid \<Rightarrow> db \<Rightarrow> api_error + (uuid \<times> asset_check_item list)" where
  "list_page_asset_checks page_asset_id d =
     (case get_page_asset page_asset_id d of
        None \<Rightarrow> Inl (HTTPException 404 ''page asset not found'')
      | Some pa \<Rightarrow>
          Inr (pa_id pa, map (\<lambda>c.
            \<lparr>ci_id = pc_id c, ci_page_asset_id = pc_page_asset_id c, ci_check_code = pc_check_code c,
             ci_goal = pc_goal c, ci_module_plan_id = pc_module_plan_id c,
             ci_status = asset_status_value (pa_status pa), ci_drift_status = asset_status_value (pa_drift_status pa),
             ci_lifecycle_status = lifecycle_value (pc_lifecycle_status c)\<rparr>)
            (sort_key (\<lambda>c. uint (pc_id c)) (filter (\<lambda>c. pc_page_asset_id c = page_asset_id) (page_checks d)))))"

subsection \<open>Publication\<close>

text \<open>The \<open>except\<close> clauses: the status of the response for an error of the published job service.\<close>

definition api_of_pj_error :: "uuid \<Rightarrow> pj_error \<Rightarrow> api_error" where
  "api_of_pj_error job_id e =
     (case e of
        InvalidSchedule expr \<Rightarrow> invalid_schedule expr
      | PublishedJobNotFound \<Rightarrow> HTTPException 404 (''published job '' @ uuid_str job_id @ '' not found'')
      | ScriptRenderNotFound i \<Rightarrow> HTTPException 404 (''script render '' @ uuid_str i @ '' not found'')
      | ValueMustNotBeEmpty \<Rightarrow> ValidationError
      | UniqueViolation \<Rightarrow> Raised ''IntegrityError''
      | RendererError \<Rightarrow> Raised ''script renderer'')"

definition render_page_check_script :: "script_renderer option \<Rightarrow> uuid \<Rightarrow> string \<Rightarrow> uuid api_op" where
  "render_page_check_script renderer page_check_id render_mode s =
     (case renderer of
        None \<Rightarrow> (Inl (HTTPException 500 ''script renderer is not configured''), s)
      | Some render \<Rightarrow>
          (case page_check_run_target page_check_id (working s) of
             None \<Rightarrow> (Inl (HTTPException 404 ''page check not found''), s)
           | Some (pc, pa, sy) \<Rightarrow>
               (let (r, s1) = render (pc_id pc) render_mode s
                in (map_sum (\<lambda>_. Raised ''script renderer'') id r, s1))))"

definition api_create_published_job ::
  "bool \<Rightarrow> (string \<Rightarrow> string \<Rightarrow> bool) \<Rightarrow> uuid \<Rightarrow> create_request \<Rightarrow> db_session \<Rightarrow> registry option \<Rightarrow>
    (api_error + published_job_created) \<times> db_session \<times> registry option" where
  "api_create_published_job has_service valid_cron new_id payload s reg =
     (if \<not> has_service then (Inl (HTTPException 500 ''published job service is not configured''), s, reg)
      else case create_published_job (\<lambda>e. valid_cron e ''UTC'') new_id payload s of
             (Inl e, s1) \<Rightarrow> (Inl (api_of_pj_error new_id e), s1, reg)
           | (Inr created, s1) \<Rightarrow>
               (Inr created, s1, sync_published_job_registry valid_cron (committed s1) (pjc_published_job_id created) reg))"

record publish_request =
  pr_schedule_expr :: string
  pr_trigger_source :: string
  pr_enabled :: bool

definition publish_check_request ::
  "script_renderer option \<Rightarrow> bool \<Rightarrow> (string \<Rightarrow> string \<Rightarrow> bool) \<Rightarrow> uuid \<Rightarrow> uuid \<Rightarrow> publish_request \<Rightarrow> db_session \<Rightarrow>
    registry option \<Rightarrow> (api_error + published_job_created) \<times> db_session \<times> registry option" where
  "publish_check_request renderer has_service valid_cron new_id request_id payload s reg =
     (case renderer of
        None \<Rightarrow> (Inl (HTTPException 500 ''script renderer is not configured''), s, reg)
      | Some render \<Rightarrow>
     if \<not> has_service then (Inl (HTTPException 500 ''published job service is not configured''), s, reg)
     else case get_check_request_result request_id (working s) of
        Inl e \<Rightarrow> (Inl e, s, reg)
      | Inr result \<Rightarrow>
     (case (rv_plan_id result, rv_execution_summary result) of
        (Some plan_id, Some summary) \<Rightarrow>
          if es_status summary \<noteq> ''passed''
          then (Inl (HTTPException 409 ''check request has no successful execution''), s, reg)
          else
          (case rv_page_check_id result of
             None \<Rightarrow> (Inl (HTTPException 409 ''check request has no publishable page_check''), s, reg)
           | Some page_check_id \<Rightarrow>
               (case create_published_job_from_execution (\<lambda>e. valid_cron e ''UTC'') render new_id plan_id page_check_id
                       (pr_schedule_expr payload) (pr_trigger_source payload) (pr_enabled payload) s of
                  (Inl e, s1) \<Rightarrow> (Inl (api_of_pj_error new_id e), s1, reg)
                | (Inr created, s1) \<Rightarrow>
                    (Inr created, s1,
                     sync_published_job_registry valid_cron (committed s1) (pjc_published_job_id created) reg)))
      | _ \<Rightarrow> (Inl (HTTPException 409 ''check request has no successful execution''), s, reg)))"

definition api_trigger_published_job ::
  "bool \<Rightarrow> dispatcher \<Rightarrow> uuid \<Rightarrow> uuid \<Rightarrow> datetime \<Rightarrow> uuid \<Rightarrow> string \<Rightarrow> trigger_accepted api_op" where
  "api_trigger_published_job has_service enqueue run_id queue_id now published_job_id trigger_source s =
     (if \<not> has_service then (Inl (HTTPException 500 ''published job service is not configured''), s)
      else let (r, s1) = trigger_published_job enqueue run_id queue_id now published_job_id trigger_source s
           in (map_sum (api_of_pj_error published_job_id) id r, s1))"

definition api_list_published_job_runs :: "bool \<Rightarrow> uuid \<Rightarrow> db_session \<Rightarrow> api_error + runs_list" where
  "api_list_published_job_runs has_service published_job_id s =
     (if \<not> has_service then Inl (HTTPException 500 ''published job service is not configured'')
      else map_sum (api_of_pj_error published_job_id) id (list_published_job_runs published_job_id s))"

subsection \<open>What a publication guarantees\<close>

text \<open>The renderer writes scripts, not published jobs.\<close>

definition renderer_keeps_jobs :: "script_renderer \<Rightarrow> bool" where
  "renderer_keeps_jobs render \<longleftrightarrow>
     (\<forall>c m t r t'. render c m t = (r, t') \<longrightarrow> published_jobs (working t') = published_jobs (working t))"

lemma render_keeps_jobs:
  assumes "renderer_keeps_jobs render" "get_or_render_published_script render plan chk s = (r, s1)"
  shows "published_jobs (working s1) = published_jobs (working s)"
proof -
  have "published_jobs (working t') = published_jobs (working s)" if "render_published_script render plan chk s = (r', t')" for r' t'
  proof -
    obtain x u where x: "render chk ''published'' s = (x, u)" by fastforce
    then have "published_jobs (working u) = published_jobs (working s)"
      using assms(1) by (auto simp: renderer_keeps_jobs_def)
    then show ?thesis
      using that x by (auto simp: render_published_script_def split: sum.splits option.splits)
  qed
  then show ?thesis
    using assms(2) by (auto simp: get_or_render_published_script_def split: option.splits if_splits)
qed

lemma created_from_execution:
  assumes "create_published_job_from_execution vc render i plan chk expr src enabled s = (Inr c, s')"
    and "renderer_keeps_jobs render"
  shows "\<exists>pj. pjc_published_job_id c = i \<and> pjc_page_check_id c = chk \<and> pj_id pj = i \<and> pj_page_check_id pj = chk \<and>
    pj_timezone pj = ''UTC'' \<and> vc (pj_schedule_expr pj) \<and> pj_schedule_expr pj = strip expr \<and> strip expr \<noteq> [] \<and>
    strip src \<noteq> [] \<and> pjc_schedule_expr c = pj_schedule_expr pj \<and>
    pjc_state c = published_job_state_value (pj_state pj) \<and> pj_pause_reason pj = None \<and>
    (if enabled then pj_state pj = JobActive else pj_state pj = JobPaused) \<and> clean s' \<and>
    published_jobs (working s') = published_jobs (working s) @ [pj]"
proof -
  obtain r s1 where r: "get_or_render_published_script render plan chk s = (Inr r, s1)"
    using assms(1) by (auto simp: create_published_job_from_execution_def split: prod.splits sum.splits)
  obtain payload where p: "create_published_job_request (sr_id r) chk ''cron'' expr src enabled = Some payload"
      and c: "create_published_job vc i payload s1 = (Inr c, s')"
    using assms(1) r by (auto simp: create_published_job_from_execution_def split: option.splits)
  obtain rr where "get_script_render (cr_script_render_id payload) (working s1) = Some rr"
      and vc: "vc (cr_schedule_expr payload)" and ins: "insert_published_job (new_published_job i payload rr) s1 = (Inr (), s')"
      and out: "pjc_published_job_id c = i" "pjc_page_check_id c = cr_page_check_id payload"
        "pjc_schedule_expr c = cr_schedule_expr payload"
        "pjc_state c = published_job_state_value (pj_state (new_published_job i payload rr))"
    using c by (auto simp: create_published_job_def Let_def new_published_job_def
        split: if_splits option.splits prod.splits sum.splits)
  have "published_jobs (working s') = published_jobs (working s) @ [new_published_job i payload rr]" "clean s'"
    using ins render_keeps_jobs [OF assms(2) r]
    by (auto simp: insert_published_job_def clean_def split: if_splits)
  moreover have "cr_page_check_id payload = chk" "cr_enabled payload = enabled"
    "cr_schedule_expr payload = strip expr" "strip expr \<noteq> []" "strip src \<noteq> []"
    using p by (auto simp: create_published_job_request_def validate_required_text_def opt_text_def
        split: option.splits if_splits)
  ultimately show ?thesis
    using out vc by (intro exI [of _ "new_published_job i payload rr"]) (simp add: new_published_job_def)
qed

lemma publish_unfolds:
  assumes "publish_check_request renderer has_service valid_cron new_id request_id payload s reg = (Inr created, s', reg')"
  obtains render result plan_id summary chk where "renderer = Some render"
    "get_check_request_result request_id (working s) = Inr result" "rv_plan_id result = Some plan_id"
    "rv_execution_summary result = Some summary" "es_status summary = ''passed''" "rv_page_check_id result = Some chk"
    "create_published_job_from_execution (\<lambda>e. valid_cron e ''UTC'') render new_id plan_id chk
       (pr_schedule_expr payload) (pr_trigger_source payload) (pr_enabled payload) s = (Inr created, s')"
    "reg' = sync_published_job_registry valid_cron (committed s') (pjc_published_job_id created) reg"
  using assms
  by (auto simp: publish_check_request_def split: option.splits if_splits sum.splits prod.splits)

lemma result_shows_run:
  assumes "get_check_request_result request_id d = Inr result" "rv_plan_id result = Some plan_id"
    and "rv_execution_summary result = Some summary"
  shows "\<exists>plan run. request_plan request_id d = Some plan \<and> ep_id plan = plan_id \<and>
    rv_page_check_id result = ep_resolved_page_check_id plan \<and>
    latest_execution_run plan_id d = Some run \<and> es_status summary = xr_status run \<and>
    (\<forall>j. find_check_request_queued_job request_id d = Some j \<longrightarrow> finished_status (qj_status j))"
  using assms
  by (auto simp: get_check_request_result_def result_of_plan_def Let_def case_prod_beta summarize_run_def
      split: option.splits if_splits)

text \<open>C36: a request is published only when its latest execution passed and its job has finished: the
  published job is for the page check that its plan resolved and is added to the others with the
  requested schedule (stripped, not empty and valid in UTC), active or paused as requested, as the
  response says, and the registry has registered that schedule exactly when the job is enabled. The
  trigger source of the request must be given, but a published job has no column for it.\<close>

theorem published_only_after_pass:
  assumes "publish_check_request (Some render) has_service valid_cron new_id request_id payload s (Some reg) =
      (Inr created, s', reg')"
    and "renderer_keeps_jobs render" "new_id \<notin> keys_of pj_id (published_jobs (working s))"
  shows "\<exists>plan run pj. request_plan request_id (working s) = Some plan \<and>
    latest_execution_run (ep_id plan) (working s) = Some run \<and> xr_status run = ''passed'' \<and>
    (\<forall>j. find_check_request_queued_job request_id (working s) = Some j \<longrightarrow> finished_status (qj_status j)) \<and>
    get_published_job new_id (committed s') = Some pj \<and>
    published_jobs (committed s') = published_jobs (working s) @ [pj] \<and>
    pj_schedule_expr pj = strip (pr_schedule_expr payload) \<and> strip (pr_schedule_expr payload) \<noteq> [] \<and>
    pj_timezone pj = ''UTC'' \<and> valid_cron (pj_schedule_expr pj) ''UTC'' \<and> pj_pause_reason pj = None \<and>
    strip (pr_trigger_source payload) \<noteq> [] \<and> pjc_schedule_expr created = pj_schedule_expr pj \<and>
    pjc_state created = published_job_state_value (pj_state pj) \<and>
    ep_resolved_page_check_id plan = Some (pj_page_check_id pj) \<and> pjc_page_check_id created = pj_page_check_id pj \<and>
    (if pr_enabled payload then pj_state pj = JobActive else pj_state pj = JobPaused) \<and>
    reg' = Some (reg(build_published_job_id new_id := (if pr_enabled payload then Some (published_job_entry pj) else None)))"
proof -
  obtain result plan_id summary chk where
      result: "get_check_request_result request_id (working s) = Inr result" "rv_plan_id result = Some plan_id"
        "rv_execution_summary result = Some summary" and pass: "es_status summary = ''passed''"
      and chk: "rv_page_check_id result = Some chk"
      and made: "create_published_job_from_execution (\<lambda>e. valid_cron e ''UTC'') render new_id plan_id chk
        (pr_schedule_expr payload) (pr_trigger_source payload) (pr_enabled payload) s = (Inr created, s')"
      and reg': "reg' = sync_published_job_registry valid_cron (committed s') (pjc_published_job_id created) (Some reg)"
    by (rule publish_unfolds [OF assms(1)]) auto
  from result_shows_run [OF result] obtain plan run where
    plan: "request_plan request_id (working s) = Some plan" "ep_id plan = plan_id"
      "rv_page_check_id result = ep_resolved_page_check_id plan" "latest_execution_run plan_id (working s) = Some run"
      "es_status summary = xr_status run"
      "\<forall>j. find_check_request_queued_job request_id (working s) = Some j \<longrightarrow> finished_status (qj_status j)" by blast
  from created_from_execution [OF made assms(2)] obtain pj where
    pj: "pjc_published_job_id created = new_id" "pjc_page_check_id created = chk" "pj_id pj = new_id"
      "pj_page_check_id pj = chk" "pj_timezone pj = ''UTC''" "valid_cron (pj_schedule_expr pj) ''UTC''"
      "if pr_enabled payload then pj_state pj = JobActive else pj_state pj = JobPaused" "clean s'"
      "published_jobs (working s') = published_jobs (working s) @ [pj]"
      "pj_schedule_expr pj = strip (pr_schedule_expr payload)" "strip (pr_schedule_expr payload) \<noteq> []"
      "strip (pr_trigger_source payload) \<noteq> []" "pjc_schedule_expr created = pj_schedule_expr pj"
      "pjc_state created = published_job_state_value (pj_state pj)" "pj_pause_reason pj = None" by blast
  have found: "get_published_job new_id (committed s') = Some pj"
    using pj(3,8,9) assms(3)
    by (simp add: get_published_job_def clean_def row_simps find_row_None_iff [THEN iffD2] keys_of_def)
  have "reg' = Some (reg(build_published_job_id new_id := (if pr_enabled payload then Some (published_job_entry pj) else None)))"
    using pj found
    by (auto simp: reg' sync_published_job_registry_def upsert_published_job_def Let_def upsert_job_def
        registry_remove_job_def published_job_entry_def split: if_splits)
  moreover have "published_jobs (committed s') = published_jobs (working s) @ [pj]"
    using pj(8,9) by (simp add: clean_def)
  ultimately show ?thesis
    using plan pass chk pj found by (intro exI [of _ plan] exI [of _ run] exI [of _ pj]) simp
qed

definition sample_publish_db :: db where
  "sample_publish_db = empty_db\<lparr>
     execution_requests := [\<lparr>er_id = 71, er_request_source = ''api'', er_system_hint = ''erp'', er_page_hint = None,
       er_check_goal = ''open'', er_strictness = ''balanced'', er_time_budget_ms = 20000, er_template_code = None,
       er_template_version = None, er_carrier_hint = None, er_template_params = None\<rparr>],
     execution_plans := [\<lparr>ep_id = 72, ep_execution_request_id = 71, ep_resolved_system_id = Some 3,
       ep_resolved_page_asset_id = Some 8, ep_resolved_page_check_id = Some 5, ep_execution_track = ''precompiled'',
       ep_auth_policy = ''server_injected'', ep_module_plan_id = Some 9\<rparr>],
     execution_runs := [\<lparr>xr_id = 74, xr_execution_plan_id = 72, xr_status = ''passed'', xr_duration_ms = None,
       xr_auth_status = None, xr_failure_category = None, xr_asset_version = None, xr_snapshot_version = None,
       xr_created_at = datetime_min_utc\<rparr>],
     script_renders := [sample_render]\<rparr>"

definition sample_renderer :: script_renderer where
  "sample_renderer chk render_mode s = (Inr 6, s)"

definition sample_publish :: publish_request where
  "sample_publish = \<lparr>pr_schedule_expr = ''*/5 * * * *'', pr_trigger_source = ''platform'', pr_enabled = True\<rparr>"

theorem published_only_after_pass_witness:
  "\<exists>created s' reg1. publish_check_request (Some sample_renderer) True (\<lambda>e tz. True) 81 71 sample_publish
     (open_session sample_publish_db) (Some Map.empty) = (Inr created, s', Some reg1) \<and>
     reg1 (build_published_job_id 81) \<noteq> None"
proof -
  let ?p = "publish_check_request (Some sample_renderer) True (\<lambda>e tz. True) 81 71 sample_publish
     (open_session sample_publish_db) (Some Map.empty)"
  have "case fst ?p of Inl e \<Rightarrow> False | Inr c \<Rightarrow> True" by code_simp
  then obtain created s' reg' where p: "?p = (Inr created, s', reg')"
    by (cases ?p) (auto split: sum.splits)
  have "renderer_keeps_jobs sample_renderer" by (simp add: renderer_keeps_jobs_def sample_renderer_def)
  moreover have "81 \<notin> keys_of pj_id (published_jobs (working (open_session sample_publish_db)))"
    by (simp add: sample_publish_db_def empty_db_def)
  ultimately show ?thesis
    using published_only_after_pass [OF p] p by (auto simp: sample_publish_def)
qed

end
