(* ===== verification/CheckAcceptance.thy ===== *)
theory CheckAcceptance
  imports CheckRequests
begin

section \<open>What accepted check requests guarantee\<close>

text \<open>
  The interface of the queue of the control plane, what an accepted request adds to the database and
  what its resolution guarantees, and where the realtime probes of such requests end.
\<close>

subsection \<open>The interface of the queue\<close>

text \<open>
  A dispatcher that returns has appended one accepted row with a key of its own in the running
  transaction; whether it returns or raises, it commits nothing.
\<close>

locale job_queue =
  fixes enqueue :: job_dispatcher
  assumes enqueue_returns:
      "enqueue i now ty payload s = (Inr q, s') \<Longrightarrow> i \<notin> keys_of qj_id (queued_jobs (working s)) \<Longrightarrow>
        \<exists>j. working s' = (working s)\<lparr>queued_jobs := queued_jobs (working s) @ [j]\<rparr> \<and> qj_id j = q \<and>
          q \<notin> keys_of qj_id (queued_jobs (working s)) \<and>
          qj_job_type j = ty \<and> qj_payload j = payload \<and> qj_status j = ACCEPTED"
    and enqueue_keeps: "enqueue i now ty payload s = (r, s') \<Longrightarrow> committed s' = committed s"
begin

lemma accept_adds:
  assumes "accept_check_request enqueue ids payload t s = (Inr acc, s')"
    and "ri_job_id ids \<notin> keys_of qj_id (queued_jobs (working s))"
  shows "\<exists>j. working s' = (working s)
       \<lparr>execution_requests := execution_requests (working s) @ [new_execution_request (ri_request_id ids) payload],
        execution_plans := execution_plans (working s) @ [new_execution_plan (ri_plan_id ids) (ri_request_id ids) t],
        queued_jobs := queued_jobs (working s) @ [j]\<rparr> \<and> clean s' \<and>
     qj_id j = ck_job_id acc \<and> ck_job_id acc \<notin> keys_of qj_id (queued_jobs (working s)) \<and>
     qj_job_type j = RUN_CHECK_JOB_TYPE \<and> qj_payload j = run_check_payload ids t \<and> qj_status j = ACCEPTED \<and>
     ck_request_id acc = ri_request_id ids \<and> ck_plan_id acc = ri_plan_id ids \<and>
     ck_page_check_id acc = pt_page_check_id t \<and> ck_execution_track acc = pt_execution_track t"
proof -
  let ?s2 = "modify (\<lambda>d. d\<lparr>execution_plans := execution_plans d @
      [new_execution_plan (ri_plan_id ids) (ri_request_id ids) t]\<rparr>)
    (modify (\<lambda>d. d\<lparr>execution_requests := execution_requests d @ [new_execution_request (ri_request_id ids) payload]\<rparr>) s)"
  obtain q s3 where e: "enqueue (ri_job_id ids) (ri_now ids) RUN_CHECK_JOB_TYPE (run_check_payload ids t) ?s2 = (Inr q, s3)"
      and out: "s' = commit s3" "ck_job_id acc = q" "ck_request_id acc = ri_request_id ids"
        "ck_plan_id acc = ri_plan_id ids" "ck_page_check_id acc = pt_page_check_id t"
        "ck_execution_track acc = pt_execution_track t"
    using assms(1) by (auto simp: accept_check_request_def Let_def split: prod.splits sum.splits)
  from enqueue_returns [OF e] assms(2) show ?thesis
    by (auto simp: out clean_def)
qed

lemma accept_raises:
  assumes "accept_check_request enqueue ids payload t s = (Inl e, s')"
  shows "working s' = committed s \<and> committed s' = committed s"
  using assms enqueue_keeps
  by (fastforce simp: accept_check_request_def Let_def rollback_def split: prod.splits sum.splits)

lemma enqueue_job_adds:
  assumes "enqueue_job enqueue i now ty payload s = (Inr q, s')"
    and "i \<notin> keys_of qj_id (queued_jobs (working s))"
  shows "\<exists>j. working s' = (working s)\<lparr>queued_jobs := queued_jobs (working s) @ [j]\<rparr> \<and> clean s' \<and> qj_id j = q \<and>
     qj_job_type j = ty \<and> qj_payload j = payload \<and> qj_status j = ACCEPTED"
  using assms enqueue_returns by (fastforce simp: enqueue_job_def clean_def split: prod.splits sum.splits)

lemma enqueue_job_raises:
  assumes "enqueue_job enqueue i now ty payload s = (Inl e, s')"
  shows "working s' = committed s \<and> committed s' = committed s"
  using assms enqueue_keeps by (fastforce simp: enqueue_job_def rollback_def split: prod.splits sum.splits)

text \<open>A request that is refused, or whose job cannot be queued, commits nothing.\<close>

lemma submit_raises:
  assumes "submit_check_request enqueue ids raw s = (Inl e, s')"
  shows "committed s' = committed s"
proof -
  have "s' = s \<or> (\<exists>p t. accept_check_request enqueue ids p t s = (Inl e, s'))"
    using assms unfolding submit_check_request_def Let_def
    by (auto split: option.splits if_splits prod.splits)
  then show ?thesis using accept_raises by blast
qed

end

interpretation sql_queue: job_queue sql_dispatch
  by unfold_locales (auto simp: sql_dispatch_def sql_enqueue_def new_queued_job_def)

subsection \<open>What a resolution guarantees\<close>

lemma first_row_set: "first_row rows = Some r \<Longrightarrow> r \<in> set rows"
  by (auto simp: first_row_def split: list.splits)

lemma dedupe_matches_set: "set (dedupe_matches seen rows) \<subseteq> set rows"
  by (induction seen rows rule: dedupe_matches.induct) auto

lemma navigation_matches_live:
  assumes "(pa, pc, na) \<in> set (navigation_matches sid hint goal d)"
  shows "pa \<in> set (page_assets d) \<and> live_asset_of sid pa \<and> pc \<in> set (page_checks d) \<and>
    pc_page_asset_id pc = pa_id pa \<and> live_check goal pc"
  using subsetD [OF dedupe_matches_set assms [unfolded navigation_matches_def Let_def]] by auto

lemma alias_assets_ok: "first_row (alias_assets alias_ok asset_ok d) = Some pa \<Longrightarrow> pa \<in> set (page_assets d) \<and> asset_ok pa"
  by (drule first_row_set) (auto simp: alias_assets_def Let_def)

lemma page_hint_assets_ok:
  "first_row (page_hint_assets asset_ok hint d) = Some pa \<Longrightarrow> pa \<in> set (page_assets d) \<and> asset_ok pa"
  by (drule first_row_set) (auto simp: page_hint_assets_def)

lemma check_of_asset_ok:
  "check_of_asset pa ok d = Some pc \<Longrightarrow> pc \<in> set (page_checks d) \<and> pc_page_asset_id pc = pa_id pa \<and> ok pc"
  unfolding check_of_asset_def by (drule first_by_Some(1)) auto

lemma resolve_system_ok:
  "resolve_system hint d = Some sy \<Longrightarrow> sy \<in> set (systems d) \<and>
    (lower (sys_code sy) = normalize_hint hint \<or> lower (sys_name sy) = normalize_hint hint)"
  by (auto simp: resolve_system_def find_Some_iff)

text \<open>A resolved check is live, of a safe live asset of a system that the hint names.\<close>

definition live_target :: "string \<Rightarrow> string \<Rightarrow> db \<Rightarrow> system_row \<Rightarrow> page_asset \<Rightarrow> page_check \<Rightarrow> bool" where
  "live_target system_hint check_goal d sy pa pc \<longleftrightarrow>
     sy \<in> set (systems d) \<and> pa \<in> set (page_assets d) \<and> pc \<in> set (page_checks d) \<and>
     (lower (sys_code sy) = normalize_hint system_hint \<or> lower (sys_name sy) = normalize_hint system_hint) \<and>
     live_asset_of (sys_id sy) pa \<and> pc_page_asset_id pc = pa_id pa \<and> live_check (normalize_hint check_goal) pc"

lemma resolved_asset_simps [simp]:
  "cn_system (resolved_asset sy pa goal d) = Some sy" "cn_page_asset (resolved_asset sy pa goal d) = Some pa"
  "cn_page_check (resolved_asset sy pa goal d) = check_of_asset pa (live_check goal) d"
  "cn_miss_reason (resolved_asset sy pa goal d) =
     (if check_of_asset pa (live_check goal) d = None then Some ''element_asset_missing'' else None)"
  by (simp_all add: resolved_asset_def split: option.split)

lemma unresolved_simps [simp]:
  "cn_system (unresolved sy reason) = sy" "cn_page_asset (unresolved sy reason) = None"
  "cn_page_check (unresolved sy reason) = None" "cn_miss_reason (unresolved sy reason) = Some reason"
  by (simp_all add: unresolved_def)

text \<open>The ways in which a resolution can end.\<close>

lemma resolution_cases:
  assumes "resolve_page_asset_and_check system_hint page_hint check_goal d = r"
  obtains (missed) "cn_page_asset r = None" "cn_page_check r = None"
  | (asset) sy pa where "cn_system r = Some sy" "cn_page_asset r = Some pa" "cn_page_check r = None"
      "cn_miss_reason r = Some ''element_asset_missing''"
  | (found) sy pa pc where "cn_system r = Some sy" "cn_page_asset r = Some pa" "cn_page_check r = Some pc"
      "cn_miss_reason r = None" "live_target system_hint check_goal d sy pa pc"
proof -
  note goals = that
  show thesis
  proof (cases "resolve_system system_hint d")
    case None
    then show ?thesis using assms goals(1) by (auto simp: resolve_page_asset_and_check_def Let_def)
  next
    case (Some sy)
    note sy = Some resolve_system_ok [OF Some]
    show ?thesis
    proof (cases page_hint)
      case None
      then show ?thesis using assms sy goals(1) by (auto simp: resolve_page_asset_and_check_def Let_def)
    next
      case (Some hint)
      let ?g = "normalize_hint check_goal" and ?h = "normalize_hint hint"
      have via: thesis if "r = resolved_asset sy pa ?g d" "pa \<in> set (page_assets d) \<and> live_asset_of (sys_id sy) pa" for pa
      proof (cases "check_of_asset pa (live_check ?g) d")
        case None
        then show ?thesis using that goals(2) [of sy pa] by simp
      next
        case (Some pc)
        then show ?thesis
          using that sy(2) goals(3) [of sy pa pc] check_of_asset_ok [OF Some] by (simp add: live_target_def)
      qed
      show ?thesis
      proof (cases "navigation_matches (sys_id sy) ?h ?g d")
        case Nil
        let ?by_alias = "first_row (alias_assets (\<lambda>ia. ia_is_active ia \<and>
          alias_matches (normalize_hint system_hint) ?g ?h ia) (live_asset_of (sys_id sy)) d)"
        let ?by_page = "first_row (page_hint_assets (live_asset_of (sys_id sy)) ?h d)"
        have r: "r = (case ?by_alias of Some pa \<Rightarrow> resolved_asset sy pa ?g d
            | None \<Rightarrow> (case ?by_page of None \<Rightarrow> unresolved (Some sy) ''page_or_menu_not_resolved''
                       | Some pa \<Rightarrow> resolved_asset sy pa ?g d))"
          using assms sy(1) Some Nil by (simp add: resolve_page_asset_and_check_def Let_def)
        consider (a) pa where "?by_alias = Some pa" | (p) pa where "?by_alias = None" "?by_page = Some pa"
          | (n) "?by_alias = None" "?by_page = None"
          by (cases ?by_alias; cases ?by_page) auto
        then show ?thesis
        proof cases
          case (a pa)
          then show ?thesis using r via alias_assets_ok [OF a] by simp
        next
          case (p pa)
          then show ?thesis using r via page_hint_assets_ok [OF p(2)] by simp
        next
          case n
          then show ?thesis using r goals(1) by simp
        qed
      next
        case (Cons m ms)
        obtain pa pc na where m: "m = (pa, pc, na)" by (metis prod_cases3)
        show ?thesis
        proof (cases ms)
          case Nil
          have "live_target system_hint check_goal d sy pa pc"
            using navigation_matches_live [of pa pc na "sys_id sy" ?h ?g d] Cons m sy(2) by (simp add: live_target_def)
          then show ?thesis
            using assms sy Some Cons Nil m goals(3) [of sy pa pc]
            by (auto simp: resolve_page_asset_and_check_def Let_def)
        next
          case (Cons m' ms')
          then show ?thesis
            using assms sy Some \<open>navigation_matches (sys_id sy) ?h ?g d = m # ms\<close> goals(1)
            by (auto simp: resolve_page_asset_and_check_def Let_def m)
        qed
      qed
    qed
  qed
qed

subsection \<open>Accepted requests\<close>

lemma submit_unfolds:
  assumes "submit_check_request enqueue ids raw s = (Inr acc, s')"
  obtains p r where "create_check_request raw = Some p"
    "resolve_page_asset_and_check (cq_system_hint p) (cq_page_hint p) (cq_check_goal p) (working s) = r"
    "cn_miss_reason r \<noteq> Some ''element_asset_missing''"
    "accept_check_request enqueue ids p (submit_target r) s = (Inr acc, s')"
proof (cases "create_check_request raw")
  case None
  then show ?thesis using assms by (simp add: submit_check_request_def)
next
  case (Some p)
  then show ?thesis
    using assms that [OF Some refl] by (auto simp: submit_check_request_def Let_def split: option.splits if_splits prod.splits)
qed

text \<open>What the plan of a submitted request is about.\<close>

definition sound_target :: "check_request \<Rightarrow> db \<Rightarrow> plan_target \<Rightarrow> bool" where
  "sound_target p d t \<longleftrightarrow>
     (case pt_page_check_id t of
        None \<Rightarrow> pt_execution_track t = ''realtime_probe'' \<and> pt_page_asset_id t = None \<and> pt_module_plan_id t = None
      | Some c \<Rightarrow> pt_execution_track t = ''precompiled'' \<and>
          (\<exists>sy pa pc. live_target (cq_system_hint p) (cq_check_goal p) d sy pa pc \<and> pc_id pc = c \<and>
             pt_system_id t = Some (sys_id sy) \<and> pt_page_asset_id t = Some (pa_id pa) \<and>
             pt_module_plan_id t = pc_module_plan_id pc))"

lemma submit_accepted:
  assumes "submit_check_request enqueue ids raw s = (Inr acc, s')"
  shows "\<exists>p t. create_check_request raw = Some p \<and> sound_target p (working s) t \<and>
    accept_check_request enqueue ids p t s = (Inr acc, s')"
proof -
  obtain p r where p: "create_check_request raw = Some p"
      and r: "resolve_page_asset_and_check (cq_system_hint p) (cq_page_hint p) (cq_check_goal p) (working s) = r"
      and miss: "cn_miss_reason r \<noteq> Some ''element_asset_missing''"
      and acc: "accept_check_request enqueue ids p (submit_target r) s = (Inr acc, s')"
    by (rule submit_unfolds [OF assms])
  have "sound_target p (working s) (submit_target r)"
  proof (rule resolution_cases [OF r])
    fix sy pa pc
    assume "cn_system r = Some sy" "cn_page_asset r = Some pa" "cn_page_check r = Some pc"
      "live_target (cq_system_hint p) (cq_check_goal p) (working s) sy pa pc"
    then show ?thesis by (auto simp: sound_target_def submit_target_def)
  qed (use miss in \<open>auto simp: sound_target_def submit_target_def\<close>)
  with p acc show ?thesis by blast
qed

text \<open>C6: an accepted request has added exactly its own row, one plan for it and one accepted run-check
  job that names both, all committed; when it resolved to a page check, that check is live, matches
  the goal, belongs to a safe live asset of a system that the hint names, and the plan is precompiled
  with the plan of the check; otherwise it is a realtime probe of no asset.\<close>

theorem accepted_check_is_live:
  assumes "submit_check_request sql_dispatch ids raw s = (Inr acc, s')"
    and "ri_job_id ids \<notin> keys_of qj_id (queued_jobs (working s))"
  shows "\<exists>p t j. create_check_request raw = Some p \<and> sound_target p (working s) t \<and>
    working s' = (working s)
      \<lparr>execution_requests := execution_requests (working s) @ [new_execution_request (ri_request_id ids) p],
       execution_plans := execution_plans (working s) @ [new_execution_plan (ri_plan_id ids) (ri_request_id ids) t],
       queued_jobs := queued_jobs (working s) @ [j]\<rparr> \<and>
    clean s' \<and> qj_id j = ck_job_id acc \<and> qj_job_type j = RUN_CHECK_JOB_TYPE \<and> qj_status j = ACCEPTED \<and>
    qj_payload j = run_check_payload ids t \<and> ck_page_check_id acc = pt_page_check_id t"
proof -
  obtain p t where p: "create_check_request raw = Some p" "sound_target p (working s) t"
      and acc: "accept_check_request sql_dispatch ids p t s = (Inr acc, s')"
    using submit_accepted [OF assms(1)] by blast
  from sql_queue.accept_adds [OF acc assms(2)] p show ?thesis by blast
qed

subsection \<open>From the request to the handler\<close>

lemma run_check_payload_simps [simp]:
  "dget (run_check_payload ids t) ''execution_plan_id'' = PStr (uuid_str (ri_plan_id ids))"
  "dget (run_check_payload ids t) ''execution_request_id'' = PStr (uuid_str (ri_request_id ids))"
  "dget (run_check_payload ids t) ''page_check_id'' = opt_uuid_value (pt_page_check_id t)"
  "dget (run_check_payload ids t) ''execution_track'' = PStr (pt_execution_track t)"
  "dget (run_check_payload ids t) ''published_job_id'' = PNone" "dget (run_check_payload ids t) ''job_run_id'' = PNone"
  by (simp_all add: run_check_payload_def)

lemma track_texts:
  "execution_track_of (run_check_payload ids t) = pt_execution_track t"
  if "pt_execution_track t \<in> {''precompiled'', ''realtime_probe''}"
proof -
  have "lower (strip ''precompiled'') = ''precompiled''" "lower (strip ''realtime_probe'') = ''realtime_probe''"
    by code_simp+
  then show ?thesis using that by (auto simp: execution_track_of_def Let_def)
qed

lemma live_not_skipped:
  assumes "live_target hint goal d sy pa pc" "distinct (map pc_id (page_checks d))" "distinct (map pa_id (page_assets d))"
  shows "resolve_retirement_skip_reason (pc_id pc) None d = None"
proof -
  have "get_page_check (pc_id pc) d = Some pc" "get_page_asset (pc_page_asset_id pc) d = Some pa"
    using assms by (auto simp: live_target_def get_page_check_def get_page_asset_def find_row_distinct)
  then show ?thesis
    using assms(1)
    by (simp add: resolve_retirement_skip_reason_def live_target_def live_asset_of_def live_check_def
        retirement_failure_message_def)
qed

text \<open>C7: the job of an accepted request passes every check of the run\_check handler, which reads back
  the plan, the request with its template parameters, the page check and the track that the service
  wrote.\<close>

theorem accepted_job_passes_handler:
  assumes "submit_check_request sql_dispatch ids raw s = (Inr acc, s')"
    and "ri_job_id ids \<notin> keys_of qj_id (queued_jobs (working s))"
    and "ri_request_id ids \<notin> keys_of er_id (execution_requests (working s))"
    and "distinct (map pc_id (page_checks (working s)))" "distinct (map pa_id (page_assets (working s)))"
  shows "\<exists>p j. create_check_request raw = Some p \<and> get_job (ck_job_id acc) (committed s') = Some j \<and>
    prepare (qj_payload j) (committed s') =
      Inr \<lparr>rq_execution_track = ck_execution_track acc, rq_page_check_id = ck_page_check_id acc,
           rq_execution_plan_text = Some (uuid_str (ri_plan_id ids)), rq_execution_plan_id = Some (ri_plan_id ids),
           rq_execution_request_text = Some (uuid_str (ri_request_id ids)),
           rq_runtime_inputs = cq_template_params p, rq_job_run_id = None, rq_published_job_id = None\<rparr>"
proof -
  let ?d = "working s"
  obtain p t where p: "create_check_request raw = Some p" and t: "sound_target p ?d t"
      and acc: "accept_check_request sql_dispatch ids p t s = (Inr acc, s')"
    using submit_accepted [OF assms(1)] by blast
  from sql_queue.accept_adds [OF acc assms(2)] obtain j where
    w: "working s' = ?d\<lparr>execution_requests := execution_requests ?d @ [new_execution_request (ri_request_id ids) p],
        execution_plans := execution_plans ?d @ [new_execution_plan (ri_plan_id ids) (ri_request_id ids) t],
        queued_jobs := queued_jobs ?d @ [j]\<rparr>" and c: "clean s'"
    and j: "qj_id j = ck_job_id acc" "ck_job_id acc \<notin> keys_of qj_id (queued_jobs ?d)" "qj_payload j = run_check_payload ids t"
    and a: "ck_page_check_id acc = pt_page_check_id t" "ck_execution_track acc = pt_execution_track t" by blast
  have job: "get_job (ck_job_id acc) (working s') = Some j"
    using j(1,2) by (simp add: get_job_def w row_simps find_row_None_iff [THEN iffD2] keys_of_def)
  have req: "find_row er_id (ri_request_id ids) (execution_requests (working s')) =
      Some (new_execution_request (ri_request_id ids) p)"
    using assms(3)
    by (simp add: w row_simps find_row_None_iff [THEN iffD2] keys_of_def new_execution_request_def)
  have request: "execution_request_of (run_check_payload ids t) (working s') =
      Inr (Some (uuid_str (ri_request_id ids)), cq_template_params p)"
    using req by (simp add: execution_request_of_def) (simp add: new_execution_request_def)
  have track: "execution_track_of (run_check_payload ids t) = pt_execution_track t"
    using t by (intro track_texts) (auto simp: sound_target_def split: option.splits)
  have skip: "resolve_retirement_skip_reason chk None (working s') = None" if "pt_page_check_id t = Some chk" for chk
  proof -
    have "resolve_retirement_skip_reason chk None ?d = None"
      using t that assms(4,5) live_not_skipped by (fastforce simp: sound_target_def)
    then show ?thesis
      by (simp add: w resolve_retirement_skip_reason_def get_page_check_def get_page_asset_def cong: option.case_cong)
  qed
  have "prepare (qj_payload j) (working s') =
      Inr \<lparr>rq_execution_track = pt_execution_track t, rq_page_check_id = pt_page_check_id t,
           rq_execution_plan_text = Some (uuid_str (ri_plan_id ids)), rq_execution_plan_id = Some (ri_plan_id ids),
           rq_execution_request_text = Some (uuid_str (ri_request_id ids)),
           rq_runtime_inputs = cq_template_params p, rq_job_run_id = None, rq_published_job_id = None\<rparr>"
    using t skip
    by (cases "pt_page_check_id t")
      (auto simp: prepare_def Let_def j(3) track request page_check_of_def job_run_of_def sound_target_def
        opt_uuid_value_def)
  then show ?thesis using p job a c by (auto simp: clean_def)
qed

subsection \<open>Realtime probes of requests\<close>

text \<open>No plan of a realtime probe knows its page asset.\<close>

definition probes_unresolved :: "db \<Rightarrow> bool" where
  "probes_unresolved d \<longleftrightarrow>
     (\<forall>plan \<in> set (execution_plans d). ep_execution_track plan = ''realtime_probe'' \<longrightarrow>
        ep_resolved_page_asset_id plan = None)"

text \<open>The calls that touch requests, plans and runs: those of the control plane and of the runner.\<close>

inductive request_step :: "db_session \<Rightarrow> db_session \<Rightarrow> bool" where
  step_submit: "request_step s (snd (submit_check_request sql_dispatch ids raw s))"
| step_run_by_id: "request_step s (snd (request_page_check sql_dispatch ids check strict budget source s))"
| step_refresh: "request_step s (snd (refresh_auth sql_dispatch job now sys s))"
| step_crawl: "request_step s (snd (trigger_crawl sql_dispatch job now sys scope hint n s))"
| step_compile: "request_step s (snd (compile_assets sql_dispatch job now snap scope s))"
| step_feedback: "request_step s (snd (persist_realtime_probe_feedback alias plan run s))"
| step_page_check: "request_step s (snd (run_page_check env chk plan inputs s))"
| step_probe: "request_step s (snd (run_realtime_probe env plan s))"
| step_rollback: "request_step s (rollback s)"

text \<open>Whether a session's plans are those of another one.\<close>

definition session_probes :: "db_session \<Rightarrow> bool" where
  "session_probes s \<longleftrightarrow> probes_unresolved (working s) \<and> probes_unresolved (committed s)"

definition same_plans :: "db_session \<Rightarrow> db_session \<Rightarrow> bool" where
  "same_plans s s' \<longleftrightarrow>
     execution_plans (working s') \<in> {execution_plans (working s), execution_plans (committed s)} \<and>
     execution_plans (committed s') \<in> {execution_plans (working s), execution_plans (committed s)}"

lemma same_plans_probes: "same_plans s s' \<Longrightarrow> session_probes s \<Longrightarrow> session_probes s'"
  by (auto simp: same_plans_def session_probes_def probes_unresolved_def)

lemma same_plans_refl [simp]: "same_plans s s"
  by (simp add: same_plans_def)

lemma enqueue_job_plans: "same_plans s (snd (enqueue_job sql_dispatch i now ty payload s))"
  by (simp add: enqueue_job_def sql_dispatch_def sql_enqueue_def same_plans_def)

lemma run_and_record_plans:
  "same_plans s (snd (run_and_record env plan av url steps storage inputs chk payload_of rc s))"
  by (auto simp: run_and_record_def Let_def add_run_def add_artifact_def same_plans_def
      split: sum.splits option.splits)

lemma probe_failure_plans: "same_plans s (snd (probe_resolution_failure env plan rq c m sy pa av s))"
  by (simp add: probe_resolution_failure_def Let_def add_run_def add_artifact_def same_plans_def)

lemma probe_plans: "same_plans s (snd (run_realtime_probe env plan s))"
  unfolding run_realtime_probe_def Let_def
  by (auto simp: probe_failure_plans run_and_record_plans split: option.splits)

lemma accept_probes:
  assumes "session_probes s" "pt_execution_track t = ''realtime_probe'' \<Longrightarrow> pt_page_asset_id t = None"
  shows "session_probes (snd (accept_check_request sql_dispatch ids p t s))"
  using assms
  by (auto simp: accept_check_request_def sql_dispatch_def sql_enqueue_def session_probes_def probes_unresolved_def
      new_execution_plan_def Let_def)

lemma submit_probes:
  assumes "session_probes s" shows "session_probes (snd (submit_check_request sql_dispatch ids raw s))"
proof (cases "submit_check_request sql_dispatch ids raw s")
  case (Pair r s')
  show ?thesis
  proof (cases r)
    case (Inl e)
    then have "s' = s \<or> (\<exists>p t. accept_check_request sql_dispatch ids p t s = (Inl e, s'))"
      using Pair unfolding submit_check_request_def Let_def by (auto split: option.splits if_splits prod.splits)
    then show ?thesis
      using assms Pair by (auto simp: accept_check_request_def sql_dispatch_def sql_enqueue_def Let_def)
  next
    case (Inr acc)
    then obtain p t where "sound_target p (working s) t" "accept_check_request sql_dispatch ids p t s = (Inr acc, s')"
      using submit_accepted Pair by blast
    then show ?thesis
      using accept_probes [OF assms, of t ids p] Pair by (auto simp: sound_target_def split: option.splits)
  qed
qed

lemma run_by_id_probes:
  assumes "session_probes s" shows "session_probes (snd (request_page_check sql_dispatch ids chk strict budget source s))"
  unfolding request_page_check_def
  using assms by (auto intro!: accept_probes split: option.splits)

lemma page_check_probes:
  assumes "session_probes s" shows "session_probes (snd (run_page_check env chk plan inputs s))"
proof (cases "resolve_page_check chk (working s)")
  case (Inl e)
  then show ?thesis using assms by (simp add: run_page_check_def)
next
  case (Inr ct)
  obtain r s1 where e: "resolve_execution_plan env plan (ct_page_check ct) (ct_page_asset ct)
      (ct_system ct) (ct_module_plan ct) s = (r, s1)" by fastforce
  then have "session_probes s1"
    using assms
    by (auto simp: resolve_execution_plan_def session_probes_def probes_unresolved_def Let_def split: option.splits)
  then show ?thesis
    using Inr e by (cases r) (simp_all add: run_page_check_def same_plans_probes [OF run_and_record_plans])
qed

lemma feedback_plans: "same_plans s (snd (persist_realtime_probe_feedback alias plan run s))"
  unfolding persist_realtime_probe_feedback_def Let_def
  by (auto simp: same_plans_def upsert_intent_alias_def split: option.splits)

lemma request_step_probes: "request_step s s' \<Longrightarrow> session_probes s \<Longrightarrow> session_probes s'"
proof (induction rule: request_step.induct)
  case (step_refresh s job now sys)
  then show ?case
    by (auto simp: refresh_auth_def case_prod_beta same_plans_probes [OF enqueue_job_plans] split: option.split)
next
  case (step_crawl s job now sys scope hint n)
  then show ?case
    by (auto simp: trigger_crawl_def case_prod_beta same_plans_probes [OF enqueue_job_plans] split: option.split)
next
  case (step_compile s job now snap scope)
  then show ?case
    by (auto simp: compile_assets_def case_prod_beta same_plans_probes [OF enqueue_job_plans] split: option.split)
next
  case (step_rollback s)
  then show ?case by (simp add: session_probes_def rollback_def)
qed (simp_all add: submit_probes run_by_id_probes page_check_probes same_plans_probes [OF feedback_plans]
    same_plans_probes [OF probe_plans])

lemma reachable_probes: "request_step\<^sup>*\<^sup>* s s' \<Longrightarrow> session_probes s \<Longrightarrow> session_probes s'"
  by (induction rule: rtranclp_induct) (auto intro: request_step_probes)

lemma unresolved_probe_fails:
  assumes "find_row ep_id i (execution_plans (working s)) = Some plan" "ep_resolved_page_asset_id plan = None"
    and "run_realtime_probe env (Some i) s = (Inr result, s')"
  shows "rs_status result = RunFailed \<and> rs_failure_category result \<in> {Some SystemNotFound, Some PageOrMenuNotResolved} \<and>
    map st_module (rs_step_results result) = [''nav.menu_chain'']"
  using assms unfolding run_realtime_probe_def Let_def
  by (auto simp: probe_resolution_failure_def Let_def split: option.splits if_splits)

text \<open>C4: whatever requests, page checks and probes came before, a realtime probe never looks at a page: it
  raises before anything is written, or records a failed run whose only step says that the system or
  the page was not resolved, whatever the browser would do; and its feedback is always refused, so no
  alias is ever learned from a probe.\<close>

theorem realtime_probes_never_pass:
  assumes "request_step\<^sup>*\<^sup>* s0 s" "session_probes s0"
  shows "(case run_realtime_probe env (Some i) s of
      (Inl e, s') \<Rightarrow> s' = s
    | (Inr result, s') \<Rightarrow> rs_status result = RunFailed \<and>
        rs_failure_category result \<in> {Some SystemNotFound, Some PageOrMenuNotResolved} \<and>
        map st_module (rs_step_results result) = [''nav.menu_chain'']) \<and>
    (\<exists>e. persist_realtime_probe_feedback alias i run s = (Inl e, s))"
proof -
  have inv: "probes_unresolved (working s)"
    using reachable_probes [OF assms] by (simp add: session_probes_def)
  show ?thesis
  proof (cases "find_row ep_id i (execution_plans (working s))")
    case None
    then show ?thesis
      by (simp add: run_realtime_probe_def persist_realtime_probe_feedback_def)
  next
    case (Some plan)
    note plan = Some
    show ?thesis
    proof (cases "ep_execution_track plan = ''realtime_probe''")
      case False
      then show ?thesis
        using plan by (simp add: run_realtime_probe_def persist_realtime_probe_feedback_def)
    next
      case True
      then have none: "ep_resolved_page_asset_id plan = None"
        using inv find_row_Some_set [OF plan] by (auto simp: probes_unresolved_def)
      have "s' = s" if "run_realtime_probe env (Some i) s = (Inl e, s')" for e s'
        using that plan True none unfolding run_realtime_probe_def Let_def
        by (auto simp: probe_resolution_failure_def Let_def split: option.splits)
      moreover have "\<exists>e. persist_realtime_probe_feedback alias i run s = (Inl e, s)"
        using plan True none by (simp add: persist_realtime_probe_feedback_def)
      ultimately show ?thesis
        using unresolved_probe_fails [OF plan none, of env]
        by (cases "run_realtime_probe env (Some i) s"; cases "fst (run_realtime_probe env (Some i) s)") auto
    qed
  qed
qed

subsection \<open>Witnesses\<close>

definition sample_raw_request :: check_request where
  "sample_raw_request =
     \<lparr>cq_system_hint = '' ERP '', cq_page_hint = Some ''/users'', cq_check_goal = ''Page_Open'', cq_strictness = ''balanced'',
      cq_time_budget_ms = 20000, cq_request_source = ''api'', cq_template_code = None, cq_template_version = None,
      cq_carrier_hint = None, cq_template_params = None\<rparr>"

definition sample_ids :: request_ids where
  "sample_ids = \<lparr>ri_request_id = 71, ri_plan_id = 72, ri_job_id = 73, ri_now = datetime_min_utc\<rparr>"

definition sample_request_asset :: page_asset where
  "sample_request_asset =
     \<lparr>pa_id = 8, pa_system_id = 3, pa_page_id = 4, pa_asset_key = ''erp.users'', pa_asset_version = ''v1'',
      pa_status = SAFE, pa_drift_status = SAFE, pa_lifecycle_status = LifecycleActive,
      pa_retired_reason = None, pa_retired_at = None, pa_retired_by_snapshot_id = None,
      pa_compiled_from_snapshot_id = None, pa_last_verified_at = None\<rparr>"

definition sample_request_check :: page_check where
  "sample_request_check =
     \<lparr>pc_id = 5, pc_page_asset_id = 8, pc_check_code = ''page_open'', pc_goal = ''open'',
      pc_lifecycle_status = LifecycleActive, pc_retired_reason = None, pc_retired_at = None,
      pc_retired_by_snapshot_id = None, pc_input_schema = None, pc_assertion_schema = None,
      pc_module_plan_id = Some 9, pc_blocking_dependency_json = None, pc_success_rate = None,
      pc_last_verified_at = None\<rparr>"

definition sample_request_db :: db where
  "sample_request_db = empty_db\<lparr>
     systems := [\<lparr>sys_id = 3, sys_code = ''erp'', sys_name = ''Plan'', sys_base_url = ''http'', sys_framework_type = ''vue''\<rparr>],
     pages := [\<lparr>pg_id = 4, pg_system_id = 3, pg_snapshot_id = None, pg_route_path = ''/users'', pg_page_title = None,
       pg_page_summary = None, pg_keywords = None, pg_discovery_sources = None, pg_entry_candidates = None,
       pg_context_constraints = None, pg_navigation_diagnostics = None, pg_crawled_at = datetime_min_utc\<rparr>],
     page_assets := [sample_request_asset], page_checks := [sample_request_check]\<rparr>"

lemma sample_submit:
  "fst (submit_check_request sql_dispatch sample_ids sample_raw_request (open_session sample_request_db)) =
    Inr \<lparr>ck_request_id = 71, ck_plan_id = 72, ck_page_check_id = Some 5, ck_execution_track = ''precompiled'',
         ck_auth_policy = ''server_injected'', ck_job_id = 73\<rparr>"
  by code_simp

lemma sample_request_fresh:
  "ri_job_id sample_ids \<notin> keys_of qj_id (queued_jobs (working (open_session sample_request_db)))"
  "ri_request_id sample_ids \<notin> keys_of er_id (execution_requests (working (open_session sample_request_db)))"
  "distinct (map pc_id (page_checks (working (open_session sample_request_db))))"
  "distinct (map pa_id (page_assets (working (open_session sample_request_db))))"
  by (simp_all add: sample_request_db_def empty_db_def)

theorem accepted_check_is_live_witness:
  "\<exists>acc s' j. submit_check_request sql_dispatch sample_ids sample_raw_request (open_session sample_request_db) = (Inr acc, s') \<and>
     queued_jobs (committed s') = [j] \<and> qj_id j = 73"
proof -
  obtain acc s' where s: "submit_check_request sql_dispatch sample_ids sample_raw_request (open_session sample_request_db) = (Inr acc, s')"
      and "ck_job_id acc = 73"
    using sample_submit by (metis check_accepted.select_convs(6) prod.collapse)
  with accepted_check_is_live [OF s sample_request_fresh(1)] show ?thesis
    by (auto simp: clean_def sample_request_db_def empty_db_def)
qed

theorem accepted_job_passes_handler_witness:
  "\<exists>acc s' j rq. submit_check_request sql_dispatch sample_ids sample_raw_request (open_session sample_request_db) = (Inr acc, s') \<and>
     get_job (ck_job_id acc) (committed s') = Some j \<and> prepare (qj_payload j) (committed s') = Inr rq \<and>
     rq_page_check_id rq = Some 5"
proof -
  obtain acc s' where s: "submit_check_request sql_dispatch sample_ids sample_raw_request (open_session sample_request_db) = (Inr acc, s')"
      and "ck_page_check_id acc = Some 5"
    using sample_submit by (metis check_accepted.select_convs(3) prod.collapse)
  with accepted_job_passes_handler [OF s sample_request_fresh] show ?thesis by force
qed

theorem realtime_probes_never_pass_witness:
  "\<exists>e s. persist_realtime_probe_feedback 1 72 2
     (snd (submit_check_request sql_dispatch sample_ids (sample_raw_request\<lparr>cq_page_hint := None\<rparr>)
        (open_session sample_request_db))) = (Inl e, s)"
proof -
  let ?start = "open_session sample_request_db"
  let ?s = "snd (submit_check_request sql_dispatch sample_ids (sample_raw_request\<lparr>cq_page_hint := None\<rparr>) ?start)"
  have r: "request_step\<^sup>*\<^sup>* ?start ?s" by (rule r_into_rtranclp, rule step_submit)
  have "session_probes ?start"
    by (simp add: session_probes_def probes_unresolved_def sample_request_db_def empty_db_def)
  from realtime_probes_never_pass [OF r this, of undefined 72 1 2] show ?thesis by blast
qed

subsection \<open>The run\_check handler with the control plane\<close>

text \<open>
  The feedback of a passed probe as the handler sees it: what the control plane raises arrives as an
  exception, whose text (\<open>shown\<close>) is up to FastAPI.
\<close>

definition control_plane_feedback :: "(api_error \<Rightarrow> string) \<Rightarrow> uuid \<Rightarrow> probe_feedback" where
  "control_plane_feedback shown alias_id plan run s =
     (let (r, s1) = persist_realtime_probe_feedback alias_id plan run s in
      (case r of Inl e \<Rightarrow> Inl (OtherException (shown e)) | Inr u \<Rightarrow> Inr u, s1))"

lemma feedback_jobs: "jobs_at t s \<Longrightarrow> jobs_at t (snd (control_plane_feedback shown alias_id plan run s))"
  unfolding control_plane_feedback_def persist_realtime_probe_feedback_def Let_def
  by (auto simp: jobs_at_def upsert_intent_alias_def split: option.splits)

interpretation fed_service: check_runner "\<lambda>n. run_page_check (envs n)" "run_realtime_probe env"
    "map_option (control_plane_feedback shown) alias_id" for envs env shown alias_id
  by (intro service_with_feedback) (auto simp: feedback_jobs)

text \<open>C3: a run\_check job always ends: whatever the browser does and whatever the database holds, with
  the control plane or without one, the handler raises nothing for a job that exists and leaves it
  completed, failed or skipped in the committed database, its payload as it was, with a finishing
  time, with a failure message unless completed, with a result payload that names the job and its
  status, and with its job run in the same state; no other job and no other run changes.\<close>

theorem run_check_job_terminates_in_final_state:
  assumes "run_check_job (\<lambda>n. run_page_check (envs n)) (run_realtime_probe env)
      (map_option (control_plane_feedback shown) alias_id) clk i s = (res, s')"
    and "get_job i (working s) = Some job"
  shows "res = Inr () \<and>
    (\<exists>job'. get_job i (committed s') = Some job' \<and>
       qj_status job' \<in> {COMPLETED, FAILED, SKIPPED} \<and> qj_payload job' = qj_payload job \<and>
       qj_finished_at job' \<noteq> None \<and> (qj_failure_message job' = None \<longleftrightarrow> qj_status job' = COMPLETED) \<and>
       (\<exists>p. qj_result_payload job' = Some p \<and>
          dget p ''queue_status'' = PStr (queued_job_status_value (qj_status job')) \<and>
          dget p ''queued_job_id'' = PStr (uuid_str (qj_id job))) \<and>
       (\<forall>rid r. marked_run (qj_payload job) (working s) = Some rid \<longrightarrow> get_run rid (working s) = Some r \<longrightarrow>
          (\<exists>r'. get_run rid (committed s') = Some r' \<and>
             jr_run_status r' = queued_job_status_value (qj_status job') \<and>
             jr_finished_at r' \<noteq> None \<and> jr_failure_message r' = qj_failure_message job'))) \<and>
    (\<forall>k. k \<noteq> i \<longrightarrow> get_job k (committed s') = get_job k (working s)) \<and>
    (\<forall>k. Some k \<noteq> marked_run (qj_payload job) (working s) \<longrightarrow> get_run k (committed s') = get_run k (working s))"
proof -
  from fed_service.run_check_job_ends [OF assms] obtain st where
    res: "res = Inr ()" and st: "st \<in> {COMPLETED, FAILED, SKIPPED}"
    and cl: "closed_as i (marked_run (qj_payload job) (working s)) st s s'" by blast
  have c: "committed s' = working s'" using cl by (simp add: closed_as_def clean_def)
  show ?thesis
    using res st cl assms(2) unfolding closed_as_def c by (fastforce simp: run_ended_def)
qed

theorem run_check_job_terminates_in_final_state_witness:
  "\<forall>envs env shown clk. \<exists>job'. get_job 9 (committed (snd (run_check_job (\<lambda>n. run_page_check (envs n)) (run_realtime_probe env)
       (Some (control_plane_feedback shown 1)) clk 9 (open_session (empty_db\<lparr>queued_jobs := [sample_check_job]\<rparr>))))) = Some job' \<and>
     qj_status job' \<in> {COMPLETED, FAILED, SKIPPED}"
proof (intro allI)
  fix envs env shown clk
  let ?s = "open_session (empty_db\<lparr>queued_jobs := [sample_check_job]\<rparr>)"
  obtain res s' where r: "run_check_job (\<lambda>n. run_page_check (envs n)) (run_realtime_probe env)
      (map_option (control_plane_feedback shown) (Some 1)) clk 9 ?s = (res, s')"
    by fastforce
  have j: "get_job 9 (working ?s) = Some sample_check_job"
    by (simp add: get_job_def find_row_Cons sample_check_job_def new_queued_job_def)
  show "\<exists>job'. get_job 9 (committed (snd (run_check_job (\<lambda>n. run_page_check (envs n)) (run_realtime_probe env)
       (Some (control_plane_feedback shown 1)) clk 9 ?s))) = Some job' \<and> qj_status job' \<in> {COMPLETED, FAILED, SKIPPED}"
    using run_check_job_terminates_in_final_state [OF r j] r by auto
qed

end
