(* ===== verification/Recommendation.thy ===== *)
theory Recommendation
  imports CheckAcceptance FloatSums
begin

section \<open>Candidates for a check\<close>

text \<open>
  control\_plane/recommendation.py and the candidate query of repository.py: the live checks of a
  system that a page hint leads to, with how often and how well they ran, ranked by a score. Floats are
  rationals and every operation is rounded by \<open>fl\<close>; the times of runs are aware.
\<close>

subsection \<open>Ranking (recommendation.py)\<close>

record candidate_stats =
  ca_page_asset_id :: uuid
  ca_page_check_id :: uuid
  ca_asset_key :: string
  ca_check_code :: string
  ca_goal :: string
  ca_leaf_text :: "string option"
  ca_display_chain :: "string option"
  ca_chain_complete :: bool
  ca_alias_confidence :: rat
  ca_success_rate :: "rat option"
  ca_last_run_at :: "datetime option"
  ca_sample_count :: nat

text \<open>A ranked candidate: the statistics it comes from and the four scores.\<close>

record ranked_candidate =
  rc_stats :: candidate_stats
  rc_alias_confidence :: rat
  rc_success_rate :: rat
  rc_recency_score :: rat
  rc_rank_score :: rat

definition clamp_score :: "rat option \<Rightarrow> rat" where
  "clamp_score value =
     (case value of None \<Rightarrow> 0 | Some v \<Rightarrow> if v < 0 then 0 else if 1 < v then 1 else v)"

definition timestamp :: "datetime \<Rightarrow> rat" where
  "timestamp t = fl (of_int (instant t) / 1000000)"

definition latest_instant :: "datetime list \<Rightarrow> int option" where
  "latest_instant ts = (case ts of [] \<Rightarrow> None | t # rest \<Rightarrow> Some (fold max (map instant rest) (instant t)))"

definition last_runs :: "candidate_stats list \<Rightarrow> datetime list" where
  "last_runs cs = List.map_filter ca_last_run_at cs"

definition recency_of :: "int option \<Rightarrow> candidate_stats \<Rightarrow> rat" where
  "recency_of latest c =
     (case latest of
        None \<Rightarrow> 0
      | Some m \<Rightarrow>
          (let max_timestamp = fl (of_int m / 1000000)
           in if max_timestamp \<le> 0 then 0
              else case ca_last_run_at c of
                     None \<Rightarrow> 0
                   | Some t \<Rightarrow> clamp_score (Some (fl (timestamp t / max_timestamp)))))"

text \<open>The dictionary by page check id: a later candidate with the same id replaces the score.\<close>

definition build_recency_scores :: "candidate_stats list \<Rightarrow> uuid \<Rightarrow> rat option" where
  "build_recency_scores cs =
     map_of (rev (map (\<lambda>c. (ca_page_check_id c, recency_of (latest_instant (last_runs cs)) c)) cs))"

definition SUCCESS_RATE_WEIGHT :: rat where "SUCCESS_RATE_WEIGHT = fl (7 / 10)"
definition ALIAS_CONFIDENCE_WEIGHT :: rat where "ALIAS_CONFIDENCE_WEIGHT = fl (2 / 10)"
definition RECENCY_WEIGHT :: rat where "RECENCY_WEIGHT = fl (1 / 10)"
definition COLD_START_THRESHOLD :: nat where "COLD_START_THRESHOLD = 20"

definition weighted_score :: "rat \<Rightarrow> rat \<Rightarrow> rat \<Rightarrow> rat" where
  "weighted_score success confidence recency =
     fl (fl (fl (SUCCESS_RATE_WEIGHT * success) + fl (ALIAS_CONFIDENCE_WEIGHT * confidence)) +
         fl (RECENCY_WEIGHT * recency))"

definition is_cold_start :: "candidate_stats \<Rightarrow> bool" where
  "is_cold_start c \<longleftrightarrow> ca_sample_count c < COLD_START_THRESHOLD"

definition rank_candidate :: "(uuid \<Rightarrow> rat option) \<Rightarrow> candidate_stats \<Rightarrow> ranked_candidate" where
  "rank_candidate recency_scores c =
     (let success = clamp_score (ca_success_rate c);
          confidence = clamp_score (Some (ca_alias_confidence c));
          recency = (case recency_scores (ca_page_check_id c) of None \<Rightarrow> 0 | Some r \<Rightarrow> r)
      in \<lparr>rc_stats = c, rc_alias_confidence = confidence, rc_success_rate = success, rc_recency_score = recency,
          rc_rank_score = (if is_cold_start c then confidence else weighted_score success confidence recency)\<rparr>)"

definition candidate_key :: "ranked_candidate \<Rightarrow> rat \<times> rat \<times> rat \<times> rat \<times> string" where
  "candidate_key r =
     (if is_cold_start (rc_stats r)
      then (rc_rank_score r, rc_recency_score r, rc_success_rate r, rc_alias_confidence r,
            uuid_str (ca_page_check_id (rc_stats r)))
      else (rc_rank_score r, rc_alias_confidence r, rc_recency_score r, rc_success_rate r,
            uuid_str (ca_page_check_id (rc_stats r))))"

text \<open>\<open>sort(reverse=True)\<close> keeps the order of equal elements.\<close>

definition rank_candidates :: "candidate_stats list \<Rightarrow> ranked_candidate list" where
  "rank_candidates cs = sort_desc candidate_key (map (rank_candidate (build_recency_scores cs)) cs)"

subsection \<open>The candidates of a hint (repository.py)\<close>

definition hint_aliases :: "string \<Rightarrow> string \<Rightarrow> string \<Rightarrow> db \<Rightarrow> intent_alias list" where
  "hint_aliases system_hint page_hint asset_key d =
     filter (\<lambda>ia. ia_is_active ia \<and> ia_asset_key ia = asset_key \<and> lower (ia_system_alias ia) = system_hint \<and>
               (text_matches page_hint (ia_page_alias ia) \<or> text_matches page_hint (ia_route_hint ia)))
       (intent_aliases d)"

definition alias_confidence_of :: "string \<Rightarrow> string \<Rightarrow> string \<Rightarrow> db \<Rightarrow> rat option" where
  "alias_confidence_of system_hint page_hint asset_key d =
     (case map ia_confidence (hint_aliases system_hint page_hint asset_key d) of
        [] \<Rightarrow> None
      | c # cs \<Rightarrow> Some (fold max cs c))"

definition navigation_alias_of :: "string \<Rightarrow> uuid \<Rightarrow> db \<Rightarrow> page_navigation_alias option" where
  "navigation_alias_of page_hint page_asset_id d =
     first_by (\<lambda>na. (\<not> na_chain_complete na, uint (na_id na)))
       (filter (\<lambda>na. na_page_asset_id na = page_asset_id \<and> na_is_active na \<and> lower (na_alias_text na) = page_hint)
          (page_navigation_aliases d))"

definition runs_of_check :: "uuid \<Rightarrow> db \<Rightarrow> execution_run list" where
  "runs_of_check page_check_id d =
     [r. p \<leftarrow> filter (\<lambda>p. ep_resolved_page_check_id p = Some page_check_id) (execution_plans d),
         r \<leftarrow> filter (\<lambda>r. xr_execution_plan_id r = ep_id p) (execution_runs d)]"

definition latest_time :: "datetime list \<Rightarrow> datetime option" where
  "latest_time ts = first_by (\<lambda>t. - instant t) ts"

definition candidate_of :: "string \<Rightarrow> string \<Rightarrow> db \<Rightarrow> page_asset \<Rightarrow> page_check \<Rightarrow> candidate_stats" where
  "candidate_of system_hint page_hint d pa pc =
     (let nav = navigation_alias_of page_hint (pa_id pa) d;
          runs = runs_of_check (pc_id pc) d
      in \<lparr>ca_page_asset_id = pc_page_asset_id pc, ca_page_check_id = pc_id pc, ca_asset_key = pa_asset_key pa,
          ca_check_code = pc_check_code pc, ca_goal = pc_goal pc, ca_leaf_text = Option.bind nav na_leaf_text,
          ca_display_chain = Option.bind nav na_display_chain,
          ca_chain_complete = (case nav of None \<Rightarrow> False | Some na \<Rightarrow> na_chain_complete na),
          ca_alias_confidence =
            (case alias_confidence_of system_hint page_hint (pa_asset_key pa) d of
               Some c \<Rightarrow> c
             | None \<Rightarrow> if nav \<noteq> None then 1 else 0),
          ca_success_rate = pc_success_rate pc, ca_last_run_at = latest_time (map xr_created_at runs),
          ca_sample_count = length runs\<rparr>)"

definition candidate_asset :: "uuid \<Rightarrow> string \<Rightarrow> string \<Rightarrow> db \<Rightarrow> page_asset \<Rightarrow> bool" where
  "candidate_asset system_id system_hint page_hint d pa \<longleftrightarrow>
     live_asset_of system_id pa \<and> find_row pg_id (pa_page_id pa) (pages d) \<noteq> None \<and>
     (navigation_alias_of page_hint (pa_id pa) d \<noteq> None \<or>
      alias_confidence_of system_hint page_hint (pa_asset_key pa) d \<noteq> None \<or> page_hint_matches page_hint d pa)"

definition list_check_candidates :: "string \<Rightarrow> string option \<Rightarrow> db \<Rightarrow> candidate_stats list" where
  "list_check_candidates system_hint page_hint d =
     (case (resolve_system system_hint d, page_hint) of
        (Some system, Some hint) \<Rightarrow>
          (let sh = normalize_hint system_hint; ph = normalize_hint hint;
               rows = [(pa_asset_version pa, candidate_of sh ph d pa pc).
                         pa \<leftarrow> filter (candidate_asset (sys_id system) sh ph d) (page_assets d),
                         pc \<leftarrow> filter (\<lambda>pc. pc_page_asset_id pc = pa_id pa \<and>
                                            pc_lifecycle_status pc = LifecycleActive) (page_checks d)];
               by_id = sort_key (\<lambda>(v, c). uint (ca_page_check_id c)) rows
           in map snd (sort_desc (\<lambda>(v, c). (ca_alias_confidence c, v)) by_id))
      | _ \<Rightarrow> [])"

text \<open>\<open>get_check_candidates\<close> of the service: the three best.\<close>

definition get_check_candidates :: "string \<Rightarrow> string option \<Rightarrow> string \<Rightarrow> db \<Rightarrow> api_error + ranked_candidate list" where
  "get_check_candidates system_hint page_hint intent d =
     (case (validate_required_text system_hint, validate_required_text intent) of
        (Some system, Some _) \<Rightarrow>
          Inr (take 3 (rank_candidates (list_check_candidates system (normalize_optional_text page_hint) d)))
      | _ \<Rightarrow> Inl ValidationError)"

subsection \<open>What the ranking guarantees\<close>

lemma clamp_score_bounds [simp]: "0 \<le> clamp_score v" "clamp_score v \<le> 1"
  by (auto simp: clamp_score_def split: option.split)

lemma recency_bounds: "build_recency_scores cs i = Some r \<Longrightarrow> 0 \<le> r \<and> r \<le> 1"
  unfolding build_recency_scores_def
  by (drule map_of_SomeD) (auto simp: recency_of_def Let_def split: option.splits)

lemma weights_nonneg: "0 \<le> SUCCESS_RATE_WEIGHT" "0 \<le> ALIAS_CONFIDENCE_WEIGHT" "0 \<le> RECENCY_WEIGHT"
  by (simp_all add: SUCCESS_RATE_WEIGHT_def ALIAS_CONFIDENCE_WEIGHT_def RECENCY_WEIGHT_def fl_nonneg)

lemma weighted_score_mono:
  assumes "s \<le> s'" "c \<le> c'" "r \<le> r'"
  shows "weighted_score s c r \<le> weighted_score s' c' r'"
  unfolding weighted_score_def
  using assms weights_nonneg by (intro fl_mono add_mono mult_left_mono)

text \<open>The weights as doubles, and the largest score: the rounded sum of the three weights.\<close>

lemma fl_dyadic: "2 ^ 52 \<le> m \<Longrightarrow> m < 2 ^ 53 \<Longrightarrow> fl (of_int m * pow2 e) = of_int m * pow2 e"
proof -
  have "pow2 e \<noteq> 0" by (rule less_imp_neq [OF pow2_pos, symmetric])
  then show "2 ^ 52 \<le> m \<Longrightarrow> m < 2 ^ 53 \<Longrightarrow> ?thesis" by (intro fl_at) (auto simp: order_le_less)
qed

lemma score_parts:
  "SUCCESS_RATE_WEIGHT = of_int 6305039478318694 * pow2 (- 53)"
  "ALIAS_CONFIDENCE_WEIGHT = of_int 7205759403792794 * pow2 (- 55)"
  "RECENCY_WEIGHT = of_int 7205759403792794 * pow2 (- 56)"
  unfolding SUCCESS_RATE_WEIGHT_def ALIAS_CONFIDENCE_WEIGHT_def RECENCY_WEIGHT_def
  by (rule fl_at; simp add: pow2_def)+

lemma weighted_score_top: "weighted_score 1 1 1 \<le> 1"
proof -
  have "fl (SUCCESS_RATE_WEIGHT + ALIAS_CONFIDENCE_WEIGHT) \<le> fl (of_int 8106479329266893 * pow2 (- 53))"
    by (rule fl_mono) (simp add: score_parts pow2_def)
  also have "\<dots> = of_int 8106479329266893 * pow2 (- 53)" by (rule fl_dyadic) simp_all
  finally have "fl (fl (SUCCESS_RATE_WEIGHT + ALIAS_CONFIDENCE_WEIGHT) + RECENCY_WEIGHT) \<le>
      fl (of_int 8106479329266893 * pow2 (- 53) + RECENCY_WEIGHT)"
    by (intro fl_mono) simp
  also have "\<dots> = of_int 4503599627370496 * pow2 (- 52)"
    by (rule fl_at) (simp_all add: score_parts pow2_def)
  also have "\<dots> = 1" by (simp add: pow2_def)
  finally have sum: "fl (fl (SUCCESS_RATE_WEIGHT + ALIAS_CONFIDENCE_WEIGHT) + RECENCY_WEIGHT) \<le> 1" .
  have "fl SUCCESS_RATE_WEIGHT = SUCCESS_RATE_WEIGHT" "fl ALIAS_CONFIDENCE_WEIGHT = ALIAS_CONFIDENCE_WEIGHT"
      "fl RECENCY_WEIGHT = RECENCY_WEIGHT"
    unfolding score_parts by (rule fl_dyadic; simp)+
  then show ?thesis using sum by (simp add: weighted_score_def)
qed

lemma weighted_score_bounds:
  assumes "0 \<le> s" "s \<le> 1" "0 \<le> c" "c \<le> 1" "0 \<le> r" "r \<le> 1"
  shows "0 \<le> weighted_score s c r" "weighted_score s c r \<le> 1"
proof -
  have "weighted_score 0 0 0 = 0" by (simp add: weighted_score_def)
  then show "0 \<le> weighted_score s c r" "weighted_score s c r \<le> 1"
    using weighted_score_mono [of 0 s 0 c 0 r] weighted_score_mono [of s 1 c 1 r 1] weighted_score_top assms by linarith+
qed

lemma rank_score_bounds:
  "0 \<le> rc_rank_score (rank_candidate (build_recency_scores cs) c) \<and>
   rc_rank_score (rank_candidate (build_recency_scores cs) c) \<le> 1"
proof -
  have "0 \<le> r \<and> r \<le> 1" if "(case build_recency_scores cs i of None \<Rightarrow> 0 | Some r \<Rightarrow> r) = r" for i r
    using that recency_bounds [of cs i] by (auto split: option.splits)
  then show ?thesis
    by (auto simp: rank_candidate_def Let_def weighted_score_bounds)
qed

lemma sort_desc_sorted: "sorted_wrt (\<lambda>a b. key b \<le> key a) (sort_desc key rows)"
  by (auto simp: sorted_wrt_iff_nth_less intro: sort_desc_descending)

lemma candidate_key_rank: "candidate_key a \<le> candidate_key b \<Longrightarrow> rc_rank_score a \<le> rc_rank_score b"
  by (auto simp: candidate_key_def split: if_splits)

lemma candidates_live:
  assumes "c \<in> set (list_check_candidates system_hint page_hint d)"
  shows "\<exists>sy pa pc. resolve_system system_hint d = Some sy \<and> pa \<in> set (page_assets d) \<and>
    pc \<in> set (page_checks d) \<and> live_asset_of (sys_id sy) pa \<and> pc_page_asset_id pc = pa_id pa \<and>
    pc_lifecycle_status pc = LifecycleActive \<and> ca_page_check_id c = pc_id pc \<and> ca_page_asset_id c = pa_id pa"
proof -
  obtain sy hint where sy: "resolve_system system_hint d = Some sy" and "page_hint = Some hint"
    using assms by (cases "resolve_system system_hint d"; cases page_hint) (auto simp: list_check_candidates_def)
  with assms show ?thesis
    by (fastforce simp: list_check_candidates_def Let_def candidate_asset_def candidate_of_def)
qed

text \<open>
  What it is that a (normalized) hint leads to the page of an asset: an active menu alias of the asset
  reads like the hint, or an active intent alias of the system for the asset does with its page or its
  route, or the page itself does with its title or route, or the key of the asset.
\<close>

definition hint_leads_to :: "string \<Rightarrow> string \<Rightarrow> db \<Rightarrow> page_asset \<Rightarrow> page \<Rightarrow> bool" where
  "hint_leads_to system_hint hint d pa pg \<longleftrightarrow>
     (\<exists>na \<in> set (page_navigation_aliases d). na_is_active na \<and> na_page_asset_id na = pa_id pa \<and>
        lower (na_alias_text na) = hint) \<or>
     (\<exists>ia \<in> set (intent_aliases d). ia_is_active ia \<and> ia_asset_key ia = pa_asset_key pa \<and>
        lower (ia_system_alias ia) = system_hint \<and>
        (map_option lower (ia_page_alias ia) = Some hint \<or> map_option lower (ia_route_hint ia) = Some hint)) \<or>
     map_option lower (pg_page_title pg) = Some hint \<or> lower (pg_route_path pg) = hint \<or>
     lower (pa_asset_key pa) = hint"

text \<open>The live checks of a system that a hint leads to.\<close>

definition hinted_checks :: "string \<Rightarrow> string option \<Rightarrow> db \<Rightarrow> uuid set" where
  "hinted_checks system_hint page_hint d =
     {i. \<exists>sy hint pa pg pc. resolve_system system_hint d = Some sy \<and> page_hint = Some hint \<and>
        pa \<in> set (page_assets d) \<and> live_asset_of (sys_id sy) pa \<and>
        find_row pg_id (pa_page_id pa) (pages d) = Some pg \<and>
        hint_leads_to (normalize_hint system_hint) (normalize_hint hint) d pa pg \<and>
        pc \<in> set (page_checks d) \<and> pc_page_asset_id pc = pa_id pa \<and>
        pc_lifecycle_status pc = LifecycleActive \<and> pc_id pc = i}"

lemma text_matches_iff: "text_matches hint column \<longleftrightarrow> map_option lower column = Some hint"
  by (simp add: text_matches_def split: option.split)

lemma first_by_None: "first_by key xs = None \<longleftrightarrow> xs = []"
proof -
  have "length (sort_key key xs) = length xs" by simp
  then show ?thesis by (cases "sort_key key xs") (auto simp: first_by_def)
qed

lemma candidate_asset_iff:
  "candidate_asset system_id sh ph d pa \<longleftrightarrow>
    live_asset_of system_id pa \<and> (\<exists>pg. find_row pg_id (pa_page_id pa) (pages d) = Some pg \<and> hint_leads_to sh ph d pa pg)"
proof -
  have "navigation_alias_of ph (pa_id pa) d \<noteq> None \<longleftrightarrow>
      (\<exists>na \<in> set (page_navigation_aliases d). na_is_active na \<and> na_page_asset_id na = pa_id pa \<and> lower (na_alias_text na) = ph)"
    by (auto simp: navigation_alias_of_def first_by_None filter_empty_conv)
  moreover have "alias_confidence_of sh ph (pa_asset_key pa) d \<noteq> None \<longleftrightarrow>
      (\<exists>ia \<in> set (intent_aliases d). ia_is_active ia \<and> ia_asset_key ia = pa_asset_key pa \<and>
        lower (ia_system_alias ia) = sh \<and>
        (map_option lower (ia_page_alias ia) = Some ph \<or> map_option lower (ia_route_hint ia) = Some ph))"
  proof -
    have "alias_confidence_of sh ph (pa_asset_key pa) d \<noteq> None \<longleftrightarrow> hint_aliases sh ph (pa_asset_key pa) d \<noteq> []"
      by (cases "hint_aliases sh ph (pa_asset_key pa) d") (simp_all add: alias_confidence_of_def)
    also have "\<dots> \<longleftrightarrow> (\<exists>ia \<in> set (intent_aliases d). ia_is_active ia \<and> ia_asset_key ia = pa_asset_key pa \<and>
        lower (ia_system_alias ia) = sh \<and>
        (map_option lower (ia_page_alias ia) = Some ph \<or> map_option lower (ia_route_hint ia) = Some ph))"
      unfolding hint_aliases_def filter_empty_conv text_matches_iff by blast
    finally show ?thesis .
  qed
  ultimately show ?thesis
    by (cases "find_row pg_id (pa_page_id pa) (pages d)")
      (simp_all add: candidate_asset_def hint_leads_to_def page_hint_matches_def text_matches_iff disj_assoc)
qed

definition check_rows :: "(page_asset \<Rightarrow> bool) \<Rightarrow> db \<Rightarrow> page_asset list \<Rightarrow> uuid list" where
  "check_rows ok d pas = concat (map (\<lambda>pa. map pc_id (filter (\<lambda>pc. pc_page_asset_id pc = pa_id pa \<and>
     pc_lifecycle_status pc = LifecycleActive) (page_checks d))) (filter ok pas))"

lemma distinct_check_rows:
  assumes "distinct (map pc_id (page_checks d))" "distinct (map pa_id pas)"
  shows "distinct (check_rows ok d pas)"
  using assms(2)
proof (induction pas)
  case (Cons pa pas)
  have inj: "inj_on pc_id (set (page_checks d))" using assms(1) by (simp add: distinct_map)
  have one: "distinct (map pc_id (filter P (page_checks d)))" for P
    using assms(1) by (rule distinct_map_filter)
  have "pc_id ` {pc \<in> set (page_checks d). pc_page_asset_id pc = pa_id pa \<and> pc_lifecycle_status pc = LifecycleActive} \<inter>
      set (check_rows ok d pas) = {}"
    using Cons.prems by (auto simp: check_rows_def dest!: inj_onD [OF inj]) (metis image_eqI)
  then show ?case using Cons one by (auto simp: check_rows_def)
qed (simp add: check_rows_def)

lemma candidate_ids:
  "mset (map ca_page_check_id (list_check_candidates system_hint page_hint d)) =
    (case (resolve_system system_hint d, page_hint) of
       (Some sy, Some hint) \<Rightarrow>
         mset (check_rows (candidate_asset (sys_id sy) (normalize_hint system_hint) (normalize_hint hint) d) d (page_assets d))
     | _ \<Rightarrow> {#})"
proof -
  have ids: "ca_page_check_id (candidate_of sh ph d pa pc) = pc_id pc" for sh ph pa pc
    by (simp add: candidate_of_def Let_def)
  have rows: "image_mset (\<lambda>x. ca_page_check_id (snd x))
      (mset (concat (map (\<lambda>pa. map (\<lambda>pc. (pa_asset_version pa, candidate_of sh ph d pa pc))
        (filter (\<lambda>pc. pc_page_asset_id pc = pa_id pa \<and> pc_lifecycle_status pc = LifecycleActive) (page_checks d))) pas))) =
    mset (concat (map (\<lambda>pa. map pc_id
      (filter (\<lambda>pc. pc_page_asset_id pc = pa_id pa \<and> pc_lifecycle_status pc = LifecycleActive) (page_checks d))) pas))"
    for sh ph pas
    unfolding mset_map [symmetric] by (simp add: map_concat comp_def ids del: mset_map)
  show ?thesis
    by (simp add: list_check_candidates_def Let_def check_rows_def multiset.map_comp comp_def rows split: option.split)
qed

lemma candidate_id_set:
  "set (map ca_page_check_id (list_check_candidates system_hint page_hint d)) = hinted_checks system_hint page_hint d"
proof -
  have "set (map ca_page_check_id (list_check_candidates system_hint page_hint d)) =
      set_mset (mset (map ca_page_check_id (list_check_candidates system_hint page_hint d)))" by simp
  then show ?thesis
    unfolding candidate_ids hinted_checks_def
    by (auto simp: check_rows_def candidate_asset_iff split: option.splits)
qed

lemma candidate_ids_distinct:
  assumes "distinct (map pc_id (page_checks d))" "distinct (map pa_id (page_assets d))"
  shows "distinct (map ca_page_check_id (list_check_candidates system_hint page_hint d))"
proof -
  let ?ids = "map ca_page_check_id (list_check_candidates system_hint page_hint d)"
  have "?ids = [] \<or> (\<exists>ok. mset ?ids = mset (check_rows ok d (page_assets d)))"
    using candidate_ids [of system_hint page_hint d]
    by (cases "resolve_system system_hint d"; cases page_hint) auto
  then show ?thesis
    using mset_eq_imp_distinct_iff distinct_check_rows [OF assms] by (metis distinct.simps(1))
qed

text \<open>C37: the candidates offered for a hint are the best three of an order of exactly the live checks that
  the hint leads to in its system, each once: rank scores never rise along the order, so no check left
  out has a better score than one offered, and every score lies between zero and one in spite of
  rounding.\<close>

theorem candidates_best_first:
  assumes "get_check_candidates system_hint page_hint intent d = Inr best"
    and "distinct (map pc_id (page_checks d))" "distinct (map pa_id (page_assets d))"
  shows "\<exists>all. best = take 3 all \<and>
    set (map (ca_page_check_id \<circ> rc_stats) all) =
      hinted_checks (strip system_hint) (normalize_optional_text page_hint) d \<and>
    distinct (map (ca_page_check_id \<circ> rc_stats) all) \<and>
    sorted_wrt (\<lambda>a b. rc_rank_score b \<le> rc_rank_score a) all \<and>
    (\<forall>r \<in> set all. 0 \<le> rc_rank_score r \<and> rc_rank_score r \<le> 1)"
proof -
  let ?cs = "list_check_candidates (strip system_hint) (normalize_optional_text page_hint) d"
  let ?all = "rank_candidates ?cs"
  have best: "best = take 3 ?all"
    using assms(1) by (auto simp: get_check_candidates_def validate_required_text_def opt_text_def split: option.splits if_splits)
  have stats: "rc_stats (rank_candidate f c) = c" for f c by (simp add: rank_candidate_def Let_def)
  have "mset (map (ca_page_check_id \<circ> rc_stats) ?all) = image_mset (ca_page_check_id \<circ> rc_stats) (mset ?all)" by simp
  also have "\<dots> = mset (map ca_page_check_id ?cs)"
    by (simp only: rank_candidates_def mset_sort_desc mset_map [symmetric]) (simp add: comp_def stats)
  finally have ids: "mset (map (ca_page_check_id \<circ> rc_stats) ?all) = mset (map ca_page_check_id ?cs)" .
  have "sorted_wrt (\<lambda>a b. rc_rank_score b \<le> rc_rank_score a) ?all"
    unfolding rank_candidates_def
    by (rule sorted_wrt_mono_rel [OF _ sort_desc_sorted]) (rule candidate_key_rank)
  moreover have "0 \<le> rc_rank_score r \<and> rc_rank_score r \<le> 1" if "r \<in> set ?all" for r
    using that rank_score_bounds [of ?cs] by (auto simp: rank_candidates_def)
  moreover have "set (map (ca_page_check_id \<circ> rc_stats) ?all) =
      hinted_checks (strip system_hint) (normalize_optional_text page_hint) d"
    using mset_eq_setD [OF ids] candidate_id_set by metis
  moreover have "distinct (map (ca_page_check_id \<circ> rc_stats) ?all)"
    using mset_eq_imp_distinct_iff [OF ids] candidate_ids_distinct [OF assms(2,3)] by blast
  ultimately show ?thesis using best by blast
qed

theorem candidates_best_first_witness:
  "\<exists>best r. get_check_candidates ''erp'' (Some ''/users'') ''open'' sample_request_db = Inr best \<and> best = [r] \<and>
     ca_page_check_id (rc_stats r) = 5 \<and> rc_rank_score r \<le> 1"
proof -
  have "case get_check_candidates ''erp'' (Some ''/users'') ''open'' sample_request_db of
      Inl e \<Rightarrow> False | Inr best \<Rightarrow> map (ca_page_check_id \<circ> rc_stats) best = [5]" by code_simp
  then obtain best where b: "get_check_candidates ''erp'' (Some ''/users'') ''open'' sample_request_db = Inr best"
      and five: "map (ca_page_check_id \<circ> rc_stats) best = [5]" by (auto split: sum.splits)
  obtain r where r: "best = [r]" using five by (cases best) auto
  have keys: "distinct (map pc_id (page_checks sample_request_db))" "distinct (map pa_id (page_assets sample_request_db))"
    by code_simp+
  obtain all where "best = take 3 all" "\<forall>r \<in> set all. rc_rank_score r \<le> 1"
    using candidates_best_first [OF b keys] by blast
  then have "rc_rank_score r \<le> 1" using r by (metis in_set_takeD list.set_intros(1))
  then show ?thesis using b five r by auto
qed

end
