(* ===== verification/SystemTeardown.thy ===== *)
theory SystemTeardown
  imports PolicyAdmin
begin

section \<open>Teardown of a system\<close>

text \<open>
  control\_plane/system\_admin\_repository.py and the teardown of control\_plane/system\_admin\_service.py:
  the rows that belong to a system are collected table by table, their schedules are removed, the
  rows are deleted in one transaction, and a second set of queries looks for what is left. The
  database enforces its foreign keys: a statement that deletes a row which another row still
  references raises \<open>IntegrityError\<close> (the key of a navigation alias to its asset cascades instead).
  An unhashable payload value looked up in a set of texts raises \<open>TypeError\<close>. The table of access
  logs, which nothing in the backend writes, is left out.
\<close>

subsection \<open>Rows that belong to a system\<close>

record teardown_ids =
  ti_system_id :: uuid
  ti_system_code :: string
  ti_job_run_ids :: "uuid list"
  ti_published_job_ids :: "uuid list"
  ti_page_check_ids :: "uuid list"
  ti_page_asset_ids :: "uuid list"
  ti_navigation_alias_ids :: "uuid list"
  ti_intent_alias_ids :: "uuid list"
  ti_module_plan_ids :: "uuid list"
  ti_asset_snapshot_ids :: "uuid list"
  ti_reconciliation_audit_ids :: "uuid list"
  ti_page_ids :: "uuid list"
  ti_menu_node_ids :: "uuid list"
  ti_page_element_ids :: "uuid list"
  ti_crawl_snapshot_ids :: "uuid list"
  ti_auth_state_ids :: "uuid list"
  ti_system_credential_ids :: "uuid list"
  ti_auth_policy_ids :: "uuid list"
  ti_crawl_policy_ids :: "uuid list"
  ti_execution_plan_ids :: "uuid list"
  ti_execution_run_ids :: "uuid list"
  ti_execution_artifact_ids :: "uuid list"
  ti_execution_request_ids :: "uuid list"
  ti_script_render_ids :: "uuid list"
  ti_queued_job_ids :: "uuid list"

definition sorted_unique :: "uuid option list \<Rightarrow> uuid list" where
  "sorted_unique values = sort_key uuid_str (remdups (List.map_filter (\<lambda>v. v) values))"

definition select_ids :: "('r \<Rightarrow> uuid) \<Rightarrow> ('r \<Rightarrow> bool) \<Rightarrow> 'r list \<Rightarrow> uuid list" where
  "select_ids target condition rows = sorted_unique (map (\<lambda>r. Some (target r)) (filter condition rows))"

definition select_ids_for_column ::
  "('r \<Rightarrow> uuid option) \<Rightarrow> ('r \<Rightarrow> uuid) \<Rightarrow> uuid list \<Rightarrow> 'r list \<Rightarrow> uuid list" where
  "select_ids_for_column target column ids rows =
     (if ids = [] then [] else sorted_unique (map target (filter (\<lambda>r. column r \<in> set ids) rows)))"

text \<open>A nullable column and the SQL operator \<open>IN\<close>.\<close>

definition in_ids :: "uuid option \<Rightarrow> uuid list \<Rightarrow> bool" where
  "in_ids v ids = (case v of None \<Rightarrow> False | Some i \<Rightarrow> i \<in> set ids)"

definition plan_belongs ::
  "uuid \<Rightarrow> uuid list \<Rightarrow> uuid list \<Rightarrow> uuid list \<Rightarrow> uuid list \<Rightarrow> execution_plan \<Rightarrow> bool" where
  "plan_belongs system_id assets checks plans requests p \<longleftrightarrow>
     ep_resolved_system_id p = Some system_id \<or> in_ids (ep_resolved_page_asset_id p) assets \<or>
     in_ids (ep_resolved_page_check_id p) checks \<or> in_ids (ep_module_plan_id p) plans \<or>
     ep_execution_request_id p \<in> set requests"

definition published_job_belongs :: "uuid list \<Rightarrow> uuid list \<Rightarrow> uuid list \<Rightarrow> published_job \<Rightarrow> bool" where
  "published_job_belongs checks assets snapshots j \<longleftrightarrow>
     pj_page_check_id j \<in> set checks \<or> in_ids (pj_paused_by_page_check_id j) checks \<or>
     in_ids (pj_paused_by_asset_id j) assets \<or> in_ids (pj_paused_by_snapshot_id j) snapshots"

definition render_belongs :: "uuid list \<Rightarrow> uuid list \<Rightarrow> script_render \<Rightarrow> bool" where
  "render_belongs artifacts plans r \<longleftrightarrow>
     in_ids (sr_execution_artifact_id r) artifacts \<or> in_ids (sr_execution_plan_id r) plans"

definition intent_alias_belongs :: "uuid \<Rightarrow> string \<Rightarrow> db \<Rightarrow> intent_alias \<Rightarrow> bool" where
  "intent_alias_belongs system_id code d a \<longleftrightarrow>
     (\<exists>pa \<in> set (page_assets d). pa_asset_key pa = ia_asset_key a \<and> pa_system_id pa = system_id) \<or>
     ia_system_alias a = code"

subsection \<open>Jobs that mention a system\<close>

datatype teardown_error =
  RuntimeErrorWith string | TypeError | IntegrityError | Residue "string list" "string list"

text \<open>\<open>value in texts\<close> for a set of strings, and a chain of such conditions: the first that holds or
  raises ends it.\<close>

definition in_texts :: "pyval \<Rightarrow> string list \<Rightarrow> teardown_error + bool" where
  "in_texts v known =
     (case v of PList _ \<Rightarrow> Inl TypeError | PDict _ \<Rightarrow> Inl TypeError
      | PStr t \<Rightarrow> Inr (t \<in> set known) | _ \<Rightarrow> Inr False)"

fun any_raises :: "('e + bool) list \<Rightarrow> 'e + bool" where
  "any_raises [] = Inr False"
| "any_raises (c # cs) =
     (case c of Inl e \<Rightarrow> Inl e | Inr b \<Rightarrow> if b then Inr True else any_raises cs)"

definition result_value :: "queued_job \<Rightarrow> string \<Rightarrow> pyval" where
  "result_value j key = dget (case qj_result_payload j of None \<Rightarrow> [] | Some p \<Rightarrow> p) key"

definition policy_in :: "queued_job \<Rightarrow> string list \<Rightarrow> bool" where
  "policy_in j policy_ids = (case qj_policy_id j of None \<Rightarrow> False | Some i \<Rightarrow> uuid_str i \<in> set policy_ids)"

definition queued_job_belongs :: "teardown_ids \<Rightarrow> queued_job \<Rightarrow> teardown_error + bool" where
  "queued_job_belongs t j =
     any_raises
       [Inr (policy_in j (map uuid_str (ti_auth_policy_ids t @ ti_crawl_policy_ids t))),
        Inr (dget (qj_payload j) ''system_id'' = PStr (uuid_str (ti_system_id t))),
        in_texts (dget (qj_payload j) ''snapshot_id'') (map uuid_str (ti_crawl_snapshot_ids t)),
        in_texts (result_value j ''snapshot_id'') (map uuid_str (ti_crawl_snapshot_ids t)),
        in_texts (dget (qj_payload j) ''execution_plan_id'') (map uuid_str (ti_execution_plan_ids t)),
        in_texts (dget (qj_payload j) ''execution_request_id'') (map uuid_str (ti_execution_request_ids t)),
        in_texts (dget (qj_payload j) ''page_check_id'') (map uuid_str (ti_page_check_ids t))]"

fun collect_queued_job_ids :: "teardown_ids \<Rightarrow> queued_job list \<Rightarrow> teardown_error + uuid option list" where
  "collect_queued_job_ids t [] = Inr []"
| "collect_queued_job_ids t (j # js) =
     (case queued_job_belongs t j of
        Inl e \<Rightarrow> Inl e
      | Inr b \<Rightarrow>
          (case collect_queued_job_ids t js of
             Inl e \<Rightarrow> Inl e
           | Inr ids \<Rightarrow> Inr (if b then Some (qj_id j) # ids else ids)))"

definition job_run_belongs :: "teardown_ids \<Rightarrow> job_run \<Rightarrow> bool" where
  "job_run_belongs t r \<longleftrightarrow>
     jr_published_job_id r \<in> set (ti_published_job_ids t) \<or>
     in_ids (jr_queued_job_id r) (ti_queued_job_ids t) \<or>
     in_ids (jr_execution_run_id r) (ti_execution_run_ids t) \<or>
     in_ids (jr_script_render_id r) (ti_script_render_ids t) \<or>
     in_ids (jr_policy_id r) (ti_auth_policy_ids t @ ti_crawl_policy_ids t)"

subsection \<open>Collecting the rows\<close>

text \<open>\<open>collect_system_teardown_ids\<close> in the order of the code: the facts and assets of the system, its
  requests, plans, runs and published jobs, the queued jobs, and the job runs with what they point at.\<close>

definition collect_facts :: "system_row \<Rightarrow> db \<Rightarrow> teardown_ids" where
  "collect_facts system d =
     (let sid = sys_id system;
          snapshots = select_ids cs_id (\<lambda>c. cs_system_id c = sid) (crawl_snapshots d);
          assets = select_ids pa_id (\<lambda>a. pa_system_id a = sid) (page_assets d)
      in \<lparr>ti_system_id = sid, ti_system_code = sys_code system, ti_job_run_ids = [], ti_published_job_ids = [],
          ti_page_check_ids =
            select_ids_for_column (\<lambda>c. Some (pc_id c)) pc_page_asset_id assets (page_checks d),
          ti_page_asset_ids = assets,
          ti_navigation_alias_ids =
            select_ids na_id (\<lambda>n. na_system_id n = sid \<or> na_page_asset_id n \<in> set assets)
              (page_navigation_aliases d),
          ti_intent_alias_ids = select_ids ia_id (intent_alias_belongs sid (sys_code system) d) (intent_aliases d),
          ti_module_plan_ids =
            select_ids_for_column (\<lambda>m. Some (mp_id m)) mp_page_asset_id assets (module_plans d),
          ti_asset_snapshot_ids =
            select_ids_for_column (\<lambda>a. Some (as_id a)) as_page_asset_id assets (asset_snapshots d),
          ti_reconciliation_audit_ids =
            select_ids_for_column (\<lambda>a. Some (ra_id a)) ra_snapshot_id snapshots (asset_reconciliation_audits d),
          ti_page_ids = select_ids pg_id (\<lambda>p. pg_system_id p = sid) (pages d),
          ti_menu_node_ids = select_ids mn_id (\<lambda>m. mn_system_id m = sid) (menu_nodes d),
          ti_page_element_ids = select_ids pe_id (\<lambda>e. pe_system_id e = sid) (page_elements d),
          ti_crawl_snapshot_ids = snapshots,
          ti_auth_state_ids = select_ids au_id (\<lambda>a. au_system_id a = sid) (auth_states d),
          ti_system_credential_ids = select_ids sc_id (\<lambda>c. sc_system_id c = sid) (system_credentials d),
          ti_auth_policy_ids = select_ids ap_id (\<lambda>p. ap_system_id p = sid) (system_auth_policies d),
          ti_crawl_policy_ids = select_ids cp_id (\<lambda>p. cp_system_id p = sid) (system_crawl_policies d),
          ti_execution_plan_ids = [], ti_execution_run_ids = [], ti_execution_artifact_ids = [],
          ti_execution_request_ids = [], ti_script_render_ids = [], ti_queued_job_ids = []\<rparr>)"

definition collect_executions :: "db \<Rightarrow> teardown_ids \<Rightarrow> teardown_ids" where
  "collect_executions d t =
     (let hinted = select_ids er_id (\<lambda>r. er_system_hint r = ti_system_code t) (execution_requests d);
          plans = select_ids ep_id (plan_belongs (ti_system_id t) (ti_page_asset_ids t) (ti_page_check_ids t)
                    (ti_module_plan_ids t) hinted) (execution_plans d);
          requests = (if plans = [] then hinted
                      else sorted_unique (map Some hinted @ map Some
                        (select_ids_for_column (\<lambda>p. Some (ep_execution_request_id p)) ep_id plans (execution_plans d))));
          runs = select_ids_for_column (\<lambda>r. Some (xr_id r)) xr_execution_plan_id plans (execution_runs d);
          artifacts = select_ids_for_column (\<lambda>a. Some (xa_id a)) xa_execution_run_id runs (execution_artifacts d);
          jobs = select_ids pj_id (published_job_belongs (ti_page_check_ids t) (ti_page_asset_ids t)
                   (ti_crawl_snapshot_ids t)) (published_jobs d);
          job_renders = select_ids_for_column pj_script_render_id pj_id jobs (published_jobs d)
      in t\<lparr>ti_execution_request_ids := requests, ti_execution_plan_ids := plans, ti_execution_run_ids := runs,
           ti_execution_artifact_ids := artifacts, ti_published_job_ids := jobs,
           ti_script_render_ids := sorted_unique (map Some job_renders @
             map Some (select_ids sr_id (render_belongs artifacts plans) (script_renders d)))\<rparr>)"

definition collect_runs :: "db \<Rightarrow> teardown_ids \<Rightarrow> teardown_ids" where
  "collect_runs d t =
     (let job_runs = filter (job_run_belongs t) (job_runs d);
          runs = sorted_unique (map Some (ti_execution_run_ids t) @ map jr_execution_run_id job_runs);
          renders = sorted_unique (map Some (ti_script_render_ids t) @ map jr_script_render_id job_runs);
          artifacts = sorted_unique (map Some (ti_execution_artifact_ids t) @ map Some
            (select_ids_for_column (\<lambda>a. Some (xa_id a)) xa_execution_run_id runs (execution_artifacts d)))
      in t\<lparr>ti_job_run_ids := sorted_unique (map (\<lambda>r. Some (jr_id r)) job_runs),
           ti_queued_job_ids := sorted_unique (map Some (ti_queued_job_ids t) @ map jr_queued_job_id job_runs),
           ti_execution_run_ids := runs, ti_execution_artifact_ids := artifacts,
           ti_script_render_ids := sorted_unique (map Some renders @
             map Some (select_ids sr_id (render_belongs artifacts (ti_execution_plan_ids t)) (script_renders d)))\<rparr>)"

definition collect_system_teardown_ids :: "system_row \<Rightarrow> db \<Rightarrow> teardown_error + teardown_ids" where
  "collect_system_teardown_ids system d =
     (let t = collect_executions d (collect_facts system d)
      in case collect_queued_job_ids t (queued_jobs d) of
           Inl e \<Rightarrow> Inl e
         | Inr ids \<Rightarrow> Inr (collect_runs d (t\<lparr>ti_queued_job_ids := sorted_unique ids\<rparr>)))"

subsection \<open>Deleting rows under foreign keys\<close>

datatype db_model =
  JobRunModel | PublishedJobModel | QueuedJobModel | ScriptRenderModel | ExecutionArtifactModel
  | ExecutionRunModel | ExecutionPlanModel | ExecutionRequestModel | AssetReconciliationAuditModel
  | AssetSnapshotModel | ModulePlanModel | IntentAliasModel | PageNavigationAliasModel | PageCheckModel
  | PageAssetModel | PageElementModel | MenuNodeModel | PageModel | CrawlSnapshotModel | AuthStateModel
  | SystemCredentialModel | SystemAuthPolicyModel | SystemCrawlPolicyModel | SystemModel

definition without :: "('r \<Rightarrow> uuid) \<Rightarrow> uuid list \<Rightarrow> 'r list \<Rightarrow> 'r list" where
  "without key ids rows = filter (\<lambda>r. key r \<notin> set ids) rows"

fun delete_rows :: "db_model \<Rightarrow> uuid list \<Rightarrow> db \<Rightarrow> db" where
  "delete_rows JobRunModel ids d = d\<lparr>job_runs := without jr_id ids (job_runs d)\<rparr>"
| "delete_rows PublishedJobModel ids d = d\<lparr>published_jobs := without pj_id ids (published_jobs d)\<rparr>"
| "delete_rows QueuedJobModel ids d = d\<lparr>queued_jobs := without qj_id ids (queued_jobs d)\<rparr>"
| "delete_rows ScriptRenderModel ids d = d\<lparr>script_renders := without sr_id ids (script_renders d)\<rparr>"
| "delete_rows ExecutionArtifactModel ids d = d\<lparr>execution_artifacts := without xa_id ids (execution_artifacts d)\<rparr>"
| "delete_rows ExecutionRunModel ids d = d\<lparr>execution_runs := without xr_id ids (execution_runs d)\<rparr>"
| "delete_rows ExecutionPlanModel ids d = d\<lparr>execution_plans := without ep_id ids (execution_plans d)\<rparr>"
| "delete_rows ExecutionRequestModel ids d = d\<lparr>execution_requests := without er_id ids (execution_requests d)\<rparr>"
| "delete_rows AssetReconciliationAuditModel ids d =
     d\<lparr>asset_reconciliation_audits := without ra_id ids (asset_reconciliation_audits d)\<rparr>"
| "delete_rows AssetSnapshotModel ids d = d\<lparr>asset_snapshots := without as_id ids (asset_snapshots d)\<rparr>"
| "delete_rows ModulePlanModel ids d = d\<lparr>module_plans := without mp_id ids (module_plans d)\<rparr>"
| "delete_rows IntentAliasModel ids d = d\<lparr>intent_aliases := without ia_id ids (intent_aliases d)\<rparr>"
| "delete_rows PageNavigationAliasModel ids d =
     d\<lparr>page_navigation_aliases := without na_id ids (page_navigation_aliases d)\<rparr>"
| "delete_rows PageCheckModel ids d = d\<lparr>page_checks := without pc_id ids (page_checks d)\<rparr>"
| "delete_rows PageAssetModel ids d =
     d\<lparr>page_assets := without pa_id ids (page_assets d),
       page_navigation_aliases := without na_page_asset_id ids (page_navigation_aliases d)\<rparr>"
| "delete_rows PageElementModel ids d = d\<lparr>page_elements := without pe_id ids (page_elements d)\<rparr>"
| "delete_rows MenuNodeModel ids d = d\<lparr>menu_nodes := without mn_id ids (menu_nodes d)\<rparr>"
| "delete_rows PageModel ids d = d\<lparr>pages := without pg_id ids (pages d)\<rparr>"
| "delete_rows CrawlSnapshotModel ids d = d\<lparr>crawl_snapshots := without cs_id ids (crawl_snapshots d)\<rparr>"
| "delete_rows AuthStateModel ids d = d\<lparr>auth_states := without au_id ids (auth_states d)\<rparr>"
| "delete_rows SystemCredentialModel ids d = d\<lparr>system_credentials := without sc_id ids (system_credentials d)\<rparr>"
| "delete_rows SystemAuthPolicyModel ids d = d\<lparr>system_auth_policies := without ap_id ids (system_auth_policies d)\<rparr>"
| "delete_rows SystemCrawlPolicyModel ids d = d\<lparr>system_crawl_policies := without cp_id ids (system_crawl_policies d)\<rparr>"
| "delete_rows SystemModel ids d = d\<lparr>systems := without sys_id ids (systems d)\<rparr>"

text \<open>The values of the columns with a foreign key to a table, file by file of infrastructure/db/models.\<close>

fun job_references :: "db_model \<Rightarrow> db \<Rightarrow> uuid list" where
  "job_references PublishedJobModel d = map jr_published_job_id (job_runs d)"
| "job_references QueuedJobModel d = List.map_filter jr_queued_job_id (job_runs d)"
| "job_references ScriptRenderModel d =
     List.map_filter pj_script_render_id (published_jobs d) @
     List.map_filter jr_script_render_id (job_runs d)"
| "job_references ExecutionRunModel d = List.map_filter jr_execution_run_id (job_runs d)"
| "job_references PageCheckModel d =
     map pj_page_check_id (published_jobs d) @
     List.map_filter pj_paused_by_page_check_id (published_jobs d)"
| "job_references PageAssetModel d = List.map_filter pj_paused_by_asset_id (published_jobs d)"
| "job_references CrawlSnapshotModel d = List.map_filter pj_paused_by_snapshot_id (published_jobs d)"
| "job_references _ d = []"

fun asset_references :: "db_model \<Rightarrow> db \<Rightarrow> uuid list" where
  "asset_references SystemModel d = map pa_system_id (page_assets d) @ map na_system_id (page_navigation_aliases d)"
| "asset_references PageModel d = map pa_page_id (page_assets d)"
| "asset_references PageAssetModel d =
     map pc_page_asset_id (page_checks d) @
     map mp_page_asset_id (module_plans d) @
     map as_page_asset_id (asset_snapshots d)"
| "asset_references CrawlSnapshotModel d =
     List.map_filter pa_retired_by_snapshot_id (page_assets d) @
     List.map_filter pa_compiled_from_snapshot_id (page_assets d) @
     List.map_filter pc_retired_by_snapshot_id (page_checks d) @
     List.map_filter ia_disabled_by_snapshot_id (intent_aliases d) @
     List.map_filter na_disabled_by_snapshot_id (page_navigation_aliases d) @
     map as_crawl_snapshot_id (asset_snapshots d) @
     map ra_snapshot_id (asset_reconciliation_audits d)"
| "asset_references _ d = []"

fun crawl_references :: "db_model \<Rightarrow> db \<Rightarrow> uuid list" where
  "crawl_references SystemModel d =
     map cs_system_id (crawl_snapshots d) @
     map pg_system_id (pages d) @
     map mn_system_id (menu_nodes d) @
     map pe_system_id (page_elements d)"
| "crawl_references CrawlSnapshotModel d =
     List.map_filter pg_snapshot_id (pages d) @
     map mn_snapshot_id (menu_nodes d) @
     map pe_snapshot_id (page_elements d)"
| "crawl_references MenuNodeModel d = List.map_filter mn_parent_id (menu_nodes d)"
| "crawl_references PageModel d = List.map_filter mn_page_id (menu_nodes d) @ map pe_page_id (page_elements d)"
| "crawl_references _ d = []"

fun history_references :: "db_model \<Rightarrow> db \<Rightarrow> uuid list" where
  "history_references SystemModel d =
     map csh_system_id (crawl_snapshots_hist d) @
     map pgh_system_id (pages_hist d) @
     map mnh_system_id (menu_nodes_hist d) @
     map peh_system_id (page_elements_hist d)"
| "history_references _ d = []"

fun execution_references :: "db_model \<Rightarrow> db \<Rightarrow> uuid list" where
  "execution_references ExecutionRequestModel d = map ep_execution_request_id (execution_plans d)"
| "execution_references SystemModel d = List.map_filter ep_resolved_system_id (execution_plans d)"
| "execution_references PageAssetModel d = List.map_filter ep_resolved_page_asset_id (execution_plans d)"
| "execution_references PageCheckModel d = List.map_filter ep_resolved_page_check_id (execution_plans d)"
| "execution_references ExecutionPlanModel d =
     map xr_execution_plan_id (execution_runs d) @
     List.map_filter sr_execution_plan_id (script_renders d)"
| "execution_references ExecutionRunModel d = map xa_execution_run_id (execution_artifacts d)"
| "execution_references ExecutionArtifactModel d = List.map_filter sr_execution_artifact_id (script_renders d)"
| "execution_references _ d = []"

fun policy_references :: "db_model \<Rightarrow> db \<Rightarrow> uuid list" where
  "policy_references SystemModel d =
     map ap_system_id (system_auth_policies d) @
     map cp_system_id (system_crawl_policies d)"
| "policy_references _ d = []"

fun system_references :: "db_model \<Rightarrow> db \<Rightarrow> uuid list" where
  "system_references SystemModel d = map sc_system_id (system_credentials d) @ map au_system_id (auth_states d)"
| "system_references _ d = []"

definition references_to :: "db_model \<Rightarrow> db \<Rightarrow> uuid list" where
  "references_to m d =
     job_references m d @ asset_references m d @ crawl_references m d @ history_references m d @
     execution_references m d @ policy_references m d @ system_references m d"

text \<open>The primary keys of a table.\<close>

fun row_ids :: "db_model \<Rightarrow> db \<Rightarrow> uuid list" where
  "row_ids JobRunModel d = map jr_id (job_runs d)"
| "row_ids PublishedJobModel d = map pj_id (published_jobs d)"
| "row_ids QueuedJobModel d = map qj_id (queued_jobs d)"
| "row_ids ScriptRenderModel d = map sr_id (script_renders d)"
| "row_ids ExecutionArtifactModel d = map xa_id (execution_artifacts d)"
| "row_ids ExecutionRunModel d = map xr_id (execution_runs d)"
| "row_ids ExecutionPlanModel d = map ep_id (execution_plans d)"
| "row_ids ExecutionRequestModel d = map er_id (execution_requests d)"
| "row_ids AssetReconciliationAuditModel d = map ra_id (asset_reconciliation_audits d)"
| "row_ids AssetSnapshotModel d = map as_id (asset_snapshots d)"
| "row_ids ModulePlanModel d = map mp_id (module_plans d)"
| "row_ids IntentAliasModel d = map ia_id (intent_aliases d)"
| "row_ids PageNavigationAliasModel d = map na_id (page_navigation_aliases d)"
| "row_ids PageCheckModel d = map pc_id (page_checks d)"
| "row_ids PageAssetModel d = map pa_id (page_assets d)"
| "row_ids PageElementModel d = map pe_id (page_elements d)"
| "row_ids MenuNodeModel d = map mn_id (menu_nodes d)"
| "row_ids PageModel d = map pg_id (pages d)"
| "row_ids CrawlSnapshotModel d = map cs_id (crawl_snapshots d)"
| "row_ids AuthStateModel d = map au_id (auth_states d)"
| "row_ids SystemCredentialModel d = map sc_id (system_credentials d)"
| "row_ids SystemAuthPolicyModel d = map ap_id (system_auth_policies d)"
| "row_ids SystemCrawlPolicyModel d = map cp_id (system_crawl_policies d)"
| "row_ids SystemModel d = map sys_id (systems d)"

definition delete_by_ids :: "db_model \<times> uuid list \<Rightarrow> db \<Rightarrow> teardown_error + db" where
  "delete_by_ids target d =
     (case target of (m, ids) \<Rightarrow>
        if ids = [] then Inr d
        else (let d' = delete_rows m ids d
              in if \<exists>i \<in> set ids. i \<in> set (row_ids m d) \<and> i \<in> set (references_to m d')
                 then Inl IntegrityError else Inr d'))"

definition deletions :: "teardown_ids \<Rightarrow> (db_model \<times> uuid list) list" where
  "deletions t =
     [(JobRunModel, ti_job_run_ids t), (PublishedJobModel, ti_published_job_ids t),
      (QueuedJobModel, ti_queued_job_ids t), (ScriptRenderModel, ti_script_render_ids t),
      (ExecutionArtifactModel, ti_execution_artifact_ids t), (ExecutionRunModel, ti_execution_run_ids t),
      (ExecutionPlanModel, ti_execution_plan_ids t), (ExecutionRequestModel, ti_execution_request_ids t),
      (AssetReconciliationAuditModel, ti_reconciliation_audit_ids t),
      (AssetSnapshotModel, ti_asset_snapshot_ids t), (ModulePlanModel, ti_module_plan_ids t),
      (IntentAliasModel, ti_intent_alias_ids t), (PageNavigationAliasModel, ti_navigation_alias_ids t),
      (PageCheckModel, ti_page_check_ids t), (PageAssetModel, ti_page_asset_ids t),
      (PageElementModel, ti_page_element_ids t), (MenuNodeModel, ti_menu_node_ids t),
      (PageModel, ti_page_ids t), (CrawlSnapshotModel, ti_crawl_snapshot_ids t),
      (AuthStateModel, ti_auth_state_ids t), (SystemCredentialModel, ti_system_credential_ids t),
      (SystemAuthPolicyModel, ti_auth_policy_ids t), (SystemCrawlPolicyModel, ti_crawl_policy_ids t),
      (SystemModel, [ti_system_id t])]"

subsection \<open>What is left\<close>

text \<open>The ids of the subqueries, read after the deletions.\<close>

definition current_assets :: "uuid \<Rightarrow> db \<Rightarrow> uuid list" where
  "current_assets sid d = map pa_id (filter (\<lambda>a. pa_system_id a = sid) (page_assets d))"

definition current_checks :: "uuid \<Rightarrow> db \<Rightarrow> uuid list" where
  "current_checks sid d = map pc_id (filter (\<lambda>c. pc_page_asset_id c \<in> set (current_assets sid d)) (page_checks d))"

definition current_module_plans :: "uuid \<Rightarrow> db \<Rightarrow> uuid list" where
  "current_module_plans sid d =
     map mp_id (filter (\<lambda>m. mp_page_asset_id m \<in> set (current_assets sid d)) (module_plans d))"

definition current_snapshots :: "uuid \<Rightarrow> db \<Rightarrow> uuid list" where
  "current_snapshots sid d = map cs_id (filter (\<lambda>c. cs_system_id c = sid) (crawl_snapshots d))"

definition current_policies :: "uuid \<Rightarrow> db \<Rightarrow> uuid list" where
  "current_policies sid d =
     map ap_id (filter (\<lambda>p. ap_system_id p = sid) (system_auth_policies d)) @
     map cp_id (filter (\<lambda>p. cp_system_id p = sid) (system_crawl_policies d))"

definition current_requests :: "string \<Rightarrow> db \<Rightarrow> uuid list" where
  "current_requests code d = map er_id (filter (\<lambda>r. er_system_hint r = code) (execution_requests d))"

definition current_plans :: "uuid \<Rightarrow> string \<Rightarrow> db \<Rightarrow> uuid list" where
  "current_plans sid code d =
     map ep_id (filter (plan_belongs sid (current_assets sid d) (current_checks sid d)
       (current_module_plans sid d) (current_requests code d)) (execution_plans d))"

definition current_runs :: "uuid \<Rightarrow> string \<Rightarrow> db \<Rightarrow> uuid list" where
  "current_runs sid code d =
     map xr_id (filter (\<lambda>r. xr_execution_plan_id r \<in> set (current_plans sid code d)) (execution_runs d))"

definition current_artifacts :: "uuid \<Rightarrow> string \<Rightarrow> db \<Rightarrow> uuid list" where
  "current_artifacts sid code d =
     map xa_id (filter (\<lambda>a. xa_execution_run_id a \<in> set (current_runs sid code d)) (execution_artifacts d))"

definition current_published_jobs :: "uuid \<Rightarrow> db \<Rightarrow> uuid list" where
  "current_published_jobs sid d =
     map pj_id (filter (published_job_belongs (current_checks sid d) (current_assets sid d)
       (current_snapshots sid d)) (published_jobs d))"

definition current_renders :: "uuid \<Rightarrow> string \<Rightarrow> db \<Rightarrow> uuid list" where
  "current_renders sid code d =
     (let job_renders = List.map_filter pj_script_render_id
            (filter (\<lambda>j. pj_id j \<in> set (current_published_jobs sid d)) (published_jobs d))
      in map sr_id (filter (\<lambda>r. render_belongs (current_artifacts sid code d) (current_plans sid code d) r \<or>
           sr_id r \<in> set job_renders) (script_renders d)))"

definition queued_job_remains :: "teardown_ids \<Rightarrow> db \<Rightarrow> queued_job \<Rightarrow> teardown_error + bool" where
  "queued_job_remains t d j =
     (let sid = ti_system_id t; code = ti_system_code t;
          snapshots = map uuid_str (current_snapshots sid d @ ti_crawl_snapshot_ids t)
      in any_raises
        [Inr (dget (qj_payload j) ''system_id'' = PStr (uuid_str sid)),
         Inr (policy_in j (map uuid_str (current_policies sid d @ ti_auth_policy_ids t @ ti_crawl_policy_ids t))),
         in_texts (dget (qj_payload j) ''execution_request_id'')
           (map uuid_str (current_requests code d @ ti_execution_request_ids t)),
         in_texts (dget (qj_payload j) ''execution_plan_id'')
           (map uuid_str (current_plans sid code d @ ti_execution_plan_ids t)),
         in_texts (dget (qj_payload j) ''page_check_id'')
           (map uuid_str (current_checks sid d @ ti_page_check_ids t)),
         in_texts (dget (qj_payload j) ''snapshot_id'') snapshots,
         in_texts (result_value j ''snapshot_id'') snapshots])"

definition has_remaining_queued_jobs :: "teardown_ids \<Rightarrow> db \<Rightarrow> teardown_error + bool" where
  "has_remaining_queued_jobs t d =
     any_raises (map (queued_job_remains t d) (sort_key (\<lambda>j. uint (qj_id j)) (queued_jobs d)))"

definition job_run_remains :: "teardown_ids \<Rightarrow> db \<Rightarrow> job_run \<Rightarrow> bool" where
  "job_run_remains t d r \<longleftrightarrow>
     (let sid = ti_system_id t; code = ti_system_code t in
        jr_published_job_id r \<in> set (current_published_jobs sid d) \<or>
        in_ids (jr_execution_run_id r) (current_runs sid code d) \<or>
        in_ids (jr_script_render_id r) (current_renders sid code d) \<or>
        jr_published_job_id r \<in> set (ti_published_job_ids t) \<or>
        in_ids (jr_execution_run_id r) (ti_execution_run_ids t) \<or>
        in_ids (jr_script_render_id r) (ti_script_render_ids t) \<or>
        in_ids (jr_queued_job_id r) (ti_queued_job_ids t) \<or>
        in_ids (jr_policy_id r) (ti_auth_policy_ids t @ ti_crawl_policy_ids t))"

definition any_row :: "('r \<Rightarrow> bool) \<Rightarrow> 'r list \<Rightarrow> bool" where
  "any_row condition rows \<longleftrightarrow> (\<exists>r \<in> set rows. condition r)"

text \<open>Each table with the condition of its query; the queued jobs are looked through one by one.\<close>

definition table_checks :: "teardown_ids \<Rightarrow> db \<Rightarrow> bool \<Rightarrow> (string \<times> bool) list" where
  "table_checks t d jobs_left =
     (let sid = ti_system_id t; code = ti_system_code t; assets = current_assets sid d in
       [(''job_runs'', any_row (job_run_remains t d) (job_runs d)),
        (''published_jobs'', any_row (\<lambda>r. pj_id r \<in> set (current_published_jobs sid d @ ti_published_job_ids t))
           (published_jobs d)),
        (''queued_jobs'', jobs_left),
        (''execution_artifacts'', any_row (\<lambda>r. xa_id r \<in> set (current_artifacts sid code d @ ti_execution_artifact_ids t))
           (execution_artifacts d)),
        (''script_renders'', any_row (\<lambda>r. sr_id r \<in> set (current_renders sid code d @ ti_script_render_ids t))
           (script_renders d)),
        (''execution_runs'', any_row (\<lambda>r. xr_id r \<in> set (current_runs sid code d @ ti_execution_run_ids t))
           (execution_runs d)),
        (''execution_plans'', any_row (\<lambda>r. ep_id r \<in> set (current_plans sid code d @ ti_execution_plan_ids t))
           (execution_plans d)),
        (''execution_requests'', any_row (\<lambda>r. er_system_hint r = code \<or> er_id r \<in> set (ti_execution_request_ids t))
           (execution_requests d)),
        (''asset_reconciliation_audits'',
          any_row (\<lambda>r. ra_snapshot_id r \<in> set (current_snapshots sid d) \<or> ra_id r \<in> set (ti_reconciliation_audit_ids t))
            (asset_reconciliation_audits d)),
        (''asset_snapshots'', any_row (\<lambda>r. as_page_asset_id r \<in> set assets \<or> as_id r \<in> set (ti_asset_snapshot_ids t))
           (asset_snapshots d)),
        (''module_plans'', any_row (\<lambda>r. mp_page_asset_id r \<in> set assets \<or> mp_id r \<in> set (ti_module_plan_ids t))
           (module_plans d)),
        (''intent_aliases'', any_row (\<lambda>r. intent_alias_belongs sid code d r \<or> ia_id r \<in> set (ti_intent_alias_ids t))
           (intent_aliases d)),
        (''page_navigation_aliases'',
          any_row (\<lambda>r. na_system_id r = sid \<or> na_page_asset_id r \<in> set assets \<or> na_id r \<in> set (ti_navigation_alias_ids t))
            (page_navigation_aliases d)),
        (''page_checks'', any_row (\<lambda>r. pc_page_asset_id r \<in> set assets \<or> pc_id r \<in> set (ti_page_check_ids t))
           (page_checks d)),
        (''page_assets'', any_row (\<lambda>r. pa_system_id r = sid \<or> pa_id r \<in> set (ti_page_asset_ids t)) (page_assets d)),
        (''page_elements'', any_row (\<lambda>r. pe_system_id r = sid \<or> pe_id r \<in> set (ti_page_element_ids t))
           (page_elements d)),
        (''menu_nodes'', any_row (\<lambda>r. mn_system_id r = sid \<or> mn_id r \<in> set (ti_menu_node_ids t)) (menu_nodes d)),
        (''pages'', any_row (\<lambda>r. pg_system_id r = sid \<or> pg_id r \<in> set (ti_page_ids t)) (pages d)),
        (''crawl_snapshots'', any_row (\<lambda>r. cs_system_id r = sid \<or> cs_id r \<in> set (ti_crawl_snapshot_ids t))
           (crawl_snapshots d)),
        (''auth_states'', any_row (\<lambda>r. au_system_id r = sid \<or> au_id r \<in> set (ti_auth_state_ids t)) (auth_states d)),
        (''system_credentials'', any_row (\<lambda>r. sc_system_id r = sid \<or> sc_id r \<in> set (ti_system_credential_ids t))
           (system_credentials d)),
        (''system_auth_policies'', any_row (\<lambda>r. ap_system_id r = sid \<or> ap_id r \<in> set (ti_auth_policy_ids t))
           (system_auth_policies d)),
        (''system_crawl_policies'', any_row (\<lambda>r. cp_system_id r = sid \<or> cp_id r \<in> set (ti_crawl_policy_ids t))
           (system_crawl_policies d)),
        (''systems'', any_row (\<lambda>r. sys_id r = sid \<or> sys_code r = code) (systems d))])"

definition list_remaining_reference_tables :: "teardown_ids \<Rightarrow> db \<Rightarrow> teardown_error + string list" where
  "list_remaining_reference_tables t d =
     (case has_remaining_queued_jobs t d of
        Inl e \<Rightarrow> Inl e
      | Inr jobs_left \<Rightarrow> Inr (map fst (filter snd (table_checks t d jobs_left))))"

subsection \<open>The service\<close>

record teardown_result =
  tn_system_found :: bool
  tn_remaining_scheduler_job_ids :: "string list"
  tn_remaining_reference_tables :: "string list"

definition scheduler_job_ids_of :: "teardown_ids \<Rightarrow> string list" where
  "scheduler_job_ids_of t =
     [build_auth_policy_job_id (ti_system_id t), build_crawl_policy_job_id (ti_system_id t)] @
     map build_published_job_id (ti_published_job_ids t)"

definition remove_scheduler_jobs :: "teardown_ids \<Rightarrow> registry \<Rightarrow> registry" where
  "remove_scheduler_jobs t reg = fold registry_remove_job (scheduler_job_ids_of t) reg"

definition remaining_scheduler_job_ids :: "string list \<Rightarrow> registry \<Rightarrow> string list" where
  "remaining_scheduler_job_ids job_ids reg = sort (filter (\<lambda>i. reg i \<noteq> None) job_ids)"

definition teardown_system ::
  "string \<Rightarrow> db_session \<Rightarrow> registry option \<Rightarrow> (teardown_error + teardown_result) \<times> db_session \<times> registry option" where
  "teardown_system system_code s registry =
     (case List.find (\<lambda>r. sys_code r = system_code) (systems (working s)) of
        None \<Rightarrow> (Inr \<lparr>tn_system_found = False, tn_remaining_scheduler_job_ids = [],
                       tn_remaining_reference_tables = []\<rparr>, s, registry)
      | Some system \<Rightarrow>
     (case registry of
        None \<Rightarrow> (Inl (RuntimeErrorWith ''scheduler_registry is required for teardown''), s, registry)
      | Some reg \<Rightarrow>
     (case collect_system_teardown_ids system (working s) of
        Inl e \<Rightarrow> (Inl e, s, registry)
      | Inr t \<Rightarrow>
          (let reg' = remove_scheduler_jobs t reg in
           case loop_raises delete_by_ids (deletions t) (working s) of
             Inl e \<Rightarrow> (Inl e, rollback s, Some reg')
           | Inr d \<Rightarrow>
               (let s' = commit (modify (\<lambda>_. d) s) in
                case list_remaining_reference_tables t d of
                  Inl e \<Rightarrow> (Inl e, s', Some reg')
                | Inr tables \<Rightarrow>
                    (let jobs = remaining_scheduler_job_ids (scheduler_job_ids_of t) reg' in
                     if tables \<noteq> [] \<or> jobs \<noteq> [] then (Inl (Residue tables jobs), s', Some reg')
                     else (Inr \<lparr>tn_system_found = True, tn_remaining_scheduler_job_ids = [],
                                 tn_remaining_reference_tables = []\<rparr>, s', Some reg')))))))"

end
