(* ===== verification/TeardownResidue.thy ===== *)
theory TeardownResidue
  imports SystemTeardown
begin

section \<open>A teardown leaves nothing behind\<close>

text \<open>
  The queries that collect the rows of a system and the queries that look for what is left are
  written independently. Here: after deletions that the database accepted, the second set finds
  nothing, whatever rows the database held, as long as its own constraints hold.
\<close>

subsection \<open>Queries\<close>

lemma set_sorted_unique [simp]: "i \<in> set (sorted_unique vs) \<longleftrightarrow> Some i \<in> set vs"
  by (induction vs) (auto simp: sorted_unique_def map_filter_simps split: option.splits)

lemma sorted_unique_Nil [simp]: "sorted_unique [] = []"
  by (simp add: sorted_unique_def map_filter_simps)

lemma set_select_ids [simp]: "i \<in> set (select_ids f c rows) \<longleftrightarrow> (\<exists>r \<in> set rows. c r \<and> f r = i)"
  by (auto simp: select_ids_def)

lemma set_select_ids_for_column [simp]:
  "i \<in> set (select_ids_for_column target column ids rows) \<longleftrightarrow>
     (\<exists>r \<in> set rows. column r \<in> set ids \<and> target r = Some i)"
  by (auto simp: select_ids_for_column_def rev_image_eqI)

lemma in_map_filter: "i \<in> set (List.map_filter f xs) \<longleftrightarrow> (\<exists>x \<in> set xs. f x = Some i)"
  by (induction xs) (auto simp: map_filter_simps split: option.splits)

lemma in_ids_simps [simp]: "in_ids None ids = False" "in_ids (Some i) ids = (i \<in> set ids)" "in_ids v [] = False"
  by (simp_all add: in_ids_def split: option.splits)

lemma in_ids_iff: "in_ids v ids \<longleftrightarrow> (\<exists>i \<in> set ids. v = Some i)"
  by (auto simp: in_ids_def split: option.splits)

lemma any_raises_False: "any_raises cs = Inr False \<longleftrightarrow> (\<forall>c \<in> set cs. c = Inr False)"
  by (induction cs) (auto split: sum.splits)

lemma without_Nil [simp]: "without key [] rows = rows"
  by (simp add: without_def)

lemma in_without [simp]: "r \<in> set (without key ids rows) \<longleftrightarrow> r \<in> set rows \<and> key r \<notin> set ids"
  by (auto simp: without_def)

lemma without_selected:
  assumes "distinct (map key rows)"
  shows "without key (select_ids key c rows) rows = filter (\<lambda>r. \<not> c r) rows"
proof -
  have "r' = r" if "r \<in> set rows" "r' \<in> set rows" "key r' = key r" for r r'
    using assms that by (auto simp: distinct_map inj_on_def)
  then show ?thesis unfolding without_def by (intro filter_cong) auto
qed

lemma delete_rows_Nil [simp]: "delete_rows m [] d = d"
  by (cases m) simp_all

lemma delete_by_ids_Inr:
  "delete_by_ids (m, ids) d = Inr d' \<Longrightarrow> d' = delete_rows m ids d \<and>
     (\<forall>i \<in> set ids. i \<in> set (row_ids m d) \<longrightarrow> i \<notin> set (references_to m d'))"
  by (auto simp: delete_by_ids_def Let_def split: if_splits)

lemma deletes_Inr:
  "loop_raises delete_by_ids xs d = Inr d' \<Longrightarrow> d' = fold (\<lambda>(m, ids). delete_rows m ids) xs d"
  using loop_raises_Inr [where f = "\<lambda>(m, ids). delete_rows m ids" and body = delete_by_ids]
    delete_by_ids_Inr by fastforce

lemma deleted_unreferenced:
  assumes "loop_raises delete_by_ids (xs @ (m, ids) # ys) d = Inr d'" "i \<in> set ids"
    "i \<in> set (row_ids m (fold (\<lambda>(m, ids). delete_rows m ids) xs d))"
  shows "i \<notin> set (references_to m (delete_rows m ids (fold (\<lambda>(m, ids). delete_rows m ids) xs d)))"
proof -
  obtain d1 where 1: "loop_raises delete_by_ids xs d = Inr d1" "loop_raises delete_by_ids ((m, ids) # ys) d1 = Inr d'"
    using assms(1) by (auto simp: loop_raises_append split: sum.splits)
  then obtain d2 where 2: "delete_by_ids (m, ids) d1 = Inr d2" by (auto split: sum.splits)
  show ?thesis using delete_by_ids_Inr [OF 2] assms(2,3) deletes_Inr [OF 1(1)] by auto
qed

lemma remove_scheduler_jobs_apply:
  "remove_scheduler_jobs t reg k = (if k \<in> set (scheduler_job_ids_of t) then None else reg k)"
proof -
  have "fold registry_remove_job ks reg k = (if k \<in> set ks then None else reg k)" for ks reg
    by (induction ks arbitrary: reg) (auto simp: registry_remove_job_def)
  then show ?thesis by (simp add: remove_scheduler_jobs_def)
qed

lemma no_scheduler_jobs_remain [simp]:
  "remaining_scheduler_job_ids (scheduler_job_ids_of t) (remove_scheduler_jobs t reg) = []"
  by (simp add: remaining_scheduler_job_ids_def remove_scheduler_jobs_apply filter_empty_conv)

lemma collect_runs_keeps [simp]:
  "ti_system_id (collect_runs d t) = ti_system_id t" "ti_system_code (collect_runs d t) = ti_system_code t"
  "ti_published_job_ids (collect_runs d t) = ti_published_job_ids t"
  "ti_page_check_ids (collect_runs d t) = ti_page_check_ids t"
  "ti_page_asset_ids (collect_runs d t) = ti_page_asset_ids t"
  "ti_navigation_alias_ids (collect_runs d t) = ti_navigation_alias_ids t"
  "ti_intent_alias_ids (collect_runs d t) = ti_intent_alias_ids t"
  "ti_module_plan_ids (collect_runs d t) = ti_module_plan_ids t"
  "ti_asset_snapshot_ids (collect_runs d t) = ti_asset_snapshot_ids t"
  "ti_reconciliation_audit_ids (collect_runs d t) = ti_reconciliation_audit_ids t"
  "ti_page_ids (collect_runs d t) = ti_page_ids t" "ti_menu_node_ids (collect_runs d t) = ti_menu_node_ids t"
  "ti_page_element_ids (collect_runs d t) = ti_page_element_ids t"
  "ti_crawl_snapshot_ids (collect_runs d t) = ti_crawl_snapshot_ids t"
  "ti_auth_state_ids (collect_runs d t) = ti_auth_state_ids t"
  "ti_system_credential_ids (collect_runs d t) = ti_system_credential_ids t"
  "ti_auth_policy_ids (collect_runs d t) = ti_auth_policy_ids t"
  "ti_crawl_policy_ids (collect_runs d t) = ti_crawl_policy_ids t"
  "ti_execution_plan_ids (collect_runs d t) = ti_execution_plan_ids t"
  "ti_execution_request_ids (collect_runs d t) = ti_execution_request_ids t"
  by (simp_all add: collect_runs_def Let_def)

lemma collect_executions_keeps [simp]:
  "ti_system_id (collect_executions d t) = ti_system_id t" "ti_system_code (collect_executions d t) = ti_system_code t"
  "ti_page_check_ids (collect_executions d t) = ti_page_check_ids t"
  "ti_page_asset_ids (collect_executions d t) = ti_page_asset_ids t"
  "ti_navigation_alias_ids (collect_executions d t) = ti_navigation_alias_ids t"
  "ti_intent_alias_ids (collect_executions d t) = ti_intent_alias_ids t"
  "ti_module_plan_ids (collect_executions d t) = ti_module_plan_ids t"
  "ti_asset_snapshot_ids (collect_executions d t) = ti_asset_snapshot_ids t"
  "ti_reconciliation_audit_ids (collect_executions d t) = ti_reconciliation_audit_ids t"
  "ti_page_ids (collect_executions d t) = ti_page_ids t" "ti_menu_node_ids (collect_executions d t) = ti_menu_node_ids t"
  "ti_page_element_ids (collect_executions d t) = ti_page_element_ids t"
  "ti_crawl_snapshot_ids (collect_executions d t) = ti_crawl_snapshot_ids t"
  "ti_auth_state_ids (collect_executions d t) = ti_auth_state_ids t"
  "ti_system_credential_ids (collect_executions d t) = ti_system_credential_ids t"
  "ti_auth_policy_ids (collect_executions d t) = ti_auth_policy_ids t"
  "ti_crawl_policy_ids (collect_executions d t) = ti_crawl_policy_ids t"
  by (simp_all add: collect_executions_def Let_def)

lemma queued_job_belongs_frame [simp]:
  "queued_job_belongs (t\<lparr>ti_queued_job_ids := ids\<rparr>) j = queued_job_belongs t j"
  by (simp add: queued_job_belongs_def)

lemma collect_queued_frame [simp]:
  "collect_queued_job_ids (t\<lparr>ti_queued_job_ids := ids\<rparr>) js = collect_queued_job_ids t js"
  by (induction js) (simp_all split: sum.splits)

lemma collected:
  assumes "collect_system_teardown_ids system d = Inr t"
  obtains t0 ids where "t0 = (collect_executions d (collect_facts system d))\<lparr>ti_queued_job_ids := sorted_unique ids\<rparr>"
    "collect_queued_job_ids t0 (queued_jobs d) = Inr ids" "t = collect_runs d t0"
  using assms by (auto simp: collect_system_teardown_ids_def Let_def split: sum.splits)

text \<open>The tables after the deletions.\<close>

lemma tables_deleted:
  assumes "loop_raises delete_by_ids (deletions t) d = Inr d'"
  shows "job_runs d' = without jr_id (ti_job_run_ids t) (job_runs d)"
    "published_jobs d' = without pj_id (ti_published_job_ids t) (published_jobs d)"
    "queued_jobs d' = without qj_id (ti_queued_job_ids t) (queued_jobs d)"
    "script_renders d' = without sr_id (ti_script_render_ids t) (script_renders d)"
    "execution_artifacts d' = without xa_id (ti_execution_artifact_ids t) (execution_artifacts d)"
    "execution_runs d' = without xr_id (ti_execution_run_ids t) (execution_runs d)"
    "execution_plans d' = without ep_id (ti_execution_plan_ids t) (execution_plans d)"
    "execution_requests d' = without er_id (ti_execution_request_ids t) (execution_requests d)"
    "asset_reconciliation_audits d' = without ra_id (ti_reconciliation_audit_ids t) (asset_reconciliation_audits d)"
    "asset_snapshots d' = without as_id (ti_asset_snapshot_ids t) (asset_snapshots d)"
    "module_plans d' = without mp_id (ti_module_plan_ids t) (module_plans d)"
    "intent_aliases d' = without ia_id (ti_intent_alias_ids t) (intent_aliases d)"
    "page_navigation_aliases d' = without na_page_asset_id (ti_page_asset_ids t)
       (without na_id (ti_navigation_alias_ids t) (page_navigation_aliases d))"
    "page_checks d' = without pc_id (ti_page_check_ids t) (page_checks d)"
    "page_assets d' = without pa_id (ti_page_asset_ids t) (page_assets d)"
    "page_elements d' = without pe_id (ti_page_element_ids t) (page_elements d)"
    "menu_nodes d' = without mn_id (ti_menu_node_ids t) (menu_nodes d)"
    "pages d' = without pg_id (ti_page_ids t) (pages d)"
    "crawl_snapshots d' = without cs_id (ti_crawl_snapshot_ids t) (crawl_snapshots d)"
    "auth_states d' = without au_id (ti_auth_state_ids t) (auth_states d)"
    "system_credentials d' = without sc_id (ti_system_credential_ids t) (system_credentials d)"
    "system_auth_policies d' = without ap_id (ti_auth_policy_ids t) (system_auth_policies d)"
    "system_crawl_policies d' = without cp_id (ti_crawl_policy_ids t) (system_crawl_policies d)"
    "systems d' = without sys_id [ti_system_id t] (systems d)"
  unfolding deletes_Inr [OF assms] deletions_def by simp_all

lemma runs_unreferenced:
  assumes "loop_raises delete_by_ids (deletions t) d = Inr d'" "r \<in> set (job_runs d')"
  shows "jr_queued_job_id r = Some i \<Longrightarrow> i \<in> set (map qj_id (queued_jobs d)) \<Longrightarrow> i \<notin> set (ti_queued_job_ids t)"
    "jr_script_render_id r = Some i \<Longrightarrow> i \<in> set (map sr_id (script_renders d)) \<Longrightarrow> i \<notin> set (ti_script_render_ids t)"
    "jr_execution_run_id r = Some i \<Longrightarrow> i \<in> set (map xr_id (execution_runs d)) \<Longrightarrow> i \<notin> set (ti_execution_run_ids t)"
proof -
  have r: "r \<in> set (without jr_id (ti_job_run_ids t) (job_runs d))"
    using assms tables_deleted(1) by metis
  obtain ys1 ys2 ys3 where split: "deletions t = [(JobRunModel, ti_job_run_ids t),
        (PublishedJobModel, ti_published_job_ids t)] @ (QueuedJobModel, ti_queued_job_ids t) # ys1"
    "deletions t = [(JobRunModel, ti_job_run_ids t), (PublishedJobModel, ti_published_job_ids t),
        (QueuedJobModel, ti_queued_job_ids t)] @ (ScriptRenderModel, ti_script_render_ids t) # ys2"
    "deletions t = [(JobRunModel, ti_job_run_ids t), (PublishedJobModel, ti_published_job_ids t),
        (QueuedJobModel, ti_queued_job_ids t), (ScriptRenderModel, ti_script_render_ids t),
        (ExecutionArtifactModel, ti_execution_artifact_ids t)] @
      (ExecutionRunModel, ti_execution_run_ids t) # ys3"
    by (simp add: deletions_def)
  show "jr_queued_job_id r = Some i \<Longrightarrow> i \<in> set (map qj_id (queued_jobs d)) \<Longrightarrow> i \<notin> set (ti_queued_job_ids t)"
    using deleted_unreferenced [OF assms(1) [unfolded split(1)], of i] r
    by (auto simp: references_to_def in_map_filter)
  show "jr_script_render_id r = Some i \<Longrightarrow> i \<in> set (map sr_id (script_renders d)) \<Longrightarrow> i \<notin> set (ti_script_render_ids t)"
    using deleted_unreferenced [OF assms(1) [unfolded split(2)], of i] r
    by (auto simp: references_to_def in_map_filter)
  show "jr_execution_run_id r = Some i \<Longrightarrow> i \<in> set (map xr_id (execution_runs d)) \<Longrightarrow> i \<notin> set (ti_execution_run_ids t)"
    using deleted_unreferenced [OF assms(1) [unfolded split(3)], of i] r
    by (auto simp: references_to_def in_map_filter)
qed

subsection \<open>Nothing is left\<close>

lemma Some_in_image [simp]: "Some i \<in> Some ` A \<longleftrightarrow> i \<in> A"
  by auto

text \<open>What the database's constraints guarantee: the keys a job run refers to exist, and no two systems
  share a code.\<close>

definition key_exists :: "uuid option \<Rightarrow> uuid list \<Rightarrow> bool" where
  "key_exists v ids = (case v of None \<Rightarrow> True | Some i \<Rightarrow> i \<in> set ids)"

definition constraints_hold :: "db \<Rightarrow> bool" where
  "constraints_hold d \<longleftrightarrow> distinct (map sys_code (systems d)) \<and>
     list_all (\<lambda>r. key_exists (jr_queued_job_id r) (map qj_id (queued_jobs d)) \<and>
       key_exists (jr_script_render_id r) (map sr_id (script_renders d)) \<and>
       key_exists (jr_execution_run_id r) (map xr_id (execution_runs d))) (job_runs d)"

lemma collected_queued:
  "collect_queued_job_ids t js = Inr ids \<Longrightarrow> j \<in> set js \<Longrightarrow> Some (qj_id j) \<notin> set ids \<Longrightarrow>
    queued_job_belongs t j = Inr False"
  by (induction js arbitrary: ids) (fastforce split: sum.splits if_splits)+

lemma in_texts_append: "in_texts v known = Inr False \<Longrightarrow> set fewer \<subseteq> set known \<Longrightarrow> in_texts v fewer = Inr False"
  by (auto simp: in_texts_def split: pyval.splits)

lemma belongs_fields:
  assumes "collect_system_teardown_ids system d = Inr t"
  shows "ti_system_id t = sys_id system" "ti_system_code t = sys_code system"
    "ti_page_asset_ids t = select_ids pa_id (\<lambda>a. pa_system_id a = sys_id system) (page_assets d)"
    "ti_crawl_snapshot_ids t = select_ids cs_id (\<lambda>c. cs_system_id c = sys_id system) (crawl_snapshots d)"
    "ti_page_check_ids t =
       select_ids_for_column (\<lambda>c. Some (pc_id c)) pc_page_asset_id (ti_page_asset_ids t) (page_checks d)"
    "ti_navigation_alias_ids t =
       select_ids na_id (\<lambda>n. na_system_id n = sys_id system \<or> na_page_asset_id n \<in> set (ti_page_asset_ids t))
         (page_navigation_aliases d)"
    "ti_intent_alias_ids t = select_ids ia_id (intent_alias_belongs (sys_id system) (sys_code system) d) (intent_aliases d)"
    "ti_module_plan_ids t =
       select_ids_for_column (\<lambda>m. Some (mp_id m)) mp_page_asset_id (ti_page_asset_ids t) (module_plans d)"
    "ti_asset_snapshot_ids t =
       select_ids_for_column (\<lambda>a. Some (as_id a)) as_page_asset_id (ti_page_asset_ids t) (asset_snapshots d)"
    "ti_reconciliation_audit_ids t =
       select_ids_for_column (\<lambda>a. Some (ra_id a)) ra_snapshot_id (ti_crawl_snapshot_ids t) (asset_reconciliation_audits d)"
    "ti_page_ids t = select_ids pg_id (\<lambda>p. pg_system_id p = sys_id system) (pages d)"
    "ti_menu_node_ids t = select_ids mn_id (\<lambda>m. mn_system_id m = sys_id system) (menu_nodes d)"
    "ti_page_element_ids t = select_ids pe_id (\<lambda>e. pe_system_id e = sys_id system) (page_elements d)"
    "ti_auth_state_ids t = select_ids au_id (\<lambda>a. au_system_id a = sys_id system) (auth_states d)"
    "ti_system_credential_ids t = select_ids sc_id (\<lambda>c. sc_system_id c = sys_id system) (system_credentials d)"
    "ti_auth_policy_ids t = select_ids ap_id (\<lambda>p. ap_system_id p = sys_id system) (system_auth_policies d)"
    "ti_crawl_policy_ids t = select_ids cp_id (\<lambda>p. cp_system_id p = sys_id system) (system_crawl_policies d)"
  using assms by (elim collected; simp add: collect_facts_def Let_def)+

lemma belongs_executions:
  assumes "collect_system_teardown_ids system d = Inr t"
  shows "r \<in> set (execution_requests d) \<Longrightarrow> er_system_hint r = sys_code system \<Longrightarrow> er_id r \<in> set (ti_execution_request_ids t)"
    "p \<in> set (execution_plans d) \<Longrightarrow> ep_resolved_system_id p = Some (sys_id system) \<Longrightarrow> ep_id p \<in> set (ti_execution_plan_ids t)"
    "ti_published_job_ids t = select_ids pj_id (published_job_belongs (ti_page_check_ids t) (ti_page_asset_ids t)
       (ti_crawl_snapshot_ids t)) (published_jobs d)"
proof -
  obtain t0 ids where t: "t0 = (collect_executions d (collect_facts system d))\<lparr>ti_queued_job_ids := sorted_unique ids\<rparr>"
    "t = collect_runs d t0" using collected [OF assms] by metis
  have f: "ti_system_id (collect_facts system d) = sys_id system" "ti_system_code (collect_facts system d) = sys_code system"
    by (simp_all add: collect_facts_def Let_def)
  show "ti_published_job_ids t = select_ids pj_id (published_job_belongs (ti_page_check_ids t) (ti_page_asset_ids t)
       (ti_crawl_snapshot_ids t)) (published_jobs d)"
    unfolding t by (simp add: collect_executions_def Let_def)
  show "r \<in> set (execution_requests d) \<Longrightarrow> er_system_hint r = sys_code system \<Longrightarrow> er_id r \<in> set (ti_execution_request_ids t)"
    unfolding t by (auto simp: collect_executions_def Let_def f)
  show "p \<in> set (execution_plans d) \<Longrightarrow> ep_resolved_system_id p = Some (sys_id system) \<Longrightarrow> ep_id p \<in> set (ti_execution_plan_ids t)"
    unfolding t by (auto simp: collect_executions_def Let_def f plan_belongs_def)
qed

text \<open>After the deletions the subqueries are empty.\<close>

lemma nothing_current:
  assumes "collect_system_teardown_ids system d = Inr t" "loop_raises delete_by_ids (deletions t) d = Inr d'"
  shows "current_assets (ti_system_id t) d' = []" "current_checks (ti_system_id t) d' = []"
    "current_module_plans (ti_system_id t) d' = []" "current_snapshots (ti_system_id t) d' = []"
    "current_policies (ti_system_id t) d' = []" "current_requests (ti_system_code t) d' = []"
    "current_plans (ti_system_id t) (ti_system_code t) d' = []"
    "current_runs (ti_system_id t) (ti_system_code t) d' = []"
    "current_artifacts (ti_system_id t) (ti_system_code t) d' = []"
    "current_published_jobs (ti_system_id t) d' = []"
    "current_renders (ti_system_id t) (ti_system_code t) d' = []"
proof -
  note f = belongs_fields [OF assms(1)] and e = belongs_executions [OF assms(1)] and g = tables_deleted [OF assms(2)]
  show a: "current_assets (ti_system_id t) d' = []"
    by (auto simp: current_assets_def g f(1,3) filter_empty_conv)
  show c: "current_checks (ti_system_id t) d' = []" by (simp add: current_checks_def a)
  show m: "current_module_plans (ti_system_id t) d' = []" by (simp add: current_module_plans_def a)
  show s: "current_snapshots (ti_system_id t) d' = []"
    by (auto simp: current_snapshots_def g f(1,4) filter_empty_conv)
  show "current_policies (ti_system_id t) d' = []"
    by (auto simp: current_policies_def g f(1,16,17) filter_empty_conv)
  show r: "current_requests (ti_system_code t) d' = []"
    using e(1) by (auto simp: current_requests_def g f(2) filter_empty_conv)
  show p: "current_plans (ti_system_id t) (ti_system_code t) d' = []"
    using e(2) by (auto simp: current_plans_def plan_belongs_def a [unfolded f(1)] c [unfolded f(1)] m [unfolded f(1)] r [unfolded f(2)] g f(1,2)
        filter_empty_conv)
  show x: "current_runs (ti_system_id t) (ti_system_code t) d' = []" by (simp add: current_runs_def p)
  show y: "current_artifacts (ti_system_id t) (ti_system_code t) d' = []" by (simp add: current_artifacts_def x)
  show j: "current_published_jobs (ti_system_id t) d' = []"
    by (simp add: current_published_jobs_def published_job_belongs_def a c s)
  show "current_renders (ti_system_id t) (ti_system_code t) d' = []"
    by (simp add: current_renders_def j p y render_belongs_def map_filter_simps)
qed

lemma no_job_remains:
  assumes "collect_system_teardown_ids system d = Inr t" "loop_raises delete_by_ids (deletions t) d = Inr d'"
  shows "has_remaining_queued_jobs t d' = Inr False"
proof -
  obtain t0 ids where t: "collect_queued_job_ids t0 (queued_jobs d) = Inr ids" "t = collect_runs d t0"
    "ti_queued_job_ids t0 = sorted_unique ids"
    using collected [OF assms(1)] by (metis teardown_ids.select_convs(25) teardown_ids.surjective teardown_ids.update_convs(25))
  have "queued_job_remains t d' j = Inr False" if "j \<in> set (queued_jobs d')" for j
  proof -
    have j: "j \<in> set (queued_jobs d)" "qj_id j \<notin> set (ti_queued_job_ids t)"
      using that by (auto simp: tables_deleted [OF assms(2)])
    then have "Some (qj_id j) \<notin> set ids" by (auto simp: t(2,3) collect_runs_def Let_def)
    then have b: "queued_job_belongs t0 j = Inr False" using collected_queued [OF t(1) j(1)] by blast
    then show ?thesis
      unfolding queued_job_remains_def nothing_current [OF assms] Let_def queued_job_belongs_def any_raises_False
      by (simp add: t(2))
  qed
  then show ?thesis by (auto simp: has_remaining_queued_jobs_def any_raises_False)
qed

lemma no_run_remains:
  assumes "collect_system_teardown_ids system d = Inr t" "loop_raises delete_by_ids (deletions t) d = Inr d'"
    "constraints_hold d" "r \<in> set (job_runs d')"
  shows "\<not> job_run_remains t d' r"
proof -
  obtain t0 ids where t: "t = collect_runs d t0" using collected [OF assms(1)] by metis
  have r: "r \<in> set (job_runs d)" "jr_id r \<notin> set (ti_job_run_ids t)"
    using assms(4) by (auto simp: tables_deleted [OF assms(2)])
  then have "\<not> job_run_belongs t0 r" by (auto simp: t collect_runs_def Let_def)
  moreover have "key_exists (jr_queued_job_id r) (map qj_id (queued_jobs d))"
    "key_exists (jr_script_render_id r) (map sr_id (script_renders d))"
    "key_exists (jr_execution_run_id r) (map xr_id (execution_runs d))"
    using assms(3) r(1) by (auto simp: constraints_hold_def list_all_iff)
  then have "\<not> in_ids (jr_queued_job_id r) (ti_queued_job_ids t)" "\<not> in_ids (jr_script_render_id r) (ti_script_render_ids t)"
    "\<not> in_ids (jr_execution_run_id r) (ti_execution_run_ids t)"
    using runs_unreferenced [OF assms(2,4)] by (auto simp: in_ids_iff key_exists_def)
  ultimately show ?thesis
    unfolding job_run_remains_def nothing_current [OF assms(1,2)] Let_def by (simp add: job_run_belongs_def t)
qed

lemma no_table_remains:
  assumes "collect_system_teardown_ids system d = Inr t" "loop_raises delete_by_ids (deletions t) d = Inr d'"
    "constraints_hold d" "system \<in> set (systems d)"
  shows "list_remaining_reference_tables t d' = Inr []"
proof -
  note f = belongs_fields [OF assms(1)] and e = belongs_executions [OF assms(1)] and g = tables_deleted [OF assms(2)]
  have runs: "\<not> any_row (job_run_remains t d') (job_runs d')"
    using no_run_remains [OF assms(1-3)] by (simp add: any_row_def)
  have same: "s = system" if "s \<in> set (systems d)" "sys_code s = sys_code system" for s
    using assms(3,4) that by (auto simp: constraints_hold_def distinct_map inj_on_def)
  have systems: "\<not> any_row (\<lambda>r. sys_id r = ti_system_id t \<or> sys_code r = ti_system_code t) (systems d')"
    by (auto simp: any_row_def g f(1,2) dest: same)
  have aliases: "\<not> any_row (\<lambda>r. intent_alias_belongs (ti_system_id t) (ti_system_code t) d' r \<or>
      ia_id r \<in> set (ti_intent_alias_ids t)) (intent_aliases d')"
    by (auto simp: any_row_def g f(1,2,3,7) intent_alias_belongs_def)
  have "\<not> snd c" if "c \<in> set (table_checks t d' False)" for c
    using that unfolding table_checks_def Let_def nothing_current [OF assms(1,2)] list.set insert_iff empty_iff
  proof (elim disjE FalseE)
  qed (simp_all add: runs systems aliases, auto simp: any_row_def g f(1-6) f(8-) e(1))
  then show ?thesis
    by (simp add: list_remaining_reference_tables_def no_job_remains [OF assms(1,2)] filter_empty_conv)
qed

subsection \<open>The teardown as a whole\<close>

lemma find_code: "List.find (\<lambda>r. sys_code r = code) (systems d) = Some system \<Longrightarrow> system \<in> set (systems d) \<and> sys_code system = code"
  by (auto simp: find_Some_iff)

lemma code_gone:
  assumes "collect_system_teardown_ids system d = Inr t" "loop_raises delete_by_ids (deletions t) d = Inr d'"
    "constraints_hold d" "system \<in> set (systems d)"
  shows "sys_code system \<notin> set (map sys_code (systems d'))"
proof
  assume "sys_code system \<in> set (map sys_code (systems d'))"
  then obtain s where s: "s \<in> set (systems d)" "sys_id s \<noteq> sys_id system" "sys_code s = sys_code system"
    by (auto simp: tables_deleted [OF assms(2)] belongs_fields [OF assms(1)])
  then have "s = system" using assms(3,4) by (auto simp: constraints_hold_def distinct_map inj_on_def)
  then show False using s(2) by simp
qed

lemma column_select: "select_ids_for_column (\<lambda>r. Some (f r)) column ids rows = select_ids f (\<lambda>r. column r \<in> set ids) rows"
  by (simp add: select_ids_for_column_def select_ids_def)

lemma clean_rollback: "clean s \<Longrightarrow> rollback s = s"
  by (simp add: clean_def rollback_def)

lemma any_raises_Inl: "any_raises cs = Inl e \<Longrightarrow> Inl e \<in> set cs"
  by (induction cs) (auto split: sum.splits if_splits)

lemma in_texts_Inl: "in_texts v known = Inl e \<Longrightarrow> e = TypeError"
  by (auto simp: in_texts_def split: pyval.splits)

lemma collect_queued_Inl: "collect_queued_job_ids t js = Inl e \<Longrightarrow> e = TypeError"
proof (induction js)
  case (Cons j js)
  have "e' = TypeError" if "queued_job_belongs t j = Inl e'" for e'
    using any_raises_Inl [OF that [unfolded queued_job_belongs_def]]
    by (auto dest!: sym [of "Inl _"] in_texts_Inl)
  then show ?case using Cons by (auto split: sum.splits if_splits)
qed simp

text \<open>The three ways a teardown of an existing system goes.\<close>

lemma teardown_cases:
  assumes "teardown_system code s (Some reg) = (r, s', reg')" "clean s" "constraints_hold (working s)"
    "List.find (\<lambda>r. sys_code r = code) (systems (working s)) = Some system"
  obtains (unreadable) "collect_system_teardown_ids system (working s) = Inl TypeError" "r = Inl TypeError" "s' = s" "reg' = Some reg"
    | (refused) t where "collect_system_teardown_ids system (working s) = Inr t"
        "loop_raises delete_by_ids (deletions t) (working s) = Inl IntegrityError" "r = Inl IntegrityError" "s' = s"
        "reg' = Some (remove_scheduler_jobs t reg)"
    | (removed) t where "collect_system_teardown_ids system (working s) = Inr t"
        "loop_raises delete_by_ids (deletions t) (working s) = Inr (working s')" "clean s'"
        "r = Inr \<lparr>tn_system_found = True, tn_remaining_scheduler_job_ids = [], tn_remaining_reference_tables = []\<rparr>"
        "reg' = Some (remove_scheduler_jobs t reg)"
proof (cases "collect_system_teardown_ids system (working s)")
  case (Inl e)
  moreover have "e = TypeError"
    using Inl by (auto simp: collect_system_teardown_ids_def Let_def split: sum.splits dest: collect_queued_Inl)
  ultimately show thesis using assms(1,4) by (intro unreadable) (simp_all add: teardown_system_def)
next
  case (Inr t)
  show thesis
  proof (cases "loop_raises delete_by_ids (deletions t) (working s)")
    case (Inl e)
    have "loop_raises delete_by_ids xs d = Inl e' \<Longrightarrow> e' = IntegrityError" for xs d e'
      by (induction xs arbitrary: d) (auto simp: delete_by_ids_def Let_def split: sum.splits if_splits prod.splits)
    from this [OF Inl] show thesis
      using assms(1,4) Inl Inr clean_rollback [OF assms(2)] by (intro refused) (auto simp: teardown_system_def Let_def)
  next
    case (Inr d)
    have "list_remaining_reference_tables t d = Inr []"
      using no_table_remains [OF \<open>_ = Inr t\<close> Inr assms(3)] find_code [OF assms(4)] by blast
    then show thesis
      using assms(1,4) Inr \<open>_ = Inr t\<close>
      by (intro removed) (auto simp: teardown_system_def Let_def clean_def modify_def commit_def)
  qed
qed

text \<open>C11: a teardown never reports residue. Whatever the database holds, as long as its constraints hold:
  the system is gone afterwards and nothing that refers to it is left, or the teardown raises and
  the database is what it was. The independent queries that look for residue find nothing.\<close>

theorem teardown_all_or_nothing:
  assumes "teardown_system code s (Some reg) = (r, s', reg')" "clean s" "constraints_hold (working s)"
  shows "case r of
      Inl e \<Rightarrow> e \<in> {TypeError, IntegrityError} \<and> s' = s
    | Inr result \<Rightarrow> clean s' \<and> code \<notin> set (map sys_code (systems (committed s'))) \<and>
        tn_remaining_reference_tables result = [] \<and> tn_remaining_scheduler_job_ids result = []"
proof (cases "List.find (\<lambda>r. sys_code r = code) (systems (working s))")
  case None
  then have "code \<notin> set (map sys_code (systems (working s)))" by (auto simp: find_None_iff)
  then show ?thesis using assms(1,2) None by (auto simp: teardown_system_def clean_def)
next
  case (Some system)
  from assms(1-3) Some show ?thesis
  proof (cases rule: teardown_cases)
    case (removed t)
    have "code \<notin> set (map sys_code (systems (working s')))"
      using code_gone [OF removed(1,2) assms(3)] find_code [OF Some] by blast
    then show ?thesis using removed by (simp add: clean_def)
  qed simp_all
qed

definition keys_distinct :: "db \<Rightarrow> bool" where
  "keys_distinct d \<longleftrightarrow> list_all (\<lambda>m. distinct (row_ids m d))
     [PageCheckModel, PageAssetModel, PageElementModel, MenuNodeModel, PageModel, CrawlSnapshotModel,
      AuthStateModel, SystemCredentialModel, SystemAuthPolicyModel, SystemCrawlPolicyModel, SystemModel]"

lemma mirrors_after_removal:
  assumes "collect_system_teardown_ids system d = Inr t" "loop_raises delete_by_ids (deletions t) d = Inr d'"
    "mirrors d reg"
  shows "mirrors d' (remove_scheduler_jobs t reg)"
proof -
  note f = belongs_fields [OF assms(1)] and g = tables_deleted [OF assms(2)]
  have kept: "w \<in> set (wishes d) \<and> fst w \<notin> set (scheduler_job_ids_of t)" if "w \<in> set (wishes d')" for w
    using that
    by (auto simp: wishes_def g f(1,16,17) scheduler_job_ids_of_def published_job_wish_def auth_policy_wish_def
        crawl_policy_wish_def)
  show ?thesis
    unfolding mirrors_def
  proof clarify
    fix k e assume "(k, e) \<in> set (wishes d')"
    from kept [OF this] show "remove_scheduler_jobs t reg k = e"
      using assms(3) by (auto simp: mirrors_def remove_scheduler_jobs_apply)
  qed
qed

text \<open>C13: a successful teardown removes the facts, assets, policies and credentials of its system and of no
  other: what is left is each table without the rows of the system. The registry loses exactly the
  schedules of the system's two policies and of the published jobs that were deleted, and stays in step
  with the database.\<close>

theorem teardown_spares_other_systems:
  assumes "teardown_system code s (Some reg) = (Inr result, s', Some reg')" "clean s" "constraints_hold (working s)"
    "keys_distinct (working s)" "find_row sys_code code (systems (working s)) = Some system" "mirrors (committed s) reg"
  shows "let d = committed s; d' = committed s'; sid = sys_id system in
      page_assets d' = filter (\<lambda>r. pa_system_id r \<noteq> sid) (page_assets d) \<and>
      page_checks d' = filter (\<lambda>r. pc_page_asset_id r \<notin> set (current_assets sid d)) (page_checks d) \<and>
      pages d' = filter (\<lambda>r. pg_system_id r \<noteq> sid) (pages d) \<and>
      menu_nodes d' = filter (\<lambda>r. mn_system_id r \<noteq> sid) (menu_nodes d) \<and>
      page_elements d' = filter (\<lambda>r. pe_system_id r \<noteq> sid) (page_elements d) \<and>
      crawl_snapshots d' = filter (\<lambda>r. cs_system_id r \<noteq> sid) (crawl_snapshots d) \<and>
      auth_states d' = filter (\<lambda>r. au_system_id r \<noteq> sid) (auth_states d) \<and>
      system_credentials d' = filter (\<lambda>r. sc_system_id r \<noteq> sid) (system_credentials d) \<and>
      system_auth_policies d' = filter (\<lambda>r. ap_system_id r \<noteq> sid) (system_auth_policies d) \<and>
      system_crawl_policies d' = filter (\<lambda>r. cp_system_id r \<noteq> sid) (system_crawl_policies d) \<and>
      systems d' = filter (\<lambda>r. sys_id r \<noteq> sid) (systems d) \<and>
      mirrors d' reg' \<and>
      (\<forall>k. reg' k =
        (if k \<in> {build_auth_policy_job_id sid, build_crawl_policy_job_id sid} \<union>
              (\<lambda>pj. build_published_job_id (pj_id pj)) ` (set (published_jobs d) - set (published_jobs d'))
         then None else reg k))"
proof -
  have find: "List.find (\<lambda>r. sys_code r = code) (systems (working s)) = Some system"
    using assms(5) by (simp add: find_row_def)
  from assms(1-3) find show ?thesis
  proof (cases rule: teardown_cases)
    case (removed t)
    note f = belongs_fields [OF removed(1)] and g = tables_deleted [OF removed(2)]
    have checks: "ti_page_check_ids t =
        select_ids pc_id (\<lambda>c. pc_page_asset_id c \<in> set (current_assets (sys_id system) (working s))) (page_checks (working s))"
    proof -
      have "i \<in> set (ti_page_asset_ids t) \<longleftrightarrow> i \<in> set (current_assets (sys_id system) (working s))" for i
        by (auto simp: f(3) current_assets_def)
      then show ?thesis by (simp only: f(5) column_select)
    qed
    have wishes: "mirrors (working s) reg \<Longrightarrow> mirrors (working s') reg'"
      using mirrors_after_removal [OF removed(1,2)] removed(5) by simp
    have "distinct (map pc_id (page_checks (working s)))" "distinct (map pa_id (page_assets (working s)))"
      "distinct (map pe_id (page_elements (working s)))" "distinct (map mn_id (menu_nodes (working s)))"
      "distinct (map pg_id (pages (working s)))" "distinct (map cs_id (crawl_snapshots (working s)))"
      "distinct (map au_id (auth_states (working s)))" "distinct (map sc_id (system_credentials (working s)))"
      "distinct (map ap_id (system_auth_policies (working s)))" "distinct (map cp_id (system_crawl_policies (working s)))"
      using assms(4) by (simp_all add: keys_distinct_def)
    note kept = this [THEN without_selected]
    have c: "committed s = working s" "committed s' = working s'"
      using assms(2) removed(3) by (simp_all add: clean_def)
    have gone: "without sys_id [ti_system_id t] (systems (working s)) = filter (\<lambda>r. sys_id r \<noteq> sys_id system) (systems (working s))"
      by (simp add: without_def f(1))
    have "set (ti_published_job_ids t) \<subseteq> pj_id ` set (published_jobs (working s))"
      unfolding belongs_executions(3) [OF removed(1)] by auto
    then have jobs: "set (ti_published_job_ids t) =
        pj_id ` (set (published_jobs (working s)) - set (published_jobs (working s')))"
      by (auto simp: tables_deleted [OF removed(2)])
    have reg': "reg' k = (if k \<in> {build_auth_policy_job_id (sys_id system), build_crawl_policy_job_id (sys_id system)} \<union>
          (\<lambda>pj. build_published_job_id (pj_id pj)) ` (set (published_jobs (working s)) - set (published_jobs (working s')))
        then None else reg k)" for k
    proof -
      have "set (scheduler_job_ids_of t) = {build_auth_policy_job_id (sys_id system), build_crawl_policy_job_id (sys_id system)} \<union>
          (\<lambda>pj. build_published_job_id (pj_id pj)) ` (set (published_jobs (working s)) - set (published_jobs (working s')))"
        by (simp add: scheduler_job_ids_of_def f(1) jobs image_image)
      moreover have "reg' = remove_scheduler_jobs t reg" using removed(5) by simp
      ultimately show ?thesis by (simp only: remove_scheduler_jobs_apply)
    qed
    show ?thesis
      using wishes assms(6) reg' unfolding Let_def c
      by (simp only: g f(3,4,11-17) checks kept gone simp_thms)
  qed simp_all
qed

text \<open>C12: a system with archived facts cannot be torn down. The tables of the archive keep a foreign key to
  the system and no deletion covers them, so the teardown raises and the database keeps the system;
  but its schedules are gone from the registry by then.\<close>

theorem archived_system_stays:
  assumes "teardown_system code s (Some reg) = (r, s', reg')" "clean s" "constraints_hold (working s)"
    "find_row sys_code code (systems (working s)) = Some system"
    "sys_id system \<in> set (map csh_system_id (crawl_snapshots_hist (working s)) @ map pgh_system_id (pages_hist (working s)))"
  shows "s' = s \<and> ((r = Inl TypeError \<and> reg' = Some reg) \<or>
    (r = Inl IntegrityError \<and> map_option (\<lambda>g. g (build_auth_policy_job_id (sys_id system))) reg' = Some None \<and>
     map_option (\<lambda>g. g (build_crawl_policy_job_id (sys_id system))) reg' = Some None))"
proof -
  have find: "List.find (\<lambda>r. sys_code r = code) (systems (working s)) = Some system"
    using assms(4) by (simp add: find_row_def)
  from assms(1-3) find show ?thesis
  proof (cases rule: teardown_cases)
    case (refused t)
    then show ?thesis
      using belongs_fields(1) [OF refused(1)] by (simp add: remove_scheduler_jobs_apply scheduler_job_ids_of_def)
  next
    case (removed t)
    let ?d = "fold (\<lambda>(m, ids). delete_rows m ids) (butlast (deletions t)) (working s)"
    have "deletions t = butlast (deletions t) @ (SystemModel, [ti_system_id t]) # []" by (simp add: deletions_def)
    then have "ti_system_id t \<in> set (row_ids SystemModel ?d) \<Longrightarrow>
        ti_system_id t \<notin> set (references_to SystemModel (delete_rows SystemModel [ti_system_id t] ?d))"
      using deleted_unreferenced [of "butlast (deletions t)" SystemModel "[ti_system_id t]" "[]" "working s" "working s'"]
        removed(2) by simp
    moreover have id: "ti_system_id t = sys_id system" "system \<in> set (systems (working s))"
      using belongs_fields(1) [OF removed(1)] find_code [OF find] by simp_all
    have kept: "systems ?d = systems (working s)" "crawl_snapshots_hist ?d = crawl_snapshots_hist (working s)"
      "pages_hist ?d = pages_hist (working s)"
      by (simp_all add: deletions_def)
    moreover have "ti_system_id t \<in> set (row_ids SystemModel ?d)" using id by (simp add: kept)
    moreover have "ti_system_id t \<in> set (references_to SystemModel (delete_rows SystemModel [ti_system_id t] ?d))"
      using assms(5) id(1) by (auto simp: references_to_def kept)
    ultimately show ?thesis by blast
  qed simp_all
qed

definition teardown_db :: db where
  "teardown_db = empty_db\<lparr>
     systems := [\<lparr>sys_id = 7, sys_code = ''erp'', sys_name = ''Plan'', sys_base_url = ''http'', sys_framework_type = ''react''\<rparr>],
     system_auth_policies := [sample_auth_policy],
     pages := [\<lparr>pg_id = 3, pg_system_id = 7, pg_snapshot_id = None, pg_route_path = ''/orders'', pg_page_title = None,
       pg_page_summary = None, pg_keywords = None, pg_discovery_sources = None, pg_entry_candidates = None,
       pg_context_constraints = None, pg_navigation_diagnostics = None, pg_crawled_at = datetime_min_utc\<rparr>]\<rparr>"

theorem teardown_all_or_nothing_witness:
  "case fst (teardown_system ''erp'' (open_session teardown_db) (Some Map.empty)) of
      Inl e \<Rightarrow> e \<in> {TypeError, IntegrityError}
    | Inr result \<Rightarrow> tn_remaining_reference_tables result = []"
proof -
  obtain r s' reg1 where run: "teardown_system ''erp'' (open_session teardown_db) (Some Map.empty) = (r, s', reg1)"
    by (metis prod_cases3)
  have "clean (open_session teardown_db)" "constraints_hold (working (open_session teardown_db))"
    by (simp_all add: constraints_hold_def teardown_db_def empty_db_def)
  from teardown_all_or_nothing [OF run this] show ?thesis unfolding run fst_conv by (auto split: sum.splits)
qed


text \<open>The sample is a system with one policy and one page; the registry holds the policy's schedule.\<close>

definition teardown_registry :: registry where
  "teardown_registry = [build_auth_policy_job_id 7 \<mapsto> auth_policy_entry sample_auth_policy]"

definition teardown_sample :: system_row where
  "teardown_sample =
     \<lparr>sys_id = 7, sys_code = ''erp'', sys_name = ''Plan'', sys_base_url = ''http'', sys_framework_type = ''react''\<rparr>"

lemmas teardown_eval = teardown_db_def empty_db_def teardown_sample_def sample_auth_policy_def collect_facts_def
  Let_def select_ids_def select_ids_for_column_def sorted_unique_def map_filter_simps

lemma teardown_sample_collected:
  "collect_system_teardown_ids teardown_sample teardown_db = Inr (collect_facts teardown_sample teardown_db)"
  by (simp add: teardown_eval collect_system_teardown_ids_def collect_executions_def collect_runs_def)

lemma teardown_sample_deleted:
  "\<exists>d. loop_raises delete_by_ids (deletions (collect_facts teardown_sample teardown_db)) teardown_db = Inr d"
  by (simp add: teardown_eval deletions_def delete_by_ids_def references_to_def without_def)

lemma teardown_sample_ok:
  "clean (open_session teardown_db)" "constraints_hold (working (open_session teardown_db))"
  "keys_distinct (working (open_session teardown_db))" "mirrors (committed (open_session teardown_db)) teardown_registry"
  "find_row sys_code ''erp'' (systems (working (open_session teardown_db))) = Some teardown_sample"
  by (simp_all add: constraints_hold_def keys_distinct_def teardown_db_def empty_db_def teardown_sample_def
      mirrors_def wishes_def auth_policy_wish_def sample_auth_policy_def teardown_registry_def find_row_Cons)

theorem teardown_spares_other_systems_witness:
  "\<exists>result s' reg1. teardown_system ''erp'' (open_session teardown_db) (Some teardown_registry) =
      (Inr result, s', Some reg1) \<and> pages (committed s') = [] \<and> mirrors (committed s') reg1"
proof -
  obtain r s' g where run: "teardown_system ''erp'' (open_session teardown_db) (Some teardown_registry) = (r, s', g)"
    by (metis prod_cases3)
  have find: "List.find (\<lambda>r. sys_code r = ''erp'') (systems (working (open_session teardown_db))) = Some teardown_sample"
    using teardown_sample_ok(5) by (simp add: find_row_def)
  have "\<exists>result reg1. r = Inr result \<and> g = Some reg1"
    by (rule teardown_cases [OF run teardown_sample_ok(1,2) find])
      (use teardown_sample_collected teardown_sample_deleted in auto)
  then obtain result reg1 where "r = Inr result" "g = Some reg1" by blast
  with run have done': "teardown_system ''erp'' (open_session teardown_db) (Some teardown_registry) =
      (Inr result, s', Some reg1)" by simp
  have "pages (committed s') = filter (\<lambda>r. pg_system_id r \<noteq> 7) (pages teardown_db) \<and> mirrors (committed s') reg1"
    using teardown_spares_other_systems [OF done' teardown_sample_ok(1-3,5,4)] by (simp add: Let_def teardown_sample_def)
  then have "pages (committed s') = [] \<and> mirrors (committed s') reg1" by (simp add: teardown_db_def)
  with done' show ?thesis by blast
qed

definition archived_db :: db where
  "archived_db = teardown_db\<lparr>
     pages_hist := [\<lparr>pgh_id = 9, pgh_page_id = 2, pgh_system_id = 7, pgh_snapshot_id = None, pgh_route_path = ''/old'',
       pgh_page_title = None, pgh_page_summary = None, pgh_keywords = None, pgh_discovery_sources = None,
       pgh_entry_candidates = None, pgh_context_constraints = None, pgh_navigation_diagnostics = None,
       pgh_crawled_at = datetime_min_utc, pgh_archived_at = datetime_min_utc\<rparr>]\<rparr>"

theorem archived_system_stays_witness:
  "fst (snd (teardown_system ''erp'' (open_session archived_db) (Some teardown_registry))) = open_session archived_db"
proof -
  obtain r s' g where run: "teardown_system ''erp'' (open_session archived_db) (Some teardown_registry) = (r, s', g)"
    by (metis prod_cases3)
  have "clean (open_session archived_db)" "constraints_hold (working (open_session archived_db))"
    "find_row sys_code ''erp'' (systems (working (open_session archived_db))) = Some teardown_sample"
    "sys_id teardown_sample \<in> set (map csh_system_id (crawl_snapshots_hist (working (open_session archived_db))) @
       map pgh_system_id (pages_hist (working (open_session archived_db))))"
    by (simp_all add: constraints_hold_def archived_db_def teardown_db_def empty_db_def teardown_sample_def find_row_Cons)
  from archived_system_stays [OF run this] show ?thesis by (simp add: run)
qed

end
