(* ===== verification/CrawlRoutes.thy ===== *)
theory CrawlRoutes
  imports PyData
begin

section \<open>Routes of crawled pages\<close>

text \<open>
  crawler\_service/extractors/route\_resolution.py, app\_readiness.py and the route of a navigation
  target: what the browser reports becomes one canonical route per page, and a page counts as ready
  when its last samples agree. Values the browser session returned are payload values.
\<close>

definition rstrip_slash :: "string \<Rightarrow> string" where
  "rstrip_slash s = rev (dropWhile (\<lambda>c. c = CHR ''/'') (rev s))"

definition split_first :: "char \<Rightarrow> string \<Rightarrow> string" where
  "split_first c s = takeWhile (\<lambda>x. x \<noteq> c) s"

definition or_root :: "string \<Rightarrow> string" where
  "or_root s = (if s = [] then ''/'' else s)"

definition normalize_route :: "pyval \<Rightarrow> string option" where
  "normalize_route value =
     (case as_str value of
        None \<Rightarrow> None
      | Some v \<Rightarrow>
          (let route = strip v
           in if \<not> prefix ''/'' route then None
              else (let r = strip (split_first (CHR ''?'') (split_first (CHR ''#'') route))
                    in if \<not> prefix ''/'' r then None else Some (or_root (rstrip_slash r)))))"

definition extract_hash_route :: "pyval \<Rightarrow> string option" where
  "extract_hash_route location_hash =
     (case as_str location_hash of
        None \<Rightarrow> None
      | Some v \<Rightarrow>
          (let raw_hash = strip v
           in if prefix ''#!/'' raw_hash then normalize_route (PStr (drop 2 raw_hash))
              else if prefix ''#'' raw_hash then normalize_route (PStr (drop 1 raw_hash))
              else None))"

record route_snapshot =
  rs_resolved_route :: string
  rs_route_source :: string
  rs_pathname :: "string option"
  rs_hash_route :: "string option"
  rs_router_route :: "string option"
  rs_history_route :: "string option"

definition resolve_route_snapshot :: "pyval \<Rightarrow> pyval \<Rightarrow> pyval \<Rightarrow> pyval \<Rightarrow> route_snapshot" where
  "resolve_route_snapshot pathname location_hash router_route history_route =
     (let normalized_pathname = normalize_route pathname;
          normalized_hash = extract_hash_route location_hash;
          normalized_router = normalize_route router_route;
          normalized_history = normalize_route history_route
      in case List.find (\<lambda>c. snd c \<noteq> None)
           [(''router'', normalized_router), (''hash'', normalized_hash), (''history'', normalized_history),
            (''pathname'', normalized_pathname)] of
           Some (source, Some candidate) \<Rightarrow>
             \<lparr>rs_resolved_route = candidate, rs_route_source = source, rs_pathname = normalized_pathname,
              rs_hash_route = normalized_hash, rs_router_route = normalized_router,
              rs_history_route = normalized_history\<rparr>
         | _ \<Rightarrow>
             \<lparr>rs_resolved_route = ''/'', rs_route_source = ''fallback'', rs_pathname = Some ''/'',
              rs_hash_route = None, rs_router_route = None, rs_history_route = None\<rparr>)"

text \<open>\<open>_normalize_route\<close> of navigation\_targets.py: the query is cut before the fragment, and what is left
  is not stripped again.\<close>

definition normalize_target_route :: "pyval \<Rightarrow> string option" where
  "normalize_target_route value =
     (case as_str value of
        None \<Rightarrow> None
      | Some v \<Rightarrow>
          (let route = strip v
           in if \<not> prefix ''/'' route then None
              else Some (or_root (rstrip_slash (split_first (CHR ''#'') (split_first (CHR ''?'') route))))))"

subsection \<open>Readiness\<close>

record app_readiness =
  ar_shell_ready :: bool
  ar_route_ready :: bool
  ar_content_ready :: bool

definition evaluate_app_readiness :: "pydict list \<Rightarrow> int \<Rightarrow> app_readiness" where
  "evaluate_app_readiness samples stabilization_window =
     (let window = nat (max 1 stabilization_window);
          recent = drop (length samples - window) samples;
          routes = map (\<lambda>s. dget s ''resolved_route'') recent;
          texts_only = list_all (\<lambda>r. case as_str r of None \<Rightarrow> False | Some t \<Rightarrow> t \<noteq> []) routes
      in if samples = [] \<or> length samples < window
         then \<lparr>ar_shell_ready = False, ar_route_ready = False, ar_content_ready = False\<rparr>
         else \<lparr>ar_shell_ready = list_all (\<lambda>s. dget s ''shell_ready'' = PBool True) recent,
               ar_route_ready = texts_only \<and> length (remdups routes) = 1,
               ar_content_ready = list_all (\<lambda>s. dget s ''content_ready'' = PBool True) recent\<rparr>)"

subsection \<open>Canonical routes\<close>

definition canonical_route :: "string \<Rightarrow> bool" where
  "canonical_route r \<longleftrightarrow> prefix ''/'' r \<and> CHR ''?'' \<notin> set r \<and> CHR ''#'' \<notin> set r \<and> (r = ''/'' \<or> last r \<noteq> CHR ''/'')"

lemma prefix_slash: "prefix ''/'' s \<longleftrightarrow> s \<noteq> [] \<and> hd s = CHR ''/''"
  by (cases s) auto

lemma set_split_first: "set (split_first c s) \<subseteq> set s - {c}"
  by (auto simp: split_first_def dest: set_takeWhileD)

lemma rstrip_slash_cases: "\<exists>n. s = rstrip_slash s @ replicate n (CHR ''/'')"
proof -
  have "rev (takeWhile (\<lambda>c. c = CHR ''/'') (rev s)) = replicate (length (takeWhile (\<lambda>c. c = CHR ''/'') (rev s))) (CHR ''/'')"
    by (rule replicate_eqI) (auto dest: set_takeWhileD)
  then have "s = rstrip_slash s @ replicate (length (takeWhile (\<lambda>c. c = CHR ''/'') (rev s))) (CHR ''/'')"
    unfolding rstrip_slash_def by (metis rev_append rev_rev_ident takeWhile_dropWhile_id)
  then show ?thesis ..
qed

lemma last_rstrip_slash: "rstrip_slash s \<noteq> [] \<Longrightarrow> last (rstrip_slash s) \<noteq> CHR ''/''"
  using hd_dropWhile [of "\<lambda>c. c = CHR ''/''" "rev s"] by (simp add: rstrip_slash_def last_rev)

lemma canonical_or_root:
  assumes "prefix ''/'' s" "CHR ''?'' \<notin> set s" "CHR ''#'' \<notin> set s"
  shows "canonical_route (or_root (rstrip_slash s))"
proof (cases "rstrip_slash s = []")
  case True
  then show ?thesis by (simp add: canonical_route_def or_root_def)
next
  case False
  obtain n where n: "s = rstrip_slash s @ replicate n (CHR ''/'')" using rstrip_slash_cases by blast
  then have "set (rstrip_slash s) \<subseteq> set s" by (metis set_append Un_upper1)
  moreover have "hd (rstrip_slash s) = hd s" using n False by (metis hd_append2)
  ultimately show ?thesis
    using assms False last_rstrip_slash [OF False] by (auto simp: canonical_route_def or_root_def prefix_slash)
qed

lemma normalize_route_canonical:
  assumes "normalize_route v = Some r"
  shows "canonical_route r"
proof -
  obtain t where t: "v = PStr t"
    using assms by (cases v) (auto simp: normalize_route_def)
  let ?s = "strip (split_first (CHR ''?'') (split_first (CHR ''#'') (strip t)))"
  have "set ?s \<subseteq> set (split_first (CHR ''?'') (split_first (CHR ''#'') (strip t)))" by (rule set_strip)
  then have "CHR ''?'' \<notin> set ?s" "CHR ''#'' \<notin> set ?s"
    using set_split_first [of "CHR ''?''" "split_first (CHR ''#'') (strip t)"]
      set_split_first [of "CHR ''#''" "strip t"] by blast+
  moreover have "prefix ''/'' ?s" "r = or_root (rstrip_slash ?s)"
    using assms by (auto simp: t normalize_route_def Let_def split: if_splits)
  ultimately show ?thesis using canonical_or_root by blast
qed

lemma normalize_target_route_canonical:
  assumes "normalize_target_route v = Some r"
  shows "canonical_route r"
proof -
  obtain t where t: "v = PStr t"
    using assms by (cases v) (auto simp: normalize_target_route_def)
  let ?s = "split_first (CHR ''#'') (split_first (CHR ''?'') (strip t))"
  have p: "prefix ''/'' (strip t)" "r = or_root (rstrip_slash ?s)"
    using assms by (auto simp: t normalize_target_route_def Let_def split: if_splits)
  have "CHR ''?'' \<notin> set ?s" "CHR ''#'' \<notin> set ?s"
    using set_split_first [of "CHR ''#''" "split_first (CHR ''?'') (strip t)"]
      set_split_first [of "CHR ''?''" "strip t"] by blast+
  moreover have "prefix ''/'' ?s" using p(1) by (cases "strip t") (auto simp: split_first_def)
  ultimately show ?thesis using p(2) canonical_or_root by blast
qed

text \<open>C?: the route under which a page is stored is canonical: it starts with a slash, has neither query
  nor fragment and ends with no other slash. It is the router's, else the one of the fragment, the
  history or the path, in this order; every reported value of a source that is no route is passed over.\<close>

theorem resolved_route_canonical:
  "canonical_route (rs_resolved_route (resolve_route_snapshot pathname location_hash router history)) \<and>
   Some (rs_resolved_route (resolve_route_snapshot pathname location_hash router history)) =
     hd (filter (\<lambda>c. c \<noteq> None) [normalize_route router, extract_hash_route location_hash,
        normalize_route history, normalize_route pathname, Some ''/''])"
proof -
  have root: "canonical_route ''/''" by (simp add: canonical_route_def)
  have hash: "canonical_route r" if "extract_hash_route location_hash = Some r" for r
    using that by (auto simp: extract_hash_route_def Let_def split: option.splits if_splits
        intro: normalize_route_canonical)
  note canonical = root hash normalize_route_canonical
  show ?thesis
    by (cases "normalize_route router"; cases "extract_hash_route location_hash";
        cases "normalize_route history"; cases "normalize_route pathname")
      (simp_all add: resolve_route_snapshot_def canonical)
qed

end
