(* ===== verification/NavigationTargets.thy ===== *)
theory NavigationTargets
  imports CrawlRoutes PyJson
begin

section \<open>The registry of navigation targets\<close>

text \<open>
  crawler\_service/navigation\_targets.py and the validator of schemas.py: what a crawl may click or
  visit is registered once per dedupe key and within four budgets; a target moves through the
  materialization states, and the record of each must pass the validator. A target is an object that
  the registry's list and its index share: the index holds positions of the list. Each call of
  \<open>add\<close> gets an object of its own. Texts in a \<open>Literal\<close> type are kept as texts.
\<close>

definition plain_unicode_json :: json_options where
  "plain_unicode_json =
     \<lparr>js_ensure_ascii = False, js_sort_keys = True, js_item_separator = '', '', js_key_separator = '': ''\<rparr>"

abbreviation dumps :: "pyval \<Rightarrow> string" where
  "dumps \<equiv> json_dumps plain_unicode_json"

subsection \<open>Normal forms\<close>

definition clean_string :: "pyval \<Rightarrow> string option" where
  "clean_string value = (case as_str value of None \<Rightarrow> None | Some t \<Rightarrow> opt_text (strip t))"

definition as_dict :: "pyval \<Rightarrow> pydict" where
  "as_dict value = (case value of PDict d \<Rightarrow> d | _ \<Rightarrow> [])"

definition as_list :: "pyval \<Rightarrow> pyval list" where
  "as_list value = (case value of PList xs \<Rightarrow> xs | _ \<Rightarrow> [])"

fun context_value :: "pyval \<Rightarrow> pyval option" where
  "context_value (PStr t) = map_option PStr (opt_text (strip t))"
| "context_value (PBool b) = Some (PBool b)"
| "context_value (PInt i) = Some (PInt i)"
| "context_value (PFloat x) = Some (PFloat x)"
| "context_value _ = None"

definition put_clean :: "(pyval \<Rightarrow> pyval option) \<Rightarrow> string \<times> pyval \<Rightarrow> pydict \<Rightarrow> pydict" where
  "put_clean conv kv d =
     (case (opt_text (strip (fst kv)), conv (snd kv)) of
        (Some k, Some v) \<Rightarrow> dset k v d
      | _ \<Rightarrow> d)"

definition normalize_target_context :: "pyval \<Rightarrow> pydict" where
  "normalize_target_context value = fold (put_clean context_value) (as_dict value) []"

definition locator_record :: "string \<Rightarrow> string \<Rightarrow> pydict" where
  "locator_record strategy_type selector =
     [(''strategy_type'', PStr strategy_type), (''selector'', PStr selector)]"

fun locator_loop :: "pyval list \<Rightarrow> string list \<Rightarrow> pydict list \<Rightarrow> pydict list" where
  "locator_loop [] seen normalized = normalized"
| "locator_loop (candidate # rest) seen normalized =
     (case (clean_string (dget (as_dict candidate) ''strategy_type''),
            clean_string (dget (as_dict candidate) ''selector'')) of
        (Some strategy_type, Some selector) \<Rightarrow>
          (let serialized = dumps (PDict (locator_record strategy_type selector))
           in if serialized \<in> set seen then locator_loop rest seen normalized
              else locator_loop rest (serialized # seen) (normalized @ [locator_record strategy_type selector]))
      | _ \<Rightarrow> locator_loop rest seen normalized)"

definition normalize_locators :: "pyval \<Rightarrow> pydict list" where
  "normalize_locators value = locator_loop (as_list value) [] []"

definition merge_locators :: "pydict list \<Rightarrow> pydict list \<Rightarrow> pydict list" where
  "merge_locators existing incoming = normalize_locators (PList (map PDict (existing @ incoming)))"

definition metadata_item :: "pyval \<Rightarrow> bool" where
  "metadata_item v = (case v of PNone \<Rightarrow> False | PList _ \<Rightarrow> False | _ \<Rightarrow> True)"

function metadata_value :: "pyval \<Rightarrow> pyval option"
  and metadata_items :: "pydict \<Rightarrow> pydict \<Rightarrow> pydict" where
  "metadata_value (PDict d) =
     (let nested = metadata_items d [] in if nested = [] then None else Some (PDict nested))"
| "metadata_value (PList xs) =
     (let items = filter metadata_item xs in if items = [] then None else Some (PList items))"
| "metadata_value PNone = None"
| "metadata_value (PBool b) = Some (PBool b)"
| "metadata_value (PInt i) = Some (PInt i)"
| "metadata_value (PFloat x) = Some (PFloat x)"
| "metadata_value (PStr t) = map_option PStr (opt_text (strip t))"
| "metadata_items [] metadata = metadata"
| "metadata_items ((key, v) # rest) metadata =
     metadata_items rest
       (case (opt_text (strip key), metadata_value v) of
          (Some k, Some w) \<Rightarrow> dset k w metadata
        | _ \<Rightarrow> metadata)"
  by pat_completeness auto
termination
  by (relation "measure (\<lambda>x. case x of Inl v \<Rightarrow> size v | Inr (d, m) \<Rightarrow> size_list (size_prod (\<lambda>_. 0) size) d)") auto

definition normalize_metadata :: "pyval \<Rightarrow> pydict" where
  "normalize_metadata value = metadata_items (as_dict value) []"

definition empty_value :: "pyval \<Rightarrow> bool" where
  "empty_value v \<longleftrightarrow> v \<in> {PNone, PStr [], PList [], PDict []}"

fun distinct_by_dump :: "pyval list \<Rightarrow> string list \<Rightarrow> pyval list" where
  "distinct_by_dump [] seen = []"
| "distinct_by_dump (x # xs) seen =
     (if dumps x \<in> set seen then distinct_by_dump xs seen else x # distinct_by_dump xs (dumps x # seen))"

function merge_metadata :: "pydict \<Rightarrow> pydict \<Rightarrow> pydict" where
  "merge_metadata merged [] = merged"
| "merge_metadata merged ((key, raw) # rest) =
     merge_metadata
       (case (dget merged key, raw) of
          (PDict e, PDict i) \<Rightarrow> dset key (PDict (merge_metadata e i)) merged
        | (PList e, PList i) \<Rightarrow> dset key (PList (distinct_by_dump (e @ i) [])) merged
        | (e, v) \<Rightarrow> if empty_value e then dset key v merged else merged)
       rest"
  by pat_completeness auto
termination
  by (relation "measure (\<lambda>(m, d). size_list (size_prod (\<lambda>_. 0) size) d)") auto

definition DISCOVERY_SOURCE_PRIORITY :: "(string \<times> int) list" where
  "DISCOVERY_SOURCE_PRIORITY =
     [(''runtime_route_hints'', 0), (''dom_menu_tree'', 1), (''network_route_config'', 2),
      (''network_resource'', 3), (''network_request'', 4), (''reachability_probe'', 5)]"

definition source_priority :: "string \<Rightarrow> int" where
  "source_priority source = (case map_of DISCOVERY_SOURCE_PRIORITY source of None \<Rightarrow> 100 | Some p \<Rightarrow> p)"

definition prefer_discovery_source :: "string option \<Rightarrow> string option \<Rightarrow> string option" where
  "prefer_discovery_source existing incoming =
     (case (existing, incoming) of
        (None, _) \<Rightarrow> incoming
      | (_, None) \<Rightarrow> existing
      | (Some e, Some i) \<Rightarrow>
          if source_priority i < source_priority e then incoming
          else if source_priority e < source_priority i then existing
          else Some (min e i))"

subsection \<open>Targets\<close>

record navigation_target =
  nt_target_kind :: string
  nt_route_hint :: "string option"
  nt_locator_candidates :: "pydict list"
  nt_state_context :: pydict
  nt_parent_target_key :: "string option"
  nt_discovery_source :: "string option"
  nt_safety_level :: string
  nt_materialization_status :: string
  nt_rejection_reason :: "string option"
  nt_rejection_detail :: "string option"
  nt_metadata :: pydict

text \<open>The constructor with \<open>__post_init__\<close>; its keyword arguments are a dictionary.\<close>

definition new_navigation_target :: "pydict \<Rightarrow> navigation_target" where
  "new_navigation_target kwargs =
     \<lparr>nt_target_kind = py_or (clean_string (dget kwargs ''target_kind'')) ''unknown'',
      nt_route_hint = normalize_target_route (dget kwargs ''route_hint''),
      nt_locator_candidates = normalize_locators (dget_or kwargs ''locator_candidates'' (PList [])),
      nt_state_context = normalize_target_context (dget_or kwargs ''state_context'' (PDict [])),
      nt_parent_target_key = clean_string (dget kwargs ''parent_target_key''),
      nt_discovery_source = clean_string (dget kwargs ''discovery_source''),
      nt_safety_level = py_or (clean_string (dget_or kwargs ''safety_level'' (PStr ''readonly''))) ''readonly'',
      nt_materialization_status =
        py_or (clean_string (dget_or kwargs ''materialization_status'' (PStr ''discovered''))) ''discovered'',
      nt_rejection_reason = clean_string (dget kwargs ''rejection_reason''),
      nt_rejection_detail = clean_string (dget kwargs ''rejection_detail''),
      nt_metadata = normalize_metadata (dget_or kwargs ''metadata'' (PDict []))\<rparr>"

definition dedupe_key :: "navigation_target \<Rightarrow> string" where
  "dedupe_key t =
     dumps (PDict [(''target_kind'', PStr (nt_target_kind t)), (''route_hint'', of_opt_str (nt_route_hint t)),
                   (''state_context'', PDict (nt_state_context t)),
                   (''parent_target_key'', of_opt_str (nt_parent_target_key t))])"

definition target_key :: "navigation_target \<Rightarrow> string" where
  "target_key t =
     (case nt_route_hint t of
        Some r \<Rightarrow> if nt_target_kind t = ''page_route'' then ''page:'' @ r else dedupe_key t
      | None \<Rightarrow> dedupe_key t)"

definition mark :: "string \<Rightarrow> string option \<Rightarrow> string option \<Rightarrow> navigation_target \<Rightarrow> navigation_target" where
  "mark status reason detail t =
     t\<lparr>nt_materialization_status := status, nt_rejection_reason := reason, nt_rejection_detail := detail\<rparr>"

definition mark_queued :: "navigation_target \<Rightarrow> navigation_target" where
  "mark_queued = mark ''queued'' None None"

definition mark_applied :: "navigation_target \<Rightarrow> navigation_target" where
  "mark_applied = mark ''applied'' None None"

definition mark_duplicate :: "string \<Rightarrow> navigation_target \<Rightarrow> navigation_target" where
  "mark_duplicate reason = mark ''duplicate'' (Some reason) None"

definition mark_blocked :: "string \<Rightarrow> navigation_target \<Rightarrow> navigation_target" where
  "mark_blocked reason = mark ''blocked'' (Some reason) None"

definition mark_not_applied :: "string \<Rightarrow> string option \<Rightarrow> navigation_target \<Rightarrow> navigation_target" where
  "mark_not_applied reason detail = mark ''not_applied'' (Some reason) (Option.bind detail (\<lambda>d. opt_text (strip d)))"

definition merge_from :: "navigation_target \<Rightarrow> navigation_target \<Rightarrow> navigation_target" where
  "merge_from other t =
     t\<lparr>nt_locator_candidates := merge_locators (nt_locator_candidates t) (nt_locator_candidates other),
       nt_discovery_source := prefer_discovery_source (nt_discovery_source t) (nt_discovery_source other),
       nt_metadata := merge_metadata (nt_metadata t) (nt_metadata other)\<rparr>"

definition to_record :: "navigation_target \<Rightarrow> pydict" where
  "to_record t =
     [(''target_key'', PStr (target_key t)), (''target_kind'', PStr (nt_target_kind t)),
      (''route_hint'', of_opt_str (nt_route_hint t)),
      (''locator_candidates'', PList (map PDict (nt_locator_candidates t))),
      (''state_context'', PDict (nt_state_context t)),
      (''parent_target_key'', of_opt_str (nt_parent_target_key t)),
      (''discovery_source'', of_opt_str (nt_discovery_source t)),
      (''safety_level'', PStr (nt_safety_level t)),
      (''materialization_status'', PStr (nt_materialization_status t)),
      (''rejection_reason'', of_opt_str (nt_rejection_reason t)),
      (''rejection_detail'', of_opt_str (nt_rejection_detail t)), (''metadata'', PDict (nt_metadata t))]"

subsection \<open>The validator of a record (schemas.py)\<close>

definition allowed_reasons_by_status :: "(string \<times> string list) list" where
  "allowed_reasons_by_status =
     [(''blocked'', [''total_budget_exhausted'', ''route_budget_exhausted'', ''kind_budget_exhausted'',
         ''parent_budget_exhausted'', ''blocked_by_permission'', ''unsafe_action_rejected'']),
      (''duplicate'', [''duplicate_target'']), (''not_applied'', [''state_transition_not_applied''])]"

definition validate_status_reason :: "pydict \<Rightarrow> bool" where
  "validate_status_reason r =
     (let status = py_or (as_str (dget r ''materialization_status'')) []; reason = as_str (dget r ''rejection_reason'');
          detail = as_str (dget r ''rejection_detail'');
          success = status \<in> {''discovered'', ''queued'', ''applied''}
      in \<not> (status \<in> set (map fst allowed_reasons_by_status) \<and> reason = None) \<and>
         \<not> (success \<and> reason \<noteq> None) \<and> \<not> (success \<and> detail \<noteq> None) \<and>
         (case reason of
            None \<Rightarrow> True
          | Some w \<Rightarrow>
              (case map_of allowed_reasons_by_status status of None \<Rightarrow> False | Some ws \<Rightarrow> w \<in> set ws)))"

subsection \<open>The registry\<close>

record target_registry =
  gr_max_total_targets :: int
  gr_max_targets_per_route :: int
  gr_max_targets_per_kind :: int
  gr_max_children_per_parent :: int
  gr_targets :: "navigation_target list"
  gr_rejected_targets :: "navigation_target list"
  gr_by_key :: "string \<rightharpoonup> nat"
  gr_by_route :: "string \<rightharpoonup> int"
  gr_by_kind :: "string \<rightharpoonup> int"
  gr_by_parent :: "string \<rightharpoonup> int"

definition new_registry :: "int \<Rightarrow> int \<Rightarrow> int \<Rightarrow> int \<Rightarrow> target_registry" where
  "new_registry max_total per_route per_kind per_parent =
     \<lparr>gr_max_total_targets = max 1 max_total, gr_max_targets_per_route = max 1 per_route,
      gr_max_targets_per_kind = max 1 per_kind, gr_max_children_per_parent = max 1 per_parent,
      gr_targets = [], gr_rejected_targets = [], gr_by_key = Map.empty, gr_by_route = Map.empty,
      gr_by_kind = Map.empty, gr_by_parent = Map.empty\<rparr>"

definition count_at :: "(string \<rightharpoonup> int) \<Rightarrow> string \<Rightarrow> int" where
  "count_at counts k = (case counts k of None \<Rightarrow> 0 | Some n \<Rightarrow> n)"

definition count_up :: "string option \<Rightarrow> (string \<rightharpoonup> int) \<Rightarrow> (string \<rightharpoonup> int)" where
  "count_up key counts = (case key of None \<Rightarrow> counts | Some k \<Rightarrow> counts(k \<mapsto> count_at counts k + 1))"

definition get_by_dedupe_key :: "string \<Rightarrow> target_registry \<Rightarrow> navigation_target option" where
  "get_by_dedupe_key key g = map_option (\<lambda>i. gr_targets g ! i) (gr_by_key g key)"

definition exhausted :: "string option \<Rightarrow> (string \<rightharpoonup> int) \<Rightarrow> int \<Rightarrow> bool" where
  "exhausted key counts budget = (case key of None \<Rightarrow> False | Some k \<Rightarrow> budget \<le> count_at counts k)"

definition budget_rejection_reason :: "navigation_target \<Rightarrow> target_registry \<Rightarrow> string option" where
  "budget_rejection_reason t g =
     (if gr_max_total_targets g \<le> int (length (gr_targets g)) then Some ''total_budget_exhausted''
      else if exhausted (nt_route_hint t) (gr_by_route g) (gr_max_targets_per_route g)
      then Some ''route_budget_exhausted''
      else if exhausted (Some (nt_target_kind t)) (gr_by_kind g) (gr_max_targets_per_kind g)
      then Some ''kind_budget_exhausted''
      else if exhausted (nt_parent_target_key t) (gr_by_parent g) (gr_max_children_per_parent g)
      then Some ''parent_budget_exhausted''
      else None)"

record target_decision =
  tdn_accepted :: bool
  tdn_target :: navigation_target
  tdn_reason :: "string option"

definition update_target :: "nat \<Rightarrow> (navigation_target \<Rightarrow> navigation_target) \<Rightarrow> target_registry \<Rightarrow> target_registry" where
  "update_target i f g = g\<lparr>gr_targets := (gr_targets g)[i := f (gr_targets g ! i)]\<rparr>"

definition reject_target :: "navigation_target \<Rightarrow> target_registry \<Rightarrow> target_registry" where
  "reject_target t g = g\<lparr>gr_rejected_targets := gr_rejected_targets g @ [t]\<rparr>"

definition registry_add :: "navigation_target \<Rightarrow> target_registry \<Rightarrow> target_decision \<times> target_registry" where
  "registry_add t g =
     (case gr_by_key g (dedupe_key t) of
        Some i \<Rightarrow>
          (let t' = mark_duplicate ''duplicate_target'' t
           in (\<lparr>tdn_accepted = False, tdn_target = t', tdn_reason = Some ''duplicate_target''\<rparr>,
               reject_target t' (update_target i (merge_from t) g)))
      | None \<Rightarrow>
          (case budget_rejection_reason t g of
             Some reason \<Rightarrow>
               (let t' = mark_blocked reason t
                in (\<lparr>tdn_accepted = False, tdn_target = t', tdn_reason = Some reason\<rparr>, reject_target t' g))
           | None \<Rightarrow>
               (let t' = mark_queued t
                in (\<lparr>tdn_accepted = True, tdn_target = t', tdn_reason = None\<rparr>,
                    g\<lparr>gr_targets := gr_targets g @ [t'],
                      gr_by_key := (gr_by_key g)(dedupe_key t \<mapsto> length (gr_targets g)),
                      gr_by_route := count_up (nt_route_hint t) (gr_by_route g),
                      gr_by_kind := count_up (Some (nt_target_kind t)) (gr_by_kind g),
                      gr_by_parent := count_up (nt_parent_target_key t) (gr_by_parent g)\<rparr>))))"

text \<open>The list of accepted targets shares its objects with the registry: it holds their positions.\<close>

fun registry_extend :: "navigation_target list \<Rightarrow> target_registry \<Rightarrow> nat list \<times> target_registry" where
  "registry_extend [] g = ([], g)"
| "registry_extend (t # ts) g =
     (let (decision, g1) = registry_add t g; (accepted, g2) = registry_extend ts g1
      in (if tdn_accepted decision then length (gr_targets g) # accepted else accepted, g2))"

text \<open>What happens to a registry: targets are added, and the probe (extractors/state\_probe.py) marks the
  targets it was given.\<close>

inductive registry_step :: "target_registry \<Rightarrow> target_registry \<Rightarrow> bool" where
  step_add: "registry_step g (snd (registry_add t g))"
| step_applied: "i < length (gr_targets g) \<Longrightarrow> registry_step g (update_target i mark_applied g)"
| step_blocked: "i < length (gr_targets g) \<Longrightarrow> reason \<in> {''blocked_by_permission'', ''unsafe_action_rejected''} \<Longrightarrow>
    registry_step g (update_target i (mark_blocked reason) g)"
| step_not_applied: "i < length (gr_targets g) \<Longrightarrow>
    registry_step g (update_target i (mark_not_applied ''state_transition_not_applied'' detail) g)"

subsection \<open>The index and the budgets\<close>

lemma merge_from_place [simp]:
  "nt_target_kind (merge_from u t) = nt_target_kind t" "nt_route_hint (merge_from u t) = nt_route_hint t"
  "nt_parent_target_key (merge_from u t) = nt_parent_target_key t" "dedupe_key (merge_from u t) = dedupe_key t"
  by (simp_all add: merge_from_def dedupe_key_def)

lemma mark_place [simp]:
  "nt_target_kind (mark s r d t) = nt_target_kind t" "nt_route_hint (mark s r d t) = nt_route_hint t"
  "nt_parent_target_key (mark s r d t) = nt_parent_target_key t" "dedupe_key (mark s r d t) = dedupe_key t"
  by (simp_all add: mark_def dedupe_key_def)

lemmas mark_defs = mark_queued_def mark_applied_def mark_duplicate_def mark_blocked_def mark_not_applied_def

definition keeps_place :: "(navigation_target \<Rightarrow> navigation_target) \<Rightarrow> bool" where
  "keeps_place f \<longleftrightarrow>
     (\<forall>t. nt_target_kind (f t) = nt_target_kind t \<and> nt_route_hint (f t) = nt_route_hint t \<and>
          nt_parent_target_key (f t) = nt_parent_target_key t \<and> dedupe_key (f t) = dedupe_key t)"

lemma keeps_place [simp]:
  "keeps_place (merge_from u)" "keeps_place (mark s r d)" "keeps_place mark_applied"
  "keeps_place (mark_blocked reason)" "keeps_place (mark_not_applied reason detail)"
  by (simp_all add: keeps_place_def mark_defs)

lemma map_update_same: "h (f (xs ! i)) = h (xs ! i) \<Longrightarrow> map h (xs[i := f (xs ! i)]) = map h xs"
  by (cases "i < length xs") (simp_all add: map_update list_update_same_conv list_update_beyond)

lemma update_target_places:
  assumes "keeps_place f"
  shows "map dedupe_key (gr_targets (update_target i f g)) = map dedupe_key (gr_targets g)"
    "map nt_route_hint (gr_targets (update_target i f g)) = map nt_route_hint (gr_targets g)"
    "map nt_target_kind (gr_targets (update_target i f g)) = map nt_target_kind (gr_targets g)"
    "map nt_parent_target_key (gr_targets (update_target i f g)) = map nt_parent_target_key (gr_targets g)"
  using assms unfolding update_target_def keeps_place_def by (simp_all add: map_update_same)

definition counts_of :: "string option list \<Rightarrow> (string \<rightharpoonup> int) \<Rightarrow> bool" where
  "counts_of ks counts \<longleftrightarrow> (\<forall>k. count_at counts k = int (count_list ks (Some k)))"

definition registry_ok :: "target_registry \<Rightarrow> bool" where
  "registry_ok g \<longleftrightarrow>
     (\<forall>k i. gr_by_key g k = Some i \<longleftrightarrow>
        i < length (gr_targets g) \<and> map dedupe_key (gr_targets g) ! i = k) \<and>
     counts_of (map nt_route_hint (gr_targets g)) (gr_by_route g) \<and>
     counts_of (map Some (map nt_target_kind (gr_targets g))) (gr_by_kind g) \<and>
     counts_of (map nt_parent_target_key (gr_targets g)) (gr_by_parent g)"

definition registry_fits :: "target_registry \<Rightarrow> bool" where
  "registry_fits g \<longleftrightarrow>
     int (length (gr_targets g)) \<le> gr_max_total_targets g \<and>
     (\<forall>k. count_at (gr_by_route g) k \<le> gr_max_targets_per_route g) \<and>
     (\<forall>k. count_at (gr_by_kind g) k \<le> gr_max_targets_per_kind g) \<and>
     (\<forall>k. count_at (gr_by_parent g) k \<le> gr_max_children_per_parent g)"

lemma counts_of_snoc: "counts_of ks counts \<Longrightarrow> counts_of (ks @ [k]) (count_up k counts)"
  by (cases k) (auto simp: counts_of_def count_up_def count_at_def)

lemma update_target_ok:
  assumes "keeps_place f" "registry_ok g" "registry_fits g"
  shows "registry_ok (update_target i f g) \<and> registry_fits (update_target i f g)"
  using assms update_target_places [OF assms(1), of i g]
  by (simp add: registry_ok_def registry_fits_def) (simp add: update_target_def)

lemma reject_target_ok [simp]:
  "registry_ok (reject_target t g) = registry_ok g" "registry_fits (reject_target t g) = registry_fits g"
  by (simp_all add: reject_target_def registry_ok_def registry_fits_def)

lemma count_up_fits:
  assumes "\<forall>k. count_at counts k \<le> m" "\<not> exhausted key counts m"
  shows "count_at (count_up key counts) k \<le> m"
  using assms by (cases key) (auto simp: count_up_def count_at_def exhausted_def)

lemma registry_add_budgets [simp]:
  "gr_max_total_targets (snd (registry_add t g)) = gr_max_total_targets g"
  "gr_max_targets_per_route (snd (registry_add t g)) = gr_max_targets_per_route g"
  "gr_max_targets_per_kind (snd (registry_add t g)) = gr_max_targets_per_kind g"
  "gr_max_children_per_parent (snd (registry_add t g)) = gr_max_children_per_parent g"
  by (simp_all add: registry_add_def update_target_def reject_target_def Let_def split: option.split)

lemma registry_add_ok:
  assumes ok: "registry_ok g" "registry_fits g"
  shows "registry_ok (snd (registry_add t g)) \<and> registry_fits (snd (registry_add t g))"
proof (cases "gr_by_key g (dedupe_key t)")
  case (Some i)
  then show ?thesis using update_target_ok [OF _ ok] by (simp add: registry_add_def Let_def)
next
  case None
  show ?thesis
  proof (cases "budget_rejection_reason t g")
    case (Some reason)
    then show ?thesis using None ok by (simp add: registry_add_def Let_def)
  next
    case free: None
    then have budget: "int (length (gr_targets g)) < gr_max_total_targets g"
      "\<not> exhausted (nt_route_hint t) (gr_by_route g) (gr_max_targets_per_route g)"
      "\<not> exhausted (Some (nt_target_kind t)) (gr_by_kind g) (gr_max_targets_per_kind g)"
      "\<not> exhausted (nt_parent_target_key t) (gr_by_parent g) (gr_max_children_per_parent g)"
      by (simp_all add: budget_rejection_reason_def split: if_splits)
    have fresh: "dedupe_key (gr_targets g ! i) \<noteq> dedupe_key t" if "i < length (gr_targets g)" for i
      using ok(1) None that unfolding registry_ok_def by (metis nth_map option.distinct(1))
    have index: "((gr_by_key g)(dedupe_key t \<mapsto> length (gr_targets g))) k = Some i \<longleftrightarrow>
        i < length (gr_targets g @ [mark_queued t]) \<and> map dedupe_key (gr_targets g @ [mark_queued t]) ! i = k" for k i
      using ok(1) fresh unfolding registry_ok_def
      by (cases "i = length (gr_targets g)") (auto simp: nth_append less_Suc_eq mark_defs)
    let ?g = "snd (registry_add t g)"
    have g': "gr_targets ?g = gr_targets g @ [mark_queued t]"
      "gr_by_key ?g = (gr_by_key g)(dedupe_key t \<mapsto> length (gr_targets g))"
      "gr_by_route ?g = count_up (nt_route_hint t) (gr_by_route g)"
      "gr_by_kind ?g = count_up (Some (nt_target_kind t)) (gr_by_kind g)"
      "gr_by_parent ?g = count_up (nt_parent_target_key t) (gr_by_parent g)"
      by (simp_all add: registry_add_def Let_def None free)
    have "registry_ok ?g"
      unfolding registry_ok_def g' using index ok(1) unfolding registry_ok_def
      by (intro conjI allI) (simp_all only: map_append list.map mark_queued_def mark_place counts_of_snoc)
    moreover have "registry_fits ?g"
      using budget ok(2) count_up_fits [OF _ budget(2)] count_up_fits [OF _ budget(3)] count_up_fits [OF _ budget(4)]
      unfolding registry_fits_def g' registry_add_budgets by simp
    ultimately show ?thesis by simp
  qed
qed

definition budgets_of :: "target_registry \<Rightarrow> int list" where
  "budgets_of g =
     [gr_max_total_targets g, gr_max_targets_per_route g, gr_max_targets_per_kind g, gr_max_children_per_parent g]"

lemma registry_step_ok:
  assumes "registry_step g g'" "registry_ok g \<and> registry_fits g"
  shows "registry_ok g' \<and> registry_fits g' \<and> budgets_of g' = budgets_of g"
  using assms
proof cases
  case (step_add t)
  then show ?thesis using registry_add_ok assms(2) by (simp add: budgets_of_def)
qed (use update_target_ok assms(2) in \<open>auto simp: budgets_of_def update_target_def\<close>)

lemma new_registry_ok:
  "registry_ok (new_registry a b c d)" "registry_fits (new_registry a b c d)"
  "budgets_of (new_registry a b c d) = map (max 1) [a, b, c, d]"
  by (simp_all add: new_registry_def registry_ok_def registry_fits_def counts_of_def count_at_def budgets_of_def le_max_iff_disj)

lemma registry_reachable_ok:
  assumes "rtranclp registry_step (new_registry a b c d) g"
  shows "registry_ok g \<and> registry_fits g \<and> budgets_of g = map (max 1) [a, b, c, d]"
  using assms
proof (induction rule: rtranclp_induct)
  case base
  then show ?case using new_registry_ok by simp
next
  case (step g g')
  then show ?case using registry_step_ok [OF step.hyps(2)] by simp
qed

lemma registry_ok_keys:
  assumes "registry_ok g"
  shows "distinct (map dedupe_key (gr_targets g))"
    "get_by_dedupe_key k g = List.find (\<lambda>t. dedupe_key t = k) (gr_targets g)"
proof -
  have index: "gr_by_key g k = Some i \<longleftrightarrow> i < length (gr_targets g) \<and> dedupe_key (gr_targets g ! i) = k" for k i
    using assms unfolding registry_ok_def by (metis nth_map)
  show keys: "distinct (map dedupe_key (gr_targets g))"
    unfolding distinct_conv_nth using index by (metis length_map nth_map option.inject)
  show "get_by_dedupe_key k g = List.find (\<lambda>t. dedupe_key t = k) (gr_targets g)"
  proof (cases "List.find (\<lambda>t. dedupe_key t = k) (gr_targets g)")
    case None
    then have "gr_by_key g k = None"
      using index [of k] by (cases "gr_by_key g k") (auto simp: find_None_iff in_set_conv_nth)
    then show ?thesis using None by (simp add: get_by_dedupe_key_def)
  next
    case (Some t)
    then obtain i where "i < length (gr_targets g)" "dedupe_key (gr_targets g ! i) = k" "t = gr_targets g ! i"
      by (auto simp: find_Some_iff)
    moreover from this have "gr_by_key g k = Some i" using index by simp
    ultimately show ?thesis using Some by (simp add: get_by_dedupe_key_def)
  qed
qed

text \<open>C38: whatever is added to a registry and however its targets are marked afterwards, it holds at most one
  target per dedupe key, a lookup finds exactly that target, and none of its four budgets is exceeded: not
  the total, nor the number of targets of one route, of one kind or under one parent.\<close>

theorem registry_within_budgets:
  assumes "rtranclp registry_step (new_registry max_total per_route per_kind per_parent) g"
  shows "distinct (map dedupe_key (gr_targets g)) \<and>
    (\<forall>k. get_by_dedupe_key k g = List.find (\<lambda>t. dedupe_key t = k) (gr_targets g)) \<and>
    int (length (gr_targets g)) \<le> max 1 max_total \<and>
    (\<forall>r. int (count_list (map nt_route_hint (gr_targets g)) (Some r)) \<le> max 1 per_route) \<and>
    (\<forall>k. int (count_list (map nt_target_kind (gr_targets g)) k) \<le> max 1 per_kind) \<and>
    (\<forall>p. int (count_list (map nt_parent_target_key (gr_targets g)) (Some p)) \<le> max 1 per_parent)"
proof -
  have g: "registry_ok g" "registry_fits g" "budgets_of g = map (max 1) [max_total, per_route, per_kind, per_parent]"
    using registry_reachable_ok [OF assms] by blast+
  have kinds: "count_list (map Some ks) (Some k) = count_list ks k" for ks :: "string list" and k
    by (induction ks) auto
  show ?thesis
    using g registry_ok_keys [OF g(1)]
    unfolding registry_ok_def registry_fits_def counts_of_def budgets_of_def kinds by simp
qed

subsection \<open>The records\<close>

definition marks_valid :: "navigation_target \<Rightarrow> bool" where
  "marks_valid t \<longleftrightarrow>
     (if nt_rejection_reason t = None
      then nt_materialization_status t \<in> {''discovered'', ''queued'', ''applied''} \<and> nt_rejection_detail t = None
      else \<exists>ws. map_of allowed_reasons_by_status (nt_materialization_status t) = Some ws \<and>
             the (nt_rejection_reason t) \<in> set ws)"

lemma marks_valid_record:
  assumes "marks_valid t"
  shows "validate_status_reason (to_record t)"
proof -
  have fields: "as_str (dget (to_record t) ''materialization_status'') = Some (nt_materialization_status t)"
    "as_str (dget (to_record t) ''rejection_reason'') = nt_rejection_reason t"
    "as_str (dget (to_record t) ''rejection_detail'') = nt_rejection_detail t"
    by (simp_all add: to_record_def dget_def of_opt_str_def split: option.split)
  have status: "py_or (Some s) [] = s" for s :: string by (simp add: py_or_def)
  show ?thesis
    using assms unfolding validate_status_reason_def marks_valid_def Let_def fields status
    by (auto simp: allowed_reasons_by_status_def split: option.split if_splits)
qed

lemma marks_valid_marks:
  "marks_valid (mark_queued t)" "marks_valid (mark_applied t)" "marks_valid (mark_duplicate ''duplicate_target'' t)"
  "marks_valid (mark_not_applied ''state_transition_not_applied'' detail t)"
  "reason \<in> set (the (map_of allowed_reasons_by_status ''blocked'')) \<Longrightarrow> marks_valid (mark_blocked reason t)"
  by (simp_all add: marks_valid_def mark_defs mark_def allowed_reasons_by_status_def)

lemma marks_valid_merge [simp]: "marks_valid (merge_from u t) = marks_valid t"
  by (simp add: marks_valid_def merge_from_def)

lemma budget_reason_allowed:
  "budget_rejection_reason t g = Some reason \<Longrightarrow> reason \<in> set (the (map_of allowed_reasons_by_status ''blocked''))"
  by (auto simp: budget_rejection_reason_def allowed_reasons_by_status_def split: if_splits)

definition registry_marked :: "target_registry \<Rightarrow> bool" where
  "registry_marked g \<longleftrightarrow> (\<forall>t \<in> set (gr_targets g @ gr_rejected_targets g). marks_valid t)"

lemma update_target_marked:
  assumes "registry_marked g" "marks_valid (f (gr_targets g ! i))"
  shows "registry_marked (update_target i f g)"
  using assms set_update_subset_insert [of "gr_targets g" i "f (gr_targets g ! i)"]
  unfolding registry_marked_def update_target_def by auto

lemma registry_add_marked:
  assumes "registry_marked g" "registry_ok g"
  shows "registry_marked (snd (registry_add t g))"
proof (cases "gr_by_key g (dedupe_key t)")
  case (Some i)
  then have "i < length (gr_targets g)" using assms(2) unfolding registry_ok_def by blast
  then have "marks_valid (merge_from t (gr_targets g ! i))"
    using assms(1) unfolding registry_marked_def by simp
  from update_target_marked [OF assms(1), of "merge_from t", OF this] show ?thesis
    by (simp add: registry_add_def Some Let_def reject_target_def registry_marked_def marks_valid_marks)
next
  case None
  then show ?thesis
    using assms(1) budget_reason_allowed [of t g]
    by (cases "budget_rejection_reason t g")
      (auto simp: registry_add_def Let_def reject_target_def registry_marked_def marks_valid_marks)
qed

lemma registry_step_marked:
  assumes "registry_step g g'" "registry_ok g" "registry_marked g"
  shows "registry_marked g'"
  using assms(1)
proof cases
  case (step_blocked i reason)
  then have "reason \<in> set (the (map_of allowed_reasons_by_status ''blocked''))"
    by (auto simp: allowed_reasons_by_status_def)
  then show ?thesis using step_blocked update_target_marked [OF assms(3)] marks_valid_marks(5) by simp
qed (use assms(2,3) registry_add_marked update_target_marked marks_valid_marks in simp_all)

text \<open>C39: every record that a crawl reports of a registry, of an accepted target as well as of a rejected one,
  passes the validator of the result: a blocked, duplicate or not applied target has a reason that fits
  its status, the others have neither reason nor detail.\<close>

theorem registry_records_valid:
  assumes "rtranclp registry_step (new_registry max_total per_route per_kind per_parent) g"
  shows "list_all (\<lambda>t. validate_status_reason (to_record t)) (gr_targets g @ gr_rejected_targets g)"
proof -
  have "registry_marked g"
    using assms
  proof (induction rule: rtranclp_induct)
    case base
    show ?case by (simp add: registry_marked_def new_registry_def)
  next
    case (step g g')
    then show ?case using registry_step_marked registry_reachable_ok by blast
  qed
  then show ?thesis using marks_valid_record unfolding registry_marked_def list_all_iff by blast
qed

subsection \<open>Extending a registry\<close>

lemma registry_add_cases:
  assumes "registry_ok g" "registry_add t g = (decision, g')"
  shows "tdn_accepted decision \<longleftrightarrow>
      dedupe_key t \<notin> dedupe_key ` set (gr_targets g) \<and> budget_rejection_reason t g = None"
    "map dedupe_key (gr_targets g') = map dedupe_key (gr_targets g) @ (if tdn_accepted decision then [dedupe_key t] else [])"
    "length (gr_rejected_targets g') = length (gr_rejected_targets g) + (if tdn_accepted decision then 0 else 1)"
proof -
  have known: "gr_by_key g (dedupe_key t) = None \<longleftrightarrow> dedupe_key t \<notin> dedupe_key ` set (gr_targets g)"
    using assms(1) unfolding registry_ok_def
    by (metis (no_types, lifting) image_set in_set_conv_nth length_map not_Some_eq)
  show "tdn_accepted decision \<longleftrightarrow>
      dedupe_key t \<notin> dedupe_key ` set (gr_targets g) \<and> budget_rejection_reason t g = None"
    "map dedupe_key (gr_targets g') = map dedupe_key (gr_targets g) @ (if tdn_accepted decision then [dedupe_key t] else [])"
    "length (gr_rejected_targets g') = length (gr_rejected_targets g) + (if tdn_accepted decision then 0 else 1)"
    using assms(2) update_target_places(1) [of "merge_from t"] unfolding known [symmetric] registry_add_def
    by (auto simp: Let_def reject_target_def mark_defs update_target_def split: option.splits)
qed

lemma roomy_no_rejection:
  assumes "registry_ok g" "\<forall>m \<in> set (budgets_of g). int (length (gr_targets g)) < m"
  shows "budget_rejection_reason t g = None"
proof -
  have room: "\<not> exhausted key counts m"
    if "counts_of (map h (gr_targets g)) counts" "m \<in> set (budgets_of g)" for key counts m and h :: "navigation_target \<Rightarrow> string option"
  proof -
    have "int (count_list (map h (gr_targets g)) k) < m" for k
      using assms(2) that(2) count_le_length [of "map h (gr_targets g)" k] by fastforce
    then show ?thesis using that(1) unfolding exhausted_def counts_of_def by (simp add: not_le split: option.split)
  qed
  have "counts_of (map nt_route_hint (gr_targets g)) (gr_by_route g)"
    "counts_of (map (Some \<circ> nt_target_kind) (gr_targets g)) (gr_by_kind g)"
    "counts_of (map nt_parent_target_key (gr_targets g)) (gr_by_parent g)"
    using assms(1) unfolding registry_ok_def by simp_all
  from this [THEN room] show ?thesis
    using assms(2) unfolding budgets_of_def budget_rejection_reason_def by (simp add: not_le)
qed

lemma registry_extend_accounts:
  assumes "registry_ok g" "registry_fits g" "registry_extend ts g = (accepted, g')"
  shows "accepted = [length (gr_targets g)..<length (gr_targets g')] \<and> length (gr_targets g) \<le> length (gr_targets g') \<and>
    length accepted + length (gr_rejected_targets g') = length ts + length (gr_rejected_targets g)"
  using assms
proof (induction ts arbitrary: g accepted)
  case Nil
  then show ?case by simp
next
  case (Cons t ts)
  obtain decision g1 where add: "registry_add t g = (decision, g1)" by (cases "registry_add t g")
  obtain later g2 where rest: "registry_extend ts g1 = (later, g2)" by (cases "registry_extend ts g1")
  have "g2 = g'" and accepted: "accepted = (if tdn_accepted decision then length (gr_targets g) # later else later)"
    using Cons.prems(3) add rest by (auto split: if_splits)
  have "registry_ok g1" "registry_fits g1" using registry_add_ok [OF Cons.prems(1,2), of t] add by simp_all
  note IH = Cons.IH [OF this, of later] 
  have "length (gr_targets g1) = length (gr_targets g) + (if tdn_accepted decision then 1 else 0)"
    using arg_cong [OF registry_add_cases(2) [OF Cons.prems(1) add], of length] by simp
  then show ?case
    using IH rest registry_add_cases(3) [OF Cons.prems(1) add] accepted unfolding \<open>g2 = g'\<close>
    by (auto simp: upt_conv_Cons)
qed

lemma registry_extend_roomy:
  assumes "registry_ok g" "registry_fits g" "registry_extend ts g = (accepted, g')"
    "\<forall>m \<in> set (budgets_of g). int (length (gr_targets g) + length ts) \<le> m"
  shows "dedupe_key ` set (gr_targets g') = dedupe_key ` set (gr_targets g) \<union> dedupe_key ` set ts"
  using assms
proof (induction ts arbitrary: g accepted)
  case Nil
  then show ?case by simp
next
  case (Cons t ts)
  obtain decision g1 where add: "registry_add t g = (decision, g1)" by (cases "registry_add t g")
  obtain later g2 where rest: "registry_extend ts g1 = (later, g2)" by (cases "registry_extend ts g1")
  have g2: "g2 = g'" using Cons.prems(3) add rest by (auto split: if_splits)
  have g1: "registry_ok g1" "registry_fits g1" "budgets_of g1 = budgets_of g"
    using registry_add_ok [OF Cons.prems(1,2), of t] registry_add_budgets [of t g] add by (simp_all add: budgets_of_def)
  have accepted: "tdn_accepted decision \<longleftrightarrow> dedupe_key t \<notin> dedupe_key ` set (gr_targets g)"
    using registry_add_cases(1) [OF Cons.prems(1) add] roomy_no_rejection [OF Cons.prems(1)] Cons.prems(4) by fastforce
  have keys: "map dedupe_key (gr_targets g1) =
      map dedupe_key (gr_targets g) @ (if tdn_accepted decision then [dedupe_key t] else [])"
    by (rule registry_add_cases(2) [OF Cons.prems(1) add])
  have "length (gr_targets g1) \<le> length (gr_targets g) + 1" using arg_cong [OF keys, of length] by simp
  then have "\<forall>m \<in> set (budgets_of g1). int (length (gr_targets g1) + length ts) \<le> m"
    using Cons.prems(4) unfolding g1(3) by fastforce
  from Cons.IH [OF g1(1,2) rest [unfolded g2] this]
  show ?case using arg_cong [OF keys, of set] accepted by (auto split: if_splits)
qed

text \<open>C?: adding a list of targets to a registry accounts for every one of them: the accepted ones are the
  new ones of the registry in their order, and each of the others is among the rejected targets. While
  the budgets have room for all of them no key is lost: the registry then holds the old and the new keys.\<close>

theorem registry_extend_loses_nothing:
  assumes "rtranclp registry_step (new_registry max_total per_route per_kind per_parent) g"
    "registry_extend ts g = (accepted, g')"
  shows "accepted = [length (gr_targets g)..<length (gr_targets g')] \<and>
    length accepted + length (gr_rejected_targets g') = length ts + length (gr_rejected_targets g) \<and>
    (int (length (gr_targets g) + length ts) \<le> max 1 (min (min max_total per_route) (min per_kind per_parent)) \<longrightarrow>
       dedupe_key ` set (gr_targets g') = dedupe_key ` set (gr_targets g) \<union> dedupe_key ` set ts)"
proof -
  have g: "registry_ok g" "registry_fits g" "budgets_of g = map (max 1) [max_total, per_route, per_kind, per_parent]"
    using registry_reachable_ok [OF assms(1)] by blast+
  have "\<forall>m \<in> set (budgets_of g). int (length (gr_targets g) + length ts) \<le> m"
    if "int (length (gr_targets g) + length ts) \<le> max 1 (min (min max_total per_route) (min per_kind per_parent))"
    using that unfolding g(3) by auto
  then show ?thesis
    using registry_extend_accounts [OF g(1,2) assms(2)] registry_extend_roomy [OF g(1,2) assms(2)] by blast
qed

subsection \<open>Concrete registries\<close>

definition sample_target :: navigation_target where
  "sample_target = new_navigation_target [(''target_kind'', PStr ''page_route''), (''route_hint'', PStr ''/users/?page=2'')]"

lemma sample_registry_reachable:
  "rtranclp registry_step (new_registry 1 1 1 1) (snd (registry_add sample_target (new_registry 1 1 1 1)))"
  by (rule r_into_rtranclp) (rule step_add)

lemma sample_registry:
  "gr_targets (snd (registry_add sample_target (new_registry 1 1 1 1))) = [mark_queued sample_target]"
  "gr_rejected_targets (snd (registry_add sample_target (new_registry 1 1 1 1))) = []"
  by (simp_all add: registry_add_def new_registry_def budget_rejection_reason_def exhausted_def count_at_def Let_def
      split: option.split)

theorem registry_within_budgets_witness:
  "distinct (map dedupe_key (gr_targets (snd (registry_add sample_target (new_registry 1 1 1 1))))) \<and>
   gr_targets (snd (registry_add sample_target (new_registry 1 1 1 1))) = [mark_queued sample_target] \<and>
   count_list (map nt_target_kind (gr_targets (snd (registry_add sample_target (new_registry 1 1 1 1))))) ''page_route'' \<le> 1"
  using registry_within_budgets [OF sample_registry_reachable] sample_registry(1)
  by (metis (no_types, lifting) max.idem of_nat_le_1_iff)

theorem registry_records_valid_witness:
  "list_all (\<lambda>t. validate_status_reason (to_record t)) [mark_queued sample_target]"
  using registry_records_valid [OF sample_registry_reachable] by (simp add: sample_registry)

theorem registry_extend_loses_nothing_witness:
  "registry_extend [sample_target] (snd (registry_add sample_target (new_registry 1 1 1 1))) =
     ([], snd (registry_extend [sample_target] (snd (registry_add sample_target (new_registry 1 1 1 1))))) \<and>
   length (gr_rejected_targets (snd (registry_extend [sample_target] (snd (registry_add sample_target (new_registry 1 1 1 1)))))) = 1"
proof -
  let ?g = "snd (registry_add sample_target (new_registry 1 1 1 1))"
  have index: "gr_by_key ?g (dedupe_key sample_target) = Some 0"
    by (simp add: registry_add_def new_registry_def budget_rejection_reason_def exhausted_def count_at_def Let_def
        split: option.split)
  have "fst (registry_extend [sample_target] ?g) = []"
    by (simp add: registry_add_def [of _ ?g] index Let_def del: snd_conv)
  moreover from this have "registry_extend [sample_target] ?g = ([], snd (registry_extend [sample_target] ?g))"
    by (metis prod.collapse)
  ultimately show ?thesis
    using registry_extend_loses_nothing [OF sample_registry_reachable, of "[sample_target]"]
    by (metis sample_registry(2) add.right_neutral add_0 length_Cons list.size(3) One_nat_def)
qed

end
