(* ===== verification/CrawlMerge.thy ===== *)
theory CrawlMerge
  imports NavigationTargets JobHandlers begin

section \<open>What a crawl found\<close>

text \<open>
  crawler\_service/service.py, \<open>_combine_results\<close>: the page discovery, the DOM extractor and the state
  probe each return candidates; they are merged into one page per route, one element per element key,
  and menus with the routes their labels name. The candidates are those of schemas.py. A dictionary keyed
  by route, element key or title is an association list in insertion order. The navigation targets of an
  extraction go only from the page discovery to the state probe, so they are left out here.
\<close>

record page_candidate =
  pcd_route_path :: string
  pcd_page_title :: "string option"
  pcd_page_summary :: "string option"
  pcd_keywords :: "pydict option"
  pcd_discovery_sources :: "string list"
  pcd_entry_candidates :: "pydict list"
  pcd_context_constraints :: "pydict option"
  pcd_navigation_diagnostics :: "pydict option"

record menu_candidate =
  mcd_label :: string
  mcd_route_path :: "string option"
  mcd_depth :: int
  mcd_sort_order :: int
  mcd_playwright_locator :: "string option"
  mcd_parent_label :: "string option"
  mcd_page_route_path :: "string option"
  mcd_discovery_sources :: "string list"
  mcd_entry_candidates :: "pydict list"
  mcd_context_constraints :: "pydict option"
  mcd_navigation_identity :: "pydict option"
  mcd_parent_navigation_identity :: "pydict option"

record element_candidate =
  ecd_page_route_path :: string
  ecd_element_type :: string
  ecd_state_signature :: "string option"
  ecd_state_context :: "pydict option"
  ecd_locator_candidates :: "pydict list"
  ecd_element_role :: "string option"
  ecd_element_text :: "string option"
  ecd_attributes :: "pydict option"
  ecd_playwright_locator :: "string option"
  ecd_materialized_by :: "string option"
  ecd_navigation_diagnostics :: "pydict option"
  ecd_stability_score :: "rat option"
  ecd_usage_description :: "string option"

record crawl_extraction =
  cx_framework_detected :: "string option"
  cx_quality_score :: "rat option"
  cx_pages :: "page_candidate list"
  cx_menus :: "menu_candidate list"
  cx_elements :: "element_candidate list"
  cx_failure_reason :: "string option"
  cx_warning_messages :: "string list"
  cx_degraded :: bool

definition new_page_candidate :: "string \<Rightarrow> string option \<Rightarrow> page_candidate" where
  "new_page_candidate route title =
     \<lparr>pcd_route_path = route, pcd_page_title = title, pcd_page_summary = None, pcd_keywords = None,
      pcd_discovery_sources = [], pcd_entry_candidates = [], pcd_context_constraints = None,
      pcd_navigation_diagnostics = None\<rparr>"

subsection \<open>Merging two candidates\<close>

definition merge_dict :: "pydict option \<Rightarrow> pydict option \<Rightarrow> pydict option" where
  "merge_dict base incoming =
     (let b = py_or base []; i = py_or incoming []
      in if b = [] \<and> i = [] then None else Some (fold (\<lambda>(k, v). dset k v) i b))"

definition merge_element_locators :: "pydict list \<Rightarrow> pydict list \<Rightarrow> pydict list" where
  "merge_element_locators base incoming = locator_loop (map PDict (base @ incoming)) [] []"

fun entry_loop :: "pydict list \<Rightarrow> string list \<Rightarrow> pydict list" where
  "entry_loop [] seen = []"
| "entry_loop (candidate # rest) seen =
     (let serialized = dumps (PDict candidate)
      in if serialized \<in> set seen then entry_loop rest seen
         else candidate # entry_loop rest (serialized # seen))"

definition merge_entry_candidates :: "pydict list \<Rightarrow> pydict list \<Rightarrow> pydict list" where
  "merge_entry_candidates base incoming = entry_loop (base @ incoming) []"

definition merge_page_candidate :: "page_candidate \<Rightarrow> page_candidate \<Rightarrow> page_candidate" where
  "merge_page_candidate existing incoming =
     existing\<lparr>pcd_page_title := or_text (pcd_page_title existing) (pcd_page_title incoming),
       pcd_page_summary := or_text (pcd_page_summary existing) (pcd_page_summary incoming),
       pcd_keywords := merge_dict (pcd_keywords existing) (pcd_keywords incoming),
       pcd_discovery_sources :=
         sort (remdups (pcd_discovery_sources existing @ pcd_discovery_sources incoming)),
       pcd_entry_candidates :=
         merge_entry_candidates (pcd_entry_candidates existing) (pcd_entry_candidates incoming),
       pcd_context_constraints :=
         merge_dict (pcd_context_constraints existing) (pcd_context_constraints incoming),
       pcd_navigation_diagnostics :=
         merge_dict (pcd_navigation_diagnostics existing) (pcd_navigation_diagnostics incoming)\<rparr>"

definition element_key :: "element_candidate \<Rightarrow> string" where
  "element_key c =
     dumps (PDict [(''page_route_path'', PStr (ecd_page_route_path c)),
       (''state_signature'', of_opt_str (ecd_state_signature c)),
       (''element_type'', PStr (ecd_element_type c)),
       (''element_role'', of_opt_str (ecd_element_role c)),
       (''element_text'', of_opt_str (ecd_element_text c)),
       (''playwright_locator_fallback'',
          if \<not> truthy_text (ecd_element_role c) \<and> \<not> truthy_text (ecd_element_text c)
          then of_opt_str (ecd_playwright_locator c) else PNone)])"

definition merge_element :: "element_candidate \<Rightarrow> element_candidate \<Rightarrow> element_candidate" where
  "merge_element existing candidate =
     existing\<lparr>ecd_element_type :=
         (if ecd_element_type candidate = [] then ecd_element_type existing else ecd_element_type candidate),
       ecd_element_role := or_text (ecd_element_role candidate) (ecd_element_role existing),
       ecd_element_text := or_text (ecd_element_text candidate) (ecd_element_text existing),
       ecd_attributes := merge_dict (ecd_attributes existing) (ecd_attributes candidate),
       ecd_playwright_locator := or_text (ecd_playwright_locator candidate) (ecd_playwright_locator existing),
       ecd_state_context := merge_dict (ecd_state_context existing) (ecd_state_context candidate),
       ecd_locator_candidates :=
         merge_element_locators (ecd_locator_candidates existing) (ecd_locator_candidates candidate),
       ecd_stability_score :=
         (case ecd_stability_score candidate of None \<Rightarrow> ecd_stability_score existing | Some x \<Rightarrow> Some x),
       ecd_usage_description := or_text (ecd_usage_description candidate) (ecd_usage_description existing),
       ecd_materialized_by := or_text (ecd_materialized_by candidate) (ecd_materialized_by existing),
       ecd_navigation_diagnostics :=
         merge_dict (ecd_navigation_diagnostics existing) (ecd_navigation_diagnostics candidate)\<rparr>"

subsection \<open>Merging the candidates\<close>

text \<open>An update of an association list keeps the position of its key, so the keys are in the order in which
  they came first.\<close>

definition put_element ::
  "element_candidate \<Rightarrow> (string \<times> element_candidate) list \<Rightarrow> (string \<times> element_candidate) list" where
  "put_element candidate merged =
     (if \<not> truthy_text (ecd_state_signature candidate) then merged
      else (let key = element_key candidate in
            case map_of merged key of
              None \<Rightarrow> AList.update key candidate merged
            | Some existing \<Rightarrow> AList.update key (merge_element existing candidate) merged))"

definition merge_representative_elements ::
  "element_candidate list \<Rightarrow> element_candidate list \<Rightarrow> element_candidate list" where
  "merge_representative_elements dom_elements probe_elements =
     map snd (fold put_element (dom_elements @ probe_elements) [])"

definition put_page :: "page_candidate \<Rightarrow> (string \<times> page_candidate) list \<Rightarrow> (string \<times> page_candidate) list" where
  "put_page candidate found =
     (case map_of found (pcd_route_path candidate) of
        None \<Rightarrow> AList.update (pcd_route_path candidate) candidate found
      | Some existing \<Rightarrow>
          AList.update (pcd_route_path candidate) (merge_page_candidate existing candidate) found)"

text \<open>\<open>text.split(separator, 1)[0]\<close>.\<close>

fun split_before :: "string \<Rightarrow> string \<Rightarrow> string" where
  "split_before separator [] = []"
| "split_before separator (c # cs) =
     (if prefix separator (c # cs) then [] else c # split_before separator cs)"

definition em_dash :: string where
  "em_dash = [CHR 0xE2, CHR 0x80, CHR 0x94]"

definition title_separators :: "string list" where
  "title_separators = [''_'', ''|'', ''-'', em_dash]"

definition normalize_title_key :: "string option \<Rightarrow> string option" where
  "normalize_title_key value =
     Option.bind (Option.bind value (\<lambda>v. opt_text (strip v)))
       (\<lambda>normalized. opt_text (fold (\<lambda>sep t. if sublist sep t then strip (split_before sep t) else t)
          title_separators normalized))"

definition put_title :: "page_candidate \<Rightarrow> (string \<times> string) list \<Rightarrow> (string \<times> string) list" where
  "put_title p titles =
     (case normalize_title_key (pcd_page_title p) of
        None \<Rightarrow> titles
      | Some t \<Rightarrow> if map_of titles t = None then AList.update t (pcd_route_path p) titles else titles)"

definition build_title_route_map :: "page_candidate list \<Rightarrow> (string \<times> string) list" where
  "build_title_route_map ps = fold put_title ps []"

definition normalize_menu :: "(string \<times> string) list \<Rightarrow> menu_candidate \<Rightarrow> menu_candidate" where
  "normalize_menu titles menu =
     (let route = (case mcd_route_path menu of
                     None \<Rightarrow> Option.bind (normalize_title_key (Some (mcd_label menu))) (map_of titles)
                   | Some r \<Rightarrow> Some r)
      in menu\<lparr>mcd_route_path := route,
              mcd_page_route_path := (case mcd_page_route_path menu of None \<Rightarrow> route | Some r \<Rightarrow> Some r)\<rparr>)"

definition put_menu_page ::
  "menu_candidate \<Rightarrow> (string \<times> page_candidate) list \<Rightarrow> (string \<times> page_candidate) list" where
  "put_menu_page menu found =
     (case or_text (mcd_page_route_path menu) (mcd_route_path menu) of
        None \<Rightarrow> found
      | Some r \<Rightarrow>
          if r \<noteq> [] \<and> map_of found r = None
          then AList.update r (new_page_candidate r (Some (mcd_label menu))) found else found)"

definition put_element_page ::
  "element_candidate \<Rightarrow> (string \<times> page_candidate) list \<Rightarrow> (string \<times> page_candidate) list" where
  "put_element_page e found =
     (if map_of found (ecd_page_route_path e) = None
      then AList.update (ecd_page_route_path e) (new_page_candidate (ecd_page_route_path e) None) found
      else found)"

definition max_quality :: "rat option list \<Rightarrow> rat option" where
  "max_quality scores =
     (case List.map_filter id scores of [] \<Rightarrow> None | q # qs \<Rightarrow> Some (fold max qs q))"

definition combine_results ::
  "system_row \<Rightarrow> crawl_extraction \<Rightarrow> crawl_extraction \<Rightarrow> crawl_extraction \<Rightarrow> crawl_extraction" where
  "combine_results system discovery dom_result probe =
     (let representative_elements = merge_representative_elements (cx_elements dom_result) (cx_elements probe);
          discovered = fold put_page (cx_pages discovery @ cx_pages dom_result @ cx_pages probe) [];
          normalized_dom_menus = map (normalize_menu (build_title_route_map (map snd discovered))) (cx_menus dom_result);
          page_candidates = fold put_element_page representative_elements
            (fold put_menu_page normalized_dom_menus discovered);
          reason = or_text (cx_failure_reason discovery) (cx_failure_reason dom_result)
      in \<lparr>cx_framework_detected =
            or_text (or_text (or_text (cx_framework_detected discovery) (cx_framework_detected probe))
              (cx_framework_detected dom_result)) (Some (sys_framework_type system)),
          cx_quality_score =
            max_quality [cx_quality_score discovery, cx_quality_score dom_result, cx_quality_score probe],
          cx_pages = map snd page_candidates,
          cx_menus = normalized_dom_menus,
          cx_elements = representative_elements,
          cx_failure_reason =
            (if reason = None \<and> page_candidates = [] then cx_failure_reason probe else reason),
          cx_warning_messages =
            cx_warning_messages discovery @ cx_warning_messages dom_result @ cx_warning_messages probe,
          cx_degraded = (cx_degraded discovery \<or> cx_degraded dom_result \<or> page_candidates = [])\<rparr>)"

subsection \<open>Every menu and every element has its page\<close>

lemma keys_update: "map fst (AList.update k v xs) = (if k \<in> fst ` set xs then map fst xs else map fst xs @ [k])"
  by (induction xs) auto

lemma map_of_keys: "map_of xs k = None \<longleftrightarrow> k \<notin> fst ` set xs"
  by (rule map_of_eq_None_iff)

definition keyed :: "('v \<Rightarrow> string) \<Rightarrow> (string \<times> 'v) list \<Rightarrow> bool" where
  "keyed h xs \<longleftrightarrow> distinct (map fst xs) \<and> (\<forall>(k, v) \<in> set xs. h v = k)"

lemma keyed_Nil [simp]: "keyed h []"
  by (simp add: keyed_def)

lemma keyed_update:
  assumes "keyed h xs" "h v = k"
  shows "keyed h (AList.update k v xs)"
proof -
  have "set (AList.update k v xs) \<subseteq> insert (k, v) (set xs)" by (induction xs) auto
  then show ?thesis using assms distinct_update [of xs k v] unfolding keyed_def by auto
qed

lemma keyed_values: "keyed h xs \<Longrightarrow> map h (map snd xs) = map fst xs"
  unfolding keyed_def by auto

lemma keyed_map_of: "keyed h xs \<Longrightarrow> map_of xs k = Some v \<Longrightarrow> h v = k"
  unfolding keyed_def by (auto dest: map_of_SomeD)

lemma merge_frames [simp]:
  "pcd_route_path (merge_page_candidate p q) = pcd_route_path p"
  "ecd_page_route_path (merge_element e c) = ecd_page_route_path e"
  "ecd_state_signature (merge_element e c) = ecd_state_signature e"
  "pcd_route_path (new_page_candidate r t) = r"
  by (simp_all add: merge_page_candidate_def merge_element_def new_page_candidate_def)

text \<open>A step that puts at most one page and keeps those it found.\<close>

definition puts_at_most :: "('a \<Rightarrow> string option) \<Rightarrow> ('a \<Rightarrow> (string \<times> page_candidate) list \<Rightarrow> (string \<times> page_candidate) list) \<Rightarrow> bool" where
  "puts_at_most r f \<longleftrightarrow>
     (\<forall>x d. keyed pcd_route_path d \<longrightarrow> keyed pcd_route_path (f x d) \<and>
        fst ` set (f x d) = fst ` set d \<union> set_option (r x))"

lemma puts_fold:
  assumes "puts_at_most r f" "keyed pcd_route_path d"
  shows "keyed pcd_route_path (fold f xs d) \<and> fst ` set (fold f xs d) = fst ` set d \<union> (\<Union>x \<in> set xs. set_option (r x))"
  using assms(2)
proof (induction xs arbitrary: d)
  case (Cons x xs)
  have "keyed pcd_route_path (f x d) \<and> fst ` set (f x d) = fst ` set d \<union> set_option (r x)"
    using assms(1) Cons.prems unfolding puts_at_most_def by simp
  then show ?case by (simp add: Cons.IH Un_assoc)
qed simp

lemma puts_update:
  assumes "keyed pcd_route_path d" "pcd_route_path p = k"
  shows "keyed pcd_route_path (AList.update k p d) \<and> fst ` set (AList.update k p d) = fst ` set d \<union> {k}"
  using keyed_update [OF assms] dom_update [of k p d] by auto

lemma puts_page: "puts_at_most (\<lambda>c. Some (pcd_route_path c)) put_page"
  unfolding puts_at_most_def
proof (intro allI impI)
  fix c and d :: "(string \<times> page_candidate) list"
  assume d: "keyed pcd_route_path d"
  have "\<exists>p. put_page c d = AList.update (pcd_route_path c) p d \<and> pcd_route_path p = pcd_route_path c"
    using keyed_map_of [OF d] by (auto simp: put_page_def split: option.split)
  then show "keyed pcd_route_path (put_page c d) \<and>
      fst ` set (put_page c d) = fst ` set d \<union> set_option (Some (pcd_route_path c))"
    using puts_update [OF d] by (metis option.set(2))
qed

lemma puts_element_page: "puts_at_most (\<lambda>e. Some (ecd_page_route_path e)) put_element_page"
  unfolding puts_at_most_def put_element_page_def
  by (auto simp: keyed_update dom_update map_of_keys)

definition menu_route :: "menu_candidate \<Rightarrow> string option" where
  "menu_route m = Option.bind (or_text (mcd_page_route_path m) (mcd_route_path m)) opt_text"

lemma puts_menu_page: "puts_at_most menu_route put_menu_page"
  unfolding puts_at_most_def put_menu_page_def menu_route_def
  by (auto simp: keyed_update dom_update map_of_keys opt_text_def split: option.splits if_splits intro: rev_image_eqI)

lemma combined_pages:
  fixes system discovery dom_result probe
  defines "combined \<equiv> combine_results system discovery dom_result probe"
  shows "distinct (map pcd_route_path (cx_pages combined)) \<and>
    set (map pcd_route_path (cx_pages combined)) =
      pcd_route_path ` set (cx_pages discovery @ cx_pages dom_result @ cx_pages probe) \<union>
      (\<Union>m \<in> set (cx_menus combined). set_option (menu_route m)) \<union>
      ecd_page_route_path ` set (cx_elements combined)"
proof -
  let ?found = "fold put_page (cx_pages discovery @ cx_pages dom_result @ cx_pages probe) []"
  let ?menus = "cx_menus combined" and ?elements = "cx_elements combined"
  let ?all = "fold put_element_page ?elements (fold put_menu_page ?menus ?found)"
  note found = puts_fold [OF puts_page keyed_Nil, of "cx_pages discovery @ cx_pages dom_result @ cx_pages probe"]
  note menus = puts_fold [OF puts_menu_page found [THEN conjunct1], of ?menus]
  note pages = puts_fold [OF puts_element_page menus [THEN conjunct1], of ?elements]
  have "cx_pages combined = map snd ?all"
    by (simp add: combined_def combine_results_def Let_def)
  then have keys: "map pcd_route_path (cx_pages combined) = map fst ?all"
    using keyed_values [OF pages [THEN conjunct1]] by simp
  have "distinct (map fst ?all)" using pages unfolding keyed_def by blast
  moreover have "set (map fst ?all) = pcd_route_path ` set (cx_pages discovery @ cx_pages dom_result @ cx_pages probe) \<union>
      (\<Union>m \<in> set ?menus. set_option (menu_route m)) \<union> ecd_page_route_path ` set ?elements"
    using pages menus found by auto
  ultimately show ?thesis unfolding keys by blast
qed

end
