(* ===== verification/CrawlPersistence.thy ===== *)
theory CrawlPersistence
  imports CrawlMerge Sha256 DataAssertions begin

section \<open>A crawl of a system\<close>

text \<open>
  \<open>CrawlerService\<close> of crawler\_service/service.py: the login state a crawl uses, its refresh when the
  crawl looks logged out, and the rows it writes. The browser, the three extractors and the derivation of
  the entry URL from the addresses of the system and its login form are one argument, \<open>extract\<close>: given the
  system, its credential, the login state, the scope and whether it is the first or second crawl, it raises
  or returns what the page discovery, the DOM extractor and the state probe found. A \<open>flush\<close> writes to the
  working copy; what was written before an exception stays there.
\<close>

record crawl_env =
  cv_snapshot_id :: uuid
  cv_page_id :: "nat \<Rightarrow> uuid"
  cv_menu_id :: "nat \<Rightarrow> uuid"
  cv_element_id :: "nat \<Rightarrow> uuid"
  cv_clock :: clock

record crawl_run_result =
  cr_system_id :: uuid
  cr_status :: string
  cr_snapshot_id :: "uuid option"
  cr_pages_saved :: int
  cr_menus_saved :: int
  cr_elements_saved :: int
  cr_message :: "string option"
  cr_failure_reason :: "string option"
  cr_warning_messages :: "string list"
  cr_degraded :: bool

definition no_crawl_result :: "uuid \<Rightarrow> string \<Rightarrow> string option \<Rightarrow> crawl_run_result" where
  "no_crawl_result system_id status message =
     \<lparr>cr_system_id = system_id, cr_status = status, cr_snapshot_id = None, cr_pages_saved = 0,
      cr_menus_saved = 0, cr_elements_saved = 0, cr_message = message, cr_failure_reason = None,
      cr_warning_messages = [], cr_degraded = False\<rparr>"

type_synonym extractor =
  "system_row \<Rightarrow> system_credential option \<Rightarrow> auth_state \<Rightarrow> string \<Rightarrow> nat \<Rightarrow>
     py_exc + (crawl_extraction \<times> crawl_extraction \<times> crawl_extraction)"

subsection \<open>The rows of a snapshot\<close>

definition build_snapshot :: "crawl_env \<Rightarrow> uuid \<Rightarrow> string \<Rightarrow> string \<Rightarrow> crawl_extraction \<Rightarrow> crawl_snapshot" where
  "build_snapshot env system_id crawl_scope system_framework extraction =
     \<lparr>cs_id = cv_snapshot_id env, cs_system_id = system_id, cs_crawl_type = crawl_scope,
      cs_framework_detected = or_text (cx_framework_detected extraction) (Some system_framework),
      cs_quality_score = cx_quality_score extraction, cs_degraded = cx_degraded extraction,
      cs_state = ''draft'', cs_activated_at = None, cs_discarded_at = None,
      cs_failure_reason = cx_failure_reason extraction,
      cs_warning_messages = cx_warning_messages extraction,
      cs_structure_hash = Some (sha256_hex (json_dumps compact_json
        (PList (map PStr (sort (map pcd_route_path (cx_pages extraction))))))),
      cs_started_at = cv_clock env 0, cs_finished_at = None\<rparr>"

definition page_row :: "crawl_env \<Rightarrow> uuid \<Rightarrow> nat \<times> page_candidate \<Rightarrow> page" where
  "page_row env system_id ic =
     (let c = snd ic in
      \<lparr>pg_id = cv_page_id env (fst ic), pg_system_id = system_id, pg_snapshot_id = Some (cv_snapshot_id env),
       pg_route_path = pcd_route_path c, pg_page_title = pcd_page_title c,
       pg_page_summary = pcd_page_summary c, pg_keywords = pcd_keywords c,
       pg_discovery_sources = Some (pcd_discovery_sources c),
       pg_entry_candidates = Some (pcd_entry_candidates c),
       pg_context_constraints = pcd_context_constraints c,
       pg_navigation_diagnostics = pcd_navigation_diagnostics c,
       pg_crawled_at = cv_clock env (Suc (fst ic))\<rparr>)"

definition persist_pages ::
  "crawl_env \<Rightarrow> uuid \<Rightarrow> page_candidate list \<Rightarrow> db_session \<Rightarrow> (string \<times> page) list \<times> db_session" where
  "persist_pages env system_id ps s =
     (let rows = map (page_row env system_id) (enumerate 0 ps)
      in (dict_of (map (\<lambda>p. (pg_route_path p, p)) rows), modify (\<lambda>d. d\<lparr>pages := pages d @ rows\<rparr>) s))"

text \<open>\<open>int(text)\<close> of a text of digits raises for those that are no decimal digits.\<close>

definition all_digits :: "string \<Rightarrow> bool" where
  "all_digits t \<longleftrightarrow> code_points t \<noteq> [] \<and> list_all is_digit (code_points t)"

definition identity_depth :: "pyval \<Rightarrow> string + int" where
  "identity_depth v =
     (case v of
        PInt i \<Rightarrow> Inr i
      | PFloat x \<Rightarrow> Inr (py_trunc x)
      | PStr t \<Rightarrow> if all_digits (strip t) then int_of_digits (strip t) else Inr 0
      | _ \<Rightarrow> Inr 0)"

definition identity_sibling :: "pyval \<Rightarrow> string + int option" where
  "identity_sibling v =
     (case v of
        PInt i \<Rightarrow> Inr (Some i)
      | PFloat x \<Rightarrow> Inr (Some (py_trunc x))
      | PStr t \<Rightarrow> if all_digits (strip t) then map_sum id Some (int_of_digits (strip t)) else Inr None
      | _ \<Rightarrow> Inr None)"

definition text_item :: "string \<Rightarrow> pydict \<Rightarrow> pydict" where
  "text_item key value =
     (case clean_string (dget value key) of None \<Rightarrow> [] | Some t \<Rightarrow> [(key, PStr t)])"

definition serialize_navigation_identity :: "pydict option \<Rightarrow> string + string option" where
  "serialize_navigation_identity identity =
     (case identity of
        None \<Rightarrow> Inr None
      | Some value \<Rightarrow>
          (case (clean_string (dget value ''label''), dget value ''depth'') of
             (None, _) \<Rightarrow> Inr None
           | (_, PBool _) \<Rightarrow> Inr None
           | (Some label, depth) \<Rightarrow>
               (case identity_depth depth of
                  Inl e \<Rightarrow> Inl e
                | Inr n \<Rightarrow>
                    (case identity_sibling (dget value ''sibling_index'') of
                       Inl e \<Rightarrow> Inl e
                     | Inr sibling \<Rightarrow>
                         Inr (Some (dumps (PDict
                           ([(''label'', PStr label), (''depth'', PInt n)] @
                            text_item ''role'' value @ text_item ''aria_label'' value @
                            (case sibling of None \<Rightarrow> [] | Some i \<Rightarrow> [(''sibling_index'', PInt i)])))))))))"

definition menu_row ::
  "crawl_env \<Rightarrow> uuid \<Rightarrow> (string \<times> page) list \<Rightarrow> uuid option \<Rightarrow> nat \<Rightarrow> menu_candidate \<Rightarrow> menu_node" where
  "menu_row env system_id page_map parent i c =
     \<lparr>mn_id = cv_menu_id env i, mn_system_id = system_id, mn_snapshot_id = cv_snapshot_id env,
      mn_parent_id = parent,
      mn_page_id = map_option pg_id
        (map_of page_map (py_or (or_text (mcd_page_route_path c) (mcd_route_path c)) [])),
      mn_label = mcd_label c, mn_route_path = mcd_route_path c, mn_depth = mcd_depth c,
      mn_sort_order = mcd_sort_order c, mn_playwright_locator = mcd_playwright_locator c,
      mn_discovery_sources = Some (mcd_discovery_sources c),
      mn_entry_candidates = Some (mcd_entry_candidates c),
      mn_context_constraints = mcd_context_constraints c\<rparr>"

definition find_parent ::
  "string option \<Rightarrow> (string \<rightharpoonup> menu_node) \<Rightarrow> (string \<rightharpoonup> menu_node) \<Rightarrow> string option \<Rightarrow> menu_node option" where
  "find_parent identity_key identity_map label_map parent_label =
     (case Option.bind identity_key identity_map of
        Some m \<Rightarrow> Some m
      | None \<Rightarrow> label_map (py_or parent_label []))"

fun persist_menus ::
  "crawl_env \<Rightarrow> uuid \<Rightarrow> (string \<times> page) list \<Rightarrow> nat \<Rightarrow> menu_candidate list \<Rightarrow> (string \<rightharpoonup> menu_node) \<Rightarrow>
     (string \<rightharpoonup> menu_node) \<Rightarrow> db_session \<Rightarrow> (py_exc + unit) \<times> db_session" where
  "persist_menus env system_id page_map i [] identity_map label_map s = (Inr (), s)"
| "persist_menus env system_id page_map i (c # cs) identity_map label_map s =
     (case serialize_navigation_identity (mcd_parent_navigation_identity c) of
        Inl e \<Rightarrow> (Inl (OtherException e), s)
      | Inr parent_key \<Rightarrow>
          (let parent = find_parent parent_key identity_map label_map (mcd_parent_label c);
               menu = menu_row env system_id page_map (map_option mn_id parent) i c;
               s1 = modify (\<lambda>d. d\<lparr>menu_nodes := menu_nodes d @ [menu]\<rparr>) s
           in case serialize_navigation_identity (mcd_navigation_identity c) of
                Inl e \<Rightarrow> (Inl (OtherException e), s1)
              | Inr key \<Rightarrow>
                  persist_menus env system_id page_map (Suc i) cs
                    (case key of None \<Rightarrow> identity_map | Some k \<Rightarrow> identity_map(k \<mapsto> menu))
                    (label_map(mcd_label c \<mapsto> menu)) s1))"

definition element_row :: "crawl_env \<Rightarrow> uuid \<Rightarrow> page \<Rightarrow> nat \<Rightarrow> element_candidate \<Rightarrow> page_element" where
  "element_row env system_id p i c =
     \<lparr>pe_id = cv_element_id env i, pe_system_id = system_id, pe_snapshot_id = cv_snapshot_id env,
      pe_page_id = pg_id p, pe_element_type = ecd_element_type c, pe_element_role = ecd_element_role c,
      pe_element_text = ecd_element_text c, pe_attributes = ecd_attributes c,
      pe_playwright_locator = ecd_playwright_locator c, pe_state_signature = ecd_state_signature c,
      pe_state_context = ecd_state_context c, pe_locator_candidates = Some (ecd_locator_candidates c),
      pe_materialized_by = ecd_materialized_by c,
      pe_navigation_diagnostics = ecd_navigation_diagnostics c,
      pe_stability_score = ecd_stability_score c, pe_usage_description = ecd_usage_description c\<rparr>"

definition persist_elements ::
  "crawl_env \<Rightarrow> uuid \<Rightarrow> (string \<times> page) list \<Rightarrow> element_candidate list \<Rightarrow> db_session \<Rightarrow> db_session" where
  "persist_elements env system_id page_map elements s =
     modify (\<lambda>d. d\<lparr>page_elements := page_elements d @
       List.map_filter (\<lambda>(i, c). map_option (\<lambda>p. element_row env system_id p i c)
         (map_of page_map (ecd_page_route_path c))) (enumerate 0 elements)\<rparr>) s"

definition persist_crawl_result ::
  "crawl_env \<Rightarrow> uuid \<Rightarrow> string \<Rightarrow> string \<Rightarrow> crawl_extraction \<Rightarrow> string option \<Rightarrow> bool \<Rightarrow> db_session \<Rightarrow>
     (py_exc + crawl_run_result) \<times> db_session" where
  "persist_crawl_result env system_id crawl_scope system_framework extraction message auto_commit s =
     (let snapshot = build_snapshot env system_id crawl_scope system_framework extraction;
          s1 = modify (\<lambda>d. d\<lparr>crawl_snapshots := crawl_snapshots d @ [snapshot]\<rparr>) s;
          (page_map, s2) = persist_pages env system_id (cx_pages extraction) s1
      in case persist_menus env system_id page_map 0 (cx_menus extraction) Map.empty Map.empty s2 of
           (Inl e, s3) \<Rightarrow> (Inl e, s3)
         | (Inr _, s3) \<Rightarrow>
             (let s4 = persist_elements env system_id page_map (cx_elements extraction) s3;
                  s5 = modify (\<lambda>d. d\<lparr>crawl_snapshots := upd_row cs_id (cv_snapshot_id env)
                         (\<lambda>c. c\<lparr>cs_finished_at := Some (cv_clock env (Suc (length (cx_pages extraction))))\<rparr>)
                         (crawl_snapshots d)\<rparr>) s4
              in (Inr \<lparr>cr_system_id = system_id, cr_status = ''success'',
                       cr_snapshot_id = Some (cv_snapshot_id env), cr_pages_saved = int (length page_map),
                       cr_menus_saved = int (length (cx_menus extraction)),
                       cr_elements_saved = int (length (cx_elements extraction)), cr_message = message,
                       cr_failure_reason = cx_failure_reason extraction,
                       cr_warning_messages = cx_warning_messages extraction,
                       cr_degraded = cx_degraded extraction\<rparr>,
                  if auto_commit then commit s5 else s5)))"

subsection \<open>The login state of a crawl\<close>

definition login_markers :: "string list" where
  "login_markers = [''login'', ''signin'', ''sign-in'']"

definition login_route :: "string \<Rightarrow> bool" where
  "login_route route \<longleftrightarrow> list_ex (\<lambda>marker. sublist marker route) login_markers"

definition looks_like_stale_auth_state :: "crawl_extraction \<Rightarrow> bool" where
  "looks_like_stale_auth_state x =
     (let page_routes = remdups (map (\<lambda>p. lower (strip (pcd_route_path p)))
            (filter (\<lambda>p. strip (pcd_route_path p) \<noteq> []) (cx_pages x)))
      in ''state_probe_baseline_degraded'' \<in> set (cx_warning_messages x) \<and> cx_menus x = [] \<and>
         length (cx_elements x) \<le> 2 \<and> page_routes \<noteq> [] \<and> length page_routes \<le> 2 \<and>
         (list_ex login_route page_routes \<or>
          list_all (\<lambda>r. r \<in> {''/'', ''/index'', ''/home''} \<or> login_route r) page_routes))"

definition append_warning :: "string \<Rightarrow> crawl_extraction \<Rightarrow> crawl_extraction" where
  "append_warning warning x =
     (if warning \<in> set (cx_warning_messages x) then x
      else x\<lparr>cx_warning_messages := cx_warning_messages x @ [warning]\<rparr>)"

definition load_system_credential :: "uuid \<Rightarrow> db \<Rightarrow> system_credential option" where
  "load_system_credential system_id d =
     first_by (\<lambda>c. - uint (sc_id c)) (filter (\<lambda>c. sc_system_id c = system_id) (system_credentials d))"

definition stored_auth_state :: "uuid \<Rightarrow> db \<Rightarrow> auth_state option" where
  "stored_auth_state system_id d =
     (case load_valid_auth_state system_id d of
        None \<Rightarrow> None
      | Some a \<Rightarrow> if py_or (au_storage_state a) [] = [] then None else Some a)"

definition extract_crawl_once ::
  "extractor \<Rightarrow> system_row \<Rightarrow> system_credential option \<Rightarrow> auth_state \<Rightarrow> string \<Rightarrow> nat \<Rightarrow> py_exc + crawl_extraction" where
  "extract_crawl_once extract system credential auth crawl_scope n =
     map_sum id (\<lambda>(discovery, dom_result, probe). combine_results system discovery dom_result probe)
       (extract system credential auth crawl_scope n)"

text \<open>The second crawl, once the first one looked logged out.\<close>

definition crawl_again ::
  "extractor \<Rightarrow> auth_refresher option \<Rightarrow> system_row \<Rightarrow> system_credential option \<Rightarrow> string \<Rightarrow> crawl_extraction \<Rightarrow>
     db_session \<Rightarrow> (py_exc + crawl_extraction \<times> string option) \<times> db_session" where
  "crawl_again extract auth_service system credential crawl_scope combined s =
     (case auth_service of
        None \<Rightarrow> (Inr (append_warning ''auth_state_stale_detected'' combined, None), s)
      | Some refresh \<Rightarrow>
          (case refresh (sys_id system) s of
             (Inl e, s1) \<Rightarrow> (Inl e, s1)
           | (Inr result, s1) \<Rightarrow>
               if ar_status result = ''success''
               then (case stored_auth_state (sys_id system) (working s1) of
                       Some auth \<Rightarrow>
                         (map_sum id (\<lambda>x. (append_warning ''auth_state_auto_refreshed'' x, None))
                            (extract_crawl_once extract system credential auth crawl_scope 1), s1)
                     | None \<Rightarrow>
                         (Inr (append_warning ''auth_state_refresh_failed'' combined,
                               or_text (ar_message result) (Some ''auth_state_refresh_missing'')), s1))
               else (Inr (append_warning ''auth_state_refresh_failed'' combined, ar_message result), s1)))"

definition run_crawl ::
  "extractor \<Rightarrow> auth_refresher option \<Rightarrow> crawl_env \<Rightarrow> uuid \<Rightarrow> string \<Rightarrow> bool \<Rightarrow> db_session \<Rightarrow>
     (py_exc + crawl_run_result) \<times> db_session" where
  "run_crawl extract auth_service env system_id crawl_scope auto_commit s =
     (case find_row sys_id system_id (systems (working s)) of
        None \<Rightarrow> (Inr (no_crawl_result system_id ''failed'' (Some ''system not found'')), s)
      | Some system \<Rightarrow>
          (case stored_auth_state system_id (working s) of
             None \<Rightarrow> (Inr (no_crawl_result system_id ''auth_required'' None), s)
           | Some auth \<Rightarrow>
               (let credential = load_system_credential system_id (working s)
                in case extract_crawl_once extract system credential auth crawl_scope 0 of
                     Inl e \<Rightarrow> (Inl e, s)
                   | Inr combined \<Rightarrow>
                       (case (if looks_like_stale_auth_state combined
                              then crawl_again extract auth_service system credential crawl_scope combined s
                              else (Inr (combined, None), s)) of
                          (Inl e, s1) \<Rightarrow> (Inl e, s1)
                        | (Inr (extraction, message), s1) \<Rightarrow>
                            persist_crawl_result env system_id crawl_scope (sys_framework_type system)
                              extraction message auto_commit s1))))"

text \<open>The service as the crawl job calls it.\<close>

definition crawl_service :: "extractor \<Rightarrow> auth_refresher option \<Rightarrow> crawl_env \<Rightarrow> crawl_runner" where
  "crawl_service extract auth_service env system_id crawl_scope s =
     (let (r, s1) = run_crawl extract auth_service env system_id crawl_scope False s
      in (map_sum id (\<lambda>c. \<lparr>cw_status = cr_status c, cw_snapshot_id = cr_snapshot_id c, cw_message = cr_message c\<rparr>) r, s1))"

end
