(* ===== verification/CrawlDelivery.thy ===== *)
theory CrawlDelivery
  imports CrawlPersistence begin

section \<open>What a crawl leaves in the database\<close>

text \<open>
  The lemmas on CrawlPersistence: a successful crawl adds one draft with the pages, menu nodes and elements
  it found, their references inside the draft; the crawl job hands the draft on to its compilation. The
  worker builds the service without an auth service; with one, its refresh has to leave the crawled facts
  alone.
\<close>

subsection \<open>Extractions without loose ends\<close>

definition covered :: "crawl_extraction \<Rightarrow> bool" where
  "covered x \<longleftrightarrow>
     distinct (map pcd_route_path (cx_pages x)) \<and>
     (\<forall>e \<in> set (cx_elements x). ecd_page_route_path e \<in> pcd_route_path ` set (cx_pages x)) \<and>
     (\<forall>m \<in> set (cx_menus x). set_option (menu_route m) \<subseteq> pcd_route_path ` set (cx_pages x))"

text \<open>An extraction merged from what the extractors found of the system in one visit.\<close>

definition merged_from ::
  "extractor \<Rightarrow> uuid \<Rightarrow> string \<Rightarrow> crawl_extraction \<Rightarrow> crawl_extraction \<Rightarrow> crawl_extraction \<Rightarrow> crawl_extraction \<Rightarrow> bool" where
  "merged_from extract sid scope x discovery dom_result probe \<longleftrightarrow>
     (\<exists>system credential auth n. sys_id system = sid \<and>
        extract system credential auth scope n = Inr (discovery, dom_result, probe) \<and>
        (let y = combine_results system discovery dom_result probe
         in cx_pages x = cx_pages y \<and> cx_menus x = cx_menus y \<and> cx_elements x = cx_elements y))"

text \<open>What the extractors returned on a visit of the system.\<close>

definition visited ::
  "extractor \<Rightarrow> uuid \<Rightarrow> string \<Rightarrow> crawl_extraction \<Rightarrow> crawl_extraction \<Rightarrow> crawl_extraction \<Rightarrow> bool" where
  "visited extract sid scope discovery dom_result probe \<longleftrightarrow>
     (\<exists>system credential auth n. sys_id system = sid \<and>
        extract system credential auth scope n = Inr (discovery, dom_result, probe))"

lemma merged_visited:
  "merged_from extract sid scope x discovery dom_result probe \<Longrightarrow> visited extract sid scope discovery dom_result probe"
  unfolding merged_from_def visited_def by blast

lemma merged_covered: "merged_from extract sid scope x discovery dom_result probe \<Longrightarrow> covered x"
  using combined_pages unfolding merged_from_def covered_def Let_def by (clarsimp simp: image_iff) blast

lemma merged_warning [simp]: "merged_from extract sid scope (append_warning w x) = merged_from extract sid scope x"
  by (intro ext) (simp add: append_warning_def merged_from_def)

definition merged_visit :: "extractor \<Rightarrow> uuid \<Rightarrow> string \<Rightarrow> crawl_extraction \<Rightarrow> bool" where
  "merged_visit extract sid scope x \<longleftrightarrow>
     (\<exists>discovery dom_result probe. merged_from extract sid scope x discovery dom_result probe)"

lemma merged_visit_warning [simp]: "merged_visit extract sid scope (append_warning w x) = merged_visit extract sid scope x"
  by (simp add: merged_visit_def)

lemma extract_merged:
  assumes "extract_crawl_once extract system credential auth scope n = Inr x"
  shows "merged_visit extract (sys_id system) scope x"
proof -
  obtain discovery dom_result probe where "extract system credential auth scope n = Inr (discovery, dom_result, probe)"
    "x = combine_results system discovery dom_result probe"
    using assms by (cases "extract system credential auth scope n") (auto simp: extract_crawl_once_def)
  then have "merged_from extract (sys_id system) scope x discovery dom_result probe"
    unfolding merged_from_def Let_def by blast
  then show ?thesis unfolding merged_visit_def by blast
qed

lemma crawl_again_merged:
  assumes "crawl_again extract auth_service system credential scope x s = (Inr (y, message), s1)"
    "merged_visit extract (sys_id system) scope x"
  shows "merged_visit extract (sys_id system) scope y"
proof -
  have warned: "map_sum id (\<lambda>x. (append_warning w x, m)) r = Inr (y, m') \<Longrightarrow> \<exists>z. r = Inr z \<and> y = append_warning w z"
    for w m m' and r :: "py_exc + crawl_extraction"
    by (cases r) auto
  show ?thesis
    using assms extract_merged unfolding crawl_again_def
    by (auto split: option.splits prod.splits sum.splits if_splits dest!: warned)
qed

text \<open>One row per element that has a state signature and a key of its own.\<close>

definition element_keys :: "element_candidate list \<Rightarrow> string set" where
  "element_keys cs = element_key ` {c \<in> set cs. truthy_text (ecd_state_signature c)}"

lemma put_elements_keys:
  "distinct (map fst d) \<Longrightarrow>
    distinct (map fst (fold put_element cs d)) \<and> fst ` set (fold put_element cs d) = fst ` set d \<union> element_keys cs"
proof (induction cs arbitrary: d)
  case (Cons c cs)
  have "distinct (map fst (put_element c d)) \<and> fst ` set (put_element c d) = fst ` set d \<union> element_keys [c]"
  proof (cases "truthy_text (ecd_state_signature c)")
    case True
    then obtain e where "put_element c d = AList.update (element_key c) e d"
      by (cases "map_of d (element_key c)") (simp_all add: put_element_def Let_def)
    moreover have "element_keys [c] = {element_key c}" using True by (auto simp: element_keys_def)
    ultimately show ?thesis using Cons.prems distinct_update [of d] dom_update [of "element_key c" e d] by simp
  next
    case False
    then have "element_keys [c] = {}" by (simp add: element_keys_def)
    then show ?thesis using False Cons.prems by (simp add: put_element_def)
  qed
  then show ?case using Cons.IH by (auto simp: element_keys_def)
qed (simp add: element_keys_def)

lemma merged_elements: "length (merge_representative_elements a b) = card (element_keys (a @ b))"
  using put_elements_keys [of "[]" "a @ b"] distinct_card [of "map fst (fold put_element (a @ b) [])"]
  by (simp add: merge_representative_elements_def)

text \<open>The rows hold what the extractors found: a page for every route, a menu node for every menu, an element for
  every element key.\<close>

definition saves_found ::
  "crawl_extraction \<Rightarrow> crawl_extraction \<Rightarrow> crawl_extraction \<Rightarrow> page list \<Rightarrow> menu_node list \<Rightarrow> page_element list \<Rightarrow> bool" where
  "saves_found discovery dom_result probe ps ms es \<longleftrightarrow>
     pcd_route_path ` set (cx_pages discovery @ cx_pages dom_result @ cx_pages probe) \<subseteq> pg_route_path ` set ps \<and>
     map mn_label ms = map mcd_label (cx_menus dom_result) \<and>
     length es = card (element_keys (cx_elements dom_result @ cx_elements probe))"

lemma merged_saves:
  assumes "merged_from extract sid scope x discovery dom_result probe"
    "map pg_route_path ps = map pcd_route_path (cx_pages x)" "map mn_label ms = map mcd_label (cx_menus x)"
    "length es = length (cx_elements x)"
  shows "saves_found discovery dom_result probe ps ms es"
proof -
  obtain system where x: "cx_pages x = cx_pages (combine_results system discovery dom_result probe)"
    "cx_menus x = cx_menus (combine_results system discovery dom_result probe)"
    "cx_elements x = cx_elements (combine_results system discovery dom_result probe)"
    using assms(1) unfolding merged_from_def Let_def by blast
  have "pg_route_path ` set ps = set (map pcd_route_path (cx_pages x))"
    using arg_cong [OF assms(2), of set] by simp
  then have "pcd_route_path ` set (cx_pages discovery @ cx_pages dom_result @ cx_pages probe) \<subseteq> pg_route_path ` set ps"
    unfolding x(1) using combined_pages by blast
  moreover have "map mcd_label (cx_menus x) = map mcd_label (cx_menus dom_result)"
    unfolding x(2) by (simp add: combine_results_def normalize_menu_def Let_def)
  moreover have "length (cx_elements x) = card (element_keys (cx_elements dom_result @ cx_elements probe))"
    unfolding x(3) by (simp add: combine_results_def merged_elements Let_def)
  ultimately show ?thesis unfolding saves_found_def assms(3,4) by blast
qed

subsection \<open>The rows\<close>

lemma page_row_fields [simp]:
  "pg_route_path (page_row env sid ic) = pcd_route_path (snd ic)"
  "pg_snapshot_id (page_row env sid ic) = Some (cv_snapshot_id env)"
  "pg_system_id (page_row env sid ic) = sid"
  by (simp_all add: page_row_def Let_def)

lemma menu_row_fields [simp]:
  "mn_id (menu_row env sid pm parent i c) = cv_menu_id env i"
  "mn_parent_id (menu_row env sid pm parent i c) = parent"
  "mn_snapshot_id (menu_row env sid pm parent i c) = cv_snapshot_id env"
  "mn_system_id (menu_row env sid pm parent i c) = sid"
  "mn_label (menu_row env sid pm parent i c) = mcd_label c"
  "mn_page_id (menu_row env sid pm parent i c) =
     map_option pg_id (map_of pm (py_or (or_text (mcd_page_route_path c) (mcd_route_path c)) []))"
  by (simp_all add: menu_row_def)

text \<open>The menu rows after the first \<open>i\<close>: each has no parent or an earlier row for it.\<close>

definition menus_chained :: "crawl_env \<Rightarrow> nat \<Rightarrow> menu_node list \<Rightarrow> bool" where
  "menus_chained env i ms \<longleftrightarrow>
     (\<forall>n < length ms. mn_id (ms ! n) = cv_menu_id env (i + n) \<and>
        (\<forall>p. mn_parent_id (ms ! n) = Some p \<longrightarrow> (\<exists>k < i + n. p = cv_menu_id env k)))"

lemma menus_chained_Cons:
  assumes "mn_id m = cv_menu_id env i" "\<forall>p. mn_parent_id m = Some p \<longrightarrow> (\<exists>k < i. p = cv_menu_id env k)"
    "menus_chained env (Suc i) ms"
  shows "menus_chained env i (m # ms)"
  unfolding menus_chained_def
proof (intro allI impI)
  fix n assume n: "n < length (m # ms)"
  show "mn_id ((m # ms) ! n) = cv_menu_id env (i + n) \<and>
        (\<forall>p. mn_parent_id ((m # ms) ! n) = Some p \<longrightarrow> (\<exists>k < i + n. p = cv_menu_id env k))"
    using assms n unfolding menus_chained_def by (cases n) auto
qed

lemma ran_updates:
  fixes f g :: "string \<rightharpoonup> menu_node"
  assumes "\<forall>m. m \<in> ran f \<union> ran g \<longrightarrow> P m" "P v"
  shows "\<forall>m. m \<in> ran (case key of None \<Rightarrow> f | Some k \<Rightarrow> f(k \<mapsto> v)) \<union> ran (g(l \<mapsto> v)) \<longrightarrow> P m"
proof -
  have "ran (h(k \<mapsto> v)) \<subseteq> insert v (ran h)" for h :: "string \<rightharpoonup> menu_node" and k
    unfolding ran_def by auto
  then have sub: "m \<in> ran (h(k \<mapsto> v)) \<Longrightarrow> m = v \<or> m \<in> ran h" for h :: "string \<rightharpoonup> menu_node" and k m
    by blast
  show ?thesis using assms by (cases key) (auto dest: sub)
qed

lemma persist_menus_rows:
  assumes "persist_menus env sid pm i cs idm labels s = (Inr (), s')"
    "\<forall>m. m \<in> ran idm \<union> ran labels \<longrightarrow> (\<exists>k < i. mn_id m = cv_menu_id env k)"
  shows "\<exists>ms. s' = modify (\<lambda>d. d\<lparr>menu_nodes := menu_nodes d @ ms\<rparr>) s \<and> length ms = length cs \<and>
    menus_chained env i ms \<and>
    list_all2 (\<lambda>m c. \<exists>n parent. m = menu_row env sid pm parent n c) ms cs"
  using assms
proof (induction cs arbitrary: i idm labels s)
  case Nil
  then show ?case
    by (intro exI [of _ "[]"]) (auto simp: modify_def menus_chained_def)
next
  case (Cons c cs)
  obtain pk key where pk: "serialize_navigation_identity (mcd_parent_navigation_identity c) = Inr pk"
    and key: "serialize_navigation_identity (mcd_navigation_identity c) = Inr key"
    using Cons.prems(1) by (auto simp: Let_def split: sum.splits)
  let ?parent = "find_parent pk idm labels (mcd_parent_label c)"
  let ?m = "menu_row env sid pm (map_option mn_id ?parent) i c"
  let ?idm = "case key of None \<Rightarrow> idm | Some k \<Rightarrow> idm(k \<mapsto> ?m)" and ?labels = "labels(mcd_label c \<mapsto> ?m)"
  let ?s = "modify (\<lambda>d. d\<lparr>menu_nodes := menu_nodes d @ [?m]\<rparr>) s"
  have rest: "persist_menus env sid pm (Suc i) cs ?idm ?labels ?s = (Inr (), s')"
    using Cons.prems(1) by (simp add: pk key Let_def)
  have "\<forall>m. m \<in> ran ?idm \<union> ran ?labels \<longrightarrow> (\<exists>k < Suc i. mn_id m = cv_menu_id env k)"
  proof (rule ran_updates)
    show "\<forall>m. m \<in> ran idm \<union> ran labels \<longrightarrow> (\<exists>k < Suc i. mn_id m = cv_menu_id env k)"
      using Cons.prems(2) less_SucI by blast
    show "\<exists>k < Suc i. mn_id ?m = cv_menu_id env k" by (rule exI [of _ i]) simp
  qed
  from Cons.IH [OF rest this] obtain ms where ms: "s' = modify (\<lambda>d. d\<lparr>menu_nodes := menu_nodes d @ ms\<rparr>) ?s"
    "length ms = length cs" "menus_chained env (Suc i) ms"
    "list_all2 (\<lambda>m c. \<exists>n parent. m = menu_row env sid pm parent n c) ms cs" by blast
  have "?parent = Some q \<Longrightarrow> q \<in> ran idm \<union> ran labels" for q
    unfolding find_parent_def by (auto simp: ran_def split: option.splits bind_splits)
  then have "\<forall>p. mn_parent_id ?m = Some p \<longrightarrow> (\<exists>k < i. p = cv_menu_id env k)"
    using Cons.prems(2) by (cases ?parent) auto
  then have "menus_chained env i (?m # ms)" using menus_chained_Cons ms(3) by simp
  moreover have "s' = modify (\<lambda>d. d\<lparr>menu_nodes := menu_nodes d @ ?m # ms\<rparr>) s"
    unfolding ms(1) by (simp add: modify_def)
  ultimately show ?case using ms(2,4) by (intro exI [of _ "?m # ms"]) auto
qed

lemma fold_update_new:
  "distinct (map fst (d @ kvs)) \<Longrightarrow> fold (\<lambda>(k, v). AList.update k v) kvs d = d @ kvs"
proof (induction kvs arbitrary: d)
  case (Cons kv kvs)
  have "AList.update (fst kv) (snd kv) d = d @ [kv]" if "fst kv \<notin> fst ` set d"
    using that by (induction d) auto
  moreover have "fst kv \<notin> fst ` set d" using Cons.prems by auto
  ultimately show ?case using Cons.IH [of "d @ [kv]"] Cons.prems by (simp add: case_prod_beta)
qed simp

lemma dict_of_new: "distinct (map fst kvs) \<Longrightarrow> dict_of kvs = kvs"
  using fold_update_new [of "[]" kvs] by (simp add: dict_of_def)

lemma map_filter_total: "(\<And>x. x \<in> set xs \<Longrightarrow> f x = Some (g x)) \<Longrightarrow> List.map_filter f xs = map g xs"
  by (induction xs) (simp_all add: List.map_filter_simps)

text \<open>The pages written for distinct routes are found again under their routes.\<close>

lemma persist_pages_map:
  assumes "distinct (map pcd_route_path ps)"
  shows "\<exists>rows pm. persist_pages env sid ps s = (pm, modify (\<lambda>d. d\<lparr>pages := pages d @ rows\<rparr>) s) \<and>
    map pg_route_path rows = map pcd_route_path ps \<and> length pm = length ps \<and>
    (\<forall>p \<in> set rows. pg_system_id p = sid \<and> pg_snapshot_id p = Some (cv_snapshot_id env)) \<and>
    (\<forall>k. map_of pm k = None \<longleftrightarrow> k \<notin> pcd_route_path ` set ps) \<and>
    (\<forall>k p. map_of pm k = Some p \<longrightarrow> p \<in> set rows)"
proof -
  let ?rows = "map (page_row env sid) (enumerate 0 ps)"
  let ?kvs = "map (\<lambda>p. (pg_route_path p, p)) ?rows"
  have routes: "map pg_route_path ?rows = map pcd_route_path ps"
    by (simp add: comp_def flip: map_map [of pcd_route_path snd, unfolded comp_def])
  have "map fst (map (\<lambda>p. (pg_route_path p, p)) rs) = map pg_route_path rs" for rs :: "page list"
    by simp
  then have keys: "map fst ?kvs = map pcd_route_path ps" using routes by (simp only:)
  have pm: "dict_of ?kvs = ?kvs" by (rule dict_of_new) (simp only: keys assms)
  have "map_of ?kvs k = None \<longleftrightarrow> k \<notin> pcd_route_path ` set ps" for k
    using arg_cong [OF keys, of set] by (simp only: map_of_eq_None_iff set_map)
  moreover have "map_of ?kvs k = Some p \<Longrightarrow> p \<in> set ?rows" for k p
    by (drule map_of_SomeD) auto
  ultimately show ?thesis
    using routes pm by (intro exI [of _ ?rows] exI [of _ ?kvs]) (simp add: persist_pages_def Let_def)
qed

definition sound_draft :: "uuid \<Rightarrow> crawl_snapshot \<Rightarrow> page list \<Rightarrow> menu_node list \<Rightarrow> page_element list \<Rightarrow> bool" where
  "sound_draft sid c ps ms es \<longleftrightarrow>
     cs_system_id c = sid \<and> cs_state c = ''draft'' \<and> cs_finished_at c \<noteq> None \<and>
     distinct (map pg_route_path ps) \<and>
     (\<forall>p \<in> set ps. pg_system_id p = sid \<and> pg_snapshot_id p = Some (cs_id c)) \<and>
     (\<forall>m \<in> set ms. mn_system_id m = sid \<and> mn_snapshot_id m = cs_id c \<and>
        set_option (mn_page_id m) \<subseteq> pg_id ` set ps \<and> (truthy_text (mn_route_path m) \<longrightarrow> mn_page_id m \<noteq> None)) \<and>
     (\<forall>n < length ms. set_option (mn_parent_id (ms ! n)) \<subseteq> mn_id ` set (take n ms)) \<and>
     (\<forall>e \<in> set es. pe_system_id e = sid \<and> pe_snapshot_id e = cs_id c \<and> pe_page_id e \<in> pg_id ` set ps)"

lemma chained_parents:
  assumes "menus_chained env 0 ms" "n < length ms"
  shows "set_option (mn_parent_id (ms ! n)) \<subseteq> mn_id ` set (take n ms)"
proof
  fix p assume "p \<in> set_option (mn_parent_id (ms ! n))"
  then obtain k where k: "k < n" "p = cv_menu_id env k"
    using assms unfolding menus_chained_def by (auto simp: elem_set)
  then have "p = mn_id (take n ms ! k)" "k < length (take n ms)"
    using assms unfolding menus_chained_def by auto
  then show "p \<in> mn_id ` set (take n ms)" by (metis image_eqI nth_mem)
qed

lemma menu_row_page:
  assumes "set_option (menu_route c) \<subseteq> R" "\<forall>k. map_of pm k = None \<longleftrightarrow> k \<notin> R"
  shows "truthy_text (mcd_route_path c) \<Longrightarrow> mn_page_id (menu_row env sid pm parent n c) \<noteq> None"
  using assms unfolding menu_row_fields
  by (auto simp: menu_route_def or_text_def truthy_text_def opt_text_def split: if_splits)

lemma menu_row_route [simp]: "mn_route_path (menu_row env sid pm parent i c) = mcd_route_path c"
  by (simp add: menu_row_def)

lemma persist_sound:
  assumes "persist_crawl_result env sid scope framework x message auto_commit s = (Inr r, s')" "covered x"
    "cv_snapshot_id env \<notin> cs_id ` set (crawl_snapshots (working s))"
  shows "\<exists>c ps ms es. working s' = (working s)\<lparr>crawl_snapshots := crawl_snapshots (working s) @ [c],
      pages := pages (working s) @ ps, menu_nodes := menu_nodes (working s) @ ms,
      page_elements := page_elements (working s) @ es\<rparr> \<and>
    cs_id c = cv_snapshot_id env \<and> sound_draft sid c ps ms es \<and>
    cr_snapshot_id r = Some (cs_id c) \<and> cr_status r = ''success'' \<and> cr_pages_saved r = int (length ps) \<and>
    cr_menus_saved r = int (length ms) \<and> cr_elements_saved r = int (length es) \<and>
    map pg_route_path ps = map pcd_route_path (cx_pages x) \<and> map mn_label ms = map mcd_label (cx_menus x) \<and>
    length es = length (cx_elements x) \<and> committed s' = (if auto_commit then working s' else committed s)"
proof -
  let ?snapshot = "build_snapshot env sid scope framework x"
  let ?s1 = "modify (\<lambda>d. d\<lparr>crawl_snapshots := crawl_snapshots d @ [?snapshot]\<rparr>) s"
  let ?finish = "\<lambda>c. c\<lparr>cs_finished_at := Some (cv_clock env (Suc (length (cx_pages x))))\<rparr>"
  have x: "distinct (map pcd_route_path (cx_pages x))"
    "\<forall>e \<in> set (cx_elements x). ecd_page_route_path e \<in> pcd_route_path ` set (cx_pages x)"
    "\<forall>m \<in> set (cx_menus x). set_option (menu_route m) \<subseteq> pcd_route_path ` set (cx_pages x)"
    using assms(2) unfolding covered_def by blast+
  obtain ps pm where pages: "persist_pages env sid (cx_pages x) ?s1 = (pm, modify (\<lambda>d. d\<lparr>pages := pages d @ ps\<rparr>) ?s1)"
    "map pg_route_path ps = map pcd_route_path (cx_pages x)" "length pm = length (cx_pages x)"
    "\<forall>p \<in> set ps. pg_system_id p = sid \<and> pg_snapshot_id p = Some (cv_snapshot_id env)"
    "\<forall>k. map_of pm k = None \<longleftrightarrow> k \<notin> pcd_route_path ` set (cx_pages x)" "\<forall>k p. map_of pm k = Some p \<longrightarrow> p \<in> set ps"
    using persist_pages_map [OF x(1), of env sid ?s1] by blast
  let ?s2 = "modify (\<lambda>d. d\<lparr>pages := pages d @ ps\<rparr>) ?s1"
  obtain s3 where menus: "persist_menus env sid pm 0 (cx_menus x) Map.empty Map.empty ?s2 = (Inr (), s3)"
    using assms(1) pages(1) by (auto simp: persist_crawl_result_def Let_def split: prod.splits sum.splits)
  obtain ms where ms: "s3 = modify (\<lambda>d. d\<lparr>menu_nodes := menu_nodes d @ ms\<rparr>) ?s2" "length ms = length (cx_menus x)"
    "menus_chained env 0 ms" "list_all2 (\<lambda>m c. \<exists>n parent. m = menu_row env sid pm parent n c) ms (cx_menus x)"
    using persist_menus_rows [OF menus] by auto
  let ?es = "map (\<lambda>(i, c). element_row env sid (the (map_of pm (ecd_page_route_path c))) i c) (enumerate 0 (cx_elements x))"
  have found: "\<exists>p. map_of pm (ecd_page_route_path c) = Some p \<and> p \<in> set ps" if "c \<in> set (cx_elements x)" for c
    using x(2) pages(5,6) that by (metis option.exhaust)
  have "List.map_filter (\<lambda>(i, c). map_option (\<lambda>p. element_row env sid p i c) (map_of pm (ecd_page_route_path c)))
      (enumerate 0 (cx_elements x)) = ?es"
    by (rule map_filter_total) (use found in \<open>force simp: enumerate_eq_zip dest: set_zip_rightD\<close>)
  then have elements: "persist_elements env sid pm (cx_elements x) s3 =
      modify (\<lambda>d. d\<lparr>page_elements := page_elements d @ ?es\<rparr>) s3"
    by (simp add: persist_elements_def)
  let ?c = "?finish ?snapshot"
  have finish: "upd_row cs_id (cv_snapshot_id env) ?finish (crawl_snapshots (working s) @ [?snapshot]) =
      crawl_snapshots (working s) @ [?c]"
    using assms(3) by (auto simp: upd_row_def build_snapshot_def intro!: map_idI) (metis image_eqI)
  let ?s4 = "modify (\<lambda>d. d\<lparr>page_elements := page_elements d @ ?es\<rparr>) s3"
  let ?s5 = "modify (\<lambda>d. d\<lparr>crawl_snapshots := upd_row cs_id (cv_snapshot_id env) ?finish (crawl_snapshots d)\<rparr>) ?s4"
  have result: "s' = (if auto_commit then commit ?s5 else ?s5)"
    "cr_snapshot_id r = Some (cv_snapshot_id env)" "cr_status r = ''success''" "cr_pages_saved r = int (length pm)"
    "cr_menus_saved r = int (length (cx_menus x))" "cr_elements_saved r = int (length (cx_elements x))"
    using assms(1) unfolding persist_crawl_result_def Let_def pages(1) prod.case menus sum.case elements by auto
  have rows: "working s' = (working s)\<lparr>crawl_snapshots := crawl_snapshots (working s) @ [?c],
      pages := pages (working s) @ ps, menu_nodes := menu_nodes (working s) @ ms,
      page_elements := page_elements (working s) @ ?es\<rparr>"
    "committed s' = (if auto_commit then working s' else committed s)"
    using finish unfolding result(1) ms(1) by simp_all
  have "sound_draft sid ?c ps ms ?es"
    unfolding sound_draft_def
  proof (intro conjI)
    show "\<forall>n < length ms. set_option (mn_parent_id (ms ! n)) \<subseteq> mn_id ` set (take n ms)"
      using chained_parents [OF ms(3)] by blast
    show "\<forall>e \<in> set ?es. pe_system_id e = sid \<and> pe_snapshot_id e = cs_id ?c \<and> pe_page_id e \<in> pg_id ` set ps"
      using found by (force simp: element_row_def build_snapshot_def enumerate_eq_zip dest: set_zip_rightD)
    show "\<forall>m \<in> set ms. mn_system_id m = sid \<and> mn_snapshot_id m = cs_id ?c \<and>
        set_option (mn_page_id m) \<subseteq> pg_id ` set ps \<and> (truthy_text (mn_route_path m) \<longrightarrow> mn_page_id m \<noteq> None)"
    proof
      fix m assume "m \<in> set ms"
      then obtain n parent c where m: "m = menu_row env sid pm parent n c" "c \<in> set (cx_menus x)"
        using ms(4) unfolding list_all2_conv_all_nth in_set_conv_nth by metis
      have "set_option (mn_page_id m) \<subseteq> pg_id ` set ps"
        using pages(6) unfolding m(1) menu_row_fields by (auto simp: elem_set)
      moreover have "truthy_text (mn_route_path m) \<longrightarrow> mn_page_id m \<noteq> None"
        using menu_row_page [OF x(3) [rule_format, OF m(2)] pages(5)] m(1) by simp
      ultimately show "mn_system_id m = sid \<and> mn_snapshot_id m = cs_id ?c \<and>
          set_option (mn_page_id m) \<subseteq> pg_id ` set ps \<and> (truthy_text (mn_route_path m) \<longrightarrow> mn_page_id m \<noteq> None)"
        by (simp add: m(1) build_snapshot_def)
    qed
  qed (use pages(2,4) x(1) in \<open>simp_all add: build_snapshot_def\<close>)
  moreover have "length pm = length ps" using pages(2,3) by (metis length_map)
  moreover have "map mn_label ms = map mcd_label (cx_menus x)"
    using ms(4) by (induction rule: list_all2_induct) auto
  ultimately show ?thesis
    using rows result(2-) ms(2) pages(2) by (intro exI [of _ ?c] exI [of _ ps] exI [of _ ms] exI [of _ ?es]) (simp add: build_snapshot_def)
qed

subsection \<open>A crawl\<close>

text \<open>The contract of the login refresh: it writes neither queued jobs nor crawl facts.\<close>

definition keeps_facts :: "(db_session \<Rightarrow> 'a \<times> db_session) \<Rightarrow> bool" where
  "keeps_facts f \<longleftrightarrow>
     (\<forall>s. crawl_snapshots (working (snd (f s))) = crawl_snapshots (working s) \<and>
          pages (working (snd (f s))) = pages (working s) \<and>
          menu_nodes (working (snd (f s))) = menu_nodes (working s) \<and>
          page_elements (working (snd (f s))) = page_elements (working s))"

definition refresh_keeps :: "((db_session \<Rightarrow> (py_exc + auth_result) \<times> db_session) \<Rightarrow> bool) \<Rightarrow> auth_refresher option \<Rightarrow> bool" where
  "refresh_keeps P auth_service \<longleftrightarrow> (\<forall>refresh u. auth_service = Some refresh \<longrightarrow> P (refresh u))"

lemma crawl_again_session:
  assumes "crawl_again extract auth_service system credential scope x s = (r, s1)"
  shows "s1 = s \<or> (\<exists>refresh. auth_service = Some refresh \<and> s1 = snd (refresh (sys_id system) s))"
  using assms by (auto simp: crawl_again_def split: option.splits prod.splits sum.splits if_splits)

text \<open>How far a crawl got: it gave up before it wrote, it raised before it wrote, or it wrote a covered extraction.\<close>

lemma run_crawl_cases:
  assumes "run_crawl extract auth_service env sid scope auto_commit s = (r, s')"
  obtains (refused) c where "r = Inr c" "s' = s" "cr_status c \<noteq> ''success''" "cr_snapshot_id c = None"
  | (raised) e where "r = Inl e" "s' = s \<or> (\<exists>refresh u. auth_service = Some refresh \<and> s' = snd (refresh u s))"
  | (written) framework x discovery dom_result probe message s1 where
      "persist_crawl_result env sid scope framework x message auto_commit s1 = (r, s')"
      "merged_from extract sid scope x discovery dom_result probe"
      "s1 = s \<or> (\<exists>refresh u. auth_service = Some refresh \<and> s1 = snd (refresh u s))"
proof (cases "find_row sys_id sid (systems (working s))")
  case None
  then show thesis using assms refused by (auto simp: run_crawl_def no_crawl_result_def)
next
  case (Some system)
  show thesis
  proof (cases "stored_auth_state sid (working s)")
    case None
    then show thesis using assms Some refused by (auto simp: run_crawl_def no_crawl_result_def)
  next
    case auth: (Some auth)
    let ?credential = "load_system_credential sid (working s)"
    show thesis
    proof (cases "extract_crawl_once extract system ?credential auth scope 0")
      case (Inl e)
      then show thesis using assms Some auth raised by (auto simp: run_crawl_def)
    next
      case (Inr combined)
      let ?second = "if looks_like_stale_auth_state combined
        then crawl_again extract auth_service system ?credential scope combined s else (Inr (combined, None), s)"
      obtain q s1 where q: "?second = (q, s1)" by fastforce
      have s1: "s1 = s \<or> (\<exists>refresh u. auth_service = Some refresh \<and> s1 = snd (refresh u s))"
        using q by (cases "looks_like_stale_auth_state combined") (auto dest: crawl_again_session)
      show thesis
      proof (cases q)
        case (Inl e)
        then show thesis
          using assms Some auth \<open>extract_crawl_once _ _ _ _ _ _ = _\<close> q s1 raised [of e] by (simp add: run_crawl_def)
      next
        case second: (Inr xm)
        obtain x message where xm: "xm = (x, message)" by fastforce
        have "sys_id system = sid" using find_row_Some_key [OF Some]  .
        moreover have "merged_visit extract (sys_id system) scope x"
          using q second xm extract_merged [OF Inr] crawl_again_merged by (auto split: if_splits)
        moreover have "persist_crawl_result env sid scope (sys_framework_type system) x message auto_commit s1 = (r, s')"
          using assms Some auth Inr q second xm by (simp add: run_crawl_def)
        ultimately show thesis using written [OF _ _ s1] unfolding merged_visit_def by blast
      qed
    qed
  qed
qed

lemma crawl_success:
  assumes "run_crawl extract auth_service env sid scope auto_commit s = (Inr r, s')" "cr_status r = ''success''"
    "refresh_keeps keeps_facts auth_service" "cv_snapshot_id env \<notin> cs_id ` set (crawl_snapshots (working s))"
  obtains c ps ms es discovery dom_result probe where
    "crawl_snapshots (working s') = crawl_snapshots (working s) @ [c]"
    "pages (working s') = pages (working s) @ ps" "menu_nodes (working s') = menu_nodes (working s) @ ms"
    "page_elements (working s') = page_elements (working s) @ es"
    "cr_snapshot_id r = Some (cs_id c)" "cs_id c = cv_snapshot_id env" "sound_draft sid c ps ms es"
    "cr_pages_saved r = int (length ps)" "cr_menus_saved r = int (length ms)" "cr_elements_saved r = int (length es)"
    "auto_commit \<longrightarrow> committed s' = working s'" "visited extract sid scope discovery dom_result probe"
    "saves_found discovery dom_result probe ps ms es"
  using assms(1)
proof (cases rule: run_crawl_cases)
  case (written framework x discovery dom_result probe message s1)
  have facts: "crawl_snapshots (working s1) = crawl_snapshots (working s)" "pages (working s1) = pages (working s)"
    "menu_nodes (working s1) = menu_nodes (working s)" "page_elements (working s1) = page_elements (working s)"
    using written(3) assms(3) unfolding refresh_keeps_def keeps_facts_def by auto
  have "cv_snapshot_id env \<notin> cs_id ` set (crawl_snapshots (working s1))" using assms(4) facts(1) by simp
  from persist_sound [OF written(1) merged_covered [OF written(2)] this] obtain c ps ms es where rows:
    "working s' = (working s1)\<lparr>crawl_snapshots := crawl_snapshots (working s1) @ [c],
      pages := pages (working s1) @ ps, menu_nodes := menu_nodes (working s1) @ ms,
      page_elements := page_elements (working s1) @ es\<rparr>"
    "cs_id c = cv_snapshot_id env" "sound_draft sid c ps ms es" "cr_snapshot_id r = Some (cs_id c)"
    "cr_status r = ''success''" "cr_pages_saved r = int (length ps)" "cr_menus_saved r = int (length ms)"
    "cr_elements_saved r = int (length es)" "committed s' = (if auto_commit then working s' else committed s1)"
    "map pg_route_path ps = map pcd_route_path (cx_pages x)" "map mn_label ms = map mcd_label (cx_menus x)"
    "length es = length (cx_elements x)"
    by blast
  show thesis
    by (rule that [of c ps ms es discovery dom_result probe])
      (use rows(2-9) merged_visited [OF written(2)] merged_saves [OF written(2) rows(10-12)]
       in \<open>simp_all add: rows(1) facts\<close>)
qed (use assms(2) in simp_all)

text \<open>A system with one page, to which a menu leads.\<close>

definition sample_page_candidate :: page_candidate where
  "sample_page_candidate = new_page_candidate ''/orders'' (Some ''Orders'')"

definition sample_menu_candidate :: menu_candidate where
  "sample_menu_candidate =
     \<lparr>mcd_label = ''Orders'', mcd_route_path = Some ''/orders'', mcd_depth = 0, mcd_sort_order = 0,
      mcd_playwright_locator = None, mcd_parent_label = None, mcd_page_route_path = None,
      mcd_discovery_sources = [], mcd_entry_candidates = [], mcd_context_constraints = None,
      mcd_navigation_identity = None, mcd_parent_navigation_identity = None\<rparr>"

definition empty_extraction :: crawl_extraction where
  "empty_extraction =
     \<lparr>cx_framework_detected = None, cx_quality_score = Some 1, cx_pages = [], cx_menus = [], cx_elements = [],
      cx_failure_reason = None, cx_warning_messages = [], cx_degraded = False\<rparr>"

definition sample_extractor :: extractor where
  "sample_extractor system credential auth scope n =
     Inr (empty_extraction\<lparr>cx_pages := [sample_page_candidate]\<rparr>,
          empty_extraction\<lparr>cx_menus := [sample_menu_candidate]\<rparr>, empty_extraction)"

definition sample_crawl_env :: crawl_env where
  "sample_crawl_env =
     \<lparr>cv_snapshot_id = 40, cv_page_id = (\<lambda>n. 100 + of_nat n), cv_menu_id = (\<lambda>n. 200 + of_nat n),
      cv_element_id = (\<lambda>n. 300 + of_nat n), cv_clock = (\<lambda>_. datetime_min_utc)\<rparr>"

definition crawlable_db :: db where
  "crawlable_db = empty_db\<lparr>
     queued_jobs := [new_queued_job 9 datetime_min_utc CRAWL_JOB_TYPE [(''system_id'', PStr (uuid_str 3))]],
     systems := [\<lparr>sys_id = 3, sys_code = ''erp'', sys_name = ''ERP'', sys_base_url = ''https://erp'',
       sys_framework_type = ''react''\<rparr>],
     auth_states := [\<lparr>au_id = 4, au_system_id = 3, au_status = ''valid'',
       au_storage_state = Some [(''cookies'', PList [])],
       au_cookies = None, au_local_storage = None, au_session_storage = None,
       au_token_fingerprint = None, au_auth_mode = ''password'', au_is_valid = True,
       au_validated_at = None, au_expires_at = None\<rparr>]\<rparr>"

lemma sample_crawl_runs:
  assumes "systems (working s) = systems crawlable_db" "auth_states (working s) = auth_states crawlable_db"
  shows "\<exists>r s'. run_crawl sample_extractor None sample_crawl_env 3 scope auto_commit s = (Inr r, s') \<and>
    cr_status r = ''success''"
proof -
  let ?sys = "\<lparr>sys_id = 3, sys_code = ''erp'', sys_name = ''ERP'', sys_base_url = ''https://erp'',
       sys_framework_type = ''react''\<rparr>"
  have sys: "find_row sys_id 3 (systems (working s)) = Some ?sys"
    unfolding assms(1) by (simp add: crawlable_db_def find_row_Cons)
  obtain auth where auth: "stored_auth_state 3 (working s) = Some auth"
    by (simp add: stored_auth_state_def load_valid_auth_state_def assms(2) crawlable_db_def first_by_def)
  obtain x where x: "extract_crawl_once sample_extractor ?sys (load_system_credential 3 (working s)) auth scope 0 = Inr x"
    "cx_warning_messages x = []" "\<forall>m \<in> set (cx_menus x). mcd_parent_navigation_identity m = None \<and> mcd_navigation_identity m = None"
    by (simp add: extract_crawl_once_def sample_extractor_def combine_results_def normalize_menu_def
        empty_extraction_def sample_menu_candidate_def Let_def)
  have menus: "\<exists>s2. persist_menus env sid pm n ms idm labels s1 = (Inr (), s2)"
    if "\<forall>m \<in> set ms. mcd_parent_navigation_identity m = None \<and> mcd_navigation_identity m = None" for env sid pm n ms idm labels s1
    using that by (induction ms arbitrary: n idm labels s1)
      (simp_all add: serialize_navigation_identity_def Let_def)
  have "\<not> looks_like_stale_auth_state x" by (simp add: looks_like_stale_auth_state_def x(2))
  then have "run_crawl sample_extractor None sample_crawl_env 3 scope auto_commit s =
      persist_crawl_result sample_crawl_env 3 scope (sys_framework_type ?sys) x None auto_commit s"
    by (simp add: run_crawl_def sys auth x(1))
  moreover obtain pm s1 where "persist_pages sample_crawl_env 3 (cx_pages x)
      (modify (\<lambda>d. d\<lparr>crawl_snapshots := crawl_snapshots d @ [build_snapshot sample_crawl_env 3 scope (sys_framework_type ?sys) x]\<rparr>) s) = (pm, s1)"
    by fastforce
  moreover obtain s2 where "persist_menus sample_crawl_env 3 pm 0 (cx_menus x) Map.empty Map.empty s1 = (Inr (), s2)"
    using menus [OF x(3)] by blast
  ultimately show ?thesis by (simp add: persist_crawl_result_def Let_def)
qed

subsection \<open>The crawl job with this service\<close>

lemma persist_pages_queue:
  "persist_pages env sid ps s = (pm, s') \<Longrightarrow>
    queued_jobs (working s') = queued_jobs (working s) \<and> committed s' = committed s"
  by (auto simp: persist_pages_def Let_def)

lemma persist_menus_queue:
  "persist_menus env sid pm i cs idm labels s = (r, s') \<Longrightarrow>
    queued_jobs (working s') = queued_jobs (working s) \<and> committed s' = committed s"
proof (induction cs arbitrary: i idm labels s)
  case (Cons c cs)
  then show ?case by (fastforce simp: Let_def split: sum.splits)
qed simp

lemma persist_queue:
  assumes "persist_crawl_result env sid scope framework x message False s = (r, s')"
  shows "queued_jobs (working s') = queued_jobs (working s) \<and> committed s' = committed s"
proof -
  let ?s1 = "modify (\<lambda>d. d\<lparr>crawl_snapshots := crawl_snapshots d @ [build_snapshot env sid scope framework x]\<rparr>) s"
  obtain pm s2 where pages: "persist_pages env sid (cx_pages x) ?s1 = (pm, s2)" by fastforce
  obtain q s3 where menus: "persist_menus env sid pm 0 (cx_menus x) Map.empty Map.empty s2 = (q, s3)" by fastforce
  show ?thesis
    using assms persist_pages_queue [OF pages] persist_menus_queue [OF menus]
    by (cases q) (auto simp: persist_crawl_result_def Let_def pages menus persist_elements_def)
qed

lemma crawl_service_keeps_queue:
  assumes "refresh_keeps keeps_queue auth_service"
  shows "keeps_queue (crawl_service extract auth_service env sid scope)"
  unfolding keeps_queue_def
proof (intro allI impI)
  fix s :: db_session assume clean: "clean s"
  obtain r s' where run: "run_crawl extract auth_service env sid scope False s = (r, s')" by fastforce
  have again: "queued_jobs (working s1) = queued_jobs (working s) \<and> queued_jobs (committed s1) = queued_jobs (working s)"
    if "s1 = s \<or> (\<exists>refresh u. auth_service = Some refresh \<and> s1 = snd (refresh u s))" for s1
    using that assms clean by (auto simp: refresh_keeps_def keeps_queue_def clean_def)
  have "queued_jobs (working s') = queued_jobs (working s) \<and> queued_jobs (committed s') = queued_jobs (working s)"
    using run
  proof (cases rule: run_crawl_cases)
    case (refused c)
    then show ?thesis using again by blast
  next
    case (raised e)
    then show ?thesis using again by blast
  next
    case (written framework x discovery dom_result probe message s1)
    then show ?thesis using again [OF written(3)] persist_queue by metis
  qed
  then show "queued_jobs (working (snd (crawl_service extract auth_service env sid scope s))) = queued_jobs (working s) \<and>
      queued_jobs (committed (snd (crawl_service extract auth_service env sid scope s))) = queued_jobs (working s)"
    by (simp add: crawl_service_def run)
qed

interpretation crawler: job_handler "crawl_job (crawl_service browse None env) clk stamp cid" CRAWL_JOB_TYPE cid
  for browse env clk stamp cid
  by (rule crawl_handler) (rule crawl_service_keeps_queue, simp add: refresh_keeps_def)

lemma map_sum_Inr_iff: "map_sum id f x = Inr y \<longleftrightarrow> (\<exists>z. x = Inr z \<and> y = f z)"
  by (cases x) auto

lemma crawl_job_called:
  assumes "crawl_job crawl clk stamp cid i s = (r, s')" "get_job i (working s) = Some job"
    and "get_job i (committed s') = Some job'" "qj_status job' = COMPLETED"
  shows "\<exists>sid scope result s3 n pid. parse_uuid (dget (qj_payload job) ''system_id'') = Some sid \<and>
    crawl sid scope (commit (modify (upd_job i (start_queued clk)) (modify (upd_job i apply_queue_audit_fields) s))) =
      (Inr result, s3) \<and> cw_status result = ''success'' \<and> cw_snapshot_id result = Some n \<and>
    s' = crawl_conclude clk stamp cid i pid sid n s3"
proof -
  have nofail: False if "s' = crawl_mark_failed clk i m pid s1" for m pid s1
    using assms(3,4) that
    by (auto simp: crawl_mark_failed_def get_job_def find_upd_row_same close_queued_def)
  show ?thesis
    using assms(1,2) nofail unfolding crawl_job_def Let_def
    by (fastforce simp: parse_uuid_def split: option.splits sum.splits prod.splits if_splits)
qed

lemma kept_draft:
  assumes "c \<in> set (crawl_snapshots d)"
  shows "c \<in> set (crawl_snapshots (discard_superseded_uncompiled_drafts stamp sid (cs_id c) d))"
proof -
  have kept: "r \<in> set (fold (\<lambda>k. upd_row cs_id k (f k)) ks rows)" if "r \<in> set rows" "cs_id r \<notin> set ks"
    for r :: crawl_snapshot and f ks rows
    using that by (induction ks arbitrary: rows) (auto simp: upd_row_def intro: rev_image_eqI)
  show ?thesis
    using assms by (auto simp: discard_superseded_uncompiled_drafts_def Let_def fold_snapshots intro!: kept)
qed

lemma crawl_conclude_facts:
  "s' = crawl_conclude clk stamp cid i pid sid n s3 \<Longrightarrow>
    pages (committed s') = pages (working s3) \<and> menu_nodes (committed s') = menu_nodes (working s3) \<and>
    page_elements (committed s') = page_elements (working s3)"
  by (simp add: crawl_conclude_def on_crawl_policy_def upd_job_def discard_superseded_uncompiled_drafts_def
      Let_def fold_snapshots split: option.splits)

text \<open>C?: a crawl job that completes has handed over what the extractors found on a visit of the system that
  the job names. The committed database has a new finished draft of it; the only new pages, menu nodes
  and elements are those of the draft. There is one page for each route, among them all that an extractor
  returned, one menu node for each menu of the DOM extractor, in its order, and one element for each
  distinct element with a state signature. No row refers to anything outside the draft: a menu node with
  a route leads to one of the pages, its parent is an earlier one of the menu nodes, an element lies on
  one of the pages. The draft was not discarded with the superseded ones, and its compilation is queued
  as an accepted job.\<close>

theorem crawl_job_delivers_draft:
  assumes "crawl_job (crawl_service extract auth_service env) clk stamp cid i s = (r, s')"
    and "get_job i (working s) = Some job" "i \<noteq> cid"
    and "get_job i (committed s') = Some job'" "qj_status job' = COMPLETED"
    and "refresh_keeps keeps_facts auth_service" "cv_snapshot_id env \<notin> cs_id ` set (crawl_snapshots (working s))"
  shows "\<exists>sid c ps ms es scope discovery dom_result probe.
    parse_uuid (dget (qj_payload job) ''system_id'') = Some sid \<and>
    c \<in> set (crawl_snapshots (committed s')) \<and> cs_id c = cv_snapshot_id env \<and> sound_draft sid c ps ms es \<and>
    pages (committed s') = pages (working s) @ ps \<and> menu_nodes (committed s') = menu_nodes (working s) @ ms \<and>
    page_elements (committed s') = page_elements (working s) @ es \<and>
    visited extract sid scope discovery dom_result probe \<and> saves_found discovery dom_result probe ps ms es \<and>
    (\<exists>j \<in> set (queued_jobs (committed s')). qj_id j = cid \<and> qj_status j = ACCEPTED \<and>
       qj_job_type j = ASSET_COMPILE_JOB_TYPE \<and> parse_uuid (dget (qj_payload j) ''snapshot_id'') = Some (cs_id c))"
proof -
  let ?s2 = "commit (modify (upd_job i (start_queued clk)) (modify (upd_job i apply_queue_audit_fields) s))"
  from crawl_job_called [OF assms(1,2,4,5)] obtain sid scope result s3 n pid where
    sid: "parse_uuid (dget (qj_payload job) ''system_id'') = Some sid"
    and call: "crawl_service extract auth_service env sid scope ?s2 = (Inr result, s3)"
    and ok: "cw_status result = ''success''" "cw_snapshot_id result = Some n"
    and s': "s' = crawl_conclude clk stamp cid i pid sid n s3" by blast
  obtain cr where run: "run_crawl extract auth_service env sid scope False ?s2 = (Inr cr, s3)"
    and cr: "cr_status cr = ''success''" "cr_snapshot_id cr = Some n"
    using call ok by (auto simp: crawl_service_def Let_def map_sum_Inr_iff split: prod.splits)
  have same: "crawl_snapshots (working ?s2) = crawl_snapshots (working s)" "pages (working ?s2) = pages (working s)"
    "menu_nodes (working ?s2) = menu_nodes (working s)" "page_elements (working ?s2) = page_elements (working s)"
    by (simp_all add: upd_job_def)
  have "cv_snapshot_id env \<notin> cs_id ` set (crawl_snapshots (working ?s2))" using assms(7) same(1) by simp
  from crawl_success [OF run cr(1) assms(6) this] obtain c ps ms es discovery dom_result probe where
    c: "crawl_snapshots (working s3) = crawl_snapshots (working ?s2) @ [c]" "pages (working s3) = pages (working ?s2) @ ps"
      "menu_nodes (working s3) = menu_nodes (working ?s2) @ ms" "page_elements (working s3) = page_elements (working ?s2) @ es"
      "cr_snapshot_id cr = Some (cs_id c)" "cs_id c = cv_snapshot_id env" "sound_draft sid c ps ms es"
    and found: "visited extract sid scope discovery dom_result probe" "saves_found discovery dom_result probe ps ms es" .
  have n: "n = cs_id c" using c(5) cr(2) by simp
  note drafts = crawl_conclude_drafts [OF s' assms(3)]
  have "c \<in> set (crawl_snapshots (committed s'))"
    unfolding drafts(3) n by (rule kept_draft) (simp add: c(1))
  moreover have "\<exists>j \<in> set (queued_jobs (committed s')). qj_id j = cid \<and> qj_status j = ACCEPTED \<and>
       qj_job_type j = ASSET_COMPILE_JOB_TYPE \<and> parse_uuid (dget (qj_payload j) ''snapshot_id'') = Some (cs_id c)"
    by (rule bexI [OF _ drafts(1)]) (simp add: new_compile_job_def new_queued_job_def dget_def n)
  moreover have "pages (committed s') = pages (working s) @ ps" "menu_nodes (committed s') = menu_nodes (working s) @ ms"
    "page_elements (committed s') = page_elements (working s) @ es"
    using c(2-4) same(2-4) crawl_conclude_facts [OF s'] by simp_all
  ultimately show ?thesis using sid c(6,7) found by blast
qed

lemma sample_crawl_job:
  defines "clk \<equiv> \<lambda>_::nat. datetime_min_utc" and "stamp \<equiv> \<lambda>_::uuid. datetime_min_utc"
  obtains r s' job' where
    "crawl_job (crawl_service sample_extractor None sample_crawl_env) clk stamp 10 9 (open_session crawlable_db) = (r, s')"
    "get_job 9 (committed s') = Some job'" "qj_status job' = COMPLETED"
proof -
  let ?job = "new_queued_job 9 datetime_min_utc CRAWL_JOB_TYPE [(''system_id'', PStr (uuid_str 3))]"
  let ?s = "open_session crawlable_db"
  let ?s2 = "commit (modify (upd_job 9 (start_queued clk)) (modify (upd_job 9 apply_queue_audit_fields) ?s))"
  have job: "get_job 9 (working ?s) = Some ?job"
    by (simp add: get_job_def find_row_Cons crawlable_db_def new_queued_job_def)
  have full: "strip ''full'' = ''full''" by (rule strip_graphic) (simp add: graphic_def)
  have env: "cv_snapshot_id sample_crawl_env \<notin> cs_id ` set (crawl_snapshots (working ?s2))"
    by (simp add: upd_job_def crawlable_db_def empty_db_def)
  obtain cr s3 where crawled: "run_crawl sample_extractor None sample_crawl_env 3 ''full'' False ?s2 = (Inr cr, s3)"
    "cr_status cr = ''success''"
    using sample_crawl_runs [of ?s2 "''full''" False] by (auto simp: upd_job_def)
  have "cr_snapshot_id cr = Some 40"
    using crawl_success [OF crawled _ env] by (force simp: refresh_keeps_def sample_crawl_env_def)
  with crawled have call: "crawl_service sample_extractor None sample_crawl_env 3 ''full'' ?s2 =
      (Inr \<lparr>cw_status = ''success'', cw_snapshot_id = Some 40, cw_message = cr_message cr\<rparr>, s3)"
    by (simp add: crawl_service_def)
  have "keeps_queue (crawl_service sample_extractor None sample_crawl_env 3 ''full'')"
    by (rule crawl_service_keeps_queue) (simp add: refresh_keeps_def)
  then have q3: "queued_jobs (working s3) = queued_jobs (working ?s2)"
    using call by (metis clean_commit keeps_queue_def snd_conv)
  obtain r s' where run: "crawl_job (crawl_service sample_extractor None sample_crawl_env) clk stamp 10 9 ?s = (r, s')"
    by fastforce
  obtain pid where s': "s' = crawl_conclude clk stamp 10 9 pid 3 40 s3"
    using run job call by (auto simp: crawl_job_def Let_def dget_def full new_queued_job_def crawlable_db_def)
  have ids: "qj_id (start_queued clk j) = qj_id j" "qj_id (apply_queue_audit_fields j) = qj_id j"
    "qj_id (complete_crawl clk 40 j) = qj_id j" "qj_id ?job = 9" for j
    using keeps_identity_simps(3,4) by (simp_all add: keeps_identity_def complete_crawl_def new_queued_job_def)
  have q: "queued_jobs (committed s') =
      upd_row qj_id 9 (complete_crawl clk 40) (queued_jobs (working s3) @ [new_compile_job 10 (clk 4) 40])"
    using s' by (simp add: crawl_conclude_queue crawl_conclude_def complete_crawl_def [abs_def])
  have "find_row qj_id 9 (queued_jobs (working s3)) = Some (start_queued clk (apply_queue_audit_fields ?job))"
    by (simp add: q3 upd_job_def crawlable_db_def find_upd_row_same ids find_row_Cons)
  then obtain job' where "get_job 9 (committed s') = Some job'" "qj_status job' = COMPLETED"
    by (simp add: get_job_def q find_upd_row_same ids find_row_append) (simp add: complete_crawl_def)
  then show thesis using run that by blast
qed

theorem crawl_job_delivers_draft_witness:
  "\<exists>r s' c j. crawl_job (crawl_service sample_extractor None sample_crawl_env) (\<lambda>_. datetime_min_utc) (\<lambda>_. datetime_min_utc)
       10 9 (open_session crawlable_db) = (r, s') \<and>
     c \<in> set (crawl_snapshots (committed s')) \<and> cs_id c = 40 \<and> cs_system_id c = 3 \<and> cs_state c = ''draft'' \<and>
     map mn_label (menu_nodes (committed s')) = [''Orders''] \<and> ''/orders'' \<in> pg_route_path ` set (pages (committed s')) \<and>
     j \<in> set (queued_jobs (committed s')) \<and> qj_status j = ACCEPTED"
proof -
  let ?job = "new_queued_job 9 datetime_min_utc CRAWL_JOB_TYPE [(''system_id'', PStr (uuid_str 3))]"
  obtain r s' job' where run: "crawl_job (crawl_service sample_extractor None sample_crawl_env) (\<lambda>_. datetime_min_utc)
      (\<lambda>_. datetime_min_utc) 10 9 (open_session crawlable_db) = (r, s')"
    and job': "get_job 9 (committed s') = Some job'" "qj_status job' = COMPLETED"
    by (rule sample_crawl_job)
  have job: "get_job 9 (working (open_session crawlable_db)) = Some ?job"
    by (simp add: get_job_def find_row_Cons crawlable_db_def new_queued_job_def)
  have sid: "parse_uuid (dget (qj_payload ?job) ''system_id'') = Some 3"
    by (simp add: new_queued_job_def dget_def parse_uuid_def)
  have new: "cv_snapshot_id sample_crawl_env \<notin> cs_id ` set (crawl_snapshots (working (open_session crawlable_db)))"
    by (simp add: crawlable_db_def empty_db_def)
  have keeps: "refresh_keeps keeps_facts None" by (simp add: refresh_keeps_def)
  obtain c ps ms es scope discovery dom_result probe j where
    c: "c \<in> set (crawl_snapshots (committed s'))" "cs_id c = cv_snapshot_id sample_crawl_env" "sound_draft 3 c ps ms es"
    and rows: "pages (committed s') = pages (working (open_session crawlable_db)) @ ps"
      "menu_nodes (committed s') = menu_nodes (working (open_session crawlable_db)) @ ms"
    and found: "visited sample_extractor 3 scope discovery dom_result probe" "saves_found discovery dom_result probe ps ms es"
    and j: "j \<in> set (queued_jobs (committed s'))" "qj_status j = ACCEPTED"
    using crawl_job_delivers_draft [OF run job _ job' keeps new] sid by auto
  have "discovery = empty_extraction\<lparr>cx_pages := [sample_page_candidate]\<rparr>"
    "dom_result = empty_extraction\<lparr>cx_menus := [sample_menu_candidate]\<rparr>"
    using found(1) by (auto simp: visited_def sample_extractor_def)
  then have "map mn_label ms = [''Orders'']" "''/orders'' \<in> pg_route_path ` set ps"
    using found(2) by (simp_all add: saves_found_def empty_extraction_def sample_menu_candidate_def
        sample_page_candidate_def new_page_candidate_def)
  then show ?thesis
    using run c rows j by (intro exI [of _ r] exI [of _ s'] exI [of _ c] exI [of _ j])
      (auto simp: sound_draft_def sample_crawl_env_def crawlable_db_def empty_db_def)
qed

end
