(* ===== verification/Spec2Isabelle.thy ===== *)
theory Spec2Isabelle
  imports Scheduling Worker Reconciliation SnapshotSwitch Fingerprints ModuleExecutor CompileDecisions TableChecks CheckResults Recommendation TeardownResidue NavigationTargets CrawlDelivery
begin

text \<open>
  \<^bold>\<open>Runlet backend: a verification development.\<close>

  Runlet crawls web systems, compiles what it finds into page assets and checks, runs those checks
  in a browser (on request, on a schedule, or from a published script) and keeps its assets in step
  with the crawled systems: an asset or check that a new crawl no longer supports is retired and the
  jobs and aliases that depend on it are paused. All code is under \<^verbatim>\<open>src/backend/src/app/\<close>; the paths
  below are relative to it.

  \<^bold>\<open>The program's parts and how they interact.\<close> Check requests, schedules, policies and other jobs put
  rows into the table of queued jobs (\<^verbatim>\<open>domains/control_plane/service.py\<close> and
  \<^verbatim>\<open>runtime/scheduler_runtime.py\<close>); the worker (\<^verbatim>\<open>workers/runner.py\<close>) claims the oldest one
  and gives it to the handler of its type (\<^verbatim>\<open>jobs/\<close>): a run of a check (runner service, which hands the
  check's module plan to the module executor), a login refresh (auth service), a crawl (crawler
  service), or the compilation of a crawled snapshot (asset compiler), whose retirement decisions the
  control plane cascades to aliases and published jobs. Every part shares one database through an
  SQLAlchemy session; the scheduler's registry mirrors the enabled published jobs and policies of it.

  \<^bold>\<open>How the program is modelled.\<close>
  \<^item> A table is the list of its rows in insertion order, a row a \<open>record\<close> with the columns of the model
    class (theory \<open>Schema\<close>); the record \<open>db\<close> holds the tables. A session is a pair of the committed
    database and the working copy (\<open>Prelude\<close>): \<open>commit\<close> and \<open>rollback\<close> are explicit, so a theorem can say
    what survives a failure. A flush is the write to the working copy.
  \<^item> Primary keys are 128-bit words, the fresh ones arguments of the operation that creates the row;
    clock readings are arguments as well (\<open>clk n\<close> is the n-th reading of a call).
  \<^item> JSON payloads are values of \<open>pyval\<close> (\<open>PyValue\<close>: None, bool, int, float, str, list, dict in insertion
    order) with Python's truth value, \<open>str\<close> and equality. Strings are the bytes of their UTF-8
    encoding; \<open>strip\<close> knows all Unicode white space, \<open>lower\<close> only ASCII. Floats are the rationals they
    denote, every operation followed by rounding to binary64 (\<open>PyFloat\<close>; no infinities: the exponent is not
    bounded). Datetimes carry an optional offset (\<open>PyTime\<close>, ISO format in \<open>PyIso\<close>). Dictionaries built
    by loops, iteration over payload values and loops that may raise are in \<open>PyData\<close>; \<open>json.dumps\<close> is in
    \<open>PyJson\<close>.
  \<^item> Exceptions are the left side of a sum, absence is \<open>option\<close>. Code outside the repository and the
    services a handler calls (the browser runtime, the crawler's extractors, APScheduler's parser, the script
    renderer, the asset compiler service) are arguments of the definitions that call them.

  \<^bold>\<open>Theories, code and what is proved.\<close>
  \<^item> \<open>Enums\<close>: \<^verbatim>\<open>shared/enums.py\<close>, failure categories and job types. \<open>Schema\<close>: \<^verbatim>\<open>infrastructure/db/models/\<close>.
  \<^item> \<open>Cron\<close>: the cron matcher of \<^verbatim>\<open>domains/runner_service/scheduler.py\<close>; it refines the set of instants an
    expression denotes, depends on the minute only, and never matches a list or a range.
  \<^item> \<open>Trigger\<close>: \<^verbatim>\<open>infrastructure/queue/dispatcher.py\<close> and \<^verbatim>\<open>jobs/published_job_trigger.py\<close>. The dispatcher's
    contract is the locale \<open>queue_dispatcher\<close>, interpreted on the SQL dispatcher.
  \<^item> \<open>PublishedJobs\<close>, \<open>Scheduling\<close>: the whole PublishedJobService. Pausing and resuming in bulk are
    specified exactly and inverse to one another; creation commits one row or nothing; a job is
    triggered at most once per minute whatever the ticks are; every operation keeps the invariant of
    the job tables.
  \<^item> \<open>Retry\<close>, \<open>RunCheckJob\<close>, \<open>RunCheckStates\<close>, \<open>RunCheckRetries\<close>: \<^verbatim>\<open>jobs/run_check_retry.py\<close> and
    \<^verbatim>\<open>jobs/run_check_job.py\<close>. The retry loop makes at most three attempts and reports them; a triggered
    job passes the handler's validation; a retired check is never executed.
  \<^item> \<open>RunnerService\<close>, \<open>RunnerRecords\<close>: \<^verbatim>\<open>domains/runner_service/service.py\<close>. Which records a run leaves, that an
    error commits nothing, the contract \<open>check_runner\<close> under which the handler always ends with a
    terminal job, and the run that a failure leaves in state running.
  \<^item> \<open>PolicyJobs\<close>, \<open>JobHandlers\<close>: \<^verbatim>\<open>jobs/auth_refresh_job.py\<close> and \<^verbatim>\<open>jobs/crawl_job.py\<close>, with the compile job a
    crawl queues and the drafts it supersedes.
  \<^item> \<open>CompileJob\<close>: \<^verbatim>\<open>jobs/asset_compile_job.py\<close> and the cascades of \<^verbatim>\<open>domains/control_plane/\<close> that a
    retirement triggers.
  \<^item> \<open>Worker\<close>: \<^verbatim>\<open>workers/runner.py\<close>: claiming, one round, the loop (a partial function: it returns exactly
    when it is stopped), the wiring of handlers and services. The contract of a handler is the locale
    \<open>job_handler\<close> (\<open>JobHandlers\<close>), proved for every handler; inside it the queue drains.
  \<^item> \<open>Reconciliation\<close>: \<^verbatim>\<open>domains/asset_compiler/reconciliation.py\<close>: which assets and checks a snapshot
    retires, and that nothing is retired without quality.
  \<^item> \<open>SemanticDiff\<close>, \<open>SnapshotSwitch\<close>: \<^verbatim>\<open>current_state_diff.py\<close> and \<^verbatim>\<open>current_state_switch.py\<close> of the asset
    compiler: fingerprints are canonical, two states differ exactly when their fingerprints do, at most
    one snapshot of a system is active, and replacing it archives its facts.

  \<^item> \<open>PyRegex\<close>, \<open>LocatorBundles\<close>: \<^verbatim>\<open>locator_bundles.py\<close>: the derivative matcher decides the language of a
    pattern; unstable selectors are dropped and a better strategy always outranks a worse one.
  \<^item> \<open>Sha256\<close>, \<open>FloatSums\<close>, \<open>Fingerprints\<close>: \<^verbatim>\<open>fingerprints.py\<close>: the drift of a page depends only on
    which components changed, not on the order in which a set is iterated or rows are read.
  \<^item> \<open>CheckTemplates\<close>, \<open>ModulePlans\<close>, \<open>DataAssertions\<close>, \<open>ModuleExecutor\<close>: \<^verbatim>\<open>check_templates.py\<close> and
    \<^verbatim>\<open>module_plan_builder.py\<close> of the asset compiler, the executor of a module plan and the assertions over
    table data in the runner service. A plan that was built is accepted by the executor, which runs
    its steps in order, stops at the first failing one and reports it.
  \<^item> \<open>CompileElements\<close>, \<open>NavigationAliases\<close>, \<open>CompileService\<close>, \<open>CompileSnapshot\<close>, \<open>CompilePages\<close>,
    \<open>CompileTotal\<close>, \<open>CompileDecisions\<close>: \<^verbatim>\<open>domains/asset_compiler/service.py\<close> with the checks and aliases it
    builds: what compiling one page writes, when a compilation raises in the model, that exactly the
    decisions of the reconciliation become retirements and pause or resume published jobs, and that
    compiling the same snapshot again adds no asset and no check. \<open>TableChecks\<close>: a page gets a table
    check for an element of type table, whose dependency only an element that also has the role
    table meets.
  \<^item> \<open>SchedulerRegistry\<close>, \<open>SchedulerRuntime\<close>: \<^verbatim>\<open>domains/control_plane/scheduler_registry.py\<close>,
    \<^verbatim>\<open>runtime/scheduler_runtime.py\<close> and the daemon that starts it. The two policy triggers share the locale
    \<open>policy_trigger\<close>, interpreted on the login and crawl callbacks: one job per policy and minute;
    after any sequence of changes and reloads the daemon is current, or stopped for a stop event or
    an unreadable schedule, or never started.
  \<^item> \<open>CheckRequests\<close>, \<open>CheckAcceptance\<close>: \<^verbatim>\<open>domains/control_plane/service.py\<close> and the repository queries it
    calls: requests, the resolution of a page and check for them, the jobs they queue and the aliases
    the feedback of a realtime probe writes. The queue that accepted jobs go to is the locale
    \<open>job_queue\<close>, interpreted on the SQL queue; an accepted job passes the handler's validation, and the
    handler of \<open>RunCheckJob\<close>, with this control plane as its feedback, always ends the job.
  \<^item> \<open>PolicyAdmin\<close>: \<^verbatim>\<open>domains/control_plane/runtime_policies.py\<close> and the policy part of the control plane: an upsert keeps the
    registry equal to the database. \<open>CheckResults\<close>: the result views, script rendering and publication:
    only a check whose last run passed is published. \<open>Recommendation\<close>: \<^verbatim>\<open>recommendation.py\<close>: the candidates
    come best first, their scores are bounded and monotone.
  \<^item> \<open>SystemTeardown\<close>, \<open>TeardownResidue\<close>: \<^verbatim>\<open>domains/control_plane/system_admin_repository.py\<close> and the
    teardown of \<^verbatim>\<open>system_admin_service.py\<close>, with the foreign keys of the schema enforced by the deletions:
    a teardown leaves nothing or changes nothing, spares the other systems, and is refused for a
    system with archived facts, whose schedules are gone by then.
  \<^item> \<open>CrawlRoutes\<close>: the normal forms of routes and the readiness samples of
    \<^verbatim>\<open>domains/crawler_service/\<close>. \<open>NavigationTargets\<close>: its \<^verbatim>\<open>navigation_targets.py\<close>: targets with their
    keys, merges and marks, and the registry of a state probe. A step relation over additions and
    marks shows that the budgets are never exceeded and that every record passes the validator.
  \<^item> \<open>CrawlMerge\<close>, \<open>CrawlPersistence\<close>, \<open>CrawlDelivery\<close>: the class \<open>CrawlerService\<close> of
    \<^verbatim>\<open>domains/crawler_service/service.py\<close>: the merge of what the extractors return, the login state of a
    crawl, and the rows it writes. With it as the service of \<open>crawl_job\<close>, a completed crawl job leaves a
    draft without loose ends that holds what was found, and queues its compilation.

  \<^bold>\<open>Bounds.\<close> No fuel is used: loops are structural, end by a measure, or are partial functions whose
  termination is a theorem.

  \<^bold>\<open>Limits of the model.\<close> Text columns hold texts of any length: an asset key or an alias longer than its
  VARCHAR column, on which a flush of the real database raises, is stored like any other. Converting
  an integer to a float never overflows, where Python raises for one beyond the binary64 range. Of the
  constraints of the database only those named in a theory are checked: the unique keys of published
  jobs, policies and active snapshots, and the foreign keys in a teardown. \<open>lower\<close> changes ASCII letters
  only, and other sessions write only between the rounds of the worker and where an operation takes the write
  of a rival as an argument.

  \<^bold>\<open>Not modelled.\<close> The extractors and browser sessions of the crawler, the browser runtime and login (they
  drive a browser through Playwright); the FastAPI endpoints, settings, logging and process start (glue); the
  onboarding of systems and the console's read-only views; cryptography and tokens; migrations;
  the command line client; the design scripts under \<^verbatim>\<open>.codex/\<close>. They are listed as components of the
  manifest.
\<close>

end
